(* ===== verification/Prelude.thy ===== *)
theory Prelude
  imports Main "HOL-Library.Signed_Division"
begin

section \<open>Shared vocabulary: machine integers, strings, JSON and HTTP responses\<close>

text \<open>
  What every component of the development uses: Go's \<open>int64\<close> with its wrap-around,
  \<open>time.Time\<close> and \<open>time.Duration\<close> as integers, the functions of package \<open>strings\<close>
  that the sources call (on byte strings), JSON values, and the responses that the
  handlers write. The helpers \<open>writeJSON\<close>, \<open>errorJSON\<close>, \<open>internal\<close>,
  \<open>invalid\<close> and \<open>notFound\<close> of \<open>internal/gizpay/handler.go\<close> (repeated word for word
  in \<open>internal/gizway/handler.go\<close>) are defined here.
\<close>

subsection \<open>64-bit integers, time\<close>

text \<open>
  An \<open>int64\<close> is an \<open>int\<close>; every operation of the source that can leave the range wraps
  with \<open>wrap64\<close>. A \<open>time.Time\<close> is the number of nanoseconds since Go's zero time, so
  that \<open>IsZero\<close> is \<open>t = 0\<close>; a \<open>time.Duration\<close> is an \<open>int64\<close> number of nanoseconds.
\<close>

type_synonym time = int
type_synonym duration = int

definition max_int64 :: int where
  "max_int64 = 9223372036854775807"

definition min_int64 :: int where
  "min_int64 = - 9223372036854775808"

definition int64_range :: "int \<Rightarrow> bool" where
  "int64_range x \<longleftrightarrow> min_int64 \<le> x \<and> x \<le> max_int64"

definition wrap64 :: "int \<Rightarrow> int" where
  "wrap64 x = (x + 9223372036854775808) mod 18446744073709551616 - 9223372036854775808"

definition second :: duration where
  "second = 1000000000"

text \<open>The Unix epoch in seconds since Go's zero time; \<open>t.Sub(u)\<close> saturates.\<close>

definition unixToInternal :: int where
  "unixToInternal = 62135596800"

definition timeSub :: "time \<Rightarrow> time \<Rightarrow> duration" where
  "timeSub t u = max min_int64 (min max_int64 (t - u))"

named_theorems int64_defs \<open>the constants of the 64-bit range\<close>

lemmas int64_bounds_defs [int64_defs] = max_int64_def min_int64_def int64_range_def

lemma wrap64_id [simp]: "int64_range x \<Longrightarrow> wrap64 x = x"
  by (simp add: wrap64_def int64_defs)

lemma wrap64_range [simp]: "int64_range (wrap64 x)"
proof -
  have "0 \<le> (x + 9223372036854775808) mod 18446744073709551616"
    and "(x + 9223372036854775808) mod 18446744073709551616 < 18446744073709551616"
    by simp_all
  then show ?thesis by (simp add: wrap64_def int64_defs)
qed

text \<open>For evaluation: the division is only needed outside the range.\<close>

definition wrap64_far :: "int \<Rightarrow> int" where
  "wrap64_far x = (x + 9223372036854775808) mod 18446744073709551616 - 9223372036854775808"

lemma wrap64_code [code]: "wrap64 x = (if int64_range x then x else wrap64_far x)"
  by (auto simp: wrap64_far_def wrap64_def int64_defs)

lemma int64_range_0 [simp]: "int64_range 0"
  by (simp add: int64_defs)

lemma int64_nonnegI: "0 \<le> x \<Longrightarrow> x \<le> y \<Longrightarrow> y \<le> max_int64 \<Longrightarrow> int64_range x"
  by (simp add: int64_defs)

text \<open>Go's integer division truncates towards zero; on nonnegative numbers it is \<open>div\<close>.\<close>

lemma sdiv_nonneg: "0 \<le> a \<Longrightarrow> 0 < b \<Longrightarrow> a sdiv b = a div (b::int)"
  by (cases "a = 0") (simp_all add: signed_divide_int_def sgn_1_pos)

lemma smod_nonneg: "0 \<le> a \<Longrightarrow> 0 < b \<Longrightarrow> a smod b = a mod (b::int)"
  by (cases "a = 0") (auto simp: signed_modulo_int_def order_le_less)

subsection \<open>Package \<open>strings\<close>\<close>

text \<open>
  A Go string is a byte string, so it is a \<open>char list\<close> here. \<open>TrimSpace\<close> removes the
  characters that \<open>unicode.IsSpace\<close> accepts; those beyond ASCII are the UTF-8 encodings
  listed in \<open>space_seqs\<close>.
\<close>

definition hasPrefix :: "string \<Rightarrow> string \<Rightarrow> bool" where
  "hasPrefix s p \<longleftrightarrow> take (length p) s = p"

definition hasSuffix :: "string \<Rightarrow> string \<Rightarrow> bool" where
  "hasSuffix s p \<longleftrightarrow> length p \<le> length s \<and> drop (length s - length p) s = p"

definition cutPrefix :: "string \<Rightarrow> string \<Rightarrow> string option" where
  "cutPrefix s p = (if hasPrefix s p then Some (drop (length p) s) else None)"

definition cutSuffix :: "string \<Rightarrow> string \<Rightarrow> string option" where
  "cutSuffix s p = (if hasSuffix s p then Some (take (length s - length p) s) else None)"

definition trimPrefix :: "string \<Rightarrow> string \<Rightarrow> string" where
  "trimPrefix s p = (if hasPrefix s p then drop (length p) s else s)"

definition trimSuffix :: "string \<Rightarrow> string \<Rightarrow> string" where
  "trimSuffix s p = (if hasSuffix s p then take (length s - length p) s else s)"

fun containsStr :: "string \<Rightarrow> string \<Rightarrow> bool" where
  "containsStr [] sub = (sub = [])"
| "containsStr (c # s) sub = (hasPrefix (c # s) sub \<or> containsStr s sub)"

fun splitOn :: "char \<Rightarrow> string \<Rightarrow> string list" where
  "splitOn sep [] = [[]]"
| "splitOn sep (c # s) =
     (if c = sep then [] # splitOn sep s
      else (case splitOn sep s of [] \<Rightarrow> [[c]] | p # ps \<Rightarrow> (c # p) # ps))"

definition trimChar :: "char \<Rightarrow> string \<Rightarrow> string" where
  "trimChar c s = rev (dropWhile (\<lambda>x. x = c) (rev (dropWhile (\<lambda>x. x = c) s)))"

fun cutChar :: "char \<Rightarrow> string \<Rightarrow> (string \<times> string) option" where
  "cutChar sep [] = None"
| "cutChar sep (c # s) =
     (if c = sep then Some ([], s)
      else map_option (\<lambda>(a, b). (c # a, b)) (cutChar sep s))"

definition bytes :: "nat list \<Rightarrow> string" where
  "bytes ns = map char_of ns"

definition space_seqs :: "string list" where
  "space_seqs = map bytes
     [[9], [10], [11], [12], [13], [32], [194, 133], [194, 160], [225, 154, 128],
      [226, 128, 128], [226, 128, 129], [226, 128, 130], [226, 128, 131], [226, 128, 132],
      [226, 128, 133], [226, 128, 134], [226, 128, 135], [226, 128, 136], [226, 128, 137],
      [226, 128, 138], [226, 128, 168], [226, 128, 169], [226, 128, 175], [226, 129, 159],
      [227, 128, 128]]"

fun trimLeftSeqs :: "nat \<Rightarrow> string list \<Rightarrow> string \<Rightarrow> string" where
  "trimLeftSeqs 0 seqs s = s"
| "trimLeftSeqs (Suc n) seqs s =
     (case find (hasPrefix s) seqs of
        None \<Rightarrow> s
      | Some q \<Rightarrow> trimLeftSeqs n seqs (drop (length q) s))"

definition trimSpace :: "string \<Rightarrow> string" where
  "trimSpace s =
     (let l = trimLeftSeqs (length s) space_seqs s
      in rev (trimLeftSeqs (length l) (map rev space_seqs) (rev l)))"

definition blank :: "string \<Rightarrow> bool" where
  "blank s \<longleftrightarrow> trimSpace s = []"

abbreviation nonBlank :: "string \<Rightarrow> bool" where
  "nonBlank s \<equiv> \<not> blank s"

text \<open>\<open>strings.ToLower\<close> on the ASCII letters; bytes of other characters are kept.\<close>

definition toLowerChar :: "char \<Rightarrow> char" where
  "toLowerChar c = (let n = of_char c :: nat in if 65 \<le> n \<and> n \<le> 90 then char_of (n + 32) else c)"

definition toLower :: "string \<Rightarrow> string" where
  "toLower s = map toLowerChar s"

text \<open>Decimal numbers, and \<open>%q\<close>, which escapes quotes, backslashes and control characters.\<close>

fun showNat :: "nat \<Rightarrow> string" where
  "showNat n = (if n < 10 then [char_of (48 + n)] else showNat (n div 10) @ [char_of (48 + n mod 10)])"

declare showNat.simps [simp del]

definition showInt :: "int \<Rightarrow> string" where
  "showInt x = (if x < 0 then CHR ''-'' # showNat (nat (- x)) else showNat (nat x))"

definition hexDigit :: "nat \<Rightarrow> char" where
  "hexDigit n = char_of (if n < 10 then 48 + n else 87 + n)"

definition quoteChar :: "char \<Rightarrow> string" where
  "quoteChar c =
     (let n = of_char c :: nat
      in if n = 34 \<or> n = 92 then [char_of (92::nat), c]
         else if n = 7 then bytes [92, 97] else if n = 8 then bytes [92, 98]
         else if n = 12 then bytes [92, 102] else if n = 10 then bytes [92, 110]
         else if n = 13 then bytes [92, 114] else if n = 9 then bytes [92, 116]
         else if n = 11 then bytes [92, 118]
         else if n < 32 \<or> n = 127 then bytes [92, 120] @ [hexDigit (n div 16), hexDigit (n mod 16)]
         else [c])"

definition goQuote :: "string \<Rightarrow> string" where
  "goQuote s = CHR 0x22 # concat (map quoteChar s) @ [CHR 0x22]"

lemma trimLeftSeqs_Nil [simp]: "trimLeftSeqs n seqs [] = []"
  by (induction n) (auto split: option.splits)

lemma blank_Nil [simp]: "blank []"
  by (simp add: blank_def trimSpace_def Let_def)

lemma trimLeftSeqs_length: "length (trimLeftSeqs n seqs s) \<le> length s"
proof (induction n arbitrary: s)
  case (Suc n)
  have "length (trimLeftSeqs n seqs (drop k s)) \<le> length s" for k
    using Suc.IH [of "drop k s"] by simp
  then show ?case by (simp split: option.split)
qed simp

lemma hasPrefix_append [simp]: "hasPrefix (p @ s) p"
  by (simp add: hasPrefix_def)

lemma cutPrefix_eq_Some: "cutPrefix s p = Some t \<longleftrightarrow> s = p @ t"
  by (auto simp: cutPrefix_def hasPrefix_def) (metis append_take_drop_id)

lemma cutSuffix_append [simp]: "cutSuffix (t @ p) p = Some t"
  by (simp add: cutSuffix_def hasSuffix_def)

lemma cutSuffix_eq_Some: "cutSuffix s p = Some t \<longleftrightarrow> s = t @ p"
  by (auto simp: cutSuffix_def hasSuffix_def) (metis append_take_drop_id)

lemma containsStr_char: "containsStr s [c] \<longleftrightarrow> c \<in> set s"
  by (induction s) (auto simp: hasPrefix_def)

lemma hasSuffix_split: "hasSuffix s p \<longleftrightarrow> (\<exists>t. s = t @ p)"
  by (metis cutSuffix_def cutSuffix_eq_Some option.distinct(1))

lemma trimSuffix_append [simp]: "trimSuffix (t @ p) p = t"
  by (simp add: trimSuffix_def hasSuffix_split)

lemma trimSuffix_other: "\<not> hasSuffix s p \<Longrightarrow> trimSuffix s p = s"
  by (simp add: trimSuffix_def)

lemma hasPrefix_split: "hasPrefix s p \<longleftrightarrow> (\<exists>t. s = p @ t)"
  by (metis append_take_drop_id hasPrefix_append hasPrefix_def)

lemma trimPrefix_append [simp]: "trimPrefix (p @ t) p = t"
  by (simp add: trimPrefix_def)

text \<open>For evaluation on concrete strings.\<close>

lemma space_seqs_eval: "space_seqs = [[CHR 0x09], [CHR 0x0a], [CHR 0x0b], [CHR 0x0c], [CHR 0x0d], [CHR '' ''],
  [CHR 0xc2, CHR 0x85], [CHR 0xc2, CHR 0xa0], [CHR 0xe1, CHR 0x9a, CHR 0x80]] @
  map (\<lambda>c. [CHR 0xe2, CHR 0x80, c]) [CHR 0x80, CHR 0x81, CHR 0x82, CHR 0x83, CHR 0x84, CHR 0x85, CHR 0x86, CHR 0x87,
  CHR 0x88, CHR 0x89, CHR 0x8a, CHR 0xa8, CHR 0xa9, CHR 0xaf] @ [[CHR 0xe2, CHR 0x81, CHR 0x9f], [CHR 0xe3, CHR 0x80, CHR 0x80]]"
  by code_simp

lemmas blank_eval = blank_def trimSpace_def space_seqs_eval hasPrefix_def

subsection \<open>JSON values and responses\<close>

text \<open>
  A JSON value as the handlers build or inspect it. \<open>JTime\<close> is a \<open>time.Time\<close> before its
  RFC 3339 rendering; a number is an integer (the only floating-point number a handler
  writes is a latency, which no component reads back).
\<close>

datatype json =
    JNull
  | JBool bool
  | JInt int
  | JStr string
  | JTime time
  | JArr "json list"
  | JObj "(string \<times> json) list"

datatype response = Resp (status: nat) (payload: "json option")

definition writeJSON :: "nat \<Rightarrow> json \<Rightarrow> response" where
  "writeJSON st v = Resp st (Some v)"

definition writeHeader :: "nat \<Rightarrow> response" where
  "writeHeader st = Resp st None"

definition errorJSON :: "nat \<Rightarrow> string \<Rightarrow> string \<Rightarrow> response" where
  "errorJSON st code message =
     writeJSON st (JObj [(''error'', JObj [(''code'', JStr code), (''message'', JStr message)])])"

definition internal :: response where
  "internal = errorJSON 500 ''internal_error'' ''internal server error''"

definition invalid :: response where
  "invalid = errorJSON 400 ''invalid_request'' ''invalid request''"

definition notFound :: response where
  "notFound = errorJSON 404 ''not_found'' ''resource not found''"

lemma status_simps [simp]:
  "status (writeJSON st v) = st"
  "status (writeHeader st) = st"
  "status (errorJSON st c m) = st"
  "status internal = 500"
  "status invalid = 400"
  "status notFound = 404"
  by (simp_all add: writeJSON_def writeHeader_def errorJSON_def internal_def invalid_def notFound_def)

text \<open>The HTTP methods the services route on.\<close>

datatype httpMethod = GET | POST | PUT | PATCH | DELETE | OtherMethod

text \<open>
  A request as the handlers see it: \<open>path_value\<close> is \<open>r.PathValue\<close>, the segments that the
  route's pattern has captured, \<open>query_value\<close> is \<open>r.URL.Query().Get\<close>, and a header or a
  value that is absent is the empty string. A \<open>principal\<close> is \<open>identity.Principal\<close>.
\<close>

record http_request =
  rq_method :: httpMethod
  rq_path :: string
  rq_header :: "string \<Rightarrow> string"
  query_value :: "string \<Rightarrow> string"
  path_value :: "string \<Rightarrow> string"
  rq_body :: string

record principal =
  pr_issuer :: string
  pr_subject :: string
  pr_roles :: "string list"

text \<open>\<open>strconv.ParseInt(s, 10, 64)\<close>, \<open>None\<close> being the error.\<close>

definition digitOf :: "char \<Rightarrow> nat option" where
  "digitOf c = (let n = of_char c :: nat in if 48 \<le> n \<and> n \<le> 57 then Some (n - 48) else None)"

fun parseDigits :: "nat \<Rightarrow> string \<Rightarrow> nat option" where
  "parseDigits acc [] = Some acc"
| "parseDigits acc (c # s) =
     (case digitOf c of None \<Rightarrow> None | Some v \<Rightarrow> parseDigits (10 * acc + v) s)"

definition parseInt64 :: "string \<Rightarrow> int option" where
  "parseInt64 s =
     (let neg = (s \<noteq> [] \<and> hd s = CHR ''-'');
          body = (if s \<noteq> [] \<and> (hd s = CHR ''-'' \<or> hd s = CHR ''+'') then tl s else s)
      in if body = [] then None
         else case parseDigits 0 body of
                None \<Rightarrow> None
              | Some n \<Rightarrow>
                  let v = (if neg then - int n else int n)
                  in if int64_range v then Some v else None)"

text \<open>\<open>hex.DecodeString\<close>.\<close>

definition hexValue :: "char \<Rightarrow> nat option" where
  "hexValue c =
     (let n = of_char c :: nat
      in if 48 \<le> n \<and> n \<le> 57 then Some (n - 48)
         else if 97 \<le> n \<and> n \<le> 102 then Some (n - 87)
         else if 65 \<le> n \<and> n \<le> 70 then Some (n - 55) else None)"

fun hexDecode :: "string \<Rightarrow> string option" where
  "hexDecode [] = Some []"
| "hexDecode [c] = None"
| "hexDecode (a # b # s) =
     (case (hexValue a, hexValue b, hexDecode s) of
        (Some x, Some y, Some t) \<Rightarrow> Some (char_of (16 * x + y) # t)
      | _ \<Rightarrow> None)"

text \<open>The inverses, for what a peer sends: \<open>showNat\<close> above and \<open>hexEncode\<close>.\<close>

definition hexEncode :: "string \<Rightarrow> string" where
  "hexEncode s = concat (map (\<lambda>c. let n = of_char c :: nat in [hexDigit (n div 16), hexDigit (n mod 16)]) s)"

lemma digitOf_char_of [simp]: "n < 10 \<Longrightarrow> digitOf (char_of (48 + n)) = Some n"
  by (simp add: digitOf_def Let_def)

lemma showNat_digits: "\<forall>c \<in> set (showNat n). \<exists>d < (10::nat). c = char_of (48 + d)"
proof (induction n rule: showNat.induct)
  case (1 n)
  then show ?case
    by (subst showNat.simps) (auto intro: exI [of _ n] exI [of _ "n mod 10"])
qed

lemma showNat_nonempty [simp]: "showNat n \<noteq> []"
  by (subst showNat.simps) simp

lemma parseDigits_append:
  "parseDigits acc s = Some v \<Longrightarrow> parseDigits acc (s @ t) = parseDigits v t"
  by (induction acc s rule: parseDigits.induct) (auto split: option.splits)

lemma parseDigits_showNat: "parseDigits 0 (showNat n) = Some n"
proof (induction n rule: showNat.induct)
  case (1 n)
  show ?case
  proof (cases "n < 10")
    case True
    then show ?thesis by (subst showNat.simps) simp
  next
    case False
    then have "parseDigits 0 (showNat (n div 10)) = Some (n div 10)" using 1 by simp
    then have "parseDigits 0 (showNat (n div 10) @ [char_of (48 + n mod 10)]) =
        parseDigits (n div 10) [char_of (48 + n mod 10)]" by (rule parseDigits_append)
    with False show ?thesis by (subst showNat.simps) simp
  qed
qed

lemma parseInt64_showNat:
  assumes "int n \<le> max_int64"
  shows "parseInt64 (showNat n) = Some (int n)"
proof -
  have "hd (showNat n) \<in> set (showNat n)" by simp
  with showNat_digits [of n] obtain d :: nat where d: "d < 10" "hd (showNat n) = char_of (48 + d)" by blast
  have "of_char (hd (showNat n)) \<noteq> (45::nat) \<and> of_char (hd (showNat n)) \<noteq> (43::nat)"
    using d by simp
  then have "hd (showNat n) \<noteq> CHR ''-''" "hd (showNat n) \<noteq> CHR ''+''" by auto
  then show ?thesis
    using assms by (simp add: parseInt64_def Let_def parseDigits_showNat int64_nonnegI)
qed

lemma hexValue_hexDigit: "n < 16 \<Longrightarrow> hexValue (hexDigit n) = Some n"
  by (auto simp: hexValue_def hexDigit_def Let_def)

lemma hexDecode_hexEncode [simp]: "hexDecode (hexEncode s) = Some s"
proof (induction s)
  case (Cons c s)
  have "of_char c < (256::nat)" by simp
  then have "of_char c div 16 < (16::nat)" by (simp add: less_mult_imp_div_less)
  moreover have "char_of (16 * (of_char c div 16) + of_char c mod 16 :: nat) = c" by simp
  ultimately show ?case
    using Cons by (simp add: hexEncode_def Let_def hexValue_hexDigit)
qed (simp add: hexEncode_def)

lemma trimLeftSeqs_id:
  assumes "s \<noteq> []" and "\<forall>q \<in> set seqs. q \<noteq> [] \<and> hd q \<noteq> hd s"
  shows "trimLeftSeqs n seqs s = s"
proof -
  have "find (hasPrefix s) seqs = None"
    using assms by (auto simp: find_None_iff hasPrefix_def neq_Nil_conv)
  then show ?thesis by (cases n) simp_all
qed

text \<open>Text that starts and ends in a printable ASCII character is not trimmed.\<close>

definition plainChar :: "char \<Rightarrow> bool" where
  "plainChar c \<longleftrightarrow> 33 \<le> (of_char c :: nat) \<and> (of_char c :: nat) \<le> 126"

lemma space_seqs_ends:
  "q \<in> set space_seqs \<Longrightarrow> q \<noteq> [] \<and> \<not> plainChar (hd q) \<and> \<not> plainChar (last q)"
  by (simp add: space_seqs_eval plainChar_def) auto

lemma trimSpace_plain:
  assumes "s \<noteq> []" and "plainChar (hd s)" and "plainChar (last s)"
  shows "trimSpace s = s"
proof -
  have "trimLeftSeqs (length s) space_seqs s = s"
    using assms space_seqs_ends by (intro trimLeftSeqs_id) metis+
  moreover have "trimLeftSeqs (length s) (map rev space_seqs) (rev s) = rev s"
    using assms space_seqs_ends by (intro trimLeftSeqs_id) (auto simp: hd_rev, metis)
  ultimately show ?thesis by (simp add: trimSpace_def Let_def)
qed

lemma splitOn_no_sep: "sep \<notin> set s \<Longrightarrow> splitOn sep s = [s]"
  by (induction s) auto

lemma splitOn_append: "sep \<notin> set s \<Longrightarrow> splitOn sep (s @ sep # t) = s # splitOn sep t"
  by (induction s) auto

end
