(* ===== verification/Effects.thy ===== *)
theory Effects
  imports Prelude
begin

section \<open>Handlers as state transformers over a database session\<close>

text \<open>
  A handler runs against a session: the committed database, the working copy of an open
  transaction, the sequence of SQL statements the server fails, the source of random
  identifiers and the clock. An action either has a value or has written a response and
  returned (\<open>Reply\<close>); \<open>bnd\<close> runs the next statement only when no response has been
  written. \<open>wp\<close> is the weakest precondition of an action, the tool of the component proofs:
  its equations, collected in \<open>wp_simps\<close>, execute a handler symbolically.
\<close>

datatype 'a step = Reply response | Val 'a

type_synonym ('s, 'a) act = "'s \<Rightarrow> 'a step \<times> 's"

definition ret :: "'a \<Rightarrow> ('s, 'a) act" where
  "ret a s = (Val a, s)"

definition reply :: "response \<Rightarrow> ('s, 'a) act" where
  "reply r s = (Reply r, s)"

definition bnd :: "('s, 'a) act \<Rightarrow> ('a \<Rightarrow> ('s, 'b) act) \<Rightarrow> ('s, 'b) act" where
  "bnd m f s = (case m s of (Reply r, s') \<Rightarrow> (Reply r, s') | (Val a, s') \<Rightarrow> f a s')"

text \<open>\<open>require b r\<close> is \<open>if !b { write r; return }\<close>.\<close>

definition require :: "bool \<Rightarrow> response \<Rightarrow> ('s, unit) act" where
  "require b r = (if b then ret () else reply r)"

definition gets :: "('s \<Rightarrow> 'a) \<Rightarrow> ('s, 'a) act" where
  "gets f s = (Val (f s), s)"

fun mapA :: "('a \<Rightarrow> ('s, 'b) act) \<Rightarrow> 'a list \<Rightarrow> ('s, 'b list) act" where
  "mapA f [] = ret []"
| "mapA f (x # xs) = bnd (f x) (\<lambda>y. bnd (mapA f xs) (\<lambda>ys. ret (y # ys)))"

definition respond :: "('s, response) act \<Rightarrow> 's \<Rightarrow> response \<times> 's" where
  "respond m s = (case m s of (Reply r, s') \<Rightarrow> (r, s') | (Val r, s') \<Rightarrow> (r, s'))"

definition wp :: "('s, 'a) act \<Rightarrow> ('a \<Rightarrow> 's \<Rightarrow> bool) \<Rightarrow> (response \<Rightarrow> 's \<Rightarrow> bool) \<Rightarrow> 's \<Rightarrow> bool" where
  "wp m Q R s = (case m s of (Reply r, s') \<Rightarrow> R r s' | (Val a, s') \<Rightarrow> Q a s')"

named_theorems wp_simps \<open>symbolic execution of actions\<close>

lemma wp_ret [wp_simps]: "wp (ret a) Q R = Q a"
  by (simp add: fun_eq_iff wp_def ret_def)

lemma wp_reply [wp_simps]: "wp (reply r) Q R = R r"
  by (simp add: fun_eq_iff wp_def reply_def)

lemma wp_gets [wp_simps]: "wp (gets f) Q R s = Q (f s) s"
  by (simp add: wp_def gets_def)

lemma wp_bnd [wp_simps]: "wp (bnd m f) Q R = wp m (\<lambda>a. wp (f a) Q R) R"
  by (auto simp: fun_eq_iff wp_def bnd_def split: prod.splits step.splits)

lemma wp_require [wp_simps]: "wp (require b r) Q R s = (if b then Q () s else R r s)"
  by (simp add: require_def wp_simps)

lemma wp_if [wp_simps]: "wp (if b then m else n) Q R s = (if b then wp m Q R s else wp n Q R s)"
  by simp

lemma wp_case_option [wp_simps]:
  "wp (case x of None \<Rightarrow> m | Some y \<Rightarrow> n y) Q R s =
     (case x of None \<Rightarrow> wp m Q R s | Some y \<Rightarrow> wp (n y) Q R s)"
  by (cases x) simp_all

lemma wp_case_sum [wp_simps]:
  "wp (case x of Inl e \<Rightarrow> m e | Inr y \<Rightarrow> n y) Q R s =
     (case x of Inl e \<Rightarrow> wp (m e) Q R s | Inr y \<Rightarrow> wp (n y) Q R s)"
  by (cases x) simp_all

lemma wp_case_prod [wp_simps]:
  "wp (case x of (a, b) \<Rightarrow> m a b) Q R s = (case x of (a, b) \<Rightarrow> wp (m a b) Q R s)"
  by (cases x) simp

lemma wp_let [wp_simps]: "wp (Let x f) Q R s = wp (f x) Q R s"
  by simp

lemma wp_mono:
  assumes "wp m Q R s" and "\<And>a s'. Q a s' \<Longrightarrow> Q' a s'" and "\<And>r s'. R r s' \<Longrightarrow> R' r s'"
  shows "wp m Q' R' s"
  using assms by (auto simp: wp_def split: prod.splits step.splits)

lemma wp_bndI:
  assumes "wp m P R s" and "\<And>a s'. P a s' \<Longrightarrow> wp (f a) Q R s'"
  shows "wp (bnd m f) Q R s"
  unfolding wp_bnd by (rule wp_mono [OF assms])

lemma wp_conj:
  assumes "wp m Q R s" and "wp m Q' R' s"
  shows "wp m (\<lambda>a s'. Q a s' \<and> Q' a s') (\<lambda>r s'. R r s' \<and> R' r s') s"
  using assms by (auto simp: wp_def split: prod.splits step.splits)

lemma wp_respond:
  assumes "wp m R R s" and "respond m s = (r, s')"
  shows "R r s'"
  using assms by (auto simp: wp_def respond_def split: prod.splits step.splits)

lemma respond_wpI:
  assumes "wp m (\<lambda>r s'. (r, s') = x) (\<lambda>r s'. (r, s') = x) s"
  shows "respond m s = x"
  using assms by (auto simp: wp_def respond_def split: prod.splits step.splits)

text \<open>Loops over a list: an invariant on the elements already handled.\<close>

lemma wp_mapA:
  assumes inv: "I [] s"
    and step: "\<And>ds x s. I ds s \<Longrightarrow> x \<in> set xs \<Longrightarrow> wp (f x) (\<lambda>y s'. I (ds @ [y]) s') R s"
    and fin: "\<And>ys s. I ys s \<Longrightarrow> Q ys s"
  shows "wp (mapA f xs) Q R s"
proof -
  have gen: "I d s \<Longrightarrow> set zs \<subseteq> set xs \<Longrightarrow>
      wp (mapA f zs) (\<lambda>ys s'. I (d @ ys) s') R s" for d zs s
  proof (induction zs arbitrary: d s)
    case Nil
    then show ?case by (simp add: wp_simps)
  next
    case (Cons z zs)
    from Cons.prems have "wp (f z) (\<lambda>y s'. I (d @ [y]) s') R s" by (intro step) auto
    moreover have "wp (mapA f zs) (\<lambda>ys s''. I (d @ y # ys) s'') R s'"
      if "I (d @ [y]) s'" for y s'
      using Cons.IH [OF that] Cons.prems by simp
    ultimately show ?case
      by (simp add: wp_simps) (erule wp_mono, simp_all add: wp_simps)
  qed
  from gen [OF inv order_refl] show ?thesis by (rule wp_mono) (auto intro: fin)
qed

subsection \<open>The session\<close>

text \<open>
  \<open>ConnErr\<close> is any failure of the connection or the server; the other constructors are the
  errors the sources tell apart or the schema raises. \<open>fault w n\<close> says that the server
  fails the \<open>n\<close>-th statement of the request; a failed statement has no effect. A random
  identifier (\<open>uuid.NewString\<close>) is the next value of \<open>uuid\<close>.
\<close>

datatype sqlerr =
    NoRows
  | UniqueViolation string
  | ForeignKeyViolation
  | CheckViolation
  | Raised
  | OutOfRange
  | ConnErr

record 'db world =
  committed :: 'db
  working :: "'db option"
  fault :: "nat \<Rightarrow> bool"
  fault_n :: nat
  uuid :: "nat \<Rightarrow> string"
  uuid_n :: nat
  now :: time

type_synonym ('db, 'a) query = "'db \<Rightarrow> sqlerr + 'a \<times> 'db"

definition tick :: "'db world \<Rightarrow> 'db world" where
  "tick w = w\<lparr>fault_n := Suc (fault_n w)\<rparr>"

text \<open>A statement on the pool: it commits on its own.\<close>

definition db_exec :: "('db, 'a) query \<Rightarrow> ('db world, sqlerr + 'a) act" where
  "db_exec q w =
     (if fault w (fault_n w) then (Val (Inl ConnErr), tick w)
      else (case q (committed w) of
              Inl e \<Rightarrow> (Val (Inl e), tick w)
            | Inr (a, d) \<Rightarrow> (Val (Inr a), (tick w)\<lparr>committed := d\<rparr>)))"

text \<open>
  A statement of the open transaction: it reads and writes the working copy. A statement that
  fails aborts the transaction, whose later statements and commit then fail too; a query
  without a row (\<open>sql.ErrNoRows\<close>, found by the driver) does not.
\<close>

definition abort_tx :: "sqlerr \<Rightarrow> 'db world \<Rightarrow> 'db world" where
  "abort_tx e w = (if e = NoRows then tick w else (tick w)\<lparr>working := None\<rparr>)"

definition tx_exec :: "('db, 'a) query \<Rightarrow> ('db world, sqlerr + 'a) act" where
  "tx_exec q w =
     (case working w of
        None \<Rightarrow> (Val (Inl ConnErr), tick w)
      | Some d \<Rightarrow>
          (if fault w (fault_n w) then (Val (Inl ConnErr), abort_tx ConnErr w)
           else (case q d of
                   Inl e \<Rightarrow> (Val (Inl e), abort_tx e w)
                 | Inr (a, d') \<Rightarrow> (Val (Inr a), (tick w)\<lparr>working := Some d'\<rparr>))))"

text \<open>
  \<open>begin_tx\<close> is \<open>BeginTxx\<close>; \<open>commit_tx chk\<close> is \<open>Commit\<close>, which first runs the schema's
  deferred constraint triggers, \<open>chk\<close> of the database before and after the transaction; \<open>finish_tx\<close> is the deferred \<open>Rollback\<close>, which
  discards the working copy if no commit has installed it.
\<close>

definition begin_tx :: "('db world, sqlerr + unit) act" where
  "begin_tx w =
     (if fault w (fault_n w) then (Val (Inl ConnErr), tick w)
      else (Val (Inr ()), (tick w)\<lparr>working := Some (committed w)\<rparr>))"

definition commit_tx :: "('db \<Rightarrow> 'db \<Rightarrow> bool) \<Rightarrow> ('db world, sqlerr + unit) act" where
  "commit_tx chk w =
     (case working w of
        None \<Rightarrow> (Val (Inl ConnErr), tick w)
      | Some d \<Rightarrow>
          (if fault w (fault_n w) then (Val (Inl ConnErr), tick w)
           else if chk (committed w) d then (Val (Inr ()), (tick w)\<lparr>committed := d, working := None\<rparr>)
           else (Val (Inl Raised), abort_tx Raised w)))"

definition finish_tx :: "('db world, 'a) act \<Rightarrow> ('db world, 'a) act" where
  "finish_tx m w = (case m w of (x, w') \<Rightarrow> (x, w'\<lparr>working := None\<rparr>))"

definition newUUID :: "('db world, string) act" where
  "newUUID w = (Val (uuid w (uuid_n w)), w\<lparr>uuid_n := Suc (uuid_n w)\<rparr>)"

text \<open>\<open>if err != nil { write r; return }\<close>, and the form that looks at the error.\<close>

definition orReply :: "('s, sqlerr + 'a) act \<Rightarrow> response \<Rightarrow> ('s, 'a) act" where
  "orReply m r = bnd m (\<lambda>x. case x of Inl e \<Rightarrow> reply r | Inr a \<Rightarrow> ret a)"

definition orReplyWith :: "('s, sqlerr + 'a) act \<Rightarrow> (sqlerr \<Rightarrow> response) \<Rightarrow> ('s, 'a) act" where
  "orReplyWith m r = bnd m (\<lambda>x. case x of Inl e \<Rightarrow> reply (r e) | Inr a \<Rightarrow> ret a)"

text \<open>A read, as a query that leaves the database as it is.\<close>

definition reading :: "('db \<Rightarrow> 'a) \<Rightarrow> ('db, 'a) query" where
  "reading f d = Inr (f d, d)"

definition readRow :: "('db \<Rightarrow> 'a option) \<Rightarrow> ('db, 'a) query" where
  "readRow f d = (case f d of None \<Rightarrow> Inl NoRows | Some a \<Rightarrow> Inr (a, d))"

lemma tick_simps [simp]:
  "committed (tick w) = committed w" "working (tick w) = working w" "fault (tick w) = fault w"
  "fault_n (tick w) = Suc (fault_n w)" "uuid (tick w) = uuid w" "uuid_n (tick w) = uuid_n w"
  "now (tick w) = now w"
  by (simp_all add: tick_def)

lemma abort_tx_simps [simp]:
  "committed (abort_tx e w) = committed w" "fault (abort_tx e w) = fault w"
  "fault_n (abort_tx e w) = Suc (fault_n w)" "uuid (abort_tx e w) = uuid w"
  "uuid_n (abort_tx e w) = uuid_n w" "now (abort_tx e w) = now w"
  by (simp_all add: abort_tx_def)

lemma wp_db_exec [wp_simps]:
  "wp (db_exec q) Q R w =
     (if fault w (fault_n w) then Q (Inl ConnErr) (tick w)
      else (case q (committed w) of
              Inl e \<Rightarrow> Q (Inl e) (tick w)
            | Inr (a, d) \<Rightarrow> Q (Inr a) ((tick w)\<lparr>committed := d\<rparr>)))"
  by (auto simp: wp_def db_exec_def split: sum.splits prod.splits)

lemma wp_tx_exec [wp_simps]:
  "wp (tx_exec q) Q R w =
     (case working w of
        None \<Rightarrow> Q (Inl ConnErr) (tick w)
      | Some d \<Rightarrow>
          (if fault w (fault_n w) then Q (Inl ConnErr) (abort_tx ConnErr w)
           else (case q d of
                   Inl e \<Rightarrow> Q (Inl e) (abort_tx e w)
                 | Inr (a, d') \<Rightarrow> Q (Inr a) ((tick w)\<lparr>working := Some d'\<rparr>))))"
  by (auto simp: wp_def tx_exec_def split: option.splits sum.splits prod.splits)

lemma wp_begin_tx [wp_simps]:
  "wp begin_tx Q R w =
     (if fault w (fault_n w) then Q (Inl ConnErr) (tick w)
      else Q (Inr ()) ((tick w)\<lparr>working := Some (committed w)\<rparr>))"
  by (simp add: wp_def begin_tx_def)

lemma wp_commit_tx [wp_simps]:
  "wp (commit_tx chk) Q R w =
     (case working w of
        None \<Rightarrow> Q (Inl ConnErr) (tick w)
      | Some d \<Rightarrow>
          (if fault w (fault_n w) then Q (Inl ConnErr) (tick w)
           else if chk (committed w) d then Q (Inr ()) ((tick w)\<lparr>committed := d, working := None\<rparr>)
           else Q (Inl Raised) (abort_tx Raised w)))"
  by (auto simp: wp_def commit_tx_def split: option.splits)

lemma wp_finish_tx [wp_simps]:
  "wp (finish_tx m) Q R w =
     wp m (\<lambda>a w'. Q a (w'\<lparr>working := None\<rparr>)) (\<lambda>r w'. R r (w'\<lparr>working := None\<rparr>)) w"
  by (auto simp: wp_def finish_tx_def split: prod.splits step.splits)

lemma wp_newUUID [wp_simps]:
  "wp newUUID Q R w = Q (uuid w (uuid_n w)) (w\<lparr>uuid_n := Suc (uuid_n w)\<rparr>)"
  by (simp add: wp_def newUUID_def)

lemma wp_orReply [wp_simps]:
  "wp (orReply m r) Q R w = wp m (\<lambda>x w'. case x of Inl e \<Rightarrow> R r w' | Inr a \<Rightarrow> Q a w') R w"
  by (auto simp: orReply_def wp_def bnd_def ret_def reply_def split: prod.splits step.splits sum.splits)

lemma wp_orReplyWith [wp_simps]:
  "wp (orReplyWith m r) Q R w = wp m (\<lambda>x w'. case x of Inl e \<Rightarrow> R (r e) w' | Inr a \<Rightarrow> Q a w') R w"
  by (auto simp: orReplyWith_def wp_def bnd_def ret_def reply_def
      split: prod.splits step.splits sum.splits)

subsection \<open>Actions that cannot touch the committed database\<close>

text \<open>
  Inside a transaction only \<open>commit_tx\<close> changes the committed database. An action that is
  built without it, and without \<open>db_exec\<close>, is \<open>tx_local\<close>.
\<close>

definition tx_local :: "('db world, 'a) act \<Rightarrow> bool" where
  "tx_local m \<longleftrightarrow> (\<forall>w. committed (snd (m w)) = committed w)"

named_theorems tx_localI \<open>actions that keep the committed database\<close>

lemma tx_local_ret [tx_localI]: "tx_local (ret a)"
  by (simp add: tx_local_def ret_def)

lemma tx_local_reply [tx_localI]: "tx_local (reply r)"
  by (simp add: tx_local_def reply_def)

lemma tx_local_gets [tx_localI]: "tx_local (gets f)"
  by (simp add: tx_local_def gets_def)

lemma tx_local_require [tx_localI]: "tx_local (require b r)"
  by (simp add: require_def tx_local_ret tx_local_reply)

lemma tx_local_newUUID [tx_localI]: "tx_local newUUID"
  by (simp add: tx_local_def newUUID_def)

lemma tx_local_tx_exec [tx_localI]: "tx_local (tx_exec q)"
  by (auto simp: tx_local_def tx_exec_def split: option.splits sum.splits prod.splits)

lemma tx_local_begin_tx [tx_localI]: "tx_local begin_tx"
  by (simp add: tx_local_def begin_tx_def)

lemma tx_local_bnd [tx_localI]:
  assumes m: "tx_local m" and f: "\<And>a. tx_local (f a)"
  shows "tx_local (bnd m f)"
  unfolding tx_local_def
proof
  fix w
  obtain x w' where mw: "m w = (x, w')" by (cases "m w")
  with m have w': "committed w' = committed w" by (metis tx_local_def snd_conv)
  show "committed (snd (bnd m f w)) = committed w"
    using f mw w' by (cases x) (auto simp: bnd_def tx_local_def)
qed

lemma tx_local_orReply [tx_localI]: "tx_local m \<Longrightarrow> tx_local (orReply m r)"
  unfolding orReply_def
  by (rule tx_local_bnd) (auto split: sum.splits intro: tx_localI)

lemma tx_local_orReplyWith [tx_localI]: "tx_local m \<Longrightarrow> tx_local (orReplyWith m r)"
  unfolding orReplyWith_def
  by (rule tx_local_bnd) (auto split: sum.splits intro: tx_localI)

lemma tx_local_mapA [tx_localI]: "(\<And>x. tx_local (f x)) \<Longrightarrow> tx_local (mapA f xs)"
  by (induction xs) (auto intro: tx_localI)

lemma tx_local_if [tx_localI]: "tx_local m \<Longrightarrow> tx_local n \<Longrightarrow> tx_local (if b then m else n)"
  by simp

lemma tx_local_case_option [tx_localI]:
  "tx_local m \<Longrightarrow> (\<And>y. tx_local (n y)) \<Longrightarrow> tx_local (case x of None \<Rightarrow> m | Some y \<Rightarrow> n y)"
  by (cases x) auto

lemma tx_local_case_prod [tx_localI]:
  "(\<And>a b. tx_local (n a b)) \<Longrightarrow> tx_local (case x of (a, b) \<Rightarrow> n a b)"
  by (cases x) auto

lemma tx_local_let [tx_localI]: "tx_local (f x) \<Longrightarrow> tx_local (Let x f)"
  by simp

lemma tx_local_finish_tx [tx_localI]: "tx_local m \<Longrightarrow> tx_local (finish_tx m)"
  by (auto simp: tx_local_def finish_tx_def split: prod.splits) (metis snd_conv)

lemma wp_tx_local:
  assumes "tx_local m"
  shows "wp m (\<lambda>a w'. committed w' = committed w) (\<lambda>r w'. committed w' = committed w) w"
  using assms by (auto simp: tx_local_def wp_def split: prod.splits step.splits) (metis snd_conv)+

subsection \<open>Inversion: what a finished action has done\<close>

text \<open>
  \<open>act_simps\<close> turns "this action ended with a value" into the facts of each of its
  statements. \<open>replies P\<close> bounds the responses an action can write early, and
  \<open>reply_safe\<close> says that whenever it does, the committed database is as before.
\<close>

named_theorems act_simps \<open>inversion of finished actions\<close>

lemma ret_Val [act_simps]: "ret a w = (Val b, w') \<longleftrightarrow> b = a \<and> w' = w"
  by (auto simp: ret_def)

lemma reply_Val [act_simps]: "reply r w \<noteq> (Val b, w')"
  by (simp add: reply_def)

lemma bnd_Val [act_simps]:
  "bnd m f w = (Val b, w'') \<longleftrightarrow> (\<exists>a w'. m w = (Val a, w') \<and> f a w' = (Val b, w''))"
  by (auto simp: bnd_def split: prod.splits step.splits)

lemma require_Val [act_simps]: "require b r w = (Val u, w') \<longleftrightarrow> b \<and> w' = w"
  by (auto simp: require_def act_simps)

lemma gets_Val [act_simps]: "gets f w = (Val b, w') \<longleftrightarrow> b = f w \<and> w' = w"
  by (auto simp: gets_def)

lemma newUUID_Val [act_simps]:
  "newUUID w = (Val i, w') \<longleftrightarrow> i = uuid w (uuid_n w) \<and> w' = w\<lparr>uuid_n := Suc (uuid_n w)\<rparr>"
  by (auto simp: newUUID_def)

lemma orReply_Val [act_simps]: "orReply m r w = (Val a, w') \<longleftrightarrow> m w = (Val (Inr a), w')"
  by (auto simp: orReply_def bnd_def ret_def reply_def split: prod.splits step.splits sum.splits)

lemma orReplyWith_Val [act_simps]: "orReplyWith m r w = (Val a, w') \<longleftrightarrow> m w = (Val (Inr a), w')"
  by (auto simp: orReplyWith_def bnd_def ret_def reply_def split: prod.splits step.splits sum.splits)

lemma tx_exec_Val [act_simps]:
  "tx_exec q w = (Val (Inr a), w') \<longleftrightarrow>
     (\<exists>d d'. working w = Some d \<and> \<not> fault w (fault_n w) \<and> q d = Inr (a, d') \<and>
       w' = (tick w)\<lparr>working := Some d'\<rparr>)"
  by (auto simp: tx_exec_def split: option.splits sum.splits prod.splits)

lemma db_exec_Val [act_simps]:
  "db_exec q w = (Val (Inr a), w') \<longleftrightarrow>
     (\<exists>d'. \<not> fault w (fault_n w) \<and> q (committed w) = Inr (a, d') \<and>
       w' = (tick w)\<lparr>committed := d'\<rparr>)"
  by (auto simp: db_exec_def split: option.splits sum.splits prod.splits)

lemma begin_tx_Val [act_simps]:
  "begin_tx w = (Val (Inr a), w') \<longleftrightarrow>
     \<not> fault w (fault_n w) \<and> w' = (tick w)\<lparr>working := Some (committed w)\<rparr>"
  by (auto simp: begin_tx_def)

lemma commit_tx_Val [act_simps]:
  "commit_tx chk w = (Val (Inr a), w') \<longleftrightarrow>
     (\<exists>d. working w = Some d \<and> \<not> fault w (fault_n w) \<and> chk (committed w) d \<and>
       w' = (tick w)\<lparr>committed := d, working := None\<rparr>)"
  by (auto simp: commit_tx_def split: option.splits)

lemma finish_tx_Val [act_simps]:
  "finish_tx m w = (Val a, w') \<longleftrightarrow> (\<exists>w1. m w = (Val a, w1) \<and> w' = w1\<lparr>working := None\<rparr>)"
  by (auto simp: finish_tx_def split: prod.splits)

lemma reading_Inr [act_simps]: "reading f d = Inr (a, d') \<longleftrightarrow> a = f d \<and> d' = d"
  by (auto simp: reading_def)

lemma readRow_Inr [act_simps]: "readRow f d = Inr (a, d') \<longleftrightarrow> f d = Some a \<and> d' = d"
  by (auto simp: readRow_def split: option.splits)

definition replies :: "(response \<Rightarrow> bool) \<Rightarrow> ('s, 'a) act \<Rightarrow> bool" where
  "replies P m \<longleftrightarrow> (\<forall>w r w'. m w = (Reply r, w') \<longrightarrow> P r)"

definition reply_safe :: "('db world, 'a) act \<Rightarrow> bool" where
  "reply_safe m \<longleftrightarrow> (\<forall>w r w'. m w = (Reply r, w') \<longrightarrow> committed w' = committed w)"

named_theorems repliesI \<open>bounds on the responses an action writes early\<close>
named_theorems reply_safeI \<open>actions that write a response only while nothing is committed\<close>

lemma replies_ret [repliesI]: "replies P (ret a)"
  by (simp add: replies_def ret_def)

lemma replies_reply [repliesI]: "P r \<Longrightarrow> replies P (reply r)"
  by (simp add: replies_def reply_def)

lemma replies_gets [repliesI]: "replies P (gets f)"
  by (simp add: replies_def gets_def)

lemma replies_require [repliesI]: "P r \<Longrightarrow> replies P (require b r)"
  by (simp add: require_def replies_ret replies_reply)

lemma replies_bnd [repliesI]: "replies P m \<Longrightarrow> (\<And>a. replies P (f a)) \<Longrightarrow> replies P (bnd m f)"
  by (auto simp: replies_def bnd_def split: prod.splits step.splits)

lemma replies_orReply [repliesI]: "replies P m \<Longrightarrow> P r \<Longrightarrow> replies P (orReply m r)"
  unfolding orReply_def by (rule replies_bnd) (auto split: sum.splits intro: repliesI)

lemma replies_orReplyWith [repliesI]:
  "replies P m \<Longrightarrow> (\<And>e. P (r e)) \<Longrightarrow> replies P (orReplyWith m r)"
  unfolding orReplyWith_def by (rule replies_bnd) (auto split: sum.splits intro: repliesI)

lemma replies_newUUID [repliesI]: "replies P newUUID"
  by (simp add: replies_def newUUID_def)

lemma replies_tx_exec [repliesI]: "replies P (tx_exec q)"
  by (auto simp: replies_def tx_exec_def split: option.splits sum.splits prod.splits if_splits)

lemma replies_db_exec [repliesI]: "replies P (db_exec q)"
  by (auto simp: replies_def db_exec_def split: option.splits sum.splits prod.splits if_splits)

lemma replies_begin_tx [repliesI]: "replies P begin_tx"
  by (auto simp: replies_def begin_tx_def split: if_splits)

lemma replies_commit_tx [repliesI]: "replies P (commit_tx chk)"
  by (auto simp: replies_def commit_tx_def split: option.splits if_splits)

lemma replies_finish_tx [repliesI]: "replies P m \<Longrightarrow> replies P (finish_tx m)"
  by (auto simp: replies_def finish_tx_def split: prod.splits)

lemma replies_mapA [repliesI]: "(\<And>x. replies P (f x)) \<Longrightarrow> replies P (mapA f xs)"
  by (induction xs) (auto intro: repliesI)

lemma replies_if [repliesI]: "(b \<Longrightarrow> replies P m) \<Longrightarrow> (\<not> b \<Longrightarrow> replies P n) \<Longrightarrow> replies P (if b then m else n)"
  by simp

lemma replies_case_option [repliesI]:
  "(x = None \<Longrightarrow> replies P m) \<Longrightarrow> (\<And>y. x = Some y \<Longrightarrow> replies P (n y)) \<Longrightarrow>
     replies P (case x of None \<Rightarrow> m | Some y \<Rightarrow> n y)"
  by (cases x) auto

lemma replies_case_sum [repliesI]:
  "(\<And>y. x = Inl y \<Longrightarrow> replies P (m y)) \<Longrightarrow> (\<And>y. x = Inr y \<Longrightarrow> replies P (n y)) \<Longrightarrow>
     replies P (case x of Inl y \<Rightarrow> m y | Inr y \<Rightarrow> n y)"
  by (cases x) auto

lemma replies_case_prod [repliesI]:
  "(\<And>a b. replies P (n a b)) \<Longrightarrow> replies P (case x of (a, b) \<Rightarrow> n a b)"
  by (cases x) auto

lemma replies_let [repliesI]: "replies P (f x) \<Longrightarrow> replies P (Let x f)"
  by simp

lemma tx_local_reply_safe: "tx_local m \<Longrightarrow> reply_safe m"
  by (auto simp: tx_local_def reply_safe_def) (metis snd_conv)

lemma reply_safe_ret [reply_safeI]: "reply_safe (ret a)"
  by (simp add: tx_local_reply_safe tx_local_ret)

lemma reply_safe_reply [reply_safeI]: "reply_safe (reply r)"
  by (simp add: tx_local_reply_safe tx_local_reply)

lemma reply_safe_bnd [reply_safeI]:
  "tx_local m \<Longrightarrow> (\<And>a. reply_safe (f a)) \<Longrightarrow> reply_safe (bnd m f)"
  by (auto simp: reply_safe_def tx_local_def bnd_def split: prod.splits step.splits) (metis snd_conv)+

lemma reply_safe_commit [reply_safeI]:
  "reply_safe (bnd (orReply (commit_tx chk) r) (\<lambda>u. ret x))"
  by (auto simp: reply_safe_def orReply_def bnd_def commit_tx_def ret_def reply_def
      split: prod.splits step.splits option.splits if_splits sum.splits)

lemma reply_safe_tail: "reply_safe m \<Longrightarrow> reply_safe (bnd m (\<lambda>a. ret (f a)))"
  by (auto simp: reply_safe_def bnd_def ret_def split: prod.splits step.splits)

lemma reply_safe_finish_tx [reply_safeI]: "reply_safe m \<Longrightarrow> reply_safe (finish_tx m)"
  by (auto simp: reply_safe_def finish_tx_def split: prod.splits)

lemma reply_safe_if [reply_safeI]: "reply_safe m \<Longrightarrow> reply_safe n \<Longrightarrow> reply_safe (if b then m else n)"
  by simp

lemma reply_safe_case_option [reply_safeI]:
  "reply_safe m \<Longrightarrow> (\<And>y. reply_safe (n y)) \<Longrightarrow>
     reply_safe (case x of None \<Rightarrow> m | Some y \<Rightarrow> n y)"
  by (cases x) auto

lemma reply_safe_case_sum [reply_safeI]:
  "(\<And>y. reply_safe (m y)) \<Longrightarrow> (\<And>y. reply_safe (n y)) \<Longrightarrow>
     reply_safe (case x of Inl y \<Rightarrow> m y | Inr y \<Rightarrow> n y)"
  by (cases x) auto

lemma reply_safe_case_prod [reply_safeI]:
  "(\<And>a b. reply_safe (n a b)) \<Longrightarrow> reply_safe (case x of (a, b) \<Rightarrow> n a b)"
  by (cases x) auto

lemma reply_safe_let [reply_safeI]: "reply_safe (f x) \<Longrightarrow> reply_safe (Let x f)"
  by simp

lemma tx_local_case_sum [tx_localI]:
  "(\<And>y. tx_local (m y)) \<Longrightarrow> (\<And>y. tx_local (n y)) \<Longrightarrow>
     tx_local (case x of Inl y \<Rightarrow> m y | Inr y \<Rightarrow> n y)"
  by (cases x) auto

text \<open>A read on the pool does not change the committed database either.\<close>

lemma tx_local_db_reading [tx_localI]: "tx_local (db_exec (reading f))"
  by (auto simp: tx_local_def db_exec_def reading_def)

lemma tx_local_db_readRow [tx_localI]: "tx_local (db_exec (readRow f))"
  by (auto simp: tx_local_def db_exec_def readRow_def split: option.splits)

text \<open>
  A handler whose early responses all satisfy \<open>P\<close> and leave the database alone: a response
  outside \<open>P\<close> is its last one, and any other response changed nothing.
\<close>

lemma respond_cases:
  assumes "respond m w = (r, w')"
  obtains "m w = (Reply r, w')" | "m w = (Val r, w')"
  using assms by (auto simp: respond_def split: prod.splits step.splits)

lemma respond_Val:
  assumes "respond m w = (r, w')" and "replies P m" and "\<not> P r"
  shows "m w = (Val r, w')"
  using assms by (auto simp: replies_def elim: respond_cases)

subsection \<open>Chains of statements that return an error\<close>

definition thenOk :: "('s, sqlerr + 'a) act \<Rightarrow> ('a \<Rightarrow> ('s, sqlerr + 'b) act) \<Rightarrow> ('s, sqlerr + 'b) act" where
  "thenOk m f = bnd m (\<lambda>x. case x of Inl e \<Rightarrow> ret (Inl e) | Inr a \<Rightarrow> f a)"

lemma thenOk_Val [act_simps]:
  "thenOk m f w = (Val (Inr b), w'') \<longleftrightarrow>
     (\<exists>a w'. m w = (Val (Inr a), w') \<and> f a w' = (Val (Inr b), w''))"
  by (auto simp: thenOk_def bnd_def ret_def split: prod.splits step.splits sum.splits)

lemma tx_local_thenOk [tx_localI]: "tx_local m \<Longrightarrow> (\<And>a. tx_local (f a)) \<Longrightarrow> tx_local (thenOk m f)"
  unfolding thenOk_def by (rule tx_local_bnd) (auto split: sum.splits intro: tx_localI)

lemma replies_thenOk [repliesI]: "replies P m \<Longrightarrow> (\<And>a. replies P (f a)) \<Longrightarrow> replies P (thenOk m f)"
  unfolding thenOk_def by (rule replies_bnd) (auto split: sum.splits intro: repliesI)

fun iterOk :: "('a \<Rightarrow> ('s, sqlerr + unit) act) \<Rightarrow> 'a list \<Rightarrow> ('s, sqlerr + unit) act" where
  "iterOk f [] = ret (Inr ())"
| "iterOk f (x # xs) = thenOk (f x) (\<lambda>_. iterOk f xs)"

lemma tx_local_iterOk [tx_localI]: "(\<And>x. tx_local (f x)) \<Longrightarrow> tx_local (iterOk f xs)"
  by (induction xs) (auto intro: tx_localI)

lemma replies_iterOk [repliesI]: "(\<And>x. replies P (f x)) \<Longrightarrow> replies P (iterOk f xs)"
  by (induction xs) (auto intro: repliesI)

text \<open>\<open>_ = DB.Get(&x, ...)\<close>: an error is dropped and the variable keeps its zero value.\<close>

definition orZero :: "('s, sqlerr + 'a) act \<Rightarrow> 'a \<Rightarrow> ('s, 'a) act" where
  "orZero m z = bnd m (\<lambda>x. ret (case x of Inl e \<Rightarrow> z | Inr a \<Rightarrow> a))"

lemma tx_local_orZero [tx_localI]: "tx_local m \<Longrightarrow> tx_local (orZero m z)"
  unfolding orZero_def by (rule tx_local_bnd) (auto intro: tx_localI)

lemma replies_orZero [repliesI]: "replies P m \<Longrightarrow> replies P (orZero m z)"
  unfolding orZero_def by (rule replies_bnd) (auto intro: repliesI)

subsection \<open>What a successful run does to the database\<close>

text \<open>
  \<open>wlp m Q c k\<close>: whenever \<open>m\<close> runs from the committed database \<open>c\<close> and the working copy
  \<open>k\<close> to a value, the value and the resulting pair satisfy \<open>Q\<close>, whatever the server fails
  and whichever identifiers are drawn. The rules \<open>wlpI\<close> reduce a handler to the equations
  of its statements.
\<close>

definition wlp ::
  "('db world, 'a) act \<Rightarrow> ('a \<Rightarrow> 'db \<Rightarrow> 'db option \<Rightarrow> bool) \<Rightarrow> 'db \<Rightarrow> 'db option \<Rightarrow> bool" where
  "wlp m Q c k \<longleftrightarrow>
     (\<forall>w a w'. committed w = c \<longrightarrow> working w = k \<longrightarrow> m w = (Val a, w') \<longrightarrow>
        Q a (committed w') (working w'))"

named_theorems wlpI \<open>partial correctness of actions on the database\<close>

lemma wlp_mono:
  assumes "wlp m Q c k" and "\<And>a c' k'. Q a c' k' \<Longrightarrow> Q' a c' k'"
  shows "wlp m Q' c k"
  using assms by (auto simp: wlp_def)

lemma wlp_ret [wlpI]: "Q a c k \<Longrightarrow> wlp (ret a) Q c k"
  by (simp add: wlp_def ret_def)

lemma wlp_reply [wlpI]: "wlp (reply r) Q c k"
  by (simp add: wlp_def reply_def)

lemma wlp_bnd [wlpI]: "wlp m (\<lambda>a. wlp (f a) Q) c k \<Longrightarrow> wlp (bnd m f) Q c k"
  unfolding wlp_def bnd_Val by blast

lemma wlp_require [wlpI]: "(b \<Longrightarrow> Q () c k) \<Longrightarrow> wlp (require b r) Q c k"
  by (auto simp: wlp_def require_Val)

lemma wlp_now [wlpI]: "(\<And>t. Q t c k) \<Longrightarrow> wlp (gets now) Q c k"
  by (auto simp: wlp_def gets_Val)

lemma wlp_newUUID [wlpI]: "(\<And>i. Q i c k) \<Longrightarrow> wlp newUUID Q c k"
  by (auto simp: wlp_def newUUID_Val)

text \<open>\<open>onOk Q\<close> is a postcondition that asks nothing when the statement returned an error.\<close>

definition onOk :: "('a \<Rightarrow> 'db \<Rightarrow> 'db option \<Rightarrow> bool) \<Rightarrow> sqlerr + 'a \<Rightarrow> 'db \<Rightarrow> 'db option \<Rightarrow> bool" where
  "onOk Q x c k = (case x of Inl e \<Rightarrow> True | Inr a \<Rightarrow> Q a c k)"

lemma onOk_simps [simp]: "onOk Q (Inl e) c k" "onOk Q (Inr a) c k = Q a c k"
  by (simp_all add: onOk_def)

lemma wlp_orReply [wlpI]: "wlp m (onOk Q) c k \<Longrightarrow> wlp (orReply m r) Q c k"
  unfolding wlp_def orReply_Val by (metis onOk_simps(2))

lemma wlp_orReplyWith [wlpI]: "wlp m (onOk Q) c k \<Longrightarrow> wlp (orReplyWith m r) Q c k"
  unfolding wlp_def orReplyWith_Val by (metis onOk_simps(2))

lemma wlp_orZero:
  "wlp m (\<lambda>x c' k'. case x of Inl e \<Rightarrow> Q z c' k' | Inr a \<Rightarrow> Q a c' k') c k \<Longrightarrow> wlp (orZero m z) Q c k"
  unfolding orZero_def
  by (rule wlp_bnd, erule wlp_mono, rule wlp_ret) (simp split: sum.splits)

lemma wlp_db_exec:
  assumes "Q (Inl ConnErr) c k" and "\<And>e. q c = Inl e \<Longrightarrow> Q (Inl e) c k"
    and "\<And>a c'. q c = Inr (a, c') \<Longrightarrow> Q (Inr a) c' k"
  shows "wlp (db_exec q) Q c k"
  using assms by (auto simp: wlp_def db_exec_def split: sum.splits prod.splits if_splits)

lemma wlp_tx_exec:
  assumes "\<And>e. e \<noteq> NoRows \<Longrightarrow> Q (Inl e) c None"
    and "q d = Inl NoRows \<Longrightarrow> Q (Inl NoRows) c (Some d)"
    and "\<And>a d'. q d = Inr (a, d') \<Longrightarrow> Q (Inr a) c (Some d')"
  shows "wlp (tx_exec q) Q c (Some d)"
  using assms by (auto simp: wlp_def tx_exec_def abort_tx_def split: sum.splits prod.splits if_splits)

lemma wlp_tx_exec_err:
  assumes "Q (Inl ConnErr) c None" and "\<And>e. q d = Inl e \<Longrightarrow> Q (Inl e) c (if e = NoRows then Some d else None)"
    and "\<And>a d'. q d = Inr (a, d') \<Longrightarrow> Q (Inr a) c (Some d')"
  shows "wlp (tx_exec q) Q c (Some d)"
  using assms by (auto simp: wlp_def tx_exec_def abort_tx_def split: sum.splits prod.splits if_splits)

lemma wlp_orZero_read [wlpI]:
  "Q z c k \<Longrightarrow> Q (f c) c k \<Longrightarrow> wlp (orZero (db_exec (reading f)) z) Q c k"
  by (intro wlp_orZero wlp_db_exec) (auto simp: reading_def)

lemma wlp_tx_readRow:
  assumes "\<And>e. e \<noteq> NoRows \<Longrightarrow> Q (Inl e) c None" and "f d = None \<Longrightarrow> Q (Inl NoRows) c (Some d)"
    and "\<And>a. f d = Some a \<Longrightarrow> Q (Inr a) c (Some d)"
  shows "wlp (tx_exec (readRow f)) Q c (Some d)"
  using assms by (intro wlp_tx_exec) (auto simp: readRow_def split: option.splits)

lemma wlp_db_readRow:
  assumes "\<And>e. e \<noteq> NoRows \<Longrightarrow> Q (Inl e) c k" and "f c = None \<Longrightarrow> Q (Inl NoRows) c k"
    and "\<And>a. f c = Some a \<Longrightarrow> Q (Inr a) c k"
  shows "wlp (db_exec (readRow f)) Q c k"
  using assms by (intro wlp_db_exec) (auto simp: readRow_def split: option.splits)

lemma wlp_begin_tx:
  assumes "\<And>e. Q (Inl e) c k" and "Q (Inr ()) c (Some c)"
  shows "wlp begin_tx Q c k"
  using assms by (auto simp: wlp_def begin_tx_def split: if_splits)

lemma wlp_commit_tx:
  assumes "\<And>e k'. Q (Inl e) c k'" and "chk c d \<Longrightarrow> Q (Inr ()) d None"
  shows "wlp (commit_tx chk) Q c (Some d)"
  using assms by (auto simp: wlp_def commit_tx_def split: if_splits)

lemma wlp_finish_tx [wlpI]: "wlp m (\<lambda>a c' k'. Q a c' None) c k \<Longrightarrow> wlp (finish_tx m) Q c k"
  by (auto simp: wlp_def finish_tx_Val)

lemma wlp_tx_exec_ok [wlpI]:
  assumes "\<And>a d'. q d = Inr (a, d') \<Longrightarrow> Q a c (Some d')"
  shows "wlp (tx_exec q) (onOk Q) c (Some d)"
  using assms by (intro wlp_tx_exec) auto

lemma wlp_db_exec_ok [wlpI]:
  assumes "\<And>a c'. q c = Inr (a, c') \<Longrightarrow> Q a c' k"
  shows "wlp (db_exec q) (onOk Q) c k"
  using assms by (intro wlp_db_exec) auto

lemma wlp_begin_tx_ok [wlpI]: "Q () c (Some c) \<Longrightarrow> wlp begin_tx (onOk Q) c k"
  by (intro wlp_begin_tx) auto

lemma wlp_commit_tx_ok [wlpI]:
  assumes "chk c d \<Longrightarrow> Q () d None"
  shows "wlp (commit_tx chk) (onOk Q) c (Some d)"
  using assms by (intro wlp_commit_tx) auto

lemma onOkI [wlpI]: "Q a c k \<Longrightarrow> onOk Q (Inr a) c k"
  by simp

lemma wlp_thenOk [wlpI]:
  "wlp m (onOk (\<lambda>a. wlp (f a) (onOk Q))) c k \<Longrightarrow> wlp (thenOk m f) (onOk Q) c k"
  unfolding thenOk_def
  by (rule wlp_bnd, erule wlp_mono) (auto intro: wlp_ret split: sum.splits)

lemma wlp_if [wlpI]:
  "(b \<Longrightarrow> wlp m Q c k) \<Longrightarrow> (\<not> b \<Longrightarrow> wlp n Q c k) \<Longrightarrow> wlp (if b then m else n) Q c k"
  by simp

lemma wlp_case_option [wlpI]:
  "(x = None \<Longrightarrow> wlp m Q c k) \<Longrightarrow> (\<And>y. x = Some y \<Longrightarrow> wlp (n y) Q c k) \<Longrightarrow>
     wlp (case x of None \<Rightarrow> m | Some y \<Rightarrow> n y) Q c k"
  by (cases x) auto

lemma wlp_case_sum [wlpI]:
  "(\<And>y. x = Inl y \<Longrightarrow> wlp (m y) Q c k) \<Longrightarrow> (\<And>y. x = Inr y \<Longrightarrow> wlp (n y) Q c k) \<Longrightarrow>
     wlp (case x of Inl y \<Rightarrow> m y | Inr y \<Rightarrow> n y) Q c k"
  by (cases x) auto

lemma wlp_case_prod [wlpI]:
  "(\<And>a b. x = (a, b) \<Longrightarrow> wlp (n a b) Q c k) \<Longrightarrow> wlp (case x of (a, b) \<Rightarrow> n a b) Q c k"
  by (cases x) auto

lemma wlp_let [wlpI]: "wlp (f x) Q c k \<Longrightarrow> wlp (Let x f) Q c k"
  by simp

lemma wlp_const: "A \<Longrightarrow> wlp m (\<lambda>_ _ _. A) c k"
  by (simp add: wlp_def)

lemma wlp_const_ok: "A \<Longrightarrow> wlp m (onOk (\<lambda>x. wlp (f x) (\<lambda>_ _ _. A))) c k"
  by (auto simp: wlp_def onOk_def split: sum.splits)

text \<open>Loops: \<open>I\<close> relates the elements still to handle to the working copy.\<close>

lemma wlp_iterOk:
  assumes "I xs d" and "\<And>d'. I [] d' \<Longrightarrow> Q () c (Some d')"
    and step: "\<And>x ys d. I (x # ys) d \<Longrightarrow>
      wlp (f x) (onOk (\<lambda>_ c' k'. c' = c \<and> (\<exists>d'. k' = Some d' \<and> I ys d'))) c (Some d)"
  shows "wlp (iterOk f xs) (onOk Q) c (Some d)"
  using assms(1)
proof (induction xs arbitrary: d)
  case Nil
  then show ?case by (auto intro!: wlpI assms(2))
next
  case (Cons x xs)
  show ?case
    unfolding iterOk.simps
    by (rule wlp_thenOk, rule wlp_mono [OF step [OF Cons.prems]])
       (auto simp: onOk_def split: sum.splits intro: Cons.IH)
qed

lemma wlp_mapA:
  assumes "I xs d []" and "\<And>ys d'. I [] d' ys \<Longrightarrow> Q ys c (Some d')"
    and step: "\<And>x xs d ys. I (x # xs) d ys \<Longrightarrow>
      wlp (f x) (\<lambda>y c' k'. c' = c \<and> (\<exists>d'. k' = Some d' \<and> I xs d' (ys @ [y]))) c (Some d)"
  shows "wlp (mapA f xs) Q c (Some d)"
proof -
  have "I xs d ys \<Longrightarrow> wlp (mapA f xs) (\<lambda>zs c' k'. c' = c \<and> (\<exists>d'. k' = Some d' \<and> I [] d' (ys @ zs))) c (Some d)"
    for ys
  proof (induction xs arbitrary: d ys)
    case Nil
    then show ?case by (auto intro!: wlpI)
  next
    case (Cons x xs)
    show ?case
      unfolding mapA.simps
    proof (rule wlp_bnd, rule wlp_mono [OF step [OF Cons.prems]], clarify)
      fix y d'
      assume "I xs d' (ys @ [y])"
      from Cons.IH [OF this]
      show "wlp (bnd (mapA f xs) (\<lambda>ys. ret (y # ys)))
          (\<lambda>zs c' k'. c' = c \<and> (\<exists>d'. k' = Some d' \<and> I [] d' (ys @ zs))) c (Some d')"
        by - (rule wlp_bnd, erule wlp_mono, auto intro!: wlpI)
    qed
  qed
  from this [OF assms(1)] show ?thesis by (rule wlp_mono) (auto intro: assms(2))
qed

lemma wlpD: "wlp m Q (committed w) (working w) \<Longrightarrow> m w = (Val a, w') \<Longrightarrow> Q a (committed w') (working w')"
  unfolding wlp_def by blast

text \<open>Guards, executed.\<close>

lemma bnd_require: "bnd (require b r) f w = (if b then f () w else (Reply r, w))"
  by (simp add: bnd_def require_def ret_def reply_def)

lemma bnd_gets: "bnd (gets g) f w = f (g w) w"
  by (simp add: bnd_def gets_def)

lemma respond_Reply: "respond (reply r) w = (r, w)"
  by (simp add: respond_def reply_def)

lemma respond_if: "respond (if b then m else n) w = (if b then respond m w else respond n w)"
  by simp

lemma respond_guard: "respond (bnd (require b r) f) w = (if b then respond (f ()) w else (r, w))"
  by (simp add: respond_def bnd_require)

lemma respond_now: "respond (bnd (gets g) f) w = respond (f (g w)) w"
  by (simp add: respond_def bnd_gets)

text \<open>A handler that ends outside the responses \<open>P\<close> of its early returns.\<close>

lemma respond_wlp:
  assumes "respond m w = (r, w')" and "replies P m" and "\<not> P r"
    and "wlp m Q (committed w) (working w)"
  shows "Q r (committed w') (working w')"
  using respond_Val [OF assms(1-3)] assms(4) by (auto simp: wlp_def)

lemma tx_local_respond: "tx_local m \<Longrightarrow> committed (snd (respond m w)) = committed w"
  by (auto simp: tx_local_def respond_def split: prod.splits step.splits) (metis snd_conv)+

subsection \<open>Final responses\<close>

text \<open>\<open>returns P m\<close>: whenever \<open>m\<close> ends with a value, the value satisfies \<open>P\<close>.\<close>

definition returns :: "('a \<Rightarrow> bool) \<Rightarrow> ('s, 'a) act \<Rightarrow> bool" where
  "returns P m \<longleftrightarrow> (\<forall>w a w'. m w = (Val a, w') \<longrightarrow> P a)"

named_theorems returnsI \<open>bounds on the values of actions\<close>

lemma returns_ret [returnsI]: "P a \<Longrightarrow> returns P (ret a)"
  by (simp add: returns_def ret_def)

lemma returns_reply [returnsI]: "returns P (reply r)"
  by (simp add: returns_def reply_def)

lemma returns_bnd [returnsI]: "(\<And>a. returns P (f a)) \<Longrightarrow> returns P (bnd m f)"
  by (auto simp: returns_def bnd_def split: prod.splits step.splits)

lemma returns_if [returnsI]: "returns P m \<Longrightarrow> returns P n \<Longrightarrow> returns P (if b then m else n)"
  by simp

lemma returns_case_option [returnsI]:
  "returns P m \<Longrightarrow> (\<And>y. returns P (n y)) \<Longrightarrow> returns P (case x of None \<Rightarrow> m | Some y \<Rightarrow> n y)"
  by (cases x) auto

lemma returns_case_sum [returnsI]:
  "(\<And>y. returns P (m y)) \<Longrightarrow> (\<And>y. returns P (n y)) \<Longrightarrow>
     returns P (case x of Inl y \<Rightarrow> m y | Inr y \<Rightarrow> n y)"
  by (cases x) auto

lemma returns_case_prod [returnsI]:
  "(\<And>a b. returns P (n a b)) \<Longrightarrow> returns P (case x of (a, b) \<Rightarrow> n a b)"
  by (cases x) auto

lemma returns_let [returnsI]: "returns P (f x) \<Longrightarrow> returns P (Let x f)"
  by simp

lemma returns_finish_tx [returnsI]: "returns P m \<Longrightarrow> returns P (finish_tx m)"
  by (auto simp: returns_def finish_tx_Val)

text \<open>A handler that writes its early responses before it commits.\<close>

lemma respond_atomic:
  assumes "reply_safe m" and "returns P m"
  shows "P (fst (respond m w)) \<or> committed (snd (respond m w)) = committed w"
proof -
  obtain r w' where rw: "respond m w = (r, w')" by (cases "respond m w")
  have safe: "\<And>r w'. m w = (Reply r, w') \<Longrightarrow> committed w' = committed w" and ok: "\<And>a w'. m w = (Val a, w') \<Longrightarrow> P a"
    using assms by (simp add: reply_safe_def, unfold returns_def, blast)
  from rw show ?thesis
    by (rule respond_cases) (auto simp: rw dest: safe ok)
qed

subsection \<open>Evaluation\<close>

text \<open>The equations that run a handler on a concrete session; the examples use them.\<close>

lemmas run_simps = bnd_def ret_def reply_def require_def gets_def newUUID_def orReply_def
  orReplyWith_def orZero_def db_exec_def tx_exec_def abort_tx_def begin_tx_def commit_tx_def
  finish_tx_def thenOk_def respond_def reading_def readRow_def

subsection \<open>Two idioms of GizWay\<close>

text \<open>\<open>updated, err := result.RowsAffected()\<close>, required to be one row.\<close>

definition exactlyOne :: "('s, sqlerr + nat) act \<Rightarrow> ('s, sqlerr + unit) act" where
  "exactlyOne m = thenOk m (\<lambda>n. ret (if n = 1 then Inr () else Inl Raised))"

definition inTransaction :: "('db world, sqlerr + 'a) act \<Rightarrow> ('db world, sqlerr + 'a) act" where
  "inTransaction m = bnd begin_tx (\<lambda>x. case x of Inl e \<Rightarrow> ret (Inl e) | Inr _ \<Rightarrow> finish_tx m)"

text \<open>
  \<open>err_safe m\<close>: an error that \<open>m\<close> returns comes with an unchanged database. Together with the
  partial correctness of \<open>m\<close> it says what \<open>m\<close> does whatever happens.
\<close>

definition err_safe :: "('db world, sqlerr + 'a) act \<Rightarrow> bool" where
  "err_safe m \<longleftrightarrow> (\<forall>w e w'. m w = (Val (Inl e), w') \<longrightarrow> committed w' = committed w)"

named_theorems err_safeI \<open>actions whose errors leave the database alone\<close>

lemma err_safe_tx_local: "tx_local m \<Longrightarrow> err_safe m"
  by (auto simp: err_safe_def tx_local_def) (metis snd_conv)

lemma err_safe_commit [err_safeI]: "err_safe (commit_tx chk)"
  by (auto simp: err_safe_def commit_tx_def split: option.splits if_splits)

lemma err_safe_ret [err_safeI]: "err_safe (ret x)"
  by (simp add: err_safe_def ret_def)

lemma err_safe_bnd [err_safeI]: "tx_local m \<Longrightarrow> (\<And>a. err_safe (f a)) \<Longrightarrow> err_safe (bnd m f)"
  by (auto simp: err_safe_def tx_local_def bnd_def split: prod.splits step.splits) (metis snd_conv)+

lemma err_safe_thenOk [err_safeI]: "tx_local m \<Longrightarrow> (\<And>a. err_safe (f a)) \<Longrightarrow> err_safe (thenOk m f)"
  unfolding thenOk_def by (rule err_safe_bnd) (auto split: sum.split intro: err_safe_ret)

lemma err_safe_returning [err_safeI]: "err_safe m \<Longrightarrow> err_safe (thenOk m (\<lambda>a. ret (Inr (f a))))"
  by (auto simp: err_safe_def thenOk_def bnd_def ret_def split: prod.splits step.splits sum.splits)

lemma err_safe_finish_tx [err_safeI]: "err_safe m \<Longrightarrow> err_safe (finish_tx m)"
  by (auto simp: err_safe_def finish_tx_Val)

lemma err_safe_if [err_safeI]: "err_safe m \<Longrightarrow> err_safe n \<Longrightarrow> err_safe (if b then m else n)"
  by simp

lemma err_safe_case_sum [err_safeI]:
  "(\<And>y. err_safe (m y)) \<Longrightarrow> (\<And>y. err_safe (n y)) \<Longrightarrow> err_safe (case x of Inl y \<Rightarrow> m y | Inr y \<Rightarrow> n y)"
  by (cases x) auto

lemma err_safe_case_option [err_safeI]:
  "err_safe m \<Longrightarrow> (\<And>y. err_safe (n y)) \<Longrightarrow> err_safe (case x of None \<Rightarrow> m | Some y \<Rightarrow> n y)"
  by (cases x) auto

lemma err_safe_let [err_safeI]: "err_safe (f x) \<Longrightarrow> err_safe (Let x f)"
  by simp

lemma err_safe_inTransaction [err_safeI]: "err_safe m \<Longrightarrow> err_safe (inTransaction m)"
  unfolding inTransaction_def
  by (intro err_safe_bnd tx_local_begin_tx) (auto split: sum.split intro: err_safeI)

lemma replies_exactlyOne [repliesI]: "replies P m \<Longrightarrow> replies P (exactlyOne m)"
  unfolding exactlyOne_def by (intro repliesI)

lemma replies_inTransaction [repliesI]: "replies P m \<Longrightarrow> replies P (inTransaction m)"
  unfolding inTransaction_def by (intro repliesI)

lemma tx_local_exactlyOne [tx_localI]: "tx_local m \<Longrightarrow> tx_local (exactlyOne m)"
  unfolding exactlyOne_def by (intro tx_localI)

lemma wlp_exactlyOne [wlpI]: "wlp m (onOk (\<lambda>n c' k'. n = 1 \<longrightarrow> Q () c' k')) c k \<Longrightarrow> wlp (exactlyOne m) (onOk Q) c k"
  unfolding exactlyOne_def
  by (rule wlp_thenOk, erule wlp_mono) (auto simp: onOk_def split: sum.splits intro!: wlp_ret)

lemma wlp_inTransaction [wlpI]:
  "wlp m (onOk (\<lambda>a c' k'. Q a c' None)) c (Some c) \<Longrightarrow> wlp (inTransaction m) (onOk Q) c k"
  unfolding inTransaction_def
  by (rule wlp_bnd, rule wlp_begin_tx) (auto simp: onOk_def intro!: wlp_ret wlp_finish_tx elim!: wlp_mono)

lemma wp_of_wlp:
  assumes "replies (\<lambda>_. False) m" and "err_safe m" and "wlp m (onOk Q) (committed w) (working w)"
  shows "wp m (\<lambda>x w'. case x of Inl e \<Rightarrow> committed w' = committed w | Inr a \<Rightarrow> Q a (committed w') (working w'))
    (\<lambda>_ _. False) w"
proof (cases "m w")
  case (Pair x w')
  show ?thesis
  proof (cases x)
    case (Reply r)
    with Pair assms(1) show ?thesis by (simp add: replies_def)
  next
    case (Val y)
    with Pair wlpD [OF assms(3), of y w'] assms(2) show ?thesis
      by (cases y) (auto simp: wp_def err_safe_def)
  qed
qed

subsection \<open>Early responses of a run\<close>

text \<open>\<open>rlp m P c k\<close>: a response that \<open>m\<close> writes early from this database satisfies \<open>P\<close>.\<close>

definition rlp :: "('db world, 'a) act \<Rightarrow> (response \<Rightarrow> bool) \<Rightarrow> 'db \<Rightarrow> 'db option \<Rightarrow> bool" where
  "rlp m P c k \<longleftrightarrow> (\<forall>w r w'. committed w = c \<longrightarrow> working w = k \<longrightarrow> m w = (Reply r, w') \<longrightarrow> P r)"

lemma rlp_replies: "replies P m \<Longrightarrow> rlp m P c k"
  by (simp add: rlp_def replies_def)

lemma rlp_bnd: "rlp m P c k \<Longrightarrow> wlp m (\<lambda>a. rlp (f a) P) c k \<Longrightarrow> rlp (bnd m f) P c k"
  by (auto simp: rlp_def wlp_def bnd_def split: prod.splits step.splits)

lemma rlp_orReplyWith:
  "rlp m P c k \<Longrightarrow> wlp m (\<lambda>x _ _. \<forall>e. x = Inl e \<longrightarrow> P (r e)) c k \<Longrightarrow> rlp (orReplyWith m r) P c k"
  unfolding orReplyWith_def
  by (rule rlp_bnd, assumption, erule wlp_mono) (auto simp: rlp_def reply_def ret_def split: sum.splits)

lemma rlp_require: "(\<not> b \<Longrightarrow> P r) \<Longrightarrow> rlp (require b r) P c k"
  by (simp add: rlp_def require_def ret_def reply_def)

lemma rlp_finish_tx: "rlp m P c k \<Longrightarrow> rlp (finish_tx m) P c k"
  by (auto simp: rlp_def finish_tx_def split: prod.splits)

lemma rlp_case_prod: "(\<And>a b. x = (a, b) \<Longrightarrow> rlp (n a b) P c k) \<Longrightarrow> rlp (case x of (a, b) \<Rightarrow> n a b) P c k"
  by (cases x) auto

end
