(* ===== verification/Tables.thy ===== *)
theory Tables
  imports Effects "HOL-Library.Char_ord" "HOL-Library.List_Lexorder" "HOL-Library.Product_Lexorder"
begin

section \<open>Relational tables\<close>

text \<open>
  A table is the list of its rows, oldest first. The functions here are the SQL statements
  the sources send, as operations on such lists: a lookup by a condition, \<open>UPDATE ... WHERE\<close>,
  \<open>ORDER BY created_at,id\<close> (text in byte order) and \<open>INSERT\<close> under \<open>CHECK\<close>, foreign-key
  and \<open>UNIQUE\<close> constraints. The locale \<open>keyed_insert\<close> is the contract between a table and
  the handlers that rely on a key being unique.
\<close>

definition updateRows :: "('r \<Rightarrow> bool) \<Rightarrow> ('r \<Rightarrow> 'r) \<Rightarrow> 'r list \<Rightarrow> 'r list" where
  "updateRows P f t = map (\<lambda>r. if P r then f r else r) t"

definition countRows :: "('r \<Rightarrow> bool) \<Rightarrow> 'r list \<Rightarrow> nat" where
  "countRows P t = length (filter P t)"

definition orderBy :: "('r \<Rightarrow> time) \<Rightarrow> ('r \<Rightarrow> string) \<Rightarrow> 'r list \<Rightarrow> 'r list" where
  "orderBy created ident t = sort_key (\<lambda>r. (created r, ident r)) t"

text \<open>
  \<open>insertRow chk fk uniqs r t\<close> appends \<open>r\<close>: \<open>chk\<close> is the row's \<open>CHECK\<close> constraints,
  \<open>fk\<close> says whether its references exist, and \<open>uniqs\<close> lists the table's unique
  constraints by name, each with the relation of being equal on its columns.
\<close>

type_synonym 'r uniq = "string \<times> ('r \<Rightarrow> 'r \<Rightarrow> bool)"

definition insertRow :: "bool \<Rightarrow> bool \<Rightarrow> 'r uniq list \<Rightarrow> 'r \<Rightarrow> 'r list \<Rightarrow> sqlerr + 'r list" where
  "insertRow chk fk uniqs r t =
     (if \<not> chk then Inl CheckViolation
      else case find (\<lambda>(_, same). list_ex (same r) t) uniqs of
             Some (c, _) \<Rightarrow> Inl (UniqueViolation c)
           | None \<Rightarrow> if fk then Inr (t @ [r]) else Inl ForeignKeyViolation)"

lemma insertRow_Inr:
  "insertRow chk fk uniqs r t = Inr t' \<longleftrightarrow>
     chk \<and> fk \<and> t' = t @ [r] \<and> (\<forall>u \<in> set uniqs. \<forall>x \<in> set t. \<not> snd u r x)"
proof (cases "find (\<lambda>(_, same). list_ex (same r) t) uniqs")
  case None
  then have "\<forall>u \<in> set uniqs. \<forall>x \<in> set t. \<not> snd u r x"
    by (fastforce simp: find_None_iff list_ex_iff)
  with None show ?thesis by (auto simp: insertRow_def)
next
  case (Some u)
  then have "u \<in> set uniqs" and "list_ex (snd u r) t"
    by (auto simp: find_Some_iff) (metis nth_mem)
  then have "\<exists>u \<in> set uniqs. \<exists>x \<in> set t. snd u r x"
    by (auto simp: list_ex_iff)
  with Some show ?thesis by (cases u) (auto simp: insertRow_def)
qed

lemma insertRow_taken:
  "insertRow chk fk uniqs r t = Inl (UniqueViolation c) \<Longrightarrow> \<exists>same x. (c, same) \<in> set uniqs \<and> x \<in> set t \<and> same r x"
  by (auto simp: insertRow_def find_Some_iff list_ex_iff split: if_splits option.splits) (metis nth_mem)+

lemma updateRows_Nil [simp]: "updateRows P f [] = []"
  by (simp add: updateRows_def)

lemma updateRows_append [simp]: "updateRows P f (t @ u) = updateRows P f t @ updateRows P f u"
  by (simp add: updateRows_def)

lemma updateRows_none: "(\<And>r. r \<in> set t \<Longrightarrow> \<not> P r) \<Longrightarrow> updateRows P f t = t"
  by (induction t) (auto simp: updateRows_def)

lemma map_updateRows: "(\<And>r. g (f r) = g r) \<Longrightarrow> map g (updateRows P f t) = map g t"
  by (simp add: updateRows_def)

lemma set_updateRows_image:
  "(\<And>r. g (f r) = g r) \<Longrightarrow> g ` set (updateRows P f t) = g ` set t"
  by (metis map_updateRows list.set_map)

lemma find_append: "find P (t @ u) = (case find P t of None \<Rightarrow> find P u | Some x \<Rightarrow> Some x)"
  by (induction t) auto

text \<open>Rows under a unique key.\<close>

lemma find_keyed: "distinct (map f xs) \<Longrightarrow> x \<in> set xs \<Longrightarrow> P x \<Longrightarrow> find (\<lambda>y. f y = f x \<and> P y) xs = Some x"
  by (induction xs) auto

lemma filter_keyed: "distinct (map f xs) \<Longrightarrow> x \<in> set xs \<Longrightarrow> P x \<Longrightarrow> filter (\<lambda>y. f y = f x \<and> P y) xs = [x]"
  by (induction xs) (auto simp: filter_empty_conv intro: rev_image_eqI)

lemma find_SomeD: "find P t = Some x \<Longrightarrow> x \<in> set t \<and> P x"
  by (auto simp: find_Some_iff)

lemma find_updateRows_other:
  "(\<And>r. r \<in> set t \<Longrightarrow> P r \<Longrightarrow> \<not> C r) \<Longrightarrow> (\<And>r. C r \<Longrightarrow> \<not> P (f r)) \<Longrightarrow>
     find P (updateRows C f t) = find P t"
  by (induction t) (auto simp: updateRows_def)

lemma set_orderBy [simp]: "set (orderBy c i t) = set t"
  by (simp add: orderBy_def)

subsection \<open>The contract of an insert under a unique key\<close>

locale keyed_insert =
  fixes rows :: "'db \<Rightarrow> 'r list"
    and key :: "'r \<Rightarrow> 'k"
    and ins :: "'r \<Rightarrow> ('db, 'a) query"
  assumes ins_appends: "ins r d = Inr (a, d') \<Longrightarrow> rows d' = rows d @ [r]"
    and ins_fresh: "ins r d = Inr (a, d') \<Longrightarrow> key r \<notin> key ` set (rows d)"
begin

definition lookup :: "'k \<Rightarrow> 'db \<Rightarrow> 'r option" where
  "lookup k d = find (\<lambda>x. key x = k) (rows d)"

lemma find_fresh: "ins r d = Inr (a, d') \<Longrightarrow> find (\<lambda>x. key x = key r) (rows d) = None"
  using ins_fresh [of r d a d'] by (auto simp: find_None_iff) (metis image_eqI)

lemma lookup_inserted: "ins r d = Inr (a, d') \<Longrightarrow> lookup (key r) d' = Some r"
  by (simp add: lookup_def ins_appends find_append find_fresh)

lemma lookup_kept: "ins r d = Inr (a, d') \<Longrightarrow> lookup k d = Some x \<Longrightarrow> lookup k d' = Some x"
  by (simp add: lookup_def ins_appends find_append)

lemma lookup_other: "ins r d = Inr (a, d') \<Longrightarrow> k \<noteq> key r \<Longrightarrow> lookup k d' = lookup k d"
  by (simp add: lookup_def ins_appends find_append split: option.split)

lemma taken_rejected: "lookup k d = Some x \<Longrightarrow> key r = k \<Longrightarrow> \<exists>e. ins r d = Inl e"
  by (cases "ins r d") (auto simp: lookup_def dest: find_fresh)

lemma keys_distinct:
  "ins r d = Inr (a, d') \<Longrightarrow> distinct (map key (rows d)) \<Longrightarrow> distinct (map key (rows d'))"
  using ins_fresh [of r d a d'] by (auto simp: ins_appends)

end

end
