(* ===== verification/WayRating.thy ===== *)
theory WayRating
  imports Tables Complex_Main "HOL-Library.Word" "HOL-Library.Product_Lexorder" "HOL-Library.Multiset"
begin

section \<open>Rating of AI usage and choice of the cheapest provider keys\<close>

text \<open>
  The pure part of \<open>internal/gizway/protocol.go\<close>, with the price checks of \<open>handler.go\<close> and
  \<open>admin.go\<close>: what a call costs (\<open>ceilMulDiv\<close>, \<open>rate\<close>, \<open>ratedUsage\<close>), which provider keys may
  serve it (\<open>pricesCoverMetrics\<close>, \<open>comparePrices\<close>, \<open>cheapestTargets\<close>, \<open>selected\<close>), and which
  price lists are accepted (\<open>validatePrices\<close>, \<open>samePrices\<close>, \<open>validCustomerPrices\<close>). The 128-bit
  product and quotient of \<open>math/bits\<close> are on machine words; \<open>math/big.Rat\<close> is \<open>rat\<close>.
\<close>

subsection \<open>Data\<close>

record price_row =
  pw_metric :: string
  pw_unit :: int
  pw_amount :: int

record key_price =
  kp_model :: string
  kp_metric :: string
  kp_unit :: int
  kp_microcredits :: int

record execution_target =
  et_provider :: string
  et_endpoint :: string
  et_credential :: string
  et_model :: string
  et_route :: string
  et_weight :: int

record key_payment =
  py_merchant :: string
  py_prices :: "price_row list"

record llm_usage =
  prompt_tokens :: int
  completion_tokens :: int
  total_tokens :: int

definition zero_usage :: llm_usage where
  "zero_usage = \<lparr> prompt_tokens = 0, completion_tokens = 0, total_tokens = 0 \<rparr>"

subsection \<open>\<open>ceilMulDiv\<close>\<close>

text \<open>\<open>bits.Mul64\<close> and \<open>bits.Div64\<close>; \<open>None\<close> is the panic of a quotient that does not fit.\<close>

definition mul64 :: "64 word \<Rightarrow> 64 word \<Rightarrow> 64 word \<times> 64 word" where
  "mul64 x y = (let p = uint x * uint y in (word_of_int (p div 2 ^ 64), word_of_int p))"

definition div64 :: "64 word \<Rightarrow> 64 word \<Rightarrow> 64 word \<Rightarrow> (64 word \<times> 64 word) option" where
  "div64 hi lo y =
     (if y \<le> hi then None
      else let n = uint hi * 2 ^ 64 + uint lo
           in Some (word_of_int (n div uint y), word_of_int (n mod uint y)))"

definition ceilMulDiv :: "int \<Rightarrow> int \<Rightarrow> int \<Rightarrow> int option" where
  "ceilMulDiv left right divisor =
     (case mul64 (word_of_int left) (word_of_int right) of (hi, lo) \<Rightarrow>
        let d = word_of_int divisor :: 64 word in
        if d \<le> hi then Some max_int64
        else case div64 hi lo d of
          None \<Rightarrow> None
        | Some (whole, remainder) \<Rightarrow>
            let q = (if remainder \<noteq> 0 then whole + 1 else whole) in
            if word_of_int max_int64 < q then Some max_int64 else Some (sint q))"

subsection \<open>\<open>rate\<close>\<close>

text \<open>
  The outer \<open>None\<close> is a panic; \<open>Inl metric\<close> is the error about an unsupported metric.
\<close>

definition metricUnits :: "llm_usage \<Rightarrow> string \<Rightarrow> int option" where
  "metricUnits usage metric =
     (if metric = ''input_tokens'' then Some (prompt_tokens usage)
      else if metric = ''output_tokens'' then Some (completion_tokens usage)
      else None)"

fun rateFrom :: "llm_usage \<Rightarrow> int \<Rightarrow> price_row list \<Rightarrow> (string + int) option" where
  "rateFrom usage total_sum [] = Some (Inr total_sum)"
| "rateFrom usage total_sum (p # ps) =
     (case metricUnits usage (pw_metric p) of
        None \<Rightarrow> Some (Inl (pw_metric p))
      | Some units \<Rightarrow>
          if 0 < pw_unit p \<and> 0 < units \<and> 0 < pw_amount p
          then case ceilMulDiv units (pw_amount p) (pw_unit p) of
                 None \<Rightarrow> None
               | Some component \<Rightarrow>
                   if wrap64 (max_int64 - total_sum) < component then Some (Inr max_int64)
                   else rateFrom usage (wrap64 (total_sum + component)) ps
          else rateFrom usage total_sum ps)"

definition rate :: "llm_usage \<Rightarrow> price_row list \<Rightarrow> (string + int) option" where
  "rate usage prices = rateFrom usage 0 prices"

definition ratedUsage ::
  "llm_usage option \<Rightarrow> price_row list \<Rightarrow> price_row list \<Rightarrow> (string + int \<times> int) option" where
  "ratedUsage usage customer provider =
     (let u = (case usage of None \<Rightarrow> zero_usage | Some u \<Rightarrow> u) in
      case rate u customer of
        None \<Rightarrow> None
      | Some (Inl e) \<Rightarrow> Some (Inl e)
      | Some (Inr gross) \<Rightarrow>
          (case rate u provider of
             None \<Rightarrow> None
           | Some (Inl e) \<Rightarrow> Some (Inl e)
           | Some (Inr commission) \<Rightarrow> Some (Inr (gross, commission))))"

subsection \<open>The cheapest targets\<close>

definition pricesCoverMetrics :: "price_row list \<Rightarrow> price_row list \<Rightarrow> bool" where
  "pricesCoverMetrics providerPrices customerPrices =
     (let missing = set (map pw_metric customerPrices) in
      if missing = {} then False
      else foldl (\<lambda>m p. m - {pw_metric p}) missing providerPrices = {})"

definition threeWay :: "'a::linorder \<Rightarrow> 'a \<Rightarrow> int" where
  "threeWay x y = (if x < y then - 1 else if x = y then 0 else 1)"

text \<open>
  \<open>SetFrac64\<close> panics for a unit of 0; the tables exclude it (theory \<open>WaySync\<close>),
  and \<open>Fract a 0\<close> is then never evaluated.
\<close>

fun compareRows :: "price_row list \<Rightarrow> price_row list \<Rightarrow> int" where
  "compareRows (l # ls) (r # rs) =
     (if pw_metric l \<noteq> pw_metric r then threeWay (pw_metric l) (pw_metric r)
      else let comparison = threeWay (Fract (pw_amount l) (pw_unit l)) (Fract (pw_amount r) (pw_unit r))
           in if comparison \<noteq> 0 then comparison else compareRows ls rs)"
| "compareRows [] (r # rs) = - 1"
| "compareRows (l # ls) [] = 1"
| "compareRows [] [] = 0"

definition comparePrices :: "price_row list \<Rightarrow> price_row list \<Rightarrow> int" where
  "comparePrices left right = compareRows (sort_key pw_metric left) (sort_key pw_metric right)"

text \<open>\<open>sort.SliceStable\<close> with a strict weak order.\<close>

fun insertStable :: "('a \<Rightarrow> 'a \<Rightarrow> bool) \<Rightarrow> 'a \<Rightarrow> 'a list \<Rightarrow> 'a list" where
  "insertStable lt x [] = [x]"
| "insertStable lt x (y # ys) = (if lt y x then y # insertStable lt x ys else x # y # ys)"

definition sliceStable :: "('a \<Rightarrow> 'a \<Rightarrow> bool) \<Rightarrow> 'a list \<Rightarrow> 'a list" where
  "sliceStable lt xs = foldr (insertStable lt) xs []"

definition pricesOf :: "(string \<rightharpoonup> key_payment) \<Rightarrow> execution_target \<Rightarrow> price_row list" where
  "pricesOf payments t = (case payments (et_route t) of None \<Rightarrow> [] | Some p \<Rightarrow> py_prices p)"

definition cheapestTargets ::
  "execution_target list \<Rightarrow> (string \<rightharpoonup> key_payment) \<Rightarrow> execution_target list" where
  "cheapestTargets targets payments =
     (if length targets < 2 then targets
      else let sorted_targets = sliceStable (\<lambda>i j. comparePrices (pricesOf payments i) (pricesOf payments j) < 0) targets;
               cheapest = pricesOf payments (hd sorted_targets)
           in hd sorted_targets #
              takeWhile (\<lambda>t. comparePrices cheapest (pricesOf payments t) = 0) (tl sorted_targets))"

subsection \<open>Price lists\<close>

definition validMetric :: "string \<Rightarrow> bool" where
  "validMetric metric \<longleftrightarrow> metric = ''input_tokens'' \<or> metric = ''output_tokens''"

definition priceKey :: "key_price \<Rightarrow> string" where
  "priceKey p = kp_model p @ CHR 0x00 # kp_metric p"

fun validatePricesFrom :: "string list \<Rightarrow> key_price list \<Rightarrow> bool" where
  "validatePricesFrom seen [] = True"
| "validatePricesFrom seen (p # ps) =
     (if blank (kp_model p) \<or> \<not> validMetric (kp_metric p) \<or> kp_unit p \<le> 0 \<or> kp_microcredits p < 0 \<or>
         priceKey p \<in> set seen
      then False else validatePricesFrom (priceKey p # seen) ps)"

definition validatePrices :: "key_price list \<Rightarrow> bool" where
  "validatePrices prices = (if prices = [] then False else validatePricesFrom [] prices)"

definition samePrices :: "key_price list \<Rightarrow> key_price list \<Rightarrow> bool" where
  "samePrices left right =
     (if length left \<noteq> length right then False
      else let values = foldl (\<lambda>m p. m(priceKey p \<mapsto> p)) Map.empty left in
        list_all (\<lambda>p. case values (priceKey p) of
           None \<Rightarrow> False
         | Some other \<Rightarrow> kp_unit other = kp_unit p \<and> kp_microcredits other = kp_microcredits p) right)"

fun validCustomerPricesFrom :: "string list \<Rightarrow> price_row list \<Rightarrow> bool" where
  "validCustomerPricesFrom seen [] = True"
| "validCustomerPricesFrom seen (p # ps) =
     (if \<not> validMetric (pw_metric p) \<or> pw_unit p \<le> 0 \<or> pw_amount p < 0 \<or> pw_metric p \<in> set seen
      then False else validCustomerPricesFrom (pw_metric p # seen) ps)"

definition validCustomerPrices :: "price_row list \<Rightarrow> bool" where
  "validCustomerPrices prices = (if prices = [] then False else validCustomerPricesFrom [] prices)"


subsection \<open>\<open>ceilMulDiv\<close> on machine words\<close>

lemma div64_ok:
  assumes "0 \<le> p" and "p < 2 ^ 128" and "0 < d" and "d < 2 ^ 64" and "p div 2 ^ 64 < d"
  shows "div64 (word_of_int (p div 2 ^ 64)) (word_of_int p) (word_of_int d :: 64 word) =
    Some (word_of_int (p div d), word_of_int (p mod d))"
proof -
  have hi: "uint (word_of_int (p div 2 ^ 64) :: 64 word) = p div 2 ^ 64"
    using assms by (simp add: uint_word_of_int)
  have lo: "uint (word_of_int p :: 64 word) = p mod 2 ^ 64" by (simp add: uint_word_of_int)
  have d: "uint (word_of_int d :: 64 word) = d" using assms by (simp add: uint_word_of_int)
  have n: "p div 2 ^ 64 * 2 ^ 64 + p mod 2 ^ 64 = p" by simp
  have "\<not> (word_of_int d :: 64 word) \<le> word_of_int (p div 2 ^ 64)"
    using assms(5) hi d by (simp add: word_le_def)
  then show ?thesis by (simp only: div64_def Let_def hi lo d n if_False)
qed

lemma ceil_step: "0 < (m::int) \<Longrightarrow> m < d \<Longrightarrow> (m + d - 1) div d = 1"
proof -
  assume "0 < m" "m < d"
  then have "(m - 1 + d) div d = (m - 1) div d + 1" by (intro div_add_self2) simp
  also have "(m - 1) div d = 0" using \<open>0 < m\<close> \<open>m < d\<close> by (intro div_pos_pos_trivial) simp_all
  finally show ?thesis by (simp add: algebra_simps)
qed

lemma ceil_split: "0 < (d::int) \<Longrightarrow> (x + d - 1) div d = (if x mod d = 0 then x div d else x div d + 1)"
proof -
  assume d: "0 < d"
  have "x + d - 1 = (x mod d + d - 1) + d * (x div d)" by simp
  then have eq: "(x + d - 1) div d = x div d + (x mod d + d - 1) div d"
    using d by (simp only: div_mult_self2 order_less_imp_not_eq2 not_False_eq_True)
  show ?thesis
  proof (cases "x mod d = 0")
    case True then show ?thesis using d eq by simp
  next
    case False
    moreover have "0 \<le> x mod d" "x mod d < d" using d by simp_all
    ultimately show ?thesis using eq ceil_step [of "x mod d" d] by simp
  qed
qed

lemma word_small: "0 \<le> x \<Longrightarrow> x \<le> max_int64 \<Longrightarrow> sint (word_of_int x :: 64 word) = x"
  by (simp add: sint_sbintrunc' max_int64_def signed_take_bit_int_eq_self)

text \<open>
  The rounded-up quotient, saturated at the largest \<open>int64\<close>, with one exception: when the quotient
  is the largest 64-bit word and the remainder is not zero, the increment wraps to zero.
\<close>

lemma ceilMulDiv_eq:
  assumes "0 < l" "l \<le> max_int64" "0 < r" "r \<le> max_int64" "0 < d" "d \<le> max_int64"
  shows "ceilMulDiv l r d =
    Some (if l * r div d = 2 ^ 64 - 1 \<and> l * r mod d \<noteq> 0 then 0 else min max_int64 ((l * r + d - 1) div d))"
proof -
  define p where "p = l * r"
  have "p \<le> max_int64 * max_int64" using assms unfolding p_def by (intro mult_mono) simp_all
  then have p: "0 < p" "p < 2 ^ 128" using assms by (simp_all add: max_int64_def p_def)
  have u: "uint (word_of_int l :: 64 word) = l" "uint (word_of_int r :: 64 word) = r" "uint (word_of_int d :: 64 word) = d"
    using assms by (simp_all add: uint_word_of_int max_int64_def)
  have mul: "mul64 (word_of_int l) (word_of_int r) = (word_of_int (p div 2 ^ 64), word_of_int p)"
    by (simp only: mul64_def Let_def u p_def)
  have hi: "uint (word_of_int (p div 2 ^ 64) :: 64 word) = p div 2 ^ 64"
    using p by (simp add: uint_word_of_int)
  have le: "(word_of_int d :: 64 word) \<le> word_of_int (p div 2 ^ 64) \<longleftrightarrow> d \<le> p div 2 ^ 64"
    by (simp only: word_le_def hi u)
  have ceil: "(p + d - 1) div d = (if p mod d = 0 then p div d else p div d + 1)"
    by (rule ceil_split) (rule assms)
  have "p div 2 ^ 64 * 2 ^ 64 \<le> p" by (simp add: minus_mod_eq_div_mult [symmetric])
  show ?thesis unfolding p_def [symmetric]
  proof (cases "d \<le> p div 2 ^ 64")
    case True
    then have "d * 2 ^ 64 \<le> p div 2 ^ 64 * 2 ^ 64" by (rule mult_right_mono) simp
    with \<open>p div 2 ^ 64 * 2 ^ 64 \<le> p\<close> have "2 ^ 64 * d \<le> p" by simp
    then have "2 ^ 64 * d div d \<le> p div d" using assms(5) by (rule zdiv_mono1)
    then have "2 ^ 64 \<le> p div d" using assms(5) by simp
    with True show "ceilMulDiv l r d = Some (if p div d = 2 ^ 64 - 1 \<and> p mod d \<noteq> 0 then 0 else min max_int64 ((p + d - 1) div d))"
      by (simp add: ceilMulDiv_def mul [simplified] le [simplified] Let_def ceil max_int64_def)
  next
    case False
    then have small: "p div 2 ^ 64 < d" by simp
    have q: "0 \<le> p div d" "p div d < 2 ^ 64"
    proof -
      show "0 \<le> p div d" using p assms(5) by (simp add: pos_imp_zdiv_nonneg_iff)
      show "p div d < 2 ^ 64"
      proof (rule ccontr)
        assume "\<not> p div d < 2 ^ 64"
        then have "2 ^ 64 * d \<le> p div d * d" using assms(5) by (intro mult_right_mono) simp_all
        also have "\<dots> \<le> p" using assms(5) by (simp add: minus_mod_eq_div_mult [symmetric])
        finally have "d * 2 ^ 64 div 2 ^ 64 \<le> p div 2 ^ 64" by (intro zdiv_mono1) simp_all
        with small show False by simp
      qed
    qed
    have m: "0 \<le> p mod d" "p mod d < 2 ^ 63" using assms(5,6) by (auto simp: max_int64_def intro: less_le_trans [OF pos_mod_bound])
    have rem: "(word_of_int (p mod d) :: 64 word) \<noteq> 0 \<longleftrightarrow> p mod d \<noteq> 0"
      using m zdvd_not_zless [of "p mod d" "2 ^ 64"] by (auto simp: word_of_int_eq_0_iff)
    have "div64 (word_of_int (p div 2 ^ 64)) (word_of_int p) (word_of_int d :: 64 word) =
        Some (word_of_int (p div d), word_of_int (p mod d))"
      using p assms small by (intro div64_ok) (simp_all add: max_int64_def)
    with False have eq: "ceilMulDiv l r d =
      (let q = (if p mod d \<noteq> 0 then word_of_int (p div d) + 1 else word_of_int (p div d)) :: 64 word in
       if word_of_int max_int64 < q then Some max_int64 else Some (sint q))"
      by (simp only: ceilMulDiv_def mul prod.case Let_def le rem if_False option.case)
    show "ceilMulDiv l r d = Some (if p div d = 2 ^ 64 - 1 \<and> p mod d \<noteq> 0 then 0 else min max_int64 ((p + d - 1) div d))"
    proof -
      define v where "v = (if p mod d \<noteq> 0 then p div d + 1 else p div d)"
      have v: "0 \<le> v" "v \<le> 2 ^ 64" using q by (auto simp: v_def)
      have w: "(if p mod d \<noteq> 0 then word_of_int (p div d) + 1 else word_of_int (p div d)) = (word_of_int v :: 64 word)"
        by (simp add: v_def)
      have uv: "uint (word_of_int v :: 64 word) = v mod 2 ^ 64" by (simp add: uint_word_of_int)
      have lt: "word_of_int max_int64 < (word_of_int v :: 64 word) \<longleftrightarrow> max_int64 < v mod 2 ^ 64"
        unfolding word_less_def uv by (simp add: uint_word_of_int max_int64_def)
      have c: "(p + d - 1) div d = v" using ceil by (simp add: v_def)
      show ?thesis
      proof (cases "v = 2 ^ 64")
        case True
        then have "p div d = 2 ^ 64 - 1" "p mod d \<noteq> 0" using q by (auto simp: v_def split: if_splits)
        then show ?thesis using True by (simp add: eq w lt Let_def max_int64_def)
      next
        case False
        with v have "v mod 2 ^ 64 = v" by simp
        with False lt show ?thesis
          using v word_small [of v] by (auto simp: eq w Let_def c v_def [symmetric] not_less) (auto simp: v_def)
      qed
    qed
  qed
qed
subsection \<open>\<open>rate\<close> sums the rounded-up shares\<close>

text \<open>What a row is meant to cost, on unbounded integers.\<close>

definition rowCost :: "llm_usage \<Rightarrow> price_row \<Rightarrow> int" where
  "rowCost usage p =
     (let units = (if pw_metric p = ''input_tokens'' then prompt_tokens usage else completion_tokens usage) in
      if 0 < pw_unit p \<and> 0 < units \<and> 0 < pw_amount p
      then (units * pw_amount p + pw_unit p - 1) div pw_unit p else 0)"

text \<open>
  A row that \<open>ceilMulDiv\<close> rates exactly: its metric is known, its numbers fit 64 bits and its cost
  is not the one value that the increment wraps.
\<close>

definition ratable :: "llm_usage \<Rightarrow> price_row \<Rightarrow> bool" where
  "ratable usage p \<longleftrightarrow> validMetric (pw_metric p) \<and> pw_unit p \<le> max_int64 \<and> pw_amount p \<le> max_int64 \<and>
     prompt_tokens usage \<le> max_int64 \<and> completion_tokens usage \<le> max_int64 \<and> rowCost usage p \<noteq> 2 ^ 64"

lemma rowCost_nonneg: "0 \<le> rowCost usage p"
proof -
  have "0 < u \<Longrightarrow> 0 < pw_amount p \<Longrightarrow> 0 < pw_unit p \<Longrightarrow> 0 \<le> (u * pw_amount p + pw_unit p - 1) div pw_unit p" for u
    by (subst pos_imp_zdiv_nonneg_iff) (simp_all, smt (verit) mult_pos_pos)
  then show ?thesis by (simp add: rowCost_def Let_def)
qed

lemma metricUnits_valid:
  assumes "ratable usage p"
  obtains n where "metricUnits usage (pw_metric p) = Some n" and "n \<le> max_int64"
    and "(if pw_metric p = ''input_tokens'' then prompt_tokens usage else completion_tokens usage) = n"
  using assms by (auto simp: ratable_def validMetric_def metricUnits_def)

lemma rateFrom_eq:
  assumes "list_all (ratable usage) prices" and "0 \<le> t" and "t \<le> max_int64"
  shows "rateFrom usage t prices = Some (Inr (min max_int64 (t + sum_list (map (rowCost usage) prices))))"
  using assms
proof (induction prices arbitrary: t)
  case Nil
  then show ?case by simp
next
  case (Cons p ps)
  have p: "ratable usage p" and ps: "list_all (ratable usage) ps" using Cons.prems by simp_all
  from p obtain n where u: "metricUnits usage (pw_metric p) = Some n" and n: "n \<le> max_int64"
    and units: "(if pw_metric p = ''input_tokens'' then prompt_tokens usage else completion_tokens usage) = n"
    by (rule metricUnits_valid)
  have rest: "0 \<le> sum_list (map (rowCost usage) ps)" by (intro sum_list_nonneg) (auto simp: rowCost_nonneg)
  show ?case
  proof (cases "0 < pw_unit p \<and> 0 < n \<and> 0 < pw_amount p")
    case False
    then have "rowCost usage p = 0" by (auto simp: rowCost_def units)
    with False Cons.IH [OF ps Cons.prems(2,3)] show ?thesis by (auto simp: u)
  next
    case True
    then have c: "rowCost usage p = (n * pw_amount p + pw_unit p - 1) div pw_unit p" by (auto simp: rowCost_def units)
    have gap: "\<not> (n * pw_amount p div pw_unit p = 2 ^ 64 - 1 \<and> n * pw_amount p mod pw_unit p \<noteq> 0)"
      using p c ceil_split [of "pw_unit p" "n * pw_amount p"] True by (auto simp: ratable_def split: if_splits)
    have cm: "ceilMulDiv n (pw_amount p) (pw_unit p) = Some (min max_int64 (rowCost usage p))"
      using ceilMulDiv_eq [of n "pw_amount p" "pw_unit p"] p True gap n by (auto simp: ratable_def c)
    have w: "wrap64 (max_int64 - t) = max_int64 - t"
      using Cons.prems(2,3) by (intro wrap64_id) (simp add: int64_defs)
    show ?thesis
    proof (cases "max_int64 - t < min max_int64 (rowCost usage p)")
      case big: True
      then have "max_int64 \<le> t + sum_list (map (rowCost usage) (p # ps))" using rest by simp
      with big show ?thesis using True cm u w by simp
    next
      case False
      then have s: "t + min max_int64 (rowCost usage p) \<le> max_int64" by linarith
      then have w2: "wrap64 (t + min max_int64 (rowCost usage p)) = t + min max_int64 (rowCost usage p)"
        using Cons.prems(2) rowCost_nonneg [of usage p] by (intro wrap64_id) (auto simp: int64_defs)
      have "rateFrom usage (t + min max_int64 (rowCost usage p)) ps =
          Some (Inr (min max_int64 (t + min max_int64 (rowCost usage p) + sum_list (map (rowCost usage) ps))))"
        using Cons.prems(2) rowCost_nonneg [of usage p] s by (intro Cons.IH ps) (auto simp: max_int64_def)
      then show ?thesis using True cm u w w2 False rest Cons.prems(2) by (simp add: min_def)
    qed
  qed
qed

text \<open>What is rated is an amount.\<close>

lemma max_int64_nonneg: "0 \<le> max_int64" by (simp add: max_int64_def)

lemma sint_small:
  fixes q :: "64 word"
  assumes "\<not> word_of_int max_int64 < q"
  shows "0 \<le> sint q \<and> sint q \<le> max_int64"
proof -
  have "uint q \<le> max_int64" using assms by (simp add: word_less_def not_less max_int64_def)
  moreover from this have "sint q = uint q"
    using word_small [of "uint q"] by simp
  ultimately show ?thesis by simp
qed

lemma ceilMulDiv_range: "ceilMulDiv l r d = Some v \<Longrightarrow> 0 \<le> v \<and> v \<le> max_int64"
  using sint_small by (auto simp: ceilMulDiv_def Let_def max_int64_def split: prod.splits option.splits if_splits)

lemma rateFrom_range: "rateFrom u t ps = Some (Inr v) \<Longrightarrow> 0 \<le> t \<Longrightarrow> t \<le> max_int64 \<Longrightarrow> 0 \<le> v \<and> v \<le> max_int64"
proof (induction u t ps rule: rateFrom.induct)
  case (2 u t p ps)
  have wrap: "wrap64 (max_int64 - t) = max_int64 - t" "0 \<le> c \<Longrightarrow> c \<le> max_int64 - t \<Longrightarrow> wrap64 (t + c) = t + c" for c
    using "2.prems"(2,3) by (simp_all add: int64_defs)
  show ?case
  proof (cases "metricUnits u (pw_metric p)")
    case (Some units)
    show ?thesis
    proof (cases "0 < pw_unit p \<and> 0 < units \<and> 0 < pw_amount p")
      case True
      with "2.prems"(1) Some obtain c where c: "ceilMulDiv units (pw_amount p) (pw_unit p) = Some c"
        by (auto split: option.splits)
      note r = ceilMulDiv_range [OF c]
      show ?thesis
      proof (cases "max_int64 - t < c")
        case False
        with True Some c r "2.prems" "2.IH"(1) [OF Some True c] show ?thesis by (auto simp: wrap)
      qed (use True Some c "2.prems" wrap in \<open>auto simp: max_int64_nonneg\<close>)
    qed (use Some "2.prems" "2.IH"(2) in auto)
  qed (use "2.prems" in simp)
qed (simp add: max_int64_def)

lemma ratedUsage_range: "ratedUsage u c p = Some (Inr (g, cm)) \<Longrightarrow> 0 \<le> g \<and> g \<le> max_int64 \<and> 0 \<le> cm \<and> cm \<le> max_int64"
  by (auto simp: ratedUsage_def rate_def Let_def max_int64_def dest!: rateFrom_range split: option.splits sum.splits)

subsection \<open>\<open>comparePrices\<close> is a linear order on price vectors\<close>

text \<open>
  What price lists are compared by: for each metric, in the order of the metrics, the exact price per
  unit. Price vectors are compared lexicographically.
\<close>

definition priceVector :: "price_row list \<Rightarrow> (string \<times> rat) list" where
  "priceVector prices = map (\<lambda>p. (pw_metric p, of_int (pw_amount p) / of_int (pw_unit p))) (sort_key pw_metric prices)"

lemma threeWay_iff [simp]:
  "threeWay x y < 0 \<longleftrightarrow> x < y" "threeWay x y = 0 \<longleftrightarrow> x = y" "threeWay x y \<le> 0 \<longleftrightarrow> x \<le> y"
  by (auto simp: threeWay_def)

lemma compareRows_eq:
  "compareRows ls rs = threeWay (map (\<lambda>p. (pw_metric p, of_int (pw_amount p) / of_int (pw_unit p) :: rat)) ls)
     (map (\<lambda>p. (pw_metric p, of_int (pw_amount p) / of_int (pw_unit p))) rs)"
  by (induction ls rs rule: compareRows.induct) (auto simp: threeWay_def Let_def Fract_of_int_quotient)

lemma comparePrices_eq: "comparePrices l r = threeWay (priceVector l) (priceVector r)"
  by (simp add: comparePrices_def priceVector_def compareRows_eq)

lemma insertStable_eq: "insertStable (\<lambda>i j. f i < f j) x ys = insort_key f x ys"
  by (induction ys) (auto simp: not_less)

lemma sliceStable_eq: "sliceStable (\<lambda>i j. f i < (f j :: 'b::linorder)) xs = sort_key f xs"
  by (simp add: sliceStable_def sort_key_def insertStable_eq [abs_def])

lemma takeWhile_sorted_min:
  assumes "sorted (map f ts)" and "\<forall>t \<in> set ts. k \<le> f t"
  shows "takeWhile (\<lambda>t. k = f t) ts = filter (\<lambda>t. f t = (k :: 'b::linorder)) ts"
  using assms
proof (induction ts)
  case (Cons t ts)
  show ?case
  proof (cases "k = f t")
    case False
    with Cons.prems have "k < f t" by (simp add: order_le_less)
    with Cons.prems have "\<forall>u \<in> set (t # ts). k < f u" by auto
    then have "filter (\<lambda>t. f t = k) (t # ts) = []" by (intro filter_False) auto
    with False show ?thesis by simp
  qed (use Cons in auto)
qed simp

lemma cheapestTargets_filter:
  "cheapestTargets ts payments =
     filter (\<lambda>t. \<forall>u \<in> set ts. priceVector (pricesOf payments t) \<le> priceVector (pricesOf payments u)) ts"
proof (cases "length ts < 2")
  case True
  then have "ts = [] \<or> (\<exists>t. ts = [t])" by (cases ts; cases "tl ts") auto
  then show ?thesis by (auto simp: cheapestTargets_def comparePrices_eq)
next
  case False
  let ?f = "\<lambda>t. priceVector (pricesOf payments t)"
  obtain t ss where s: "sort_key ?f ts = t # ss" using False by (cases "sort_key ?f ts") (auto dest: arg_cong [where f = length])
  have sorted: "sorted (map ?f (t # ss))" by (metis s sorted_sort_key)
  have least: "\<forall>u \<in> set ts. ?f t \<le> ?f u" and mem: "t \<in> set ts"
    using sorted set_sort [of ?f ts] unfolding s by auto
  have "cheapestTargets ts payments = t # takeWhile (\<lambda>u. ?f t = ?f u) ss"
    using False s by (simp add: cheapestTargets_def comparePrices_eq sliceStable_eq)
  also have "\<dots> = filter (\<lambda>u. ?f u = ?f t) (sort_key ?f ts)"
    using takeWhile_sorted_min [of ?f ss "?f t"] sorted by (simp add: s)
  also have "\<dots> = filter (\<lambda>u. ?f u = ?f t) ts"
    by (rule sort_key_stable)
  also have "\<dots> = filter (\<lambda>t. \<forall>u \<in> set ts. priceVector (pricesOf payments t) \<le> priceVector (pricesOf payments u)) ts"
    by (rule filter_cong [OF HOL.refl]) (use least mem in \<open>auto intro: antisym\<close>)
  finally show ?thesis .
qed

text \<open>
  The same in terms of single metrics. \<open>costPer ps m\<close> is the price of one unit of \<open>m\<close>; a price list
  undercuts another if it is cheaper for some metric and equal for all metrics before that one.
\<close>

definition costPer :: "price_row list \<Rightarrow> string \<Rightarrow> rat" where
  "costPer ps m = (case find (\<lambda>p. pw_metric p = m) ps of
     None \<Rightarrow> 0 | Some p \<Rightarrow> of_int (pw_amount p) / of_int (pw_unit p))"

definition undercuts :: "string set \<Rightarrow> price_row list \<Rightarrow> price_row list \<Rightarrow> bool" where
  "undercuts M ps qs \<longleftrightarrow> (\<exists>m \<in> M. costPer ps m < costPer qs m \<and> (\<forall>m' \<in> M. m' < m \<longrightarrow> costPer ps m' = costPer qs m'))"

definition pricesAll :: "string set \<Rightarrow> price_row list \<Rightarrow> bool" where
  "pricesAll M ps \<longleftrightarrow> distinct (map pw_metric ps) \<and> set (map pw_metric ps) = M \<and> (\<forall>p \<in> set ps. 0 < pw_unit p)"

lemma costPer_row:
  "distinct (map pw_metric ps) \<Longrightarrow> p \<in> set ps \<Longrightarrow> costPer ps (pw_metric p) = of_int (pw_amount p) / of_int (pw_unit p)"
  by (induction ps) (auto simp: costPer_def)

lemma priceVector_metrics:
  assumes "pricesAll M ps"
  shows "priceVector ps = map (\<lambda>m. (m, costPer ps m)) (sorted_list_of_set M)"
proof -
  have "map pw_metric (sort_key pw_metric ps) = sorted_list_of_set M"
    using assms by (intro sorted_distinct_set_unique) (auto simp: pricesAll_def distinct_map)
  moreover have "priceVector ps = map (\<lambda>m. (m, costPer ps m)) (map pw_metric (sort_key pw_metric ps))"
    using assms by (auto simp: priceVector_def pricesAll_def costPer_row)
  ultimately show ?thesis by simp
qed

lemma lex_pointwise:
  fixes f g :: "'a::linorder \<Rightarrow> 'b::linorder"
  assumes "sorted ms" and "distinct ms"
  shows "map (\<lambda>m. (m, f m)) ms < map (\<lambda>m. (m, g m)) ms \<longleftrightarrow>
    (\<exists>m \<in> set ms. f m < g m \<and> (\<forall>m' \<in> set ms. m' < m \<longrightarrow> f m' = g m'))"
  using assms
proof (induction ms)
  case (Cons m ms)
  then have above: "\<forall>x \<in> set ms. m < x" by (auto simp: order_le_less)
  then have "\<not> x < m" if "x \<in> set ms" for x using that by (meson less_asym)
  with above Cons show ?case by auto
qed simp

lemma undercuts_iff:
  assumes "pricesAll M ps" and "pricesAll M qs"
  shows "undercuts M ps qs \<longleftrightarrow> priceVector ps < priceVector qs"
proof -
  have "finite M" using assms(1) by (auto simp: pricesAll_def)
  then show ?thesis
    unfolding priceVector_metrics [OF assms(1)] priceVector_metrics [OF assms(2)] undercuts_def
    by (subst lex_pointwise) simp_all
qed

subsection \<open>Price lists\<close>

lemma foldl_remove: "foldl (\<lambda>m p. m - {f p}) S ps = S - f ` set ps"
  by (induction ps arbitrary: S) auto

lemma validMetric_no_zero: "validMetric m \<Longrightarrow> CHR 0x00 \<notin> set m"
  by (auto simp: validMetric_def)

lemma append_sep_inject: "c \<notin> set x \<Longrightarrow> c \<notin> set y \<Longrightarrow> m @ c # x = n @ c # y \<longleftrightarrow> m = n \<and> x = y"
proof (induction m arbitrary: n)
  case Nil
  then show ?case by (cases n) auto
next
  case (Cons a m)
  note IH = Cons.IH and prems = Cons.prems
  show ?case
  proof (cases n)
    case Nil
    then show ?thesis using prems by auto
  next
    case (Cons b n')
    show ?thesis unfolding Cons append_Cons list.inject using IH [OF prems, of n'] by blast
  qed
qed

lemma priceKey_inject:
  "validMetric (kp_metric p) \<Longrightarrow> validMetric (kp_metric q) \<Longrightarrow>
     priceKey p = priceKey q \<longleftrightarrow> kp_model p = kp_model q \<and> kp_metric p = kp_metric q"
  unfolding priceKey_def by (rule append_sep_inject; rule validMetric_no_zero)

lemma validatePricesFrom_iff:
  "validatePricesFrom seen ps \<longleftrightarrow>
     list_all (\<lambda>p. nonBlank (kp_model p) \<and> validMetric (kp_metric p) \<and> 0 < kp_unit p \<and> 0 \<le> kp_microcredits p) ps \<and>
     distinct (map priceKey ps) \<and> set (map priceKey ps) \<inter> set seen = {}"
  by (induction ps arbitrary: seen) (auto simp: not_le not_less)

lemma foldl_map_distinct:
  "distinct (map f ps) \<Longrightarrow> f p \<notin> f ` set ps \<Longrightarrow> foldl (\<lambda>m p. m(f p \<mapsto> p)) m ps (f p) = m (f p)"
  by (induction ps arbitrary: m) auto

lemma foldl_map_lookup:
  assumes "distinct (map f ps)" and "p \<in> set ps"
  shows "foldl (\<lambda>m p. m(f p \<mapsto> p)) m ps (f p) = Some p"
  using assms by (induction ps arbitrary: m) (auto simp: foldl_map_distinct)

lemma foldl_map_cases:
  assumes "distinct (map f ps)"
  shows "foldl (\<lambda>m p. m(f p \<mapsto> p)) Map.empty ps k = find (\<lambda>p. f p = k) ps"
proof (cases "find (\<lambda>p. f p = k) ps")
  case None
  then have "\<forall>p \<in> set ps. f p \<noteq> k" by (simp add: find_None_iff)
  then have "foldl (\<lambda>m p. m(f p \<mapsto> p)) m ps k = m k" for m by (induction ps arbitrary: m) auto
  with None show ?thesis by simp
next
  case (Some p)
  then have "p \<in> set ps" "f p = k" by (auto simp: find_Some_iff)
  with foldl_map_lookup [OF assms, of p] Some show ?thesis by auto
qed

lemma samePrices_mset:
  assumes "validatePrices l" and "validatePrices r"
  shows "samePrices l r \<longleftrightarrow> mset l = mset r"
proof -
  have dl: "distinct (map priceKey l)" and dr: "distinct (map priceKey r)"
    and ml: "\<And>p. p \<in> set l \<Longrightarrow> validMetric (kp_metric p)" and mr: "\<And>p. p \<in> set r \<Longrightarrow> validMetric (kp_metric p)"
    using assms by (auto simp: validatePrices_def validatePricesFrom_iff list_all_iff split: if_splits)
  have row: "(case find (\<lambda>q. priceKey q = priceKey p) l of None \<Rightarrow> False
      | Some q \<Rightarrow> kp_unit q = kp_unit p \<and> kp_microcredits q = kp_microcredits p) \<longleftrightarrow> p \<in> set l"
    if "p \<in> set r" for p
  proof (cases "find (\<lambda>q. priceKey q = priceKey p) l")
    case None
    then have "p \<notin> set l" by (auto simp: find_None_iff)
    with None show ?thesis by simp
  next
    case (Some q)
    then have q: "q \<in> set l" "priceKey q = priceKey p" by (auto simp: find_Some_iff)
    then have eq: "kp_model q = kp_model p" "kp_metric q = kp_metric p"
      using priceKey_inject ml mr that by auto
    have "p \<in> set l \<Longrightarrow> p = q" using dl q by (auto simp: distinct_map dest: inj_onD)
    moreover have "kp_unit q = kp_unit p \<and> kp_microcredits q = kp_microcredits p \<Longrightarrow> p = q"
      using eq by simp
    ultimately show ?thesis using Some q by auto
  qed
  have "samePrices l r \<longleftrightarrow> length l = length r \<and> set r \<subseteq> set l"
    by (auto simp: samePrices_def Let_def foldl_map_cases [OF dl] list_all_iff row)
  also have "\<dots> \<longleftrightarrow> set l = set r"
    using dl dr by (metis card_subset_eq distinct_card distinct_map finite_set order_refl)
  also have "\<dots> \<longleftrightarrow> mset l = mset r"
    using dl dr by (simp add: distinct_map set_eq_iff_mset_eq_distinct)
  finally show ?thesis .
qed

lemma pricesCoverMetrics_iff:
  "pricesCoverMetrics prov cust \<longleftrightarrow> cust \<noteq> [] \<and> pw_metric ` set cust \<subseteq> pw_metric ` set prov"
  by (auto simp: pricesCoverMetrics_def Let_def foldl_remove)

subsection \<open>Properties\<close>

text \<open>C14: What a call costs. Every priced metric of the usage is charged its share rounded up, the
  shares are added, and a sum or a share beyond 64 bits saturates at the largest amount; no
  division panics. The rows must be ratable: known metrics, 64-bit numbers, no share of exactly
  2^64.\<close>

theorem rate_sums_up:
  assumes "list_all (ratable usage) prices"
  shows "rate usage prices = Some (Inr (min max_int64 (sum_list (map (rowCost usage) prices))))"
  using rateFrom_eq [OF assms, of 0] by (simp add: rate_def max_int64_def)

theorem rate_sums_up_witness:
  "rate \<lparr> prompt_tokens = 1001, completion_tokens = 7, total_tokens = 1008 \<rparr>
     [\<lparr> pw_metric = ''input_tokens'', pw_unit = 1000, pw_amount = 3 \<rparr>,
      \<lparr> pw_metric = ''output_tokens'', pw_unit = 1, pw_amount = 2 \<rparr>] = Some (Inr 18)"
  using rate_sums_up [of "\<lparr> prompt_tokens = 1001, completion_tokens = 7, total_tokens = 1008 \<rparr>"
     "[\<lparr> pw_metric = ''input_tokens'', pw_unit = 1000, pw_amount = 3 \<rparr>,
      \<lparr> pw_metric = ''output_tokens'', pw_unit = 1, pw_amount = 2 \<rparr>]"]
  by (simp add: ratable_def rowCost_def metricUnits_def validMetric_def max_int64_def)

text \<open>The one share that is not saturated: a quotient of 2^64 - 1 with a remainder is incremented
  past the largest word, so 31 tokens at 1190112520884487201 per 2 tokens are rated at nothing
  although their share is 2^64.\<close>

lemma ceilMulDiv_wraps:
  "ceilMulDiv 31 1190112520884487201 2 = Some 0 \<and>
   ceilMulDiv 31 1190112520884487203 2 = Some max_int64 \<and>
   (31 * 1190112520884487201 + 2 - 1) div 2 = (2 ^ 64 :: int)"
  using ceilMulDiv_eq [of 31 1190112520884487201 2] ceilMulDiv_eq [of 31 1190112520884487203 2]
  by (simp add: max_int64_def)

text \<open>C15: The provider keys among which load is balanced are the cheapest candidates. Let every
  candidate have one price for each metric of a set \<open>M\<close>, per a positive number of units. Then the targets
  that remain are exactly those candidates, in the order in which they were found, that no other
  candidate undercuts: by an exact price per unit that is lower for some metric and equal for the
  metrics before it (input before output tokens). So one remains if there is a candidate.\<close>

theorem cheapestTargets_minimal:
  assumes "\<forall>t \<in> set targets. pricesAll M (pricesOf payments t)"
  shows "cheapestTargets targets payments =
     filter (\<lambda>t. \<forall>u \<in> set targets. \<not> undercuts M (pricesOf payments u) (pricesOf payments t)) targets \<and>
   (cheapestTargets targets payments = [] \<longleftrightarrow> targets = [])"
proof -
  have "cheapestTargets ts payments \<noteq> []" if "ts \<noteq> []" for ts
    using that by (cases "length ts < 2") (auto simp: cheapestTargets_def Let_def)
  moreover have "cheapestTargets [] payments = []" by (simp add: cheapestTargets_def)
  moreover have "cheapestTargets targets payments =
      filter (\<lambda>t. \<forall>u \<in> set targets. \<not> undercuts M (pricesOf payments u) (pricesOf payments t)) targets"
    unfolding cheapestTargets_filter
    by (rule filter_cong [OF HOL.refl]) (use assms in \<open>auto simp: undercuts_iff not_less\<close>)
  ultimately show ?thesis by blast
qed

text \<open>The example: 30 per 10 tokens is cheaper than 4 per token.\<close>

definition demo_rate :: "int \<Rightarrow> int \<Rightarrow> key_payment" where
  "demo_rate unit amount = \<lparr> py_merchant = ''m'',
     py_prices = [\<lparr> pw_metric = ''input_tokens'', pw_unit = unit, pw_amount = amount \<rparr>] \<rparr>"

definition demo_candidate :: "string \<Rightarrow> execution_target" where
  "demo_candidate i = \<lparr> et_provider = ''p'', et_endpoint = ''u'', et_credential = ''s'', et_model = ''m'', et_route = i,
     et_weight = 1 \<rparr>"

theorem cheapestTargets_minimal_witness:
  "cheapestTargets [demo_candidate ''a'', demo_candidate ''b''] [''a'' \<mapsto> demo_rate 1 4, ''b'' \<mapsto> demo_rate 10 30] =
     [demo_candidate ''b'']"
proof -
  have "\<forall>t \<in> set [demo_candidate ''a'', demo_candidate ''b''].
      pricesAll {''input_tokens''} (pricesOf [''a'' \<mapsto> demo_rate 1 4, ''b'' \<mapsto> demo_rate 10 30] t)"
    by (simp add: demo_candidate_def demo_rate_def pricesOf_def pricesAll_def)
  from cheapestTargets_minimal [OF this] show ?thesis
    by (simp add: demo_candidate_def demo_rate_def pricesOf_def undercuts_def costPer_def)
qed

text \<open>C16: Two accepted price lists count as the same content exactly when they hold the same prices,
  in whatever order.\<close>

theorem samePrices_iff:
  assumes "validatePrices left" and "validatePrices right"
  shows "samePrices left right \<longleftrightarrow> mset left = mset right"
  using assms by (rule samePrices_mset)

theorem samePrices_iff_witness:
  "samePrices
     [\<lparr> kp_model = ''m'', kp_metric = ''input_tokens'', kp_unit = 1, kp_microcredits = 2 \<rparr>,
      \<lparr> kp_model = ''m'', kp_metric = ''output_tokens'', kp_unit = 1, kp_microcredits = 3 \<rparr>]
     [\<lparr> kp_model = ''m'', kp_metric = ''output_tokens'', kp_unit = 1, kp_microcredits = 3 \<rparr>,
      \<lparr> kp_model = ''m'', kp_metric = ''input_tokens'', kp_unit = 1, kp_microcredits = 2 \<rparr>]"
  by (subst samePrices_iff) (simp_all add: validatePrices_def validMetric_def priceKey_def blank_eval)

end
