(* ===== verification/PayStore.thy ===== *)
theory PayStore
  imports Tables
begin

section \<open>The GizPay database\<close>

text \<open>
  The tables of \<open>data/sql/gizpay/migrations/000001_schema.sql\<close>, one record per row and one
  list per table, with the \<open>INSERT\<close> statements that the handlers of \<open>internal/gizpay\<close> send
  under the schema's constraints, the \<open>account_balances\<close> view and the deferred trigger that
  checks that a posted ledger transaction balances. The \<open>client_sync\<close> tables, the
  projections that PowerSync replicates to the clients, have the prefix \<open>sync\<close>.
\<close>

subsection \<open>Rows\<close>

record user =
  u_id :: string
  u_issuer :: string
  u_subject :: string
  u_email :: string
  u_display_name :: string
  u_status :: string
  u_created_at :: time

record account =
  a_id :: string
  a_owner :: string
  a_status :: string
  a_created_at :: time

record service_principal =
  sp_id :: string
  sp_owner :: string
  sp_issuer :: string
  sp_subject :: string
  sp_key_id :: "string option"
  sp_name :: string
  sp_roles :: "string list"
  sp_status :: string
  sp_created_at :: time
  sp_revoked_at :: "time option"

record ledger_account =
  la_id :: string
  la_owner :: "string option"
  la_asset :: string
  la_status :: string

record ledger_transaction =
  lt_id :: string
  lt_type :: string
  lt_status :: string
  lt_created_at :: time

datatype direction = Debit | Credit

record ledger_entry =
  le_id :: string
  le_txn :: string
  le_account :: string
  le_direction :: direction
  le_amount :: int

record merchant =
  m_id :: string
  m_settlement :: string
  m_legal_name :: string
  m_public_name :: string
  m_is_default :: bool
  m_status :: string
  m_created_at :: time
  m_updated_at :: time

record product =
  p_id :: string
  p_merchant :: string
  p_name :: string
  p_billing_mode :: string
  p_published :: bool
  p_status :: string
  p_terms :: string
  p_created_at :: time
  p_updated_at :: time

record subscription =
  s_id :: string
  s_account :: string
  s_product :: string
  s_status :: string
  s_terms :: string
  s_accepted_at :: time
  s_created_at :: time

record subscription_key =
  k_id :: string
  k_subscription :: string
  k_name :: string
  k_key :: string
  k_hmac :: string
  k_status :: string
  k_created_at :: time
  k_last_used_at :: "time option"
  k_revoked_at :: "time option"

record payg_charge =
  pc_id :: string
  pc_external :: string
  pc_subscription :: string
  pc_principal :: string
  pc_gross :: int
  pc_fee :: int
  pc_main_net :: int
  pc_snapshot :: json
  pc_txn :: string
  pc_created_at :: time

record charge_commission =
  cc_charge :: string
  cc_merchant :: string
  cc_settlement :: string
  cc_amount :: int

record topup =
  t_id :: string
  t_account :: string
  t_channel :: string
  t_reference :: string
  t_amount :: int
  t_status :: string
  t_txn :: string
  t_created_at :: time
  t_credited_at :: time

record product_listing =
  pl_id :: string
  pl_product :: string
  pl_site :: string
  pl_title :: string
  pl_description :: string
  pl_billing_mode :: string
  pl_price_text :: string
  pl_display_order :: int
  pl_status :: string
  pl_created_at :: time
  pl_updated_at :: time

record sync_profile =
  sy_id :: string
  sy_issuer :: string
  sy_subject :: string
  sy_email :: string
  sy_display_name :: string
  sy_merchant :: string
  sy_status :: string
  sy_created_at :: time

record sync_balance =
  sb_account :: string
  sb_issuer :: string
  sb_subject :: string
  sb_balance :: int

record sync_transaction =
  st_id :: string
  st_account :: string
  st_issuer :: string
  st_subject :: string
  st_type :: string
  st_amount :: int
  st_created_at :: time

record sync_charge =
  sc_id :: string
  sc_account :: string
  sc_subscription :: string
  sc_issuer :: string
  sc_subject :: string
  sc_external :: string
  sc_gross :: int
  sc_snapshot :: json
  sc_created_at :: time

record sync_commission =
  sm_id :: string
  sm_merchant :: string
  sm_charge :: string
  sm_issuer :: string
  sm_subject :: string
  sm_amount :: int
  sm_created_at :: time

record pay_db =
  users :: "user list"
  accounts :: "account list"
  service_principals :: "service_principal list"
  ledger_accounts :: "ledger_account list"
  ledger_transactions :: "ledger_transaction list"
  ledger_entries :: "ledger_entry list"
  merchants :: "merchant list"
  products :: "product list"
  subscriptions :: "subscription list"
  subscription_keys :: "subscription_key list"
  payg_charges :: "payg_charge list"
  charge_commissions :: "charge_commission list"
  topups :: "topup list"
  product_listings :: "product_listing list"
  sync_profiles :: "sync_profile list"
  sync_balances :: "sync_balance list"
  sync_transactions :: "sync_transaction list"
  sync_charges :: "sync_charge list"
  sync_commissions :: "sync_commission list"

type_synonym pay_world = "pay_db world"

text \<open>The principals that the initialization creates (\<open>internal/storage/storage.go\<close>).\<close>

abbreviation platformUserID :: string where "platformUserID \<equiv> ''usr_platform''"
abbreviation platformAccountID :: string where "platformAccountID \<equiv> ''acct_platform''"
abbreviation platformCreditID :: string where "platformCreditID \<equiv> ''led_acct_platform''"
abbreviation platformClearingID :: string where "platformClearingID \<equiv> ''led_clearing''"

text \<open>The database right after the migration: the two ledger accounts it inserts.\<close>

definition migrated_pay :: pay_db where
  "migrated_pay = \<lparr> users = [], accounts = [], service_principals = [],
     ledger_accounts =
       [\<lparr> la_id = ''led_clearing'', la_owner = None, la_asset = ''clearing'', la_status = ''active'' \<rparr>,
        \<lparr> la_id = ''led_platform_fee'', la_owner = None, la_asset = ''platform_fee'',
          la_status = ''active'' \<rparr>],
     ledger_transactions = [], ledger_entries = [], merchants = [], products = [],
     subscriptions = [], subscription_keys = [], payg_charges = [], charge_commissions = [],
     topups = [], product_listings = [], sync_profiles = [], sync_balances = [],
     sync_transactions = [], sync_charges = [], sync_commissions = [] \<rparr>"

subsection \<open>Lookups\<close>

definition userById :: "string \<Rightarrow> pay_db \<Rightarrow> user option" where
  "userById i d = find (\<lambda>u. u_id u = i) (users d)"

definition userByIdentity :: "string \<Rightarrow> string \<Rightarrow> pay_db \<Rightarrow> user option" where
  "userByIdentity iss sub d = find (\<lambda>u. u_issuer u = iss \<and> u_subject u = sub) (users d)"

definition accountById :: "string \<Rightarrow> pay_db \<Rightarrow> account option" where
  "accountById i d = find (\<lambda>a. a_id a = i) (accounts d)"

definition accountByOwner :: "string \<Rightarrow> pay_db \<Rightarrow> account option" where
  "accountByOwner i d = find (\<lambda>a. a_owner a = i) (accounts d)"

definition merchantById :: "string \<Rightarrow> pay_db \<Rightarrow> merchant option" where
  "merchantById i d = find (\<lambda>m. m_id m = i) (merchants d)"

definition productById :: "string \<Rightarrow> pay_db \<Rightarrow> product option" where
  "productById i d = find (\<lambda>p. p_id p = i) (products d)"

definition subscriptionById :: "string \<Rightarrow> pay_db \<Rightarrow> subscription option" where
  "subscriptionById i d = find (\<lambda>s. s_id s = i) (subscriptions d)"

definition keyById :: "string \<Rightarrow> pay_db \<Rightarrow> subscription_key option" where
  "keyById i d = find (\<lambda>k. k_id k = i) (subscription_keys d)"

definition keyByHmac :: "string \<Rightarrow> pay_db \<Rightarrow> subscription_key option" where
  "keyByHmac h d = find (\<lambda>k. k_hmac k = h) (subscription_keys d)"

definition topupById :: "string \<Rightarrow> pay_db \<Rightarrow> topup option" where
  "topupById i d = find (\<lambda>t. t_id t = i) (topups d)"

definition chargeByExternal :: "string \<Rightarrow> pay_db \<Rightarrow> payg_charge option" where
  "chargeByExternal x d = find (\<lambda>c. pc_external c = x) (payg_charges d)"

definition principalByIdentity :: "string \<Rightarrow> string \<Rightarrow> pay_db \<Rightarrow> service_principal option" where
  "principalByIdentity iss sub d =
     find (\<lambda>p. sp_issuer p = iss \<and> sp_subject p = sub) (service_principals d)"

text \<open>The credit ledger account of an account, and the first ledger account of an asset.\<close>

definition creditLedger :: "string \<Rightarrow> pay_db \<Rightarrow> ledger_account option" where
  "creditLedger acct d = find (\<lambda>l. la_owner l = Some acct \<and> la_asset l = ''credit'') (ledger_accounts d)"

definition assetLedger :: "string \<Rightarrow> pay_db \<Rightarrow> ledger_account option" where
  "assetLedger asset d = find (\<lambda>l. la_asset l = asset) (ledger_accounts d)"

text \<open>The owner of an account: \<open>accounts JOIN users\<close>.\<close>

definition accountOwner :: "string \<Rightarrow> pay_db \<Rightarrow> user option" where
  "accountOwner acct d =
     (case accountById acct d of None \<Rightarrow> None | Some a \<Rightarrow> userById (a_owner a) d)"

subsection \<open>Inserts\<close>

text \<open>The schema's \<open>CHECK (length(trim(x)) > 0)\<close>: SQL's \<open>trim\<close> removes blanks only.\<close>

definition sqlText :: "string \<Rightarrow> bool" where
  "sqlText s \<longleftrightarrow> list_ex (\<lambda>c. c \<noteq> CHR '' '') s"

definition insertUser :: "user \<Rightarrow> (pay_db, unit) query" where
  "insertUser r d =
     (case insertRow (sqlText (u_display_name r) \<and> u_status r \<in> {''active'', ''inactive''}) True
             [(''users_pkey'', \<lambda>x y. u_id x = u_id y),
              (''users_identity_key'', \<lambda>x y. u_issuer x = u_issuer y \<and> u_subject x = u_subject y)]
             r (users d) of
        Inl e \<Rightarrow> Inl e | Inr t \<Rightarrow> Inr ((), d\<lparr>users := t\<rparr>))"

definition insertAccount :: "account \<Rightarrow> (pay_db, unit) query" where
  "insertAccount r d =
     (case insertRow (a_status r \<in> {''active'', ''inactive''})
             (list_ex (\<lambda>u. u_id u = a_owner r) (users d))
             [(''accounts_pkey'', \<lambda>x y. a_id x = a_id y),
              (''accounts_owner_user_id_key'', \<lambda>x y. a_owner x = a_owner y)]
             r (accounts d) of
        Inl e \<Rightarrow> Inl e | Inr t \<Rightarrow> Inr ((), d\<lparr>accounts := t\<rparr>))"

definition insertServicePrincipal :: "service_principal \<Rightarrow> (pay_db, unit) query" where
  "insertServicePrincipal r d =
     (case insertRow (sqlText (sp_name r) \<and>
                (sp_status r = ''active'' \<and> sp_revoked_at r = None \<or>
                 sp_status r = ''revoked'' \<and> sp_revoked_at r \<noteq> None))
             (list_ex (\<lambda>u. u_id u = sp_owner r) (users d))
             [(''service_principals_pkey'', \<lambda>x y. sp_id x = sp_id y),
              (''service_principals_identity_key'',
               \<lambda>x y. sp_issuer x = sp_issuer y \<and> sp_subject x = sp_subject y)]
             r (service_principals d) of
        Inl e \<Rightarrow> Inl e | Inr t \<Rightarrow> Inr ((), d\<lparr>service_principals := t\<rparr>))"

definition insertLedgerAccount :: "ledger_account \<Rightarrow> (pay_db, unit) query" where
  "insertLedgerAccount r d =
     (case insertRow (la_status r \<in> {''active'', ''inactive''})
             (case la_owner r of None \<Rightarrow> True | Some ow \<Rightarrow> list_ex (\<lambda>a. a_id a = ow) (accounts d))
             [(''ledger_accounts_pkey'', \<lambda>x y. la_id x = la_id y),
              (''ledger_accounts_owner_key'',
               \<lambda>x y. la_owner x \<noteq> None \<and> la_owner x = la_owner y \<and> la_asset x = la_asset y)]
             r (ledger_accounts d) of
        Inl e \<Rightarrow> Inl e | Inr t \<Rightarrow> Inr ((), d\<lparr>ledger_accounts := t\<rparr>))"

definition insertLedgerTransaction :: "ledger_transaction \<Rightarrow> (pay_db, unit) query" where
  "insertLedgerTransaction r d =
     (case insertRow (lt_status r \<in> {''pending'', ''posted''}) True
             [(''ledger_transactions_pkey'', \<lambda>x y. lt_id x = lt_id y)]
             r (ledger_transactions d) of
        Inl e \<Rightarrow> Inl e | Inr t \<Rightarrow> Inr ((), d\<lparr>ledger_transactions := t\<rparr>))"

definition insertLedgerEntry :: "ledger_entry \<Rightarrow> (pay_db, unit) query" where
  "insertLedgerEntry r d =
     (case insertRow (0 < le_amount r \<and> le_amount r \<le> max_int64)
             (list_ex (\<lambda>t. lt_id t = le_txn r) (ledger_transactions d) \<and>
              list_ex (\<lambda>l. la_id l = le_account r) (ledger_accounts d))
             [(''ledger_entries_pkey'', \<lambda>x y. le_id x = le_id y)]
             r (ledger_entries d) of
        Inl e \<Rightarrow> Inl e | Inr t \<Rightarrow> Inr ((), d\<lparr>ledger_entries := t\<rparr>))"

definition insertMerchant :: "merchant \<Rightarrow> (pay_db, unit) query" where
  "insertMerchant r d =
     (case insertRow (sqlText (m_legal_name r) \<and> sqlText (m_public_name r) \<and>
                m_status r \<in> {''active'', ''inactive''})
             (list_ex (\<lambda>a. a_id a = m_settlement r) (accounts d))
             [(''merchants_pkey'', \<lambda>x y. m_id x = m_id y),
              (''merchants_one_default_per_account'',
               \<lambda>x y. m_is_default x \<and> m_is_default y \<and> m_settlement x = m_settlement y)]
             r (merchants d) of
        Inl e \<Rightarrow> Inl e | Inr t \<Rightarrow> Inr ((), d\<lparr>merchants := t\<rparr>))"

definition insertProduct :: "product \<Rightarrow> (pay_db, unit) query" where
  "insertProduct r d =
     (case insertRow (sqlText (p_name r) \<and> p_billing_mode r = ''pay_as_you_go'' \<and>
                p_status r \<in> {''active'', ''inactive''} \<and> sqlText (p_terms r))
             (list_ex (\<lambda>m. m_id m = p_merchant r) (merchants d))
             [(''products_pkey'', \<lambda>x y. p_id x = p_id y)]
             r (products d) of
        Inl e \<Rightarrow> Inl e | Inr t \<Rightarrow> Inr ((), d\<lparr>products := t\<rparr>))"

definition insertSubscription :: "subscription \<Rightarrow> (pay_db, unit) query" where
  "insertSubscription r d =
     (case insertRow (s_status r \<in> {''active'', ''paused'', ''inactive''} \<and> sqlText (s_terms r))
             (list_ex (\<lambda>a. a_id a = s_account r) (accounts d) \<and>
              list_ex (\<lambda>p. p_id p = s_product r) (products d))
             [(''subscriptions_pkey'', \<lambda>x y. s_id x = s_id y),
              (''subscriptions_account_product_key'',
               \<lambda>x y. s_account x = s_account y \<and> s_product x = s_product y)]
             r (subscriptions d) of
        Inl e \<Rightarrow> Inl e | Inr t \<Rightarrow> Inr ((), d\<lparr>subscriptions := t\<rparr>))"

definition insertSubscriptionKey :: "subscription_key \<Rightarrow> (pay_db, unit) query" where
  "insertSubscriptionKey r d =
     (case insertRow (sqlText (k_name r) \<and> k_key r \<noteq> [] \<and> k_hmac r \<noteq> [] \<and>
                (k_status r = ''active'' \<and> k_revoked_at r = None \<or>
                 k_status r = ''revoked'' \<and> k_revoked_at r \<noteq> None))
             (list_ex (\<lambda>s. s_id s = k_subscription r) (subscriptions d))
             [(''subscription_keys_pkey'', \<lambda>x y. k_id x = k_id y),
              (''subscription_keys_key_key'', \<lambda>x y. k_key x = k_key y),
              (''subscription_keys_subscription_key_hmac_key'', \<lambda>x y. k_hmac x = k_hmac y)]
             r (subscription_keys d) of
        Inl e \<Rightarrow> Inl e | Inr t \<Rightarrow> Inr ((), d\<lparr>subscription_keys := t\<rparr>))"

definition insertCharge :: "payg_charge \<Rightarrow> (pay_db, unit) query" where
  "insertCharge r d =
     (case insertRow (0 < pc_gross r \<and> 0 \<le> pc_fee r)
             (list_ex (\<lambda>s. s_id s = pc_subscription r) (subscriptions d) \<and>
              list_ex (\<lambda>p. sp_id p = pc_principal r) (service_principals d) \<and>
              list_ex (\<lambda>t. lt_id t = pc_txn r) (ledger_transactions d))
             [(''payg_charges_pkey'', \<lambda>x y. pc_id x = pc_id y),
              (''payg_charges_external_order_id_key'', \<lambda>x y. pc_external x = pc_external y),
              (''payg_charges_ledger_transaction_id_key'', \<lambda>x y. pc_txn x = pc_txn y)]
             r (payg_charges d) of
        Inl e \<Rightarrow> Inl e | Inr t \<Rightarrow> Inr ((), d\<lparr>payg_charges := t\<rparr>))"

definition insertChargeCommission :: "charge_commission \<Rightarrow> (pay_db, unit) query" where
  "insertChargeCommission r d =
     (case insertRow (0 \<le> cc_amount r)
             (list_ex (\<lambda>c. pc_id c = cc_charge r) (payg_charges d) \<and>
              list_ex (\<lambda>m. m_id m = cc_merchant r) (merchants d) \<and>
              list_ex (\<lambda>a. a_id a = cc_settlement r) (accounts d))
             [(''charge_commissions_pkey'',
               \<lambda>x y. cc_charge x = cc_charge y \<and> cc_merchant x = cc_merchant y)]
             r (charge_commissions d) of
        Inl e \<Rightarrow> Inl e | Inr t \<Rightarrow> Inr ((), d\<lparr>charge_commissions := t\<rparr>))"

definition insertTopup :: "topup \<Rightarrow> (pay_db, unit) query" where
  "insertTopup r d =
     (case insertRow (t_channel r = ''fake'' \<and> sqlText (t_reference r) \<and> 0 < t_amount r \<and>
                t_status r = ''succeeded'')
             (list_ex (\<lambda>a. a_id a = t_account r) (accounts d) \<and>
              list_ex (\<lambda>t. lt_id t = t_txn r) (ledger_transactions d))
             [(''topups_pkey'', \<lambda>x y. t_id x = t_id y),
              (''topups_ledger_transaction_id_key'', \<lambda>x y. t_txn x = t_txn y),
              (''topups_channel_external_reference_key'',
               \<lambda>x y. t_channel x = t_channel y \<and> t_reference x = t_reference y)]
             r (topups d) of
        Inl e \<Rightarrow> Inl e | Inr t \<Rightarrow> Inr ((), d\<lparr>topups := t\<rparr>))"

definition insertProductListing :: "product_listing \<Rightarrow> (pay_db, unit) query" where
  "insertProductListing r d =
     (case insertRow (sqlText (pl_site r) \<and> sqlText (pl_title r) \<and>
                pl_billing_mode r = ''pay_as_you_go'' \<and> pl_status r \<in> {''active'', ''inactive''} \<and>
                -2147483648 \<le> pl_display_order r \<and> pl_display_order r \<le> 2147483647)
             (list_ex (\<lambda>p. p_id p = pl_product r) (products d))
             [(''product_listings_pkey'', \<lambda>x y. pl_id x = pl_id y),
              (''product_listings_product_id_site_key'',
               \<lambda>x y. pl_product x = pl_product y \<and> pl_site x = pl_site y)]
             r (product_listings d) of
        Inl e \<Rightarrow> Inl e | Inr t \<Rightarrow> Inr ((), d\<lparr>product_listings := t\<rparr>))"

definition insertSyncTransaction :: "sync_transaction \<Rightarrow> (pay_db, unit) query" where
  "insertSyncTransaction r d =
     (case insertRow True True [(''transactions_pkey'', \<lambda>x y. st_id x = st_id y)]
             r (sync_transactions d) of
        Inl e \<Rightarrow> Inl e | Inr t \<Rightarrow> Inr ((), d\<lparr>sync_transactions := t\<rparr>))"

definition insertSyncCharge :: "sync_charge \<Rightarrow> (pay_db, unit) query" where
  "insertSyncCharge r d =
     (case insertRow True True [(''charges_pkey'', \<lambda>x y. sc_id x = sc_id y)] r (sync_charges d) of
        Inl e \<Rightarrow> Inl e | Inr t \<Rightarrow> Inr ((), d\<lparr>sync_charges := t\<rparr>))"

definition insertSyncCommission :: "sync_commission \<Rightarrow> (pay_db, unit) query" where
  "insertSyncCommission r d =
     (case insertRow True True [(''commissions_pkey'', \<lambda>x y. sm_id x = sm_id y)]
             r (sync_commissions d) of
        Inl e \<Rightarrow> Inl e | Inr t \<Rightarrow> Inr ((), d\<lparr>sync_commissions := t\<rparr>))"

text \<open>\<open>INSERT ... ON CONFLICT DO NOTHING\<close>: the number of rows inserted.\<close>

definition onConflictNothing :: "('db, unit) query \<Rightarrow> ('db, nat) query" where
  "onConflictNothing q d =
     (case q d of
        Inl (UniqueViolation c) \<Rightarrow> Inr (0, d)
      | Inl e \<Rightarrow> Inl e
      | Inr (_, d') \<Rightarrow> Inr (1, d'))"

subsection \<open>Updates\<close>

definition postTransaction :: "string \<Rightarrow> (pay_db, unit) query" where
  "postTransaction i d = Inr ((), d\<lparr>ledger_transactions :=
     updateRows (\<lambda>t. lt_id t = i) (\<lambda>t. t\<lparr>lt_status := ''posted''\<rparr>) (ledger_transactions d)\<rparr>)"

text \<open>\<open>balance_microcredits=balance_microcredits+$1\<close>, on a \<open>BIGINT\<close> column.\<close>

definition addSyncBalance :: "int \<Rightarrow> string \<Rightarrow> (pay_db, unit) query" where
  "addSyncBalance amount acct d =
     (if list_all (\<lambda>b. sb_account b = acct \<longrightarrow> int64_range (sb_balance b + amount)) (sync_balances d)
      then Inr ((), d\<lparr>sync_balances :=
             updateRows (\<lambda>b. sb_account b = acct) (\<lambda>b. b\<lparr>sb_balance := sb_balance b + amount\<rparr>)
               (sync_balances d)\<rparr>)
      else Inl OutOfRange)"

subsection \<open>The view \<open>account_balances\<close> and the balance trigger\<close>

definition signedAmount :: "ledger_entry \<Rightarrow> int" where
  "signedAmount e = (case le_direction e of Credit \<Rightarrow> le_amount e | Debit \<Rightarrow> - le_amount e)"

definition isPosted :: "pay_db \<Rightarrow> string \<Rightarrow> bool" where
  "isPosted d i = list_ex (\<lambda>t. lt_id t = i \<and> lt_status t = ''posted'') (ledger_transactions d)"

definition isCreditOf :: "pay_db \<Rightarrow> string \<Rightarrow> string \<Rightarrow> bool" where
  "isCreditOf d acct l =
     list_ex (\<lambda>a. la_id a = l \<and> la_owner a = Some acct \<and> la_asset a = ''credit'') (ledger_accounts d)"

definition ledgerBalance :: "pay_db \<Rightarrow> string \<Rightarrow> int" where
  "ledgerBalance d acct =
     sum_list (map signedAmount
       (filter (\<lambda>e. isCreditOf d acct (le_account e) \<and> isPosted d (le_txn e)) (ledger_entries d)))"

definition accountBalance :: "string \<Rightarrow> (pay_db, int) query" where
  "accountBalance acct d =
     (if accountById acct d = None then Inl NoRows
      else if int64_range (ledgerBalance d acct) then Inr (ledgerBalance d acct, d)
      else Inl OutOfRange)"

definition transactionNet :: "pay_db \<Rightarrow> string \<Rightarrow> int" where
  "transactionNet d i =
     sum_list (map (\<lambda>e. - signedAmount e) (filter (\<lambda>e. le_txn e = i) (ledger_entries d)))"

definition touchedTransactions :: "pay_db \<Rightarrow> pay_db \<Rightarrow> string list" where
  "touchedTransactions old new =
     map lt_id (filter (\<lambda>t. t \<notin> set (ledger_transactions old)) (ledger_transactions new)) @
     map le_txn (filter (\<lambda>e. e \<notin> set (ledger_entries old)) (ledger_entries new))"

definition ledgerTransactionsBalanced :: "pay_db \<Rightarrow> pay_db \<Rightarrow> bool" where
  "ledgerTransactionsBalanced old new =
     list_all (\<lambda>i. isPosted new i \<longrightarrow> transactionNet new i = 0) (touchedTransactions old new)"

end
