(* ===== verification/PayLedger.thy ===== *)
theory PayLedger
  imports PayStore
begin

section \<open>The double-entry ledger\<close>

text \<open>
  \<open>platformFee\<close>, \<open>insertEntry\<close> and \<open>postLedger\<close> of \<open>internal/gizpay/handler.go\<close>, and the
  handler's configuration. A posting is a ledger account with a signed amount; the lemmas show
  which postings \<open>postLedger\<close> appends, that they add up to zero whenever the amounts do, and
  what they do to the balance of every account.
\<close>

subsection \<open>The handler's configuration\<close>

record pay_config =
  admin_key :: string
  human_audience :: string
  service_audience :: string
  hmac_secret :: string
  fee_bps :: int
  recheck_interval :: duration
  max_order_bytes :: int
  max_commissions :: int
  zitadel_issuer :: string
  action_key :: string
  action_key_file :: string
  action_max_age :: duration

text \<open>
  \<open>New\<close>: \<open>hasDB\<close>, \<open>hasVerifier\<close> and \<open>hasManager\<close> say whether the three pointers are set; the
  clock is the session's \<open>now\<close>.
\<close>

definition newPayHandler :: "bool \<Rightarrow> bool \<Rightarrow> bool \<Rightarrow> pay_config \<Rightarrow> pay_config option" where
  "newPayHandler hasDB hasVerifier hasManager c =
     (if \<not> hasDB \<or> \<not> hasVerifier \<or> \<not> hasManager \<or> hmac_secret c = [] then None
      else Some (c\<lparr>
        recheck_interval := (if recheck_interval c \<le> 0 then 300 * second else recheck_interval c),
        max_order_bytes := (if max_order_bytes c \<le> 0 then 8192 else max_order_bytes c),
        max_commissions := (if max_commissions c \<le> 0 then 32 else max_commissions c),
        action_max_age := (if action_max_age c \<le> 0 then 300 * second else action_max_age c)\<rparr>))"

subsection \<open>The platform fee\<close>

definition platformFee :: "int \<Rightarrow> int \<Rightarrow> int" where
  "platformFee gross basisPoints =
     (let whole = wrap64 (gross sdiv 10000 * basisPoints);
          remainder = wrap64 (gross smod 10000 * basisPoints)
      in wrap64 (whole + wrap64 (remainder + 9999) sdiv 10000))"

text \<open>The rounding-up division of the unbounded product.\<close>

definition feeSpec :: "int \<Rightarrow> int \<Rightarrow> int" where
  "feeSpec gross basisPoints = (gross * basisPoints + 9999) div 10000"

lemma feeSpec_bounds:
  assumes "0 \<le> gross" and "0 \<le> bps" and "bps \<le> 10000"
  shows "0 \<le> feeSpec gross bps" and "feeSpec gross bps \<le> gross"
proof -
  have "0 \<le> gross * bps" and "gross * bps \<le> gross * 10000"
    using assms by (simp_all add: mult_left_mono)
  then show "0 \<le> feeSpec gross bps" and "feeSpec gross bps \<le> gross"
    by (simp_all add: feeSpec_def)
qed

lemma feeSpec_split:
  "gross div 10000 * bps + (gross mod 10000 * bps + 9999) div 10000 = feeSpec gross bps"
proof -
  have "gross * bps = (10000 * (gross div 10000) + gross mod 10000) * bps" by simp
  also have "\<dots> = 10000 * (gross div 10000 * bps) + gross mod 10000 * bps"
    by (simp only: distrib_right mult.assoc)
  finally have "gross * bps + 9999 =
      (gross mod 10000 * bps + 9999) + 10000 * (gross div 10000 * bps)" by linarith
  then show ?thesis by (simp only: feeSpec_def)
qed

lemma platformFee_eq_feeSpec:
  assumes "0 \<le> gross" and "gross \<le> max_int64" and "0 \<le> bps" and "bps \<le> 10000"
  shows "platformFee gross bps = feeSpec gross bps"
proof -
  have q: "0 \<le> gross div 10000 * bps" "gross div 10000 * bps \<le> gross"
  proof -
    show "0 \<le> gross div 10000 * bps" using assms by (simp add: pos_imp_zdiv_nonneg_iff)
    have "gross div 10000 * bps \<le> gross div 10000 * 10000"
      using assms by (intro mult_left_mono) (simp_all add: pos_imp_zdiv_nonneg_iff)
    also have "\<dots> \<le> gross" by simp
    finally show "gross div 10000 * bps \<le> gross" .
  qed
  have r: "0 \<le> gross mod 10000 * bps" "gross mod 10000 * bps \<le> 9999 * 10000"
    using assms mult_mono [of "gross mod 10000" 9999 bps 10000] by simp_all
  have ranges: "int64_range (gross div 10000 * bps)" "int64_range (gross mod 10000 * bps)"
    "int64_range (gross mod 10000 * bps + 9999)" "int64_range (feeSpec gross bps)"
  proof -
    show "int64_range (gross div 10000 * bps)" using q assms(2) by (rule int64_nonnegI)
    show "int64_range (gross mod 10000 * bps)" "int64_range (gross mod 10000 * bps + 9999)"
      using r by (auto intro!: int64_nonnegI [of _ 99999999] simp: max_int64_def simp del: zero_le_mult_iff)
    show "int64_range (feeSpec gross bps)"
      using feeSpec_bounds [of gross bps] assms by (intro int64_nonnegI) auto
  qed
  have "(gross mod 10000 * bps + 9999) sdiv 10000 = (gross mod 10000 * bps + 9999) div 10000"
    using r by (intro sdiv_nonneg) simp_all
  with ranges assms(1) show ?thesis
    by (simp add: platformFee_def Let_def sdiv_nonneg smod_nonneg feeSpec_split)
qed

subsection \<open>Entries\<close>

record resolved_commission =
  rc_merchant :: string
  rc_amount :: int
  rc_settlement :: string

definition insertEntry :: "string \<Rightarrow> string \<Rightarrow> direction \<Rightarrow> int \<Rightarrow> (pay_world, sqlerr + unit) act" where
  "insertEntry transactionID ledgerID direction amount =
     (if amount = 0 then ret (Inr ())
      else bnd newUUID (\<lambda>u.
        tx_exec (insertLedgerEntry \<lparr> le_id = ''entry_'' @ u, le_txn = transactionID,
          le_account = ledgerID, le_direction = direction, le_amount = amount \<rparr>)))"

definition ledgerOf :: "string \<Rightarrow> string \<Rightarrow> (pay_world, sqlerr + string) act" where
  "ledgerOf acct asset =
     tx_exec (readRow (\<lambda>d. map_option la_id
       (if asset \<noteq> [] then assetLedger asset d else creditLedger acct d)))"

definition postCommission :: "string \<Rightarrow> resolved_commission \<Rightarrow> (pay_world, sqlerr + unit) act" where
  "postCommission transactionID c =
     thenOk (ledgerOf (rc_settlement c) []) (\<lambda>target.
       insertEntry transactionID target Credit (rc_amount c))"

definition postLedger ::
  "string \<Rightarrow> string \<Rightarrow> string \<Rightarrow> int \<Rightarrow> int \<Rightarrow> int \<Rightarrow> resolved_commission list \<Rightarrow>
     (pay_world, sqlerr + unit) act" where
  "postLedger transactionID payer main gross mainNet fee commissions =
     thenOk (ledgerOf payer []) (\<lambda>payerLedger.
     thenOk (insertEntry transactionID payerLedger Debit gross) (\<lambda>_.
     thenOk (ledgerOf main []) (\<lambda>mainLedger.
     thenOk (if 0 < mainNet then insertEntry transactionID mainLedger Credit mainNet
             else if mainNet < 0 then insertEntry transactionID mainLedger Debit (wrap64 (- mainNet))
             else ret (Inr ())) (\<lambda>_.
     thenOk (iterOk (postCommission transactionID) commissions) (\<lambda>_.
       if 0 < fee
       then thenOk (ledgerOf [] ''platform_fee'') (\<lambda>platform.
              insertEntry transactionID platform Credit fee)
       else ret (Inr ()))))))"

lemma tx_local_ledger [tx_localI]:
  "tx_local (insertEntry t l dir x)" "tx_local (ledgerOf a s)" "tx_local (postCommission t c)"
  "tx_local (postLedger t p m g n f cs)"
  unfolding insertEntry_def ledgerOf_def postCommission_def postLedger_def
  by (intro tx_localI)+

lemma replies_ledger [repliesI]:
  "replies P (insertEntry t l dir x)" "replies P (ledgerOf a s)" "replies P (postCommission t c)"
  "replies P (postLedger t p m g n f cs)"
  unfolding insertEntry_def ledgerOf_def postCommission_def postLedger_def
  by (intro repliesI)+

subsection \<open>Postings\<close>

text \<open>
  \<open>ledgerStep t ps d d'\<close>: \<open>d'\<close> is \<open>d\<close> with entries of the transaction \<open>t\<close> appended, whose
  postings are \<open>ps\<close> and go to ledger accounts of \<open>d\<close>.
\<close>

type_synonym posting = "string \<times> int"

definition entryPosting :: "ledger_entry \<Rightarrow> posting" where
  "entryPosting e = (le_account e, signedAmount e)"

definition ledgerStep :: "string \<Rightarrow> posting list \<Rightarrow> pay_db \<Rightarrow> pay_db \<Rightarrow> bool" where
  "ledgerStep t ps d d' \<longleftrightarrow>
     (\<exists>es. d' = d\<lparr>ledger_entries := ledger_entries d @ es\<rparr> \<and> map entryPosting es = ps \<and>
           (\<forall>e \<in> set es. le_txn e = t \<and> le_account e \<in> la_id ` set (ledger_accounts d)))"

definition signed :: "direction \<Rightarrow> int \<Rightarrow> int" where
  "signed dir x = (case dir of Credit \<Rightarrow> x | Debit \<Rightarrow> - x)"

definition posting :: "string \<Rightarrow> int \<Rightarrow> posting list" where
  "posting l x = (if x = 0 then [] else [(l, x)])"

definition creditId :: "pay_db \<Rightarrow> string \<Rightarrow> string" where
  "creditId d acct = (case creditLedger acct d of None \<Rightarrow> [] | Some l \<Rightarrow> la_id l)"

definition feeLedgerId :: "pay_db \<Rightarrow> string" where
  "feeLedgerId d = (case assetLedger ''platform_fee'' d of None \<Rightarrow> [] | Some l \<Rightarrow> la_id l)"

definition payable :: "pay_db \<Rightarrow> string \<Rightarrow> bool" where
  "payable d acct \<longleftrightarrow> creditLedger acct d \<noteq> None"

definition commissionPostings :: "pay_db \<Rightarrow> resolved_commission list \<Rightarrow> posting list" where
  "commissionPostings d cs = concat (map (\<lambda>c. posting (creditId d (rc_settlement c)) (rc_amount c)) cs)"

definition chargePostings ::
  "pay_db \<Rightarrow> string \<Rightarrow> string \<Rightarrow> int \<Rightarrow> int \<Rightarrow> int \<Rightarrow> resolved_commission list \<Rightarrow> posting list" where
  "chargePostings d payer main gross mainNet fee cs =
     posting (creditId d payer) (- gross) @ posting (creditId d main) mainNet @
     commissionPostings d cs @
     posting (feeLedgerId d) fee"

lemma ledgerStep_refl: "ledgerStep t [] d d"
  by (auto simp: ledgerStep_def)

lemma ledgerStep_trans:
  assumes "ledgerStep t ps d d'" and "ledgerStep t qs d' d''"
  shows "ledgerStep t (ps @ qs) d d''"
  using assms by (fastforce simp: ledgerStep_def)

lemma ledgerStep_accounts: "ledgerStep t ps d d' \<Longrightarrow> ledger_accounts d' = ledger_accounts d"
  by (auto simp: ledgerStep_def)

lemma commissionPostings_simps [simp]:
  "commissionPostings d [] = []"
  "commissionPostings d (cs @ ds) = commissionPostings d cs @ commissionPostings d ds"
  "commissionPostings d (x # cs) = posting (creditId d (rc_settlement x)) (rc_amount x) @ commissionPostings d cs"
  by (simp_all add: commissionPostings_def)

lemma creditId_cong: "ledger_accounts d' = ledger_accounts d \<Longrightarrow> creditId d' a = creditId d a"
  by (simp add: creditId_def creditLedger_def)

lemma payable_cong: "ledger_accounts d' = ledger_accounts d \<Longrightarrow> payable d' a = payable d a"
  by (simp add: payable_def creditLedger_def)

lemma commissionPostings_cong:
  assumes "ledger_accounts d' = ledger_accounts d"
  shows "commissionPostings d' cs = commissionPostings d cs"
  by (simp add: commissionPostings_def creditId_cong [OF assms])

lemma feeLedgerId_cong: "ledger_accounts d' = ledger_accounts d \<Longrightarrow> feeLedgerId d' = feeLedgerId d"
  by (simp add: feeLedgerId_def assetLedger_def)

lemma insertLedgerEntry_Inr:
  "insertLedgerEntry r d = Inr (u, d') \<Longrightarrow>
     0 < le_amount r \<and> le_account r \<in> la_id ` set (ledger_accounts d) \<and> d' = d\<lparr>ledger_entries := ledger_entries d @ [r]\<rparr>"
  by (auto simp: insertLedgerEntry_def insertRow_Inr list_ex_iff split: sum.splits) (metis image_eqI)

lemma wlp_insertEntry [wlpI]:
  assumes "\<And>d'. 0 \<le> amount \<Longrightarrow> ledgerStep t (posting l (signed dir amount)) d d' \<Longrightarrow> Q () c (Some d')"
  shows "wlp (insertEntry t l dir amount) (onOk Q) c (Some d)"
  unfolding insertEntry_def
proof (intro wlpI assms)
  assume "amount = 0"
  then show "0 \<le> amount" and "ledgerStep t (posting l (signed dir amount)) d d"
    by (simp_all add: posting_def signed_def ledgerStep_refl split: direction.split)
next
  fix i a d'
  assume "insertLedgerEntry \<lparr>le_id = ''entry_'' @ i, le_txn = t, le_account = l,
            le_direction = dir, le_amount = amount\<rparr> d = Inr (a, d')"
  from insertLedgerEntry_Inr [OF this]
  have "0 < amount" and "ledgerStep t (posting l (signed dir amount)) d d'"
    by (auto simp: ledgerStep_def posting_def signed_def entryPosting_def signedAmount_def
        split: direction.split intro!: exI [where x = "[_]"])
  then show "Q a c (Some d')" using assms [of d'] by simp
qed

lemma wlp_creditLedgerOf [wlpI]:
  assumes "payable d acct \<Longrightarrow> Q (creditId d acct) c (Some d)"
  shows "wlp (ledgerOf acct []) (onOk Q) c (Some d)"
  unfolding ledgerOf_def using assms
  by (intro wlpI) (auto simp: readRow_def creditId_def payable_def split: option.splits)

lemma wlp_feeLedgerOf [wlpI]:
  assumes "assetLedger ''platform_fee'' d \<noteq> None \<Longrightarrow> Q (feeLedgerId d) c (Some d)"
  shows "wlp (ledgerOf [] ''platform_fee'') (onOk Q) c (Some d)"
  unfolding ledgerOf_def using assms
  by (intro wlpI) (auto simp: readRow_def feeLedgerId_def split: option.splits)

text \<open>
  What \<open>postLedger\<close> has done when it returns no error: the postings of the charge, to ledger
  accounts that exist, and only for nonnegative commissions.
\<close>

lemma wlp_postCommissions [wlpI]:
  assumes "\<And>d'. \<lbrakk>\<forall>x \<in> set cs. payable d (rc_settlement x) \<and> 0 \<le> rc_amount x;
            ledgerStep t (commissionPostings d cs) d d'\<rbrakk> \<Longrightarrow> Q () c (Some d')"
  shows "wlp (iterOk (postCommission t) cs) (onOk Q) c (Some d)"
proof -
  let ?I = "\<lambda>xs d'. \<exists>dn. cs = dn @ xs \<and> (\<forall>x \<in> set dn. payable d (rc_settlement x) \<and> 0 \<le> rc_amount x) \<and>
      ledgerStep t (commissionPostings d dn) d d'"
  show ?thesis
  proof (rule wlp_iterOk [where I = ?I])
    show "?I cs d" by (auto intro: ledgerStep_refl)
  next
    fix x ys d1
    assume "?I (x # ys) d1"
    then obtain dn where dn: "cs = dn @ x # ys"
      "\<forall>x \<in> set dn. payable d (rc_settlement x) \<and> 0 \<le> rc_amount x"
      "ledgerStep t (commissionPostings d dn) d d1" by blast
    note same = ledgerStep_accounts [OF dn(3)]
    have "?I ys d'" if "payable d1 (rc_settlement x)" "0 \<le> rc_amount x"
      "ledgerStep t (posting (creditId d1 (rc_settlement x)) (signed Credit (rc_amount x))) d1 d'" for d'
    proof (intro exI [of _ "dn @ [x]"] conjI)
      show "ledgerStep t (commissionPostings d (dn @ [x])) d d'"
        using ledgerStep_trans [OF dn(3) that(3)] by (simp add: signed_def creditId_cong [OF same])
    qed (use dn(1,2) that(1,2) in \<open>simp_all add: payable_cong [OF same]\<close>)
    then have "c = c \<and> (\<exists>d''. Some d' = Some d'' \<and> ?I ys d'')" if "payable d1 (rc_settlement x)"
      "0 \<le> rc_amount x"
      "ledgerStep t (posting (creditId d1 (rc_settlement x)) (signed Credit (rc_amount x))) d1 d'" for d'
      using that by blast
    then show "wlp (postCommission t x)
        (onOk (\<lambda>_ c' k'. c' = c \<and> (\<exists>d'. k' = Some d' \<and> ?I ys d'))) c (Some d1)"
      unfolding postCommission_def by (intro wlpI)
  qed (auto intro: assms)
qed

lemma chargePostings_steps:
  assumes "ledgerStep t (posting (creditId d payer) (- gross)) d d1"
    and "ledgerStep t (posting (creditId d1 main) mainNet) d1 d2"
    and "ledgerStep t (commissionPostings d2 cs) d2 d3"
    and "ledgerStep t (posting (feeLedgerId d3) fee) d3 d4"
  shows "ledgerStep t (chargePostings d payer main gross mainNet fee cs) d d4"
proof -
  have same: "ledger_accounts d1 = ledger_accounts d" "ledger_accounts d2 = ledger_accounts d"
    "ledger_accounts d3 = ledger_accounts d"
    using assms [THEN ledgerStep_accounts] by simp_all
  show ?thesis
    using ledgerStep_trans [OF assms(1) ledgerStep_trans [OF assms(2) ledgerStep_trans [OF assms(3,4)]]]
    by (simp add: chargePostings_def creditId_cong [OF same(1)] commissionPostings_cong [OF same(2)]
        feeLedgerId_cong [OF same(3)])
qed

lemma wlp_postLedger [wlpI]:
  assumes net: "wrap64 (- mainNet) = - mainNet" and fee: "0 \<le> fee"
    and ok: "\<And>d'. \<lbrakk>payable d payer; payable d main; 0 \<le> gross;
            \<forall>x \<in> set cs. payable d (rc_settlement x) \<and> 0 \<le> rc_amount x;
            0 < fee \<Longrightarrow> assetLedger ''platform_fee'' d \<noteq> None;
            ledgerStep t (chargePostings d payer main gross mainNet fee cs) d d'\<rbrakk>
          \<Longrightarrow> Q () c (Some d')"
  shows "wlp (postLedger t payer main gross mainNet fee cs) (onOk Q) c (Some d)"
proof -
  have fin: "Q () c (Some d4)"
    if "payable d payer" "0 \<le> gross" "ledgerStep t (posting (creditId d payer) (- gross)) d d1"
      "payable d1 main" "ledgerStep t (posting (creditId d1 main) mainNet) d1 d2"
      "\<forall>x \<in> set cs. payable d2 (rc_settlement x) \<and> 0 \<le> rc_amount x"
      "ledgerStep t (commissionPostings d2 cs) d2 d3"
      "0 < fee \<Longrightarrow> assetLedger ''platform_fee'' d3 \<noteq> None"
      "ledgerStep t (posting (feeLedgerId d3) fee) d3 d4" for d1 d2 d3 d4
  proof -
    have same: "ledger_accounts d1 = ledger_accounts d" "ledger_accounts d2 = ledger_accounts d"
      "ledger_accounts d3 = ledger_accounts d"
      using that(3,5,7) [THEN ledgerStep_accounts] by simp_all
    show ?thesis
      using that same chargePostings_steps [OF that(3,5,7,9)]
      by (intro ok) (auto simp: payable_cong [OF same(1)] payable_cong [OF same(2)] assetLedger_def)
  qed
  show ?thesis
    unfolding postLedger_def
    by (intro wlpI; rule fin)
       (use net fee in \<open>auto simp: signed_def posting_def intro: ledgerStep_refl\<close>)
qed

subsection \<open>Balances\<close>

text \<open>What postings add to the balance of an account, and what the projections add to theirs.\<close>

definition balanceDelta :: "pay_db \<Rightarrow> posting list \<Rightarrow> string \<Rightarrow> int" where
  "balanceDelta d ps a = sum_list (map snd (filter (\<lambda>p. isCreditOf d a (fst p)) ps))"

definition shiftBalances :: "(string \<Rightarrow> int) \<Rightarrow> sync_balance list \<Rightarrow> sync_balance list" where
  "shiftBalances f bs = map (\<lambda>b. b\<lparr>sb_balance := sb_balance b + f (sb_account b)\<rparr>) bs"

definition amountFor :: "string \<Rightarrow> int \<Rightarrow> string \<Rightarrow> int" where
  "amountFor acct x a = (if a = acct then x else 0)"

lemma shiftBalances_shift: "shiftBalances f (shiftBalances g bs) = shiftBalances (\<lambda>a. g a + f a) bs"
  by (simp add: shiftBalances_def add.assoc)

lemma shiftBalances_0 [simp]: "shiftBalances (\<lambda>a. 0) bs = bs"
  by (simp add: shiftBalances_def)

lemma addSyncBalance_Inr:
  "addSyncBalance x acct d = Inr (u, d') \<Longrightarrow>
     d' = d\<lparr>sync_balances := shiftBalances (amountFor acct x) (sync_balances d)\<rparr>"
  by (auto simp: addSyncBalance_def updateRows_def shiftBalances_def amountFor_def split: if_splits
      intro!: arg_cong [where f = "\<lambda>t. d\<lparr>sync_balances := t\<rparr>"])

lemma balanceDelta_append [simp]: "balanceDelta d (ps @ qs) a = balanceDelta d ps a + balanceDelta d qs a"
  by (simp add: balanceDelta_def)

lemma balanceDelta_Nil [simp]: "balanceDelta d [] a = 0"
  by (simp add: balanceDelta_def)

lemma isCreditOf_ledger:
  assumes "distinct (map la_id (ledger_accounts d))" and "l \<in> set (ledger_accounts d)"
  shows "isCreditOf d a (la_id l) \<longleftrightarrow> la_owner l = Some a \<and> la_asset l = ''credit''"
  using assms by (auto simp: isCreditOf_def list_ex_iff distinct_map dest: inj_onD)

lemma creditLedger_SomeD:
  "creditLedger acct d = Some l \<Longrightarrow>
     l \<in> set (ledger_accounts d) \<and> la_owner l = Some acct \<and> la_asset l = ''credit''"
  unfolding creditLedger_def by (drule find_SomeD) simp

lemma balanceDelta_credit:
  assumes "distinct (map la_id (ledger_accounts d))" and "payable d acct"
  shows "balanceDelta d (posting (creditId d acct) x) a = amountFor acct x a"
proof -
  from assms(2) obtain l where l: "creditLedger acct d = Some l" by (auto simp: payable_def)
  with isCreditOf_ledger [OF assms(1), of l a] creditLedger_SomeD [OF l]
  have "isCreditOf d a (creditId d acct) \<longleftrightarrow> a = acct" by (auto simp: creditId_def)
  then show ?thesis by (auto simp: balanceDelta_def posting_def amountFor_def)
qed

lemma balanceDelta_fee:
  assumes "distinct (map la_id (ledger_accounts d))" and "0 < fee \<Longrightarrow> assetLedger ''platform_fee'' d \<noteq> None"
    and "0 \<le> fee"
  shows "balanceDelta d (posting (feeLedgerId d) fee) a = 0"
proof (cases "0 < fee")
  case True
  then obtain l where l: "assetLedger ''platform_fee'' d = Some l" using assms by auto
  then have "l \<in> set (ledger_accounts d) \<and> la_asset l = ''platform_fee''"
    unfolding assetLedger_def by (drule_tac find_SomeD) simp
  with isCreditOf_ledger [OF assms(1), of l a] l show ?thesis
    by (auto simp: balanceDelta_def posting_def feeLedgerId_def)
qed (use assms in \<open>simp add: posting_def\<close>)

lemma balanceDelta_clearing:
  assumes "\<forall>l \<in> set (ledger_accounts d). la_id l = ''led_clearing'' \<longrightarrow> la_owner l = None"
  shows "balanceDelta d [(''led_clearing'', x)] a = 0"
  using assms by (auto simp: balanceDelta_def isCreditOf_def list_ex_iff)

text \<open>The change of the balance of \<open>a\<close> that a charge makes, in the terms of the request.\<close>

definition commissionsFor :: "resolved_commission list \<Rightarrow> string \<Rightarrow> int" where
  "commissionsFor cs a = sum_list (map (\<lambda>c. amountFor (rc_settlement c) (rc_amount c) a) cs)"

definition chargeDelta :: "string \<Rightarrow> string \<Rightarrow> int \<Rightarrow> int \<Rightarrow> resolved_commission list \<Rightarrow> string \<Rightarrow> int" where
  "chargeDelta payer main gross mainNet cs a =
     amountFor payer (- gross) a + amountFor main mainNet a + commissionsFor cs a"

lemma commissionsFor_simps [simp]:
  "commissionsFor [] a = 0"
  "commissionsFor (c # cs) a = amountFor (rc_settlement c) (rc_amount c) a + commissionsFor cs a"
  by (simp_all add: commissionsFor_def)

lemma balanceDelta_commissions:
  assumes "distinct (map la_id (ledger_accounts d))" and "\<forall>c \<in> set cs. payable d (rc_settlement c)"
  shows "balanceDelta d (commissionPostings d cs) a = commissionsFor cs a"
  using assms(2) by (induction cs) (simp_all add: balanceDelta_credit [OF assms(1)])

lemma balanceDelta_charge:
  assumes "distinct (map la_id (ledger_accounts d))" and "payable d payer" and "payable d main"
    and "\<forall>c \<in> set cs. payable d (rc_settlement c)"
    and "0 < fee \<Longrightarrow> assetLedger ''platform_fee'' d \<noteq> None" and "0 \<le> fee"
  shows "balanceDelta d (chargePostings d payer main gross mainNet fee cs) a =
    chargeDelta payer main gross mainNet cs a"
  using assms
  by (simp add: chargePostings_def chargeDelta_def balanceDelta_credit balanceDelta_commissions
      balanceDelta_fee)

lemma postings_sum:
  "sum_list (map snd (chargePostings d payer main gross mainNet fee cs)) =
     mainNet + sum_list (map rc_amount cs) + fee - gross"
proof -
  have *: "sum_list (map snd (posting l x)) = x" for l x by (simp add: posting_def)
  have "sum_list (map snd (commissionPostings d cs)) = sum_list (map rc_amount cs)"
    by (induction cs) (simp_all add: *)
  then show ?thesis by (simp add: chargePostings_def *)
qed

subsection \<open>The ledger invariant\<close>

text \<open>
  \<open>payInv\<close>: identifiers are unique, entries refer to transactions and ledger accounts, owned
  ledger accounts have their account, every posted transaction nets to zero, and every
  projected balance that the clients see is the balance of the ledger view. The platform's own
  account, which the initialization creates, belongs to nobody who signs in and has no projected
  balance.
\<close>

definition payInv :: "pay_db \<Rightarrow> bool" where
  "payInv d \<longleftrightarrow>
     distinct (map la_id (ledger_accounts d)) \<and>
     distinct (map lt_id (ledger_transactions d)) \<and>
     le_txn ` set (ledger_entries d) \<subseteq> lt_id ` set (ledger_transactions d) \<and>
     le_account ` set (ledger_entries d) \<subseteq> la_id ` set (ledger_accounts d) \<and>
     (\<forall>l \<in> set (ledger_accounts d). set_option (la_owner l) \<subseteq> a_id ` set (accounts d)) \<and>
     (\<forall>t \<in> set (ledger_transactions d). lt_status t = ''posted'' \<longrightarrow> transactionNet d (lt_id t) = 0) \<and>
     (\<forall>b \<in> set (sync_balances d). sb_account b \<noteq> platformAccountID \<longrightarrow> sb_balance b = ledgerBalance d (sb_account b)) \<and>
     sb_account ` set (sync_balances d) \<subseteq> a_id ` set (accounts d) \<and>
     a_id ` set (accounts d) \<subseteq> insert platformAccountID (sb_account ` set (sync_balances d)) \<and>
     (\<forall>l \<in> set (ledger_accounts d). la_id l = ''led_clearing'' \<longrightarrow> la_owner l = None)"

lemma payInv_migrated: "payInv migrated_pay"
  by (simp add: payInv_def migrated_pay_def)

lemma transactionNet_append:
  assumes "ledger_entries d' = ledger_entries d @ es" and "\<forall>e \<in> set es. le_txn e = t"
  shows "transactionNet d' i = transactionNet d i - (if i = t then sum_list (map signedAmount es) else 0)"
proof -
  have "filter (\<lambda>e. le_txn e = i) es = (if i = t then es else [])"
    using assms(2) by (auto intro: filter_True filter_False)
  then show ?thesis by (simp add: transactionNet_def assms(1) uminus_sum_list_map o_def)
qed

text \<open>A transaction that has just been posted: its postings move the balances.\<close>

definition posts :: "string \<Rightarrow> posting list \<Rightarrow> pay_db \<Rightarrow> pay_db \<Rightarrow> bool" where
  "posts t ps d d' \<longleftrightarrow>
     t \<notin> lt_id ` set (ledger_transactions d) \<and>
     (\<exists>x. ledger_transactions d' = ledger_transactions d @ [x] \<and> lt_id x = t \<and> lt_status x = ''posted'') \<and>
     (\<exists>es. ledger_entries d' = ledger_entries d @ es \<and> map entryPosting es = ps \<and>
        (\<forall>e \<in> set es. le_txn e = t \<and> le_account e \<in> la_id ` set (ledger_accounts d))) \<and>
     ledger_accounts d' = ledger_accounts d \<and> accounts d' = accounts d"

lemma posts_balance:
  assumes "posts t ps d d'" and "payInv d"
  shows "ledgerBalance d' a = ledgerBalance d a + balanceDelta d ps a"
proof -
  from assms(1) obtain x es where t: "t \<notin> lt_id ` set (ledger_transactions d)"
    and x: "ledger_transactions d' = ledger_transactions d @ [x]" "lt_id x = t" "lt_status x = ''posted''"
    and es: "ledger_entries d' = ledger_entries d @ es" "map entryPosting es = ps" "\<forall>e \<in> set es. le_txn e = t"
    and same: "ledger_accounts d' = ledger_accounts d"
    by (auto simp: posts_def)
  have credit: "isCreditOf d' a l = isCreditOf d a l" for l by (simp add: isCreditOf_def same)
  have old: "isPosted d' (le_txn e) = isPosted d (le_txn e)" if "e \<in> set (ledger_entries d)" for e
  proof -
    from that assms(2) have "le_txn e \<in> lt_id ` set (ledger_transactions d)" by (auto simp: payInv_def)
    with t have "le_txn e \<noteq> t" by auto
    then show ?thesis by (simp add: isPosted_def x)
  qed
  have new: "isPosted d' (le_txn e)" if "e \<in> set es" for e
    using that es(3) x by (simp add: isPosted_def)
  have "filter (\<lambda>e. isCreditOf d' a (le_account e) \<and> isPosted d' (le_txn e)) (ledger_entries d) =
      filter (\<lambda>e. isCreditOf d a (le_account e) \<and> isPosted d (le_txn e)) (ledger_entries d)"
    by (rule filter_cong) (simp_all add: credit old)
  moreover have "filter (\<lambda>e. isCreditOf d' a (le_account e) \<and> isPosted d' (le_txn e)) es =
      filter (\<lambda>e. isCreditOf d a (le_account e)) es"
    by (rule filter_cong) (simp_all add: credit new)
  moreover have "sum_list (map signedAmount (filter (\<lambda>e. isCreditOf d a (le_account e)) es)) =
      balanceDelta d ps a"
    by (simp add: balanceDelta_def es(2) [symmetric] filter_map o_def entryPosting_def)
  ultimately show ?thesis by (simp add: ledgerBalance_def es(1))
qed

lemma posts_payInv:
  assumes "posts t ps d d'" and "payInv d" and "sum_list (map snd ps) = 0"
    and "sync_balances d' = shiftBalances (balanceDelta d ps) (sync_balances d)"
  shows "payInv d'"
proof -
  from assms(1) obtain x es where t: "t \<notin> lt_id ` set (ledger_transactions d)"
    and x: "ledger_transactions d' = ledger_transactions d @ [x]" "lt_id x = t" "lt_status x = ''posted''"
    and es: "ledger_entries d' = ledger_entries d @ es" "map entryPosting es = ps" "\<forall>e \<in> set es. le_txn e = t"
      "\<forall>e \<in> set es. le_account e \<in> la_id ` set (ledger_accounts d)"
    and same: "ledger_accounts d' = ledger_accounts d" "accounts d' = accounts d"
    by (auto simp: posts_def)
  note inv = assms(2) [unfolded payInv_def]
  have "sum_list (map signedAmount es) = 0"
    using assms(3) by (simp add: es(2) [symmetric] o_def entryPosting_def)
  then have net: "transactionNet d' i = transactionNet d i" for i
    by (simp add: transactionNet_append [OF es(1,3)])
  have "transactionNet d t = 0"
  proof -
    from inv have sub: "le_txn ` set (ledger_entries d) \<subseteq> lt_id ` set (ledger_transactions d)" by (elim conjE)
    have "\<not> le_txn e = t" if "e \<in> set (ledger_entries d)" for e
      using subsetD [OF sub, OF imageI, OF that] t by metis
    then have "filter (\<lambda>e. le_txn e = t) (ledger_entries d) = []" by (simp add: filter_empty_conv)
    then show ?thesis by (simp add: transactionNet_def)
  qed
  then have nets: "\<forall>u \<in> set (ledger_transactions d'). lt_status u = ''posted'' \<longrightarrow> transactionNet d' (lt_id u) = 0"
  proof -
    have "transactionNet d (lt_id u) = 0" if "u \<in> set (ledger_transactions d)" "lt_status u = ''posted''" for u
      using inv that by blast
    then show ?thesis using \<open>transactionNet d t = 0\<close> x(2) by (simp add: net x(1))
  qed
  have proj: "\<forall>b \<in> set (sync_balances d'). sb_account b \<noteq> platformAccountID \<longrightarrow> sb_balance b = ledgerBalance d' (sb_account b)"
    using inv by (auto simp: assms(4) shiftBalances_def posts_balance [OF assms(1,2)])
  have accts: "sb_account ` set (sync_balances d') = sb_account ` set (sync_balances d)"
    by (simp add: assms(4) shiftBalances_def image_image)
  show ?thesis
    unfolding payInv_def
  proof (intro conjI nets proj)
    show "distinct (map la_id (ledger_accounts d'))" using inv by (simp add: same)
    show "distinct (map lt_id (ledger_transactions d'))" using inv t by (simp add: x)
    show "le_txn ` set (ledger_entries d') \<subseteq> lt_id ` set (ledger_transactions d')"
      using inv es(3) x(2) by (auto simp: es(1) x(1))
    show "le_account ` set (ledger_entries d') \<subseteq> la_id ` set (ledger_accounts d')"
      using inv es(4) by (auto simp: es(1) same)
    show "\<forall>l \<in> set (ledger_accounts d'). set_option (la_owner l) \<subseteq> a_id ` set (accounts d')"
      unfolding same using inv by (elim conjE)
    show "sb_account ` set (sync_balances d') \<subseteq> a_id ` set (accounts d')"
      unfolding same accts using inv by (elim conjE)
    show "a_id ` set (accounts d') \<subseteq> insert platformAccountID (sb_account ` set (sync_balances d'))"
      unfolding same accts using inv by (elim conjE)
    show "\<forall>l \<in> set (ledger_accounts d'). la_id l = ''led_clearing'' \<longrightarrow> la_owner l = None"
      unfolding same using inv by (elim conjE)
  qed
qed

end
