(* ===== verification/PayExamples.thy ===== *)
theory PayExamples
  imports PayLedger
begin

section \<open>Concrete GizPay data\<close>

text \<open>
  A database with a payer, a main merchant, a beneficiary and a key that has been revoked, a
  configuration and a session, on which the witnesses of the GizPay theories run.
\<close>

definition demo_pay :: pay_db where
  "demo_pay = migrated_pay\<lparr>
     users := map (\<lambda>n. \<lparr> u_id = ''u'' @ [n], u_issuer = ''iss'', u_subject = ''sub'' @ [n], u_email = [],
        u_display_name = ''U'', u_status = ''active'', u_created_at = 1 \<rparr>) ''123'',
     accounts := map (\<lambda>n. \<lparr> a_id = ''a'' @ [n], a_owner = ''u'' @ [n], a_status = ''active'',
        a_created_at = 1 \<rparr>) ''123'',
     service_principals := [\<lparr> sp_id = ''svc'', sp_owner = ''u1'', sp_issuer = ''iss'', sp_subject = ''machine'',
        sp_key_id = None, sp_name = ''way'', sp_roles = [''service''], sp_status = ''active'',
        sp_created_at = 1, sp_revoked_at = None \<rparr>],
     ledger_accounts := ledger_accounts migrated_pay @ map (\<lambda>n. \<lparr> la_id = ''l'' @ [n],
        la_owner = Some (''a'' @ [n]), la_asset = ''credit'', la_status = ''active'' \<rparr>) ''123'',
     merchants := map (\<lambda>n. \<lparr> m_id = ''m'' @ [n], m_settlement = ''a'' @ [n], m_legal_name = ''M'',
        m_public_name = ''M'', m_is_default = True, m_status = ''active'', m_created_at = 1,
        m_updated_at = 1 \<rparr>) ''123'',
     products := [\<lparr> p_id = ''p'', p_merchant = ''m2'', p_name = ''P'', p_billing_mode = ''pay_as_you_go'',
        p_published = True, p_status = ''active'', p_terms = ''v1'', p_created_at = 1, p_updated_at = 1 \<rparr>],
     subscriptions := [\<lparr> s_id = ''s'', s_account = ''a1'', s_product = ''p'', s_status = ''active'',
        s_terms = ''v1'', s_accepted_at = 1, s_created_at = 1 \<rparr>],
     subscription_keys := [\<lparr> k_id = ''k'', k_subscription = ''s'', k_name = ''K'', k_key = ''key'',
        k_hmac = ''h'', k_status = ''revoked'', k_created_at = 1, k_last_used_at = None,
        k_revoked_at = Some 50 \<rparr>],
     sync_balances := map (\<lambda>n. \<lparr> sb_account = ''a'' @ [n], sb_issuer = ''iss'', sb_subject = ''sub'' @ [n],
        sb_balance = 0 \<rparr>) ''123''\<rparr>"

definition demo_pay_config :: pay_config where
  "demo_pay_config = \<lparr> admin_key = ''admin'', human_audience = ''human'', service_audience = ''service'',
     hmac_secret = ''secret'', fee_bps = 250, recheck_interval = 300 * second, max_order_bytes = 8192,
     max_commissions = 32, zitadel_issuer = ''iss'', action_key = ''action'', action_key_file = [],
     action_max_age = 300 * second \<rparr>"

definition demo_world :: "'db \<Rightarrow> 'db world" where
  "demo_world d = \<lparr> committed = d, working = None, fault = (\<lambda>_. False), fault_n = 0,
     uuid = (\<lambda>n. replicate n CHR ''i''), uuid_n = 0, now = 100 \<rparr>"

text \<open>The tables of the example, and the statements to evaluate on them.\<close>

lemmas demo_pay_sel =
  demo_pay_def [THEN arg_cong [where f = ledger_accounts], simplified, unfolded migrated_pay_def, simplified]
  demo_pay_def [THEN arg_cong [where f = ledger_entries], simplified, unfolded migrated_pay_def, simplified]
  demo_pay_def [THEN arg_cong [where f = ledger_transactions], simplified, unfolded migrated_pay_def, simplified]
  demo_pay_def [THEN arg_cong [where f = payg_charges], simplified, unfolded migrated_pay_def, simplified]
  demo_pay_def [THEN arg_cong [where f = charge_commissions], simplified, unfolded migrated_pay_def, simplified]
  demo_pay_def [THEN arg_cong [where f = topups], simplified, unfolded migrated_pay_def, simplified]
  demo_pay_def [THEN arg_cong [where f = product_listings], simplified, unfolded migrated_pay_def, simplified]
  demo_pay_def [THEN arg_cong [where f = sync_profiles], simplified, unfolded migrated_pay_def, simplified]
  demo_pay_def [THEN arg_cong [where f = sync_transactions], simplified, unfolded migrated_pay_def, simplified]
  demo_pay_def [THEN arg_cong [where f = sync_charges], simplified, unfolded migrated_pay_def, simplified]
  demo_pay_def [THEN arg_cong [where f = sync_commissions], simplified, unfolded migrated_pay_def, simplified]
  demo_pay_def [THEN arg_cong [where f = users], simplified]
  demo_pay_def [THEN arg_cong [where f = accounts], simplified]
  demo_pay_def [THEN arg_cong [where f = service_principals], simplified]
  demo_pay_def [THEN arg_cong [where f = merchants], simplified]
  demo_pay_def [THEN arg_cong [where f = products], simplified]
  demo_pay_def [THEN arg_cong [where f = subscriptions], simplified]
  demo_pay_def [THEN arg_cong [where f = subscription_keys], simplified]
  demo_pay_def [THEN arg_cong [where f = sync_balances], simplified]

lemma demo_pay_config_sel [simp]:
  "fee_bps demo_pay_config = 250" "max_order_bytes demo_pay_config = 8192"
  "max_commissions demo_pay_config = 32" "zitadel_issuer demo_pay_config = ''iss''"
  "recheck_interval demo_pay_config = 300 * second" "action_max_age demo_pay_config = 300 * second"
  by (simp_all add: demo_pay_config_def)

lemma payInv_demo: "payInv demo_pay"
  by (simp add: payInv_def demo_pay_def migrated_pay_def ledgerBalance_def)

lemmas pay_eval = chargeByExternal_def subscriptionById_def productById_def merchantById_def
  accountById_def accountByOwner_def userById_def userByIdentity_def keyById_def keyByHmac_def topupById_def
  principalByIdentity_def
  insertLedgerTransaction_def insertRow_def insertCharge_def insertChargeCommission_def
  insertLedgerEntry_def insertSyncTransaction_def insertSyncCharge_def insertSyncCommission_def
  insertTopup_def insertUser_def insertAccount_def insertLedgerAccount_def insertMerchant_def
  insertProduct_def insertSubscription_def insertSubscriptionKey_def insertProductListing_def
  insertServicePrincipal_def
  postLedger_def ledgerOf_def creditLedger_def insertEntry_def assetLedger_def postCommission_def
  postTransaction_def accountOwner_def addSyncBalance_def updateRows_def
  ledgerTransactionsBalanced_def touchedTransactions_def isPosted_def transactionNet_def signedAmount_def

end
