(* ===== verification/PayCharge.thy ===== *)
theory PayCharge
  imports PayExamples
begin

section \<open>Pay-as-you-go charges\<close>

text \<open>
  \<open>createCharge\<close>, \<open>validateOrderMetadata\<close>, \<open>getCharge\<close> and \<open>listAccountCharges\<close> of
  \<open>internal/gizpay/handler.go\<close>. A charge is one transaction: the charge row, its commissions,
  the balanced ledger transaction, and the rows that the clients see. The lemmas show what a
  charge answered with 201 has done and that any other answer has done nothing.
\<close>

subsection \<open>The request\<close>

text \<open>
  \<open>json.RawMessage\<close>: the number of its bytes and the value \<open>json.Unmarshal\<close> makes of it. The
  keys of an object are in the order of the message (Go visits them in any order, which only
  decides which forbidden key the error names).
\<close>

record raw_json =
  raw_size :: nat
  raw_value :: "json option"

record commission_request =
  cm_merchant :: string
  cm_amount :: int

record charge_request =
  cr_external :: string
  cr_hmac :: string
  cr_gross :: int
  cr_commissions :: "commission_request list"
  cr_order :: raw_json
  cr_started :: time
  cr_completed :: time

subsection \<open>Order metadata\<close>

definition forbiddenKeys :: "string list" where
  "forbiddenKeys = [''prompt'', ''authorization'', ''api_key'', ''subscription_key'',
     ''provider_key'', ''provider_secret'']"

definition forbiddenKey :: "string \<Rightarrow> bool" where
  "forbiddenKey k =
     (let normalized = toLower (trimSpace k)
      in normalized \<in> set forbiddenKeys \<or> containsStr normalized ''secret'')"

fun inspectOrder :: "json \<Rightarrow> string option"
  and inspectFields :: "(string \<times> json) list \<Rightarrow> string option"
  and inspectItems :: "json list \<Rightarrow> string option" where
  "inspectOrder (JObj members) = inspectFields members"
| "inspectOrder (JArr items) = inspectItems items"
| "inspectOrder _ = None"
| "inspectFields [] = None"
| "inspectFields ((key, nested) # members) =
     (if forbiddenKey key
      then Some (''order metadata field '' @ goQuote key @ '' is forbidden'')
      else case inspectOrder nested of Some e \<Rightarrow> Some e | None \<Rightarrow> inspectFields members)"
| "inspectItems [] = None"
| "inspectItems (nested # items) =
     (case inspectOrder nested of Some e \<Rightarrow> Some e | None \<Rightarrow> inspectItems items)"

definition validateOrderMetadata :: "raw_json \<Rightarrow> int \<Rightarrow> string option" where
  "validateOrderMetadata raw maxBytes =
     (if raw_size raw = 0 \<or> int (raw_size raw) > maxBytes
      then Some (''order metadata must be a nonempty object no larger than '' @ showInt maxBytes @ '' bytes'')
      else case raw_value raw of
             None \<Rightarrow> Some ''order metadata must be valid JSON''
           | Some (JObj members) \<Rightarrow> inspectOrder (JObj members)
           | Some _ \<Rightarrow> Some ''order metadata must be an object'')"

subsection \<open>Commissions\<close>

fun checkCommissions ::
  "int \<Rightarrow> string list \<Rightarrow> int \<Rightarrow> commission_request list \<Rightarrow> response + int" where
  "checkCommissions gross seen total_sum [] = Inr total_sum"
| "checkCommissions gross seen total_sum (c # cs) =
     (if blank (cm_merchant c) \<or> cm_amount c < 0
      then Inl (errorJSON 400 ''invalid_commission_amount'' ''commission must be nonnegative'')
      else if cm_merchant c \<in> set seen
      then Inl (errorJSON 400 ''duplicate_commission_merchant'' ''duplicate beneficiary'')
      else if cm_amount c > wrap64 (gross - total_sum)
      then Inl (errorJSON 400 ''commission_exceeds_gross'' ''commission exceeds gross'')
      else checkCommissions gross (cm_merchant c # seen) (wrap64 (total_sum + cm_amount c)) cs)"

definition resolveCommission :: "commission_request \<Rightarrow> (pay_world, resolved_commission) act" where
  "resolveCommission c =
     bnd (orReply (tx_exec (readRow (merchantById (cm_merchant c))))
       (errorJSON 400 ''invalid_commission_merchant'' ''invalid commission Merchant'')) (\<lambda>m.
     bnd (require (m_status m = ''active'')
       (errorJSON 400 ''commission_merchant_inactive'' ''commission Merchant inactive'')) (\<lambda>_.
     ret \<lparr> rc_merchant = cm_merchant c, rc_amount = cm_amount c, rc_settlement = m_settlement m \<rparr>))"

subsection \<open>The statements of the transaction\<close>

text \<open>
  The key, subscription and main merchant of a charge: a key that is active, or was revoked
  no earlier than the service started.
\<close>

definition chargeKeyUsable :: "string \<Rightarrow> time \<Rightarrow> subscription_key \<Rightarrow> bool" where
  "chargeKeyUsable hmac started k \<longleftrightarrow>
     k_hmac k = hmac \<and>
     (k_status k = ''active'' \<or>
      k_status k = ''revoked'' \<and> (case k_revoked_at k of None \<Rightarrow> False | Some t \<Rightarrow> started \<le> t))"

definition chargeTarget :: "string \<Rightarrow> time \<Rightarrow> pay_db \<Rightarrow> (subscription_key \<times> subscription \<times> merchant) option" where
  "chargeTarget hmac started d =
     (case find (chargeKeyUsable hmac started) (subscription_keys d) of
        None \<Rightarrow> None
      | Some k \<Rightarrow>
          (case subscriptionById (k_subscription k) d of
             None \<Rightarrow> None
           | Some s \<Rightarrow>
               (case productById (s_product s) d of
                  None \<Rightarrow> None
                | Some p \<Rightarrow> map_option (\<lambda>m. (k, s, m)) (merchantById (p_merchant p) d))))"

definition touchKey :: "time \<Rightarrow> string \<Rightarrow> (pay_db, unit) query" where
  "touchKey completed i d = Inr ((), d\<lparr>subscription_keys :=
     updateRows (\<lambda>k. k_id k = i)
       (\<lambda>k. k\<lparr>k_last_used_at :=
          (case k_last_used_at k of
             None \<Rightarrow> Some completed
           | Some t \<Rightarrow> if t < completed then Some completed else Some t)\<rparr>) (subscription_keys d)\<rparr>)"

definition recordCommission :: "string \<Rightarrow> resolved_commission \<Rightarrow> (pay_world, sqlerr + unit) act" where
  "recordCommission chargeID c =
     tx_exec (insertChargeCommission \<lparr> cc_charge = chargeID, cc_merchant = rc_merchant c,
       cc_settlement = rc_settlement c, cc_amount = rc_amount c \<rparr>)"

definition projectCommission :: "string \<Rightarrow> time \<Rightarrow> resolved_commission \<Rightarrow> (pay_world, sqlerr + unit) act" where
  "projectCommission chargeID t c =
     thenOk (tx_exec (addSyncBalance (rc_amount c) (rc_settlement c))) (\<lambda>_.
     thenOk (tx_exec (readRow (accountOwner (rc_settlement c)))) (\<lambda>u.
     tx_exec (insertSyncCommission \<lparr> sm_id = chargeID @ '':'' @ rc_merchant c,
       sm_merchant = rc_merchant c, sm_charge = chargeID, sm_issuer = u_issuer u,
       sm_subject = u_subject u, sm_amount = rc_amount c, sm_created_at = t \<rparr>)))"

definition chargeInsertError :: "sqlerr \<Rightarrow> response" where
  "chargeInsertError e =
     (if e = UniqueViolation ''payg_charges_external_order_id_key''
      then errorJSON 409 ''duplicate_external_order_id'' ''external order ID already exists''
      else internal)"

definition advisoryLock :: "(pay_db, unit) query" where
  "advisoryLock = reading (\<lambda>_. ())"

definition chargeJSON :: "payg_charge \<Rightarrow> (string \<times> json) list" where
  "chargeJSON c =
     [(''charge_id'', JStr (pc_id c)), (''external_order_id'', JStr (pc_external c)),
      (''gross_microcredits'', JInt (pc_gross c)), (''platform_fee_microcredits'', JInt (pc_fee c)),
      (''main_merchant_net_microcredits'', JInt (pc_main_net c)),
      (''ledger_transaction_id'', JStr (pc_txn c))]"

definition commissionJSON :: "commission_request \<Rightarrow> json" where
  "commissionJSON c =
     JObj [(''merchant_id'', JStr (cm_merchant c)), (''amount_microcredits'', JInt (cm_amount c))]"

subsection \<open>The handler\<close>

definition chargeChecks :: "pay_config \<Rightarrow> charge_request \<Rightarrow> (pay_world, int) act" where
  "chargeChecks cfg b =
     bnd (require (nonBlank (cr_external b))
       (errorJSON 400 ''invalid_external_order_id'' ''external order ID is required'')) (\<lambda>_.
     bnd (require (nonBlank (cr_hmac b))
       (errorJSON 400 ''invalid_subscription_key_hmac'' ''Subscription Key HMAC is required'')) (\<lambda>_.
     bnd (require (0 < cr_gross b)
       (errorJSON 400 ''invalid_gross_microcredits'' ''gross must be positive'')) (\<lambda>_.
     bnd (require (cr_started b \<noteq> 0 \<and> cr_completed b \<noteq> 0 \<and> \<not> cr_completed b < cr_started b)
       (errorJSON 400 ''invalid_service_time_range'' ''completion precedes start'')) (\<lambda>_.
     bnd (require (int (length (cr_commissions b)) \<le> max_commissions cfg)
       (errorJSON 400 ''too_many_commissions'' ''commission limit exceeded'')) (\<lambda>_.
     bnd (case validateOrderMetadata (cr_order b) (max_order_bytes cfg) of
            Some e \<Rightarrow> reply (errorJSON 400 ''invalid_order_metadata'' e) | None \<Rightarrow> ret ()) (\<lambda>_.
     case checkCommissions (cr_gross b) [] 0 (cr_commissions b) of
       Inl r \<Rightarrow> reply r
     | Inr total_sum \<Rightarrow> ret total_sum))))))"

definition chargeTransaction ::
  "pay_config \<Rightarrow> string \<Rightarrow> charge_request \<Rightarrow> string \<Rightarrow> int \<Rightarrow> (pay_world, response) act" where
  "chargeTransaction cfg failpoint b principalID total_sum =
     bnd (orReply (tx_exec (readRow (chargeTarget (cr_hmac b) (cr_started b))))
       (errorJSON 404 ''subscription_key_not_found'' ''Subscription Key not found'')) (\<lambda>(k, s, m).
     bnd (require (m_status m = ''active'')
       (errorJSON 400 ''main_merchant_inactive'' ''Product Merchant is inactive'')) (\<lambda>_.
     bnd (orReply (tx_exec advisoryLock) internal) (\<lambda>_.
     bnd (mapA resolveCommission (cr_commissions b)) (\<lambda>resolved.
     let fee = platformFee (cr_gross b) (fee_bps cfg);
         mainNet = wrap64 (wrap64 (cr_gross b - total_sum) - fee)
     in
     bnd newUUID (\<lambda>cu. bnd newUUID (\<lambda>tu. bnd (gets now) (\<lambda>t.
     let chargeID = ''chg_'' @ cu;
         transactionID = ''txn_'' @ tu;
         snapshot = JObj
           [(''order'', case raw_value (cr_order b) of Some v \<Rightarrow> v | None \<Rightarrow> JNull),
            (''service_started_at'', JTime (cr_started b)),
            (''service_completed_at'', JTime (cr_completed b)),
            (''main_merchant_id'', JStr (m_id m))];
         charge = \<lparr> pc_id = chargeID, pc_external = cr_external b, pc_subscription = s_id s,
            pc_principal = principalID, pc_gross = cr_gross b, pc_fee = fee, pc_main_net = mainNet,
            pc_snapshot = snapshot, pc_txn = transactionID, pc_created_at = t \<rparr>
     in
     bnd (orReply (tx_exec (insertLedgerTransaction \<lparr> lt_id = transactionID,
        lt_type = ''payg_charge'', lt_status = ''pending'', lt_created_at = t \<rparr>)) internal) (\<lambda>_.
     bnd (orReplyWith (tx_exec (insertCharge charge)) chargeInsertError) (\<lambda>_.
     bnd (orReply (iterOk (recordCommission chargeID) resolved) internal) (\<lambda>_.
     bnd (require (failpoint \<noteq> ''after_commission_before_ledger_commit'')
       (errorJSON 500 ''injected_transaction_failure'' ''injected transaction failure'')) (\<lambda>_.
     bnd (orReply (postLedger transactionID (s_account s) (m_settlement m) (cr_gross b) mainNet fee
       resolved) internal) (\<lambda>_.
     bnd (orReply (tx_exec (postTransaction transactionID)) internal) (\<lambda>_.
     bnd (orReply (tx_exec (touchKey (cr_completed b) (k_id k))) internal) (\<lambda>_.
     bnd (orReply (tx_exec (readRow (accountOwner (s_account s)))) internal) (\<lambda>payer.
     bnd (orReply (tx_exec (addSyncBalance (- cr_gross b) (s_account s))) internal) (\<lambda>_.
     bnd (orReply (tx_exec (addSyncBalance mainNet (m_settlement m))) internal) (\<lambda>_.
     bnd (orReply (tx_exec (insertSyncTransaction \<lparr> st_id = transactionID, st_account = s_account s,
        st_issuer = u_issuer payer, st_subject = u_subject payer, st_type = ''payg_charge'',
        st_amount = wrap64 (- cr_gross b), st_created_at = t \<rparr>)) internal) (\<lambda>_.
     bnd (orReply (tx_exec (insertSyncCharge \<lparr> sc_id = chargeID, sc_account = s_account s,
        sc_subscription = s_id s, sc_issuer = u_issuer payer, sc_subject = u_subject payer,
        sc_external = cr_external b, sc_gross = cr_gross b, sc_snapshot = snapshot,
        sc_created_at = t \<rparr>)) internal) (\<lambda>_.
     bnd (orReply (iterOk (projectCommission chargeID t) resolved) internal) (\<lambda>_.
     bnd (orReply (commit_tx ledgerTransactionsBalanced) internal) (\<lambda>_.
     ret (writeJSON 201 (JObj (chargeJSON charge @
       [(''commissions'', JArr (map commissionJSON (cr_commissions b)))]))))))))))))))))))))))))"

definition createCharge ::
  "pay_config \<Rightarrow> string \<Rightarrow> charge_request option \<Rightarrow> string \<Rightarrow> (pay_world, response) act" where
  "createCharge cfg failpoint body principalID =
     (case body of
        None \<Rightarrow> reply invalid
      | Some b \<Rightarrow>
          bnd (chargeChecks cfg b) (\<lambda>total_sum.
          bnd (orZero (db_exec (reading (\<lambda>d. chargeByExternal (cr_external b) d \<noteq> None))) False) (\<lambda>duplicate.
          bnd (require (\<not> duplicate)
            (errorJSON 409 ''duplicate_external_order_id'' ''external order ID already exists'')) (\<lambda>_.
          bnd (orReply begin_tx internal) (\<lambda>_.
          finish_tx (chargeTransaction cfg failpoint b principalID total_sum))))))"

definition getCharge :: "string \<Rightarrow> (pay_world, response) act" where
  "getCharge external =
     bnd (orReply (db_exec (readRow (chargeByExternal external))) notFound) (\<lambda>c.
     ret (writeJSON 200 (JObj (chargeJSON c))))"

definition listAccountCharges :: "string \<Rightarrow> (pay_world, response) act" where
  "listAccountCharges accountID =
     bnd (orReply (db_exec (reading (\<lambda>d. orderBy pc_created_at pc_id
        (filter (\<lambda>c. list_ex (\<lambda>s. s_id s = pc_subscription c \<and> s_account s = accountID) (subscriptions d))
          (payg_charges d))))) internal) (\<lambda>rows.
     ret (writeJSON 200 (JObj [(''data'', JArr (map (\<lambda>c.
        JObj (chargeJSON c @ [(''created_at'', JTime (pc_created_at c))])) rows))])))"

subsection \<open>The checks\<close>

definition commissionTotal :: "commission_request list \<Rightarrow> int" where
  "commissionTotal cs = sum_list (map cm_amount cs)"

lemma checkCommissions_Inr_iff:
  assumes "0 \<le> s" and "s \<le> gross" and "gross \<le> max_int64"
  shows "checkCommissions gross seen s cs = Inr t \<longleftrightarrow>
    (\<forall>c \<in> set cs. nonBlank (cm_merchant c) \<and> 0 \<le> cm_amount c \<and> cm_merchant c \<notin> set seen) \<and>
    distinct (map cm_merchant cs) \<and> s + commissionTotal cs \<le> gross \<and> t = s + commissionTotal cs"
  using assms
proof (induction cs arbitrary: seen s)
  case Nil
  then show ?case by (auto simp: commissionTotal_def)
next
  case (Cons c cs)
  have g: "wrap64 (gross - s) = gross - s"
    using Cons.prems by (intro wrap64_id int64_nonnegI [of _ gross]) auto
  show ?case
  proof (cases "blank (cm_merchant c) \<or> cm_amount c < 0 \<or> cm_merchant c \<in> set seen \<or> gross - s < cm_amount c")
    case True
    have "gross < s + commissionTotal (c # cs)" if "gross - s < cm_amount c" "\<forall>x \<in> set cs. 0 \<le> cm_amount x"
    proof -
      have "0 \<le> sum_list (map cm_amount cs)" using that(2) by (intro sum_list_nonneg) auto
      with that(1) show ?thesis by (simp add: commissionTotal_def)
    qed
    then have "\<not> ((\<forall>x \<in> set (c # cs). nonBlank (cm_merchant x) \<and> 0 \<le> cm_amount x \<and> cm_merchant x \<notin> set seen) \<and>
        s + commissionTotal (c # cs) \<le> gross)"
      using True by (meson leD list.set_intros(1,2) not_less)
    moreover have "\<not> checkCommissions gross seen s (c # cs) = Inr t" using True by (auto simp: g)
    ultimately show ?thesis by blast
  next
    case False
    then have "wrap64 (s + cm_amount c) = s + cm_amount c"
      using Cons.prems by (intro wrap64_id int64_nonnegI [of _ gross]) auto
    with False Cons.IH [of "s + cm_amount c" "cm_merchant c # seen"] Cons.prems show ?thesis
      by (auto simp: g commissionTotal_def) (metis image_eqI)+
  qed
qed

text \<open>A key occurs in a value, at any depth.\<close>

inductive keyIn :: "string \<Rightarrow> json \<Rightarrow> bool" where
  here: "(k, v) \<in> set members \<Longrightarrow> keyIn k (JObj members)"
| below: "(k', v) \<in> set members \<Longrightarrow> keyIn k v \<Longrightarrow> keyIn k (JObj members)"
| item: "v \<in> set items \<Longrightarrow> keyIn k v \<Longrightarrow> keyIn k (JArr items)"

inductive_simps keyIn_JObj: "keyIn k (JObj members)"
inductive_simps keyIn_JArr: "keyIn k (JArr items)"
inductive_simps keyIn_leaf [simp]:
  "keyIn k JNull" "keyIn k (JBool b)" "keyIn k (JInt i)" "keyIn k (JStr s)" "keyIn k (JTime t)"

lemma inspectOrder_None_iff:
  "inspectOrder j = None \<longleftrightarrow> (\<forall>k. keyIn k j \<longrightarrow> \<not> forbiddenKey k)"
  "inspectFields ms = None \<longleftrightarrow> (\<forall>k. keyIn k (JObj ms) \<longrightarrow> \<not> forbiddenKey k)"
  "inspectItems xs = None \<longleftrightarrow> (\<forall>k. keyIn k (JArr xs) \<longrightarrow> \<not> forbiddenKey k)"
proof (induction j and ms and xs rule: inspectOrder_inspectFields_inspectItems.induct)
  case (5 key nested members)
  have split: "keyIn k (JObj ((key, nested) # members)) \<longleftrightarrow>
      k = key \<or> keyIn k nested \<or> keyIn k (JObj members)" for k
    by (auto simp: keyIn_JObj)
  show ?case
    using 5 by (auto simp: split split: option.splits)
next
  case (7 nested items)
  have split: "keyIn k (JArr (nested # items)) \<longleftrightarrow> keyIn k nested \<or> keyIn k (JArr items)" for k
    by (auto simp: keyIn_JArr)
  show ?case
    using 7 by (auto simp: split split: option.splits)
qed (auto simp: keyIn_JObj keyIn_JArr)

subsection \<open>What the statements do\<close>

lemma insertLedgerTransaction_Inr:
  "insertLedgerTransaction r d = Inr (u, d') \<Longrightarrow>
     lt_id r \<notin> lt_id ` set (ledger_transactions d) \<and>
     d' = d\<lparr>ledger_transactions := ledger_transactions d @ [r]\<rparr>"
  by (auto simp: insertLedgerTransaction_def insertRow_Inr split: sum.splits)

lemma insertCharge_Inr:
  "insertCharge r d = Inr (u, d') \<Longrightarrow>
     pc_external r \<notin> pc_external ` set (payg_charges d) \<and>
     d' = d\<lparr>payg_charges := payg_charges d @ [r]\<rparr>"
  by (auto simp: insertCharge_def insertRow_Inr split: sum.splits)

lemma insertChargeCommission_Inr:
  "insertChargeCommission r d = Inr (u, d') \<Longrightarrow>
     d' = d\<lparr>charge_commissions := charge_commissions d @ [r]\<rparr>"
  by (auto simp: insertChargeCommission_def insertRow_Inr split: sum.splits)

lemma insertSyncTransaction_Inr:
  "insertSyncTransaction r d = Inr (u, d') \<Longrightarrow> d' = d\<lparr>sync_transactions := sync_transactions d @ [r]\<rparr>"
  by (auto simp: insertSyncTransaction_def insertRow_Inr split: sum.splits)

lemma insertSyncCharge_Inr:
  "insertSyncCharge r d = Inr (u, d') \<Longrightarrow> d' = d\<lparr>sync_charges := sync_charges d @ [r]\<rparr>"
  by (auto simp: insertSyncCharge_def insertRow_Inr split: sum.splits)

lemma insertSyncCommission_Inr:
  "insertSyncCommission r d = Inr (u, d') \<Longrightarrow> d' = d\<lparr>sync_commissions := sync_commissions d @ [r]\<rparr>"
  by (auto simp: insertSyncCommission_def insertRow_Inr split: sum.splits)

definition commissionRow :: "string \<Rightarrow> resolved_commission \<Rightarrow> charge_commission" where
  "commissionRow chargeID c = \<lparr> cc_charge = chargeID, cc_merchant = rc_merchant c,
     cc_settlement = rc_settlement c, cc_amount = rc_amount c \<rparr>"

lemma wlp_recordCommissions [wlpI]:
  assumes "Q () c (Some (d\<lparr>charge_commissions := charge_commissions d @ map (commissionRow i) cs\<rparr>))"
  shows "wlp (iterOk (recordCommission i) cs) (onOk Q) c (Some d)"
proof (rule wlp_iterOk [where I = "\<lambda>xs d'. \<exists>ds. cs = ds @ xs \<and>
    d' = d\<lparr>charge_commissions := charge_commissions d @ map (commissionRow i) ds\<rparr>"])
  fix x ys d1
  assume "\<exists>ds. cs = ds @ x # ys \<and> d1 = d\<lparr>charge_commissions := charge_commissions d @ map (commissionRow i) ds\<rparr>"
  then obtain ds where ds: "cs = ds @ x # ys"
    "d1 = d\<lparr>charge_commissions := charge_commissions d @ map (commissionRow i) ds\<rparr>" by blast
  show "wlp (recordCommission i x) (onOk (\<lambda>_ c' k'. c' = c \<and> (\<exists>d'. k' = Some d' \<and>
      (\<exists>ds. cs = ds @ ys \<and> d' = d\<lparr>charge_commissions := charge_commissions d @ map (commissionRow i) ds\<rparr>)))) c (Some d1)"
    unfolding recordCommission_def
    by (intro wlpI) (auto simp: ds commissionRow_def dest!: insertChargeCommission_Inr intro!: exI [of _ "ds @ [x]"])
qed (auto intro: assms)

lemma wlp_projectCommissions [wlpI]:
  assumes "\<And>xs. Q () c (Some (d\<lparr>sync_balances := shiftBalances (commissionsFor cs) (sync_balances d),
      sync_commissions := sync_commissions d @ xs\<rparr>))"
  shows "wlp (iterOk (projectCommission i t) cs) (onOk Q) c (Some d)"
proof -
  let ?I = "\<lambda>xs d'. \<exists>ds rows. cs = ds @ xs \<and>
     d' = d\<lparr>sync_balances := shiftBalances (commissionsFor ds) (sync_balances d),
            sync_commissions := sync_commissions d @ rows\<rparr>"
  have app: "commissionsFor (ds @ [x]) = (\<lambda>a. commissionsFor ds a + amountFor (rc_settlement x) (rc_amount x) a)" for ds x
    by (simp add: fun_eq_iff commissionsFor_def)
  show ?thesis
  proof (rule wlp_iterOk [where I = ?I])
    show "?I cs d"
    proof (intro exI conjI)
      show "d = d\<lparr>sync_balances := shiftBalances (commissionsFor []) (sync_balances d),
          sync_commissions := sync_commissions d @ []\<rparr>"
        by (simp add: shiftBalances_def)
    qed simp
  next
    fix x ys d1
    assume "?I (x # ys) d1"
    then obtain ds rows where ds: "cs = ds @ x # ys"
      "d1 = d\<lparr>sync_balances := shiftBalances (commissionsFor ds) (sync_balances d),
            sync_commissions := sync_commissions d @ rows\<rparr>" by blast
    have fin: "c = c \<and> (\<exists>d'. Some d2 = Some d' \<and> ?I ys d')"
      if "addSyncBalance (rc_amount x) (rc_settlement x) d1 = Inr (u, d')" "insertSyncCommission r d' = Inr (v, d2)" for u d' r v d2
    proof -
      from that have "d2 = d\<lparr>sync_balances := shiftBalances (commissionsFor (ds @ [x])) (sync_balances d),
            sync_commissions := sync_commissions d @ (rows @ [r])\<rparr>"
        by (auto dest!: addSyncBalance_Inr insertSyncCommission_Inr simp: ds(2) shiftBalances_shift app)
      moreover have "cs = (ds @ [x]) @ ys" by (simp add: ds(1))
      ultimately show ?thesis by blast
    qed
    show "wlp (projectCommission i t x) (onOk (\<lambda>_ c' k'. c' = c \<and> (\<exists>d'. k' = Some d' \<and> ?I ys d'))) c (Some d1)"
      unfolding projectCommission_def
      by (intro wlpI, simp only: readRow_Inr, elim conjE, hypsubst, erule (1) fin)
  qed (auto intro: assms)
qed

definition resolves :: "pay_db \<Rightarrow> commission_request \<Rightarrow> resolved_commission \<Rightarrow> bool" where
  "resolves d c r \<longleftrightarrow> rc_merchant r = cm_merchant c \<and> rc_amount r = cm_amount c \<and>
     (\<exists>m. merchantById (cm_merchant c) d = Some m \<and> m_status m = ''active'' \<and> rc_settlement r = m_settlement m)"

lemma wlp_resolveCommissions [wlpI]:
  assumes "\<And>rs. list_all2 (resolves d) cs rs \<Longrightarrow> Q rs c (Some d)"
  shows "wlp (mapA resolveCommission cs) Q c (Some d)"
proof (rule wlp_mapA [where I = "\<lambda>xs d' rs. d' = d \<and> (\<exists>ys. cs = ys @ xs \<and> list_all2 (resolves d) ys rs)"])
  fix x xs d1 rs
  assume "d1 = d \<and> (\<exists>ys. cs = ys @ x # xs \<and> list_all2 (resolves d) ys rs)"
  then obtain ys where ys: "d1 = d" "cs = ys @ x # xs" "list_all2 (resolves d) ys rs" by blast
  show "wlp (resolveCommission x) (\<lambda>r c' k'. c' = c \<and> (\<exists>d'. k' = Some d' \<and> d' = d \<and>
      (\<exists>ys. cs = ys @ xs \<and> list_all2 (resolves d) ys (rs @ [r])))) c (Some d1)"
    unfolding resolveCommission_def ys(1)
    by (intro wlpI)
       (use ys in \<open>auto simp: readRow_Inr resolves_def intro!: exI [of _ "ys @ [x]"] list_all2_appendI\<close>)
qed (auto intro: assms)

subsection \<open>What a charge does\<close>

text \<open>
  \<open>charged cfg b pid d d' r\<close>: the request \<open>b\<close> of the service \<open>pid\<close> has been charged from \<open>d\<close>
  to \<open>d'\<close>, with the response \<open>r\<close>.
\<close>

definition charged ::
  "pay_config \<Rightarrow> charge_request \<Rightarrow> string \<Rightarrow> pay_db \<Rightarrow> pay_db \<Rightarrow> response \<Rightarrow> bool" where
  "charged cfg b pid d d' r \<longleftrightarrow>
     (\<exists>k s m cs row.
        chargeTarget (cr_hmac b) (cr_started b) d = Some (k, s, m) \<and> m_status m = ''active'' \<and>
        list_all2 (resolves d) (cr_commissions b) cs \<and>
        pc_external row = cr_external b \<and> pc_subscription row = s_id s \<and> pc_principal row = pid \<and>
        pc_gross row = cr_gross b \<and> pc_fee row = feeSpec (cr_gross b) (fee_bps cfg) \<and>
        pc_main_net row = cr_gross b - commissionTotal (cr_commissions b) - pc_fee row \<and>
        chargeByExternal (cr_external b) d = None \<and> payg_charges d' = payg_charges d @ [row] \<and>
        charge_commissions d' = charge_commissions d @ map (commissionRow (pc_id row)) cs \<and>
        subscription_keys d' = subscription_keys (snd (Sum_Type.projr (touchKey (cr_completed b) (k_id k) d))) \<and>
        posts (pc_txn row)
          (chargePostings d (s_account s) (m_settlement m) (cr_gross b) (pc_main_net row) (pc_fee row) cs) d d' \<and>
        (\<forall>a. ledgerBalance d' a = ledgerBalance d a +
           chargeDelta (s_account s) (m_settlement m) (cr_gross b) (pc_main_net row) cs a) \<and>
        r = writeJSON 201 (JObj (chargeJSON row @
          [(''commissions'', JArr (map commissionJSON (cr_commissions b)))])))"

lemma resolves_amounts: "list_all2 (resolves d) xs ys \<Longrightarrow> map rc_amount ys = map cm_amount xs"
  by (induction rule: list_all2_induct) (auto simp: resolves_def)

lemma postTransaction_fresh:
  assumes "t \<notin> lt_id ` set ts"
  shows "updateRows (\<lambda>x. lt_id x = t) f (ts @ [x]) = ts @ [if lt_id x = t then f x else x]"
proof -
  have "updateRows (\<lambda>x. lt_id x = t) f ts = ts" using assms by (intro updateRows_none) auto
  then show ?thesis by (simp add: updateRows_def)
qed

lemma charge_steps:
  assumes "insertLedgerTransaction \<lparr> lt_id = t, lt_type = ty, lt_status = ''pending'', lt_created_at = at \<rparr> d = Inr (u1, d1)"
    and "insertCharge row d1 = Inr (u2, d2)"
    and "ledgerStep t ps (d2\<lparr>charge_commissions := charge_commissions d2 @ ccs\<rparr>) d3"
    and "postTransaction t d3 = Inr (u4, d4)" and "touchKey completed i d4 = Inr (u5, d5)"
    and "addSyncBalance x1 a1 d5 = Inr (u7, d7)" and "addSyncBalance x2 a2 d7 = Inr (u8, d8)"
    and "insertSyncTransaction r9 d8 = Inr (u9, d9)" and "insertSyncCharge r10 d9 = Inr (u10, d10)"
    and "d11 = d10\<lparr>sync_balances := shiftBalances f (sync_balances d10), sync_commissions := scs\<rparr>"
  shows "posts t ps d d11"
    and "pc_external row \<notin> pc_external ` set (payg_charges d)"
    and "payg_charges d11 = payg_charges d @ [row]"
    and "charge_commissions d11 = charge_commissions d @ ccs"
    and "subscription_keys d11 = subscription_keys (snd (Sum_Type.projr (touchKey completed i d)))"
    and "sync_balances d11 =
      shiftBalances (\<lambda>a. amountFor a1 x1 a + amountFor a2 x2 a + f a) (sync_balances d)"
proof -
  from assms(1) have t: "t \<notin> lt_id ` set (ledger_transactions d)"
    and d1: "d1 = d\<lparr>ledger_transactions := ledger_transactions d @
      [\<lparr> lt_id = t, lt_type = ty, lt_status = ''pending'', lt_created_at = at \<rparr>]\<rparr>"
    by (auto dest!: insertLedgerTransaction_Inr)
  from assms(2) d1 have ext: "pc_external row \<notin> pc_external ` set (payg_charges d)"
    and d2: "d2 = d1\<lparr>payg_charges := payg_charges d @ [row]\<rparr>"
    by (auto dest!: insertCharge_Inr)
  from assms(3) obtain es where d3: "d3 = d2\<lparr>charge_commissions := charge_commissions d @ ccs,
      ledger_entries := ledger_entries d @ es\<rparr>"
    and es: "map entryPosting es = ps" "\<forall>e \<in> set es. le_txn e = t \<and> le_account e \<in> la_id ` set (ledger_accounts d)"
    by (auto simp: ledgerStep_def d1 d2)
  have d4: "d4 = d3\<lparr>ledger_transactions := ledger_transactions d @
      [\<lparr> lt_id = t, lt_type = ty, lt_status = ''posted'', lt_created_at = at \<rparr>]\<rparr>"
    using assms(4)
    by (auto simp: postTransaction_def d1 d2 d3 postTransaction_fresh [OF t] simp del: updateRows_append)
  have d5: "d5 = d4\<lparr>subscription_keys := subscription_keys (snd (Sum_Type.projr (touchKey completed i d)))\<rparr>"
    using assms(5) by (auto simp: touchKey_def d1 d2 d3 d4)
  have d8: "d8 = d5\<lparr>sync_balances := shiftBalances (\<lambda>a. amountFor a1 x1 a + amountFor a2 x2 a) (sync_balances d)\<rparr>"
    using assms(6,7) by (auto dest!: addSyncBalance_Inr simp: shiftBalances_shift d1 d2 d3 d4 d5)
  have d10: "d10 = d8\<lparr>sync_transactions := sync_transactions d @ [r9], sync_charges := sync_charges d @ [r10]\<rparr>"
    using assms(8,9) by (auto dest!: insertSyncTransaction_Inr insertSyncCharge_Inr simp: d1 d2 d3 d4 d5 d8)
  note ds = d1 d2 d3 d4 d5 d8 d10 assms(10)
  show "posts t ps d d11" unfolding posts_def using t es by (simp add: ds)
  show "pc_external row \<notin> pc_external ` set (payg_charges d)" by (rule ext)
  show "payg_charges d11 = payg_charges d @ [row]" "charge_commissions d11 = charge_commissions d @ ccs"
    "subscription_keys d11 = subscription_keys (snd (Sum_Type.projr (touchKey completed i d)))"
    by (simp_all add: ds)
  show "sync_balances d11 = shiftBalances (\<lambda>a. amountFor a1 x1 a + amountFor a2 x2 a + f a) (sync_balances d)"
    by (simp add: ds shiftBalances_shift)
qed

lemma charged_final:
  assumes inv: "payInv d" and tot: "tot = commissionTotal (cr_commissions b)"
    and fee: "0 \<le> feeSpec (cr_gross b) (fee_bps cfg)"
    and tgt0: "readRow (chargeTarget (cr_hmac b) (cr_started b)) d = Inr (a0, e0)" "a0 = (k, b0)"
      "b0 = (s, m)" "m_status m = ''active''" "advisoryLock e0 = Inr (a1, e1)"
    and rs0: "list_all2 (resolves e1) (cr_commissions b) rs"
    and row: "row = \<lparr> pc_id = i, pc_external = cr_external b, pc_subscription = s_id s,
       pc_principal = pid, pc_gross = cr_gross b, pc_fee = feeSpec (cr_gross b) (fee_bps cfg),
       pc_main_net = cr_gross b - tot - feeSpec (cr_gross b) (fee_bps cfg), pc_snapshot = snap,
       pc_txn = t, pc_created_at = at \<rparr>"
    and s10: "insertLedgerTransaction \<lparr> lt_id = t, lt_type = ty, lt_status = ''pending'', lt_created_at = at \<rparr> e1 = Inr (u1, d1)"
    and s2: "insertCharge row d1 = Inr (u2, d2)"
    and pay: "payable (d2\<lparr>charge_commissions := ccs\<rparr>) (s_account s)"
      "payable (d2\<lparr>charge_commissions := ccs\<rparr>) (m_settlement m)"
      "\<forall>x \<in> set rs. payable (d2\<lparr>charge_commissions := ccs\<rparr>) (rc_settlement x) \<and> 0 \<le> rc_amount x"
      "0 < feeSpec (cr_gross b) (fee_bps cfg) \<Longrightarrow>
         assetLedger ''platform_fee'' (d2\<lparr>charge_commissions := ccs\<rparr>) \<noteq> None"
    and ccs: "ccs = charge_commissions d2 @ map (commissionRow i) rs"
    and s3: "ledgerStep t (chargePostings (d2\<lparr>charge_commissions := ccs\<rparr>) (s_account s) (m_settlement m)
        (cr_gross b) (cr_gross b - tot - feeSpec (cr_gross b) (fee_bps cfg))
        (feeSpec (cr_gross b) (fee_bps cfg)) rs) (d2\<lparr>charge_commissions := ccs\<rparr>) d3"
    and s4: "postTransaction t d3 = Inr (u4, d4)" and s5: "touchKey (cr_completed b) (k_id k) d4 = Inr (u5, d5)"
    and s6: "readRow (accountOwner (s_account s)) d5 = Inr (a6, d6)"
    and s70: "addSyncBalance (- cr_gross b) (s_account s) d6 = Inr (u7, d7)"
    and s8: "addSyncBalance (cr_gross b - tot - feeSpec (cr_gross b) (fee_bps cfg)) (m_settlement m) d7 = Inr (u8, d8)"
    and s9: "insertSyncTransaction r9 d8 = Inr (u9, d9)" and s11: "insertSyncCharge r10 d9 = Inr (u10, d10)"
    and d11: "d11 = d10\<lparr>sync_balances := shiftBalances (commissionsFor rs) (sync_balances d10), sync_commissions := scs\<rparr>"
  shows "charged cfg b pid d d11 (writeJSON 201 (JObj (chargeJSON row @
      [(''commissions'', JArr (map commissionJSON (cr_commissions b)))]))) \<and> payInv d11"
proof -
  let ?ps = "chargePostings d (s_account s) (m_settlement m) (cr_gross b) (pc_main_net row) (pc_fee row) rs"
  have e: "e1 = d" and tgt: "chargeTarget (cr_hmac b) (cr_started b) d = Some (k, s, m)" "m_status m = ''active''"
    using tgt0 by (auto simp: readRow_Inr advisoryLock_def reading_Inr)
  note rs = rs0 [unfolded e] and s1 = s10 [unfolded e]
  have s7: "addSyncBalance (- cr_gross b) (s_account s) d5 = Inr (u7, d7)"
    using s6 s70 by (simp add: readRow_Inr)
  have same: "ledger_accounts (d2\<lparr>charge_commissions := ccs\<rparr>) = ledger_accounts d"
    using s1 s2 by (auto dest!: insertLedgerTransaction_Inr insertCharge_Inr)
  have s3': "ledgerStep t ?ps (d2\<lparr>charge_commissions := charge_commissions d2 @ map (commissionRow i) rs\<rparr>) d3"
    using s3 creditId_cong [OF same] commissionPostings_cong [OF same] feeLedgerId_cong [OF same]
    by (simp add: chargePostings_def row ccs)
  note st = charge_steps [OF s1 s2 s3' s4 s5 s7 s8 s9 s11 d11]
  have pay': "payable d (s_account s)" "payable d (m_settlement m)"
    "\<forall>x \<in> set rs. payable d (rc_settlement x)"
    "0 < pc_fee row \<Longrightarrow> assetLedger ''platform_fee'' d \<noteq> None"
    using pay payable_cong [OF same] same by (auto simp: row assetLedger_def)
  have distinct: "distinct (map la_id (ledger_accounts d))" using inv by (simp add: payInv_def)
  have fee': "0 \<le> pc_fee row" using fee by (simp add: row)
  have delta: "balanceDelta d ?ps a =
      chargeDelta (s_account s) (m_settlement m) (cr_gross b) (pc_main_net row) rs a" for a
    by (rule balanceDelta_charge [OF distinct pay' fee'])
  have "payInv d11"
  proof (rule posts_payInv [OF st(1) inv])
    show "sum_list (map snd ?ps) = 0"
      by (simp add: postings_sum resolves_amounts [OF rs] row tot commissionTotal_def)
    show "sync_balances d11 = shiftBalances (balanceDelta d ?ps) (sync_balances d)"
    proof -
      have "balanceDelta d ?ps = (\<lambda>a. amountFor (s_account s) (- cr_gross b) a +
          amountFor (m_settlement m) (cr_gross b - tot - feeSpec (cr_gross b) (fee_bps cfg)) a + commissionsFor rs a)"
        by (rule ext, subst delta) (simp add: chargeDelta_def row)
      then show ?thesis by (simp only: st(6))
    qed
  qed
  moreover have "chargeByExternal (cr_external b) d = None"
    using st(2) by (auto simp: chargeByExternal_def find_None_iff row) (metis image_eqI)
  moreover have bal: "\<forall>a. ledgerBalance d11 a = ledgerBalance d a +
      chargeDelta (s_account s) (m_settlement m) (cr_gross b) (pc_main_net row) rs a"
    using posts_balance [OF st(1) inv] delta by simp
  ultimately show ?thesis
    unfolding charged_def
    by (intro conjI exI [of _ k] exI [of _ s] exI [of _ m] exI [of _ rs] exI [of _ row] tgt rs
        st(3,5) bal)
       (use st(1,4) in \<open>simp_all add: row tot\<close>)
qed

lemma wlp_chargeTransaction:
  assumes inv: "payInv d" and bps: "0 \<le> fee_bps cfg" "fee_bps cfg \<le> 10000"
    and gross: "0 < cr_gross b" "cr_gross b \<le> max_int64"
    and total: "tot = commissionTotal (cr_commissions b)" "0 \<le> tot" "tot \<le> cr_gross b"
  shows "wlp (chargeTransaction cfg fp b pid tot)
    (\<lambda>r c' k'. charged cfg b pid d c' r \<and> payInv c') c (Some d)"
proof -
  let ?fee = "feeSpec (cr_gross b) (fee_bps cfg)"
  let ?net = "cr_gross b - tot - ?fee"
  have fee: "platformFee (cr_gross b) (fee_bps cfg) = ?fee" "0 \<le> ?fee" "?fee \<le> cr_gross b"
    using platformFee_eq_feeSpec [of "cr_gross b" "fee_bps cfg"] feeSpec_bounds [of "cr_gross b" "fee_bps cfg"]
      gross bps by simp_all
  have net: "wrap64 (wrap64 (cr_gross b - tot) - platformFee (cr_gross b) (fee_bps cfg)) = ?net"
    "wrap64 (- ?net) = - ?net"
    using fee total gross by (simp_all add: int64_defs)
  show ?thesis
    unfolding chargeTransaction_def Let_def net(1) unfolding fee(1)
  proof (intro wlpI, goal_cases)
    case 1
    show ?case by (rule net(2))
  next
    case 2
    show ?case by (rule fee(2))
  next
    case 3
    show ?case
      by (rule charged_final [OF inv total(1) fee(2)]) (rule 3 refl | assumption)+
  qed
qed

lemma tx_local_charge [tx_localI]:
  "tx_local (resolveCommission c)" "tx_local (recordCommission i rc)"
  "tx_local (projectCommission i t rc)" "tx_local (chargeChecks cfg b)"
  unfolding resolveCommission_def recordCommission_def projectCommission_def chargeChecks_def
  by (intro tx_localI)+

lemma replies_charge [repliesI]:
  "P (errorJSON 400 ''invalid_commission_merchant'' ''invalid commission Merchant'') \<Longrightarrow>
   P (errorJSON 400 ''commission_merchant_inactive'' ''commission Merchant inactive'') \<Longrightarrow>
   replies P (resolveCommission c)"
  "replies P (recordCommission i rc)" "replies P (projectCommission i t rc)"
  unfolding resolveCommission_def recordCommission_def projectCommission_def
  by (intro repliesI; assumption)+

lemma status_checkCommissions:
  "checkCommissions gross seen s cs = Inl r \<Longrightarrow> status r = 400"
  by (induction cs arbitrary: seen s) (auto split: if_splits)

lemma replies_chargeChecks: "replies (\<lambda>r. status r = 400) (chargeChecks cfg b)"
  unfolding chargeChecks_def
  by (intro repliesI) (auto intro: status_checkCommissions)

lemma reply_safe_createCharge: "reply_safe (createCharge cfg fp body pid)"
  unfolding createCharge_def chargeTransaction_def Let_def
  by (intro reply_safeI tx_localI)

lemma replies_createCharge: "replies (\<lambda>r. status r \<noteq> 201) (createCharge cfg fp body pid)"
proof -
  have checks: "replies (\<lambda>r. status r \<noteq> 201) (chargeChecks cfg b)" for b
    using replies_chargeChecks [of cfg b] by (auto simp: replies_def)
  show ?thesis
    unfolding createCharge_def chargeTransaction_def Let_def
    by (intro repliesI checks) (simp_all add: chargeInsertError_def)
qed

lemma returns_createCharge: "returns (\<lambda>r. status r = 201) (createCharge cfg fp body pid)"
  unfolding createCharge_def chargeTransaction_def Let_def by (intro returnsI) simp

lemma createCharge_same:
  "status (fst (respond (createCharge cfg fp body pid) w)) = 201 \<or>
   committed (snd (respond (createCharge cfg fp body pid) w)) = committed w"
  by (rule respond_atomic [OF reply_safe_createCharge returns_createCharge])

lemma wlp_chargeChecks:
  assumes "\<And>t. \<lbrakk>nonBlank (cr_external b); nonBlank (cr_hmac b); 0 < cr_gross b;
      cr_started b \<noteq> 0; cr_started b \<le> cr_completed b;
      int (length (cr_commissions b)) \<le> max_commissions cfg;
      validateOrderMetadata (cr_order b) (max_order_bytes cfg) = None;
      checkCommissions (cr_gross b) [] 0 (cr_commissions b) = Inr t\<rbrakk> \<Longrightarrow> Q t c k"
  shows "wlp (chargeChecks cfg b) Q c k"
  unfolding chargeChecks_def using assms by (intro wlpI) auto

lemma wlp_createCharge:
  assumes "payInv c" and "0 \<le> fee_bps cfg" and "fee_bps cfg \<le> 10000" and "cr_gross b \<le> max_int64"
  shows "wlp (createCharge cfg fp (Some b) pid) (\<lambda>r c' k. charged cfg b pid c c' r \<and> payInv c') c k"
  unfolding createCharge_def option.case
proof (intro wlpI wlp_chargeChecks)
  fix t
  assume gross: "0 < cr_gross b" and t: "checkCommissions (cr_gross b) [] 0 (cr_commissions b) = Inr t"
  then have t': "t = commissionTotal (cr_commissions b)" "0 \<le> t" "t \<le> cr_gross b"
    using checkCommissions_Inr_iff [of 0 "cr_gross b" "[]" "cr_commissions b" t] assms(4)
    by (auto simp: commissionTotal_def intro!: sum_list_nonneg)
  show "wlp (chargeTransaction cfg fp b pid t) (\<lambda>r c' k'. charged cfg b pid c c' r \<and> payInv c') c (Some c)"
    by (rule wlp_chargeTransaction [OF assms(1-3) gross assms(4) t'])
  then show "wlp (chargeTransaction cfg fp b pid t) (\<lambda>r c' k'. charged cfg b pid c c' r \<and> payInv c') c (Some c)" .
qed

subsection \<open>External order identifiers are charged at most once\<close>

interpretation charge_table: keyed_insert payg_charges pc_external insertCharge
proof
  show "insertCharge r d = Inr (a, d') \<Longrightarrow> payg_charges d' = payg_charges d @ [r]" for r d a d'
    by (auto dest!: insertCharge_Inr)
  show "insertCharge r d = Inr (a, d') \<Longrightarrow> pc_external r \<notin> pc_external ` set (payg_charges d)" for r d a d'
    by (auto dest!: insertCharge_Inr)
qed

lemma chargeByExternal_lookup: "chargeByExternal x d = charge_table.lookup x d"
  by (simp add: chargeByExternal_def charge_table.lookup_def)

lemma charged_lookup:
  assumes "charged cfg b pid d d' r"
  obtains row where "chargeByExternal (cr_external b) d' = Some row" and "pc_gross row = cr_gross b"
    and "\<And>x. x \<noteq> cr_external b \<Longrightarrow> chargeByExternal x d' = chargeByExternal x d"
proof -
  from assms obtain row where "chargeByExternal (cr_external b) d = None"
    "payg_charges d' = payg_charges d @ [row]" "pc_external row = cr_external b" "pc_gross row = cr_gross b"
    by (auto simp: charged_def)
  then have "chargeByExternal (cr_external b) d' = Some row" "pc_gross row = cr_gross b"
    "\<And>x. x \<noteq> cr_external b \<Longrightarrow> chargeByExternal x d' = chargeByExternal x d"
    by (auto simp: chargeByExternal_def find_append split: option.split)
  then show ?thesis by (rule that)
qed

text \<open>Without any invariant: a charge finds no earlier charge with its identifier.\<close>

lemma wlp_chargeTransaction_fresh:
  "wlp (chargeTransaction cfg fp b pid t) (\<lambda>_ _ _. chargeByExternal (cr_external b) d = None) c (Some d)"
  unfolding chargeTransaction_def Let_def
proof (intro wlp_bnd wlp_orReply wlp_orReplyWith wlp_tx_exec_ok wlp_require wlp_newUUID wlp_now
    wlp_case_prod wlp_resolveCommissions, rule wlp_const_ok, goal_cases)
  case 1
  then show ?case
    by (auto simp: readRow_Inr advisoryLock_def reading_Inr chargeByExternal_def find_None_iff
        dest!: insertLedgerTransaction_Inr insertCharge_Inr) (metis image_eqI)
qed

lemma wlp_createCharge_fresh:
  "wlp (createCharge cfg fp (Some b) pid) (\<lambda>_ _ _. chargeByExternal (cr_external b) c = None) c k"
  unfolding createCharge_def option.case
  by (intro wlpI wlp_chargeChecks wlp_chargeTransaction_fresh)

subsection \<open>Properties\<close>

text \<open>C3: A charge answered with 201 has done what it says. The key it names was usable when the
  service started, the main merchant and every beneficiary are active, no charge had the
  external order id, one charge row has been added with the fee rounded up and the rest of the
  gross as the merchant's net, its postings are those of \<open>chargePostings\<close> and sum to zero, every
  account's balance has moved by exactly its share, and the ledger invariant (balanced
  transactions, projected balances of the clients' accounts equal to the ledger's) still holds.\<close>

theorem createCharge_charges:
  assumes "respond (createCharge cfg failpoint (Some b) pid) w = (r, w')" and "status r = 201"
    and "payInv (committed w)" and "0 \<le> fee_bps cfg" and "fee_bps cfg \<le> 10000"
    and "cr_gross b \<le> max_int64"
  shows "charged cfg b pid (committed w) (committed w') r \<and> payInv (committed w')"
  by (rule respond_wlp [OF assms(1) replies_createCharge _ wlp_createCharge [OF assms(3-6)]])
     (use assms(2) in simp)

definition demo_charge :: charge_request where
  "demo_charge = \<lparr> cr_external = ''order-1'', cr_hmac = ''h'', cr_gross = 1000,
     cr_commissions = [\<lparr> cm_merchant = ''m3'', cm_amount = 100 \<rparr>],
     cr_order = \<lparr> raw_size = 16, raw_value = Some (JObj [(''model'', JStr ''x'')]) \<rparr>,
     cr_started = 40, cr_completed = 60 \<rparr>"

lemma demo_charge_sel [simp]:
  "cr_external demo_charge = ''order-1''" "cr_hmac demo_charge = ''h''" "cr_gross demo_charge = 1000"
  "cr_commissions demo_charge = [\<lparr> cm_merchant = ''m3'', cm_amount = 100 \<rparr>]"
  "cr_order demo_charge = \<lparr> raw_size = 16, raw_value = Some (JObj [(''model'', JStr ''x'')]) \<rparr>"
  "cr_started demo_charge = 40" "cr_completed demo_charge = 60"
  by (simp_all add: demo_charge_def)

lemma demo_chargeChecks: "chargeChecks demo_pay_config demo_charge w = (Val 100, w)"
proof -
  have b: "nonBlank ''order-1''" "nonBlank ''h''" "nonBlank ''m3''" by (simp_all add: blank_eval)
  have f: "forbiddenKey ''model'' = False" by code_simp
  show ?thesis
    by (simp add: chargeChecks_def run_simps b f validateOrderMetadata_def wrap64_def)
qed

lemma demo_charge_run:
  "\<exists>r w'. respond (createCharge demo_pay_config [] (Some demo_charge) ''svc'') (demo_world demo_pay) = (r, w') \<and>
     status r = 201 \<and> fault w' = (\<lambda>_. False)"
proof -
  have fee: "platformFee 1000 250 = 25" by code_simp
  show ?thesis
    by (simp add: createCharge_def demo_chargeChecks run_simps demo_world_def demo_pay_sel
        chargeTransaction_def fee Let_def resolveCommission_def chargeTarget_def chargeKeyUsable_def
        advisoryLock_def recordCommission_def touchKey_def projectCommission_def int64_defs pay_eval)
qed

lemma demo_charge_created:
  "status (fst (respond (createCharge demo_pay_config [] (Some demo_charge) ''svc'') (demo_world demo_pay))) = 201"
  "fault (snd (respond (createCharge demo_pay_config [] (Some demo_charge) ''svc'') (demo_world demo_pay))) = (\<lambda>_. False)"
  using demo_charge_run by auto

theorem createCharge_charges_witness:
  "charged demo_pay_config demo_charge ''svc'' demo_pay
     (committed (snd (respond (createCharge demo_pay_config [] (Some demo_charge) ''svc'') (demo_world demo_pay))))
     (fst (respond (createCharge demo_pay_config [] (Some demo_charge) ''svc'') (demo_world demo_pay)))"
  using createCharge_charges [of demo_pay_config "[]" demo_charge "''svc''" "demo_world demo_pay"]
    demo_charge_created payInv_demo
  by (auto simp: demo_world_def max_int64_def)

text \<open>C4: A charge is all or nothing: whatever the server fails and wherever the request is
  refused, an answer other than 201 leaves the database as it was.\<close>

theorem createCharge_atomic:
  "status (fst (respond (createCharge cfg failpoint body pid) w)) = 201 \<or>
   committed (snd (respond (createCharge cfg failpoint body pid) w)) = committed w"
  by (rule createCharge_same)

text \<open>C5: An external order id is charged at most once: a request whose id has a charge is never
  answered with 201, so by the previous property it changes nothing.\<close>

theorem createCharge_once:
  assumes "chargeByExternal (cr_external b) (committed w) \<noteq> None"
  shows "status (fst (respond (createCharge cfg failpoint (Some b) pid) w)) \<noteq> 201"
proof
  assume st: "status (fst (respond (createCharge cfg failpoint (Some b) pid) w)) = 201"
  obtain r w' where r: "respond (createCharge cfg failpoint (Some b) pid) w = (r, w')"
    by (cases "respond (createCharge cfg failpoint (Some b) pid) w")
  from respond_wlp [OF r replies_createCharge _ wlp_createCharge_fresh] st r assms
  show False by simp
qed

theorem createCharge_once_witness:
  "status (fst (respond (createCharge demo_pay_config [] (Some demo_charge) ''svc'')
     (demo_world (demo_pay\<lparr>payg_charges := [\<lparr> pc_id = ''c'', pc_external = ''order-1'', pc_subscription = ''s'',
        pc_principal = ''svc'', pc_gross = 1, pc_fee = 0, pc_main_net = 1, pc_snapshot = JNull,
        pc_txn = ''t'', pc_created_at = 1 \<rparr>]\<rparr>)))) \<noteq> 201"
  by (rule createCharge_once) (simp add: demo_world_def chargeByExternal_def)

text \<open>C11: The platform fee is the rounded-up share of the gross. No intermediate product wraps
  although the product of gross and basis points may exceed 64 bits, the fee is never more than
  the gross, and a positive rate takes at least one microcredit.\<close>

theorem platformFee_rounds_up:
  assumes "0 < gross" and "gross \<le> max_int64" and "0 \<le> bps" and "bps \<le> 10000"
  shows "gross * bps \<le> 10000 * platformFee gross bps \<and>
    10000 * platformFee gross bps < gross * bps + 10000 \<and>
    platformFee gross bps \<le> gross \<and> (bps = 0 \<longleftrightarrow> platformFee gross bps = 0)"
proof -
  have eq: "platformFee gross bps = feeSpec gross bps"
    using platformFee_eq_feeSpec assms by simp
  have "0 \<le> gross * bps" using assms by simp
  moreover have "bps = 0 \<longleftrightarrow> gross * bps < 1"
    using assms by (auto simp: mult_less_cancel_left1 not_less) (smt (verit) mult_pos_pos)
  moreover have "feeSpec gross bps \<le> gross" using feeSpec_bounds assms by simp
  ultimately show ?thesis unfolding eq by (auto simp: feeSpec_def)
qed

theorem platformFee_rounds_up_witness:
  "platformFee max_int64 10000 \<le> max_int64"
  using platformFee_rounds_up [of max_int64 10000] by (simp add: max_int64_def)

text \<open>Order metadata is accepted exactly when it is a nonempty JSON object within the size limit
  in which no key, at any depth of objects and arrays, is a forbidden one.\<close>

lemma orderMetadata_accepted_iff:
  "validateOrderMetadata raw n = None \<longleftrightarrow>
     0 < raw_size raw \<and> int (raw_size raw) \<le> n \<and>
     (\<exists>members. raw_value raw = Some (JObj members) \<and> {k. keyIn k (JObj members) \<and> forbiddenKey k} = {})"
  by (auto simp: validateOrderMetadata_def inspectOrder_None_iff simp del: inspectOrder.simps(1)
      split: option.split json.split)

text \<open>The commissions of a charge are accepted exactly when every beneficiary is named once and
  its amount is nonnegative, and the amounts add up to at most the gross; the running total never
  wraps, so no list of huge amounts slips past the comparison.\<close>

lemma commissions_accepted_iff:
  assumes "0 \<le> gross" and "gross \<le> max_int64"
  shows "checkCommissions gross [] 0 cs = Inr t \<longleftrightarrow>
    {c \<in> set cs. blank (cm_merchant c) \<or> cm_amount c < 0} = {} \<and> distinct (map cm_merchant cs) \<and>
    commissionTotal cs \<le> gross \<and> t = commissionTotal cs"
  using checkCommissions_Inr_iff [of 0 gross "[]" cs t] assms by auto

lemma commissions_accepted_iff_witness:
  "checkCommissions 10 [] 0 [\<lparr> cm_merchant = ''m'', cm_amount = 11 \<rparr>] \<noteq> Inr 11"
  using commissions_accepted_iff [of 10 "[\<lparr> cm_merchant = ''m'', cm_amount = 11 \<rparr>]" 11]
  by (simp add: max_int64_def commissionTotal_def)

end
