(* ===== verification/WayStore.thy ===== *)
theory WayStore
  imports WayRating PayCharge
begin

section \<open>The regional database of GizWay\<close>

text \<open>
  The tables of \<open>data/sql/gizway/migrations/000001_schema.sql\<close> with their constraints, and the
  transactions on Bifrost's Config Store (\<open>internal/adapter/bifrost/store.go\<close>), which lives in the
  same PostgreSQL database. The Config Store itself is a third-party package: its state is the
  type \<open>'c\<close>, its operations are the fields of \<open>config_api\<close>.
\<close>

subsection \<open>Rows\<close>

record user_merchant =
  um_issuer :: string
  um_subject :: string
  um_merchant :: string

record customer_price =
  mp_model :: string
  mp_row :: price_row

record key_billing =
  kb_key :: string
  kb_issuer :: string
  kb_subject :: string
  kb_merchant :: string
  kb_name :: string
  kb_last_used_at :: "time option"
  kb_earned :: int
  kb_status :: string
  kb_created_at :: time
  kb_updated_at :: time

record stored_price =
  sx_key :: string
  sx_price :: key_price

record ai_order =
  ao_id :: string
  ao_external :: string
  ao_provider_key :: string
  ao_hmac :: string
  ao_subscription_key :: string
  ao_account :: string
  ao_subscription :: string
  ao_product :: string
  ao_issuer :: string
  ao_subject :: string
  ao_model :: string
  ao_provider :: string
  ao_gross :: int
  ao_commission :: int
  ao_pricing :: json
  ao_snapshot :: json
  ao_error :: "json option"
  ao_status :: string
  ao_created_at :: time
  ao_completed_at :: time

text \<open>The payload is the charge request that is sent to GizPay.\<close>

record outbox =
  ob_id :: string
  ob_external :: string
  ob_order :: string
  ob_payload :: charge_request
  ob_status :: string
  ob_recover :: bool
  ob_created_at :: time
  ob_updated_at :: time

record model_listing =
  ml_id :: string
  ml_model :: string
  ml_title :: string
  ml_description :: string
  ml_family :: string
  ml_context :: string
  ml_latency :: string
  ml_accent :: string
  ml_featured :: bool
  ml_order :: int
  ml_availability :: string
  ml_created_at :: time
  ml_updated_at :: time

record sync_model =
  sd_id :: string
  sd_provider :: string
  sd_name :: string
  sd_provider_model :: string
  sd_status :: string

record sync_provider =
  sv_id :: string
  sv_name :: string
  sv_kind :: string
  sv_status :: string

record sync_key =
  sk_id :: string
  sk_provider :: string
  sk_key :: string
  sk_merchant :: string
  sk_issuer :: string
  sk_subject :: string
  sk_name :: string
  sk_last_used_at :: "time option"
  sk_earned :: int
  sk_status :: string
  sk_prices :: "key_price list"
  sk_created_at :: time
  sk_updated_at :: time

record ai_usage_row =
  us_id :: string
  us_account :: string
  us_order :: string
  us_model :: string
  us_metric :: string
  us_quantity :: int
  us_issuer :: string
  us_subject :: string
  us_status :: string
  us_created_at :: time

record provider_record =
  pv_id :: string
  pv_name :: string
  pv_kind :: string
  pv_base_url :: string
  pv_status :: string
  pv_created_at :: time

record key_record =
  kr_id :: string
  kr_provider :: string
  kr_name :: string
  kr_api_key :: string
  kr_status :: string
  kr_weight :: int
  kr_enabled :: bool

record 'c way_db =
  user_merchants :: "user_merchant list"
  customer_prices :: "customer_price list"
  key_billings :: "key_billing list"
  stored_prices :: "stored_price list"
  ai_orders :: "ai_order list"
  charge_outbox :: "outbox list"
  model_listings :: "model_listing list"
  sync_models :: "sync_model list"
  sync_providers :: "sync_provider list"
  sync_keys :: "sync_key list"
  ai_usages :: "ai_usage_row list"
  config_state :: 'c

text \<open>
  The Config Store: looking a provider up, with \<open>None\<close> for \<open>gorm.ErrRecordNotFound\<close>, all of them
  by creation, a provider's key, all its keys by creation, and the four writes, with \<open>None\<close> for an
  error (which of its errors it is makes no difference to the handlers).
\<close>

record 'c config_api =
  cfg_provider :: "string \<Rightarrow> 'c \<Rightarrow> provider_record option"
  cfg_providers :: "'c \<Rightarrow> provider_record list"
  cfg_key :: "string \<Rightarrow> string \<Rightarrow> 'c \<Rightarrow> key_record option"
  cfg_keys :: "string \<Rightarrow> 'c \<Rightarrow> key_record list"
  cfg_add_provider :: "provider_record \<Rightarrow> 'c \<Rightarrow> 'c option"
  cfg_update_provider :: "provider_record \<Rightarrow> 'c \<Rightarrow> 'c option"
  cfg_create_key :: "key_record \<Rightarrow> 'c \<Rightarrow> 'c option"
  cfg_update_key :: "key_record \<Rightarrow> 'c \<Rightarrow> 'c option"

subsection \<open>Inserts\<close>

definition insertUserMerchant :: "user_merchant \<Rightarrow> ('c way_db, unit) query" where
  "insertUserMerchant r d =
     (if list_ex (\<lambda>x. um_issuer x = um_issuer r \<and> um_subject x = um_subject r) (user_merchants d)
      then Inr ((), d\<lparr>user_merchants :=
             updateRows (\<lambda>x. um_issuer x = um_issuer r \<and> um_subject x = um_subject r)
               (\<lambda>x. x\<lparr>um_merchant := um_merchant r\<rparr>) (user_merchants d)\<rparr>)
      else Inr ((), d\<lparr>user_merchants := user_merchants d @ [r]\<rparr>))"

definition insertCustomerPrice :: "customer_price \<Rightarrow> ('c way_db, unit) query" where
  "insertCustomerPrice r d =
     (case insertRow (0 < pw_unit (mp_row r) \<and> 0 \<le> pw_amount (mp_row r)) True
             [(''model_customer_prices_pkey'', \<lambda>x y. mp_model x @ '':'' @ pw_metric (mp_row x) =
                 mp_model y @ '':'' @ pw_metric (mp_row y)),
              (''model_customer_prices_model_id_metric_key'', \<lambda>x y. mp_model x = mp_model y \<and>
                 pw_metric (mp_row x) = pw_metric (mp_row y))]
             r (customer_prices d) of
        Inl e \<Rightarrow> Inl e | Inr t \<Rightarrow> Inr ((), d\<lparr>customer_prices := t\<rparr>))"

definition insertKeyBilling :: "key_billing \<Rightarrow> ('c way_db, unit) query" where
  "insertKeyBilling r d =
     (case insertRow (sqlText (kb_name r) \<and> 0 \<le> kb_earned r \<and> kb_status r \<in> {''active'', ''disabled''}) True
             [(''provider_key_billing_pkey'', \<lambda>x y. kb_key x = kb_key y)] r (key_billings d) of
        Inl e \<Rightarrow> Inl e | Inr t \<Rightarrow> Inr ((), d\<lparr>key_billings := t\<rparr>))"

definition insertKeyPrice :: "stored_price \<Rightarrow> ('c way_db, unit) query" where
  "insertKeyPrice r d =
     (case insertRow (0 < kp_unit (sx_price r) \<and> 0 \<le> kp_microcredits (sx_price r))
             (list_ex (\<lambda>b. kb_key b = sx_key r) (key_billings d))
             [(''provider_key_prices_pkey'', \<lambda>x y. sx_key x = sx_key y \<and>
                 kp_model (sx_price x) = kp_model (sx_price y) \<and> kp_metric (sx_price x) = kp_metric (sx_price y))]
             r (stored_prices d) of
        Inl e \<Rightarrow> Inl e | Inr t \<Rightarrow> Inr ((), d\<lparr>stored_prices := t\<rparr>))"

definition insertOrder :: "ai_order \<Rightarrow> ('c way_db, unit) query" where
  "insertOrder r d =
     (case insertRow (0 < ao_gross r \<and> 0 \<le> ao_commission r \<and>
                ao_status r \<in> {''pending'', ''charged'', ''billing_failed''}) True
             [(''ai_orders_pkey'', \<lambda>x y. ao_id x = ao_id y),
              (''ai_orders_external_order_id_key'', \<lambda>x y. ao_external x = ao_external y)]
             r (ai_orders d) of
        Inl e \<Rightarrow> Inl e | Inr t \<Rightarrow> Inr ((), d\<lparr>ai_orders := t\<rparr>))"

definition insertOutbox :: "outbox \<Rightarrow> ('c way_db, unit) query" where
  "insertOutbox r d =
     (case insertRow (ob_status r \<in> {''pending'', ''sending'', ''reported'', ''abandoned''})
             (list_ex (\<lambda>o'. ao_id o' = ob_order r) (ai_orders d))
             [(''charge_outbox_pkey'', \<lambda>x y. ob_id x = ob_id y),
              (''charge_outbox_external_order_id_key'', \<lambda>x y. ob_external x = ob_external y)]
             r (charge_outbox d) of
        Inl e \<Rightarrow> Inl e | Inr t \<Rightarrow> Inr ((), d\<lparr>charge_outbox := t\<rparr>))"

definition insertModelListing :: "model_listing \<Rightarrow> ('c way_db, unit) query" where
  "insertModelListing r d =
     (case insertRow (sqlText (ml_title r) \<and> sqlText (ml_family r) \<and>
                - 2147483648 \<le> ml_order r \<and> ml_order r \<le> 2147483647 \<and>
                ml_availability r \<in> {''available'', ''unavailable''}) True
             [(''model_listings_pkey'', \<lambda>x y. ml_id x = ml_id y),
              (''model_listings_model_id_key'', \<lambda>x y. ml_model x = ml_model y)]
             r (model_listings d) of
        Inl e \<Rightarrow> Inl e | Inr t \<Rightarrow> Inr ((), d\<lparr>model_listings := t\<rparr>))"

definition insertSyncModel :: "sync_model \<Rightarrow> ('c way_db, unit) query" where
  "insertSyncModel r d =
     (case insertRow True True [(''models_pkey'', \<lambda>x y. sd_id x = sd_id y)] r (sync_models d) of
        Inl e \<Rightarrow> Inl e | Inr t \<Rightarrow> Inr ((), d\<lparr>sync_models := t\<rparr>))"

definition insertSyncProvider :: "sync_provider \<Rightarrow> ('c way_db, unit) query" where
  "insertSyncProvider r d =
     (case insertRow True True [(''providers_pkey'', \<lambda>x y. sv_id x = sv_id y)] r (sync_providers d) of
        Inl e \<Rightarrow> Inl e | Inr t \<Rightarrow> Inr ((), d\<lparr>sync_providers := t\<rparr>))"

definition insertSyncKey :: "sync_key \<Rightarrow> ('c way_db, unit) query" where
  "insertSyncKey r d =
     (case insertRow (0 \<le> sk_earned r) True [(''provider_keys_pkey'', \<lambda>x y. sk_id x = sk_id y)]
             r (sync_keys d) of
        Inl e \<Rightarrow> Inl e | Inr t \<Rightarrow> Inr ((), d\<lparr>sync_keys := t\<rparr>))"

definition insertUsage :: "ai_usage_row \<Rightarrow> ('c way_db, unit) query" where
  "insertUsage r d =
     (case insertRow (0 \<le> us_quantity r) True [(''ai_usage_pkey'', \<lambda>x y. us_id x = us_id y)]
             r (ai_usages d) of
        Inl e \<Rightarrow> Inl e | Inr t \<Rightarrow> Inr ((), d\<lparr>ai_usages := t\<rparr>))"

subsection \<open>Transactions on the Config Store\<close>

text \<open>
  \<open>configTransaction\<close>: \<open>SET LOCAL search_path\<close>, then the operation; an error of either rolls back
  and is returned. There are no deferred triggers in this schema.
\<close>

definition lockStatement :: "('db, unit) query" where
  "lockStatement = reading (\<lambda>_. ())"

definition configTransaction :: "('c way_db world, sqlerr + 'a) act \<Rightarrow> ('c way_db world, sqlerr + 'a) act" where
  "configTransaction operation =
     bnd begin_tx (\<lambda>x. case x of
       Inl e \<Rightarrow> ret (Inl e)
     | Inr _ \<Rightarrow> finish_tx (
         thenOk (tx_exec lockStatement) (\<lambda>_.
         thenOk operation (\<lambda>a.
         thenOk (commit_tx (\<lambda>_ _. True)) (\<lambda>_. ret (Inr a))))))"

lemma err_safe_configTransaction [err_safeI]: "tx_local m \<Longrightarrow> err_safe (configTransaction m)"
  unfolding configTransaction_def by (intro err_safeI tx_localI)

lemma replies_configTransaction [repliesI]: "replies P m \<Longrightarrow> replies P (configTransaction m)"
  unfolding configTransaction_def by (intro repliesI)

lemma wlp_configTransaction [wlpI]:
  assumes "wlp m (onOk (\<lambda>a c' k'. \<exists>d. k' = Some d \<and> Q a d None)) c (Some c)"
  shows "wlp (configTransaction m) (onOk Q) c k"
proof -
  have eq: "(\<lambda>a c' k'. onOk Q a c' None) = onOk (\<lambda>a c' k'. Q a c' None)"
    by (auto simp: fun_eq_iff onOk_def split: sum.split)
  have last: "wlp (thenOk (commit_tx (\<lambda>_ _. True)) (\<lambda>_. ret (Inr a))) (onOk (\<lambda>a c' k'. Q a c' None)) c' k'"
    if "\<exists>d. k' = Some d \<and> Q a d None" for a c' k'
    using that by (auto intro!: wlpI)
  have "wlp (thenOk (tx_exec lockStatement) (\<lambda>_. thenOk m (\<lambda>a.
      thenOk (commit_tx (\<lambda>_ _. True)) (\<lambda>_. ret (Inr a))))) (onOk (\<lambda>a c' k'. Q a c' None)) c (Some c)"
  proof (rule wlp_thenOk, rule wlp_tx_exec_ok)
    fix u d assume "lockStatement c = Inr (u, d)"
    then have "d = c" by (simp add: lockStatement_def reading_Inr)
    then show "wlp (thenOk m (\<lambda>a. thenOk (commit_tx (\<lambda>_ _. True)) (\<lambda>_. ret (Inr a))))
        (onOk (\<lambda>a c' k'. Q a c' None)) c (Some d)"
      by (simp, intro wlp_thenOk wlp_mono [OF assms]) (auto simp: onOk_def intro: last split: sum.splits)
  qed
  then show ?thesis
    unfolding configTransaction_def
    by (intro wlp_bnd wlp_begin_tx) (auto simp: eq intro: wlp_ret wlp_finish_tx)
qed

definition readConfig :: "('c \<Rightarrow> 'a option) \<Rightarrow> ('c way_db, 'a) query" where
  "readConfig f = readRow (\<lambda>d. f (config_state d))"

definition writeConfig :: "('c \<Rightarrow> 'c option) \<Rightarrow> ('c way_db, unit) query" where
  "writeConfig f d =
     (case f (config_state d) of None \<Rightarrow> Inl ConnErr | Some c \<Rightarrow> Inr ((), d\<lparr>config_state := c\<rparr>))"

definition storesProvider :: "'c config_api \<Rightarrow> string \<Rightarrow> ('c way_db world, sqlerr + provider_record) act" where
  "storesProvider api i = configTransaction (tx_exec (readConfig (cfg_provider api i)))"

definition storesProviders :: "'c config_api \<Rightarrow> ('c way_db world, sqlerr + provider_record list) act" where
  "storesProviders api = configTransaction (tx_exec (readConfig (\<lambda>c. Some (cfg_providers api c))))"

definition storesKey :: "'c config_api \<Rightarrow> string \<Rightarrow> string \<Rightarrow> ('c way_db world, sqlerr + key_record) act" where
  "storesKey api providerID keyID = configTransaction (tx_exec (readConfig (cfg_key api providerID keyID)))"

definition storesKeys :: "'c config_api \<Rightarrow> string \<Rightarrow> ('c way_db world, sqlerr + key_record list) act" where
  "storesKeys api providerID = configTransaction (tx_exec (readConfig (\<lambda>c. Some (cfg_keys api providerID c))))"

definition createKeyInTransaction :: "'c config_api \<Rightarrow> key_record \<Rightarrow> ('c way_db world, sqlerr + unit) act" where
  "createKeyInTransaction api r = tx_exec (writeConfig (cfg_create_key api r))"

definition updateKeyInTransaction :: "'c config_api \<Rightarrow> key_record \<Rightarrow> ('c way_db world, sqlerr + unit) act" where
  "updateKeyInTransaction api r = tx_exec (writeConfig (cfg_update_key api r))"

definition createProviderInTransaction :: "'c config_api \<Rightarrow> provider_record \<Rightarrow> ('c way_db world, sqlerr + unit) act" where
  "createProviderInTransaction api r = tx_exec (writeConfig (cfg_add_provider api r))"

definition updateProviderInTransaction :: "'c config_api \<Rightarrow> provider_record \<Rightarrow> ('c way_db world, sqlerr + unit) act" where
  "updateProviderInTransaction api r = tx_exec (writeConfig (cfg_update_provider api r))"

subsection \<open>A region with nothing recorded yet, for the examples\<close>

definition empty_way :: "'c \<Rightarrow> 'c way_db" where
  "empty_way c = \<lparr> user_merchants = [], customer_prices = [], key_billings = [], stored_prices = [],
     ai_orders = [], charge_outbox = [], model_listings = [], sync_models = [], sync_providers = [],
     sync_keys = [], ai_usages = [], config_state = c \<rparr>"

end
