(* ===== verification/WayOutbox.thy ===== *)
theory WayOutbox
  imports WayStore
begin

section \<open>AI orders and the charge outbox\<close>

text \<open>
  \<open>completeCall\<close>, \<open>reportOutbox\<close>, \<open>markOutboxReported\<close>, \<open>markProviderKeyUsed\<close> of
  \<open>internal/gizway/protocol.go\<close>, the worker \<open>runOutbox\<close> and the recovery in \<open>New\<close> of
  \<open>handler.go\<close>. A completed AI call is written down as an order with an outbox row in one
  transaction; the worker sends the row's payload to GizPay until the charge is confirmed.
\<close>

subsection \<open>A resolved call\<close>

record resolved_call =
  cl_product :: string
  cl_model :: string
  cl_public :: string
  cl_provider :: string
  cl_provider_model :: string
  cl_key :: string
  cl_merchant :: string
  cl_account :: string
  cl_subscription :: string
  cl_subscription_key :: string
  cl_issuer :: string
  cl_subject :: string
  cl_target :: execution_target
  cl_targets :: "execution_target list"
  cl_customer :: "price_row list"
  cl_commission :: "price_row list"
  cl_payments :: "string \<rightharpoonup> key_payment"
  cl_started :: time

text \<open>\<open>selected\<close>: \<open>None\<close> is its error.\<close>

definition selected :: "resolved_call \<Rightarrow> string \<Rightarrow> resolved_call option" where
  "selected call keyID =
     (case cl_payments call keyID of
        None \<Rightarrow> None
      | Some payment \<Rightarrow>
          (case find (\<lambda>t. et_route t = keyID) (cl_targets call) of
             None \<Rightarrow> None
           | Some target \<Rightarrow> Some (call\<lparr>cl_key := keyID, cl_merchant := py_merchant payment,
                cl_target := target, cl_commission := py_prices payment\<rparr>)))"

definition callForExecutionLog :: "resolved_call \<Rightarrow> string \<Rightarrow> resolved_call" where
  "callForExecutionLog call keyID =
     (let k = (if keyID = [] \<and> length (cl_targets call) = 1 then et_route (cl_targets call ! 0) else keyID) in
      if k \<noteq> []
      then (case selected call k of Some c \<Rightarrow> c | None \<Rightarrow> call\<lparr>cl_key := k\<rparr>)
      else call)"

subsection \<open>\<open>completeCall\<close>\<close>

text \<open>
  \<open>jsonSize\<close> is the length of the JSON text of the order metadata as the outbox column returns
  it. An error that the program itself makes is \<open>Raised\<close>.
\<close>

definition priceJSON :: "price_row \<Rightarrow> json" where
  "priceJSON p = JObj [(''metric'', JStr (pw_metric p)), (''unit_size'', JInt (pw_unit p)),
     (''amount_microcredits'', JInt (pw_amount p))]"

definition usageJSON :: "llm_usage \<Rightarrow> json" where
  "usageJSON u = JObj [(''prompt_tokens'', JInt (prompt_tokens u)),
     (''completion_tokens'', JInt (completion_tokens u)), (''total_tokens'', JInt (total_tokens u))]"

definition orderMetadata :: "resolved_call \<Rightarrow> string \<Rightarrow> json" where
  "orderMetadata call mode = JObj
     [(''type'', JStr ''ai_call''), (''model'', JStr (cl_public call)), (''provider'', JStr (cl_provider call)),
      (''execution_mode'', JStr mode)]"

definition chargePayload ::
  "(json \<Rightarrow> nat) \<Rightarrow> string \<Rightarrow> string \<Rightarrow> resolved_call \<Rightarrow> int \<Rightarrow> int \<Rightarrow> string \<Rightarrow> time \<Rightarrow> time \<Rightarrow> charge_request" where
  "chargePayload jsonSize externalID keyHMAC call gross commission mode startedAt completed =
     \<lparr> cr_external = externalID, cr_hmac = keyHMAC, cr_gross = gross,
       cr_commissions = [\<lparr> cm_merchant = cl_merchant call, cm_amount = commission \<rparr>],
       cr_order = \<lparr> raw_size = jsonSize (orderMetadata call mode), raw_value = Some (orderMetadata call mode) \<rparr>,
       cr_started = startedAt, cr_completed = completed \<rparr>"

definition aiOrder ::
  "string \<Rightarrow> string \<Rightarrow> string \<Rightarrow> resolved_call \<Rightarrow> int \<Rightarrow> int \<Rightarrow> llm_usage \<Rightarrow> time \<Rightarrow> ai_order" where
  "aiOrder orderID externalID keyHMAC call gross commission u t =
     \<lparr> ao_id = orderID, ao_external = externalID, ao_provider_key = cl_key call, ao_hmac = keyHMAC,
       ao_subscription_key = cl_subscription_key call, ao_account = cl_account call,
       ao_subscription = cl_subscription call, ao_product = cl_product call, ao_issuer = cl_issuer call,
       ao_subject = cl_subject call, ao_model = cl_model call, ao_provider = cl_provider call,
       ao_gross = gross, ao_commission = commission,
       ao_pricing = JObj [(''customer_prices'', JArr (map priceJSON (cl_customer call))),
          (''commission_prices'', JArr (map priceJSON (cl_commission call))), (''usage'', usageJSON u)],
       ao_snapshot = JObj [(''provider_id'', JStr (cl_provider call)), (''provider_key_id'', JStr (cl_key call))],
       ao_error = (if gross < commission then Some (JObj [(''code'', JStr ''commission_exceeds_gross'')]) else None),
       ao_status = (if gross < commission then ''billing_failed'' else ''pending''),
       ao_created_at = t, ao_completed_at = t \<rparr>"

definition recordUsage ::
  "string \<Rightarrow> resolved_call \<Rightarrow> time \<Rightarrow> string \<times> int \<Rightarrow> ('c way_db world, sqlerr + unit) act" where
  "recordUsage orderID call t row =
     bnd newUUID (\<lambda>u. tx_exec (insertUsage
       \<lparr> us_id = ''use_'' @ u, us_account = cl_account call, us_order = orderID, us_model = cl_model call,
         us_metric = fst row, us_quantity = snd row, us_issuer = cl_issuer call, us_subject = cl_subject call,
         us_status = ''completed'', us_created_at = t \<rparr>))"

definition completeTransaction ::
  "(json \<Rightarrow> nat) \<Rightarrow> string \<Rightarrow> resolved_call \<Rightarrow> int \<Rightarrow> int \<Rightarrow> llm_usage \<Rightarrow> string \<Rightarrow> string \<Rightarrow>
     string \<Rightarrow> string \<Rightarrow> ('c way_db world, sqlerr + unit) act" where
  "completeTransaction jsonSize keyHMAC call gross commission u mode failpoint orderID externalID =
     bnd (gets now) (\<lambda>t.
     let startedAt = (if cl_started call = 0 then t else cl_started call) in
     if failpoint = ''ai_order_write'' then ret (Inl Raised)
     else
     thenOk (tx_exec (insertOrder (aiOrder orderID externalID keyHMAC call gross commission u t))) (\<lambda>_.
     thenOk (iterOk (recordUsage orderID call t)
        [(''input_tokens'', prompt_tokens u), (''output_tokens'', completion_tokens u)]) (\<lambda>_.
     thenOk (if 0 < gross \<and> commission \<le> gross
        then if failpoint = ''charge_outbox_write'' then ret (Inl Raised)
             else bnd newUUID (\<lambda>o'. tx_exec (insertOutbox
               \<lparr> ob_id = ''out_'' @ o', ob_external = externalID, ob_order = orderID,
                 ob_payload = chargePayload jsonSize externalID keyHMAC call gross commission mode startedAt t,
                 ob_status = ''pending'', ob_recover = False, ob_created_at = t, ob_updated_at = t \<rparr>))
        else ret (Inr ())) (\<lambda>_.
     commit_tx (\<lambda>_ _. True)))))"

text \<open>
  The value is the error or success, and the external order id as the deferred log entry sees it.
\<close>

definition completeCall ::
  "(json \<Rightarrow> nat) \<Rightarrow> string \<Rightarrow> resolved_call \<Rightarrow> int \<Rightarrow> int \<Rightarrow> llm_usage option \<Rightarrow> string \<Rightarrow> string \<Rightarrow>
     ('c way_db world, (sqlerr + unit) \<times> string) act" where
  "completeCall jsonSize keyHMAC call gross commission usage mode failpoint =
     (let u = (case usage of None \<Rightarrow> zero_usage | Some u \<Rightarrow> u) in
      if gross = 0 then ret (Inr (), [])
      else bnd begin_tx (\<lambda>x. case x of
        Inl e \<Rightarrow> ret (Inl e, [])
      | Inr _ \<Rightarrow> finish_tx (
          bnd newUUID (\<lambda>a. bnd newUUID (\<lambda>b.
          let externalID = ''ord_'' @ b in
          bnd (completeTransaction jsonSize keyHMAC call gross commission u mode failpoint (''aio_'' @ a) externalID) (\<lambda>y.
          ret (y, externalID)))))))"

subsection \<open>Statements on the outbox\<close>

definition unreported :: "outbox \<Rightarrow> bool" where
  "unreported o' \<longleftrightarrow> ob_status o' = ''pending'' \<or> ob_status o' = ''sending''"

text \<open>An \<open>UPDATE\<close> of outbox rows, with the number of rows it changed.\<close>

definition updateOutbox :: "(outbox \<Rightarrow> bool) \<Rightarrow> (outbox \<Rightarrow> outbox) \<Rightarrow> ('c way_db, nat) query" where
  "updateOutbox P f d = Inr (countRows P (charge_outbox d),
     d\<lparr>charge_outbox := updateRows P f (charge_outbox d)\<rparr>)"

definition markSending :: "time \<Rightarrow> string \<Rightarrow> ('c way_db, nat) query" where
  "markSending t i = updateOutbox (\<lambda>o'. ob_id o' = i \<and> unreported o')
     (\<lambda>o'. o'\<lparr>ob_status := ''sending'', ob_recover := True, ob_updated_at := t\<rparr>)"

definition setPending :: "bool \<Rightarrow> time \<Rightarrow> string \<Rightarrow> ('c way_db, nat) query" where
  "setPending recover t i = updateOutbox (\<lambda>o'. ob_id o' = i)
     (\<lambda>o'. o'\<lparr>ob_status := ''pending'', ob_recover := recover, ob_updated_at := t\<rparr>)"

definition setReported :: "time \<Rightarrow> string \<Rightarrow> string \<Rightarrow> ('c way_db, nat) query" where
  "setReported t i orderID = updateOutbox (\<lambda>o'. ob_id o' = i \<and> ob_order o' = orderID \<and> unreported o')
     (\<lambda>o'. o'\<lparr>ob_status := ''reported'', ob_recover := False, ob_updated_at := t\<rparr>)"

definition abandonOld :: "time \<Rightarrow> time \<Rightarrow> ('c way_db, nat) query" where
  "abandonOld t limit = updateOutbox (\<lambda>o'. ob_status o' = ''pending'' \<and> ob_created_at o' < limit)
     (\<lambda>o'. o'\<lparr>ob_status := ''abandoned'', ob_updated_at := t\<rparr>)"

definition recoverSending :: "time \<Rightarrow> ('c way_db, nat) query" where
  "recoverSending t = updateOutbox (\<lambda>o'. ob_status o' = ''sending'')
     (\<lambda>o'. o'\<lparr>ob_status := ''pending'', ob_recover := True, ob_updated_at := t\<rparr>)"

text \<open>The conflict statement: the outbox row is given up and its order marked, in one statement.\<close>

definition conflictOrder :: "time \<Rightarrow> string \<Rightarrow> string \<Rightarrow> ('c way_db, nat) query" where
  "conflictOrder t i orderID d =
     (let hit = (\<lambda>o'. ob_id o' = i \<and> ob_order o' = orderID);
          failed = (\<lambda>a. ao_id a = orderID \<and> list_ex hit (charge_outbox d))
      in Inr (countRows failed (ai_orders d),
        d\<lparr>charge_outbox := updateRows hit
             (\<lambda>o'. o'\<lparr>ob_status := ''abandoned'', ob_recover := False, ob_updated_at := t\<rparr>) (charge_outbox d),
          ai_orders := updateRows failed
             (\<lambda>a. a\<lparr>ao_status := ''billing_failed'',
                ao_error := Some (JObj [(''code'', JStr ''duplicate_external_order_id'')])\<rparr>) (ai_orders d)\<rparr>))"

definition setCharged :: "string \<Rightarrow> ('c way_db, unit) query" where
  "setCharged orderID d = Inr ((), d\<lparr>ai_orders :=
     updateRows (\<lambda>a. ao_id a = orderID) (\<lambda>a. a\<lparr>ao_status := ''charged''\<rparr>) (ai_orders d)\<rparr>)"

definition addBillingEarned :: "int \<Rightarrow> time \<Rightarrow> string \<Rightarrow> ('c way_db, unit) query" where
  "addBillingEarned amount t keyID d =
     (if list_all (\<lambda>b. kb_key b = keyID \<longrightarrow> int64_range (kb_earned b + amount)) (key_billings d)
      then if list_all (\<lambda>b. kb_key b = keyID \<longrightarrow> 0 \<le> kb_earned b + amount) (key_billings d)
        then Inr ((), d\<lparr>key_billings := updateRows (\<lambda>b. kb_key b = keyID)
               (\<lambda>b. b\<lparr>kb_earned := kb_earned b + amount, kb_updated_at := t\<rparr>) (key_billings d)\<rparr>)
        else Inl CheckViolation
      else Inl OutOfRange)"

definition addSyncEarned :: "int \<Rightarrow> time \<Rightarrow> string \<Rightarrow> ('c way_db, unit) query" where
  "addSyncEarned amount t keyID d =
     (if list_all (\<lambda>b. sk_id b = keyID \<longrightarrow> int64_range (sk_earned b + amount)) (sync_keys d)
      then if list_all (\<lambda>b. sk_id b = keyID \<longrightarrow> 0 \<le> sk_earned b + amount) (sync_keys d)
        then Inr ((), d\<lparr>sync_keys := updateRows (\<lambda>b. sk_id b = keyID)
               (\<lambda>b. b\<lparr>sk_earned := sk_earned b + amount, sk_updated_at := t\<rparr>) (sync_keys d)\<rparr>)
        else Inl CheckViolation
      else Inl OutOfRange)"

text \<open>\<open>CASE WHEN last_used_at IS NULL OR last_used_at < $1 THEN $1 ELSE last_used_at END\<close>.\<close>

definition latest :: "time option \<Rightarrow> time \<Rightarrow> time option" where
  "latest old t = (case old of None \<Rightarrow> Some t | Some u \<Rightarrow> if u < t then Some t else Some u)"

definition touchBilling :: "time \<Rightarrow> string \<Rightarrow> ('c way_db, nat) query" where
  "touchBilling t keyID d = Inr (countRows (\<lambda>b. kb_key b = keyID) (key_billings d),
     d\<lparr>key_billings := updateRows (\<lambda>b. kb_key b = keyID)
        (\<lambda>b. b\<lparr>kb_last_used_at := latest (kb_last_used_at b) t,
               kb_updated_at := (if kb_updated_at b < t then t else kb_updated_at b)\<rparr>) (key_billings d)\<rparr>)"

definition touchSyncKey :: "time \<Rightarrow> string \<Rightarrow> ('c way_db, nat) query" where
  "touchSyncKey t keyID d = Inr (countRows (\<lambda>b. sk_id b = keyID) (sync_keys d),
     d\<lparr>sync_keys := updateRows (\<lambda>b. sk_id b = keyID)
        (\<lambda>b. b\<lparr>sk_last_used_at := latest (sk_last_used_at b) t,
               sk_updated_at := (if sk_updated_at b < t then t else sk_updated_at b)\<rparr>) (sync_keys d)\<rparr>)"

definition markOutboxReported :: "string \<Rightarrow> string \<Rightarrow> ('c way_db world, sqlerr + unit) act" where
  "markOutboxReported outboxID orderID =
     bnd (gets now) (\<lambda>t. inTransaction (
       thenOk (tx_exec (readRow (\<lambda>d. find (\<lambda>a. ao_id a = orderID) (ai_orders d)))) (\<lambda>a.
       thenOk (exactlyOne (tx_exec (setReported t outboxID orderID))) (\<lambda>_.
       thenOk (tx_exec (setCharged orderID)) (\<lambda>_.
       thenOk (tx_exec (addBillingEarned (ao_commission a) t (ao_provider_key a))) (\<lambda>_.
       thenOk (tx_exec (addSyncEarned (ao_commission a) t (ao_provider_key a))) (\<lambda>_.
       commit_tx (\<lambda>_ _. True))))))))"

definition markProviderKeyUsed :: "string \<Rightarrow> time \<Rightarrow> ('c way_db world, sqlerr + unit) act" where
  "markProviderKeyUsed keyID usedAt = inTransaction (
     thenOk (exactlyOne (tx_exec (touchBilling usedAt keyID))) (\<lambda>_.
     thenOk (exactlyOne (tx_exec (touchSyncKey usedAt keyID))) (\<lambda>_.
     commit_tx (\<lambda>_ _. True))))"

end
