(* ===== verification/Evolution.thy ===== *)
theory Evolution
  imports PayStore
begin

section \<open>What every request preserves\<close>

text \<open>
  An \<open>evolution\<close> is a reflexive and transitive relation between databases, for instance "every
  ledger entry is still there". \<open>evolves R q\<close> says that the statement \<open>q\<close> goes along \<open>R\<close>;
  \<open>keeps R m\<close> says that the handler \<open>m\<close> does, whatever it answers and whatever fails. The
  locale proves the rules that lift the one to the other through every construct of a handler,
  transactions included.
\<close>

definition evolves :: "('db \<Rightarrow> 'db \<Rightarrow> bool) \<Rightarrow> ('db, 'a) query \<Rightarrow> bool" where
  "evolves R q \<longleftrightarrow> (\<forall>d a d'. q d = Inr (a, d') \<longrightarrow> R d d')"

definition keeps :: "('db \<Rightarrow> 'db \<Rightarrow> bool) \<Rightarrow> ('db world, 'a) act \<Rightarrow> bool" where
  "keeps R m \<longleftrightarrow> (\<forall>w x w'. m w = (x, w') \<longrightarrow> R (committed w) (committed w'))"

definition txKeeps :: "('db \<Rightarrow> 'db \<Rightarrow> bool) \<Rightarrow> ('db world, 'a) act \<Rightarrow> bool" where
  "txKeeps R m \<longleftrightarrow>
     (\<forall>w x w'. m w = (x, w') \<longrightarrow> (\<forall>d. working w = Some d \<longrightarrow> R (committed w) d) \<longrightarrow>
        R (committed w) (committed w') \<and> (\<forall>d. working w' = Some d \<longrightarrow> R (committed w') d))"

named_theorems keepsI \<open>handlers that go along an evolution\<close>
named_theorems evolvesI \<open>statements that go along an evolution\<close>

lemma evolvesD: "evolves R q \<Longrightarrow> q d = Inr (a, d') \<Longrightarrow> R d d'"
  by (simp add: evolves_def)

lemma keepsD: "keeps R m \<Longrightarrow> m w = (x, w') \<Longrightarrow> R (committed w) (committed w')"
  by (simp add: keeps_def)

lemma keeps_respond: "keeps R m \<Longrightarrow> R (committed w) (committed (snd (respond m w)))"
  by (auto simp: keeps_def respond_def split: prod.splits step.splits)

lemma keeps_bnd_trans:
  assumes tr: "\<And>x y z. R x y \<Longrightarrow> R y z \<Longrightarrow> R x z" and m: "keeps R m" and f: "\<And>a. keeps R (f a)"
  shows "keeps R (bnd m f)"
  unfolding keeps_def
proof (intro allI impI)
  fix w x w'' assume b: "bnd m f w = (x, w'')"
  obtain y w' where y: "m w = (y, w')" by (cases "m w")
  with m have "R (committed w) (committed w')" by (simp add: keeps_def)
  moreover have "R (committed w') (committed w'')" if "y = Val a" for a
    using b y that f [of a] by (simp add: bnd_def keeps_def)
  ultimately show "R (committed w) (committed w'')"
    using b y tr by (cases y) (auto simp: bnd_def)
qed

lemma txKeeps_bnd_trans:
  assumes tr: "\<And>x y z. R x y \<Longrightarrow> R y z \<Longrightarrow> R x z" and m: "txKeeps R m" and f: "\<And>a. txKeeps R (f a)"
  shows "txKeeps R (bnd m f)"
  unfolding txKeeps_def
proof (intro allI impI)
  fix w x w'' assume b: "bnd m f w = (x, w'')" and pre: "\<forall>d. working w = Some d \<longrightarrow> R (committed w) d"
  obtain y w' where y: "m w = (y, w')" by (cases "m w")
  with m pre have 1: "R (committed w) (committed w')" "\<forall>d. working w' = Some d \<longrightarrow> R (committed w') d"
    unfolding txKeeps_def by blast+
  show "R (committed w) (committed w'') \<and> (\<forall>d. working w'' = Some d \<longrightarrow> R (committed w'') d)"
  proof (cases y)
    case (Reply r)
    with b y 1 show ?thesis by (simp add: bnd_def)
  next
    case (Val a)
    with b y have "f a w' = (x, w'')" by (simp add: bnd_def)
    with f [of a] 1(2) have "R (committed w') (committed w'')" "\<forall>d. working w'' = Some d \<longrightarrow> R (committed w'') d"
      unfolding txKeeps_def by blast+
    with 1(1) tr show ?thesis by blast
  qed
qed

locale evolution =
  fixes R :: "'db \<Rightarrow> 'db \<Rightarrow> bool"
  assumes refl: "R d d"
    and trans: "R d d' \<Longrightarrow> R d' d'' \<Longrightarrow> R d d''"
begin

lemma keeps_bnd [keepsI]: "keeps R m \<Longrightarrow> (\<And>a. keeps R (f a)) \<Longrightarrow> keeps R (bnd m f)"
  by (rule keeps_bnd_trans) (rule trans)

lemma keeps_tx_local: "tx_local m \<Longrightarrow> keeps R m"
  using refl by (simp add: keeps_def tx_local_def) (metis snd_conv)

lemma keeps_ret [keepsI]: "keeps R (ret a)" by (simp add: keeps_tx_local tx_local_ret)
lemma keeps_reply [keepsI]: "keeps R (reply r)" by (simp add: keeps_tx_local tx_local_reply)
lemma keeps_gets [keepsI]: "keeps R (gets f)" by (simp add: keeps_tx_local tx_local_gets)
lemma keeps_require [keepsI]: "keeps R (require b r)" by (simp add: keeps_tx_local tx_local_require)
lemma keeps_newUUID [keepsI]: "keeps R newUUID" by (simp add: keeps_tx_local tx_local_newUUID)

lemma keeps_db_exec [keepsI]: "evolves R q \<Longrightarrow> keeps R (db_exec q)"
  using refl by (auto simp: keeps_def db_exec_def evolves_def split: sum.splits prod.splits if_splits)

lemma keeps_orReply [keepsI]: "keeps R m \<Longrightarrow> keeps R (orReply m r)"
  unfolding orReply_def by (rule keeps_bnd) (auto split: sum.splits intro: keeps_ret keeps_reply)

lemma keeps_orReplyWith [keepsI]: "keeps R m \<Longrightarrow> keeps R (orReplyWith m r)"
  unfolding orReplyWith_def by (rule keeps_bnd) (auto split: sum.splits intro: keeps_ret keeps_reply)

lemma keeps_orZero [keepsI]: "keeps R m \<Longrightarrow> keeps R (orZero m z)"
  unfolding orZero_def by (rule keeps_bnd) (auto intro: keeps_ret)

lemma keeps_mapA [keepsI]: "(\<And>x. keeps R (f x)) \<Longrightarrow> keeps R (mapA f xs)"
  by (induction xs) (auto intro: keeps_ret keeps_bnd)

lemma keeps_if [keepsI]: "keeps R m \<Longrightarrow> keeps R n \<Longrightarrow> keeps R (if b then m else n)"
  by simp

lemma keeps_case_option [keepsI]:
  "keeps R m \<Longrightarrow> (\<And>y. x = Some y \<Longrightarrow> keeps R (n y)) \<Longrightarrow> keeps R (case x of None \<Rightarrow> m | Some y \<Rightarrow> n y)"
  by (cases x) auto

lemma keeps_case_sum [keepsI]:
  "(\<And>y. keeps R (m y)) \<Longrightarrow> (\<And>y. keeps R (n y)) \<Longrightarrow> keeps R (case x of Inl y \<Rightarrow> m y | Inr y \<Rightarrow> n y)"
  by (cases x) auto

lemma keeps_case_prod [keepsI]: "(\<And>a b. keeps R (n a b)) \<Longrightarrow> keeps R (case x of (a, b) \<Rightarrow> n a b)"
  by (cases x) auto

lemma keeps_let [keepsI]: "keeps R (f x) \<Longrightarrow> keeps R (Let x f)"
  by simp

lemma evolves_reading [evolvesI]: "evolves R (reading f)"
  by (simp add: evolves_def reading_Inr refl)

lemma evolves_readRow [evolvesI]: "evolves R (readRow f)"
  by (simp add: evolves_def readRow_Inr refl)

lemma evolves_onConflictNothing [evolvesI]: "evolves R q \<Longrightarrow> evolves R (onConflictNothing q)"
  using refl by (auto simp: evolves_def onConflictNothing_def split: sum.splits sqlerr.splits)

text \<open>Transactions.\<close>

lemma txKeeps_bnd [keepsI]: "txKeeps R m \<Longrightarrow> (\<And>a. txKeeps R (f a)) \<Longrightarrow> txKeeps R (bnd m f)"
  by (rule txKeeps_bnd_trans) (rule trans)

lemma txKeeps_ret [keepsI]: "txKeeps R (ret a)" by (simp add: txKeeps_def ret_def refl)
lemma txKeeps_reply [keepsI]: "txKeeps R (reply r)" by (simp add: txKeeps_def reply_def refl)
lemma txKeeps_gets [keepsI]: "txKeeps R (gets f)" by (simp add: txKeeps_def gets_def refl)
lemma txKeeps_require [keepsI]: "txKeeps R (require b r)"
  by (simp add: require_def txKeeps_ret txKeeps_reply)
lemma txKeeps_newUUID [keepsI]: "txKeeps R newUUID" by (simp add: txKeeps_def newUUID_def refl)

lemma txKeeps_tx_exec [keepsI]: "evolves R q \<Longrightarrow> txKeeps R (tx_exec q)"
  by (auto simp: txKeeps_def tx_exec_def abort_tx_def evolves_def refl
      split: option.splits sum.splits prod.splits if_splits) (metis trans)

lemma txKeeps_commit_tx [keepsI]: "txKeeps R (commit_tx chk)"
  by (auto simp: txKeeps_def commit_tx_def abort_tx_def refl split: option.splits if_splits)

lemma txKeeps_orReply [keepsI]: "txKeeps R m \<Longrightarrow> txKeeps R (orReply m r)"
  unfolding orReply_def by (rule txKeeps_bnd) (auto split: sum.splits intro: txKeeps_ret txKeeps_reply)

lemma txKeeps_orReplyWith [keepsI]: "txKeeps R m \<Longrightarrow> txKeeps R (orReplyWith m r)"
  unfolding orReplyWith_def by (rule txKeeps_bnd) (auto split: sum.splits intro: txKeeps_ret txKeeps_reply)

lemma txKeeps_thenOk [keepsI]: "txKeeps R m \<Longrightarrow> (\<And>a. txKeeps R (f a)) \<Longrightarrow> txKeeps R (thenOk m f)"
  unfolding thenOk_def by (rule txKeeps_bnd) (auto split: sum.splits intro: txKeeps_ret)

lemma txKeeps_iterOk [keepsI]: "(\<And>x. txKeeps R (f x)) \<Longrightarrow> txKeeps R (iterOk f xs)"
  by (induction xs) (auto intro: txKeeps_ret txKeeps_thenOk)

lemma txKeeps_mapA [keepsI]: "(\<And>x. txKeeps R (f x)) \<Longrightarrow> txKeeps R (mapA f xs)"
  by (induction xs) (auto intro: txKeeps_ret txKeeps_bnd)

lemma txKeeps_if [keepsI]: "txKeeps R m \<Longrightarrow> txKeeps R n \<Longrightarrow> txKeeps R (if b then m else n)"
  by simp

lemma txKeeps_case_option [keepsI]:
  "txKeeps R m \<Longrightarrow> (\<And>y. txKeeps R (n y)) \<Longrightarrow> txKeeps R (case x of None \<Rightarrow> m | Some y \<Rightarrow> n y)"
  by (cases x) auto

lemma txKeeps_case_sum [keepsI]:
  "(\<And>y. txKeeps R (m y)) \<Longrightarrow> (\<And>y. txKeeps R (n y)) \<Longrightarrow> txKeeps R (case x of Inl y \<Rightarrow> m y | Inr y \<Rightarrow> n y)"
  by (cases x) auto

lemma txKeeps_case_prod [keepsI]: "(\<And>a b. txKeeps R (n a b)) \<Longrightarrow> txKeeps R (case x of (a, b) \<Rightarrow> n a b)"
  by (cases x) auto

lemma txKeeps_let [keepsI]: "txKeeps R (f x) \<Longrightarrow> txKeeps R (Let x f)"
  by simp

lemma txKeeps_exactlyOne [keepsI]: "txKeeps R m \<Longrightarrow> txKeeps R (exactlyOne m)"
  unfolding exactlyOne_def by (rule txKeeps_thenOk, assumption) (rule txKeeps_ret)

lemma keeps_finish_begun:
  assumes "txKeeps R m" and "\<not> fault w (fault_n w)"
    and "finish_tx m ((tick w)\<lparr>working := Some (committed w)\<rparr>) = (x, w')"
  shows "R (committed w) (committed w')"
proof -
  let ?w = "(tick w)\<lparr>working := Some (committed w)\<rparr>"
  obtain y v where y: "m ?w = (y, v)" by (cases "m ?w")
  have "\<forall>d. working ?w = Some d \<longrightarrow> R (committed ?w) d" using refl by simp
  with assms(1) y have "R (committed ?w) (committed v)" unfolding txKeeps_def by blast
  with assms(3) y show ?thesis by (auto simp: finish_tx_def)
qed

lemma keeps_inTransaction [keepsI]: "txKeeps R m \<Longrightarrow> keeps R (inTransaction m)"
  unfolding keeps_def inTransaction_def
  by (auto simp: bnd_def begin_tx_def ret_def refl split: if_splits dest: keeps_finish_begun)

lemma keeps_begun [keepsI]:
  "txKeeps R m \<Longrightarrow> keeps R (bnd begin_tx (\<lambda>x. case x of Inl e \<Rightarrow> ret (f e) | Inr u \<Rightarrow> finish_tx m))"
  unfolding keeps_def
  by (auto simp: bnd_def begin_tx_def ret_def refl split: if_splits dest: keeps_finish_begun)

lemma keeps_thenOk [keepsI]: "keeps R m \<Longrightarrow> (\<And>a. keeps R (f a)) \<Longrightarrow> keeps R (thenOk m f)"
  unfolding thenOk_def by (rule keeps_bnd) (auto split: sum.split intro: keeps_ret)

lemma keeps_transaction [keepsI]:
  "txKeeps R m \<Longrightarrow> keeps R (bnd (orReply begin_tx r) (\<lambda>u. finish_tx m))"
  unfolding keeps_def
  by (auto simp: bnd_def orReply_def begin_tx_def ret_def reply_def refl split: if_splits dest: keeps_finish_begun)

end

text \<open>From partial correctness to an evolution: a handler that writes early answers only while
  nothing is committed goes along \<open>R\<close> if its successful runs do.\<close>

lemma keeps_wlp:
  assumes "reply_safe m" and "\<And>d. R d d" and "\<And>c k. wlp m (\<lambda>_ c' _. R c c') c k"
  shows "keeps R m"
  unfolding keeps_def
proof (intro allI impI)
  fix w x w' assume run: "m w = (x, w')"
  show "R (committed w) (committed w')"
  proof (cases x)
    case (Val a)
    with run show ?thesis using assms(3) [of "committed w" "working w"] by (simp add: wlp_def)
  next
    case (Reply r)
    with run assms(1) have "committed w' = committed w" by (simp add: reply_safe_def)
    with assms(2) show ?thesis by simp
  qed
qed

lemma keeps_of_ok:
  assumes "err_safe m" and "replies (\<lambda>_. False) m" and refl: "\<And>d. R d d"
    and "\<And>c k. wlp m (onOk (\<lambda>_ c' _. R c c')) c k"
  shows "keeps R m"
  unfolding keeps_def
proof (intro allI impI)
  fix w x w' assume run: "m w = (x, w')"
  have "wp m (\<lambda>x w'. case x of Inl e \<Rightarrow> committed w' = committed w | Inr a \<Rightarrow> R (committed w) (committed w'))
      (\<lambda>_ _. False) w"
    by (rule wp_of_wlp [OF assms(2,1,4)])
  with run refl show "R (committed w) (committed w')" by (auto simp: wp_def split: step.splits sum.splits)
qed

text \<open>A table to which rows are added, and whose rows change only along \<open>P\<close>.\<close>

definition extends :: "('r \<Rightarrow> 'r \<Rightarrow> bool) \<Rightarrow> 'r list \<Rightarrow> 'r list \<Rightarrow> bool" where
  "extends P t t' \<longleftrightarrow> (\<exists>u v. t' = u @ v \<and> list_all2 P t u)"

lemma extends_refl: "(\<And>x. P x x) \<Longrightarrow> extends P t t"
  unfolding extends_def by (intro exI [of _ t] exI [of _ "[]"]) (simp add: list_all2_refl)

lemma extends_append: "(\<And>x. P x x) \<Longrightarrow> extends P t (t @ u)"
  unfolding extends_def by (intro exI [of _ t] exI [of _ u]) (simp add: list_all2_refl)

lemma extends_update: "(\<And>x. P x x) \<Longrightarrow> (\<And>x. x \<in> set t \<Longrightarrow> C x \<Longrightarrow> P x (f x)) \<Longrightarrow> extends P t (updateRows C f t)"
  unfolding extends_def updateRows_def
  by (intro exI [of _ "map (\<lambda>r. if C r then f r else r) t"] exI [of _ "[]"])
     (auto simp: list_all2_map2 list_all2_same)

lemma extends_trans:
  assumes tr: "\<And>x y z. P x y \<Longrightarrow> P y z \<Longrightarrow> P x z" and "extends P t t'" and "extends P t' t''"
  shows "extends P t t''"
proof -
  from assms(2) obtain u v where u: "t' = u @ v" "list_all2 P t u" by (auto simp: extends_def)
  from assms(3) u obtain x y z where x: "t'' = (x @ y) @ z" "list_all2 P u x"
    by (auto simp: extends_def list_all2_append1)
  have "list_all2 P t x" by (rule list_all2_trans [OF _ u(2) x(2)]) (rule tr)
  with x(1) show ?thesis by (auto simp: extends_def)
qed

lemma extends_set:
  assumes "extends P t t'" and "x \<in> set t"
  shows "\<exists>y \<in> set t'. P x y"
  using assms by (auto simp: extends_def list_all2_conv_all_nth in_set_conv_nth) (metis UnI1 nth_mem)

end
