(* ===== verification/WayReport.thy ===== *)
theory WayReport
  imports WayOutbox Evolution
begin

section \<open>Reporting charges to GizPay\<close>

text \<open>
  \<open>reportOutbox\<close> and \<open>runOutbox\<close> run against the regional database and a remote GizPay, reached
  over a network that may lose the request, lose the answer, or have something on the way answer
  in GizPay's place. The locale \<open>charge_server\<close> is what the worker relies on; GizPay's own model
  is shown to provide it in the theory \<open>Billing\<close>.
\<close>

subsection \<open>The network\<close>

datatype delivery =
    Delivered
  | LostRequest
  | LostAnswer
  | Intercepted nat
  | Replaced nat

record ('c, 'p) site =
  way :: "'c way_db world"
  remote :: 'p
  network :: "nat \<Rightarrow> delivery"
  network_n :: nat

record 'p charge_api =
  post_charge :: "charge_request \<Rightarrow> 'p \<Rightarrow> nat \<times> 'p"
  get_charge :: "string \<Rightarrow> 'p \<Rightarrow> nat \<times> 'p"

definition onWay :: "('c way_db world, 'a) act \<Rightarrow> (('c, 'p) site, 'a) act" where
  "onWay m s = (case m (way s) of (x, w) \<Rightarrow> (x, s\<lparr>way := w\<rparr>))"

text \<open>\<open>HTTPClient.Do\<close>: the status of the answer, or an error.\<close>

definition callRemote :: "('p \<Rightarrow> nat \<times> 'p) \<Rightarrow> (('c, 'p) site, nat option) act" where
  "callRemote f s =
     (let s' = s\<lparr>network_n := Suc (network_n s)\<rparr> in
      case network s (network_n s) of
        Delivered \<Rightarrow> (Val (Some (fst (f (remote s)))), s'\<lparr>remote := snd (f (remote s))\<rparr>)
      | LostRequest \<Rightarrow> (Val None, s')
      | LostAnswer \<Rightarrow> (Val None, s'\<lparr>remote := snd (f (remote s))\<rparr>)
      | Intercepted st \<Rightarrow> (Val (Some st), s')
      | Replaced st \<Rightarrow> (Val (Some st), s'\<lparr>remote := snd (f (remote s))\<rparr>))"

text \<open>
  The configuration: whether a service token source is set, the URL of GizPay, and which URLs
  \<open>http.NewRequest\<close> accepts. Obtaining a token is a call to the identity provider: \<open>None\<close> is an
  error.
\<close>

record way_config =
  wc_token_source :: bool
  wc_gizpay_url :: string
  wc_token :: "nat \<Rightarrow> bool"
  wc_url_ok :: "string \<Rightarrow> bool"
  wc_batch :: int
  wc_abandon_after :: duration

definition trimSlashes :: "string \<Rightarrow> string" where
  "trimSlashes s = rev (dropWhile (\<lambda>c. c = CHR ''/'') (rev s))"

subsection \<open>\<open>reportOutbox\<close>\<close>

definition pend :: "bool \<Rightarrow> string \<Rightarrow> (('c, 'p) site, unit) act" where
  "pend recover i = onWay (bnd (gets now) (\<lambda>t. bnd (db_exec (setPending recover t i)) (\<lambda>_. ret ())))"

definition settle :: "bool \<Rightarrow> bool \<Rightarrow> string \<Rightarrow> string \<Rightarrow> (('c, 'p) site, unit) act" where
  "settle success recover i orderID =
     (if success
      then bnd (onWay (markOutboxReported i orderID)) (\<lambda>x. case x of Inl e \<Rightarrow> pend True i | Inr _ \<Rightarrow> ret ())
      else pend recover i)"

definition giveUp :: "string \<Rightarrow> string \<Rightarrow> (('c, 'p) site, unit) act" where
  "giveUp i orderID =
     bnd (onWay (bnd (gets now) (\<lambda>t. exactlyOne (db_exec (conflictOrder t i orderID))))) (\<lambda>x.
     case x of Inl e \<Rightarrow> pend False i | Inr _ \<Rightarrow> ret ())"

definition recoverCharge ::
  "way_config \<Rightarrow> 'p charge_api \<Rightarrow> string \<Rightarrow> string \<Rightarrow> string \<Rightarrow> (('c, 'p) site, unit) act" where
  "recoverCharge cfg api externalID i orderID =
     (if \<not> wc_url_ok cfg (trimSlashes (wc_gizpay_url cfg) @ ''/service/v1/payg-charges/'' @ externalID)
      then pend True i
      else bnd (callRemote (get_charge api externalID)) (\<lambda>r. case r of
        None \<Rightarrow> pend True i
      | Some st \<Rightarrow> settle (st = 200) True i orderID))"

definition reportOutbox :: "way_config \<Rightarrow> 'p charge_api \<Rightarrow> string \<Rightarrow> (('c, 'p) site, unit) act" where
  "reportOutbox cfg api externalID =
     (if \<not> wc_token_source cfg \<or> wc_gizpay_url cfg = [] then ret ()
      else
     bnd (onWay (db_exec (readRow (\<lambda>d. find (\<lambda>o'. ob_external o' = externalID \<and> unreported o') (charge_outbox d))))) (\<lambda>x.
     case x of Inl e \<Rightarrow> ret () | Inr o' \<Rightarrow>
     bnd (gets network_n) (\<lambda>n.
     if \<not> wc_token cfg n then ret ()
     else if \<not> wc_url_ok cfg (trimSlashes (wc_gizpay_url cfg) @ ''/service/v1/payg-charges'') then ret ()
     else
     bnd (onWay (bnd (gets now) (\<lambda>t. exactlyOne (db_exec (markSending t (ob_id o')))))) (\<lambda>y.
     case y of Inl e \<Rightarrow> ret () | Inr _ \<Rightarrow>
     bnd (callRemote (post_charge api (ob_payload o'))) (\<lambda>r.
     case r of None \<Rightarrow> pend True (ob_id o') | Some st \<Rightarrow>
     if st = 409 \<and> \<not> ob_recover o' then giveUp (ob_id o') (ob_order o')
     else if st = 409 then recoverCharge cfg api externalID (ob_id o') (ob_order o')
     else settle (st = 201) (ob_recover o') (ob_id o') (ob_order o'))))))"

subsection \<open>The worker\<close>

fun reportAll :: "way_config \<Rightarrow> 'p charge_api \<Rightarrow> string list \<Rightarrow> (('c, 'p) site, unit) act" where
  "reportAll cfg api [] = ret ()"
| "reportAll cfg api (i # is) = bnd (reportOutbox cfg api i) (\<lambda>_. reportAll cfg api is)"

text \<open>One round of \<open>runOutbox\<close>, without the pruning of realtime sessions.\<close>

definition outboxRound :: "way_config \<Rightarrow> 'p charge_api \<Rightarrow> (('c, 'p) site, unit) act" where
  "outboxRound cfg api =
     (let abandonAfter = (if wc_abandon_after cfg \<le> 0 then 24 * 3600 * second else wc_abandon_after cfg);
          batchSize = (if wc_batch cfg \<le> 0 then 20 else wc_batch cfg)
      in
     bnd (onWay (bnd (gets now) (\<lambda>t. db_exec (abandonOld t (t - abandonAfter))))) (\<lambda>_.
     bnd (onWay (db_exec (reading (\<lambda>d. map ob_external (take (nat batchSize)
        (sort_key ob_created_at (filter unreported (charge_outbox d)))))))) (\<lambda>x.
     case x of Inl e \<Rightarrow> ret () | Inr ids \<Rightarrow> reportAll cfg api ids)))"

text \<open>What \<open>New\<close> does with the rows of an earlier process.\<close>

definition recoverOutbox :: "(('c, 'p) site, unit) act" where
  "recoverOutbox = onWay (bnd (gets now) (\<lambda>t. bnd (db_exec (recoverSending t)) (\<lambda>_. ret ())))"


subsection \<open>What the worker relies on\<close>

text \<open>
  \<open>amount x p\<close>: the gross amount of GizPay's charge with the external order id \<open>x\<close>, if there is
  one. A 201 means that the charge is there, any other answer that the request has charged nothing,
  409 that the id is taken;  a charge never goes away, and a request concerns no other id.
\<close>

locale charge_server =
  fixes api :: "'p charge_api"
    and amount :: "string \<Rightarrow> 'p \<Rightarrow> int option"
    and valid :: "'p \<Rightarrow> bool"
  assumes post_valid: "valid p \<Longrightarrow> valid (snd (post_charge api b p))"
    and post_201: "valid p \<Longrightarrow> fst (post_charge api b p) = 201 \<Longrightarrow>
      amount (cr_external b) (snd (post_charge api b p)) = Some (cr_gross b)"
    and post_not_201: "valid p \<Longrightarrow> fst (post_charge api b p) \<noteq> 201 \<Longrightarrow>
      amount x (snd (post_charge api b p)) = amount x p"
    and post_409: "valid p \<Longrightarrow> fst (post_charge api b p) = 409 \<Longrightarrow> amount (cr_external b) p \<noteq> None"
    and post_keeps: "valid p \<Longrightarrow> amount x p \<noteq> None \<Longrightarrow> amount x (snd (post_charge api b p)) = amount x p"
    and post_other: "valid p \<Longrightarrow> x \<noteq> cr_external b \<Longrightarrow> amount x (snd (post_charge api b p)) = amount x p"
    and get_valid: "valid p \<Longrightarrow> valid (snd (get_charge api x p))"
    and get_200: "fst (get_charge api x p) = 200 \<Longrightarrow> amount x p \<noteq> None"
    and get_reads: "amount x (snd (get_charge api y p)) = amount x p"

text \<open>
  The state of a row. A reported row has its charge, of the row's amount; a row whose charge
  exists is reported or remembers that an earlier request may have gone through. An order fails
  only because its commission exceeds its gross amount.
\<close>

definition rowOk :: "(string \<Rightarrow> 'p \<Rightarrow> int option) \<Rightarrow> 'p \<Rightarrow> outbox \<Rightarrow> bool" where
  "rowOk amount p o' \<longleftrightarrow>
     cr_external (ob_payload o') = ob_external o' \<and>
     (ob_status o' = ''reported'' \<longrightarrow> amount (ob_external o') p \<noteq> None) \<and>
     (amount (ob_external o') p \<noteq> None \<longrightarrow>
        amount (ob_external o') p = Some (cr_gross (ob_payload o')) \<and> (ob_status o' = ''reported'' \<or> ob_recover o'))"

definition outboxOk :: "(string \<Rightarrow> 'p \<Rightarrow> int option) \<Rightarrow> 'p \<Rightarrow> 'c way_db \<Rightarrow> bool" where
  "outboxOk amount p d \<longleftrightarrow> (\<forall>o' \<in> set (charge_outbox d). rowOk amount p o') \<and>
     distinct (map ob_id (charge_outbox d)) \<and> distinct (map ob_external (charge_outbox d)) \<and>
     (\<forall>a \<in> set (ai_orders d). ao_status a = ''billing_failed'' \<longrightarrow> ao_gross a < ao_commission a)"

text \<open>A network on which nobody but GizPay gives an answer that the worker takes for GizPay's.\<close>

definition honest :: "(nat \<Rightarrow> delivery) \<Rightarrow> bool" where
  "honest net \<longleftrightarrow> (\<forall>n st. net n \<noteq> Replaced st \<and> (net n = Intercepted st \<longrightarrow> st \<notin> {200, 201, 409}))"

definition siteOk :: "(string \<Rightarrow> 'p \<Rightarrow> int option) \<Rightarrow> ('p \<Rightarrow> bool) \<Rightarrow> ('c, 'p) site \<Rightarrow> bool" where
  "siteOk amount valid s \<longleftrightarrow> outboxOk amount (remote s) (committed (way s)) \<and> valid (remote s) \<and> honest (network s)"

definition rows :: "('c, 'p) site \<Rightarrow> outbox list" where
  "rows s = charge_outbox (committed (way s))"

lemma wp_onWay [wp_simps]:
  "wp (onWay m) Q R s = wp m (\<lambda>a w. Q a (s\<lparr>way := w\<rparr>)) (\<lambda>r w. R r (s\<lparr>way := w\<rparr>)) (way s)"
  by (auto simp: wp_def onWay_def split: prod.splits step.splits)

lemma wp_exactlyOne [wp_simps]:
  "wp (exactlyOne m) Q R s =
     wp m (\<lambda>x s'. Q (case x of Inl e \<Rightarrow> Inl e | Inr n \<Rightarrow> if n = 1 then Inr () else Inl Raised) s') R s"
  by (auto simp: exactlyOne_def thenOk_def wp_def bnd_def ret_def split: prod.splits step.splits sum.splits)

lemma outboxOk_update:
  assumes "outboxOk amount p d" and "\<And>o'. ob_id (f o') = ob_id o' \<and> ob_external (f o') = ob_external o'"
    and "\<And>o'. o' \<in> set (charge_outbox d) \<Longrightarrow> P o' \<Longrightarrow> rowOk amount p o' \<Longrightarrow> rowOk amount p (f o')"
    and "charge_outbox d' = updateRows P f (charge_outbox d)" and "ai_orders d' = ai_orders d"
  shows "outboxOk amount p d'"
  using assms by (auto simp: outboxOk_def map_updateRows) (auto simp: updateRows_def)

text \<open>The transaction that completes a report: only the row \<open>i\<close> changes, to reported.\<close>

definition ident :: "outbox \<Rightarrow> string \<times> string \<times> charge_request" where
  "ident o' = (ob_id o', ob_external o', ob_payload o')"

definition reportsRow :: "string \<Rightarrow> 'c way_db \<Rightarrow> 'c way_db \<Rightarrow> bool" where
  "reportsRow i d d' \<longleftrightarrow> map ident (charge_outbox d') = map ident (charge_outbox d) \<and>
     (\<forall>q \<in> set (charge_outbox d'). q \<in> set (charge_outbox d) \<or> ob_id q = i \<and> ob_status q = ''reported'') \<and>
     (\<forall>a \<in> set (ai_orders d'). a \<in> set (ai_orders d) \<or> ao_status a = ''charged'')"

interpretation reporting: evolution "reportsRow i" for i
  by unfold_locales (auto simp: reportsRow_def)

lemma evolves_reports [evolvesI]:
  "evolves (reportsRow i) (setReported t i orderID)" "evolves (reportsRow i) (setCharged orderID)"
  "evolves (reportsRow i) (addBillingEarned x t k)" "evolves (reportsRow i) (addSyncEarned x t k)"
  by (auto simp: evolves_def reportsRow_def setReported_def updateOutbox_def setCharged_def ident_def
      addBillingEarned_def addSyncEarned_def updateRows_def split: if_splits)

lemma keeps_markOutboxReported: "keeps (reportsRow i) (markOutboxReported i orderID)"
  unfolding markOutboxReported_def by (rule keepsI evolvesI)+

lemma ident_image: "map ident xs = map ident ys \<Longrightarrow> q \<in> set xs \<Longrightarrow> \<exists>o' \<in> set ys. ident o' = ident q"
  by (metis (no_types, lifting) image_iff list.set_map)

lemma outboxOk_iff:
  "outboxOk amount p d \<longleftrightarrow> (\<forall>o' \<in> set (charge_outbox d). rowOk amount p o') \<and>
     distinct (map fst (map ident (charge_outbox d))) \<and> distinct (map (fst \<circ> snd) (map ident (charge_outbox d))) \<and>
     (\<forall>a \<in> set (ai_orders d). ao_status a = ''billing_failed'' \<longrightarrow> ao_gross a < ao_commission a)"
  by (simp add: outboxOk_def ident_def o_def)

lemma reportsRow_ok:
  assumes ok: "outboxOk amount p d" and step: "reportsRow i d d'"
    and has: "\<And>o'. o' \<in> set (charge_outbox d) \<Longrightarrow> ob_id o' = i \<Longrightarrow> amount (ob_external o') p \<noteq> None"
  shows "outboxOk amount p d'"
proof -
  have "rowOk amount p q" if q: "q \<in> set (charge_outbox d')" for q
  proof (cases "q \<in> set (charge_outbox d)")
    case True
    with ok show ?thesis by (simp add: outboxOk_def)
  next
    case False
    with step q have r: "ob_id q = i" "ob_status q = ''reported''" by (auto simp: reportsRow_def)
    from step have "map ident (charge_outbox d') = map ident (charge_outbox d)" by (simp add: reportsRow_def)
    from ident_image [OF this q] obtain o' where o': "o' \<in> set (charge_outbox d)" "ident o' = ident q" by blast
    with ok have "rowOk amount p o'" by (simp add: outboxOk_def)
    with r o' has [of o'] show ?thesis by (auto simp: rowOk_def ident_def)
  qed
  moreover have "ao_gross a < ao_commission a" if "a \<in> set (ai_orders d')" "ao_status a = ''billing_failed''" for a
    using that ok step by (fastforce simp: outboxOk_def reportsRow_def)
  ultimately show ?thesis using ok step by (auto simp: outboxOk_iff reportsRow_def)
qed

subsection \<open>The worker keeps the rows truthful\<close>

lemma wp_keeps:
  assumes "keeps R m" and "\<And>a w'. R (committed w) (committed w') \<Longrightarrow> Q a w'"
    and "\<And>r w'. m w = (Reply r, w') \<Longrightarrow> False"
  shows "wp m Q P w"
  using assms by (auto simp: wp_def dest: keepsD split: prod.splits step.splits)

lemma no_reply_markOutboxReported: "markOutboxReported i orderID w \<noteq> (Reply r, w')"
proof -
  have "replies (\<lambda>_. False) (markOutboxReported i orderID)"
    unfolding markOutboxReported_def inTransaction_def exactlyOne_def by (intro repliesI)
  then show ?thesis by (auto simp: replies_def)
qed

context charge_server
begin

text \<open>The row that is being reported: \<open>i\<close> under the external id \<open>x\<close>.\<close>

definition atRow :: "string \<Rightarrow> string \<Rightarrow> ('c, 'p) site \<Rightarrow> bool" where
  "atRow i x s \<longleftrightarrow> siteOk amount valid s \<and> (\<forall>o' \<in> set (rows s). ob_id o' = i \<longrightarrow> ob_external o' = x)"

lemma pend_ok:
  assumes "atRow i x s" and "amount x (remote s) \<noteq> None \<Longrightarrow> recover"
  shows "wp (pend recover i) (\<lambda>_. siteOk amount valid) R s"
proof -
  have "outboxOk amount (remote s) d'"
    if "setPending recover (now (way s)) i (committed (way s)) = Inr (n, d')" for n d'
  proof (rule outboxOk_update)
    show "outboxOk amount (remote s) (committed (way s))" using assms(1) by (simp add: atRow_def siteOk_def)
    show "charge_outbox d' = updateRows (\<lambda>o'. ob_id o' = i)
       (\<lambda>o'. o'\<lparr>ob_status := ''pending'', ob_recover := recover, ob_updated_at := now (way s)\<rparr>)
       (charge_outbox (committed (way s)))" and "ai_orders d' = ai_orders (committed (way s))"
      using that by (auto simp: setPending_def updateOutbox_def)
  qed (use assms in \<open>auto simp: atRow_def rowOk_def rows_def\<close>)
  with assms(1) show ?thesis
    by (simp add: pend_def wp_simps siteOk_def atRow_def split: sum.split prod.split)
qed

lemma markOutboxReported_ok:
  assumes "atRow i x s" and "amount x (remote s) \<noteq> None"
  shows "wp (onWay (markOutboxReported i orderID)) (\<lambda>_. atRow i x) (\<lambda>_ _. False) s"
proof -
  have "atRow i x (s\<lparr>way := w'\<rparr>)" if r: "reportsRow i (committed (way s)) (committed w')" for w'
  proof -
    from assms have "outboxOk amount (remote s) (committed w')"
      by (intro reportsRow_ok [OF _ r]) (auto simp: atRow_def siteOk_def rows_def)
    moreover have "ob_external q = x" if "q \<in> set (charge_outbox (committed w'))" "ob_id q = i" for q
    proof -
      from r have "map ident (charge_outbox (committed w')) = map ident (rows s)"
        by (simp add: reportsRow_def rows_def)
      from ident_image [OF this that(1)] obtain o' where "o' \<in> set (rows s)" "ident o' = ident q" by blast
      with assms(1) that(2) show ?thesis by (auto simp: atRow_def ident_def)
    qed
    ultimately show ?thesis using assms(1) by (auto simp: atRow_def siteOk_def rows_def)
  qed
  then show ?thesis unfolding wp_onWay
    by (intro wp_keeps [OF keeps_markOutboxReported]) (simp_all add: no_reply_markOutboxReported)
qed

lemma settle_ok:
  assumes "atRow i x s" and "success \<Longrightarrow> amount x (remote s) \<noteq> None" and "\<not> success \<Longrightarrow> amount x (remote s) \<noteq> None \<Longrightarrow> recover"
  shows "wp (settle success recover i orderID) (\<lambda>_. siteOk amount valid) (\<lambda>_ _. False) s"
proof (cases success)
  case True
  note m = markOutboxReported_ok [OF assms(1) assms(2) [OF True], of orderID]
  have "wp (onWay (markOutboxReported i orderID))
      (\<lambda>y. wp (case y of Inl e \<Rightarrow> pend True i | Inr _ \<Rightarrow> ret ()) (\<lambda>_. siteOk amount valid) (\<lambda>_ _. False)) (\<lambda>_ _. False) s"
    by (rule wp_mono [OF m])
       (auto simp: wp_ret atRow_def split: sum.split intro: pend_ok [unfolded atRow_def])
  with True show ?thesis by (simp only: settle_def wp_bnd if_True)
next
  case False
  with assms pend_ok [OF assms(1), of recover] show ?thesis by (simp add: settle_def)
qed

text \<open>A call to GizPay while the row is in flight.\<close>

definition inFlight :: "string \<Rightarrow> string \<Rightarrow> ('c, 'p) site \<Rightarrow> bool" where
  "inFlight i x s \<longleftrightarrow> atRow i x s \<and> (\<forall>o' \<in> set (rows s). ob_external o' = x \<longrightarrow> ob_recover o')"

lemma inFlight_post:
  assumes "inFlight i (cr_external b) s"
    and same: "\<And>q. q \<in> set (rows s) \<Longrightarrow> ob_external q = cr_external b \<Longrightarrow> ob_payload q = b"
  shows "inFlight i (cr_external b) (s\<lparr>network_n := n, remote := snd (post_charge api b (remote s))\<rparr>)"
proof -
  let ?p = "snd (post_charge api b (remote s))"
  have valid: "valid (remote s)" using assms by (simp add: inFlight_def atRow_def siteOk_def)
  have "rowOk amount ?p q" if mem: "q \<in> set (rows s)" for q
  proof -
    from mem assms have q: "rowOk amount (remote s) q" "ob_external q = cr_external b \<Longrightarrow> ob_recover q"
      by (auto simp: inFlight_def atRow_def siteOk_def outboxOk_def rows_def)
    show ?thesis
    proof (cases "ob_external q = cr_external b")
      case True
      note pq = same [OF mem True]
      have "amount (cr_external b) ?p = amount (cr_external b) (remote s) \<or> amount (cr_external b) ?p = Some (cr_gross b)"
        using post_201 [OF valid, of b] post_not_201 [OF valid, of b] by blast
      moreover have "amount (cr_external b) (remote s) \<noteq> None \<Longrightarrow> amount (cr_external b) ?p \<noteq> None"
        using post_keeps [OF valid] by simp
      ultimately show ?thesis using q True pq by (auto simp: rowOk_def)
    next
      case False
      with q(1) post_other [OF valid] show ?thesis by (simp add: rowOk_def)
    qed
  qed
  with assms valid show ?thesis by (auto simp: inFlight_def atRow_def siteOk_def outboxOk_def rows_def post_valid)
qed

lemma inFlight_get:
  "inFlight i x s \<Longrightarrow> inFlight i x (s\<lparr>network_n := n, remote := snd (get_charge api y (remote s))\<rparr>)"
  "inFlight i x s \<Longrightarrow> inFlight i x (s\<lparr>network_n := n\<rparr>)"
  by (simp_all add: inFlight_def atRow_def siteOk_def outboxOk_def rows_def rowOk_def get_reads get_valid)

lemma recoverCharge_ok:
  assumes "inFlight i x s"
  shows "wp (recoverCharge cfg api x i orderID) (\<lambda>_. siteOk amount valid) (\<lambda>_ _. False) s"
proof -
  have at: "inFlight i x s' \<Longrightarrow> atRow i x s'" for s' :: "('c, 'p) site" by (simp add: inFlight_def)
  have net: "honest (network s)" using assms by (simp add: inFlight_def atRow_def siteOk_def)
  have pend: "wp (pend True i) (\<lambda>_. siteOk amount valid) (\<lambda>_ _. False) s'" if "inFlight i x s'" for s' :: "('c, 'p) site"
    by (rule pend_ok [OF at [OF that]]) simp
  have settle: "wp (settle b True i orderID) (\<lambda>_. siteOk amount valid) (\<lambda>_ _. False) s'"
    if "inFlight i x s'" "b \<Longrightarrow> amount x (remote s') \<noteq> None" for s' :: "('c, 'p) site" and b
    by (rule settle_ok [OF at [OF that(1)] that(2)]) simp_all
  have call: "wp (callRemote (get_charge api x))
      (\<lambda>r s'. inFlight i x s' \<and> (r = Some 200 \<longrightarrow> amount x (remote s') \<noteq> None)) (\<lambda>_ _. False) s"
    using assms net get_200 [of x "remote s"]
    by (auto simp: wp_def callRemote_def Let_def inFlight_get get_reads honest_def split: delivery.split)
  have "wp (callRemote (get_charge api x)) (\<lambda>r. wp (case r of None \<Rightarrow> pend True i
      | Some st \<Rightarrow> settle (st = 200) True i orderID) (\<lambda>_. siteOk amount valid) (\<lambda>_ _. False)) (\<lambda>_ _. False) s"
    by (rule wp_mono [OF call]) (auto split: option.split intro: pend settle)
  with pend [OF assms] show ?thesis by (simp add: recoverCharge_def wp_bnd)
qed

text \<open>Sending: the row's uncertainty is written down before the request leaves.\<close>

lemma markSending_ok:
  assumes "siteOk amount valid s" and o': "o' \<in> set (rows s)" "unreported o'"
  shows "wp (onWay (bnd (gets now) (\<lambda>t. exactlyOne (db_exec (markSending t (ob_id o'))))))
    (\<lambda>y s'. remote s' = remote s \<and> siteOk amount valid s' \<and> (y = Inr () \<longrightarrow> inFlight (ob_id o') (ob_external o') s' \<and>
       (\<forall>q \<in> set (rows s'). ob_external q = ob_external o' \<longrightarrow> ob_payload q = ob_payload o')))
    (\<lambda>_ _. False) s"
proof -
  let ?d = "committed (way s)"
  let ?P = "\<lambda>q. ob_id q = ob_id o' \<and> unreported q"
  let ?f = "\<lambda>q. q\<lparr>ob_status := ''sending'', ob_recover := True, ob_updated_at := now (way s)\<rparr>"
  let ?d' = "?d\<lparr>charge_outbox := updateRows ?P ?f (charge_outbox ?d)\<rparr>"
  have ok: "outboxOk amount (remote s) ?d" using assms(1) by (simp add: siteOk_def)
  have ok': "outboxOk amount (remote s) ?d'"
    by (rule outboxOk_update [OF ok, where P = ?P and f = ?f]) (auto simp: rowOk_def)
  have ids: "inj_on ob_id (set (rows s))" and exts: "inj_on ob_external (set (rows s))"
    using ok by (simp_all add: outboxOk_def distinct_map rows_def)
  have flight: "q \<in> set (charge_outbox ?d') \<Longrightarrow>
      (ob_id q = ob_id o' \<longrightarrow> ob_external q = ob_external o') \<and>
      (ob_external q = ob_external o' \<longrightarrow> ob_recover q \<and> ob_payload q = ob_payload o')" for q
  proof -
    assume "q \<in> set (charge_outbox ?d')"
    then obtain u where u: "u \<in> set (rows s)" "q = (if ?P u then ?f u else u)"
      by (auto simp: updateRows_def rows_def)
    show ?thesis
    proof (cases "u = o'")
      case True
      with u o'(2) show ?thesis by simp
    next
      case False
      with u(1) o'(1) ids exts have "ob_id u \<noteq> ob_id o'" "ob_external u \<noteq> ob_external o'"
        by (auto dest: inj_onD)
      with u(2) show ?thesis by simp
    qed
  qed
  have q: "markSending (now (way s)) (ob_id o') ?d = Inr (countRows ?P (charge_outbox ?d), ?d')"
    by (simp add: markSending_def updateOutbox_def)
  show ?thesis
    using assms(1) ok' flight
    by (auto simp: wp_simps q siteOk_def inFlight_def atRow_def rows_def split: if_splits)
qed

lemma post_ok:
  assumes fl: "inFlight i (ob_external o') s" and p: "cr_external (ob_payload o') = ob_external o'"
    and same: "\<forall>q \<in> set (rows s). ob_external q = ob_external o' \<longrightarrow> ob_payload q = ob_payload o'"
    and old: "amount (ob_external o') (remote s) \<noteq> None \<Longrightarrow> ob_recover o'"
  shows "wp (callRemote (post_charge api (ob_payload o')))
    (\<lambda>r s'. inFlight i (ob_external o') s' \<and> (r = Some 409 \<longrightarrow> ob_recover o') \<and>
       (r = Some 201 \<longrightarrow> amount (ob_external o') (remote s') \<noteq> None) \<and>
       (r \<noteq> None \<longrightarrow> r \<noteq> Some 201 \<longrightarrow> amount (ob_external o') (remote s') \<noteq> None \<longrightarrow> ob_recover o')) (\<lambda>_ _. False) s"
proof -
  have net: "honest (network s)" and inv: "valid (remote s)"
    using fl by (simp_all add: inFlight_def atRow_def siteOk_def)
  have fl': "inFlight i (ob_external o') (s\<lparr>network_n := n, remote := snd (post_charge api (ob_payload o') (remote s))\<rparr>)" for n
    using inFlight_post [of i "ob_payload o'" s n] fl p same by simp
  note laws = post_201 [OF inv, of "ob_payload o'"] post_409 [OF inv, of "ob_payload o'"]
    post_not_201 [OF inv, of "ob_payload o'" "ob_external o'"]
  show ?thesis
    using fl fl' net p old laws
    by (auto simp: wp_def callRemote_def Let_def inFlight_get honest_def split: delivery.split)
qed

lemma reportOutbox_ok:
  assumes "siteOk amount valid s"
  shows "wp (reportOutbox cfg api x) (\<lambda>_. siteOk amount valid) (\<lambda>_ _. False) s"
proof -
  let ?after = "\<lambda>o' r. case r of None \<Rightarrow> pend True (ob_id o') | Some st \<Rightarrow>
        if st = 409 \<and> \<not> ob_recover o' then giveUp (ob_id o') (ob_order o')
        else if st = 409 then recoverCharge cfg api x (ob_id o') (ob_order o')
        else settle (st = 201) (ob_recover o') (ob_id o') (ob_order o')"
  let ?ok = "\<lambda>_. siteOk amount valid" and ?no = "\<lambda>_ _. False"
  have send: "wp (bnd (callRemote (post_charge api (ob_payload o'))) (?after o')) ?ok ?no s'"
    if "inFlight (ob_id o') x s'" and x: "ob_external o' = x" and "cr_external (ob_payload o') = x"
      "\<forall>q \<in> set (rows s'). ob_external q = ob_external o' \<longrightarrow> ob_payload q = ob_payload o'"
      "amount x (remote s') \<noteq> None \<Longrightarrow> ob_recover o'" for o' s'
  proof (rule wp_bndI [OF post_ok])
    fix r s''
    assume r: "inFlight (ob_id o') (ob_external o') s'' \<and> (r = Some 409 \<longrightarrow> ob_recover o') \<and>
       (r = Some 201 \<longrightarrow> amount (ob_external o') (remote s'') \<noteq> None) \<and>
       (r \<noteq> None \<longrightarrow> r \<noteq> Some 201 \<longrightarrow> amount (ob_external o') (remote s'') \<noteq> None \<longrightarrow> ob_recover o')"
    then have at: "atRow (ob_id o') x s''" and "inFlight (ob_id o') x s''" using x by (simp_all add: inFlight_def)
    with r x show "wp (?after o' r) ?ok ?no s''"
      by (auto split: option.split intro: pend_ok [OF at] settle_ok [OF at] recoverCharge_ok)
  qed (use that in simp_all)
  let ?send = "\<lambda>o' y. case y of Inl (e :: sqlerr) \<Rightarrow> ret () | Inr (_ :: unit) \<Rightarrow>
        bnd (callRemote (post_charge api (ob_payload o'))) (?after o')"
  have sending: "wp (bnd (onWay (bnd (gets now) (\<lambda>t. exactlyOne (db_exec (markSending t (ob_id o')))))) (?send o')) ?ok ?no s'"
    if s': "siteOk amount valid s'" and o': "o' \<in> set (rows s')" "unreported o'" and x: "ob_external o' = x" for o' s'
  proof (rule wp_bndI [OF markSending_ok [OF s' o']])
    from s' o' have row: "rowOk amount (remote s') o'" by (simp add: siteOk_def outboxOk_def rows_def)
    fix y :: "sqlerr + unit" and s'' assume y: "remote s'' = remote s' \<and> siteOk amount valid s'' \<and>
        (y = Inr () \<longrightarrow> inFlight (ob_id o') (ob_external o') s'' \<and>
        (\<forall>q \<in> set (rows s''). ob_external q = ob_external o' \<longrightarrow> ob_payload q = ob_payload o'))"
    show "wp (?send o' y) ?ok ?no s''"
    proof (cases y)
      case (Inl e)
      with y show ?thesis by (simp add: wp_ret)
    next
      case (Inr u)
      with y have fl: "inFlight (ob_id o') x s''" and rem: "remote s'' = remote s'"
        and same: "\<forall>q \<in> set (rows s''). ob_external q = ob_external o' \<longrightarrow> ob_payload q = ob_payload o'"
        using x by simp_all
      from row o'(2) x rem have p: "cr_external (ob_payload o') = x" "amount x (remote s'') \<noteq> None \<Longrightarrow> ob_recover o'"
        by (auto simp: rowOk_def unreported_def)
      from send [OF fl x p(1) same p(2)] Inr show ?thesis by simp
    qed
  qed
  have read: "wp (onWay (db_exec (readRow (\<lambda>d. find (\<lambda>o'. ob_external o' = x \<and> unreported o') (charge_outbox d)))))
    (\<lambda>y s'. siteOk amount valid s' \<and> (\<forall>o'. y = Inr o' \<longrightarrow> o' \<in> set (rows s') \<and> unreported o' \<and> ob_external o' = x)) ?no s"
    using assms by (auto simp: wp_simps readRow_def siteOk_def rows_def find_Some_iff split: option.splits)
  have "wp (bnd (onWay (db_exec (readRow (\<lambda>d. find (\<lambda>o'. ob_external o' = x \<and> unreported o') (charge_outbox d)))))
      (\<lambda>y. case y of Inl e \<Rightarrow> ret () | Inr o' \<Rightarrow> bnd (gets network_n) (\<lambda>n.
       if \<not> wc_token cfg n then ret ()
       else if \<not> wc_url_ok cfg (trimSlashes (wc_gizpay_url cfg) @ ''/service/v1/payg-charges'') then ret ()
       else bnd (onWay (bnd (gets now) (\<lambda>t. exactlyOne (db_exec (markSending t (ob_id o')))))) (?send o')))) ?ok ?no s"
    by (rule wp_bndI [OF read])
       (auto simp only: wp_ret wp_bnd [of "gets network_n"] wp_gets wp_if sum.inject simp_thms
          intro: sending split: sum.split if_split)
  with assms show ?thesis by (simp add: reportOutbox_def wp_ret)
qed

lemma reportAll_ok: "siteOk amount valid s \<Longrightarrow> wp (reportAll cfg api is) (\<lambda>_. siteOk amount valid) (\<lambda>_ _. False) s"
proof (induction "is" arbitrary: s)
  case (Cons i "is")
  from Cons.prems have "wp (reportOutbox cfg api i) (\<lambda>_. siteOk amount valid) (\<lambda>_ _. False) s" by (rule reportOutbox_ok)
  then show ?case unfolding reportAll.simps by (rule wp_bndI) (rule Cons.IH)
qed (simp add: wp_ret)

text \<open>A statement that only gives rows another status.\<close>

lemma restatus_ok:
  assumes "siteOk amount valid s" and "\<And>d. q d = updateOutbox P f d"
    and "\<And>o'. ob_id (f o') = ob_id o' \<and> ob_external (f o') = ob_external o' \<and> ob_payload (f o') = ob_payload o'"
    and "\<And>o'. P o' \<Longrightarrow> ob_status o' \<noteq> ''reported'' \<and> ob_status (f o') \<noteq> ''reported'' \<and> (ob_recover o' \<longrightarrow> ob_recover (f o'))"
  shows "wp (onWay (db_exec q)) (\<lambda>_. siteOk amount valid) (\<lambda>_ _. False) s"
proof -
  have "outboxOk amount (remote s) d'" if "updateOutbox P f (committed (way s)) = Inr (n, d')" for n d'
  proof (rule outboxOk_update)
    show "outboxOk amount (remote s) (committed (way s))" using assms(1) by (simp add: siteOk_def)
    show "charge_outbox d' = updateRows P f (charge_outbox (committed (way s)))"
      and "ai_orders d' = ai_orders (committed (way s))"
      using that by (auto simp: updateOutbox_def)
  qed (use assms(3,4) in \<open>auto simp: rowOk_def\<close>)
  with assms(1,2) show ?thesis by (simp add: wp_simps siteOk_def split: sum.split prod.split)
qed

lemma abandonOld_ok:
  assumes "siteOk amount valid s"
  shows "wp (onWay (bnd (gets now) (\<lambda>t. db_exec (abandonOld t (t - k))))) (\<lambda>_. siteOk amount valid) (\<lambda>_ _. False) s"
  using restatus_ok [OF assms, of "abandonOld (now (way s)) (now (way s) - k)"]
  by (simp add: wp_onWay wp_bnd wp_gets abandonOld_def)

lemma outboxRound_ok:
  assumes "siteOk amount valid s"
  shows "wp (outboxRound cfg api) (\<lambda>_. siteOk amount valid) (\<lambda>_ _. False) s"
proof -
  have read: "wp (onWay (db_exec (reading f))) (\<lambda>_. siteOk amount valid) (\<lambda>_ _. False) s'" if "siteOk amount valid s'" for f s'
    using that by (auto simp: wp_simps reading_def siteOk_def)
  show ?thesis unfolding outboxRound_def Let_def
    by (rule wp_bndI [OF abandonOld_ok [OF assms]], rule wp_bndI [OF read], assumption)
       (auto simp: wp_ret reportAll_ok split: sum.split)
qed

lemma recoverOutbox_ok:
  assumes "siteOk amount valid s"
  shows "wp recoverOutbox (\<lambda>_. siteOk amount valid) (\<lambda>_ _. False) s"
  using restatus_ok [OF assms, of "recoverSending (now (way s))"]
  by (simp add: recoverOutbox_def wp_onWay wp_bnd wp_gets wp_ret recoverSending_def)

end

end
