(* ===== verification/WayComplete.thy ===== *)
theory WayComplete
  imports WayOutbox
begin

section \<open>What a completed call leaves behind\<close>

text \<open>
  \<open>completeCall\<close> is all or nothing: one order, its two usage records and, unless the commission
  exceeds the gross, one outbox row whose payload is the charge to send.
\<close>

definition recorded ::
  "(json \<Rightarrow> nat) \<Rightarrow> string \<Rightarrow> resolved_call \<Rightarrow> int \<Rightarrow> int \<Rightarrow> llm_usage \<Rightarrow> string \<Rightarrow> string \<Rightarrow>
     time \<Rightarrow> 'c way_db \<Rightarrow> 'c way_db \<Rightarrow> bool" where
  "recorded jsonSize keyHMAC call gross commission u mode externalID t d d' \<longleftrightarrow>
     0 < gross \<and> 0 \<le> commission \<and> externalID \<notin> ao_external ` set (ai_orders d) \<and>
     (\<exists>i usages obs.
        d' = d\<lparr>ai_orders := ai_orders d @ [aiOrder i externalID keyHMAC call gross commission u t],
             ai_usages := ai_usages d @ usages, charge_outbox := charge_outbox d @ obs\<rparr> \<and>
        map us_metric usages = [''input_tokens'', ''output_tokens''] \<and>
        map us_quantity usages = [prompt_tokens u, completion_tokens u] \<and>
        map us_order usages = [i, i] \<and>
        (if gross < commission then obs = []
         else \<exists>o'. obs = [o'] \<and> ob_external o' = externalID \<and> ob_order o' = i \<and> ob_status o' = ''pending'' \<and>
           \<not> ob_recover o' \<and> ob_id o' \<notin> ob_id ` set (charge_outbox d) \<and>
           externalID \<notin> ob_external ` set (charge_outbox d) \<and>
           ob_payload o' = chargePayload jsonSize externalID keyHMAC call gross commission mode
             (if cl_started call = 0 then t else cl_started call) t))"

lemma insertOrder_Inr:
  "insertOrder r d = Inr (u, d') \<Longrightarrow> 0 < ao_gross r \<and> 0 \<le> ao_commission r \<and>
     ao_external r \<notin> ao_external ` set (ai_orders d) \<and> d' = d\<lparr>ai_orders := ai_orders d @ [r]\<rparr>"
  by (auto simp: insertOrder_def insertRow_Inr split: sum.splits)

lemma insertUsage_Inr:
  "insertUsage r d = Inr (u, d') \<Longrightarrow> d' = d\<lparr>ai_usages := ai_usages d @ [r]\<rparr>"
  by (auto simp: insertUsage_def insertRow_Inr split: sum.splits)

lemma insertOutbox_Inr:
  "insertOutbox r d = Inr (u, d') \<Longrightarrow> ob_id r \<notin> ob_id ` set (charge_outbox d) \<and>
     ob_external r \<notin> ob_external ` set (charge_outbox d) \<and> d' = d\<lparr>charge_outbox := charge_outbox d @ [r]\<rparr>"
  by (auto simp: insertOutbox_def insertRow_Inr split: sum.splits)

interpretation outbox_table: keyed_insert charge_outbox ob_external insertOutbox
  by unfold_locales (auto dest: insertOutbox_Inr)

interpretation order_table: keyed_insert ai_orders ao_external insertOrder
  by unfold_locales (auto dest: insertOrder_Inr)

lemma wlp_recordUsage [wlpI]:
  assumes "\<And>r. us_metric r = fst row \<Longrightarrow> us_quantity r = snd row \<Longrightarrow> us_order r = i \<Longrightarrow>
    Q () c (Some (d\<lparr>ai_usages := ai_usages d @ [r]\<rparr>))"
  shows "wlp (recordUsage i call t row) (onOk Q) c (Some d)"
  unfolding recordUsage_def
  by (intro wlpI) (auto dest!: insertUsage_Inr intro!: assms)

lemma tx_local_recordUsage [tx_localI]: "tx_local (recordUsage i call t row)"
  unfolding recordUsage_def by (intro tx_localI)

lemma replies_completeTransaction [repliesI]:
  "replies P (completeTransaction js hm call g cm u mode fp i x)"
  unfolding completeTransaction_def recordUsage_def Let_def by (intro repliesI)

lemma err_safe_completeTransaction [err_safeI]:
  "err_safe (completeTransaction js hm call g cm u mode fp i x)"
  unfolding completeTransaction_def Let_def by (intro err_safeI tx_localI)

lemma wlp_completeTransaction:
  "wlp (completeTransaction js hm call g cm u mode fp i x)
     (onOk (\<lambda>_ c' _. \<exists>t. recorded js hm call g cm u mode x t d c')) c (Some d)"
  unfolding completeTransaction_def Let_def iterOk.simps
proof (intro wlpI, goal_cases)
  case (3 t a d' r ra ia aa d'a)
  from insertOrder_Inr [OF 3(2)] insertOutbox_Inr [OF 3(11)] 3
  have "recorded js hm call g cm u mode x t d d'a"
    unfolding recorded_def
    by (intro conjI exI [of _ i] exI [of _ "[r, ra]"]
          exI [of _ "[\<lparr>ob_id = ''out_'' @ ia, ob_external = x, ob_order = i,
            ob_payload = chargePayload js x hm call g cm mode (if cl_started call = 0 then t else cl_started call) t,
            ob_status = ''pending'', ob_recover = False, ob_created_at = t, ob_updated_at = t\<rparr>]"])
       (auto simp: aiOrder_def)
  then show ?case by (rule exI)
next
  case (4 t a d' r ra)
  from insertOrder_Inr [OF 4(2)] 4 have "recorded js hm call g cm u mode x t d
      (d'\<lparr>ai_usages := ai_usages d' @ [r],
          ai_usages := ai_usages (d'\<lparr>ai_usages := ai_usages d' @ [r]\<rparr>) @ [ra]\<rparr>)"
    unfolding recorded_def
    by (intro conjI exI [of _ i] exI [of _ "[r, ra]"] exI [of _ "[]"]) (auto simp: aiOrder_def)
  then show ?case by (rule exI)
qed simp_all

lemma completeCall_wp:
  "wp (completeCall js hm call g cm usage mode fp)
     (\<lambda>(y, x) w'. case y of
        Inl e \<Rightarrow> committed w' = committed w
      | Inr _ \<Rightarrow> if g = 0 then x = [] \<and> committed w' = committed w
          else x = ''ord_'' @ uuid w (Suc (uuid_n w)) \<and>
            (\<exists>t. recorded js hm call g cm (case usage of None \<Rightarrow> zero_usage | Some u \<Rightarrow> u) mode x t
              (committed w) (committed w')))
     (\<lambda>_ _. False) w"
proof -
  define u where "u = (case usage of None \<Rightarrow> zero_usage | Some u \<Rightarrow> u)"
  let ?w = "(tick w)\<lparr>working := Some (committed w), uuid_n := Suc (Suc (uuid_n w))\<rparr>"
  let ?x = "''ord_'' @ uuid w (Suc (uuid_n w))"
  have "wp (completeTransaction js hm call g cm u mode fp (''aio_'' @ uuid w (uuid_n w)) ?x)
      (\<lambda>y w'. case y of Inl e \<Rightarrow> committed w' = committed ?w
        | Inr _ \<Rightarrow> \<exists>t. recorded js hm call g cm u mode ?x t (committed w) (committed w')) (\<lambda>_ _. False) ?w"
    by (rule wp_of_wlp [where Q = "\<lambda>_ c' _. \<exists>t. recorded js hm call g cm u mode ?x t (committed w) c'"])
       (auto intro: repliesI err_safeI wlp_completeTransaction)
  then show ?thesis
    unfolding completeCall_def Let_def u_def [symmetric]
    by (simp add: wp_simps) (auto elim!: wp_mono split: sum.splits)
qed

subsection \<open>When it succeeds\<close>

lemma insertOrder_ok:
  "0 < ao_gross r \<Longrightarrow> 0 \<le> ao_commission r \<Longrightarrow> ao_status r \<in> {''pending'', ''charged'', ''billing_failed''} \<Longrightarrow>
   ao_id r \<notin> ao_id ` set (ai_orders d) \<Longrightarrow> ao_external r \<notin> ao_external ` set (ai_orders d) \<Longrightarrow>
   insertOrder r d = Inr ((), d\<lparr>ai_orders := ai_orders d @ [r]\<rparr>)"
  by (auto simp: insertOrder_def insertRow_def list_ex_iff image_iff)

lemma insertUsage_ok:
  "0 \<le> us_quantity r \<Longrightarrow> us_id r \<notin> us_id ` set (ai_usages d) \<Longrightarrow>
   insertUsage r d = Inr ((), d\<lparr>ai_usages := ai_usages d @ [r]\<rparr>)"
  by (auto simp: insertUsage_def insertRow_def list_ex_iff image_iff)

lemma insertOutbox_ok:
  "ob_status r \<in> {''pending'', ''sending'', ''reported'', ''abandoned''} \<Longrightarrow> ob_order r \<in> ao_id ` set (ai_orders d) \<Longrightarrow>
   ob_id r \<notin> ob_id ` set (charge_outbox d) \<Longrightarrow> ob_external r \<notin> ob_external ` set (charge_outbox d) \<Longrightarrow>
   insertOutbox r d = Inr ((), d\<lparr>charge_outbox := charge_outbox d @ [r]\<rparr>)"
  by (auto simp: insertOutbox_def insertRow_def list_ex_iff image_iff)

text \<open>
  A session whose statements do not fail and whose UUIDs are new: they differ, and no row has an
  identifier made of one that is still to come.
\<close>

definition dependable :: "'c way_db world \<Rightarrow> bool" where
  "dependable w \<longleftrightarrow> fault w = (\<lambda>_. False) \<and> inj (uuid w) \<and>
     (\<forall>n \<ge> uuid_n w. ''aio_'' @ uuid w n \<notin> ao_id ` set (ai_orders (committed w)) \<and>
        ''ord_'' @ uuid w n \<notin> ao_external ` set (ai_orders (committed w)) \<and>
        ''use_'' @ uuid w n \<notin> us_id ` set (ai_usages (committed w)) \<and>
        ''out_'' @ uuid w n \<notin> ob_id ` set (charge_outbox (committed w)) \<and>
        ''ord_'' @ uuid w n \<notin> ob_external ` set (charge_outbox (committed w)))"

lemma completeCall_succeeds:
  assumes "dependable w" and "0 < g" and "0 \<le> cm"
    and "0 \<le> prompt_tokens (case usage of None \<Rightarrow> zero_usage | Some u \<Rightarrow> u)"
    and "0 \<le> completion_tokens (case usage of None \<Rightarrow> zero_usage | Some u \<Rightarrow> u)"
    and "fp \<noteq> ''ai_order_write''" and "fp \<noteq> ''charge_outbox_write''"
  shows "wp (completeCall js hm call g cm usage mode fp) (\<lambda>(y, x) w'. y = Inr ()) (\<lambda>_ _. False) w"
proof -
  let ?n = "uuid_n w"
  have new: "''use_'' @ uuid w (Suc (Suc (Suc ?n))) \<noteq> ''use_'' @ uuid w (Suc (Suc ?n))"
    using assms(1) by (simp add: dependable_def inj_eq)
  have fresh: "''aio_'' @ uuid w ?n \<notin> ao_id ` set (ai_orders (committed w))"
    "''ord_'' @ uuid w (Suc ?n) \<notin> ao_external ` set (ai_orders (committed w))"
    "''use_'' @ uuid w (Suc (Suc ?n)) \<notin> us_id ` set (ai_usages (committed w))"
    "''use_'' @ uuid w (Suc (Suc (Suc ?n))) \<notin> us_id ` set (ai_usages (committed w))"
    "''out_'' @ uuid w (Suc (Suc (Suc (Suc ?n)))) \<notin> ob_id ` set (charge_outbox (committed w))"
    "''ord_'' @ uuid w (Suc ?n) \<notin> ob_external ` set (charge_outbox (committed w))"
    using assms(1) unfolding dependable_def by (meson le_SucI order.refl)+
  show ?thesis
    using assms(1-7) fresh new
    by (simp add: completeCall_def completeTransaction_def recordUsage_def run_simps wp_def dependable_def Let_def
        insertOrder_ok insertUsage_ok insertOutbox_ok aiOrder_def tick_def)
qed

lemma completeCall_records:
  assumes "dependable w" and "0 < g" and "0 \<le> cm"
    and "0 \<le> prompt_tokens (case usage of None \<Rightarrow> zero_usage | Some u \<Rightarrow> u)"
    and "0 \<le> completion_tokens (case usage of None \<Rightarrow> zero_usage | Some u \<Rightarrow> u)"
    and "fp \<noteq> ''ai_order_write''" and "fp \<noteq> ''charge_outbox_write''"
  shows "wp (completeCall js hm call g cm usage mode fp) (\<lambda>(y, x) w'. y = Inr () \<and>
    (\<exists>t. recorded js hm call g cm (case usage of None \<Rightarrow> zero_usage | Some u \<Rightarrow> u) mode x t (committed w) (committed w')))
    (\<lambda>_ _. False) w"
  using wp_conj [OF completeCall_succeeds [OF assms] completeCall_wp] by (rule wp_mono) (use assms(2) in auto)

end
