(* ===== verification/Idempotent.thy ===== *)
theory Idempotent
  imports Tables
begin

section \<open>Creation under an identifier chosen by the client\<close>

text \<open>
  Top-ups, subscriptions, keys and most resources of the two administration APIs are created
  under an identifier that the client chose, so that it can repeat a request whose answer it
  has lost: the first request creates the row and answers 201, a repetition with the same
  content answers 200, one with other content 409. The locale \<open>idempotent_create\<close> is this
  contract between a handler and its clients; what follows from it is proved here once.
\<close>

definition healthy :: "'db world \<Rightarrow> bool" where
  "healthy w \<longleftrightarrow> (\<forall>n. \<not> fault w n)"

text \<open>An attempt: the request, and which of its statements the server fails.\<close>

type_synonym 'b attempt = "'b \<times> (nat \<Rightarrow> bool)"

definition attemptWorld :: "(nat \<Rightarrow> bool) \<Rightarrow> 'db world \<Rightarrow> 'db world" where
  "attemptWorld flt w = w\<lparr>fault := flt, fault_n := 0\<rparr>"

fun attempts ::
  "('b \<Rightarrow> ('db world, response) act) \<Rightarrow> 'b attempt list \<Rightarrow> 'db world \<Rightarrow> ('b \<times> response) list \<times> 'db world" where
  "attempts h [] w = ([], w)"
| "attempts h ((b, flt) # xs) w =
     (case respond (h b) (attemptWorld flt w) of
        (r, w') \<Rightarrow> (case attempts h xs w' of (rs, w'') \<Rightarrow> ((b, r) # rs, w'')))"

definition createdWith :: "('b \<Rightarrow> 'k) \<Rightarrow> 'k \<Rightarrow> ('b \<times> response) list \<Rightarrow> ('b \<times> response) list" where
  "createdWith key k rs = filter (\<lambda>(b, r). key b = k \<and> status r = 201) rs"

lemma attemptWorld_committed [simp]: "committed (attemptWorld flt w) = committed w"
  by (simp add: attemptWorld_def)

locale idempotent_create =
  fixes handler :: "'b \<Rightarrow> ('db world, response) act"
    and key :: "'b \<Rightarrow> 'k"
    and lookup :: "'k \<Rightarrow> 'db \<Rightarrow> 'r option"
    and acceptable :: "'b \<Rightarrow> bool"
    and same :: "'b \<Rightarrow> 'r \<Rightarrow> bool"
  assumes created: "respond (handler b) w = (r, w') \<Longrightarrow> status r = 201 \<Longrightarrow>
      acceptable b \<and> lookup (key b) (committed w) = None \<and>
      (\<exists>x. lookup (key b) (committed w') = Some x \<and> same b x)"
    and kept: "respond (handler b) w = (r, w') \<Longrightarrow> lookup k (committed w) = Some x \<Longrightarrow>
      lookup k (committed w') = Some x"
    and repeated: "acceptable b \<Longrightarrow> healthy w \<Longrightarrow> lookup (key b) (committed w) = Some x \<Longrightarrow>
      status (fst (respond (handler b) w)) = (if same b x then 200 else 409) \<and>
      committed (snd (respond (handler b) w)) = committed w"
begin

text \<open>A repetition of a request that was answered with 201, on a server that does not fail.\<close>

lemma retry:
  assumes "respond (handler b) w = (r, w')" and "status r = 201"
    and "committed v = committed w'" and "healthy v"
  shows "status (fst (respond (handler b) v)) = 200 \<and> committed (snd (respond (handler b) v)) = committed v"
proof -
  from created [OF assms(1,2)] obtain x where x: "acceptable b" "lookup (key b) (committed w') = Some x" "same b x"
    by blast
  then show ?thesis using repeated [of b v x] assms(3,4) by simp
qed

text \<open>Other content under a taken identifier.\<close>

lemma conflict:
  assumes "acceptable b" and "healthy w" and "lookup (key b) (committed w) = Some x" and "\<not> same b x"
  shows "status (fst (respond (handler b) w)) = 409 \<and> committed (snd (respond (handler b) w)) = committed w"
  using repeated [OF assms(1-3)] assms(4) by simp

lemma taken_not_created:
  assumes "lookup (key b) (committed w) = Some x"
  shows "status (fst (respond (handler b) w)) \<noteq> 201"
  using created [of b w "fst (respond (handler b) w)" "snd (respond (handler b) w)"] assms by auto

lemma attempts_taken:
  assumes "lookup k (committed w) = Some x"
  shows "createdWith key k (fst (attempts handler xs w)) = []"
  using assms
proof (induction xs arbitrary: w)
  case (Cons a xs)
  obtain b flt where a: "a = (b, flt)" by (cases a)
  obtain r w' where r: "respond (handler b) (attemptWorld flt w) = (r, w')" by fastforce
  have "lookup k (committed w') = Some x" using kept [OF r] Cons.prems by simp
  then have "createdWith key k (fst (attempts handler xs w')) = []" by (rule Cons.IH)
  moreover have "\<not> (key b = k \<and> status r = 201)"
    using taken_not_created [of b "attemptWorld flt w" x] Cons.prems r by auto
  ultimately show ?case by (auto simp: a r createdWith_def split: prod.split)
qed (simp add: createdWith_def)

text \<open>
  However often the requests are repeated, in whatever order, and whatever the server fails,
  an identifier is created at most once.
\<close>

lemma created_once: "length (createdWith key k (fst (attempts handler xs w))) \<le> 1"
proof (induction xs arbitrary: w)
  case (Cons a xs)
  obtain b flt where a: "a = (b, flt)" by (cases a)
  obtain r w' where r: "respond (handler b) (attemptWorld flt w) = (r, w')" by fastforce
  show ?case
  proof (cases "key b = k \<and> status r = 201")
    case True
    with created [OF r] obtain x where "lookup k (committed w') = Some x" by auto
    from attempts_taken [OF this, of xs] True show ?thesis
      by (auto simp: a r createdWith_def split: prod.split)
  next
    case False
    with Cons.IH [of w'] show ?thesis by (auto simp: a r createdWith_def split: prod.split)
  qed
qed (simp add: createdWith_def)

end

end
