(* ===== verification/PayTopup.thy ===== *)
theory PayTopup
  imports PayCharge Idempotent
begin

section \<open>Top-ups\<close>

text \<open>
  \<open>accountTopups\<close> of \<open>internal/gizpay/handler.go\<close>. A top-up credits the account from the
  clearing ledger account in one transaction, under the client's identifier and the
  provider's reference. The handler is an instance of \<open>idempotent_create\<close>.
\<close>

record topup_request =
  tr_id :: string
  tr_channel :: string
  tr_reference :: string
  tr_amount :: int

definition topupJSON :: "topup \<Rightarrow> json" where
  "topupJSON t = JObj
     [(''id'', JStr (t_id t)), (''account_id'', JStr (t_account t)), (''channel'', JStr (t_channel t)),
      (''external_reference'', JStr (t_reference t)), (''amount_microcredits'', JInt (t_amount t)),
      (''status'', JStr (t_status t)), (''ledger_transaction_id'', JStr (t_txn t)),
      (''created_at'', JTime (t_created_at t)), (''credited_at'', JTime (t_credited_at t))]"

definition listTopups :: "string \<Rightarrow> (pay_world, response) act" where
  "listTopups accountID =
     bnd (orReply (db_exec (reading (\<lambda>d. orderBy t_created_at t_id
        (filter (\<lambda>t. t_account t = accountID) (topups d))))) internal) (\<lambda>rows.
     ret (writeJSON 200 (JObj [(''data'', JArr (map topupJSON rows))])))"

definition topupAcceptable :: "topup_request \<Rightarrow> bool" where
  "topupAcceptable b \<longleftrightarrow> nonBlank (tr_id b) \<and> tr_channel b = ''fake'' \<and> nonBlank (tr_reference b) \<and> 0 < tr_amount b"

definition sameTopup :: "string \<Rightarrow> topup_request \<Rightarrow> topup \<Rightarrow> bool" where
  "sameTopup accountID b t \<longleftrightarrow> t_account t = accountID \<and> t_channel t = tr_channel b \<and>
     t_reference t = tr_reference b \<and> t_amount t = tr_amount b"

text \<open>What both lookups of the identifier do with their result.\<close>

definition replayTopup ::
  "string \<Rightarrow> topup_request \<Rightarrow> sqlerr + topup \<Rightarrow> (pay_world, response) act \<Rightarrow> (pay_world, response) act" where
  "replayTopup accountID b x continue =
     (case x of
        Inr t \<Rightarrow>
          if \<not> sameTopup accountID b t
          then reply (errorJSON 409 ''resource_id_conflict'' ''Top-up ID already exists with different content'')
          else reply (writeJSON 200 (topupJSON t))
      | Inl e \<Rightarrow> if e \<noteq> NoRows then reply internal else continue)"

text \<open>The credit ledger account of an account and its owner: one \<open>JOIN\<close>.\<close>

definition topupTarget :: "string \<Rightarrow> pay_db \<Rightarrow> (string \<times> string \<times> string) option" where
  "topupTarget accountID d =
     (case creditLedger accountID d of
        None \<Rightarrow> None
      | Some l \<Rightarrow> map_option (\<lambda>u. (la_id l, u_issuer u, u_subject u)) (accountOwner accountID d))"

definition topupInsertError :: "sqlerr \<Rightarrow> response" where
  "topupInsertError e =
     (case e of
        UniqueViolation c \<Rightarrow>
          errorJSON 409 ''duplicate_external_reference'' ''Top-up external reference already exists''
      | _ \<Rightarrow> internal)"

definition topupTransaction :: "string \<Rightarrow> topup_request \<Rightarrow> (pay_world, response) act" where
  "topupTransaction accountID b =
     bnd (orReply (tx_exec advisoryLock) internal) (\<lambda>_.
     bnd (orReply (tx_exec advisoryLock) internal) (\<lambda>_.
     bnd (tx_exec (readRow (topupById (tr_id b)))) (\<lambda>x. replayTopup accountID b x (
     bnd (orReply (tx_exec (reading (\<lambda>d. list_ex (\<lambda>t. t_channel t = tr_channel b \<and>
        t_reference t = tr_reference b) (topups d)))) internal) (\<lambda>taken.
     bnd (require (\<not> taken)
       (errorJSON 409 ''duplicate_external_reference'' ''Top-up external reference already exists'')) (\<lambda>_.
     bnd (orReply (tx_exec (readRow (topupTarget accountID))) notFound) (\<lambda>(ledgerID, issuer, subject).
     bnd newUUID (\<lambda>u. bnd (gets now) (\<lambda>at.
     let transactionID = ''txn_'' @ u;
         row = \<lparr> t_id = tr_id b, t_account = accountID, t_channel = tr_channel b,
           t_reference = tr_reference b, t_amount = tr_amount b, t_status = ''succeeded'',
           t_txn = transactionID, t_created_at = at, t_credited_at = at \<rparr>
     in
     bnd (orReply (tx_exec (insertLedgerTransaction \<lparr> lt_id = transactionID, lt_type = ''topup'',
        lt_status = ''pending'', lt_created_at = at \<rparr>)) internal) (\<lambda>_.
     bnd (orReply (insertEntry transactionID ''led_clearing'' Debit (tr_amount b)) internal) (\<lambda>_.
     bnd (orReply (insertEntry transactionID ledgerID Credit (tr_amount b)) internal) (\<lambda>_.
     bnd (orReply (tx_exec (postTransaction transactionID)) internal) (\<lambda>_.
     bnd (orReplyWith (tx_exec (insertTopup row)) topupInsertError) (\<lambda>_.
     bnd (orReply (tx_exec (addSyncBalance (tr_amount b) accountID)) internal) (\<lambda>_.
     bnd (orReply (tx_exec (insertSyncTransaction \<lparr> st_id = transactionID, st_account = accountID,
        st_issuer = issuer, st_subject = subject, st_type = ''topup'', st_amount = tr_amount b,
        st_created_at = at \<rparr>)) internal) (\<lambda>_.
     bnd (orReply (commit_tx ledgerTransactionsBalanced) internal) (\<lambda>_.
     ret (writeJSON 201 (topupJSON row)))))))))))))))))))"

definition createTopup :: "string \<Rightarrow> topup_request option \<Rightarrow> (pay_world, response) act" where
  "createTopup accountID body =
     (case body of
        None \<Rightarrow> reply invalid
      | Some b \<Rightarrow>
          bnd (require (topupAcceptable b) invalid) (\<lambda>_.
          bnd (db_exec (readRow (topupById (tr_id b)))) (\<lambda>x. replayTopup accountID b x (
          bnd (orReply begin_tx internal) (\<lambda>_.
          finish_tx (topupTransaction accountID b))))))"

definition accountTopups ::
  "httpMethod \<Rightarrow> string \<Rightarrow> topup_request option \<Rightarrow> (pay_world, response) act" where
  "accountTopups method accountID body =
     (if method = GET then listTopups accountID
      else if method \<noteq> POST then reply notFound
      else createTopup accountID body)"

subsection \<open>What a top-up does\<close>

lemma tx_local_replayTopup [tx_localI]: "tx_local k \<Longrightarrow> tx_local (replayTopup a b x k)"
  unfolding replayTopup_def by (intro tx_localI)

lemma reply_safe_replayTopup [reply_safeI]: "reply_safe k \<Longrightarrow> reply_safe (replayTopup a b x k)"
  unfolding replayTopup_def by (intro reply_safeI)

lemma returns_replayTopup [returnsI]: "returns P k \<Longrightarrow> returns P (replayTopup a b x k)"
  unfolding replayTopup_def by (intro returnsI)

lemma replies_replayTopup [repliesI]:
  "replies (\<lambda>r. status r \<noteq> 201) k \<Longrightarrow> replies (\<lambda>r. status r \<noteq> 201) (replayTopup a b x k)"
  unfolding replayTopup_def by (intro repliesI) simp_all

lemma wlp_replayTopup:
  assumes "x = Inl NoRows \<Longrightarrow> wlp k Q c k'"
  shows "wlp (replayTopup a b x k) Q c k'"
  unfolding replayTopup_def using assms by (intro wlpI) auto

lemma reply_safe_createTopup: "reply_safe (createTopup a body)"
  unfolding createTopup_def topupTransaction_def Let_def
  by (intro reply_safeI tx_localI)

lemma returns_createTopup: "returns (\<lambda>r. status r = 201) (createTopup a body)"
  unfolding createTopup_def topupTransaction_def Let_def by (intro returnsI) simp

lemma replies_createTopup: "replies (\<lambda>r. status r \<noteq> 201) (createTopup a body)"
  unfolding createTopup_def topupTransaction_def Let_def
  by (intro repliesI) (simp_all add: topupInsertError_def split: sqlerr.split)

lemma insertTopup_Inr:
  "insertTopup r d = Inr (u, d') \<Longrightarrow>
     t_id r \<notin> t_id ` set (topups d) \<and>
     (\<forall>x \<in> set (topups d). \<not> (t_channel x = t_channel r \<and> t_reference x = t_reference r)) \<and>
     d' = d\<lparr>topups := topups d @ [r]\<rparr>"
  by (auto simp: insertTopup_def insertRow_Inr split: sum.splits)

text \<open>\<open>toppedUp a b d d' r\<close>: the request \<open>b\<close> has credited the account \<open>a\<close>, with the response \<open>r\<close>.\<close>

definition toppedUp :: "string \<Rightarrow> topup_request \<Rightarrow> pay_db \<Rightarrow> pay_db \<Rightarrow> response \<Rightarrow> bool" where
  "toppedUp a b d d' r \<longleftrightarrow>
     topupAcceptable b \<and> topupById (tr_id b) d = None \<and>
     (\<exists>row. topups d' = topups d @ [row] \<and> t_id row = tr_id b \<and> sameTopup a b row \<and>
        t_status row = ''succeeded'' \<and>
        (\<forall>x \<in> set (topups d). \<not> (t_channel x = tr_channel b \<and> t_reference x = tr_reference b)) \<and>
        payable d a \<and>
        posts (t_txn row) [(''led_clearing'', - tr_amount b), (creditId d a, tr_amount b)] d d' \<and>
        sync_balances d' = shiftBalances (amountFor a (tr_amount b)) (sync_balances d) \<and>
        r = writeJSON 201 (topupJSON row))"

lemma topup_steps:
  assumes "insertLedgerTransaction \<lparr> lt_id = t, lt_type = ty, lt_status = ''pending'', lt_created_at = at \<rparr> d = Inr (u1, d1)"
    and "ledgerStep t ps d1 d2" and "ledgerStep t qs d2 d3"
    and "postTransaction t d3 = Inr (u4, d4)" and "insertTopup row d4 = Inr (u5, d5)"
    and "addSyncBalance x a d5 = Inr (u6, d6)" and "insertSyncTransaction r7 d6 = Inr (u7, d7)"
  shows "posts t (ps @ qs) d d7" and "topups d7 = topups d @ [row]"
    and "t_id row \<notin> t_id ` set (topups d)"
    and "\<forall>x \<in> set (topups d). \<not> (t_channel x = t_channel row \<and> t_reference x = t_reference row)"
    and "sync_balances d7 = shiftBalances (amountFor a x) (sync_balances d)"
proof -
  from assms(1) have t: "t \<notin> lt_id ` set (ledger_transactions d)"
    and d1: "d1 = d\<lparr>ledger_transactions := ledger_transactions d @
      [\<lparr> lt_id = t, lt_type = ty, lt_status = ''pending'', lt_created_at = at \<rparr>]\<rparr>"
    by (auto dest!: insertLedgerTransaction_Inr)
  from ledgerStep_trans [OF assms(2,3)] obtain es where
    d3: "d3 = d1\<lparr>ledger_entries := ledger_entries d @ es\<rparr>"
    and es: "map entryPosting es = ps @ qs"
      "\<forall>e \<in> set es. le_txn e = t \<and> le_account e \<in> la_id ` set (ledger_accounts d)"
    by (auto simp: ledgerStep_def d1)
  have d4: "d4 = d3\<lparr>ledger_transactions := ledger_transactions d @
      [\<lparr> lt_id = t, lt_type = ty, lt_status = ''posted'', lt_created_at = at \<rparr>]\<rparr>"
    using assms(4)
    by (auto simp: postTransaction_def d1 d3 postTransaction_fresh [OF t] simp del: updateRows_append)
  from assms(5) have d5: "d5 = d4\<lparr>topups := topups d @ [row]\<rparr>"
    and fresh: "t_id row \<notin> t_id ` set (topups d)"
      "\<forall>x \<in> set (topups d). \<not> (t_channel x = t_channel row \<and> t_reference x = t_reference row)"
    by (auto dest!: insertTopup_Inr simp: d1 d3 d4)
  have d7: "d7 = d5\<lparr>sync_balances := shiftBalances (amountFor a x) (sync_balances d),
      sync_transactions := sync_transactions d @ [r7]\<rparr>"
    using assms(6,7) by (auto dest!: addSyncBalance_Inr insertSyncTransaction_Inr simp: d1 d3 d4 d5)
  show "posts t (ps @ qs) d d7" unfolding posts_def using t es by (simp add: d1 d3 d4 d5 d7)
  show "topups d7 = topups d @ [row]" "sync_balances d7 = shiftBalances (amountFor a x) (sync_balances d)"
    by (simp_all add: d1 d3 d4 d5 d7)
qed (use assms in \<open>auto dest!: insertTopup_Inr insertLedgerTransaction_Inr simp: ledgerStep_def postTransaction_def\<close>)

lemma topupTarget_SomeD:
  "topupTarget a d = Some (l, i, s) \<Longrightarrow> payable d a \<and> l = creditId d a"
  by (auto simp: topupTarget_def payable_def creditId_def split: option.splits)

lemma toppedUp_final:
  assumes acc: "topupAcceptable b"
    and locks: "advisoryLock d = Inr (u1, e1)" "advisoryLock e1 = Inr (u2, e2)"
    and none: "readRow (topupById (tr_id b)) e2 = Inl NoRows"
    and tgt: "reading chk e2 = Inr (v, e3)" "readRow (topupTarget a) e3 = Inr (x, e4)" "x = (l, y)" "y = (iss, subj)"
    and s1: "insertLedgerTransaction \<lparr> lt_id = t, lt_type = ty, lt_status = ''pending'', lt_created_at = at \<rparr> e4 = Inr (u3, d1)"
    and s2: "ledgerStep t (posting ''led_clearing'' (signed Debit (tr_amount b))) d1 d2"
    and s3: "ledgerStep t (posting l (signed Credit (tr_amount b))) d2 d3"
    and s4: "postTransaction t d3 = Inr (u4, d4)"
    and row: "row = \<lparr> t_id = tr_id b, t_account = a, t_channel = tr_channel b, t_reference = tr_reference b,
      t_amount = tr_amount b, t_status = ''succeeded'', t_txn = t, t_created_at = at, t_credited_at = at \<rparr>"
    and s5: "insertTopup row d4 = Inr (u5, d5)"
    and s6: "addSyncBalance (tr_amount b) a d5 = Inr (u6, d6)"
    and s7: "insertSyncTransaction r7 d6 = Inr (u7, d7)"
  shows "toppedUp a b d d7 (writeJSON 201 (topupJSON row))"
proof -
  have e: "e4 = d" and t0: "topupTarget a d = Some (l, iss, subj)" and n0: "topupById (tr_id b) d = None"
    using locks tgt none
    by (auto simp: advisoryLock_def reading_Inr readRow_Inr) (simp add: readRow_def split: option.splits)
  note tgt' = topupTarget_SomeD [OF t0]
  have pos: "0 < tr_amount b" using acc by (simp add: topupAcceptable_def)
  note st = topup_steps [OF s1 [unfolded e] s2 s3 s4 s5 s6 s7]
  have "posts t [(''led_clearing'', - tr_amount b), (creditId d a, tr_amount b)] d d7"
    using st(1) pos tgt' by (simp add: posting_def signed_def)
  with st(2-5) acc n0 tgt' show ?thesis
    unfolding toppedUp_def by (intro conjI exI [of _ row]) (simp_all add: row sameTopup_def)
qed

lemma wlp_topupTransaction:
  assumes "topupAcceptable b"
  shows "wlp (topupTransaction a b) (\<lambda>r c' k'. toppedUp a b d c' r) c (Some d)"
  unfolding topupTransaction_def Let_def
proof (intro wlp_bnd wlp_orReply wlp_tx_exec_ok, rule wlp_tx_exec; intro wlp_replayTopup wlpI; (simp; fail)?, goal_cases)
  case 1
  show ?case by (rule toppedUp_final [OF assms]) (rule 1 refl)+
qed

lemma wlp_createTopup: "wlp (createTopup a (Some b)) (\<lambda>r c' k. toppedUp a b c c' r) c k"
  unfolding createTopup_def option.case
  by (intro wlp_bnd wlp_require wlp_db_exec wlp_replayTopup wlp_topupTransaction wlpI; simp?)

lemma toppedUp_payInv:
  assumes "toppedUp a b d d' r" and "payInv d"
  shows "payInv d'" and "ledgerBalance d' x = ledgerBalance d x + amountFor a (tr_amount b) x"
proof -
  let ?ps = "\<lambda>t. [(''led_clearing'', - tr_amount b)] @ [(creditId d a, tr_amount b)]"
  from assms(1) obtain t where t: "posts t (?ps t) d d'"
    and a: "payable d a" and sy: "sync_balances d' = shiftBalances (amountFor a (tr_amount b)) (sync_balances d)"
    and pos: "0 < tr_amount b"
    by (auto simp: toppedUp_def topupAcceptable_def)
  from assms(2) have inv: "distinct (map la_id (ledger_accounts d))"
    "\<forall>l \<in> set (ledger_accounts d). la_id l = ''led_clearing'' \<longrightarrow> la_owner l = None"
    by (auto simp: payInv_def)
  have "balanceDelta d [(creditId d a, tr_amount b)] x = amountFor a (tr_amount b) x" for x
    using balanceDelta_credit [OF inv(1) a, of "tr_amount b" x] pos by (simp add: posting_def)
  then have delta: "balanceDelta d (?ps t) = amountFor a (tr_amount b)"
    by (intro ext, subst balanceDelta_append) (simp add: balanceDelta_clearing [OF inv(2)])
  show "payInv d'" by (rule posts_payInv [OF t assms(2)]) (simp, simp only: sy delta)
  show "ledgerBalance d' x = ledgerBalance d x + amountFor a (tr_amount b) x"
    using posts_balance [OF t assms(2)] delta by simp
qed

subsection \<open>Repetition\<close>

text \<open>The handler for one account, as an instance of \<open>idempotent_create\<close>.\<close>

definition topupOf :: "string \<times> topup_request \<Rightarrow> (pay_world, response) act" where
  "topupOf x = (case x of (a, b) \<Rightarrow> createTopup a (Some b))"

interpretation topup_table: keyed_insert topups t_id insertTopup
proof
  show "insertTopup r d = Inr (a, d') \<Longrightarrow> topups d' = topups d @ [r]" for r d a d'
    by (auto dest!: insertTopup_Inr)
  show "insertTopup r d = Inr (a, d') \<Longrightarrow> t_id r \<notin> t_id ` set (topups d)" for r d a d'
    by (auto dest!: insertTopup_Inr)
qed

lemma createTopup_201:
  assumes "respond (createTopup a (Some b)) w = (r, w')" and "status r = 201"
  shows "toppedUp a b (committed w) (committed w') r"
  by (rule respond_wlp [OF assms(1) replies_createTopup _ wlp_createTopup]) (use assms(2) in simp)

lemma createTopup_not_201:
  "status (fst (respond (createTopup a body) w)) = 201 \<or>
   committed (snd (respond (createTopup a body) w)) = committed w"
  by (rule respond_atomic [OF reply_safe_createTopup returns_createTopup])

lemma toppedUp_lookup:
  assumes "toppedUp a b d d' r"
  shows "topupById (tr_id b) d = None" and "\<exists>x. topupById (tr_id b) d' = Some x \<and> sameTopup a b x"
    and "topupById k d = Some x \<Longrightarrow> topupById k d' = Some x"
  using assms by (auto simp: toppedUp_def topupById_def find_append split: option.splits)

interpretation topup_create: idempotent_create topupOf "\<lambda>(a, b). tr_id b" topupById
  "\<lambda>(a, b). topupAcceptable b" "\<lambda>(a, b). sameTopup a b"
proof
  fix x :: "string \<times> topup_request" and w w' :: pay_world and r k t
  obtain a b where x: "x = (a, b)" by (cases x)
  show "(case x of (a, b) \<Rightarrow> topupAcceptable b) \<and>
      topupById (case x of (a, b) \<Rightarrow> tr_id b) (committed w) = None \<and>
      (\<exists>y. topupById (case x of (a, b) \<Rightarrow> tr_id b) (committed w') = Some y \<and> (case x of (a, b) \<Rightarrow> sameTopup a b) y)"
    if "respond (topupOf x) w = (r, w')" "status r = 201"
  proof -
    have t: "toppedUp a b (committed w) (committed w') r"
      using that by (intro createTopup_201) (simp_all add: topupOf_def x)
    then show ?thesis using toppedUp_lookup [OF t] by (simp add: x toppedUp_def)
  qed
  show "topupById k (committed w') = Some t"
    if "respond (topupOf x) w = (r, w')" "topupById k (committed w) = Some t"
    using createTopup_201 [of a b w r w'] createTopup_not_201 [of a "Some b" w] that
    by (cases "status r = 201") (auto simp: topupOf_def x dest: toppedUp_lookup(3))
  show "status (fst (respond (topupOf x) w)) = (if (case x of (a, b) \<Rightarrow> sameTopup a b) t then 200 else 409) \<and>
      committed (snd (respond (topupOf x) w)) = committed w"
    if "case x of (a, b) \<Rightarrow> topupAcceptable b" "healthy w" "topupById (case x of (a, b) \<Rightarrow> tr_id b) (committed w) = Some t"
    using that
    by (simp add: topupOf_def x createTopup_def run_simps healthy_def replayTopup_def)
qed

subsection \<open>Properties\<close>

text \<open>C7: A top-up answered with 201 has credited its account, and only that account, with exactly
  its amount: from the clearing ledger account, in one balanced transaction, under an identifier
  and a provider reference that were both unused; the projected balances follow and the ledger
  invariant is kept.\<close>

theorem accountTopups_credits:
  assumes "respond (accountTopups POST a (Some b)) w = (r, w')" and "status r = 201"
    and "payInv (committed w)"
  shows "toppedUp a b (committed w) (committed w') r \<and> payInv (committed w') \<and>
    ledgerBalance (committed w') = (\<lambda>x. ledgerBalance (committed w) x + amountFor a (tr_amount b) x)"
proof -
  have t: "toppedUp a b (committed w) (committed w') r"
    using assms(1,2) by (intro createTopup_201) (simp_all add: accountTopups_def)
  show ?thesis using t toppedUp_payInv [OF t assms(3)] by auto
qed

definition demo_topup :: topup_request where
  "demo_topup = \<lparr> tr_id = ''t1'', tr_channel = ''fake'', tr_reference = ''ref'', tr_amount = 500 \<rparr>"

lemma demo_topup_acceptable: "topupAcceptable demo_topup"
  by (simp add: topupAcceptable_def demo_topup_def blank_eval)

lemma demo_topup_created:
  "status (fst (respond (createTopup ''a1'' (Some demo_topup)) (demo_world demo_pay))) = 201"
  by (simp add: createTopup_def demo_topup_acceptable,
      simp add: demo_topup_def topupTransaction_def run_simps demo_world_def demo_pay_sel replayTopup_def
        Let_def topupTarget_def advisoryLock_def int64_defs sqlText_def pay_eval)

theorem accountTopups_credits_witness:
  "ledgerBalance (committed (snd (respond (accountTopups POST ''a1'' (Some demo_topup)) (demo_world demo_pay)))) ''a1'' = 500"
proof -
  let ?x = "respond (accountTopups POST ''a1'' (Some demo_topup)) (demo_world demo_pay)"
  have "ledgerBalance (committed (snd ?x)) =
      (\<lambda>x. ledgerBalance demo_pay x + amountFor ''a1'' (tr_amount demo_topup) x)"
    using accountTopups_credits [of "''a1''" demo_topup "demo_world demo_pay" "fst ?x" "snd ?x"]
      demo_topup_created payInv_demo
    by (simp add: accountTopups_def demo_world_def)
  then show ?thesis by (simp add: amountFor_def demo_topup_def ledgerBalance_def demo_pay_sel)
qed

text \<open>However often and in whatever order top-ups are attempted, for any accounts and with any
  failures of the server in between, an identifier is credited at most once.\<close>

lemma topup_created_once:
  "length (createdWith (\<lambda>(a, b). tr_id b) k (fst (attempts topupOf xs w))) \<le> 1"
  by (rule topup_create.created_once)

text \<open>A client that has lost the answer of a successful top-up can repeat the request: it is
  answered with 200 and nothing is credited again.\<close>

lemma topup_retry:
  assumes "respond (createTopup a (Some b)) w = (r, w')" and "status r = 201"
    and "committed v = committed w'" and "healthy v"
  shows "status (fst (respond (createTopup a (Some b)) v)) = 200 \<and>
    committed (snd (respond (createTopup a (Some b)) v)) = committed v"
  using topup_create.retry [of "(a, b)" w r w' v] assms by (simp add: topupOf_def)

lemma topup_retry_witness:
  "status (fst (respond (createTopup ''a1'' (Some demo_topup))
     (demo_world (committed (snd (respond (createTopup ''a1'' (Some demo_topup)) (demo_world demo_pay))))))) = 200"
proof -
  let ?x = "respond (createTopup ''a1'' (Some demo_topup)) (demo_world demo_pay)"
  have "healthy (demo_world d)" for d :: pay_db by (simp add: healthy_def demo_world_def)
  then show ?thesis
    using topup_retry [of "''a1''" demo_topup "demo_world demo_pay" "fst ?x" "snd ?x"
        "demo_world (committed (snd ?x))"] demo_topup_created
    by (simp add: demo_world_def)
qed

end
