(* ===== verification/PayIdentity.thy ===== *)
theory PayIdentity
  imports PayTopup
begin

section \<open>Human identities\<close>

text \<open>
  The ZITADEL Action webhook of \<open>internal/gizpay/handler.go\<close>: \<open>validateActionSignature\<close>,
  \<open>zitadelUserAuthenticated\<close> and \<open>initializeIdentity\<close>, which creates the user, account,
  credit ledger account, default merchant and client projections of a human that has logged in.
  HMAC-SHA-256 (\<open>mac key message\<close>) and \<open>uuid.Parse\<close> followed by \<open>String\<close> (\<open>canonUUID\<close>) are
  parameters.
\<close>

subsection \<open>Statements\<close>

text \<open>\<open>INSERT ... ON CONFLICT(target) DO NOTHING\<close>: a row that equals \<open>r\<close> on the target is kept.\<close>

definition insertRowOnce ::
  "bool \<Rightarrow> bool \<Rightarrow> ('r \<Rightarrow> 'r \<Rightarrow> bool) \<Rightarrow> 'r uniq list \<Rightarrow> 'r \<Rightarrow> 'r list \<Rightarrow> sqlerr + 'r list" where
  "insertRowOnce chk fk target uniqs r t =
     (if \<not> chk then Inl CheckViolation
      else if list_ex (target r) t then Inr t
      else insertRow chk fk uniqs r t)"

definition upsertUser :: "user \<Rightarrow> (pay_db, unit) query" where
  "upsertUser r d =
     (if list_ex (\<lambda>u. u_issuer u = u_issuer r \<and> u_subject u = u_subject r) (users d)
      then if sqlText (u_display_name r)
           then Inr ((), d\<lparr>users := updateRows (\<lambda>u. u_issuer u = u_issuer r \<and> u_subject u = u_subject r)
                  (\<lambda>u. u\<lparr>u_email := u_email r, u_display_name := u_display_name r\<rparr>) (users d)\<rparr>)
           else Inl CheckViolation
      else insertUser r d)"

definition insertAccountOnce :: "account \<Rightarrow> (pay_db, unit) query" where
  "insertAccountOnce r d =
     (if list_ex (\<lambda>a. a_owner a = a_owner r) (accounts d) then Inr ((), d) else insertAccount r d)"

definition insertLedgerAccountOnce :: "ledger_account \<Rightarrow> (pay_db, unit) query" where
  "insertLedgerAccountOnce r d =
     (if list_ex (\<lambda>l. la_owner l = la_owner r \<and> la_owner r \<noteq> None \<and> la_asset l = la_asset r) (ledger_accounts d)
      then Inr ((), d) else insertLedgerAccount r d)"

definition upsertProfile :: "sync_profile \<Rightarrow> (pay_db, unit) query" where
  "upsertProfile r d =
     (if list_ex (\<lambda>p. sy_id p = sy_id r) (sync_profiles d)
      then Inr ((), d\<lparr>sync_profiles := updateRows (\<lambda>p. sy_id p = sy_id r)
             (\<lambda>p. p\<lparr>sy_email := sy_email r, sy_display_name := sy_display_name r,
                   sy_merchant := sy_merchant r, sy_status := sy_status r\<rparr>) (sync_profiles d)\<rparr>)
      else if list_ex (\<lambda>p. sy_issuer p = sy_issuer r \<and> sy_subject p = sy_subject r) (sync_profiles d)
      then Inl (UniqueViolation ''user_profiles_owner_identity_key'')
      else Inr ((), d\<lparr>sync_profiles := sync_profiles d @ [r]\<rparr>))"

definition insertBalanceOnce :: "sync_balance \<Rightarrow> (pay_db, unit) query" where
  "insertBalanceOnce r d =
     (if list_ex (\<lambda>b. sb_account b = sb_account r) (sync_balances d) then Inr ((), d)
      else Inr ((), d\<lparr>sync_balances := sync_balances d @ [r]\<rparr>))"

text \<open>The default merchant of an identity, and of an account.\<close>

definition defaultMerchantOf :: "string \<Rightarrow> string \<Rightarrow> pay_db \<Rightarrow> string option" where
  "defaultMerchantOf issuer subject d =
     map_option m_id (find (\<lambda>m. m_is_default m \<and>
       (case accountOwner (m_settlement m) d of
          None \<Rightarrow> False | Some u \<Rightarrow> u_issuer u = issuer \<and> u_subject u = subject)) (merchants d))"

definition defaultMerchantOfAccount :: "string \<Rightarrow> pay_db \<Rightarrow> string option" where
  "defaultMerchantOfAccount acct d =
     map_option m_id (find (\<lambda>m. m_settlement m = acct \<and> m_is_default m) (merchants d))"

subsection \<open>\<open>initializeIdentity\<close>\<close>

text \<open>
  The errors of \<open>initializeIdentity\<close> are the responses its only caller writes for them:
  \<open>identityConflict\<close> for \<open>errIdentityInitializationConflict\<close>, \<open>internal\<close> for any other.
\<close>

definition identityConflict :: response where
  "identityConflict = errorJSON 409 ''identity_initialization_conflict''
     ''requested Merchant conflicts with existing identity initialization''"

definition checkExistingMerchant :: "string \<Rightarrow> sqlerr + string \<Rightarrow> (pay_world, string) act" where
  "checkExistingMerchant requested x =
     (case x of
        Inr existing \<Rightarrow>
          if requested \<noteq> [] \<and> existing \<noteq> requested then reply identityConflict else ret existing
      | Inl e \<Rightarrow> if e \<noteq> NoRows then reply internal else ret [])"

definition checkRequestedMerchant :: "string \<Rightarrow> string \<Rightarrow> (pay_world, unit) act" where
  "checkRequestedMerchant requested existing =
     (if requested \<noteq> [] \<and> existing = []
      then bnd (tx_exec (readRow (\<lambda>d. map_option m_settlement (merchantById requested d)))) (\<lambda>x.
           case x of
             Inr s \<Rightarrow> reply identityConflict
           | Inl e \<Rightarrow> if e \<noteq> NoRows then reply internal else ret ())
      else ret ())"

definition initializeTransaction ::
  "string \<Rightarrow> string \<Rightarrow> string \<Rightarrow> string \<Rightarrow> string \<Rightarrow> (pay_world, string \<times> string \<times> string \<times> string) act" where
  "initializeTransaction issuer subject email displayName requested =
     bnd (tx_exec (readRow (defaultMerchantOf issuer subject))) (\<lambda>x.
     bnd (checkExistingMerchant requested x) (\<lambda>existing.
     bnd (checkRequestedMerchant requested existing) (\<lambda>_.
     bnd newUUID (\<lambda>u1. bnd (gets now) (\<lambda>at.
     bnd (orReply (tx_exec (upsertUser \<lparr> u_id = ''usr_'' @ u1, u_issuer = issuer, u_subject = subject,
        u_email = email, u_display_name = displayName, u_status = ''active'', u_created_at = at \<rparr>)) internal) (\<lambda>_.
     bnd (orReply (tx_exec (readRow (\<lambda>d. map_option u_id (userByIdentity issuer subject d)))) internal) (\<lambda>userID.
     bnd newUUID (\<lambda>u2.
     bnd (orReply (tx_exec (insertAccountOnce \<lparr> a_id = ''acct_'' @ u2, a_owner = userID,
        a_status = ''active'', a_created_at = at \<rparr>)) internal) (\<lambda>_.
     bnd (orReply (tx_exec (readRow (\<lambda>d. map_option a_id (accountByOwner userID d)))) internal) (\<lambda>accountID.
     bnd newUUID (\<lambda>u3.
     bnd (orReply (tx_exec (insertLedgerAccountOnce \<lparr> la_id = ''ledger_'' @ u3, la_owner = Some accountID,
        la_asset = ''credit'', la_status = ''active'' \<rparr>)) internal) (\<lambda>_.
     bnd (orReply (tx_exec (readRow (\<lambda>d. map_option la_id (creditLedger accountID d)))) internal) (\<lambda>ledgerID.
     bnd (if requested = [] then newUUID else ret requested) (\<lambda>merchant0.
     bnd (orReply (tx_exec (onConflictNothing (insertMerchant \<lparr> m_id = merchant0, m_settlement = accountID,
        m_legal_name = displayName, m_public_name = displayName, m_is_default = True,
        m_status = ''active'', m_created_at = at, m_updated_at = at \<rparr>))) internal) (\<lambda>_.
     bnd (orReplyWith (tx_exec (readRow (defaultMerchantOfAccount accountID)))
        (\<lambda>e. if e = NoRows \<and> requested \<noteq> [] then identityConflict else internal)) (\<lambda>merchantID.
     bnd (require (\<not> (requested \<noteq> [] \<and> merchantID \<noteq> requested)) identityConflict) (\<lambda>_.
     bnd (orReply (tx_exec (upsertProfile \<lparr> sy_id = userID, sy_issuer = issuer, sy_subject = subject,
        sy_email = email, sy_display_name = displayName, sy_merchant = merchantID,
        sy_status = ''active'', sy_created_at = at \<rparr>)) internal) (\<lambda>_.
     bnd (orReply (tx_exec (insertBalanceOnce \<lparr> sb_account = accountID, sb_issuer = issuer,
        sb_subject = subject, sb_balance = 0 \<rparr>)) internal) (\<lambda>_.
     bnd (orReply (commit_tx ledgerTransactionsBalanced) internal) (\<lambda>_.
     ret (userID, accountID, ledgerID, merchantID)))))))))))))))))))))"

definition initializeIdentity ::
  "string \<Rightarrow> string \<Rightarrow> string \<Rightarrow> string \<Rightarrow> string \<Rightarrow> (pay_world, string \<times> string \<times> string \<times> string) act" where
  "initializeIdentity issuer subject email displayName requested =
     (if blank issuer \<or> blank subject \<or> blank displayName then reply internal
      else bnd (orReply begin_tx internal) (\<lambda>_.
           finish_tx (initializeTransaction issuer subject email displayName requested)))"

subsection \<open>The webhook\<close>

definition signaturePart :: "string \<times> string \<Rightarrow> string \<Rightarrow> string \<times> string" where
  "signaturePart acc part =
     (case acc of (t, v1) \<Rightarrow>
        (case cutChar CHR ''='' (trimSpace part) of
           None \<Rightarrow> acc
         | Some (name, v) \<Rightarrow>
             if name = ''t'' then (v, v1) else if name = ''v1'' then (t, v) else acc))"

definition validateActionSignature ::
  "(string \<Rightarrow> string \<Rightarrow> string) \<Rightarrow> string \<Rightarrow> string \<Rightarrow> string \<Rightarrow> time \<Rightarrow> duration \<Rightarrow> bool" where
  "validateActionSignature mac body header secret t maximumAge =
     (if secret = [] \<or> maximumAge \<le> 0 then False
      else case foldl signaturePart ([], []) (splitOn CHR '','' header) of
        (timestampValue, signatureValue) \<Rightarrow>
          (case parseInt64 timestampValue of
             None \<Rightarrow> False
           | Some seconds \<Rightarrow>
               let age = timeSub t (wrap64 (seconds + unixToInternal) * second)
               in if age < - maximumAge \<or> age > maximumAge then False
                  else case hexDecode signatureValue of
                         None \<Rightarrow> False
                       | Some provided \<Rightarrow> provided = mac secret (timestampValue @ ''.'' @ body)))"

text \<open>The payload; \<open>ap_human\<close> is the presence of a \<open>human\<close> that is not \<open>null\<close>.\<close>

record action_payload =
  ap_merchant :: string
  ap_user :: string
  ap_human :: bool
  ap_email :: string
  ap_name :: string
  ap_username :: string

definition displayNameOf :: "action_payload \<Rightarrow> string" where
  "displayNameOf p =
     (if nonBlank (ap_name p) then trimSpace (ap_name p)
      else if nonBlank (ap_username p) then trimSpace (ap_username p)
      else ap_user p)"

text \<open>
  \<open>body\<close> is \<open>None\<close> when it could not be read, \<open>keyFile\<close> the content of the signing key file
  if it could be read, \<open>payload\<close> the parsed body.
\<close>

definition invalidAction :: "string \<Rightarrow> response" where
  "invalidAction message = errorJSON 400 ''invalid_request'' message"

definition zitadelUserAuthenticated ::
  "pay_config \<Rightarrow> (string \<Rightarrow> string \<Rightarrow> string) \<Rightarrow> (string \<Rightarrow> string option) \<Rightarrow>
   string option \<Rightarrow> string option \<Rightarrow> (string \<Rightarrow> string) \<Rightarrow> (string \<Rightarrow> action_payload option) \<Rightarrow>
   (pay_world, response) act" where
  "zitadelUserAuthenticated cfg mac canonUUID keyFile body header parse =
     (case body of
        None \<Rightarrow> reply (invalidAction ''invalid ZITADEL Action payload'')
      | Some b \<Rightarrow>
     bnd (require (b \<noteq> [] \<and> length b \<le> 65536) (invalidAction ''invalid ZITADEL Action payload'')) (\<lambda>_.
     let signingKey = (if action_key_file cfg \<noteq> []
                       then (case keyFile of Some k \<Rightarrow> if k \<noteq> [] then k else action_key cfg | None \<Rightarrow> action_key cfg)
                       else action_key cfg);
         maximumAge = (if action_max_age cfg \<le> 0 then 300 * second else action_max_age cfg);
         signature = (if header ''ZITADEL-Signature'' = [] then header ''X-ZITADEL-Signature''
                      else header ''ZITADEL-Signature'')
     in
     bnd (gets now) (\<lambda>t.
     bnd (require (validateActionSignature mac b signature signingKey t maximumAge)
       (errorJSON 401 ''invalid_webhook_signature'' ''invalid ZITADEL Action signature'')) (\<lambda>_.
     case parse b of
       None \<Rightarrow> reply (invalidAction ''invalid ZITADEL Action payload'')
     | Some p \<Rightarrow>
     bnd (require (nonBlank (ap_user p)) (invalidAction ''invalid ZITADEL Action payload'')) (\<lambda>_.
     bnd (require (ap_human p) (writeHeader 204)) (\<lambda>_.
     let merchantID = trimSpace (ap_merchant p) in
     bnd (require (merchantID = [] \<or> canonUUID merchantID = Some merchantID)
       (invalidAction ''merchant_id must be a canonical UUID'')) (\<lambda>_.
     bnd (initializeIdentity (zitadel_issuer cfg) (ap_user p) (trimSpace (ap_email p)) (displayNameOf p) merchantID) (\<lambda>_.
     ret (writeHeader 204)))))))))"

subsection \<open>What the statements do\<close>

text \<open>
  \<open>onboards acct d d'\<close>: accounts, credit ledger accounts and projected balances have at most
  been added for the account \<open>acct\<close>; the ledger itself is as before.
\<close>

definition onboards :: "string \<Rightarrow> pay_db \<Rightarrow> pay_db \<Rightarrow> bool" where
  "onboards acct d d' \<longleftrightarrow>
     ledger_transactions d' = ledger_transactions d \<and> ledger_entries d' = ledger_entries d \<and>
     (accounts d' = accounts d \<and> acct \<in> a_id ` set (accounts d) \<or>
      (\<exists>a. accounts d' = accounts d @ [a] \<and> a_id a = acct \<and> acct \<notin> a_id ` set (accounts d))) \<and>
     (ledger_accounts d' = ledger_accounts d \<or>
      (\<exists>l. ledger_accounts d' = ledger_accounts d @ [l] \<and> la_id l \<notin> la_id ` set (ledger_accounts d) \<and>
           la_owner l = Some acct \<and> la_id l \<noteq> ''led_clearing'')) \<and>
     (if acct \<in> sb_account ` set (sync_balances d) then sync_balances d' = sync_balances d
      else \<exists>b. sync_balances d' = sync_balances d @ [b] \<and> sb_account b = acct \<and> sb_balance b = 0)"

lemma onboards_balance:
  assumes "onboards acct d d'" and "payInv d"
  shows "ledgerBalance d' a = ledgerBalance d a"
proof -
  have "isCreditOf d' a (le_account e) = isCreditOf d a (le_account e)" if "e \<in> set (ledger_entries d)" for e
  proof -
    from that assms(2) have "le_account e \<in> la_id ` set (ledger_accounts d)" by (auto simp: payInv_def)
    with assms(1) show ?thesis by (auto simp: onboards_def isCreditOf_def)
  qed
  moreover have "isPosted d' i = isPosted d i" for i
    using assms(1) by (simp add: onboards_def isPosted_def)
  ultimately have "filter (\<lambda>e. isCreditOf d' a (le_account e) \<and> isPosted d' (le_txn e)) (ledger_entries d) =
      filter (\<lambda>e. isCreditOf d a (le_account e) \<and> isPosted d (le_txn e)) (ledger_entries d)"
    by (intro filter_cong) simp_all
  with assms(1) show ?thesis by (simp add: ledgerBalance_def onboards_def)
qed

lemma unowned_balance:
  assumes "payInv d" and "a \<notin> a_id ` set (accounts d)"
  shows "ledgerBalance d a = 0"
proof -
  have "\<not> isCreditOf d a l" for l
  proof
    assume "isCreditOf d a l"
    then obtain x where "x \<in> set (ledger_accounts d)" "la_owner x = Some a"
      by (auto simp: isCreditOf_def list_ex_iff)
    with assms show False by (auto simp: payInv_def)
  qed
  then show ?thesis by (simp add: ledgerBalance_def)
qed

lemma onboards_payInv:
  assumes on: "onboards acct d d'" and inv: "payInv d"
  shows "payInv d'"
proof -
  note inv' = inv [unfolded payInv_def]
  have same: "ledger_transactions d' = ledger_transactions d" "ledger_entries d' = ledger_entries d"
    using on by (auto simp: onboards_def)
  have accts: "a_id ` set (accounts d') = insert acct (a_id ` set (accounts d))"
    using on by (auto simp: onboards_def)
  have bals: "sb_account ` set (sync_balances d') = insert acct (sb_account ` set (sync_balances d))"
    using on by (auto simp: onboards_def split: if_splits)
  from on consider "ledger_accounts d' = ledger_accounts d"
    | l where "ledger_accounts d' = ledger_accounts d @ [l]" "la_id l \<notin> la_id ` set (ledger_accounts d)"
        "la_owner l = Some acct" "la_id l \<noteq> ''led_clearing''"
    by (auto simp: onboards_def)
  then have ledgers: "distinct (map la_id (ledger_accounts d'))"
    "la_id ` set (ledger_accounts d) \<subseteq> la_id ` set (ledger_accounts d')"
    "\<forall>l \<in> set (ledger_accounts d'). set_option (la_owner l) \<subseteq> a_id ` set (accounts d')"
    "\<forall>l \<in> set (ledger_accounts d'). la_id l = ''led_clearing'' \<longrightarrow> la_owner l = None"
    using inv' unfolding accts by (cases; auto)+
  have "\<forall>b \<in> set (sync_balances d'). sb_account b \<noteq> platformAccountID \<longrightarrow> sb_balance b = ledgerBalance d (sb_account b)"
  proof (cases "acct \<in> sb_account ` set (sync_balances d)")
    case True
    then show ?thesis using on inv' by (simp add: onboards_def)
  next
    case False
    then have "acct \<noteq> platformAccountID \<longrightarrow> ledgerBalance d acct = 0"
      using inv' by (intro impI unowned_balance [OF inv]) auto
    with False show ?thesis using on inv' by (auto simp: onboards_def)
  qed
  then have proj: "\<forall>b \<in> set (sync_balances d'). sb_account b \<noteq> platformAccountID \<longrightarrow> sb_balance b = ledgerBalance d' (sb_account b)"
    by (simp add: onboards_balance [OF on inv])
  have net: "transactionNet d' i = transactionNet d i" for i by (simp add: transactionNet_def same)
  show ?thesis
    unfolding payInv_def same net
  proof (intro conjI ledgers proj)
    show "le_account ` set (ledger_entries d) \<subseteq> la_id ` set (ledger_accounts d')"
      using inv' ledgers(2) by (elim conjE) (rule subset_trans)
    show "sb_account ` set (sync_balances d') \<subseteq> a_id ` set (accounts d')"
      unfolding accts bals using inv' by (intro insert_mono) (elim conjE)
    show "a_id ` set (accounts d') \<subseteq> insert platformAccountID (sb_account ` set (sync_balances d'))"
    proof -
      from inv' have "a_id ` set (accounts d) \<subseteq> insert platformAccountID (sb_account ` set (sync_balances d))"
        by (elim conjE)
      then show ?thesis unfolding accts bals by blast
    qed
  qed (use inv' in simp_all)
qed

text \<open>The statements of \<open>initializeTransaction\<close>, one by one.\<close>

lemma upsertUser_Inr:
  assumes "upsertUser r d = Inr (u, d')"
  shows "accounts d' = accounts d \<and> ledger_accounts d' = ledger_accounts d \<and>
    ledger_transactions d' = ledger_transactions d \<and> ledger_entries d' = ledger_entries d \<and>
    sync_balances d' = sync_balances d \<and> merchants d' = merchants d"
  using assms
  by (auto simp: upsertUser_def insertUser_def insertRow_Inr split: if_splits sum.splits)

lemma insertAccountOnce_Inr:
  assumes "insertAccountOnce r d = Inr (u, d')"
  shows "(accounts d' = accounts d \<and> (\<exists>a \<in> set (accounts d). a_owner a = a_owner r) \<or>
     accounts d' = accounts d @ [r] \<and> a_id r \<notin> a_id ` set (accounts d) \<and> (\<forall>a \<in> set (accounts d). a_owner a \<noteq> a_owner r)) \<and>
    ledger_accounts d' = ledger_accounts d \<and> ledger_transactions d' = ledger_transactions d \<and>
    ledger_entries d' = ledger_entries d \<and> sync_balances d' = sync_balances d \<and>
    users d' = users d \<and> merchants d' = merchants d"
  using assms
  by (auto simp: insertAccountOnce_def insertAccount_def insertRow_Inr list_ex_iff split: if_splits sum.splits)

lemma insertLedgerAccountOnce_Inr:
  assumes "insertLedgerAccountOnce r d = Inr (u, d')"
  shows "(ledger_accounts d' = ledger_accounts d \<or>
     ledger_accounts d' = ledger_accounts d @ [r] \<and> la_id r \<notin> la_id ` set (ledger_accounts d)) \<and>
    accounts d' = accounts d \<and> ledger_transactions d' = ledger_transactions d \<and>
    ledger_entries d' = ledger_entries d \<and> sync_balances d' = sync_balances d \<and>
    users d' = users d \<and> merchants d' = merchants d"
  using assms
  by (auto simp: insertLedgerAccountOnce_def insertLedgerAccount_def insertRow_Inr split: if_splits sum.splits)

lemma insertMerchantOnce_Inr:
  assumes "onConflictNothing (insertMerchant r) d = Inr (n, d')"
  shows "accounts d' = accounts d \<and> ledger_accounts d' = ledger_accounts d \<and>
    ledger_transactions d' = ledger_transactions d \<and> ledger_entries d' = ledger_entries d \<and>
    sync_balances d' = sync_balances d \<and> users d' = users d"
  using assms
  by (auto simp: onConflictNothing_def insertMerchant_def insertRow_Inr split: sum.splits sqlerr.splits)

lemma upsertProfile_Inr:
  assumes "upsertProfile r d = Inr (u, d')"
  shows "accounts d' = accounts d \<and> ledger_accounts d' = ledger_accounts d \<and>
    ledger_transactions d' = ledger_transactions d \<and> ledger_entries d' = ledger_entries d \<and>
    sync_balances d' = sync_balances d \<and> users d' = users d \<and> merchants d' = merchants d"
  using assms by (auto simp: upsertProfile_def split: if_splits)

lemma insertBalanceOnce_Inr:
  assumes "insertBalanceOnce r d = Inr (u, d')"
  shows "accounts d' = accounts d \<and> ledger_accounts d' = ledger_accounts d \<and>
    ledger_transactions d' = ledger_transactions d \<and> ledger_entries d' = ledger_entries d \<and>
    users d' = users d \<and> merchants d' = merchants d \<and>
    (if sb_account r \<in> sb_account ` set (sync_balances d) then sync_balances d' = sync_balances d
     else sync_balances d' = sync_balances d @ [r])"
  using assms by (auto simp: insertBalanceOnce_def list_ex_iff split: if_splits) (metis image_eqI)

text \<open>
  \<open>initialized issuer subject requested d d' ids\<close>: afterwards the identity has the user,
  account, credit ledger account and default merchant \<open>ids\<close>.
\<close>

definition initialized ::
  "string \<Rightarrow> string \<Rightarrow> string \<Rightarrow> pay_db \<Rightarrow> pay_db \<Rightarrow> string \<times> string \<times> string \<times> string \<Rightarrow> bool" where
  "initialized issuer subject requested d d' ids \<longleftrightarrow>
     (case ids of (userID, accountID, ledgerID, merchantID) \<Rightarrow>
        map_option u_id (userByIdentity issuer subject d') = Some userID \<and>
        map_option a_id (accountByOwner userID d') = Some accountID \<and>
        map_option la_id (creditLedger accountID d') = Some ledgerID \<and>
        defaultMerchantOfAccount accountID d' = Some merchantID \<and>
        (requested \<noteq> [] \<longrightarrow> merchantID = requested) \<and>
        onboards accountID d d')"

lemma onboards_steps:
  assumes s1: "upsertUser r1 d = Inr (x1, d1)"
    and r2: "map_option a_id (accountByOwner (a_owner r2) d2) = Some acct"
    and s2: "insertAccountOnce r2 d1 = Inr (x2, d2)"
    and s3: "insertLedgerAccountOnce r3 d2 = Inr (x3, d3)" and r3: "la_owner r3 = Some acct" "la_id r3 \<noteq> ''led_clearing''"
    and s4: "onConflictNothing (insertMerchant r4) d3 = Inr (x4, d4)"
    and s5: "upsertProfile r5 d4 = Inr (x5, d5)"
    and s6: "insertBalanceOnce r6 d5 = Inr (x6, d6)" and r6: "sb_account r6 = acct" "sb_balance r6 = 0"
  shows "onboards acct d d6"
proof -
  note f1 = upsertUser_Inr [OF s1] and f2 = insertAccountOnce_Inr [OF s2]
    and f3 = insertLedgerAccountOnce_Inr [OF s3] and f4 = insertMerchantOnce_Inr [OF s4]
    and f5 = upsertProfile_Inr [OF s5] and f6 = insertBalanceOnce_Inr [OF s6]
  from r2 obtain a where a: "find (\<lambda>a. a_owner a = a_owner r2) (accounts d2) = Some a" "a_id a = acct"
    by (auto simp: accountByOwner_def)
  have accts: "accounts d6 = accounts d \<and> acct \<in> a_id ` set (accounts d) \<or>
      (\<exists>a. accounts d6 = accounts d @ [a] \<and> a_id a = acct \<and> acct \<notin> a_id ` set (accounts d))"
    using f2
  proof (elim conjE disjE)
    assume "accounts d2 = accounts d1" "\<exists>a \<in> set (accounts d1). a_owner a = a_owner r2"
    then show ?thesis using a find_SomeD [OF a(1)] f1 f3 f4 f5 f6 by auto
  next
    assume new: "accounts d2 = accounts d1 @ [r2]" "a_id r2 \<notin> a_id ` set (accounts d1)"
      "\<forall>a \<in> set (accounts d1). a_owner a \<noteq> a_owner r2"
    then have "find (\<lambda>a. a_owner a = a_owner r2) (accounts d1) = None" by (auto simp: find_None_iff)
    with a new(1) have "a = r2" by (simp add: find_append)
    with new a(2) show ?thesis using f1 f3 f4 f5 f6 by auto
  qed
  have ledgers: "ledger_accounts d6 = ledger_accounts d \<or>
      (\<exists>l. ledger_accounts d6 = ledger_accounts d @ [l] \<and> la_id l \<notin> la_id ` set (ledger_accounts d) \<and>
           la_owner l = Some acct \<and> la_id l \<noteq> ''led_clearing'')"
    using f1 f2 f3 f4 f5 f6 r3 by auto
  have bals: "if acct \<in> sb_account ` set (sync_balances d) then sync_balances d6 = sync_balances d
      else \<exists>b. sync_balances d6 = sync_balances d @ [b] \<and> sb_account b = acct \<and> sb_balance b = 0"
    using f1 f2 f3 f4 f5 f6 r6 by auto
  show ?thesis
    unfolding onboards_def using f1 f2 f3 f4 f5 f6 accts ledgers bals by simp
qed

lemma wlp_checkExistingMerchant:
  assumes "\<And>ex. x = Inr ex \<or> x = Inl NoRows \<Longrightarrow> Q ex c k"
  shows "wlp (checkExistingMerchant requested x) Q c k"
  unfolding checkExistingMerchant_def using assms by (intro wlpI) auto

lemma wlp_checkRequestedMerchant [wlpI]:
  assumes "Q () c (Some d)"
  shows "wlp (checkRequestedMerchant requested ex) Q c (Some d)"
  unfolding checkRequestedMerchant_def
  by (intro wlp_if wlp_bnd wlp_tx_exec wlp_ret assms; simp; intro wlpI conjI impI assms)

lemma initialized_final:
  assumes s1: "upsertUser r1 d = Inr (x1, d1)"
    and q1: "readRow (\<lambda>d. map_option u_id (userByIdentity issuer subject d)) d1 = Inr (userID, e1)"
    and s2: "insertAccountOnce \<lparr> a_id = ai, a_owner = userID, a_status = ast, a_created_at = at \<rparr> e1 = Inr (x2, d2)"
    and q2: "readRow (\<lambda>d. map_option a_id (accountByOwner userID d)) d2 = Inr (acct, e2)"
    and s3: "insertLedgerAccountOnce \<lparr> la_id = ''ledger_'' @ u3, la_owner = Some acct, la_asset = ''credit'',
        la_status = lst \<rparr> e2 = Inr (x3, d3)"
    and q3: "readRow (\<lambda>d. map_option la_id (creditLedger acct d)) d3 = Inr (ledgerID, e3)"
    and s4: "onConflictNothing (insertMerchant r4) e3 = Inr (x4, d4)"
    and q4: "readRow (defaultMerchantOfAccount acct) d4 = Inr (merchantID, e4)"
    and req: "\<not> (requested \<noteq> [] \<and> merchantID \<noteq> requested)"
    and s5: "upsertProfile r5 e4 = Inr (x5, d5)"
    and s6: "insertBalanceOnce \<lparr> sb_account = acct, sb_issuer = iss, sb_subject = subj, sb_balance = 0 \<rparr> d5 = Inr (x6, d6)"
  shows "initialized issuer subject requested d d6 (userID, acct, ledgerID, merchantID)"
proof -
  have e: "e1 = d1" "e2 = d2" "e3 = d3" "e4 = d4"
    and q: "map_option u_id (userByIdentity issuer subject d1) = Some userID"
      "map_option a_id (accountByOwner userID d2) = Some acct"
      "map_option la_id (creditLedger acct d3) = Some ledgerID"
      "defaultMerchantOfAccount acct d4 = Some merchantID"
    using q1 q2 q3 q4 by (auto simp: readRow_Inr)
  note s = s2 [unfolded e] s3 [unfolded e] s4 [unfolded e] s5 [unfolded e]
  note f2 = insertAccountOnce_Inr [OF s(1)] and f3 = insertLedgerAccountOnce_Inr [OF s(2)]
    and f4 = insertMerchantOnce_Inr [OF s(3)] and f5 = upsertProfile_Inr [OF s(4)]
    and f6 = insertBalanceOnce_Inr [OF s6]
  have "onboards acct d d6"
    by (rule onboards_steps [OF s1 _ s(1,2) _ _ s(3,4) s6]) (use q in simp_all)
  moreover have "users d6 = users d1" "accounts d6 = accounts d2" "ledger_accounts d6 = ledger_accounts d3"
    "merchants d6 = merchants d4"
    using f2 f3 f4 f5 f6 by simp_all
  ultimately show ?thesis
    using q req
    by (auto simp: initialized_def userByIdentity_def accountByOwner_def creditLedger_def defaultMerchantOfAccount_def)
qed

lemma wlp_initializeTransaction:
  "wlp (initializeTransaction issuer subject email displayName requested)
     (\<lambda>ids c' k'. initialized issuer subject requested d c' ids) c (Some d)"
  unfolding initializeTransaction_def
  apply (intro wlp_bnd, rule wlp_tx_readRow; intro wlp_bnd wlp_checkExistingMerchant; (simp; fail)?; intro wlpI)
  subgoal premises p by (rule initialized_final) (rule p)+
  subgoal premises p by (rule initialized_final) (rule p)+
  subgoal premises p by (rule initialized_final) (rule p)+
  subgoal premises p by (rule initialized_final) (rule p)+
  done

lemma tx_local_checks [tx_localI]:
  "tx_local (checkExistingMerchant r x)" "tx_local (checkRequestedMerchant r e)"
  unfolding checkExistingMerchant_def checkRequestedMerchant_def by (intro tx_localI)+

lemma replies_checks [repliesI]:
  "P identityConflict \<Longrightarrow> P internal \<Longrightarrow> replies P (checkExistingMerchant r x)"
  "P identityConflict \<Longrightarrow> P internal \<Longrightarrow> replies P (checkRequestedMerchant r e)"
  unfolding checkExistingMerchant_def checkRequestedMerchant_def by (intro repliesI; assumption)+

lemma reply_safe_initializeIdentity: "reply_safe (initializeIdentity i s e n r)"
  unfolding initializeIdentity_def initializeTransaction_def by (intro reply_safeI tx_localI)

lemma replies_initializeIdentity: "replies (\<lambda>r. r = identityConflict \<or> r = internal) (initializeIdentity i s e n m)"
  unfolding initializeIdentity_def initializeTransaction_def by (intro repliesI) auto

lemma wlp_initializeIdentity [wlpI]:
  assumes "\<And>ids c'. \<lbrakk>nonBlank i; nonBlank s; nonBlank n; initialized i s r c c' ids\<rbrakk> \<Longrightarrow> Q ids c' None"
  shows "wlp (initializeIdentity i s e n r) Q c k"
  unfolding initializeIdentity_def
  by (intro wlpI) (auto intro!: assms wlp_mono [OF wlp_initializeTransaction])

lemma above_comma: "48 \<le> (of_char c :: nat) \<Longrightarrow> c \<noteq> CHR '',''"
  by auto

lemma hexEncode_plain: "c \<in> set (hexEncode s) \<Longrightarrow> plainChar c \<and> c \<noteq> CHR '',''"
proof -
  have "plainChar (hexDigit n) \<and> 48 \<le> (of_char (hexDigit n) :: nat)" if "n < 16" for n
    using that by (auto simp: hexDigit_def plainChar_def)
  moreover have "of_char c div 16 < (16::nat)" for c :: char
    using nat_of_char_less_256 [of c] by (simp add: less_mult_imp_div_less)
  ultimately show "c \<in> set (hexEncode s) \<Longrightarrow> plainChar c \<and> c \<noteq> CHR '',''"
    using above_comma by (auto simp: hexEncode_def Let_def)
qed

lemma showNat_plain: "c \<in> set (showNat n) \<Longrightarrow> plainChar c \<and> c \<noteq> CHR '',''"
proof -
  assume "c \<in> set (showNat n)"
  then obtain d :: nat where "d < 10" "c = char_of (48 + d)" using showNat_digits [of n] by blast
  then have "plainChar c \<and> 48 \<le> (of_char c :: nat)" by (simp add: plainChar_def)
  with above_comma show ?thesis by blast
qed

subsection \<open>Properties\<close>

text \<open>C8: Initialising an identity makes exactly the promised rows exist: the identity's user, its
  account, its credit ledger account and its default merchant, the requested one if one was
  requested. It keeps the ledger invariant (in particular a new account starts with a projected
  balance of zero and an existing one keeps its own) and changes no balance.\<close>

theorem initializeIdentity_onboards:
  assumes "initializeIdentity issuer subject email name requested w = (Val ids, w')" and "payInv (committed w)"
  shows "initialized issuer subject requested (committed w) (committed w') ids \<and>
    payInv (committed w') \<and> ledgerBalance (committed w') = ledgerBalance (committed w)"
proof -
  have "wlp (initializeIdentity issuer subject email name requested)
      (\<lambda>ids c' k. initialized issuer subject requested (committed w) c' ids) (committed w) (working w)"
    by (rule wlp_initializeIdentity)
  from wlpD [OF this assms(1)]
  have i: "initialized issuer subject requested (committed w) (committed w') ids" .
  then obtain acct where on: "onboards acct (committed w) (committed w')"
    by (auto simp: initialized_def split: prod.splits)
  show ?thesis using i onboards_payInv [OF on assms(2)] onboards_balance [OF on assms(2)] by auto
qed

definition demo_onboarding :: "(string \<times> string \<times> string \<times> string) step \<times> pay_world" where
  "demo_onboarding = initializeIdentity ''iss'' ''sub9'' ''e'' ''Nine'' [] (demo_world demo_pay)"

lemma demo_onboarding_Val:
  "fst demo_onboarding = Val (''usr_'', ''acct_i'', ''ledger_ii'', ''iii'')"
proof -
  have b: "nonBlank ''iss''" "nonBlank ''sub9''" "nonBlank ''Nine''" by (simp_all add: blank_eval)
  show ?thesis
    by (simp add: demo_onboarding_def initializeIdentity_def b initializeTransaction_def run_simps
        demo_world_def defaultMerchantOf_def checkExistingMerchant_def checkRequestedMerchant_def
        upsertUser_def insertAccountOnce_def insertLedgerAccountOnce_def upsertProfile_def
        insertBalanceOnce_def onConflictNothing_def defaultMerchantOfAccount_def sqlText_def demo_pay_sel pay_eval)
qed

theorem initializeIdentity_onboards_witness:
  "ledgerBalance (committed (snd demo_onboarding)) ''acct_i'' = 0 \<and> payInv (committed (snd demo_onboarding))"
proof -
  have "initializeIdentity ''iss'' ''sub9'' ''e'' ''Nine'' [] (demo_world demo_pay) =
      (Val (''usr_'', ''acct_i'', ''ledger_ii'', ''iii''), snd demo_onboarding)"
    using demo_onboarding_Val by (simp add: demo_onboarding_def prod_eq_iff)
  from initializeIdentity_onboards [OF this] payInv_demo show ?thesis
    by (simp add: demo_world_def ledgerBalance_def demo_pay_sel)
qed

text \<open>
  The key in force, the content of the key file if there is one and it can be read and is not empty,
  else the configured key; the signature header and the maximum age. The authentic requests are those
  whose body fits and whose header has a time \<open>seconds\<close> within the maximum age of the clock and the
  HMAC of time and body under this key.
\<close>

definition keyInForce :: "pay_config \<Rightarrow> string option \<Rightarrow> string" where
  "keyInForce cfg keyFile =
     (if action_key_file cfg \<noteq> [] \<and> keyFile \<noteq> None \<and> keyFile \<noteq> Some [] then the keyFile else action_key cfg)"

definition authentic ::
  "pay_config \<Rightarrow> (string \<Rightarrow> string \<Rightarrow> string) \<Rightarrow> string option \<Rightarrow> (string \<Rightarrow> string) \<Rightarrow> time \<Rightarrow> string \<Rightarrow> bool" where
  "authentic cfg mac keyFile header t b \<longleftrightarrow>
     b \<noteq> [] \<and> length b \<le> 65536 \<and> keyInForce cfg keyFile \<noteq> [] \<and>
     (\<exists>timestamp signature seconds.
        foldl signaturePart ([], []) (splitOn CHR '','' (if header ''ZITADEL-Signature'' = []
          then header ''X-ZITADEL-Signature'' else header ''ZITADEL-Signature'')) = (timestamp, signature) \<and>
        parseInt64 timestamp = Some seconds \<and>
        \<bar>timeSub t (wrap64 (seconds + unixToInternal) * second)\<bar>
          \<le> (if action_max_age cfg \<le> 0 then 300 * second else action_max_age cfg) \<and>
        hexDecode signature = Some (mac (keyInForce cfg keyFile) (timestamp @ ''.'' @ b)))"

lemma signature_authentic:
  assumes "validateActionSignature mac b signature key t age"
  shows "key \<noteq> [] \<and> (\<exists>timestamp hex seconds. foldl signaturePart ([], []) (splitOn CHR '','' signature) = (timestamp, hex) \<and>
     parseInt64 timestamp = Some seconds \<and> \<bar>timeSub t (wrap64 (seconds + unixToInternal) * second)\<bar> \<le> age \<and>
     hexDecode hex = Some (mac key (timestamp @ ''.'' @ b)))"
  using assms
  by (auto simp: validateActionSignature_def Let_def abs_le_iff split: prod.splits option.splits if_splits)

lemma changed_guard:
  "committed (snd (if b then x else (r, w))) \<noteq> committed w \<longleftrightarrow> b \<and> committed (snd x) \<noteq> committed w"
  by simp

text \<open>C9: Only an authentic webhook has an effect. Whenever the request changes the database, its body is
  not empty and has at most 64 KiB, and the signature header carries a time within the configured
  maximum age (five minutes if none is configured) of the clock and the HMAC of that time and this body
  under the signing key in force: the content of the key file if it can be read and is not empty, else
  the configured key, which is then not empty either.\<close>

theorem webhook_authenticated:
  assumes "committed (snd (respond (zitadelUserAuthenticated cfg mac canonUUID keyFile body header parse) w)) \<noteq> committed w"
  shows "\<exists>b. body = Some b \<and> authentic cfg mac keyFile header (now w) b"
proof (cases body)
  case None
  with assms show ?thesis by (simp add: zitadelUserAuthenticated_def respond_Reply)
next
  case (Some b)
  have key: "(if action_key_file cfg \<noteq> [] then (case keyFile of Some k \<Rightarrow> if k \<noteq> [] then k else action_key cfg
      | None \<Rightarrow> action_key cfg) else action_key cfg) = keyInForce cfg keyFile"
    by (auto simp: keyInForce_def split: option.split)
  let ?header = "if header ''ZITADEL-Signature'' = [] then header ''X-ZITADEL-Signature'' else header ''ZITADEL-Signature''"
  let ?age = "if action_max_age cfg \<le> 0 then 300 * second else action_max_age cfg"
  have "b \<noteq> [] \<and> length b \<le> 65536 \<and> validateActionSignature mac b ?header (keyInForce cfg keyFile) (now w) ?age"
    using assms
    unfolding zitadelUserAuthenticated_def Some option.case Let_def respond_guard respond_now key changed_guard
    by (elim conjE) (intro conjI)
  then show ?thesis using signature_authentic [of mac b ?header "keyInForce cfg keyFile" "now w" ?age]
    unfolding Some authentic_def by (intro exI [of _ b]) blast
qed

text \<open>The example: a login of a new user, signed by a \<open>mac\<close> that returns the key.\<close>

definition demo_header :: "string \<Rightarrow> string" where
  "demo_header h = (if h = ''ZITADEL-Signature'' then ''t=-62135596800,v1=616374696f6e'' else [])"
lemma demo_signature:
  "validateActionSignature (\<lambda>k m. k) ''{}'' ''t=-62135596800,v1=616374696f6e'' ''action'' 100 (300 * second)"
proof -
  have trim: "trimSpace ''t=-62135596800'' = ''t=-62135596800''" "trimSpace ''v1=616374696f6e'' = ''v1=616374696f6e''"
    by (auto intro!: trimSpace_plain simp: plainChar_def)
  have t: "parseInt64 ''-62135596800'' = Some (- 62135596800)"
    by (simp add: parseInt64_def digitOf_def int64_defs int64_range_def Let_def)
  have h: "hexDecode ''616374696f6e'' = Some ''action''"
    by (simp add: hexValue_def char_of_def Let_def bit_0)
  have "foldl signaturePart ([], []) (splitOn CHR '','' ''t=-62135596800,v1=616374696f6e'') = (''-62135596800'', ''616374696f6e'')"
    by (simp add: signaturePart_def trim)
  then show ?thesis
    by (simp add: validateActionSignature_def t h unixToInternal_def timeSub_def second_def int64_defs wrap64_def del: hexDecode.simps foldl_Cons splitOn.simps)
qed

definition demo_event :: "string option \<Rightarrow> pay_world" where
  "demo_event body = snd (respond (zitadelUserAuthenticated demo_pay_config (\<lambda>k m. k) (\<lambda>_. None) None body
     demo_header (\<lambda>_. Some \<lparr> ap_merchant = [], ap_user = ''sub9'', ap_human = True, ap_email = ''e'', ap_name = ''Nine'',
       ap_username = [] \<rparr>)) (demo_world demo_pay))"

lemma demo_event_user:
  "length (users (committed (demo_event (Some ''{}'')))) = Suc (length (users demo_pay))"
proof -
  have b: "nonBlank ''iss''" "nonBlank ''sub9''" "nonBlank ''Nine''" "trimSpace [] = []"
    "trimSpace ''e'' = ''e''" "trimSpace ''Nine'' = ''Nine''"
    by (simp_all add: blank_eval)
  show ?thesis
    by (simp add: demo_event_def zitadelUserAuthenticated_def displayNameOf_def demo_header_def demo_signature b
        initializeIdentity_def initializeTransaction_def run_simps demo_world_def defaultMerchantOf_def checkExistingMerchant_def checkRequestedMerchant_def
        upsertUser_def insertAccountOnce_def insertLedgerAccountOnce_def upsertProfile_def respond_def
        insertBalanceOnce_def onConflictNothing_def defaultMerchantOfAccount_def sqlText_def demo_pay_sel pay_eval demo_pay_config_def)
qed
theorem webhook_authenticated_witness:
  "length (users (committed (demo_event (Some ''{}'')))) = Suc (length (users demo_pay)) \<and>
   authentic demo_pay_config (\<lambda>k m. k) None demo_header 100 ''{}''"
proof -
  have "committed (demo_event (Some ''{}'')) \<noteq> committed (demo_world demo_pay)"
    using demo_event_user by (auto simp: demo_world_def)
  from webhook_authenticated [OF this [unfolded demo_event_def]] demo_event_user show ?thesis
    by (simp add: demo_world_def)
qed

text \<open>C10: The signature a sender computes over its timestamp and body is accepted while the request
  is fresh: a header \<open>t=...,v1=...\<close> with the hexadecimal HMAC validates for every key, body and
  time within the maximum age.\<close>

theorem actionSignature_roundtrip:
  assumes "secret \<noteq> []" and "0 < age" and "int secs + unixToInternal \<le> max_int64"
    and "\<bar>timeSub t ((int secs + unixToInternal) * second)\<bar> \<le> age"
  shows "validateActionSignature mac body
    (''t='' @ showNat secs @ '',v1='' @ hexEncode (mac secret (showNat secs @ ''.'' @ body))) secret t age"
proof -
  let ?hex = "hexEncode (mac secret (showNat secs @ ''.'' @ body))"
  note digits = showNat_plain [of _ secs] and hex = hexEncode_plain [of _ "mac secret (showNat secs @ ''.'' @ body)"]
  have "CHR '','' \<notin> set (showNat secs)" "CHR '','' \<notin> set ?hex" using digits hex by blast+
  then have split: "splitOn CHR '','' (''t='' @ showNat secs @ '',v1='' @ ?hex) = [''t='' @ showNat secs, ''v1='' @ ?hex]"
    by (simp add: splitOn_append splitOn_no_sep)
  have trim: "trimSpace (''t='' @ showNat secs) = ''t='' @ showNat secs" "trimSpace (''v1='' @ ?hex) = ''v1='' @ ?hex"
    using digits [of "last (showNat secs)"] hex [of "last ?hex"]
    by (auto intro!: trimSpace_plain simp: plainChar_def last_append)
  have parts: "foldl signaturePart ([], []) (splitOn CHR '','' (''t='' @ showNat secs @ '',v1='' @ ?hex)) = (showNat secs, ?hex)"
    unfolding split using trim by (simp add: signaturePart_def)
  have secs: "parseInt64 (showNat secs) = Some (int secs)"
    using assms(3) by (intro parseInt64_showNat) (simp add: unixToInternal_def)
  have "wrap64 (int secs + unixToInternal) = int secs + unixToInternal"
    using assms(3) by (intro wrap64_id int64_nonnegI) (auto simp: unixToInternal_def)
  then show ?thesis
    unfolding validateActionSignature_def parts prod.case secs option.case Let_def
    using assms(1,2,4) by (auto simp: abs_le_iff)
qed

theorem actionSignature_roundtrip_witness:
  "validateActionSignature (\<lambda>k m. k @ m) ''{}''
     (''t='' @ showNat 5 @ '',v1='' @ hexEncode (''key'' @ showNat 5 @ ''.'' @ ''{}'')) ''key''
     ((5 + unixToInternal) * second) second"
  using actionSignature_roundtrip [of "''key''" second 5 "(5 + unixToInternal) * second" "\<lambda>k m. k @ m" "''{}''"]
  by (simp add: unixToInternal_def max_int64_def timeSub_def min_int64_def second_def)

end
