(* ===== verification/PayCatalog.thy ===== *)
theory PayCatalog
  imports PayIdentity
begin

section \<open>Merchants, products, subscriptions and keys\<close>

text \<open>
  The resources of an account in \<open>internal/gizpay/handler.go\<close>: service accounts, merchants,
  products, subscriptions and subscription keys. The identity provider's management API
  (\<open>identity.ServiceAccountManager\<close>), the keyed hash of a subscription key and the random
  source are parameters; a body is \<open>None\<close> when \<open>decode\<close> returned an error.
\<close>

subsection \<open>What the handlers call\<close>

record credential =
  cred_subject :: string
  cred_key_id :: string
  cred_json :: json

record pay_deps =
  authenticate :: "http_request \<Rightarrow> string \<Rightarrow> principal option"
  verifierIssuer :: string
  createCredential :: "string \<Rightarrow> string list \<Rightarrow> credential option"
  revokeCredential :: "string \<Rightarrow> string \<Rightarrow> bool"
  randomToken24 :: "string option"
  keyHMAC :: "string \<Rightarrow> string \<Rightarrow> string"

definition listJSON :: "json list \<Rightarrow> response" where
  "listJSON xs = writeJSON 200 (JObj [(''data'', JArr xs)])"

definition optTime :: "time option \<Rightarrow> json" where
  "optTime t = (case t of None \<Rightarrow> JNull | Some x \<Rightarrow> JTime x)"

subsection \<open>Service accounts\<close>

record service_account_request =
  sar_name :: string
  sar_roles :: "string list"

fun rolesValid :: "string list \<Rightarrow> string list \<Rightarrow> bool" where
  "rolesValid seen [] = True"
| "rolesValid seen (role # roles) =
     (if role \<notin> {''credit_check'', ''charge''} \<or> role \<in> set seen then False
      else rolesValid (role # seen) roles)"

definition validServiceAccountRoles :: "string list \<Rightarrow> bool" where
  "validServiceAccountRoles roles = (if roles = [] then False else rolesValid [] roles)"

text \<open>
  \<open>queryMaps\<close> scans into \<open>interface{}\<close>: the driver returns a \<open>JSONB\<close> column as bytes, PostgreSQL's text
  of the array (roles need no escapes), and \<open>encoding/json\<close> writes bytes as a string in base64.
\<close>

definition base64Digit :: "nat \<Rightarrow> char" where
  "base64Digit n = char_of (if n < 26 then 65 + n else if n < 52 then 71 + n else if n < 62 then n - 4
     else if n = 62 then 43 else 47)"

fun base64Std :: "nat list \<Rightarrow> string" where
  "base64Std [] = []"
| "base64Std [a] = [base64Digit (a div 4), base64Digit (16 * (a mod 4)), CHR ''='', CHR ''='']"
| "base64Std [a, b] =
     [base64Digit (a div 4), base64Digit (16 * (a mod 4) + b div 16), base64Digit (4 * (b mod 16)), CHR ''='']"
| "base64Std (a # b # c # rest) =
     base64Digit (a div 4) # base64Digit (16 * (a mod 4) + b div 16) # base64Digit (4 * (b mod 16) + c div 64) #
     base64Digit (c mod 64) # base64Std rest"

fun jsonbItems :: "string list \<Rightarrow> string" where
  "jsonbItems [] = []"
| "jsonbItems [s] = goQuote s"
| "jsonbItems (s # ss) = goQuote s @ '', '' @ jsonbItems ss"

definition jsonbStrings :: "string list \<Rightarrow> string" where
  "jsonbStrings ss = ''['' @ jsonbItems ss @ '']''"

definition principalJSON :: "service_principal \<Rightarrow> json" where
  "principalJSON p = JObj
     [(''id'', JStr (sp_id p)), (''name'', JStr (sp_name p)),
      (''roles'', JStr (base64Std (map of_char (jsonbStrings (sp_roles p))))),
      (''status'', JStr (sp_status p)), (''created_at'', JTime (sp_created_at p)),
      (''revoked_at'', optTime (sp_revoked_at p))]"

text \<open>So the roles of a listed service account are no array.\<close>

lemma listed_roles:
  "base64Std (map of_char (jsonbStrings [''charge''])) = ''WyJjaGFyZ2UiXQ==''"
  by code_simp

definition serviceAccounts ::
  "pay_deps \<Rightarrow> httpMethod \<Rightarrow> service_account_request option \<Rightarrow> string \<Rightarrow> (pay_world, response) act" where
  "serviceAccounts env meth body userID =
     (if meth = GET
      then bnd (orReply (db_exec (reading (\<lambda>d. orderBy sp_created_at sp_id
             (filter (\<lambda>p. sp_owner p = userID) (service_principals d))))) internal) (\<lambda>rows.
           ret (listJSON (map principalJSON rows)))
      else if meth \<noteq> POST then reply notFound
      else case body of
        None \<Rightarrow> reply invalid
      | Some b \<Rightarrow>
     bnd (require (nonBlank (sar_name b) \<and> validServiceAccountRoles (sar_roles b))
       (errorJSON 400 ''invalid_service_account'' ''name and supported roles are required'')) (\<lambda>_.
     case createCredential env (sar_name b) (sar_roles b) of
       None \<Rightarrow> reply (errorJSON 502 ''identity_provider_unavailable'' ''could not create Service Account'')
     | Some cred \<Rightarrow>
     bnd newUUID (\<lambda>u. bnd (gets now) (\<lambda>t.
     bnd (orReply (db_exec (insertServicePrincipal \<lparr> sp_id = ''svc_'' @ u, sp_owner = userID,
        sp_issuer = verifierIssuer env, sp_subject = cred_subject cred, sp_key_id = Some (cred_key_id cred),
        sp_name = sar_name b, sp_roles = sar_roles b, sp_status = ''active'', sp_created_at = t,
        sp_revoked_at = None \<rparr>)) internal) (\<lambda>_.
     ret (writeJSON 201 (JObj
       [(''id'', JStr (''svc_'' @ u)), (''name'', JStr (sar_name b)),
        (''roles'', JArr (map JStr (sar_roles b))), (''status'', JStr ''active''),
        (''credential'', JObj [(''type'', JStr ''private_key_jwt''), (''key'', cred_json cred)])])))))))"

text \<open>\<open>UPDATE service_principals\<close> under the trigger that protects revoked rows.\<close>

definition revokePrincipal :: "time \<Rightarrow> string \<Rightarrow> (pay_db, unit) query" where
  "revokePrincipal t i d =
     (if list_ex (\<lambda>p. sp_id p = i \<and> sp_status p = ''revoked'') (service_principals d) then Inl Raised
      else Inr ((), d\<lparr>service_principals := updateRows (\<lambda>p. sp_id p = i)
             (\<lambda>p. p\<lparr>sp_status := ''revoked'', sp_revoked_at := Some t\<rparr>) (service_principals d)\<rparr>))"

definition revokeServiceAccount ::
  "pay_deps \<Rightarrow> httpMethod \<Rightarrow> string \<Rightarrow> string \<Rightarrow> (pay_world, response) act" where
  "revokeServiceAccount env meth i userID =
     (if meth \<noteq> DELETE then reply notFound
      else bnd (orReply begin_tx internal) (\<lambda>_. finish_tx (
     bnd (orReply (tx_exec (readRow (\<lambda>d. find (\<lambda>p. sp_id p = i \<and> sp_owner p = userID \<and> sp_status p = ''active'')
        (service_principals d)))) notFound) (\<lambda>p.
     let keyID = (case sp_key_id p of None \<Rightarrow> [] | Some k \<Rightarrow> k) in
     bnd (require (keyID \<noteq> [] \<and> revokeCredential env (sp_subject p) keyID)
       (errorJSON 502 ''identity_provider_unavailable'' ''could not revoke Service Account credential'')) (\<lambda>_.
     bnd (gets now) (\<lambda>t.
     bnd (orReply (tx_exec (revokePrincipal t i)) internal) (\<lambda>_.
     bnd (orReply (commit_tx ledgerTransactionsBalanced) internal) (\<lambda>_.
     ret (writeHeader 204))))))))) "

subsection \<open>Merchants\<close>

definition ownsAccount :: "string \<Rightarrow> pay_db \<Rightarrow> string \<Rightarrow> bool" where
  "ownsAccount userID d acct = list_ex (\<lambda>a. a_id a = acct \<and> a_owner a = userID) (accounts d)"

definition merchantJSON :: "merchant \<Rightarrow> json" where
  "merchantJSON m = JObj
     [(''id'', JStr (m_id m)), (''settlement_account_id'', JStr (m_settlement m)),
      (''legal_name'', JStr (m_legal_name m)), (''public_name'', JStr (m_public_name m)),
      (''is_default'', JBool (m_is_default m)), (''status'', JStr (m_status m)),
      (''created_at'', JTime (m_created_at m)), (''updated_at'', JTime (m_updated_at m))]"

record merchant_request =
  mr_settlement :: string
  mr_legal_name :: string
  mr_public_name :: string

definition merchantsHandler ::
  "httpMethod \<Rightarrow> merchant_request option \<Rightarrow> string \<Rightarrow> (pay_world, response) act" where
  "merchantsHandler meth body userID =
     (if meth = GET
      then bnd (orReply (db_exec (reading (\<lambda>d. orderBy m_created_at m_id
             (filter (\<lambda>m. ownsAccount userID d (m_settlement m)) (merchants d))))) internal) (\<lambda>rows.
           ret (listJSON (map merchantJSON rows)))
      else if meth \<noteq> POST then reply notFound
      else case body of
        None \<Rightarrow> reply invalid
      | Some b \<Rightarrow>
     bnd (require (nonBlank (mr_settlement b) \<and> nonBlank (mr_legal_name b) \<and> nonBlank (mr_public_name b)) invalid) (\<lambda>_.
     bnd (orZero (db_exec (reading (\<lambda>d. ownsAccount userID d (mr_settlement b)))) False) (\<lambda>owned.
     bnd (require owned notFound) (\<lambda>_.
     bnd newUUID (\<lambda>u. bnd (gets now) (\<lambda>t.
     bnd (orReply (db_exec (insertMerchant \<lparr> m_id = ''mrc_'' @ u, m_settlement = mr_settlement b,
        m_legal_name = mr_legal_name b, m_public_name = mr_public_name b, m_is_default = False,
        m_status = ''active'', m_created_at = t, m_updated_at = t \<rparr>)) internal) (\<lambda>_.
     ret (writeJSON 201 (JObj
       [(''id'', JStr (''mrc_'' @ u)), (''settlement_account_id'', JStr (mr_settlement b)),
        (''legal_name'', JStr (mr_legal_name b)), (''public_name'', JStr (mr_public_name b)),
        (''is_default'', JBool False), (''status'', JStr ''active'')])))))))))"

text \<open>A string field of a \<open>PATCH\<close> that may be absent, and the statuses one may set.\<close>

definition patchInvalid :: "string option \<Rightarrow> string option \<Rightarrow> bool" where
  "patchInvalid name stat \<longleftrightarrow>
     name = None \<and> stat = None \<or> (case name of None \<Rightarrow> False | Some n \<Rightarrow> blank n)"

definition statusInvalid :: "string option \<Rightarrow> bool" where
  "statusInvalid stat \<longleftrightarrow>
     (case stat of None \<Rightarrow> False | Some s \<Rightarrow> s \<noteq> ''active'' \<and> s \<noteq> ''inactive'')"

definition orOld :: "'a option \<Rightarrow> 'a \<Rightarrow> 'a" where
  "orOld x old = (case x of None \<Rightarrow> old | Some y \<Rightarrow> y)"

definition setMerchant :: "string \<Rightarrow> string \<Rightarrow> time \<Rightarrow> string \<Rightarrow> (pay_db, unit) query" where
  "setMerchant name stat t i d =
     (if list_ex (\<lambda>m. m_id m = i) (merchants d) \<and> \<not> sqlText name then Inl CheckViolation
      else Inr ((), d\<lparr>merchants := updateRows (\<lambda>m. m_id m = i)
             (\<lambda>m. m\<lparr>m_public_name := name, m_status := stat, m_updated_at := t\<rparr>) (merchants d)\<rparr>))"

definition patchMerchant ::
  "(string option \<times> string option) option \<Rightarrow> string \<Rightarrow> merchant \<Rightarrow> (pay_world, response) act" where
  "patchMerchant body i row =
     (case body of
        None \<Rightarrow> reply invalid
      | Some (name, stat) \<Rightarrow>
     bnd (require (\<not> patchInvalid name stat) invalid) (\<lambda>_.
     bnd (require (\<not> statusInvalid stat) invalid) (\<lambda>_.
     bnd (require (\<not> (stat = Some ''inactive'' \<and> m_is_default row))
       (errorJSON 409 ''default_merchant_in_use'' ''the default Merchant cannot be disabled'')) (\<lambda>_.
     let row' = row\<lparr>m_public_name := orOld name (m_public_name row), m_status := orOld stat (m_status row)\<rparr> in
     bnd (gets now) (\<lambda>t.
     bnd (orReply (db_exec (setMerchant (m_public_name row') (m_status row') t i)) internal) (\<lambda>_.
     ret (writeJSON 200 (merchantJSON row'))))))))"

definition productJSON :: "product \<Rightarrow> json" where
  "productJSON p = JObj
     [(''id'', JStr (p_id p)), (''merchant_id'', JStr (p_merchant p)), (''name'', JStr (p_name p)),
      (''billing_mode'', JStr (p_billing_mode p)), (''published'', JBool (p_published p)),
      (''status'', JStr (p_status p)), (''terms_version'', JStr (p_terms p)),
      (''created_at'', JTime (p_created_at p)), (''updated_at'', JTime (p_updated_at p))]"

record product_request =
  pr_name :: string
  pr_billing_mode :: string
  pr_terms :: string

definition merchantProducts ::
  "httpMethod \<Rightarrow> product_request option \<Rightarrow> string \<Rightarrow> (pay_world, response) act" where
  "merchantProducts meth body merchantID =
     (if meth = GET
      then bnd (orReply (db_exec (reading (\<lambda>d. orderBy p_created_at p_id
             (filter (\<lambda>p. p_merchant p = merchantID) (products d))))) internal) (\<lambda>rows.
           ret (listJSON (map productJSON rows)))
      else if meth \<noteq> POST then reply notFound
      else case body of
        None \<Rightarrow> reply invalid
      | Some b \<Rightarrow>
     bnd (require (pr_billing_mode b = ''pay_as_you_go'')
       (errorJSON 400 ''unsupported_billing_mode'' ''only pay_as_you_go is supported'')) (\<lambda>_.
     bnd (require (nonBlank (pr_name b) \<and> nonBlank (pr_terms b)) invalid) (\<lambda>_.
     bnd newUUID (\<lambda>u. bnd (gets now) (\<lambda>t.
     bnd (orReply (db_exec (insertProduct \<lparr> p_id = ''prd_'' @ u, p_merchant = merchantID, p_name = pr_name b,
        p_billing_mode = pr_billing_mode b, p_published = True, p_status = ''active'',
        p_terms = pr_terms b, p_created_at = t, p_updated_at = t \<rparr>)) internal) (\<lambda>_.
     ret (writeJSON 201 (JObj
       [(''id'', JStr (''prd_'' @ u)), (''merchant_id'', JStr merchantID), (''name'', JStr (pr_name b)),
        (''billing_mode'', JStr (pr_billing_mode b)), (''status'', JStr ''active''),
        (''terms_version'', JStr (pr_terms b))]))))))))"

text \<open>\<open>queryMap\<close> is an error unless there is exactly one row.\<close>

definition readOne :: "('db \<Rightarrow> 'a list) \<Rightarrow> ('db, 'a) query" where
  "readOne f d = (case f d of [x] \<Rightarrow> Inr (x, d) | _ \<Rightarrow> Inl NoRows)"

definition merchantResource ::
  "httpMethod \<Rightarrow> string \<Rightarrow> string \<Rightarrow> (string option \<times> string option) option \<Rightarrow> product_request option \<Rightarrow>
   string \<Rightarrow> (pay_world, response) act" where
  "merchantResource meth path i patch body userID =
     bnd (orReply (db_exec (readOne (\<lambda>d. filter (\<lambda>m. m_id m = i \<and> ownsAccount userID d (m_settlement m)) (merchants d))))
       notFound) (\<lambda>row.
     if hasSuffix path ''/products'' then merchantProducts meth body i
     else if meth \<noteq> GET \<and> meth \<noteq> PATCH then reply notFound
     else if meth = PATCH then patchMerchant patch i row
     else ret (writeJSON 200 (merchantJSON row)))"

subsection \<open>Products\<close>

definition onSale :: "product \<Rightarrow> bool" where
  "onSale p \<longleftrightarrow> p_status p = ''active'' \<and> p_published p"

definition listProducts :: "(pay_world, response) act" where
  "listProducts =
     bnd (orReply (db_exec (reading (\<lambda>d. orderBy p_created_at p_id (filter onSale (products d))))) internal) (\<lambda>rows.
     ret (listJSON (map productJSON rows)))"

definition setProduct :: "string \<Rightarrow> string \<Rightarrow> time \<Rightarrow> string \<Rightarrow> (pay_db, unit) query" where
  "setProduct name stat t i d =
     (if list_ex (\<lambda>p. p_id p = i) (products d) \<and> \<not> sqlText name then Inl CheckViolation
      else Inr ((), d\<lparr>products := updateRows (\<lambda>p. p_id p = i)
             (\<lambda>p. p\<lparr>p_name := name, p_status := stat, p_updated_at := t\<rparr>) (products d)\<rparr>))"

definition ownsProduct :: "string \<Rightarrow> pay_db \<Rightarrow> product \<Rightarrow> bool" where
  "ownsProduct userID d p \<longleftrightarrow>
     (case merchantById (p_merchant p) d of None \<Rightarrow> False | Some m \<Rightarrow> ownsAccount userID d (m_settlement m))"

definition patchProduct ::
  "(string option \<times> string option) option \<Rightarrow> string \<Rightarrow> string \<Rightarrow> (pay_world, response) act" where
  "patchProduct body i userID =
     bnd (orReply (db_exec (readOne (\<lambda>d. filter (\<lambda>p. p_id p = i \<and> ownsProduct userID d p) (products d)))) notFound) (\<lambda>row.
     case body of
       None \<Rightarrow> reply invalid
     | Some (name, stat) \<Rightarrow>
     bnd (require (\<not> patchInvalid name stat) invalid) (\<lambda>_.
     bnd (require (\<not> statusInvalid stat) invalid) (\<lambda>_.
     let row' = row\<lparr>p_name := orOld name (p_name row), p_status := orOld stat (p_status row)\<rparr> in
     bnd (gets now) (\<lambda>t.
     bnd (orReply (db_exec (setProduct (p_name row') (p_status row') t i)) invalid) (\<lambda>_.
     ret (writeJSON 200 (productJSON row')))))))"

subsection \<open>Subscriptions\<close>

record subscription_request =
  sr_id :: string
  sr_account :: string
  sr_terms :: string

definition subscriptionBrief :: "subscription \<Rightarrow> json" where
  "subscriptionBrief s = JObj
     [(''id'', JStr (s_id s)), (''account_id'', JStr (s_account s)), (''product_id'', JStr (s_product s)),
      (''status'', JStr (s_status s)), (''terms_version'', JStr (s_terms s))]"

definition sameSubscription :: "string \<Rightarrow> subscription_request \<Rightarrow> subscription \<Rightarrow> bool" where
  "sameSubscription productID b s \<longleftrightarrow>
     s_account s = sr_account b \<and> s_product s = productID \<and> s_terms s = sr_terms b"

definition subscriptionConflict :: response where
  "subscriptionConflict =
     errorJSON 409 ''resource_id_conflict'' ''Subscription ID already exists with different content''"

definition subscriptionExists :: response where
  "subscriptionExists =
     errorJSON 409 ''subscription_already_exists'' ''The account already has this subscription''"

definition replaySubscription :: "string \<Rightarrow> subscription_request \<Rightarrow> subscription \<Rightarrow> (pay_world, response) act" where
  "replaySubscription productID b s =
     (if \<not> sameSubscription productID b s then reply subscriptionConflict
      else reply (writeJSON 200 (subscriptionBrief s)))"

definition createSubscription ::
  "httpMethod \<Rightarrow> subscription_request option \<Rightarrow> string \<Rightarrow> string \<Rightarrow> (pay_world, response) act" where
  "createSubscription meth body productID accountID =
     (if meth \<noteq> POST then reply notFound
      else case body of
        None \<Rightarrow> reply invalid
      | Some b \<Rightarrow>
     bnd (require (nonBlank (sr_id b)) invalid) (\<lambda>_.
     bnd (require (sr_account b = accountID) notFound) (\<lambda>_.
     bnd (db_exec (readRow (subscriptionById (sr_id b)))) (\<lambda>x. case x of
       Inr s \<Rightarrow> replaySubscription productID b s
     | Inl e \<Rightarrow> if e \<noteq> NoRows then reply internal else
     bnd (orReply (db_exec (readRow (\<lambda>d. find (\<lambda>p. p_id p = productID \<and> onSale p) (products d)))) notFound) (\<lambda>p.
     bnd (require (nonBlank (sr_terms b)) invalid) (\<lambda>_.
     bnd (require (sr_terms b = p_terms p)
       (errorJSON 409 ''terms_version_mismatch'' ''Product terms must be accepted at their current version'')) (\<lambda>_.
     bnd (db_exec (readRow (\<lambda>d. find (\<lambda>s. s_account s = accountID \<and> s_product s = productID) (subscriptions d)))) (\<lambda>y. case y of
       Inr other \<Rightarrow>
         if s_id other = sr_id b
         then bnd (orReply (db_exec (readRow (subscriptionById (sr_id b)))) internal) (replaySubscription productID b)
         else reply subscriptionExists
     | Inl e1 \<Rightarrow> if e1 \<noteq> NoRows then reply internal else
     bnd (gets now) (\<lambda>t.
     bnd (orReply (db_exec (onConflictNothing (insertSubscription \<lparr> s_id = sr_id b, s_account = accountID,
        s_product = productID, s_status = ''active'', s_terms = sr_terms b, s_accepted_at = t,
        s_created_at = t \<rparr>))) internal) (\<lambda>affected.
     if affected = 0
     then bnd (db_exec (readRow (subscriptionById (sr_id b)))) (\<lambda>z. case z of
            Inr s \<Rightarrow> replaySubscription productID b s
          | Inl e2 \<Rightarrow> reply subscriptionExists)
     else ret (writeJSON 201 (JObj
       [(''id'', JStr (sr_id b)), (''account_id'', JStr accountID), (''product_id'', JStr productID),
        (''status'', JStr ''active''), (''terms_version'', JStr (sr_terms b))]))))))))))))"

definition productResource ::
  "httpMethod \<Rightarrow> string \<Rightarrow> string \<Rightarrow> (string option \<times> string option) option \<Rightarrow> subscription_request option \<Rightarrow>
   string \<Rightarrow> string \<Rightarrow> (pay_world, response) act" where
  "productResource meth path i patch sub userID accountID =
     (if hasSuffix path ''/subscriptions'' then createSubscription meth sub i accountID
      else if meth \<noteq> GET \<and> meth \<noteq> PATCH then reply notFound
      else if meth = GET
      then bnd (orReply (db_exec (readOne (\<lambda>d. filter (\<lambda>p. p_id p = i \<and> onSale p) (products d)))) notFound) (\<lambda>row.
           ret (writeJSON 200 (productJSON row)))
      else patchProduct patch i userID)"

definition subscriptionJSON :: "subscription \<Rightarrow> json" where
  "subscriptionJSON s = JObj
     [(''id'', JStr (s_id s)), (''account_id'', JStr (s_account s)), (''product_id'', JStr (s_product s)),
      (''status'', JStr (s_status s)), (''terms_version'', JStr (s_terms s)),
      (''accepted_at'', JTime (s_accepted_at s)), (''created_at'', JTime (s_created_at s)),
      (''canceled_at'', JNull)]"

definition listSubscriptions :: "string \<Rightarrow> (pay_world, response) act" where
  "listSubscriptions userID =
     bnd (orReply (db_exec (reading (\<lambda>d. orderBy s_created_at s_id
        (filter (\<lambda>s. ownsAccount userID d (s_account s)) (subscriptions d))))) internal) (\<lambda>rows.
     ret (listJSON (map subscriptionJSON rows)))"

definition setSubscription :: "string \<Rightarrow> string \<Rightarrow> (pay_db, nat) query" where
  "setSubscription stat i d =
     Inr (countRows (\<lambda>s. s_id s = i) (subscriptions d),
          d\<lparr>subscriptions := updateRows (\<lambda>s. s_id s = i) (\<lambda>s. s\<lparr>s_status := stat\<rparr>) (subscriptions d)\<rparr>)"

definition patchSubscription :: "string option \<Rightarrow> string \<Rightarrow> subscription \<Rightarrow> (pay_world, response) act" where
  "patchSubscription body i row =
     (case body of
        None \<Rightarrow> reply invalid
      | Some stat \<Rightarrow>
     bnd (require (stat = ''active'' \<or> stat = ''paused'' \<or> stat = ''inactive'') invalid) (\<lambda>_.
     bnd (orReply (db_exec (setSubscription stat i)) invalid) (\<lambda>n.
     bnd (require (n \<noteq> 0) notFound) (\<lambda>_.
     ret (writeJSON 200 (subscriptionJSON (row\<lparr>s_status := stat\<rparr>)))))))"

end
