(* ===== verification/PayKeys.thy ===== *)
theory PayKeys
  imports PayCatalog
begin

section \<open>Subscription keys and credit checks\<close>

text \<open>
  \<open>subscriptionKeys\<close>, \<open>writeKey\<close>, \<open>keyMap\<close>, \<open>subscriptionResource\<close> and \<open>creditCheck\<close> of
  \<open>internal/gizpay/handler.go\<close>. A key is created under the client's identifier (an instance of
  \<open>idempotent_create\<close>), is active until it is revoked, and never becomes active again.
\<close>

definition keyJSON :: "subscription_key \<Rightarrow> json" where
  "keyJSON k = JObj
     [(''id'', JStr (k_id k)), (''subscription_id'', JStr (k_subscription k)), (''name'', JStr (k_name k)),
      (''key'', JStr (k_key k)), (''status'', JStr (k_status k)), (''created_at'', JTime (k_created_at k)),
      (''last_used_at'', optTime (k_last_used_at k)), (''revoked_at'', optTime (k_revoked_at k))]"

definition keyMap :: "string \<Rightarrow> string \<Rightarrow> (pay_world, sqlerr + subscription_key) act" where
  "keyMap i subscriptionID =
     db_exec (readRow (\<lambda>d. find (\<lambda>k. k_id k = i \<and> k_subscription k = subscriptionID) (subscription_keys d)))"

definition writeKey :: "string \<Rightarrow> string \<Rightarrow> (pay_world, response) act" where
  "writeKey i subscriptionID =
     bnd (orReply (keyMap i subscriptionID) notFound) (\<lambda>k. ret (writeJSON 200 (keyJSON k)))"

text \<open>
  The update that revokes a key. Its condition selects active rows only, so the trigger that
  protects revoked keys never raises.
\<close>

definition revokeKeyRow :: "time \<Rightarrow> string \<Rightarrow> string \<Rightarrow> (pay_db, nat) query" where
  "revokeKeyRow t i subscriptionID d =
     (let P = (\<lambda>k. k_id k = i \<and> k_subscription k = subscriptionID \<and> k_status k = ''active'')
      in Inr (countRows P (subscription_keys d),
              d\<lparr>subscription_keys := updateRows P (\<lambda>k. k\<lparr>k_status := ''revoked'', k_revoked_at := Some t\<rparr>)
                  (subscription_keys d)\<rparr>))"

definition revokeKey :: "httpMethod \<Rightarrow> string \<Rightarrow> string \<Rightarrow> (pay_world, response) act" where
  "revokeKey meth keyID subscriptionID =
     (if meth \<noteq> POST then reply notFound
      else bnd (gets now) (\<lambda>t.
     bnd (orReply (db_exec (revokeKeyRow t keyID subscriptionID)) internal) (\<lambda>n.
     if n = 0
     then bnd (orReply (db_exec (reading (\<lambda>d. list_ex (\<lambda>k. k_id k = keyID \<and> k_subscription k = subscriptionID \<and>
            k_status k = ''revoked'') (subscription_keys d)))) internal) (\<lambda>found.
          if found then writeKey keyID subscriptionID else reply notFound)
     else writeKey keyID subscriptionID)))"

definition listKeys :: "string \<Rightarrow> (pay_world, response) act" where
  "listKeys subscriptionID =
     bnd (orReply (db_exec (reading (\<lambda>d. map k_id (orderBy k_created_at k_id
        (filter (\<lambda>k. k_subscription k = subscriptionID) (subscription_keys d)))))) internal) (\<lambda>ids.
     bnd (mapA (\<lambda>i. keyMap i subscriptionID) ids) (\<lambda>items.
     ret (listJSON (concat (map (\<lambda>x. case x of Inl e \<Rightarrow> [] | Inr k \<Rightarrow> [keyJSON k]) items)))))"

definition keyConflict :: response where
  "keyConflict =
     errorJSON 409 ''resource_id_conflict'' ''Subscription Key ID already exists with different content''"

definition sameKey :: "string \<Rightarrow> string \<Rightarrow> subscription_key \<Rightarrow> bool" where
  "sameKey subscriptionID name k \<longleftrightarrow> k_subscription k = subscriptionID \<and> k_name k = name"

definition replayKey :: "string \<Rightarrow> string \<Rightarrow> string \<Rightarrow> subscription_key \<Rightarrow> (pay_world, response) act" where
  "replayKey i subscriptionID name k =
     (if \<not> sameKey subscriptionID name k then reply keyConflict else writeKey i subscriptionID)"

definition createKey ::
  "pay_config \<Rightarrow> pay_deps \<Rightarrow> (string \<times> string) option \<Rightarrow> string \<Rightarrow> (pay_world, response) act" where
  "createKey cfg env body subscriptionID =
     (case body of
        None \<Rightarrow> reply invalid
      | Some (i, name) \<Rightarrow>
     bnd (require (nonBlank i \<and> nonBlank name) invalid) (\<lambda>_.
     bnd (db_exec (readRow (keyById i))) (\<lambda>x. case x of
       Inr k \<Rightarrow> replayKey i subscriptionID name k
     | Inl e \<Rightarrow> if e \<noteq> NoRows then reply internal else
     case randomToken24 env of
       None \<Rightarrow> reply internal
     | Some random \<Rightarrow>
     let secret = ''giz_sk_'' @ random in
     bnd (gets now) (\<lambda>t.
     bnd (orReply (db_exec (onConflictNothing (insertSubscriptionKey \<lparr> k_id = i, k_subscription = subscriptionID,
        k_name = name, k_key = secret, k_hmac = keyHMAC env (hmac_secret cfg) secret, k_status = ''active'',
        k_created_at = t, k_last_used_at = None, k_revoked_at = None \<rparr>))) internal) (\<lambda>affected.
     if affected = 0
     then bnd (orReply (db_exec (readRow (keyById i))) internal) (replayKey i subscriptionID name)
     else ret (writeJSON 201 (JObj
       [(''id'', JStr i), (''subscription_id'', JStr subscriptionID), (''name'', JStr name),
        (''key'', JStr secret), (''status'', JStr ''active'')])))))))"

definition subscriptionKeysHandler ::
  "pay_config \<Rightarrow> pay_deps \<Rightarrow> httpMethod \<Rightarrow> string \<Rightarrow> string \<Rightarrow> (string \<times> string) option \<Rightarrow> string \<Rightarrow>
   (pay_world, response) act" where
  "subscriptionKeysHandler cfg env meth path keyID body subscriptionID =
     (if keyID \<noteq> []
      then if hasSuffix path ''/revoke'' then revokeKey meth keyID subscriptionID
           else if meth \<noteq> GET then reply notFound
           else writeKey keyID subscriptionID
      else if meth = GET then listKeys subscriptionID
      else if meth \<noteq> POST then reply notFound
      else createKey cfg env body subscriptionID)"

definition subscriptionResource ::
  "pay_config \<Rightarrow> pay_deps \<Rightarrow> httpMethod \<Rightarrow> string \<Rightarrow> string \<Rightarrow> string \<Rightarrow> string option \<Rightarrow> (string \<times> string) option \<Rightarrow>
   string \<Rightarrow> (pay_world, response) act" where
  "subscriptionResource cfg env meth path i keyID patch body userID =
     bnd (orReply (db_exec (readOne (\<lambda>d. filter (\<lambda>s. s_id s = i \<and> ownsAccount userID d (s_account s))
       (subscriptions d)))) notFound) (\<lambda>row.
     if containsStr path ''/keys'' then subscriptionKeysHandler cfg env meth path keyID body i
     else if meth \<noteq> GET \<and> meth \<noteq> PATCH then reply notFound
     else if meth = PATCH then patchSubscription patch i row
     else ret (writeJSON 200 (subscriptionJSON row)))"

subsection \<open>Credit checks\<close>

text \<open>The row of the query: the key with its subscription, product, owner and balance.\<close>

definition creditRow ::
  "string \<Rightarrow> pay_db \<Rightarrow> (subscription_key \<times> subscription \<times> product \<times> user \<times> int) option" where
  "creditRow hmac d =
     (case keyByHmac hmac d of
        None \<Rightarrow> None
      | Some k \<Rightarrow>
          (case subscriptionById (k_subscription k) d of
             None \<Rightarrow> None
           | Some s \<Rightarrow>
               (case productById (s_product s) d of
                  None \<Rightarrow> None
                | Some p \<Rightarrow>
                    map_option (\<lambda>u. (k, s, p, u, ledgerBalance d (s_account s))) (accountOwner (s_account s) d))))"

definition readCredit :: "string \<Rightarrow> (pay_db, subscription_key \<times> subscription \<times> product \<times> user \<times> int) query" where
  "readCredit hmac d =
     (case creditRow hmac d of
        None \<Rightarrow> Inl NoRows
      | Some (k, s, p, u, balance) \<Rightarrow>
          if int64_range balance then Inr ((k, s, p, u, balance), d) else Inl OutOfRange)"

definition creditCheck :: "pay_config \<Rightarrow> string option \<Rightarrow> (pay_world, response) act" where
  "creditCheck cfg body =
     (case body of
        None \<Rightarrow> reply invalid
      | Some hmac \<Rightarrow>
     bnd (require (nonBlank hmac) invalid) (\<lambda>_.
     bnd (orReply (db_exec (readCredit hmac))
       (errorJSON 401 ''invalid_subscription_key'' ''Subscription Key is unknown or revoked'')) (\<lambda>(k, s, p, u, balance).
     bnd (require (k_status k = ''active'')
       (errorJSON 401 ''invalid_subscription_key'' ''Subscription Key is unknown or revoked'')) (\<lambda>_.
     let allowed = (s_status s = ''active'' \<and> p_status p = ''active'' \<and> balance > 0);
         available = (if allowed then balance else 0)
     in
     bnd (gets now) (\<lambda>t.
     ret (writeJSON 200 (JObj
       [(''status'', JStr (if allowed then ''allowed'' else ''denied'')),
        (''available_microcredits'', JInt available),
        (''account_id'', JStr (s_account s)), (''subscription_id'', JStr (s_id s)),
        (''subscription_key_id'', JStr (k_id k)), (''product_id'', JStr (p_id p)),
        (''billing_mode'', JStr (p_billing_mode p)),
        (''owner_identity_issuer'', JStr (u_issuer u)), (''owner_identity_subject'', JStr (u_subject u)),
        (''checked_at'', JTime t),
        (''recheck_after_seconds'', JInt (recheck_interval cfg sdiv second))])))))))"

end
