(* ===== verification/PayAdmin.thy ===== *)
theory PayAdmin
  imports PayKeys
begin

section \<open>The administration API of GizPay\<close>

text \<open>
  \<open>internal/gizpay/admin.go\<close>: products, product listings and service principals under the
  administrator's key. Creations are instances of \<open>idempotent_create\<close>.
\<close>

subsection \<open>Helpers\<close>

definition nonBlankAll :: "string list \<Rightarrow> bool" where
  "nonBlankAll values = list_all nonBlank values"

definition oneOf :: "string \<Rightarrow> string list \<Rightarrow> bool" where
  "oneOf v allowed \<longleftrightarrow> v \<in> set allowed"

fun sameStrings :: "string list \<Rightarrow> string list \<Rightarrow> bool" where
  "sameStrings [] [] = True"
| "sameStrings (l # ls) (r # rs) = (l = r \<and> sameStrings ls rs)"
| "sameStrings _ _ = False"

definition adminConflict :: response where
  "adminConflict =
     errorJSON 409 ''resource_id_conflict'' ''resource ID already exists with different content''"

definition adminDependencyNotFound :: response where
  "adminDependencyNotFound =
     errorJSON 404 ''dependency_not_found'' ''required parent resource was not found''"

text \<open>A slice that \<open>Select\<close> has filled: without rows it is nil, which is encoded as \<open>null\<close>.\<close>

definition sliceJSON :: "json list \<Rightarrow> response" where
  "sliceJSON xs = writeJSON 200 (JObj [(''data'', if xs = [] then JNull else JArr xs)])"

definition badStatus :: "string option \<Rightarrow> bool" where
  "badStatus stat \<longleftrightarrow> (case stat of None \<Rightarrow> False | Some s \<Rightarrow> \<not> oneOf s [''active'', ''inactive''])"

definition blankName :: "string option \<Rightarrow> bool" where
  "blankName x \<longleftrightarrow> (case x of None \<Rightarrow> False | Some n \<Rightarrow> blank n)"

subsection \<open>Products\<close>

record admin_product_request =
  ap_id :: string
  ap_merchant_id :: string
  ap_pname :: string
  ap_billing :: string
  ap_published :: bool
  ap_status :: string
  ap_terms :: string

record admin_product_patch =
  app_name :: "string option"
  app_published :: "bool option"
  app_status :: "string option"
  app_terms :: "string option"

definition adminProduct :: "string \<Rightarrow> (pay_world, sqlerr + product) act" where
  "adminProduct i = db_exec (readRow (productById i))"

definition sameAdminProduct :: "admin_product_request \<Rightarrow> product \<Rightarrow> bool" where
  "sameAdminProduct b p \<longleftrightarrow>
     p_merchant p = ap_merchant_id b \<and> p_name p = ap_pname b \<and> p_billing_mode p = ap_billing b \<and>
     p_published p = ap_published b \<and> p_status p = ap_status b \<and> p_terms p = ap_terms b"

definition adminProductAcceptable :: "admin_product_request \<Rightarrow> bool" where
  "adminProductAcceptable b \<longleftrightarrow>
     nonBlankAll [ap_id b, ap_merchant_id b, ap_pname b, ap_terms b] \<and>
     ap_billing b = ''pay_as_you_go'' \<and> oneOf (ap_status b) [''active'', ''inactive'']"

definition createAdminProduct :: "admin_product_request option \<Rightarrow> (pay_world, response) act" where
  "createAdminProduct body =
     (case body of
        None \<Rightarrow> reply invalid
      | Some b \<Rightarrow>
     bnd (require (adminProductAcceptable b) invalid) (\<lambda>_.
     bnd (adminProduct (ap_id b)) (\<lambda>x. case x of
       Inr p \<Rightarrow> if \<not> sameAdminProduct b p then reply adminConflict else reply (writeJSON 200 (productJSON p))
     | Inl e \<Rightarrow> if e \<noteq> NoRows then reply internal else
     bnd (orReply (db_exec (reading (\<lambda>d. countRows (\<lambda>m. m_id m = ap_merchant_id b) (merchants d)))) internal) (\<lambda>n.
     bnd (require (n \<noteq> 0) adminDependencyNotFound) (\<lambda>_.
     bnd (gets now) (\<lambda>t.
     bnd (db_exec (insertProduct \<lparr> p_id = ap_id b, p_merchant = ap_merchant_id b, p_name = ap_pname b,
        p_billing_mode = ap_billing b, p_published = ap_published b, p_status = ap_status b,
        p_terms = ap_terms b, p_created_at = t, p_updated_at = t \<rparr>)) (\<lambda>ins. case ins of
       Inl e1 \<Rightarrow>
         bnd (adminProduct (ap_id b)) (\<lambda>y.
         case y of
           Inr p \<Rightarrow> if sameAdminProduct b p then reply (writeJSON 200 (productJSON p)) else reply adminConflict
         | Inl e2 \<Rightarrow> reply adminConflict)
     | Inr u \<Rightarrow>
         bnd (orReply (adminProduct (ap_id b)) internal) (\<lambda>p. ret (writeJSON 201 (productJSON p))))))))))"

definition adminProducts :: "httpMethod \<Rightarrow> admin_product_request option \<Rightarrow> (pay_world, response) act" where
  "adminProducts meth body =
     (if meth = GET
      then bnd (orReply (db_exec (reading (\<lambda>d. orderBy p_created_at p_id (products d)))) internal) (\<lambda>rows.
           ret (sliceJSON (map productJSON rows)))
      else createAdminProduct body)"

definition updateProductRow :: "product \<Rightarrow> string \<Rightarrow> (pay_db, unit) query" where
  "updateProductRow p i d =
     (if list_ex (\<lambda>x. p_id x = i) (products d) \<and> \<not> (sqlText (p_name p) \<and> sqlText (p_terms p)) then Inl CheckViolation
      else Inr ((), d\<lparr>products := updateRows (\<lambda>x. p_id x = i)
             (\<lambda>x. x\<lparr>p_name := p_name p, p_published := p_published p, p_status := p_status p,
                   p_terms := p_terms p, p_updated_at := p_updated_at p\<rparr>) (products d)\<rparr>))"

definition disableProductRow :: "time \<Rightarrow> string \<Rightarrow> (pay_db, unit) query" where
  "disableProductRow t i d = Inr ((), d\<lparr>products := updateRows (\<lambda>x. p_id x = i)
     (\<lambda>x. x\<lparr>p_status := ''inactive'', p_updated_at := t\<rparr>) (products d)\<rparr>)"

definition notFoundOrInternal :: "sqlerr \<Rightarrow> response" where
  "notFoundOrInternal e = (if e = NoRows then notFound else internal)"

text \<open>A method without a case writes nothing, which net/http completes to an empty 200.\<close>

definition adminProductResource ::
  "httpMethod \<Rightarrow> admin_product_patch option \<Rightarrow> string \<Rightarrow> (pay_world, response) act" where
  "adminProductResource meth body i =
     bnd (orReplyWith (adminProduct i) notFoundOrInternal) (\<lambda>p.
     if meth = GET then ret (writeJSON 200 (productJSON p))
     else if meth = PATCH
     then (case body of
             None \<Rightarrow> reply invalid
           | Some b \<Rightarrow>
          bnd (require (\<not> (app_name b = None \<and> app_published b = None \<and> app_status b = None \<and> app_terms b = None) \<and>
             \<not> blankName (app_name b) \<and> \<not> blankName (app_terms b) \<and> \<not> badStatus (app_status b)) invalid) (\<lambda>_.
          bnd (gets now) (\<lambda>t.
          let p' = p\<lparr>p_name := orOld (app_name b) (p_name p), p_published := orOld (app_published b) (p_published p),
                p_status := orOld (app_status b) (p_status p), p_terms := orOld (app_terms b) (p_terms p),
                p_updated_at := t\<rparr>
          in
          bnd (orReply (db_exec (updateProductRow p' i)) internal) (\<lambda>_.
          ret (writeJSON 200 (productJSON p'))))))
     else if meth = DELETE
     then if p_status p \<noteq> ''inactive''
          then bnd (gets now) (\<lambda>t.
               bnd (orReply (db_exec (disableProductRow t i)) internal) (\<lambda>_. ret (writeHeader 204)))
          else ret (writeHeader 204)
     else ret (writeHeader 200))"

subsection \<open>Product listings\<close>

record admin_listing_request =
  al_id :: string
  al_product :: string
  al_site :: string
  al_title :: string
  al_description :: string
  al_billing :: string
  al_price_text :: string
  al_order :: int
  al_status :: string

record admin_listing_patch =
  alp_title :: "string option"
  alp_description :: "string option"
  alp_price_text :: "string option"
  alp_order :: "int option"
  alp_status :: "string option"

definition listingById :: "string \<Rightarrow> pay_db \<Rightarrow> product_listing option" where
  "listingById i d = find (\<lambda>l. pl_id l = i) (product_listings d)"

definition adminProductListing :: "string \<Rightarrow> (pay_world, sqlerr + product_listing) act" where
  "adminProductListing i = db_exec (readRow (listingById i))"

definition listingJSON :: "product_listing \<Rightarrow> json" where
  "listingJSON l = JObj
     [(''id'', JStr (pl_id l)), (''product_id'', JStr (pl_product l)), (''site'', JStr (pl_site l)),
      (''title'', JStr (pl_title l)), (''description'', JStr (pl_description l)),
      (''billing_mode'', JStr (pl_billing_mode l)), (''price_text'', JStr (pl_price_text l)),
      (''display_order'', JInt (pl_display_order l)), (''status'', JStr (pl_status l)),
      (''created_at'', JTime (pl_created_at l)), (''updated_at'', JTime (pl_updated_at l))]"

definition sameProductListing :: "admin_listing_request \<Rightarrow> product_listing \<Rightarrow> bool" where
  "sameProductListing b l \<longleftrightarrow>
     pl_id l = al_id b \<and> pl_product l = al_product b \<and> pl_site l = al_site b \<and> pl_title l = al_title b \<and>
     pl_description l = al_description b \<and> pl_billing_mode l = al_billing b \<and>
     pl_price_text l = al_price_text b \<and> pl_display_order l = al_order b \<and> pl_status l = al_status b"

definition adminListingAcceptable :: "admin_listing_request \<Rightarrow> bool" where
  "adminListingAcceptable b \<longleftrightarrow>
     nonBlankAll [al_id b, al_product b, al_site b, al_title b] \<and> al_billing b = ''pay_as_you_go'' \<and>
     oneOf (al_status b) [''active'', ''inactive'']"

definition createAdminListing :: "admin_listing_request option \<Rightarrow> (pay_world, response) act" where
  "createAdminListing body =
     (case body of
        None \<Rightarrow> reply invalid
      | Some b \<Rightarrow>
     bnd (require (adminListingAcceptable b) invalid) (\<lambda>_.
     bnd (adminProductListing (al_id b)) (\<lambda>x. case x of
       Inr l \<Rightarrow> if \<not> sameProductListing b l then reply adminConflict else reply (writeJSON 200 (listingJSON l))
     | Inl e \<Rightarrow> if e \<noteq> NoRows then reply internal else
     bnd (orReplyWith (adminProduct (al_product b)) (\<lambda>e. if e = NoRows then adminDependencyNotFound else internal)) (\<lambda>_.
     bnd (gets now) (\<lambda>t.
     bnd (db_exec (insertProductListing \<lparr> pl_id = al_id b, pl_product = al_product b, pl_site = al_site b,
        pl_title = al_title b, pl_description = al_description b, pl_billing_mode = al_billing b,
        pl_price_text = al_price_text b, pl_display_order = al_order b, pl_status = al_status b,
        pl_created_at = t, pl_updated_at = t \<rparr>)) (\<lambda>ins. case ins of
       Inl e1 \<Rightarrow>
         bnd (adminProductListing (al_id b)) (\<lambda>y.
         case y of
           Inr l \<Rightarrow> if sameProductListing b l then reply (writeJSON 200 (listingJSON l)) else reply adminConflict
         | Inl e2 \<Rightarrow> reply adminConflict)
     | Inr u \<Rightarrow>
         bnd (orReply (adminProductListing (al_id b)) internal) (\<lambda>l. ret (writeJSON 201 (listingJSON l)))))))))"

definition adminProductListings :: "httpMethod \<Rightarrow> admin_listing_request option \<Rightarrow> (pay_world, response) act" where
  "adminProductListings meth body =
     (if meth = GET
      then bnd (orReply (db_exec (reading (\<lambda>d. orderBy pl_created_at pl_id (product_listings d)))) internal) (\<lambda>rows.
           ret (sliceJSON (map listingJSON rows)))
      else createAdminListing body)"

definition updateListingRow :: "product_listing \<Rightarrow> string \<Rightarrow> (pay_db, unit) query" where
  "updateListingRow l i d =
     (if list_ex (\<lambda>x. pl_id x = i) (product_listings d) \<and>
         \<not> (sqlText (pl_title l) \<and> -2147483648 \<le> pl_display_order l \<and> pl_display_order l \<le> 2147483647)
      then Inl CheckViolation
      else Inr ((), d\<lparr>product_listings := updateRows (\<lambda>x. pl_id x = i)
             (\<lambda>x. x\<lparr>pl_title := pl_title l, pl_description := pl_description l, pl_price_text := pl_price_text l,
                   pl_display_order := pl_display_order l, pl_status := pl_status l,
                   pl_updated_at := pl_updated_at l\<rparr>) (product_listings d)\<rparr>))"

definition disableListingRow :: "time \<Rightarrow> string \<Rightarrow> (pay_db, unit) query" where
  "disableListingRow t i d = Inr ((), d\<lparr>product_listings := updateRows (\<lambda>x. pl_id x = i)
     (\<lambda>x. x\<lparr>pl_status := ''inactive'', pl_updated_at := t\<rparr>) (product_listings d)\<rparr>)"

definition adminProductListingResource ::
  "httpMethod \<Rightarrow> admin_listing_patch option \<Rightarrow> string \<Rightarrow> (pay_world, response) act" where
  "adminProductListingResource meth body i =
     bnd (orReplyWith (adminProductListing i) notFoundOrInternal) (\<lambda>l.
     if meth = GET then ret (writeJSON 200 (listingJSON l))
     else if meth = PATCH
     then (case body of
             None \<Rightarrow> reply invalid
           | Some b \<Rightarrow>
          bnd (require (\<not> (alp_title b = None \<and> alp_description b = None \<and> alp_price_text b = None \<and>
               alp_order b = None \<and> alp_status b = None) \<and>
             \<not> blankName (alp_title b) \<and> \<not> badStatus (alp_status b)) invalid) (\<lambda>_.
          bnd (gets now) (\<lambda>t.
          let l' = l\<lparr>pl_title := orOld (alp_title b) (pl_title l), pl_description := orOld (alp_description b) (pl_description l),
                pl_price_text := orOld (alp_price_text b) (pl_price_text l),
                pl_display_order := orOld (alp_order b) (pl_display_order l),
                pl_status := orOld (alp_status b) (pl_status l), pl_updated_at := t\<rparr>
          in
          bnd (orReply (db_exec (updateListingRow l' i)) internal) (\<lambda>_.
          ret (writeJSON 200 (listingJSON l'))))))
     else if meth = DELETE
     then if pl_status l \<noteq> ''inactive''
          then bnd (gets now) (\<lambda>t.
               bnd (orReply (db_exec (disableListingRow t i)) internal) (\<lambda>_. ret (writeHeader 204)))
          else ret (writeHeader 204)
     else ret (writeHeader 200))"

subsection \<open>Service principals\<close>

record admin_principal_request =
  aq_id :: string
  aq_owner_issuer :: string
  aq_owner_subject :: string
  aq_issuer :: string
  aq_subject :: string
  aq_name :: string
  aq_roles :: "string list"
  aq_status :: string

text \<open>A service principal with its owner: \<open>service_principals JOIN users\<close>.\<close>

type_synonym principal_view = "service_principal \<times> user"

definition principalView :: "pay_db \<Rightarrow> service_principal \<Rightarrow> principal_view list" where
  "principalView d p = (case userById (sp_owner p) d of None \<Rightarrow> [] | Some u \<Rightarrow> [(p, u)])"

definition principalViewById :: "string \<Rightarrow> pay_db \<Rightarrow> principal_view option" where
  "principalViewById i d =
     (case find (\<lambda>p. sp_id p = i) (service_principals d) of
        None \<Rightarrow> None
      | Some p \<Rightarrow> map_option (\<lambda>u. (p, u)) (userById (sp_owner p) d))"

definition adminServicePrincipal :: "string \<Rightarrow> (pay_world, sqlerr + principal_view) act" where
  "adminServicePrincipal i = db_exec (readRow (principalViewById i))"

definition adminServicePrincipalList :: "(pay_world, sqlerr + principal_view list) act" where
  "adminServicePrincipalList =
     db_exec (reading (\<lambda>d. concat (map (principalView d) (orderBy sp_created_at sp_id (service_principals d)))))"

definition principalViewJSON :: "principal_view \<Rightarrow> json" where
  "principalViewJSON v =
     (case v of (p, u) \<Rightarrow> JObj
       ([(''id'', JStr (sp_id p)), (''owner_identity_issuer'', JStr (u_issuer u)),
         (''owner_identity_subject'', JStr (u_subject u)), (''identity_issuer'', JStr (sp_issuer p)),
         (''identity_subject'', JStr (sp_subject p)), (''name'', JStr (sp_name p)),
         (''status'', JStr (sp_status p)), (''created_at'', JTime (sp_created_at p))] @
        (case sp_revoked_at p of None \<Rightarrow> [] | Some t \<Rightarrow> [(''revoked_at'', JTime t)]) @
        [(''roles'', JArr (map JStr (sp_roles p)))]))"

definition sameAdminServicePrincipal :: "admin_principal_request \<Rightarrow> principal_view \<Rightarrow> bool" where
  "sameAdminServicePrincipal b v \<longleftrightarrow>
     (case v of (p, u) \<Rightarrow>
        u_issuer u = aq_owner_issuer b \<and> u_subject u = aq_owner_subject b \<and>
        sp_issuer p = aq_issuer b \<and> sp_subject p = aq_subject b \<and> sp_name p = aq_name b \<and>
        sp_status p = aq_status b \<and> sameStrings (sp_roles p) (aq_roles b))"

definition adminPrincipalAcceptable :: "admin_principal_request \<Rightarrow> bool" where
  "adminPrincipalAcceptable b \<longleftrightarrow>
     nonBlankAll [aq_id b, aq_owner_issuer b, aq_owner_subject b, aq_issuer b, aq_subject b, aq_name b] \<and>
     aq_status b = ''active'' \<and> validServiceAccountRoles (aq_roles b)"

definition createAdminServicePrincipal :: "admin_principal_request option \<Rightarrow> (pay_world, response) act" where
  "createAdminServicePrincipal body =
     (case body of
        None \<Rightarrow> reply invalid
      | Some b \<Rightarrow>
     bnd (require (adminPrincipalAcceptable b) invalid) (\<lambda>_.
     bnd (adminServicePrincipal (aq_id b)) (\<lambda>x. case x of
       Inr v \<Rightarrow> if \<not> sameAdminServicePrincipal b v then reply adminConflict else reply (writeJSON 200 (principalViewJSON v))
     | Inl e \<Rightarrow> if e \<noteq> NoRows then reply internal else
     bnd (orReplyWith (db_exec (readRow (\<lambda>d. map_option u_id (userByIdentity (aq_owner_issuer b) (aq_owner_subject b) d))))
        (\<lambda>e. if e = NoRows then adminDependencyNotFound else internal)) (\<lambda>ownerID.
     bnd (gets now) (\<lambda>t.
     bnd (db_exec (insertServicePrincipal \<lparr> sp_id = aq_id b, sp_owner = ownerID, sp_issuer = aq_issuer b,
        sp_subject = aq_subject b, sp_key_id = None, sp_name = aq_name b, sp_roles = aq_roles b,
        sp_status = ''active'', sp_created_at = t, sp_revoked_at = None \<rparr>)) (\<lambda>ins. case ins of
       Inl e1 \<Rightarrow>
         bnd (adminServicePrincipal (aq_id b)) (\<lambda>y.
         case y of
           Inr v \<Rightarrow> if sameAdminServicePrincipal b v then reply (writeJSON 200 (principalViewJSON v)) else reply adminConflict
         | Inl e2 \<Rightarrow> reply adminConflict)
     | Inr u \<Rightarrow>
         bnd (orReply (adminServicePrincipal (aq_id b)) internal) (\<lambda>v. ret (writeJSON 201 (principalViewJSON v)))))))))"

definition adminServicePrincipals :: "httpMethod \<Rightarrow> admin_principal_request option \<Rightarrow> (pay_world, response) act" where
  "adminServicePrincipals meth body =
     (if meth = GET
      then bnd (orReply adminServicePrincipalList internal) (\<lambda>vs. ret (sliceJSON (map principalViewJSON vs)))
      else createAdminServicePrincipal body)"

text \<open>The update of name and roles, under the trigger that protects revoked rows.\<close>

definition updatePrincipalRow :: "string \<Rightarrow> string list \<Rightarrow> string \<Rightarrow> (pay_db, unit) query" where
  "updatePrincipalRow name roles i d =
     (if list_ex (\<lambda>p. sp_id p = i \<and> sp_status p = ''revoked'') (service_principals d) then Inl Raised
      else if list_ex (\<lambda>p. sp_id p = i) (service_principals d) \<and> \<not> sqlText name then Inl CheckViolation
      else Inr ((), d\<lparr>service_principals := updateRows (\<lambda>p. sp_id p = i)
             (\<lambda>p. p\<lparr>sp_name := name, sp_roles := roles\<rparr>) (service_principals d)\<rparr>))"

definition adminServicePrincipalResource ::
  "httpMethod \<Rightarrow> (string option \<times> string list option) option \<Rightarrow> string \<Rightarrow> (pay_world, response) act" where
  "adminServicePrincipalResource meth body i =
     bnd (orReplyWith (adminServicePrincipal i) notFoundOrInternal) (\<lambda>(p, u).
     if meth = GET then ret (writeJSON 200 (principalViewJSON (p, u)))
     else if meth = PATCH
     then (case body of
             None \<Rightarrow> reply invalid
           | Some (name, roles) \<Rightarrow>
          bnd (require (\<not> (name = None \<and> roles = None) \<and> \<not> blankName name \<and>
             (case roles of None \<Rightarrow> True | Some rs \<Rightarrow> validServiceAccountRoles rs)) invalid) (\<lambda>_.
          let p' = p\<lparr>sp_name := orOld name (sp_name p), sp_roles := orOld roles (sp_roles p)\<rparr> in
          bnd (orReply (db_exec (updatePrincipalRow (sp_name p') (sp_roles p') i)) internal) (\<lambda>_.
          ret (writeJSON 200 (principalViewJSON (p', u))))))
     else if meth = DELETE
     then if sp_status p \<noteq> ''revoked''
          then bnd (gets now) (\<lambda>t.
               bnd (orReply (db_exec (revokePrincipal t i)) internal) (\<lambda>_. ret (writeHeader 204)))
          else ret (writeHeader 204)
     else ret (writeHeader 200))"

end
