(* ===== verification/PayRoutes.thy ===== *)
theory PayRoutes
  imports PayAdmin
begin

section \<open>Authentication and routing of GizPay\<close>

text \<open>
  \<open>ServeHTTP\<close>, \<open>serveAccount\<close>, \<open>serveService\<close> and \<open>serveAdmin\<close> of \<open>internal/gizpay\<close>, the reads
  of an account, and the surface filter of \<open>internal/api/server.go\<close>. The parsers of the request
  bodies are a parameter, \<open>pay_decoders\<close>: \<open>encoding/json\<close> with unknown fields refused.
\<close>

subsection \<open>Reads of an account\<close>

definition lookupHuman :: "principal \<Rightarrow> (pay_world, sqlerr + string \<times> string) act" where
  "lookupHuman p =
     db_exec (readRow (\<lambda>d. case userByIdentity (pr_issuer p) (pr_subject p) d of
        None \<Rightarrow> None
      | Some u \<Rightarrow> map_option (\<lambda>a. (u_id u, a_id a)) (accountByOwner (u_id u) d)))"

definition writeHumanLookupError :: "sqlerr \<Rightarrow> response" where
  "writeHumanLookupError e = (if e = NoRows then notFound else internal)"

definition accountJSON :: "account \<Rightarrow> json" where
  "accountJSON a = JObj
     [(''id'', JStr (a_id a)), (''status'', JStr (a_status a)), (''created_at'', JTime (a_created_at a)),
      (''kind'', JStr ''personal''), (''asset'', JStr ''GIZ_CREDIT''),
      (''ledger_accounts'', JArr [JObj [(''asset_code'', JStr ''GIZ_CREDIT'')]])]"

definition listAccounts :: "string \<Rightarrow> (pay_world, response) act" where
  "listAccounts userID =
     bnd (orReply (db_exec (reading (\<lambda>d. orderBy a_created_at a_id
        (filter (\<lambda>a. a_owner a = userID) (accounts d))))) internal) (\<lambda>rows.
     ret (listJSON (map accountJSON rows)))"

definition entryJSON :: "pay_db \<Rightarrow> ledger_entry \<Rightarrow> json" where
  "entryJSON d e = JObj
     [(''account_id'', case find (\<lambda>l. la_id l = le_account e) (ledger_accounts d) of
         None \<Rightarrow> JNull
       | Some l \<Rightarrow> (case la_owner l of None \<Rightarrow> JNull | Some a \<Rightarrow> JStr a)),
      (''direction'', JStr (case le_direction e of Debit \<Rightarrow> ''debit'' | Credit \<Rightarrow> ''credit'')),
      (''amount_microcredits'', JInt (le_amount e))]"

definition accountTransactionIds :: "string \<Rightarrow> string \<Rightarrow> pay_db \<Rightarrow> string list" where
  "accountTransactionIds accountID transactionID d =
     sort (remdups (map le_txn (filter (\<lambda>e.
       list_ex (\<lambda>l. la_id l = le_account e \<and> la_owner l = Some accountID) (ledger_accounts d) \<and>
       list_ex (\<lambda>t. lt_id t = le_txn e) (ledger_transactions d) \<and>
       (transactionID = [] \<or> le_txn e = transactionID)) (ledger_entries d))))"

definition listTransactions :: "string \<Rightarrow> string \<Rightarrow> (pay_world, response) act" where
  "listTransactions accountID transactionID =
     bnd (orReply (db_exec (reading (accountTransactionIds accountID transactionID))) internal) (\<lambda>ids.
     bnd (mapA (\<lambda>i.
       bnd (orZero (db_exec (reading (\<lambda>d. map (entryJSON d)
          (sort_key le_id (filter (\<lambda>e. le_txn e = i) (ledger_entries d)))))) []) (\<lambda>entries.
       ret (JObj [(''id'', JStr i), (''entries'', JArr entries)]))) ids) (\<lambda>items.
     ret (listJSON items)))"

record pay_decoders =
  dec_action :: "string \<Rightarrow> action_payload option"
  dec_topup :: "string \<Rightarrow> topup_request option"
  dec_service_account :: "string \<Rightarrow> service_account_request option"
  dec_merchant :: "string \<Rightarrow> merchant_request option"
  dec_merchant_patch :: "string \<Rightarrow> (string option \<times> string option) option"
  dec_product :: "string \<Rightarrow> product_request option"
  dec_product_patch :: "string \<Rightarrow> (string option \<times> string option) option"
  dec_subscription :: "string \<Rightarrow> subscription_request option"
  dec_subscription_patch :: "string \<Rightarrow> string option"
  dec_key :: "string \<Rightarrow> (string \<times> string) option"
  dec_credit_check :: "string \<Rightarrow> string option"
  dec_charge :: "string \<Rightarrow> charge_request option"
  dec_admin_product :: "string \<Rightarrow> admin_product_request option"
  dec_admin_product_patch :: "string \<Rightarrow> admin_product_patch option"
  dec_admin_listing :: "string \<Rightarrow> admin_listing_request option"
  dec_admin_listing_patch :: "string \<Rightarrow> admin_listing_patch option"
  dec_admin_principal :: "string \<Rightarrow> admin_principal_request option"
  dec_admin_principal_patch :: "string \<Rightarrow> (string option \<times> string list option) option"

definition accountRead :: "pay_decoders \<Rightarrow> http_request \<Rightarrow> string \<Rightarrow> (pay_world, response) act" where
  "accountRead dec r ownedID =
     (let parts = splitOn CHR ''/'' (trimChar CHR ''/'' (rq_path r)) in
      if length parts < 5 \<or> parts ! 3 \<noteq> ownedID then reply notFound
      else if parts ! 4 = ''balance''
      then if rq_method r \<noteq> GET then reply notFound
           else bnd (orReply (db_exec (accountBalance ownedID)) notFound) (\<lambda>balance.
                ret (writeJSON 200 (JObj [(''account_id'', JStr ownedID), (''balance_microcredits'', JInt balance)])))
      else if parts ! 4 = ''charges''
      then if rq_method r \<noteq> GET then reply notFound else listAccountCharges ownedID
      else if parts ! 4 = ''transactions''
      then if rq_method r \<noteq> GET then reply notFound
           else listTransactions ownedID (query_value r ''ledger_transaction_id'')
      else if parts ! 4 = ''topups''
      then accountTopups (rq_method r) ownedID (dec_topup dec (rq_body r))
      else reply notFound)"

subsection \<open>The three surfaces\<close>

definition serveAccount ::
  "pay_config \<Rightarrow> pay_deps \<Rightarrow> pay_decoders \<Rightarrow> http_request \<Rightarrow> (pay_world, response) act" where
  "serveAccount cfg env dec r =
     (let path = rq_path r; meth = rq_method r; body = rq_body r in
      case authenticate env r (human_audience cfg) of
        None \<Rightarrow>
          if authenticate env r (service_audience cfg) \<noteq> None
          then reply (errorJSON 403 ''human_identity_required'' ''human identity required'')
          else reply (errorJSON 401 ''invalid_token'' ''invalid token'')
      | Some p \<Rightarrow>
     bnd (orReplyWith (lookupHuman p) writeHumanLookupError) (\<lambda>(userID, accountID).
     if meth = GET \<and> path = ''/account/v1/accounts'' then listAccounts userID
     else if hasPrefix path ''/account/v1/accounts/'' then accountRead dec r accountID
     else if meth = GET \<and> path = ''/account/v1/products'' then listProducts
     else if path = ''/account/v1/service-accounts'' then
       serviceAccounts env meth (dec_service_account dec body) userID
     else if hasPrefix path ''/account/v1/service-accounts/'' then
       revokeServiceAccount env meth (path_value r ''service_account_id'') userID
     else if path = ''/account/v1/merchants'' then merchantsHandler meth (dec_merchant dec body) userID
     else if hasPrefix path ''/account/v1/merchants/'' then
       merchantResource meth path (path_value r ''merchant_id'') (dec_merchant_patch dec body) (dec_product dec body) userID
     else if hasPrefix path ''/account/v1/products/'' then
       productResource meth path (path_value r ''product_id'') (dec_product_patch dec body)
         (dec_subscription dec body) userID accountID
     else if path = ''/account/v1/subscriptions'' then listSubscriptions userID
     else if hasPrefix path ''/account/v1/subscriptions/'' then
       subscriptionResource cfg env meth path (path_value r ''subscription_id'') (path_value r ''subscription_key_id'')
         (dec_subscription_patch dec body) (dec_key dec body) userID
     else reply notFound))"

definition serveService ::
  "pay_config \<Rightarrow> pay_deps \<Rightarrow> pay_decoders \<Rightarrow> http_request \<Rightarrow> (pay_world, response) act" where
  "serveService cfg env dec r =
     (case authenticate env r (service_audience cfg) of
        None \<Rightarrow>
          if authenticate env r (human_audience cfg) \<noteq> None
          then reply (errorJSON 403 ''insufficient_role'' ''machine role required'')
          else reply (errorJSON 401 ''invalid_token'' ''invalid token'')
      | Some p \<Rightarrow>
     bnd (orReply (db_exec (readRow (principalByIdentity (pr_issuer p) (pr_subject p))))
       (errorJSON 401 ''service_principal_revoked'' ''service principal is not active'')) (\<lambda>sp.
     bnd (require (sp_status sp = ''active'')
       (errorJSON 401 ''service_principal_revoked'' ''service principal is not active'')) (\<lambda>_.
     if rq_method r = POST \<and> hasSuffix (rq_path r) ''subscription-credit-checks''
     then bnd (require (''credit_check'' \<in> set (pr_roles p))
            (errorJSON 403 ''insufficient_role'' ''missing credit_check role'')) (\<lambda>_.
          creditCheck cfg (dec_credit_check dec (rq_body r)))
     else if rq_method r = POST \<and> hasSuffix (rq_path r) ''payg-charges''
     then bnd (require (''charge'' \<in> set (pr_roles p))
            (errorJSON 403 ''insufficient_role'' ''missing charge role'')) (\<lambda>_.
          createCharge cfg (rq_header r ''X-Gizway-Test-Failpoint'') (dec_charge dec (rq_body r)) (sp_id sp))
     else if rq_method r = GET \<and> containsStr (rq_path r) ''/payg-charges/''
     then bnd (require (''charge'' \<in> set (pr_roles p))
            (errorJSON 403 ''insufficient_role'' ''missing charge role'')) (\<lambda>_.
          getCharge (path_value r ''external_order_id''))
     else reply notFound)))"

definition serveAdmin ::
  "pay_config \<Rightarrow> pay_decoders \<Rightarrow> http_request \<Rightarrow> (pay_world, response) act" where
  "serveAdmin cfg dec r =
     (let path = rq_path r; meth = rq_method r; body = rq_body r in
      if admin_key cfg = [] \<or> rq_header r ''X-GizWay-Admin-Key'' \<noteq> admin_key cfg
      then reply (errorJSON 401 ''invalid_admin_key'' ''invalid Admin Key'')
      else if path = ''/admin/v1/products'' then adminProducts meth (dec_admin_product dec body)
      else if hasPrefix path ''/admin/v1/products/'' then
        adminProductResource meth (dec_admin_product_patch dec body) (path_value r ''product_id'')
      else if path = ''/admin/v1/product-listings'' then adminProductListings meth (dec_admin_listing dec body)
      else if hasPrefix path ''/admin/v1/product-listings/'' then
        adminProductListingResource meth (dec_admin_listing_patch dec body) (path_value r ''product_listing_id'')
      else if path = ''/admin/v1/service-principals'' then adminServicePrincipals meth (dec_admin_principal dec body)
      else if hasPrefix path ''/admin/v1/service-principals/'' then
        adminServicePrincipalResource meth (dec_admin_principal_patch dec body) (path_value r ''service_principal_id'')
      else reply notFound)"

text \<open>
  The environment of the webhook: HMAC-SHA-256, \<open>uuid.Parse\<close> and the content of the signing
  key file; \<open>readBody\<close> is the body that \<open>io.ReadAll\<close> delivered within the limit.
\<close>

record webhook_deps =
  wd_mac :: "string \<Rightarrow> string \<Rightarrow> string"
  wd_uuid :: "string \<Rightarrow> string option"
  wd_key_file :: "string option"
  wd_read :: "string \<Rightarrow> string option"

definition servePay ::
  "pay_config \<Rightarrow> pay_deps \<Rightarrow> webhook_deps \<Rightarrow> pay_decoders \<Rightarrow> http_request \<Rightarrow> (pay_world, response) act" where
  "servePay cfg env hook dec r =
     (let path = rq_path r in
      if hasPrefix path ''/admin/v1/'' then serveAdmin cfg dec r
      else if rq_method r = POST \<and> path = ''/webhooks/v1/zitadel/user-authenticated''
      then zitadelUserAuthenticated cfg (wd_mac hook) (wd_uuid hook) (wd_key_file hook)
             (wd_read hook (rq_body r)) (rq_header r) (dec_action dec)
      else if hasPrefix path ''/account/'' then serveAccount cfg env dec r
      else if hasPrefix path ''/service/'' then serveService cfg env dec r
      else reply notFound)"

text \<open>\<open>surfaceHandler\<close>: which paths of a request reach the route table of a surface.\<close>

datatype surface = SurfaceGizPay | SurfaceGizWay

definition surfaceAllows :: "surface \<Rightarrow> string \<Rightarrow> bool" where
  "surfaceAllows surf path =
     (if surf = SurfaceGizPay \<and> path = ''/account/v1/initialize'' then False
      else (path = ''/healthz'' \<or> hasPrefix path ''/test/'') \<or>
        (case surf of
           SurfaceGizPay \<Rightarrow> hasPrefix path ''/account/'' \<or> hasPrefix path ''/service/'' \<or>
             hasPrefix path ''/webhooks/'' \<or> hasPrefix path ''/admin/''
         | SurfaceGizWay \<Rightarrow> hasPrefix path ''/user/'' \<or> hasPrefix path ''/openai/'' \<or>
             hasPrefix path ''/anthropic/'' \<or> hasPrefix path ''/genai/'' \<or> hasPrefix path ''/auth/'' \<or>
             hasPrefix path ''/admin/''))"

definition surfaceHandler :: "surface \<Rightarrow> (http_request \<Rightarrow> ('s, response) act) \<Rightarrow> http_request \<Rightarrow> ('s, response) act" where
  "surfaceHandler surf handler r =
     (if surfaceAllows surf (rq_path r) then handler r else reply notFound)"

end
