(* ===== verification/PayHistory.thy ===== *)
theory PayHistory
  imports PayRoutes Evolution
begin

section \<open>What no request to GizPay can undo\<close>

text \<open>
  Two evolutions of the GizPay database, kept by \<open>servePay\<close> for every request, failure and
  answer. \<open>history\<close>: the ledger, the charges, commissions and top-ups only grow, a posted
  transaction stays as it is, a subscription key keeps its material and once revoked stays
  revoked since the same time, and a revoked service principal is never changed. \<open>sound\<close>: the
  ledger invariant \<open>payInv\<close> is preserved.
\<close>

subsection \<open>The relation\<close>

definition txnKept :: "ledger_transaction \<Rightarrow> ledger_transaction \<Rightarrow> bool" where
  "txnKept t u \<longleftrightarrow> lt_id u = lt_id t \<and> lt_type u = lt_type t \<and> lt_created_at u = lt_created_at t \<and>
     (lt_status t = ''posted'' \<longrightarrow> lt_status u = ''posted'')"

definition keyKept :: "subscription_key \<Rightarrow> subscription_key \<Rightarrow> bool" where
  "keyKept k l \<longleftrightarrow>
     k_id l = k_id k \<and> k_subscription l = k_subscription k \<and> k_name l = k_name k \<and> k_key l = k_key k \<and>
     k_hmac l = k_hmac k \<and> k_created_at l = k_created_at k \<and>
     (k_status k = ''revoked'' \<longrightarrow> k_status l = ''revoked'' \<and> k_revoked_at l = k_revoked_at k) \<and>
     (\<forall>t. k_last_used_at k = Some t \<longrightarrow> (\<exists>u. k_last_used_at l = Some u \<and> t \<le> u))"

definition principalKept :: "service_principal \<Rightarrow> service_principal \<Rightarrow> bool" where
  "principalKept p q \<longleftrightarrow> sp_id q = sp_id p \<and> sp_issuer q = sp_issuer p \<and> sp_subject q = sp_subject p \<and>
     (sp_status p = ''revoked'' \<longrightarrow> q = p)"

definition history :: "pay_db \<Rightarrow> pay_db \<Rightarrow> bool" where
  "history d d' \<longleftrightarrow>
     extends (=) (ledger_entries d) (ledger_entries d') \<and>
     extends txnKept (ledger_transactions d) (ledger_transactions d') \<and>
     extends (=) (payg_charges d) (payg_charges d') \<and>
     extends (=) (charge_commissions d) (charge_commissions d') \<and>
     extends (=) (topups d) (topups d') \<and>
     extends keyKept (subscription_keys d) (subscription_keys d') \<and>
     extends principalKept (service_principals d) (service_principals d') \<and>
     (distinct (map k_hmac (subscription_keys d)) \<longrightarrow> distinct (map k_hmac (subscription_keys d')))"

lemma kept_refl [simp]: "txnKept t t" "keyKept k k" "principalKept p p"
  by (auto simp: txnKept_def keyKept_def principalKept_def)

lemma keyKept_trans: "keyKept k l \<Longrightarrow> keyKept l m \<Longrightarrow> keyKept k m"
  by (auto simp: keyKept_def)

lemma history_refl: "history d d"
  by (simp add: history_def extends_refl)

lemma history_trans:
  assumes "history d d'" and "history d' d''"
  shows "history d d''"
proof -
  have tk: "txnKept t u \<Longrightarrow> txnKept u v \<Longrightarrow> txnKept t v" for t u v by (simp add: txnKept_def)
  have pk: "principalKept t u \<Longrightarrow> principalKept u v \<Longrightarrow> principalKept t v" for t u v
    by (auto simp: principalKept_def)
  note eq = extends_trans [of "(=)", OF HOL.trans]
  from assms show ?thesis
    unfolding history_def
    by (elim conjE) (intro conjI; (rule eq extends_trans [OF tk] extends_trans [OF keyKept_trans]
        extends_trans [OF pk]; assumption)?; blast)
qed

interpretation history_evolution: evolution history
  by unfold_locales (auto intro: history_refl history_trans)

text \<open>A statement that leaves these tables alone.\<close>

lemma history_same:
  assumes "ledger_entries d' = ledger_entries d" and "ledger_transactions d' = ledger_transactions d"
    and "payg_charges d' = payg_charges d" and "charge_commissions d' = charge_commissions d"
    and "topups d' = topups d" and "subscription_keys d' = subscription_keys d"
    and "service_principals d' = service_principals d"
  shows "history d d'"
  using assms by (simp add: history_def extends_refl)

lemmas ext = extends_refl extends_append

lemma evolves_history_inserts [evolvesI]:
  "evolves history (insertUser r1)" "evolves history (insertAccount r2)"
  "evolves history (insertServicePrincipal r3)" "evolves history (insertLedgerAccount r4)"
  "evolves history (insertLedgerTransaction r5)" "evolves history (insertLedgerEntry r6)"
  "evolves history (insertMerchant r7)" "evolves history (insertProduct r8)"
  "evolves history (insertSubscription r9)" "evolves history (insertSubscriptionKey r10)"
  "evolves history (insertCharge r11)" "evolves history (insertChargeCommission r12)"
  "evolves history (insertTopup r13)" "evolves history (insertProductListing r14)"
  "evolves history (insertSyncTransaction r15)" "evolves history (insertSyncCharge r16)"
  "evolves history (insertSyncCommission r17)"
  by (auto simp: evolves_def history_def ext insertRow_Inr insertUser_def insertAccount_def
      insertServicePrincipal_def insertLedgerAccount_def insertLedgerTransaction_def
      insertLedgerEntry_def insertMerchant_def insertProduct_def insertSubscription_def
      insertSubscriptionKey_def insertCharge_def insertChargeCommission_def insertTopup_def
      insertProductListing_def insertSyncTransaction_def insertSyncCharge_def insertSyncCommission_def
      split: sum.splits)

lemma evolves_history_updates [evolvesI]:
  "evolves history (postTransaction i)" "evolves history (addSyncBalance x a)"
  "evolves history (touchKey t i)" "evolves history (revokeKeyRow t i s)"
  "evolves history (revokePrincipal t i)" "evolves history (updatePrincipalRow n rs i)"
  by (auto simp: evolves_def history_def ext postTransaction_def addSyncBalance_def touchKey_def
      revokeKeyRow_def revokePrincipal_def updatePrincipalRow_def Let_def list_ex_iff
      txnKept_def keyKept_def principalKept_def map_updateRows
      intro!: extends_update split: if_splits option.splits)

lemma evolves_history_others [evolvesI]:
  "evolves history (upsertUser r1)" "evolves history (insertAccountOnce r2)"
  "evolves history (insertLedgerAccountOnce r3)" "evolves history (upsertProfile r4)"
  "evolves history (insertBalanceOnce r5)" "evolves history (setMerchant n s t i)"
  "evolves history (setProduct n s t i)" "evolves history (setSubscription s i)"
  "evolves history (updateProductRow p i)" "evolves history (disableProductRow t i)"
  "evolves history (updateListingRow l i)" "evolves history (disableListingRow t i)"
  using evolves_history_inserts(1,2,4)
  by (auto simp: evolves_def upsertUser_def insertAccountOnce_def insertLedgerAccountOnce_def
      upsertProfile_def insertBalanceOnce_def setMerchant_def setProduct_def setSubscription_def
      updateProductRow_def disableProductRow_def updateListingRow_def disableListingRow_def
      intro!: history_same split: if_splits)

lemma evolves_history_reads [evolvesI]:
  "evolves history (accountBalance a)" "evolves history (readCredit h)" "evolves history (readOne f)"
  "evolves history advisoryLock"
  by (auto simp: evolves_def accountBalance_def readCredit_def readOne_def advisoryLock_def reading_Inr
      intro: history_refl split: if_splits option.splits list.splits prod.splits)


subsection \<open>Every handler goes along an evolution\<close>

text \<open>
  \<open>pay_runs cfg dec w w'\<close>: the server gets from \<open>w\<close> to \<open>w'\<close> by answering requests, in any
  number and of any kind, whatever the verifier, the identity provider, the random source and
  the key file deliver each time; in between the clock moves, statements start or stop failing
  and a transaction that was left open is rolled back.
\<close>

inductive pay_runs :: "pay_config \<Rightarrow> pay_decoders \<Rightarrow> pay_world \<Rightarrow> pay_world \<Rightarrow> bool"
  for cfg :: pay_config and dec :: pay_decoders
where
  start: "pay_runs cfg dec w w"
| request: "pay_runs cfg dec w w' \<Longrightarrow>
    pay_runs cfg dec w (snd (respond (servePay cfg env hook dec r) w'))"
| environment: "pay_runs cfg dec w w' \<Longrightarrow> committed w'' = committed w' \<Longrightarrow> pay_runs cfg dec w w''"

text \<open>
  \<open>pay_evolution\<close>: an evolution along which the statements of the handlers go, and along which
  a charge, a top-up and an initialization go as a whole (their statements alone need not: the
  entries of a transaction are posted one by one).
\<close>

locale pay_evolution = evolution R for R :: "pay_db \<Rightarrow> pay_db \<Rightarrow> bool" +
  fixes chargeable :: "pay_config \<Rightarrow> charge_request option \<Rightarrow> bool"
  assumes charges: "chargeable cfg charge \<Longrightarrow> keeps R (createCharge cfg failpoint charge principalID)"
    and credits: "keeps R (createTopup account topup)"
    and onboarding: "keeps R (initializeIdentity issuer subject email name requested)"
    and inserts: "evolves R (insertServicePrincipal r1)" "evolves R (insertMerchant r2)"
      "evolves R (insertProduct r3)" "evolves R (insertSubscription r4)"
      "evolves R (insertSubscriptionKey r5)" "evolves R (insertProductListing r6)"
    and updates: "evolves R (revokeKeyRow t i j)" "evolves R (revokePrincipal t i)"
      "evolves R (updatePrincipalRow i roles j)" "evolves R (setMerchant i j t k)"
      "evolves R (setProduct i j t k)" "evolves R (setSubscription i j)"
      "evolves R (updateProductRow p i)" "evolves R (disableProductRow t i)"
      "evolves R (updateListingRow l i)" "evolves R (disableListingRow t i)"
    and reads: "evolves R (accountBalance i)" "evolves R (readCredit i)"
      "evolves R (readOne f :: (pay_db, product) query)" "evolves R (readOne g :: (pay_db, subscription) query)"
      "evolves R (readOne h :: (pay_db, merchant) query)"
begin

lemmas statements [evolvesI] = inserts updates reads

lemma keeps_reads [keepsI]:
  "keeps R (listTopups a)" "keeps R (getCharge e)" "keeps R (listAccountCharges a)"
  "keeps R listProducts" "keeps R (listSubscriptions u)" "keeps R (listKeys s)"
  "keeps R (keyMap k s)" "keeps R (listAccounts u)" "keeps R (listTransactions a t)"
  "keeps R (lookupHuman p)" "keeps R (adminProduct i)" "keeps R (adminProductListing i)"
  "keeps R (adminServicePrincipal i)" "keeps R adminServicePrincipalList"
  "keeps R (creditCheck cfg key)"
  unfolding listTopups_def getCharge_def listAccountCharges_def listProducts_def
    listSubscriptions_def listKeys_def keyMap_def listAccounts_def listTransactions_def
    lookupHuman_def adminProduct_def adminProductListing_def adminServicePrincipal_def
    adminServicePrincipalList_def creditCheck_def
  by (intro keepsI evolvesI)+

lemma keeps_replays [keepsI]:
  "keeps R k \<Longrightarrow> keeps R (replayTopup a b x k)" "keeps R (writeKey i j)"
  "keeps R (replaySubscription u sr sb)" "keeps R (replayKey i j n sk)"
  unfolding replayTopup_def writeKey_def replaySubscription_def replayKey_def keyMap_def
  by (intro keepsI evolvesI; simp)+

lemma keeps_account [keepsI]:
  "keeps R (accountTopups meth a b1)" "keeps R (serviceAccounts env meth b2 u)"
  "keeps R (revokeServiceAccount env meth p u)" "keeps R (merchantsHandler meth b3 u)"
  "keeps R (patchMerchant b4 i mr)" "keeps R (merchantProducts meth b5 m)"
  "keeps R (patchProduct b6 i u)" "keeps R (createSubscription meth b7 i a)"
  "keeps R (patchSubscription b8 i sb)" "keeps R (revokeKey meth i j)" "keeps R (createKey cfg env b9 i)"
  unfolding accountTopups_def serviceAccounts_def revokeServiceAccount_def merchantsHandler_def
    patchMerchant_def merchantProducts_def patchProduct_def createSubscription_def
    patchSubscription_def revokeKey_def createKey_def Let_def
  by (rule credits keeps_transaction keepsI evolvesI)+

lemma keeps_keys [keepsI]: "keeps R (subscriptionKeysHandler cfg env meth path i b j)"
  unfolding subscriptionKeysHandler_def by (rule keepsI)+

lemma keeps_resources [keepsI]:
  "keeps R (merchantResource meth path i b1 b2 u)" "keeps R (productResource meth path i b3 b4 u a)"
  "keeps R (subscriptionResource cfg env meth path i j b5 b6 u)" "keeps R (accountRead dec r a)"
  unfolding merchantResource_def productResource_def subscriptionResource_def accountRead_def Let_def
  by (rule keepsI evolvesI)+

lemma keeps_admin [keepsI]:
  "keeps R (createAdminProduct b1)" "keeps R (createAdminListing b2)" "keeps R (createAdminServicePrincipal b3)"
  unfolding createAdminProduct_def createAdminListing_def createAdminServicePrincipal_def Let_def
  by (rule keepsI evolvesI)+

lemma keeps_admin_resources [keepsI]:
  "keeps R (adminProducts meth b1)" "keeps R (adminProductResource meth b2 i)"
  "keeps R (adminProductListings meth b3)" "keeps R (adminProductListingResource meth b4 i)"
  "keeps R (adminServicePrincipals meth b5)" "keeps R (adminServicePrincipalResource meth b6 i)"
  unfolding adminProducts_def adminProductResource_def adminProductListings_def
    adminProductListingResource_def adminServicePrincipals_def adminServicePrincipalResource_def Let_def
  by (rule keepsI evolvesI)+

lemma keeps_webhook [keepsI]: "keeps R (zitadelUserAuthenticated cfg mac canon file body header parse)"
  unfolding zitadelUserAuthenticated_def Let_def by (rule onboarding keepsI)+

lemma keeps_surfaces [keepsI]:
  "keeps R (serveAccount cfg env dec r)" "keeps R (serveAdmin cfg dec r)"
  unfolding serveAccount_def serveAdmin_def Let_def by (rule keepsI evolvesI)+

lemma keeps_servePay:
  assumes "\<And>body. chargeable cfg (dec_charge dec body)"
  shows "keeps R (servePay cfg env hook dec r)"
  unfolding servePay_def serveService_def Let_def by (rule charges [OF assms] keepsI evolvesI)+

text \<open>Runs: requests one after the other, between which the server may do anything but commit.\<close>

lemma runs_keep:
  assumes "pay_runs cfg dec w w'" and "\<And>body. chargeable cfg (dec_charge dec body)"
  shows "R (committed w) (committed w')"
  using assms(1)
proof induction
  case (request w w' env hook r)
  then show ?case using keeps_respond [OF keeps_servePay [OF assms(2)]] trans by blast
qed (simp_all add: refl)

end

subsection \<open>The history of the store\<close>

lemma txKeeps_history [keepsI]:
  "txKeeps history (resolveCommission rc)" "txKeeps history (insertEntry t l dir x)"
  "txKeeps history (ledgerOf a s)" "txKeeps history (postCommission t c)"
  "txKeeps history (postLedger t p m g n f cs)" "txKeeps history (recordCommission i c)"
  "txKeeps history (projectCommission i at c)" "txKeeps history (checkExistingMerchant i e)"
  "txKeeps history (checkRequestedMerchant i j)"
  unfolding resolveCommission_def insertEntry_def ledgerOf_def postCommission_def postLedger_def
    recordCommission_def projectCommission_def checkExistingMerchant_def checkRequestedMerchant_def
  by (rule keepsI evolvesI)+

lemma txKeeps_history_transactions [keepsI]:
  "txKeeps history (chargeTransaction cfg failpoint b p x)"
  "txKeeps history k \<Longrightarrow> txKeeps history (replayTopup acct tr y k)"
  "txKeeps history (topupTransaction acct tr)"
  "txKeeps history (initializeTransaction issuer subject email name requested)"
  unfolding chargeTransaction_def replayTopup_def topupTransaction_def initializeTransaction_def Let_def
  by (rule keepsI evolvesI | assumption)+

lemma keeps_history_transactions:
  "keeps history (createCharge cfg failpoint charge principalID)"
  "keeps history (createTopup acct body)"
  "keeps history (initializeIdentity issuer subject email name requested)"
  unfolding createCharge_def chargeChecks_def createTopup_def replayTopup_def initializeIdentity_def
  by (rule history_evolution.keeps_transaction keepsI evolvesI)+

interpretation pay_history: pay_evolution history "\<lambda>_ _. True"
  by unfold_locales (rule keeps_history_transactions evolvesI)+

subsection \<open>The ledger invariant\<close>

definition sound :: "pay_db \<Rightarrow> pay_db \<Rightarrow> bool" where
  "sound d d' \<longleftrightarrow> (payInv d \<longrightarrow> payInv d')"

text \<open>Fees between 0 and 100 percent, and an amount that fits the 64 bits it is decoded into.\<close>

definition chargeSane :: "pay_config \<Rightarrow> charge_request option \<Rightarrow> bool" where
  "chargeSane cfg body \<longleftrightarrow> 0 \<le> fee_bps cfg \<and> fee_bps cfg \<le> 10000 \<and>
     (case body of None \<Rightarrow> True | Some b \<Rightarrow> cr_gross b \<le> max_int64)"

interpretation sound_evolution: evolution sound
  by unfold_locales (auto simp: sound_def)

lemma sound_same:
  assumes "ledger_entries d' = ledger_entries d" and "ledger_transactions d' = ledger_transactions d"
    and "ledger_accounts d' = ledger_accounts d" and "accounts d' = accounts d"
    and "sync_balances d' = sync_balances d"
  shows "sound d d'"
proof -
  have "payInv d' = payInv d"
    unfolding payInv_def transactionNet_def ledgerBalance_def isCreditOf_def isPosted_def
    by (simp only: assms)
  then show ?thesis by (simp add: sound_def)
qed

lemma evolves_sound [evolvesI]:
  "evolves sound (insertServicePrincipal r1)" "evolves sound (insertMerchant r2)"
  "evolves sound (insertProduct r3)" "evolves sound (insertSubscription r4)"
  "evolves sound (insertSubscriptionKey r5)" "evolves sound (insertProductListing r6)"
  "evolves sound (revokeKeyRow t i j)" "evolves sound (revokePrincipal t i)"
  "evolves sound (updatePrincipalRow i roles j)" "evolves sound (setMerchant i j t k)"
  "evolves sound (setProduct i j t k)" "evolves sound (setSubscription i j)"
  "evolves sound (updateProductRow p i)" "evolves sound (disableProductRow t i)"
  "evolves sound (updateListingRow l i)" "evolves sound (disableListingRow t i)"
  by (auto simp: evolves_def insertServicePrincipal_def insertMerchant_def insertProduct_def
      insertSubscription_def insertSubscriptionKey_def insertProductListing_def revokeKeyRow_def
      revokePrincipal_def updatePrincipalRow_def setMerchant_def setProduct_def setSubscription_def
      updateProductRow_def disableProductRow_def updateListingRow_def disableListingRow_def Let_def
      intro!: sound_same split: sum.splits if_splits)

lemma evolves_sound_reads [evolvesI]:
  "evolves sound (accountBalance a)" "evolves sound (readCredit h)" "evolves sound (readOne f)"
  by (auto simp: evolves_def accountBalance_def readCredit_def readOne_def reading_Inr sound_def
      split: if_splits option.splits list.splits prod.splits)

lemma sound_refl: "sound d d"
  by (simp add: sound_def)

lemma keeps_sound_charge:
  assumes "chargeSane cfg body"
  shows "keeps sound (createCharge cfg failpoint body principalID)"
proof (rule keeps_wlp [OF reply_safe_createCharge sound_refl])
  fix c k
  show "wlp (createCharge cfg failpoint body principalID) (\<lambda>_ c' _. sound c c') c k"
  proof (cases "\<exists>b. body = Some b \<and> payInv c")
    case True
    then obtain b where b: "body = Some b" "payInv c" by blast
    with assms show ?thesis
      by (auto simp: chargeSane_def sound_def intro: wlp_mono [OF wlp_createCharge])
  next
    case False
    then show ?thesis by (cases body) (auto simp: createCharge_def sound_def wlp_reply wlp_const)
  qed
qed

lemma keeps_sound_topup: "keeps sound (createTopup acct body)"
proof (rule keeps_wlp [OF reply_safe_createTopup sound_refl])
  show "wlp (createTopup acct body) (\<lambda>_ c' _. sound c c') c k" for c k
    by (cases body)
       (auto simp: createTopup_def [of acct None] sound_def toppedUp_payInv wlp_reply
         intro: wlp_mono [OF wlp_createTopup])
qed

lemma keeps_sound_identity: "keeps sound (initializeIdentity issuer subject email name requested)"
proof (rule keeps_wlp [OF reply_safe_initializeIdentity sound_refl], rule wlp_initializeIdentity)
  show "sound c d'" if "initialized issuer subject requested c d' ids" for c d' ids
    using that onboards_payInv by (auto simp: sound_def initialized_def split: prod.splits)
qed

interpretation pay_sound: pay_evolution sound chargeSane
  by unfold_locales (rule evolvesI keeps_sound_charge keeps_sound_topup keeps_sound_identity | assumption)+


subsection \<open>Properties\<close>

text \<open>C1: Nothing that was posted is undone. Whatever a request to GizPay asks for, whoever sends it
  and wherever the server fails, afterwards every ledger entry, charge, commission and top-up is
  still there unchanged, posted transactions are still posted, subscription keys keep their
  material and distinct digests, what was revoked stays revoked since the same time.\<close>

theorem servePay_keeps_history:
  "history (committed w) (committed (snd (respond (servePay cfg env hook dec r) w)))"
  by (rule keeps_respond [OF pay_history.keeps_servePay]) simp

text \<open>C2: The books balance after every run of the server: with a fee between 0 and 100 percent and
  charge amounts that fit 64 bits, no sequence of requests, server failures and clock movements
  leads from a store that satisfies the ledger invariant to one that does not.\<close>

theorem runs_keep_ledger:
  assumes "pay_runs cfg dec w w'" and "payInv (committed w)"
    and "0 \<le> fee_bps cfg" and "fee_bps cfg \<le> 10000"
    and "\<And>body b. dec_charge dec body = Some b \<Longrightarrow> cr_gross b \<le> max_int64"
  shows "payInv (committed w')"
proof -
  have "chargeSane cfg (dec_charge dec body)" for body
    using assms(3-5) by (simp add: chargeSane_def split: option.split)
  from pay_sound.runs_keep [OF assms(1) this] assms(2) show ?thesis by (simp add: sound_def)
qed

definition demo_deps :: pay_deps where
  "demo_deps = \<lparr> authenticate = \<lambda>r audience.
       if audience = ''service'' then Some \<lparr> pr_issuer = ''iss'', pr_subject = ''machine'', pr_roles = [''charge''] \<rparr>
       else None,
     verifierIssuer = ''iss'', createCredential = \<lambda>_ _. None, revokeCredential = \<lambda>_ _. False,
     randomToken24 = None, keyHMAC = \<lambda>_ _. [] \<rparr>"

definition demo_hook :: webhook_deps where
  "demo_hook = \<lparr> wd_mac = \<lambda>_ _. [], wd_uuid = \<lambda>_. None, wd_key_file = None, wd_read = \<lambda>_. None \<rparr>"

definition demo_dec :: pay_decoders where
  "demo_dec = \<lparr> dec_action = \<lambda>_. None, dec_topup = \<lambda>_. None, dec_service_account = \<lambda>_. None,
     dec_merchant = \<lambda>_. None, dec_merchant_patch = \<lambda>_. None, dec_product = \<lambda>_. None,
     dec_product_patch = \<lambda>_. None, dec_subscription = \<lambda>_. None, dec_subscription_patch = \<lambda>_. None,
     dec_key = \<lambda>_. None, dec_credit_check = \<lambda>_. None, dec_charge = \<lambda>_. Some demo_charge,
     dec_admin_product = \<lambda>_. None, dec_admin_product_patch = \<lambda>_. None, dec_admin_listing = \<lambda>_. None,
     dec_admin_listing_patch = \<lambda>_. None, dec_admin_principal = \<lambda>_. None,
     dec_admin_principal_patch = \<lambda>_. None \<rparr>"

definition demo_request :: http_request where
  "demo_request = \<lparr> rq_method = POST, rq_path = ''/service/v1/payg-charges'', rq_header = \<lambda>_. [],
     query_value = \<lambda>_. [], path_value = \<lambda>_. [], rq_body = ''{}'' \<rparr>"

theorem runs_keep_ledger_witness:
  "payInv (committed (snd (respond (servePay demo_pay_config demo_deps demo_hook demo_dec demo_request)
     (demo_world demo_pay))))"
  by (rule runs_keep_ledger [OF pay_runs.request [OF pay_runs.start]])
     (auto simp: demo_world_def payInv_demo demo_pay_config_def demo_dec_def max_int64_def)

lemma wlp_chargeTransaction_target:
  "wlp (chargeTransaction cfg fp b pid t) (\<lambda>_ _ _. chargeTarget (cr_hmac b) (cr_started b) d \<noteq> None) c (Some d)"
  unfolding chargeTransaction_def
  by (intro wlp_bnd wlp_orReply wlp_tx_readRow) (auto simp: wlp_const intro: wlp_const)

lemma wlp_createCharge_target:
  "wlp (createCharge cfg fp (Some b) pid) (\<lambda>_ _ _. chargeTarget (cr_hmac b) (cr_started b) c \<noteq> None) c k"
  unfolding createCharge_def option.case
  by (intro wlpI wlp_chargeChecks wlp_chargeTransaction_target)

text \<open>C6: Revoking a subscription key is final. Once the store holds the key as revoked at \<open>t\<close>, then
  after any further run no charge is accepted for a service that started later than \<open>t\<close> and names
  the digest of this key.\<close>

theorem revoked_key_never_charged:
  assumes "pay_runs cfg dec w w'" and "distinct (map k_hmac (subscription_keys (committed w)))"
    and "k \<in> set (subscription_keys (committed w))" and "k_status k = ''revoked''" and "k_revoked_at k = Some t"
    and "cr_hmac b = k_hmac k" and "t < cr_started b"
  shows "status (fst (respond (createCharge cfg failpoint (Some b) pid) w')) \<noteq> 201"
proof
  assume st: "status (fst (respond (createCharge cfg failpoint (Some b) pid) w')) = 201"
  obtain r v where r: "respond (createCharge cfg failpoint (Some b) pid) w' = (r, v)"
    by (cases "respond (createCharge cfg failpoint (Some b) pid) w'")
  let ?keys = "subscription_keys (committed w')"
  from pay_history.runs_keep [OF assms(1)] have h: "history (committed w) (committed w')" by simp
  with assms(2) have dist: "distinct (map k_hmac ?keys)" by (simp add: history_def)
  from h assms(3) obtain l where l: "l \<in> set ?keys" "keyKept k l"
    unfolding history_def by (meson extends_set)
  from respond_wlp [OF r replies_createCharge _ wlp_createCharge_target] st r
  obtain k' where k': "find (chargeKeyUsable (cr_hmac b) (cr_started b)) ?keys = Some k'"
    by (auto simp: chargeTarget_def split: option.splits)
  then have "k' \<in> set ?keys" "chargeKeyUsable (cr_hmac b) (cr_started b) k'"
    by (auto simp: find_Some_iff)
  moreover have "k' = l"
    by (rule inj_onD [of k_hmac "set ?keys"])
       (use dist l assms(6) calculation in \<open>auto simp: distinct_map chargeKeyUsable_def keyKept_def\<close>)
  ultimately show False using l(2) assms(4-7) by (auto simp: chargeKeyUsable_def keyKept_def)
qed

theorem revoked_key_never_charged_witness:
  "status (fst (respond (createCharge demo_pay_config [] (Some (demo_charge\<lparr>cr_started := 51\<rparr>)) ''svc'')
     (snd (respond (servePay demo_pay_config demo_deps demo_hook demo_dec demo_request) (demo_world demo_pay))))) \<noteq> 201"
  by (rule revoked_key_never_charged [OF pay_runs.request [OF pay_runs.start], where t = 50])
     (auto simp: demo_world_def demo_pay_sel)

end
