(* ===== verification/Billing.thy ===== *)
theory Billing
  imports WayReport WayComplete PayHistory
begin
section \<open>Billing across the two services\<close>

text \<open>
  GizPay as GizWay's worker sees it, the interpretation that discharges the worker's contract on
  the model of \<open>createCharge\<close> and \<open>getCharge\<close>, and what the two programs guarantee together.
\<close>

subsection \<open>GizPay as a charge server\<close>

text \<open>
  A deployment: its configuration, its session, the principal id of GizWay and the fail point of a
  test build. A gross amount that does not fit an \<open>int64\<close> is a body that does not decode.
\<close>

record gizpay =
  gp_config :: pay_config
  gp_session :: pay_world
  gp_principal :: string
  gp_failpoint :: string

definition asked :: "(pay_world, response) act \<Rightarrow> gizpay \<Rightarrow> nat \<times> gizpay" where
  "asked m p = (let x = respond m (gp_session p) in (status (fst x), p\<lparr>gp_session := snd x\<rparr>))"

definition gizpayApi :: "gizpay charge_api" where
  "gizpayApi = \<lparr>
     post_charge = (\<lambda>b p. asked (createCharge (gp_config p) (gp_failpoint p)
       (if int64_range (cr_gross b) then Some b else None) (gp_principal p)) p),
     get_charge = (\<lambda>x. asked (getCharge x)) \<rparr>"

definition chargedAmount :: "string \<Rightarrow> gizpay \<Rightarrow> int option" where
  "chargedAmount x p = map_option pc_gross (chargeByExternal x (committed (gp_session p)))"

definition gizpayOk :: "gizpay \<Rightarrow> bool" where
  "gizpayOk p \<longleftrightarrow> payInv (committed (gp_session p)) \<and> 0 \<le> fee_bps (gp_config p) \<and> fee_bps (gp_config p) \<le> 10000"

text \<open>A 409 is only written for a charge that exists.\<close>

lemma insertCharge_taken:
  "insertCharge row d = Inl (UniqueViolation ''payg_charges_external_order_id_key'') \<Longrightarrow>
     chargeByExternal (pc_external row) d \<noteq> None"
  by (auto simp: insertCharge_def chargeByExternal_def find_None_iff split: sum.splits dest!: insertRow_taken)

lemma insertLedgerTransaction_charges:
  "insertLedgerTransaction r d = Inr (u, d') \<Longrightarrow> chargeByExternal x d' = chargeByExternal x d"
  by (auto dest!: insertLedgerTransaction_Inr simp: chargeByExternal_def)

lemma rlp_chargeTransaction_409:
  assumes "chargeByExternal (cr_external b) d \<noteq> None \<Longrightarrow> A"
  shows "rlp (chargeTransaction cfg fp b pid t) (\<lambda>r. status r = 409 \<longrightarrow> A) c (Some d)"
  unfolding chargeTransaction_def Let_def
  apply (rule rlp_bnd, (rule rlp_replies, intro repliesI; simp), intro wlpI rlp_case_prod)
  apply (rule rlp_bnd, (rule rlp_replies, intro repliesI; simp), intro wlpI)
  apply (rule rlp_bnd, (rule rlp_replies, intro repliesI; simp add: internal_def), intro wlpI)
  apply (rule rlp_bnd, (rule rlp_replies, intro repliesI; simp), intro wlpI)
  apply (rule rlp_bnd, (rule rlp_replies, intro repliesI; simp), intro wlpI)+
  apply (rule rlp_bnd, rule rlp_orReplyWith, (rule rlp_replies, intro repliesI; simp))
   defer
   apply (intro wlpI rlp_replies repliesI; simp add: internal_def)
  apply (rule wlp_tx_exec_err)
    apply (auto simp: chargeInsertError_def internal_def readRow_Inr advisoryLock_def reading_Inr
      intro!: assms dest!: insertCharge_taken insertLedgerTransaction_charges [of _ _ _ _ "cr_external b"]
      split: if_splits)
  done

lemma rlp_createCharge_409:
  "rlp (createCharge cfg fp (Some b) pid) (\<lambda>r. status r = 409 \<longrightarrow> chargeByExternal (cr_external b) c \<noteq> None) c k"
    (is "rlp _ ?P c k")
proof -
  have checks: "replies ?P (chargeChecks cfg b)"
    using replies_chargeChecks [of cfg b] by (auto simp: replies_def)
  have rest: "rlp (bnd (require (\<not> dup) (errorJSON 409 ''duplicate_external_order_id'' ''external order ID already exists''))
      (\<lambda>_. bnd (orReply begin_tx internal) (\<lambda>_. finish_tx (chargeTransaction cfg fp b pid t)))) ?P c k"
    if "dup \<Longrightarrow> chargeByExternal (cr_external b) c \<noteq> None" for dup t
    using that
    by (intro rlp_bnd rlp_require wlpI rlp_finish_tx rlp_chargeTransaction_409)
       (auto intro!: rlp_replies repliesI simp: internal_def)
  show ?thesis
    unfolding createCharge_def option.case
    by (rule rlp_bnd [OF rlp_replies [OF checks]], rule wlp_chargeChecks,
        rule rlp_bnd [OF rlp_replies], intro repliesI, rule wlp_orZero_read) (rule rest; simp)+
qed

subsection \<open>GizPay provides what the worker relies on\<close>

lemma chargedAmount_charged:
  assumes "charged cfg b pid (committed (gp_session p)) (committed w') r"
  shows "chargedAmount (cr_external b) (p\<lparr>gp_session := w'\<rparr>) = Some (cr_gross b)"
    and "x \<noteq> cr_external b \<Longrightarrow> chargedAmount x (p\<lparr>gp_session := w'\<rparr>) = chargedAmount x p"
    and "chargedAmount (cr_external b) p = None"
proof -
  obtain row where row: "chargeByExternal (cr_external b) (committed w') = Some row" "pc_gross row = cr_gross b"
    "\<And>x. x \<noteq> cr_external b \<Longrightarrow> chargeByExternal x (committed w') = chargeByExternal x (committed (gp_session p))"
    using assms by (rule charged_lookup) blast
  then show "chargedAmount (cr_external b) (p\<lparr>gp_session := w'\<rparr>) = Some (cr_gross b)"
    and "x \<noteq> cr_external b \<Longrightarrow> chargedAmount x (p\<lparr>gp_session := w'\<rparr>) = chargedAmount x p"
    by (simp_all add: chargedAmount_def)
  from assms show "chargedAmount (cr_external b) p = None" by (auto simp: chargedAmount_def charged_def)
qed

lemma post_cases:
  assumes ok: "gizpayOk p"
  obtains (charged) r w' where "post_charge gizpayApi b p = (201, p\<lparr>gp_session := w'\<rparr>)"
      "charged (gp_config p) b (gp_principal p) (committed (gp_session p)) (committed w') r" "payInv (committed w')"
  | (refused) st w' where "st \<noteq> 201" "post_charge gizpayApi b p = (st, p\<lparr>gp_session := w'\<rparr>)"
      "committed w' = committed (gp_session p)" "st = 409 \<Longrightarrow> chargedAmount (cr_external b) p \<noteq> None"
proof -
  let ?body = "if int64_range (cr_gross b) then Some b else None"
  let ?m = "createCharge (gp_config p) (gp_failpoint p) ?body (gp_principal p)"
  obtain r w' where run: "respond ?m (gp_session p) = (r, w')" by (cases "respond ?m (gp_session p)")
  then have post: "post_charge gizpayApi b p = (status r, p\<lparr>gp_session := w'\<rparr>)"
    by (simp add: gizpayApi_def asked_def)
  show thesis
  proof (cases "status r = 201")
    case True
    from run True have range: "int64_range (cr_gross b)"
      by (auto simp: createCharge_def respond_def reply_def invalid_def split: if_splits)
    with run have run': "respond (createCharge (gp_config p) (gp_failpoint p) (Some b) (gp_principal p)) (gp_session p) = (r, w')"
      by simp
    have gross: "cr_gross b \<le> max_int64" using range by (simp add: int64_range_def)
    have "charged (gp_config p) b (gp_principal p) (committed (gp_session p)) (committed w') r \<and> payInv (committed w')"
      using respond_wlp [OF run' replies_createCharge _ wlp_createCharge] True ok gross by (simp add: gizpayOk_def)
    with post True charged show thesis by metis
  next
    case False
    then have same: "committed w' = committed (gp_session p)"
      using createCharge_same [of "gp_config p" "gp_failpoint p" ?body "gp_principal p" "gp_session p"] run by simp
    have "chargedAmount (cr_external b) p \<noteq> None" if "status r = 409"
    proof -
      from run have early: "?m (gp_session p) = (Reply r, w')"
      proof (rule respond_cases)
        assume "?m (gp_session p) = (Val r, w')"
        with returns_createCharge have "status r = 201" unfolding returns_def by blast
        with False show ?thesis by simp
      qed
      from early that have "int64_range (cr_gross b)"
        by (auto simp: createCharge_def reply_def invalid_def split: if_splits)
      with early that rlp_createCharge_409 [of "gp_config p" "gp_failpoint p" b "gp_principal p"]
      show ?thesis by (auto simp: rlp_def chargedAmount_def)
    qed
    with post False same refused show thesis by metis
  qed
qed

interpretation gizpay_server: charge_server gizpayApi chargedAmount gizpayOk
proof
  fix p :: gizpay and b x
  assume ok: "gizpayOk p"
  let ?post = "post_charge gizpayApi b p"
  show "gizpayOk (snd ?post)"
    by (rule post_cases [OF ok, of b]) (use ok in \<open>auto simp: gizpayOk_def\<close>)
  show "chargedAmount (cr_external b) (snd ?post) = Some (cr_gross b)" if "fst ?post = 201"
    by (rule post_cases [OF ok, of b]) (use that in \<open>auto simp: chargedAmount_charged\<close>)
  show "chargedAmount x (snd ?post) = chargedAmount x p" if "fst ?post \<noteq> 201"
    by (rule post_cases [OF ok, of b]) (use that in \<open>auto simp: chargedAmount_def\<close>)
  show "chargedAmount (cr_external b) p \<noteq> None" if "fst ?post = 409"
    by (rule post_cases [OF ok, of b]) (use that in auto)
  have other: "chargedAmount x (snd ?post) = chargedAmount x p" if "x \<noteq> cr_external b"
    by (rule post_cases [OF ok, of b])
       (use that in \<open>simp_all add: chargedAmount_charged\<close>, simp add: chargedAmount_def)
  then show "x \<noteq> cr_external b \<Longrightarrow> chargedAmount x (snd ?post) = chargedAmount x p" .
  show "chargedAmount x (snd ?post) = chargedAmount x p" if "chargedAmount x p \<noteq> None"
  proof (cases "x = cr_external b")
    case True
    from that True show ?thesis
      by (cases rule: post_cases [OF ok, of b, case_names charged refused])
         (auto simp: chargedAmount_def charged_def)
  qed (rule other)
next
  fix p :: gizpay and x y
  have same: "committed (gp_session (snd (get_charge gizpayApi y p))) = committed (gp_session p)" for y
    using tx_local_respond [of "getCharge y" "gp_session p"]
    by (simp add: gizpayApi_def asked_def getCharge_def tx_localI Let_def)
  show "chargedAmount x (snd (get_charge gizpayApi y p)) = chargedAmount x p"
    using same [of y] by (simp add: chargedAmount_def)
  show "gizpayOk p \<Longrightarrow> gizpayOk (snd (get_charge gizpayApi x p))"
    using same [of x] by (simp add: gizpayOk_def gizpayApi_def asked_def Let_def)
  show "fst (get_charge gizpayApi x p) = 200 \<Longrightarrow> chargedAmount x p \<noteq> None"
    by (auto simp: gizpayApi_def asked_def getCharge_def respond_def bnd_def orReply_def db_exec_def readRow_def
        reply_def ret_def notFound_def chargedAmount_def split: if_splits option.splits sum.splits)
qed

subsection \<open>Runs of the two services\<close>

text \<open>
  \<open>billing_runs cfg js s s'\<close>: the region's worker and GizPay get from \<open>s\<close> to \<open>s'\<close>. Calls
  complete under order ids that GizPay has never seen, the worker makes its rounds, or the steps of a
  round with anything in between, GizWay restarts, also in the middle of a round,
  GizPay serves everybody else, and statements start or stop failing.
\<close>

inductive billing_runs ::
  "way_config \<Rightarrow> (json \<Rightarrow> nat) \<Rightarrow> ('c, gizpay) site \<Rightarrow> ('c, gizpay) site \<Rightarrow> bool"
  for cfg :: way_config and js :: "json \<Rightarrow> nat" and s :: "('c, gizpay) site"
where
  start: "billing_runs cfg js s s"
| call: "billing_runs cfg js s s' \<Longrightarrow> (\<And>n. chargedAmount (''ord_'' @ uuid (way s') n) (remote s') = None) \<Longrightarrow>
    billing_runs cfg js s (snd (onWay (completeCall js hm call g cm usage mode fp) s'))"
| round: "billing_runs cfg js s s' \<Longrightarrow> billing_runs cfg js s (snd (outboxRound cfg gizpayApi s'))"
| sweep: "billing_runs cfg js s s' \<Longrightarrow>
    billing_runs cfg js s (snd (onWay (bnd (gets now) (\<lambda>t. db_exec (abandonOld t (t - k)))) s'))"
| report: "billing_runs cfg js s s' \<Longrightarrow> billing_runs cfg js s (snd (reportOutbox cfg gizpayApi i s'))"
| restart: "billing_runs cfg js s s' \<Longrightarrow> billing_runs cfg js s (snd (recoverOutbox s'))"
| others: "billing_runs cfg js s s' \<Longrightarrow> gizpayOk p \<Longrightarrow>
    (\<And>o'. o' \<in> set (rows s') \<Longrightarrow> chargedAmount (ob_external o') p = chargedAmount (ob_external o') (remote s')) \<Longrightarrow>
    billing_runs cfg js s (s'\<lparr>remote := p\<rparr>)"
| environment: "billing_runs cfg js s s' \<Longrightarrow> committed w = committed (way s') \<Longrightarrow>
    honest net \<or> net = network s' \<Longrightarrow>
    billing_runs cfg js s (s'\<lparr>way := w, network := net, network_n := n\<rparr>)"

lemma wp_snd: "wp m (\<lambda>_. Q) (\<lambda>_ _. False) s \<Longrightarrow> Q (snd (m s))"
  by (auto simp: wp_def split: prod.splits step.splits)





text \<open>An empty region beside the GizPay of the examples.\<close>

definition demo_gizpay :: gizpay where
  "demo_gizpay = \<lparr> gp_config = demo_pay_config, gp_session = demo_world demo_pay, gp_principal = ''svc'',
     gp_failpoint = [] \<rparr>"

definition demo_site :: "(unit, gizpay) site" where
  "demo_site = \<lparr> way = demo_world (empty_way ()), remote = demo_gizpay, network = (\<lambda>_. Delivered), network_n = 0 \<rparr>"

definition demo_call :: resolved_call where
  "demo_call = \<lparr> cl_product = ''p'', cl_model = ''m'', cl_public = ''model'', cl_provider = ''openai'',
     cl_provider_model = ''model'', cl_key = ''pk'', cl_merchant = ''m3'', cl_account = ''a1'',
     cl_subscription = ''s'', cl_subscription_key = ''k'', cl_issuer = ''iss'', cl_subject = ''sub1'',
     cl_target = \<lparr> et_provider = ''openai'', et_endpoint = [], et_credential = [], et_model = ''model'',
       et_route = ''pk'', et_weight = 1 \<rparr>,
     cl_targets = [], cl_customer = [], cl_commission = [], cl_payments = Map.empty, cl_started = 40 \<rparr>"



definition demo_way_config :: way_config where
  "demo_way_config = \<lparr> wc_token_source = True, wc_gizpay_url = ''http://pay'', wc_token = (\<lambda>_. True),
     wc_url_ok = (\<lambda>_. True), wc_batch = 20, wc_abandon_after = 0 \<rparr>"



definition call_charge :: charge_request where
  "call_charge = chargePayload (\<lambda>_. 16) ''ord_i'' ''h'' demo_call 1000 100 ''key'' 40 100"

lemma call_charge_sel [simp]:
  "cr_external call_charge = ''ord_i''" "cr_hmac call_charge = ''h''" "cr_gross call_charge = 1000"
  "cr_commissions call_charge = [\<lparr> cm_merchant = ''m3'', cm_amount = 100 \<rparr>]"
  "cr_order call_charge = \<lparr> raw_size = 16, raw_value = Some (orderMetadata demo_call ''key'') \<rparr>"
  "cr_started call_charge = 40" "cr_completed call_charge = 100"
  by (simp_all add: call_charge_def chargePayload_def demo_call_def)







subsection \<open>An answer that hides a committed charge\<close>

text \<open>
  On a network, or behind a GizPay, that is not \<open>honest\<close> the guarantee fails. A commit whose
  acknowledgement is lost makes \<open>createCharge\<close> answer 500 although the charge stands, and so does
  a proxy that answers for GizPay; \<open>reportOutbox\<close> then writes back the \<open>recover_duplicate\<close> it
  had read before sending, and takes the conflict of the next attempt for somebody else's charge.
\<close>

text \<open>A worker that can send, and a row that is due at a site whose statements do not fail.\<close>

definition reportingSet :: "way_config \<Rightarrow> bool" where
  "reportingSet cfg \<longleftrightarrow> wc_token_source cfg \<and> wc_gizpay_url cfg \<noteq> [] \<and> (\<forall>n. wc_token cfg n) \<and> (\<forall>u. wc_url_ok cfg u)"

definition dueRow :: "outbox \<Rightarrow> ('c, 'p) site \<Rightarrow> bool" where
  "dueRow o' s \<longleftrightarrow> o' \<in> set (rows s) \<and> unreported o' \<and> distinct (map ob_id (rows s)) \<and> distinct (map ob_external (rows s)) \<and>
     fault (way s) = (\<lambda>_. False)"

lemma unanswered_attempt:
  assumes "reportingSet cfg" and "dueRow o' s"
    and "network s (network_n s) = Replaced st" and "st \<notin> {201, 409}"
  shows "wp (reportOutbox cfg api (ob_external o')) (\<lambda>_ s'. remote s' = snd (post_charge api (ob_payload o') (remote s)) \<and>
      network s' = network s \<and> network_n s' = Suc (network_n s) \<and> ai_orders (committed (way s')) = ai_orders (committed (way s)) \<and>
      rows s' = updateRows (\<lambda>q. ob_id q = ob_id o') (\<lambda>q. q\<lparr>ob_status := ''pending'', ob_recover := ob_recover o',
        ob_updated_at := now (way s)\<rparr>) (rows s) \<and> fault (way s') = (\<lambda>_. False) \<and> now (way s') = now (way s)) (\<lambda>_ _. False) s"
proof -
  have one: "find (\<lambda>q. ob_external q = ob_external o' \<and> unreported q) (charge_outbox (committed (way s))) = Some o'"
    "filter (\<lambda>q. ob_id q = ob_id o' \<and> unreported q) (charge_outbox (committed (way s))) = [o']"
    using assms(2) by (simp_all add: dueRow_def rows_def find_keyed filter_keyed)
  show ?thesis
    using assms one
    by (simp add: reportOutbox_def reportingSet_def dueRow_def callRemote_def run_simps onWay_def readRow_def exactlyOne_def markSending_def
        updateOutbox_def countRows_def settle_def pend_def setPending_def rows_def wp_def updateRows_def Let_def)
qed


lemma conflictOrder_run:
  assumes "list_ex (\<lambda>q. ob_id q = i \<and> ob_order q = j) (charge_outbox d)"
    and "\<forall>q \<in> set (charge_outbox d). ob_id q = i \<longrightarrow> ob_order q = j"
    and "a \<in> set (ai_orders d)" and "ao_id a = j" and "distinct (map ao_id (ai_orders d))"
  shows "conflictOrder t i j d = Inr (1, d\<lparr>charge_outbox := updateRows (\<lambda>q. ob_id q = i)
      (\<lambda>q. q\<lparr>ob_status := ''abandoned'', ob_recover := False, ob_updated_at := t\<rparr>) (charge_outbox d),
    ai_orders := updateRows (\<lambda>a. ao_id a = j) (\<lambda>a. a\<lparr>ao_status := ''billing_failed'',
        ao_error := Some (JObj [(''code'', JStr ''duplicate_external_order_id'')])\<rparr>) (ai_orders d)\<rparr>)"
proof -
  have order: "filter (\<lambda>x. ao_id x = j) (ai_orders d) = [a]"
    using filter_keyed [of ao_id "ai_orders d" a "\<lambda>_. True"] assms(3-5) by simp
  have hit: "(\<lambda>x. ao_id x = j \<and> list_ex (\<lambda>q. ob_id q = i \<and> ob_order q = j) (charge_outbox d)) = (\<lambda>x. ao_id x = j)"
    using assms(1) by simp
  have "updateRows (\<lambda>q. ob_id q = i \<and> ob_order q = j) f (charge_outbox d) = updateRows (\<lambda>q. ob_id q = i) f (charge_outbox d)" for f
    using assms(2) by (auto simp: updateRows_def)
  then show ?thesis unfolding conflictOrder_def Let_def hit by (simp add: countRows_def order)
qed

text \<open>What the conflict statement leaves of a row and its order.\<close>

definition givenUp :: "outbox \<Rightarrow> ('c, 'p) site \<Rightarrow> ('c, 'p) site \<Rightarrow> bool" where
  "givenUp o' s s' \<longleftrightarrow>
     rows s' = updateRows (\<lambda>q. ob_id q = ob_id o')
       (\<lambda>q. q\<lparr>ob_status := ''abandoned'', ob_recover := False, ob_updated_at := now (way s)\<rparr>) (rows s) \<and>
     ai_orders (committed (way s')) = updateRows (\<lambda>a. ao_id a = ob_order o')
       (\<lambda>a. a\<lparr>ao_status := ''billing_failed'', ao_error := Some (JObj [(''code'', JStr ''duplicate_external_order_id'')])\<rparr>)
       (ai_orders (committed (way s)))"

lemma conflicting_attempt:
  assumes "reportingSet cfg" and "dueRow o' s" and "\<not> ob_recover o'"
    and "network s (network_n s) = Delivered" and "fst (post_charge api (ob_payload o') (remote s)) = 409"
    and "a \<in> set (ai_orders (committed (way s)))" and "ao_id a = ob_order o'"
    and "distinct (map ao_id (ai_orders (committed (way s))))"
  shows "wp (reportOutbox cfg api (ob_external o')) (\<lambda>_ s'. remote s' = snd (post_charge api (ob_payload o') (remote s)) \<and>
      givenUp o' s s')
      (\<lambda>_ _. False) s"
proof -
  let ?d = "committed (way s)"
  let ?d' = "?d\<lparr>charge_outbox := updateRows (\<lambda>q. ob_id q = ob_id o' \<and> unreported q)
      (\<lambda>q. q\<lparr>ob_status := ''sending'', ob_recover := True, ob_updated_at := now (way s)\<rparr>) (charge_outbox ?d)\<rparr>"
  have ids: "inj_on ob_id (set (charge_outbox ?d))" and o': "o' \<in> set (charge_outbox ?d)"
    using assms(2) by (simp_all add: dueRow_def rows_def distinct_map)
  have one: "find (\<lambda>q. ob_external q = ob_external o' \<and> unreported q) (charge_outbox ?d) = Some o'"
    "filter (\<lambda>q. ob_id q = ob_id o' \<and> unreported q) (charge_outbox ?d) = [o']"
    using assms(2) by (simp_all add: dueRow_def rows_def find_keyed filter_keyed)
  have same: "q = o'" if "q \<in> set (charge_outbox ?d)" "ob_id q = ob_id o'" for q
    using inj_onD [OF ids that(2,1) o'] .
  have conflict: "conflictOrder t (ob_id o') (ob_order o') ?d' = Inr (1, ?d'\<lparr>charge_outbox := updateRows (\<lambda>q. ob_id q = ob_id o')
      (\<lambda>q. q\<lparr>ob_status := ''abandoned'', ob_recover := False, ob_updated_at := t\<rparr>) (charge_outbox ?d'),
    ai_orders := updateRows (\<lambda>a. ao_id a = ob_order o') (\<lambda>a. a\<lparr>ao_status := ''billing_failed'',
        ao_error := Some (JObj [(''code'', JStr ''duplicate_external_order_id'')])\<rparr>) (ai_orders ?d')\<rparr>)" for t
  proof (rule conflictOrder_run)
    let ?f = "\<lambda>q. q\<lparr>ob_status := ''sending'', ob_recover := True, ob_updated_at := now (way s)\<rparr>"
    have "?f o' \<in> set (charge_outbox ?d')" using o' assms(2) by (force simp: updateRows_def dueRow_def)
    moreover have "ob_id (?f o') = ob_id o' \<and> ob_order (?f o') = ob_order o'" by simp
    ultimately show "list_ex (\<lambda>q. ob_id q = ob_id o' \<and> ob_order q = ob_order o') (charge_outbox ?d')"
      unfolding list_ex_iff by blast
    show "\<forall>q \<in> set (charge_outbox ?d'). ob_id q = ob_id o' \<longrightarrow> ob_order q = ob_order o'"
      by (auto simp: updateRows_def dest: same)
  qed (use assms(6-8) in simp_all)
  have twice: "updateRows (\<lambda>q. ob_id q = ob_id o') (\<lambda>q. q\<lparr>ob_status := ''abandoned'', ob_recover := False,
        ob_updated_at := t\<rparr>) (charge_outbox ?d') = updateRows (\<lambda>q. ob_id q = ob_id o')
      (\<lambda>q. q\<lparr>ob_status := ''abandoned'', ob_recover := False, ob_updated_at := t\<rparr>) (charge_outbox ?d)" for t
    by (auto simp: updateRows_def)
  show ?thesis
    using assms(1-5) one conflict twice
    by (simp add: reportOutbox_def reportingSet_def dueRow_def callRemote_def run_simps onWay_def readRow_def exactlyOne_def
        markSending_def updateOutbox_def countRows_def giveUp_def givenUp_def rows_def wp_def Let_def)
qed

text \<open>C13: A hidden charge is given up. Let a row be due that does not remember an earlier attempt, and let
  its charge go through at GizPay while the worker is answered with a status other than 201 and 409.
  If the next attempt is answered with GizPay's conflict, the row is abandoned and its order marked
  \<open>billing_failed\<close> (\<open>duplicate_external_order_id\<close>), no other row or order changes, and the charge of the row's own
  gross amount stands.\<close>

theorem reportOutbox_gives_up_charged:
  fixes s :: "('c, gizpay) site"
  assumes "reportingSet cfg" and "dueRow o' s" and "\<not> ob_recover o'" and "cr_external (ob_payload o') = ob_external o'"
    and "a \<in> set (ai_orders (committed (way s)))" and "ao_id a = ob_order o'"
    and "distinct (map ao_id (ai_orders (committed (way s))))" and "gizpayOk (remote s)"
    and "network s (network_n s) = Replaced st" and "st \<notin> {201, 409}" and "network s (Suc (network_n s)) = Delivered"
    and "post_charge gizpayApi (ob_payload o') (remote s) = (201, p)"
    and "fst (post_charge gizpayApi (ob_payload o') p) = 409"
  shows "givenUp o' s (snd (reportAll cfg gizpayApi [ob_external o', ob_external o'] s)) \<and>
    chargedAmount (ob_external o') (remote (snd (reportAll cfg gizpayApi [ob_external o', ob_external o'] s))) =
      Some (cr_gross (ob_payload o'))"
proof -
  let ?x = "ob_external o'" and ?p2 = "snd (post_charge gizpayApi (ob_payload o') p)"
  let ?o = "o'\<lparr>ob_status := ''pending'', ob_recover := ob_recover o', ob_updated_at := now (way s)\<rparr>"
  have "gizpayOk p" using gizpay_server.post_valid [OF assms(8), of "ob_payload o'"] assms(12) by simp
  moreover have "chargedAmount ?x p = Some (cr_gross (ob_payload o'))"
    using gizpay_server.post_201 [OF assms(8), of "ob_payload o'"] assms(4,12) by simp
  ultimately have amount: "chargedAmount ?x ?p2 = Some (cr_gross (ob_payload o'))"
    using gizpay_server.post_keeps [of p ?x "ob_payload o'"] by simp
  have "wp (reportAll cfg gizpayApi [?x, ?x]) (\<lambda>_ s'. givenUp o' s s' \<and> remote s' = ?p2) (\<lambda>_ _. False) s"
    unfolding reportAll.simps
  proof (rule wp_bndI [OF unanswered_attempt [OF assms(1,2,9,10)]], rule wp_bndI)
    fix x and s1 :: "('c, gizpay) site"
    assume s1: "remote s1 = snd (post_charge gizpayApi (ob_payload o') (remote s)) \<and> network s1 = network s \<and>
      network_n s1 = Suc (network_n s) \<and> ai_orders (committed (way s1)) = ai_orders (committed (way s)) \<and>
      rows s1 = updateRows (\<lambda>q. ob_id q = ob_id o') (\<lambda>q. q\<lparr>ob_status := ''pending'', ob_recover := ob_recover o',
        ob_updated_at := now (way s)\<rparr>) (rows s) \<and> fault (way s1) = (\<lambda>_. False) \<and> now (way s1) = now (way s)"
    have "?o \<in> set (rows s1)"
      using assms(2) s1 by (auto simp: updateRows_def dueRow_def intro!: rev_image_eqI [of o'])
    with assms(2) s1 have due: "dueRow ?o s1" by (auto simp: dueRow_def unreported_def map_updateRows)
    show "wp (reportOutbox cfg gizpayApi ?x) (\<lambda>_ s'. remote s' = ?p2 \<and> givenUp ?o s1 s') (\<lambda>_ _. False) s1"
      using conflicting_attempt [OF assms(1) due, of gizpayApi a] assms(3,5-7,11-13) s1 by simp
    fix y and s2 :: "('c, gizpay) site"
    assume "remote s2 = ?p2 \<and> givenUp ?o s1 s2"
    with s1 show "wp (ret ()) (\<lambda>_ s'. givenUp o' s s' \<and> remote s' = ?p2) (\<lambda>_ _. False) s2"
      by (auto simp: wp_ret givenUp_def updateRows_def)
  qed
  with amount show ?thesis using wp_snd by fastforce
qed

text \<open>The example: a charge of 1000 with a commission of 100.\<close>

definition after_charge :: gizpay where
  "after_charge = snd (post_charge gizpayApi demo_charge demo_gizpay)"

definition demo_order :: ai_order where
  "demo_order = aiOrder ''aio'' ''order-1'' ''h'' demo_call 1000 100 zero_usage 60"

definition lossy_row :: outbox where
  "lossy_row = \<lparr> ob_id = ''out'', ob_external = ''order-1'', ob_order = ''aio'', ob_payload = demo_charge,
     ob_status = ''pending'', ob_recover = False, ob_created_at = 60, ob_updated_at = 60 \<rparr>"

definition lossy_site :: "(unit, gizpay) site" where
  "lossy_site = demo_site\<lparr>network := (\<lambda>n. if n = 0 then Replaced 500 else Delivered),
     way := demo_world ((empty_way ())\<lparr>ai_orders := [demo_order], charge_outbox := [lossy_row]\<rparr>)\<rparr>"

lemma gizpayOk_demo: "gizpayOk demo_gizpay"
  using payInv_demo by (simp add: gizpayOk_def demo_gizpay_def demo_world_def)

lemma post_fresh: "post_charge gizpayApi demo_charge demo_gizpay = (201, after_charge)"
  using demo_charge_created
  by (simp add: after_charge_def gizpayApi_def asked_def demo_gizpay_def Let_def int64_defs)

lemma after_charge_amount: "chargedAmount ''order-1'' after_charge = Some 1000"
  using gizpay_server.post_201 [OF gizpayOk_demo, of demo_charge] by (simp add: post_fresh)

lemma after_charge_same: "gp_config after_charge = demo_pay_config" "gp_principal after_charge = ''svc''"
    "gp_failpoint after_charge = []"
  by (simp_all add: after_charge_def gizpayApi_def asked_def demo_gizpay_def Let_def)

lemma after_charge_fault: "fault (gp_session after_charge) = (\<lambda>_. False)"
  using demo_charge_created(2)
  by (simp add: after_charge_def gizpayApi_def asked_def demo_gizpay_def int64_range_def int64_defs Let_def)

lemma post_again: "fst (post_charge gizpayApi demo_charge after_charge) = 409"
  using after_charge_amount
  by (auto simp: gizpayApi_def asked_def after_charge_same Let_def int64_defs createCharge_def respond_def bnd_def
      demo_chargeChecks orZero_def db_exec_def reading_def after_charge_fault ret_def require_def reply_def
      chargedAmount_def)

theorem reportOutbox_gives_up_charged_witness:
  "map ob_status (rows (snd (reportAll demo_way_config gizpayApi [''order-1'', ''order-1''] lossy_site))) = [''abandoned''] \<and>
   map ao_status (ai_orders (committed (way (snd (reportAll demo_way_config gizpayApi [''order-1'', ''order-1''] lossy_site)))))
     = [''billing_failed''] \<and>
   chargedAmount ''order-1'' (remote (snd (reportAll demo_way_config gizpayApi [''order-1'', ''order-1''] lossy_site))) = Some 1000"
proof -
  have set: "reportingSet demo_way_config" by (simp add: reportingSet_def demo_way_config_def)
  have due: "dueRow lossy_row lossy_site" "\<not> ob_recover lossy_row" "cr_external (ob_payload lossy_row) = ob_external lossy_row"
    by (simp_all add: dueRow_def lossy_row_def lossy_site_def rows_def unreported_def demo_world_def demo_site_def demo_charge_def)
  have order: "demo_order \<in> set (ai_orders (committed (way lossy_site)))" "ao_id demo_order = ob_order lossy_row"
    "distinct (map ao_id (ai_orders (committed (way lossy_site))))"
    by (simp_all add: lossy_site_def lossy_row_def demo_world_def demo_order_def aiOrder_def)
  have net: "gizpayOk (remote lossy_site)" "network lossy_site (network_n lossy_site) = Replaced 500"
    "(500 :: nat) \<notin> {201, 409}" "network lossy_site (Suc (network_n lossy_site)) = Delivered"
    using gizpayOk_demo by (simp_all add: lossy_site_def demo_site_def)
  have post: "post_charge gizpayApi (ob_payload lossy_row) (remote lossy_site) = (201, after_charge)"
    "fst (post_charge gizpayApi (ob_payload lossy_row) after_charge) = 409"
    using post_fresh post_again by (simp_all add: lossy_row_def lossy_site_def demo_site_def)
  show ?thesis
    using reportOutbox_gives_up_charged [OF set due order net post]
    by (simp add: givenUp_def lossy_row_def lossy_site_def demo_site_def demo_world_def rows_def updateRows_def demo_charge_def
        demo_order_def aiOrder_def)
qed

end
