(* ===== verification/WayCredit.thy ===== *)
theory WayCredit
  imports WayReport
begin

section \<open>Admission by credit\<close>

text \<open>
  \<open>admit\<close>, \<open>snapshot\<close>, \<open>checkCredit\<close>, \<open>consumeLocalCredit\<close> of \<open>internal/gizway/protocol.go\<close> and
  \<open>pruneCreditStates\<close> of \<open>handler.go\<close>. A request is admitted by a cached answer of GizPay's credit
  check; one request per Subscription Key asks GizPay, the others wait for it on a channel. The map
  holds pointers, so a state is an address; \<open>chan_closed\<close> are the channels that have been closed.
\<close>

subsection \<open>Data\<close>

record credit_admission =
  ad_account :: string
  ad_subscription :: string
  ad_subscription_key :: string
  ad_product :: string
  ad_billing :: string
  ad_issuer :: string
  ad_subject :: string
  ad_allowed :: bool

record credit_state =
  cs_admission :: credit_admission
  cs_available :: int
  cs_expires :: time
  cs_loading :: bool
  cs_wait :: nat

record credit_cache =
  credits :: "string \<Rightarrow> nat option"
  credit_states :: "nat \<Rightarrow> credit_state"
  states_n :: nat
  chan_closed :: "nat \<Rightarrow> bool"
  chans_n :: nat

record credit_check_result =
  cc_admission :: credit_admission
  cc_available :: int
  cc_expires :: time

datatype credit_error = InvalidSubscriptionKey | CheckFailed | ContextDone

definition no_admission :: credit_admission where
  "no_admission = \<lparr> ad_account = [], ad_subscription = [], ad_subscription_key = [], ad_product = [],
     ad_billing = [], ad_issuer = [], ad_subject = [], ad_allowed = False \<rparr>"

definition empty_cache :: credit_cache where
  "empty_cache = \<lparr> credits = (\<lambda>_. None),
     credit_states = (\<lambda>_. \<lparr> cs_admission = no_admission, cs_available = 0, cs_expires = 0, cs_loading = False,
       cs_wait = 0 \<rparr>),
     states_n = 0, chan_closed = (\<lambda>_. False), chans_n = 0 \<rparr>"

definition setState :: "nat \<Rightarrow> credit_state \<Rightarrow> credit_cache \<Rightarrow> credit_cache" where
  "setState a st c = c\<lparr>credit_states := (credit_states c)(a := st)\<rparr>"

subsection \<open>\<open>checkCredit\<close>\<close>

text \<open>
  The answer of the credit check, \<open>NoAnswer\<close> for an error of the request or of reading its body.
  Decoding is \<open>encoding/json\<close>: the error code of a body, and the fields of a check.
\<close>

datatype check_answer = NoAnswer | Answered nat string

record check_body =
  ck_status :: string
  ck_product :: string
  ck_billing :: string
  ck_available :: int
  ck_recheck :: int
  ck_account :: string
  ck_subscription :: string
  ck_subscription_key :: string
  ck_issuer :: string
  ck_subject :: string
  ck_checked_at :: time

record check_decoders =
  cd_failure :: "string \<Rightarrow> string option"
  cd_check :: "string \<Rightarrow> check_body option"

definition checkedCredit :: "check_body \<Rightarrow> credit_error + credit_check_result" where
  "checkedCredit b =
     (if ck_recheck b \<le> 0 \<or> ck_checked_at b = 0 \<or> ck_status b \<noteq> ''allowed'' \<and> ck_status b \<noteq> ''denied''
      then Inl CheckFailed
      else Inr \<lparr> cc_admission = \<lparr> ad_account = ck_account b, ad_subscription = ck_subscription b,
                 ad_subscription_key = ck_subscription_key b, ad_product = ck_product b,
                 ad_billing = ck_billing b, ad_issuer = ck_issuer b, ad_subject = ck_subject b,
                 ad_allowed = (ck_status b = ''allowed'') \<rparr>,
               cc_available = ck_available b,
               cc_expires = ck_checked_at b + wrap64 (ck_recheck b * second) \<rparr>)"

definition checkCredit ::
  "way_config \<Rightarrow> check_decoders \<Rightarrow> bool \<Rightarrow> check_answer \<Rightarrow> credit_error + credit_check_result" where
  "checkCredit cfg dec token answer =
     (if wc_gizpay_url cfg = [] \<or> \<not> wc_token_source cfg then Inl CheckFailed
      else if \<not> token then Inl CheckFailed
      else if \<not> wc_url_ok cfg (trimSlashes (wc_gizpay_url cfg) @ ''/service/v1/subscription-credit-checks'')
      then Inl CheckFailed
      else case answer of
        NoAnswer \<Rightarrow> Inl CheckFailed
      | Answered st body \<Rightarrow>
          if st \<noteq> 200
          then if length body \<le> 65536 \<and> st = 401 \<and> cd_failure dec body = Some ''invalid_subscription_key''
               then Inl InvalidSubscriptionKey else Inl CheckFailed
          else case cd_check dec body of None \<Rightarrow> Inl CheckFailed | Some b \<Rightarrow> checkedCredit b)"

subsection \<open>\<open>admit\<close>\<close>

definition snapshot :: "credit_state \<Rightarrow> credit_admission" where
  "snapshot st = (cs_admission st)\<lparr>ad_allowed := ad_allowed (cs_admission st) \<and> 0 < cs_available st\<rparr>"

text \<open>The critical section before the check, and its three ways on.\<close>

datatype entry = Waits nat | Cached credit_admission | Loads nat

definition admitEnter :: "time \<Rightarrow> string \<Rightarrow> credit_cache \<Rightarrow> entry \<times> credit_cache" where
  "admitEnter t keyHMAC c =
     (case credits c keyHMAC of
        None \<Rightarrow>
          (Loads (states_n c),
           c\<lparr>credits := (credits c)(keyHMAC \<mapsto> states_n c),
             credit_states := (credit_states c)(states_n c := \<lparr> cs_admission = no_admission, cs_available = 0,
                cs_expires = 0, cs_loading = True, cs_wait = chans_n c \<rparr>),
             states_n := Suc (states_n c), chans_n := Suc (chans_n c)\<rparr>)
      | Some a \<Rightarrow>
          let st = credit_states c a in
          if cs_loading st then (Waits (cs_wait st), c)
          else if t < cs_expires st then (Cached (snapshot st), c)
          else (Loads a, (setState a (st\<lparr>cs_loading := True, cs_wait := chans_n c\<rparr>) c)
                  \<lparr>chans_n := Suc (chans_n c)\<rparr>))"

text \<open>The critical section after it.\<close>

definition admitFinish ::
  "string \<Rightarrow> nat \<Rightarrow> credit_error + credit_check_result \<Rightarrow> credit_cache \<Rightarrow>
     (credit_error + credit_admission) \<times> credit_cache" where
  "admitFinish keyHMAC a result c =
     (let st = (credit_states c a)\<lparr>cs_loading := False\<rparr>;
          c1 = (setState a st c)\<lparr>chan_closed := (chan_closed c)(cs_wait st := True)\<rparr>
      in case result of
           Inl e \<Rightarrow> (Inl e, if credits c1 keyHMAC = Some a
                          then c1\<lparr>credits := (credits c1)(keyHMAC := None)\<rparr> else c1)
         | Inr x \<Rightarrow>
             let st1 = st\<lparr>cs_available := cc_available x, cs_admission := cc_admission x,
                          cs_expires := cc_expires x\<rparr>
             in (Inr (snapshot st1), setState a st1 c1))"

text \<open>
  The loop of one request, which reads the clock in each round. \<open>rivals\<close> is what the other requests do
  while this one waits and the time when it looks again, for each time that it waits; when it waits
  once more, its context has ended. \<open>during\<close> is what they do during its check.
\<close>

fun admit ::
  "(time \<times> (credit_cache \<Rightarrow> credit_cache)) list \<Rightarrow> (credit_cache \<Rightarrow> credit_cache) \<Rightarrow> time \<Rightarrow>
     credit_error + credit_check_result \<Rightarrow> string \<Rightarrow> credit_cache \<Rightarrow>
     (credit_error + credit_admission) \<times> credit_cache" where
  "admit rivals during t result keyHMAC c =
     (case admitEnter t keyHMAC c of
        (Cached admission, c') \<Rightarrow> (Inr admission, c')
      | (Loads a, c') \<Rightarrow> admitFinish keyHMAC a result (during c')
      | (Waits _, c') \<Rightarrow>
          (case rivals of
             [] \<Rightarrow> (Inl ContextDone, c')
           | (t', rival) # rest \<Rightarrow> admit rest during t' result keyHMAC (rival c')))"

declare admit.simps [simp del]

definition drawCredit :: "int \<Rightarrow> credit_state \<Rightarrow> credit_state" where
  "drawCredit gross st =
     (let left = (if cs_available st < wrap64 (min_int64 + gross) then min_int64
                  else wrap64 (cs_available st - gross));
          st1 = st\<lparr>cs_available := left\<rparr>
      in if left \<le> 0 then st1\<lparr>cs_admission := (cs_admission st1)\<lparr>ad_allowed := False\<rparr>\<rparr> else st1)"

definition consumeLocalCredit :: "string \<Rightarrow> int \<Rightarrow> credit_cache \<Rightarrow> credit_cache" where
  "consumeLocalCredit keyHMAC gross c =
     (if gross \<le> 0 then c
      else case credits c keyHMAC of
        None \<Rightarrow> c
      | Some a \<Rightarrow> setState a (drawCredit gross (credit_states c a)) c)"

definition pruneCreditStates :: "time \<Rightarrow> credit_cache \<Rightarrow> credit_cache" where
  "pruneCreditStates t c =
     c\<lparr>credits := (\<lambda>k. case credits c k of
         None \<Rightarrow> None
       | Some a \<Rightarrow> if \<not> cs_loading (credit_states c a) \<and> \<not> t < cs_expires (credit_states c a) then None else Some a)\<rparr>"

end
