(* ===== verification/WayFlight.thy ===== *)
theory WayFlight
  imports WayCredit
begin

section \<open>Concurrent admissions\<close>

text \<open>
  The goroutines that admit requests, the calls that consume credit, and the cleanup of the cache,
  interleaved at their critical sections. The relation \<open>credit_step\<close> has one rule for each; its
  reachable states satisfy \<open>creditInv\<close>.
\<close>

subsection \<open>The system\<close>

datatype goroutine =
    Idle
  | Arrived string
  | Waiting string nat
  | Checking string nat
  | Admitted string credit_admission
  | Refused string credit_error

record credit_system =
  cache :: credit_cache
  go :: "nat \<Rightarrow> goroutine"
  clock :: time

fun entered :: "string \<Rightarrow> entry \<Rightarrow> goroutine" where
  "entered key (Waits ch) = Waiting key ch"
| "entered key (Cached admission) = Admitted key admission"
| "entered key (Loads a) = Checking key a"

fun finished :: "string \<Rightarrow> credit_error + credit_admission \<Rightarrow> goroutine" where
  "finished key (Inl e) = Refused key e"
| "finished key (Inr admission) = Admitted key admission"

definition goes :: "nat \<Rightarrow> goroutine \<Rightarrow> credit_system \<Rightarrow> credit_system" where
  "goes i g s = s\<lparr>go := (go s)(i := g)\<rparr>"

inductive credit_step :: "credit_system \<Rightarrow> credit_system \<Rightarrow> bool" where
  arrive: "go s i = Idle \<Longrightarrow> credit_step s (goes i (Arrived key) s)"
| enter: "go s i = Arrived key \<Longrightarrow> admitEnter (clock s) key (cache s) = (e, c) \<Longrightarrow>
    credit_step s (goes i (entered key e) s\<lparr>cache := c\<rparr>)"
| wake: "go s i = Waiting key ch \<Longrightarrow> chan_closed (cache s) ch \<Longrightarrow> credit_step s (goes i (Arrived key) s)"
| cancel: "go s i = Waiting key ch \<Longrightarrow> credit_step s (goes i (Refused key ContextDone) s)"
| finish: "go s i = Checking key a \<Longrightarrow> admitFinish key a result (cache s) = (x, c) \<Longrightarrow>
    credit_step s (goes i (finished key x) s\<lparr>cache := c\<rparr>)"
| consume: "credit_step s (s\<lparr>cache := consumeLocalCredit key gross (cache s)\<rparr>)"
| prune: "credit_step s (s\<lparr>cache := pruneCreditStates (clock s) (cache s)\<rparr>)"
| pass: "clock s \<le> t \<Longrightarrow> credit_step s (s\<lparr>clock := t\<rparr>)"

definition credit_start :: "time \<Rightarrow> credit_system" where
  "credit_start t = \<lparr> cache = empty_cache, go = (\<lambda>_. Idle), clock = t \<rparr>"

inductive credit_reach :: "time \<Rightarrow> credit_system \<Rightarrow> bool" for t where
  start: "credit_reach t (credit_start t)"
| more: "credit_reach t s \<Longrightarrow> credit_step s s' \<Longrightarrow> credit_reach t s'"

lemma go_goes [simp]: "go (goes i g s) = (go s)(i := g)" "cache (goes i g s) = cache s" "clock (goes i g s) = clock s"
  by (simp_all add: goes_def)

subsection \<open>The invariant\<close>

text \<open>
  The states of different keys are different. A goroutine that checks a key does so for the state
  that the map holds, which is loading and whose channel is open; it is the only one, and a loading
  state has one. A goroutine that waits does so for a closed channel or for a check under way.
\<close>

definition wellAddressed :: "credit_cache \<Rightarrow> bool" where
  "wellAddressed c \<longleftrightarrow>
     (\<forall>k a. credits c k = Some a \<longrightarrow> a < states_n c) \<and>
     (\<forall>k k' a. credits c k = Some a \<longrightarrow> credits c k' = Some a \<longrightarrow> k = k') \<and>
     (\<forall>ch. chan_closed c ch \<longrightarrow> ch < chans_n c)"

definition creditInv :: "credit_system \<Rightarrow> bool" where
  "creditInv s \<longleftrightarrow> wellAddressed (cache s) \<and>
     (\<forall>i k a. go s i = Checking k a \<longrightarrow>
        credits (cache s) k = Some a \<and> cs_loading (credit_states (cache s) a) \<and>
        cs_wait (credit_states (cache s) a) < chans_n (cache s) \<and>
        \<not> chan_closed (cache s) (cs_wait (credit_states (cache s) a))) \<and>
     (\<forall>i j k a b. go s i = Checking k a \<longrightarrow> go s j = Checking k b \<longrightarrow> i = j) \<and>
     (\<forall>k a. credits (cache s) k = Some a \<longrightarrow> cs_loading (credit_states (cache s) a) \<longrightarrow>
        (\<exists>i. go s i = Checking k a)) \<and>
     (\<forall>i j k k' a b. go s i = Checking k a \<longrightarrow> go s j = Checking k' b \<longrightarrow>
        cs_wait (credit_states (cache s) a) = cs_wait (credit_states (cache s) b) \<longrightarrow> i = j) \<and>
     (\<forall>i k ch. go s i = Waiting k ch \<longrightarrow> chan_closed (cache s) ch \<or>
        (\<exists>j a. go s j = Checking k a \<and> cs_wait (credit_states (cache s) a) = ch))"

lemma creditInvI:
  assumes "wellAddressed (cache s)"
    and "\<And>i k a. go s i = Checking k a \<Longrightarrow>
        credits (cache s) k = Some a \<and> cs_loading (credit_states (cache s) a) \<and>
        cs_wait (credit_states (cache s) a) < chans_n (cache s) \<and>
        \<not> chan_closed (cache s) (cs_wait (credit_states (cache s) a))"
    and "\<And>i j k a b. go s i = Checking k a \<Longrightarrow> go s j = Checking k b \<Longrightarrow> i = j"
    and "\<And>k a. credits (cache s) k = Some a \<Longrightarrow> cs_loading (credit_states (cache s) a) \<Longrightarrow>
        \<exists>i. go s i = Checking k a"
    and "\<And>i j k k' a b. go s i = Checking k a \<Longrightarrow> go s j = Checking k' b \<Longrightarrow>
        cs_wait (credit_states (cache s) a) = cs_wait (credit_states (cache s) b) \<Longrightarrow> i = j"
    and "\<And>i k ch. go s i = Waiting k ch \<Longrightarrow> chan_closed (cache s) ch \<or>
        (\<exists>j a. go s j = Checking k a \<and> cs_wait (credit_states (cache s) a) = ch)"
  shows "creditInv s"
  unfolding creditInv_def
  by (intro conjI) (use assms(1) in blast, use assms(2) in blast, use assms(3) in blast, use assms(4) in blast,
    use assms(5) in blast, use assms(6) in blast)

lemma inv_addr: "creditInv s \<Longrightarrow> wellAddressed (cache s)"
  by (simp add: creditInv_def)

lemma cache_upd: "cache (s\<lparr>cache := c\<rparr>) = c" "go (s\<lparr>cache := c\<rparr>) = go s" "clock (s\<lparr>cache := c\<rparr>) = clock s"
  by simp_all

lemma inv_checking:
  assumes "creditInv s" and "go s i = Checking k a"
  shows "credits (cache s) k = Some a" and "cs_loading (credit_states (cache s) a)"
    and "cs_wait (credit_states (cache s) a) < chans_n (cache s)"
    and "\<not> chan_closed (cache s) (cs_wait (credit_states (cache s) a))"
  using assms unfolding creditInv_def by blast+

lemma inv_single: "creditInv s \<Longrightarrow> go s i = Checking k a \<Longrightarrow> go s j = Checking k b \<Longrightarrow> i = j"
  unfolding creditInv_def by blast

lemma inv_loading:
  assumes "creditInv s" and "credits (cache s) k = Some a" and "cs_loading (credit_states (cache s) a)"
  obtains i where "go s i = Checking k a"
  using assms unfolding creditInv_def by blast

lemma inv_channels:
  assumes "creditInv s" and "go s i = Checking k a" and "go s j = Checking k' b"
    and "cs_wait (credit_states (cache s) a) = cs_wait (credit_states (cache s) b)"
  shows "i = j"
  using assms unfolding creditInv_def by blast

lemma inv_waiting:
  assumes "creditInv s" and "go s i = Waiting k ch"
  obtains "chan_closed (cache s) ch"
  | j a where "go s j = Checking k a" and "cs_wait (credit_states (cache s) a) = ch"
  using assms unfolding creditInv_def by blast

text \<open>A goroutine moves on without touching the cache.\<close>

lemma inv_go:
  assumes I: "creditInv s" and old: "\<And>k a. go s i \<noteq> Checking k a" and new: "\<And>k a. g \<noteq> Checking k a"
    and waits: "\<And>k ch. g = Waiting k ch \<Longrightarrow> chan_closed (cache s) ch \<or>
      (\<exists>j a. go s j = Checking k a \<and> cs_wait (credit_states (cache s) a) = ch)"
  shows "creditInv (goes i g s)"
proof -
  have chk: "go (goes i g s) j = Checking k a \<longleftrightarrow> go s j = Checking k a" for j k a
    using old new by (auto simp: goes_def)
  show ?thesis
  proof (rule creditInvI, unfold chk go_goes(2))
    fix j k ch assume "go (goes i g s) j = Waiting k ch"
    then have "g = Waiting k ch \<or> go s j = Waiting k ch" by (auto split: if_splits)
    then show "chan_closed (cache s) ch \<or> (\<exists>j a. go s j = Checking k a \<and> cs_wait (credit_states (cache s) a) = ch)"
      using waits inv_waiting [OF I] by blast
  qed (use inv_addr [OF I] in blast, use inv_checking [OF I] in blast, use inv_single [OF I] in blast,
    erule (1) inv_loading [OF I], blast, use inv_channels [OF I] in blast)
qed

lemma inv_cache:
  assumes "creditInv s" and "wellAddressed c" and "chan_closed c = chan_closed (cache s)" and "chans_n c = chans_n (cache s)"
    and states: "\<And>a. cs_loading (credit_states c a) = cs_loading (credit_states (cache s) a) \<and>
      cs_wait (credit_states c a) = cs_wait (credit_states (cache s) a)"
    and "\<And>k a. credits c k = Some a \<Longrightarrow> credits (cache s) k = Some a"
    and "\<And>k a. credits (cache s) k = Some a \<Longrightarrow> cs_loading (credit_states (cache s) a) \<Longrightarrow> credits c k = Some a"
  shows "creditInv (s\<lparr>cache := c\<rparr>)"
proof -
  have sl: "cs_loading (credit_states c a) = cs_loading (credit_states (cache s) a)"
    and sw: "cs_wait (credit_states c a) = cs_wait (credit_states (cache s) a)" for a
    using states by auto
  show ?thesis
    using assms(1,2) unfolding creditInv_def
    by (simp add: sl sw assms(3,4)) (meson assms(6,7))
qed

lemma drawCredit_sel [simp]:
  "cs_loading (drawCredit gross st) = cs_loading st" "cs_wait (drawCredit gross st) = cs_wait st"
  by (simp_all add: drawCredit_def Let_def)

lemma consume_sel [simp]:
  "credits (consumeLocalCredit key gross c) = credits c"
  "chan_closed (consumeLocalCredit key gross c) = chan_closed c"
  "chans_n (consumeLocalCredit key gross c) = chans_n c"
  "states_n (consumeLocalCredit key gross c) = states_n c"
  "cs_loading (credit_states (consumeLocalCredit key gross c) a) = cs_loading (credit_states c a)"
  "cs_wait (credit_states (consumeLocalCredit key gross c) a) = cs_wait (credit_states c a)"
  by (simp_all add: consumeLocalCredit_def setState_def split: option.split)

lemma inv_consume: "creditInv s \<Longrightarrow> creditInv (s\<lparr>cache := consumeLocalCredit key gross (cache s)\<rparr>)"
  by (rule inv_cache) (simp_all add: creditInv_def wellAddressed_def)

lemma inv_prune: "creditInv s \<Longrightarrow> creditInv (s\<lparr>cache := pruneCreditStates t (cache s)\<rparr>)"
  by (rule inv_cache)
     (simp_all add: pruneCreditStates_def wellAddressed_def creditInv_def split: option.splits if_splits, blast?)

text \<open>A check begins: the state is new or not loading, its channel new.\<close>

lemma inv_load:
  assumes I: "creditInv s" and i: "go s i = Arrived key"
    and c: "credits c key = Some a" "cs_loading (credit_states c a)" "cs_wait (credit_states c a) = chans_n (cache s)"
      "chans_n c = Suc (chans_n (cache s))" "chan_closed c = chan_closed (cache s)" "wellAddressed c"
    and key: "\<And>k b. k \<noteq> key \<Longrightarrow> credits c k = credits (cache s) k"
    and states: "\<And>b. b \<noteq> a \<Longrightarrow> credit_states c b = credit_states (cache s) b"
    and quiet: "\<And>b. credits (cache s) key = Some b \<Longrightarrow> b = a \<and> \<not> cs_loading (credit_states (cache s) b)"
    and fresh: "\<And>k. k \<noteq> key \<Longrightarrow> credits (cache s) k \<noteq> Some a"
  shows "creditInv ((goes i (Checking key a) s)\<lparr>cache := c\<rparr>)"
proof -
  have chk: "credits (cache s) k = Some b \<and> cs_loading (credit_states (cache s) b) \<and>
        cs_wait (credit_states (cache s) b) < chans_n (cache s) \<and>
        \<not> chan_closed (cache s) (cs_wait (credit_states (cache s) b))"
    if "go s j = Checking k b" for j k b
    using inv_checking [OF I that] by simp
  have other: "k \<noteq> key \<and> b \<noteq> a \<and> credits c k = Some b \<and> credit_states c b = credit_states (cache s) b"
    if "go s j = Checking k b" for j k b
    using chk [OF that] quiet key states fresh by metis
  have nclosed: "\<not> chan_closed (cache s) (chans_n (cache s))" using I by (auto simp: creditInv_def wellAddressed_def)
  let ?g = "goes i (Checking key a) s"
  have go: "go (goes i (Checking key a) s) j = (if j = i then Checking key a else go s j)" for j by simp
  have 1: "credits c k = Some b \<and> cs_loading (credit_states c b) \<and> cs_wait (credit_states c b) < chans_n c \<and>
      \<not> chan_closed c (cs_wait (credit_states c b))" if "go ?g j = Checking k b" for j k b
    using that c nclosed chk [of j k b] other [of j k b] by (auto simp: go split: if_splits)
  have 2: "j = j'" if "go ?g j = Checking k b" "go ?g j' = Checking k b'" for j j' k b b'
    using that other inv_single [OF I] by (auto simp: go split: if_splits)
  have 3: "\<exists>j. go ?g j = Checking k b" if "credits c k = Some b" "cs_loading (credit_states c b)" for k b
  proof (cases "k = key")
    case True
    then show ?thesis using that c go [of i] by auto
  next
    case False
    have cr: "credits (cache s) k = Some b" and ba: "b \<noteq> a" using False that key fresh by auto
    have "cs_loading (credit_states (cache s) b)" using that states [OF ba] by simp
    with cr obtain j where "go s j = Checking k b" using inv_loading [OF I] by blast
    then show ?thesis using go [of j] i by (intro exI [of _ j]) auto
  qed
  have w: "cs_wait (credit_states c b) < chans_n (cache s)" if "go s j = Checking k b" for j k b
    using chk [OF that] other [OF that] by simp
  have 4: "j = j'" if "go ?g j = Checking k b" "go ?g j' = Checking k' b'"
    "cs_wait (credit_states c b) = cs_wait (credit_states c b')" for j j' k k' b b'
  proof (cases "j = i \<or> j' = i")
    case True
    then show ?thesis using that w [of j k b] w [of j' k' b'] c(3) by (auto simp: go split: if_splits)
  next
    case False
    then have "go s j = Checking k b" "go s j' = Checking k' b'" using that by (simp_all add: go)
    moreover from this have "cs_wait (credit_states (cache s) b) = cs_wait (credit_states (cache s) b')"
      using that(3) other by metis
    ultimately show ?thesis by (rule inv_channels [OF I])
  qed
  have 5: "chan_closed c ch \<or> (\<exists>j' b. go ?g j' = Checking k b \<and> cs_wait (credit_states c b) = ch)"
    if "go ?g j = Waiting k ch" for j k ch
  proof -
    have "go s j = Waiting k ch" using that by (auto simp: go split: if_splits)
    from I this show ?thesis
    proof (cases rule: inv_waiting)
      case (2 j' b)
      then show ?thesis using other [of j' k b] go [of j'] i by (intro disjI2 exI [of _ j'] exI [of _ b]) auto
    qed (simp add: c)
  qed
  show ?thesis
  proof (rule creditInvI, unfold cache_upd)
    show "wellAddressed c" by (rule c)
  qed (use 1 in blast, use 2 in blast, use 3 in blast, use 4 in blast, use 5 in blast)
qed

lemma creditInv_start: "creditInv (credit_start t)"
  by (simp add: creditInv_def credit_start_def empty_cache_def wellAddressed_def)

lemma wellAddressed_enter:
  "wellAddressed c \<Longrightarrow> admitEnter t k c = (e, c') \<Longrightarrow> wellAddressed c'"
  by (auto simp: admitEnter_def wellAddressed_def setState_def Let_def split: option.splits if_splits)
   (use less_Suc_eq in force)+

lemma wellAddressed_finish:
  "wellAddressed c \<Longrightarrow> cs_wait (credit_states c a) < chans_n c \<Longrightarrow> admitFinish k a r c = (x, c') \<Longrightarrow> wellAddressed c'"
  by (auto simp: admitFinish_def wellAddressed_def setState_def Let_def split: sum.splits if_splits)

text \<open>A check ends: its channel is closed and its state is no longer loading.\<close>

lemma finish_sel:
  assumes "admitFinish key a r c = (x, c')"
  shows "chan_closed c' = (chan_closed c)(cs_wait (credit_states c a) := True)" and "chans_n c' = chans_n c"
    and "\<not> cs_loading (credit_states c' a)" and "\<And>b. b \<noteq> a \<Longrightarrow> credit_states c' b = credit_states c b"
    and "\<And>k. k \<noteq> key \<Longrightarrow> credits c' k = credits c k" and "\<And>k b. credits c' k = Some b \<Longrightarrow> credits c k = Some b"
  using assms by (auto simp: admitFinish_def setState_def Let_def split: sum.splits if_splits)

lemma inv_finish:
  assumes I: "creditInv s" and i: "go s i = Checking key a" and fin: "admitFinish key a r (cache s) = (x, c)"
    and g: "\<And>k b. g \<noteq> Checking k b" "\<And>k ch. g \<noteq> Waiting k ch"
  shows "creditInv ((goes i g s)\<lparr>cache := c\<rparr>)"
proof -
  note sel = finish_sel [OF fin]
  have go: "go (goes i g s) j = Checking k b \<longleftrightarrow> j \<noteq> i \<and> go s j = Checking k b"
    "go (goes i g s) j = Waiting k ch \<longleftrightarrow> go s j = Waiting k ch" for j k b ch
    using g i by auto
  have other: "b \<noteq> a \<and> k \<noteq> key" if "j \<noteq> i" "go s j = Checking k b" for j k b
    using that inv_single [OF I i] inv_checking [OF I i] inv_checking [OF I that(2)] inv_addr [OF I]
    unfolding wellAddressed_def by metis
  have diff: "cs_wait (credit_states (cache s) b) \<noteq> cs_wait (credit_states (cache s) a)"
    if "j \<noteq> i" "go s j = Checking k b" for j k b
    using that inv_channels [OF I i] by metis
  show ?thesis
  proof (rule creditInvI, unfold cache_upd go)
    show "wellAddressed c" by (rule wellAddressed_finish [OF inv_addr [OF I] inv_checking(3) [OF I i] fin])
  next
    fix j k b assume j: "j \<noteq> i \<and> go s j = Checking k b"
    then show "credits c k = Some b \<and> cs_loading (credit_states c b) \<and> cs_wait (credit_states c b) < chans_n c \<and>
        \<not> chan_closed c (cs_wait (credit_states c b))"
      using inv_checking [OF I, of j k b] other [of j k b] diff [of j k b] by (simp add: sel(1-5))
  next
    fix j j' k b b' assume "j \<noteq> i \<and> go s j = Checking k b" "j' \<noteq> i \<and> go s j' = Checking k b'"
    then show "j = j'" using inv_single [OF I] by blast
  next
    fix k b assume kb: "credits c k = Some b" "cs_loading (credit_states c b)"
    then have ba: "b \<noteq> a" using sel(3) by auto
    then have ld: "cs_loading (credit_states (cache s) b)" using kb sel(4) by simp
    from sel(6) [OF kb(1)] ld obtain j where j: "go s j = Checking k b" by (rule inv_loading [OF I])
    then have "j \<noteq> i" using i ba by auto
    with j show "\<exists>j. j \<noteq> i \<and> go s j = Checking k b" by blast
  next
    fix j j' k k' b b' assume "j \<noteq> i \<and> go s j = Checking k b" "j' \<noteq> i \<and> go s j' = Checking k' b'"
      "cs_wait (credit_states c b) = cs_wait (credit_states c b')"
    then show "j = j'"
      using inv_channels [OF I, of j k b j' k' b'] other [of j k b] other [of j' k' b'] by (simp add: sel(1-5))
  next
    fix j k ch assume w: "go s j = Waiting k ch"
    show "chan_closed c ch \<or> (\<exists>j b. (j \<noteq> i \<and> go s j = Checking k b) \<and> cs_wait (credit_states c b) = ch)"
      using I w
    proof (cases rule: inv_waiting)
      case 1
      then show ?thesis by (simp add: sel(1-5))
    next
      case (2 j' b)
      show ?thesis
      proof (cases "j' = i")
        case True
        then show ?thesis using 2 i by (simp add: sel(1-5))
      next
        case False
        then show ?thesis using 2 other [of j' k b] by (auto simp: sel(1-5))
      qed
    qed
  qed
qed

lemma inv_enter:
  assumes I: "creditInv s" and i: "go s i = Arrived key" and e: "admitEnter t key (cache s) = (e, c)"
  shows "creditInv ((goes i (entered key e) s)\<lparr>cache := c\<rparr>)"
proof -
  have w: "wellAddressed c" by (rule wellAddressed_enter [OF inv_addr [OF I] e])
  have lt: "credits (cache s) k = Some b \<Longrightarrow> b < states_n (cache s)" for k b
    using inv_addr [OF I] by (simp add: wellAddressed_def)
  have uniq: "credits (cache s) k = Some b \<Longrightarrow> credits (cache s) k' = Some b \<Longrightarrow> k = k'" for k k' b
    using inv_addr [OF I] unfolding wellAddressed_def by blast
  show ?thesis
  proof (cases "credits (cache s) key")
    case None
    then have e': "e = Loads (states_n (cache s))" "c = snd (admitEnter t key (cache s))"
      using e by (simp_all add: admitEnter_def)
    show ?thesis
      unfolding e'(1) entered.simps
      by (rule inv_load [OF I i]) (use None w lt in \<open>auto simp: e'(2) admitEnter_def\<close>)
  next
    case (Some a)
    consider "cs_loading (credit_states (cache s) a)" | "\<not> cs_loading (credit_states (cache s) a)" "t < cs_expires (credit_states (cache s) a)"
      | "\<not> cs_loading (credit_states (cache s) a)" "\<not> t < cs_expires (credit_states (cache s) a)" by blast
    then show ?thesis
    proof cases
      case 1
      then have "admitEnter t key (cache s) = (Waits (cs_wait (credit_states (cache s) a)), cache s)"
        using Some by (simp add: admitEnter_def Let_def)
      from trans [OF e [symmetric] this]
      have e': "e = Waits (cs_wait (credit_states (cache s) a))" "c = cache s" by simp_all
      obtain j where "go s j = Checking key a" using Some 1 by (rule inv_loading [OF I])
      then have "creditInv (goes i (entered key e) s)" by (intro inv_go [OF I]) (use i e' in auto)
      then show ?thesis by (simp add: e' goes_def)
    next
      case 2
      then have "admitEnter t key (cache s) = (Cached (snapshot (credit_states (cache s) a)), cache s)"
        using Some by (simp add: admitEnter_def Let_def)
      from trans [OF e [symmetric] this] have e': "\<exists>m. e = Cached m" "c = cache s" by simp_all
      then have "creditInv (goes i (entered key e) s)" by (intro inv_go [OF I]) (use i in auto)
      then show ?thesis by (simp add: e' goes_def)
    next
      case 3
      then have e': "e = Loads a" "c = snd (admitEnter t key (cache s))" using e Some 3 by (auto simp: admitEnter_def Let_def)
      show ?thesis
        unfolding e'(1) entered.simps
        by (rule inv_load [OF I i])
           (use Some 3 w uniq in \<open>auto simp: e'(2) admitEnter_def Let_def setState_def\<close>)
    qed
  qed
qed

lemma goes_cache: "goes i g (s\<lparr>cache := c\<rparr>) = (goes i g s)\<lparr>cache := c\<rparr>"
  by (simp add: goes_def)

lemma creditInv_clock: "creditInv (s\<lparr>clock := t\<rparr>) = creditInv s"
  by (simp add: creditInv_def)

lemma creditInv_step: "credit_step s s' \<Longrightarrow> creditInv s \<Longrightarrow> creditInv s'"
proof (induction rule: credit_step.induct)
  case (finish s i key a result x c)
  show ?case unfolding goes_cache
    by (rule inv_finish [OF finish.prems finish.hyps]) (cases x; simp)+
next
  case (enter s i key e c)
  then show ?case unfolding goes_cache by (intro inv_enter)
next
  case (pass s t)
  then show ?case by (simp only: creditInv_clock)
next
  case (arrive s i key)
  then show ?case by (intro inv_go) simp_all
next
  case (wake s i key ch)
  then show ?case by (intro inv_go) simp_all
next
  case (cancel s i key ch)
  then show ?case by (intro inv_go) simp_all
qed (rule inv_consume inv_prune, assumption)+

lemma reach_creditInv: "credit_reach t s \<Longrightarrow> creditInv s"
  by (induction rule: credit_reach.induct) (auto intro: creditInv_start creditInv_step)

subsection \<open>Every admission can finish\<close>

lemma check_settles:
  assumes i: "go s i = Checking k a" and I: "creditInv s" and x: "clock s < cc_expires (x :: credit_check_result)"
  obtains s' m where "credit_step s s'" and "go s' = (go s)(i := Admitted k m)" and "clock s' = clock s"
    and "credits (cache s') k = Some a" and "\<not> cs_loading (credit_states (cache s') a)"
    and "clock s < cs_expires (credit_states (cache s') a)"
    and "chan_closed (cache s') (cs_wait (credit_states (cache s) a))"
proof -
  obtain y c where fin: "admitFinish k a (Inr x) (cache s) = (y, c)" by fastforce
  then have y: "\<exists>m. y = Inr m" and c: "credits c = credits (cache s)" "cs_expires (credit_states c a) = cc_expires x"
    by (auto simp: admitFinish_def setState_def Let_def)
  from y obtain m where m: "y = Inr m" ..
  note sel = finish_sel [OF fin]
  show thesis
  proof (rule that [OF credit_step.finish [OF i fin]])
    show "go (goes i (finished k y) s\<lparr>cache := c\<rparr>) = (go s)(i := Admitted k m)" by (simp add: m goes_def)
    show "chan_closed (cache (goes i (finished k y) s\<lparr>cache := c\<rparr>)) (cs_wait (credit_states (cache s) a))"
      by (simp add: sel(1))
  qed (use c x inv_checking(1) [OF I i] sel(3) in simp_all)
qed

lemma fresh_admits:
  assumes "go s i = Arrived k" and "credits (cache s) k = Some a" and "\<not> cs_loading (credit_states (cache s) a)"
    and "clock s < cs_expires (credit_states (cache s) a)"
  shows "\<exists>s' m. credit_step s s' \<and> go s' i = Admitted k m"
proof -
  have "admitEnter (clock s) k (cache s) = (Cached (snapshot (credit_states (cache s) a)), cache s)"
    using assms by (simp add: admitEnter_def)
  from credit_step.enter [OF assms(1) this] show ?thesis by fastforce
qed

text \<open>A goroutine that waits for a check under way is admitted after it.\<close>

lemma wait_admits:
  assumes w: "go s i = Waiting k ch" and j: "go s j = Checking k a" "cs_wait (credit_states (cache s) a) = ch"
    and I: "creditInv s" and x: "clock s < cc_expires (x :: credit_check_result)"
  shows "\<exists>s' m. credit_step\<^sup>*\<^sup>* s s' \<and> go s' i = Admitted k m"
proof -
  obtain s1 m where 1: "credit_step s s1" "go s1 = (go s)(j := Admitted k m)" "clock s1 = clock s"
    "credits (cache s1) k = Some a" "\<not> cs_loading (credit_states (cache s1) a)"
    "clock s < cs_expires (credit_states (cache s1) a)" "chan_closed (cache s1) ch"
    using check_settles [OF j(1) I x] j(2) by metis
  have "go s1 i = Waiting k ch" using w j 1(2) by auto
  then have 2: "credit_step s1 (goes i (Arrived k) s1)" by (rule credit_step.wake) (rule 1)
  obtain s3 m' where 3: "credit_step (goes i (Arrived k) s1) s3" "go s3 i = Admitted k m'"
    using fresh_admits [of "goes i (Arrived k) s1" i k a] 1 by auto
  from 1(1) 2 3(1) have "credit_step\<^sup>*\<^sup>* s s3" by (meson rtranclp.intros)
  with 3(2) show ?thesis by blast
qed

lemma arrived_admits:
  assumes i: "go s i = Arrived k" and I: "creditInv s" and x: "clock s < cc_expires (x :: credit_check_result)"
  shows "\<exists>s' m. credit_step\<^sup>*\<^sup>* s s' \<and> go s' i = Admitted k m"
proof -
  obtain e c where e: "admitEnter (clock s) k (cache s) = (e, c)" by fastforce
  let ?s = "(goes i (entered k e) s)\<lparr>cache := c\<rparr>"
  have st: "credit_step s ?s" using credit_step.enter [OF i e] by (simp add: goes_cache)
  have I': "creditInv ?s" by (rule creditInv_step [OF st I])
  have cl: "clock ?s = clock s" by simp
  show ?thesis
  proof (cases e)
    case (Cached m)
    then have "go ?s i = Admitted k m" by simp
    with st show ?thesis by blast
  next
    case (Loads a)
    then have "go ?s i = Checking k a" by simp
    from check_settles [OF this I', of x] x cl obtain s' m where "credit_step ?s s'" "go s' = (go ?s)(i := Admitted k m)"
      by metis
    then have "credit_step\<^sup>*\<^sup>* s s'" "go s' i = Admitted k m" using st by (auto intro: converse_rtranclp_into_rtranclp)
    then show ?thesis by blast
  next
    case (Waits ch)
    then have w: "go ?s i = Waiting k ch" by simp
    have c': "c = cache s" "\<exists>a. credits c k = Some a \<and> cs_loading (credit_states c a) \<and> cs_wait (credit_states c a) = ch"
      using e Waits by (auto simp: admitEnter_def Let_def split: option.splits if_splits)
    then obtain a where a: "credits (cache ?s) k = Some a" "cs_loading (credit_states (cache ?s) a)"
      "cs_wait (credit_states (cache ?s) a) = ch" by auto
    obtain j where "go ?s j = Checking k a" using a(1,2) by (rule inv_loading [OF I'])
    from wait_admits [OF w this a(3) I', of x] x cl obtain s' m where "credit_step\<^sup>*\<^sup>* ?s s'" "go s' i = Admitted k m" by auto
    with st show ?thesis by (blast intro: converse_rtranclp_into_rtranclp)
  qed
qed

text \<open>C23: One request per Subscription Key asks GizPay at a time, whatever the others do: in every
  reachable state two goroutines that check a key are one, what it checks is the state that the map
  holds for the key, so an error removes it, and the channel that it will close is open, so
  closing it does not panic.\<close>

theorem admit_single_flight:
  assumes "credit_reach t s" and "go s i = Checking k a"
  shows "(\<forall>j b. go s j = Checking k b \<longrightarrow> j = i) \<and> credits (cache s) k = Some a \<and>
    \<not> chan_closed (cache s) (cs_wait (credit_states (cache s) a))"
  using inv_checking [OF reach_creditInv [OF assms(1)] assms(2)] inv_single [OF reach_creditInv [OF assms(1)] _ assms(2)]
  by blast

text \<open>C24: No request is stuck: a goroutine that waits for somebody else's check, in any reachable
  state, can always be admitted by steps of the requests that are there: the check it waits for
  ends and closes the channel, or the channel is closed already and it finds the answer, or checks
  itself.\<close>

theorem admit_never_stuck:
  assumes "credit_reach t s" and "go s i = Waiting k ch"
  shows "\<exists>s' m. credit_step\<^sup>*\<^sup>* s s' \<and> go s' i = Admitted k m"
proof -
  define x where "x = \<lparr> cc_admission = no_admission, cc_available = 0, cc_expires = clock s + 1 \<rparr>"
  have x: "clock s < cc_expires x" by (simp add: x_def)
  have I: "creditInv s" by (rule reach_creditInv [OF assms(1)])
  from I assms(2) show ?thesis
  proof (cases rule: inv_waiting)
    case 1
    have st: "credit_step s (goes i (Arrived k) s)" by (rule credit_step.wake [OF assms(2) 1])
    have "\<exists>s' m. credit_step\<^sup>*\<^sup>* (goes i (Arrived k) s) s' \<and> go s' i = Admitted k m"
      by (rule arrived_admits [OF _ creditInv_step [OF st I], where x = x]) (use x in simp_all)
    with st show ?thesis by (blast intro: converse_rtranclp_into_rtranclp)
  next
    case (2 j a)
    then show ?thesis by (rule wait_admits [OF assms(2) _ _ I x])
  qed
qed

subsection \<open>An example, and the quota\<close>

text \<open>Two requests with the same key: the first checks, the second waits for it.\<close>

definition flight_cache :: credit_cache where
  "flight_cache = snd (admitEnter 100 ''h'' empty_cache)"

definition demo_flight :: credit_system where
  "demo_flight = \<lparr> cache = flight_cache, go = (\<lambda>_. Idle)(0 := Checking ''h'' 0, 1 := Waiting ''h'' 0), clock = 100 \<rparr>"

lemma demo_flight_reach: "credit_reach 100 demo_flight"
proof -
  let ?s0 = "credit_start 100" let ?s1 = "goes 0 (Arrived ''h'') ?s0"
  let ?s2 = "goes 0 (Checking ''h'' 0) (?s1\<lparr>cache := flight_cache\<rparr>)" let ?s3 = "goes 1 (Arrived ''h'') ?s2"
  have 1: "credit_reach 100 ?s1"
    by (rule credit_reach.more [OF credit_reach.start credit_step.arrive]) (simp add: credit_start_def)
  have "admitEnter 100 ''h'' empty_cache = (Loads 0, flight_cache)"
    by (simp add: flight_cache_def admitEnter_def empty_cache_def)
  then have 2: "credit_reach 100 ?s2"
    using credit_reach.more [OF 1 credit_step.enter [of ?s1 0 "''h''" "Loads 0" flight_cache]]
    by (simp add: credit_start_def goes_cache)
  have 3: "credit_reach 100 ?s3"
    by (rule credit_reach.more [OF 2 credit_step.arrive]) (simp add: credit_start_def)
  have "admitEnter 100 ''h'' flight_cache = (Waits 0, flight_cache)"
    by (simp add: flight_cache_def admitEnter_def empty_cache_def)
  then have "credit_reach 100 (goes 1 (Waiting ''h'' 0) (?s3\<lparr>cache := flight_cache\<rparr>))"
    using credit_reach.more [OF 3 credit_step.enter [of ?s3 1 "''h''" "Waits 0" flight_cache]]
    by (simp add: credit_start_def goes_cache)
  moreover have "goes 1 (Waiting ''h'' 0) (?s3\<lparr>cache := flight_cache\<rparr>) = demo_flight"
    by (simp add: demo_flight_def goes_def credit_start_def fun_upd_def fun_eq_iff)
  ultimately show ?thesis by simp
qed

lemma demo_flight_go: "go demo_flight 0 = Checking ''h'' 0" "go demo_flight 1 = Waiting ''h'' 0"
  by (simp_all add: demo_flight_def)

theorem admit_single_flight_witness:
  "go demo_flight 1 = Waiting ''h'' 0 \<and> credits (cache demo_flight) ''h'' = Some 0 \<and>
   \<not> chan_closed (cache demo_flight) (cs_wait (credit_states (cache demo_flight) 0))"
  using admit_single_flight [OF demo_flight_reach demo_flight_go(1)] demo_flight_go(2) by blast

theorem admit_never_stuck_witness:
  "\<exists>s' m. credit_step\<^sup>*\<^sup>* demo_flight s' \<and> go s' 1 = Admitted ''h'' m"
  by (rule admit_never_stuck [OF demo_flight_reach demo_flight_go(2)])

text \<open>Drawing on the cached credit.\<close>

lemma drawCredit_eq:
  assumes "0 < g" and "g \<le> max_int64" and "int64_range (cs_available st)"
  shows "cs_available (drawCredit g st) = max min_int64 (cs_available st - g)"
    and "ad_allowed (cs_admission (drawCredit g st)) \<longleftrightarrow>
      ad_allowed (cs_admission st) \<and> 0 < max min_int64 (cs_available st - g)"
  using assms by (auto simp: drawCredit_def Let_def int64_defs)

lemma consume_quota:
  assumes "credits c key = Some a" and "int64_range (cs_available (credit_states c a))"
    and "list_all (\<lambda>g. g \<le> max_int64) grosses"
  shows "ad_allowed (snapshot (credit_states (fold (consumeLocalCredit key) grosses c) a)) \<longleftrightarrow>
     ad_allowed (cs_admission (credit_states c a)) \<and>
     sum_list (map (max 0) grosses) < cs_available (credit_states c a)"
  using assms
proof (induction grosses arbitrary: c)
  case Nil
  then show ?case by (simp add: snapshot_def)
next
  case (Cons g gs)
  have rest: "0 \<le> sum_list (map (max 0) gs)" by (intro sum_list_nonneg) auto
  show ?case
  proof (cases "g \<le> 0")
    case True
    then show ?thesis using Cons by (simp add: consumeLocalCredit_def)
  next
    case False
    let ?st = "credit_states c a"
    have d: "credit_states (consumeLocalCredit key g c) a = drawCredit g ?st"
      using Cons.prems(1) False by (simp add: consumeLocalCredit_def setState_def)
    note eq = drawCredit_eq [of g ?st]
    have "int64_range (cs_available (drawCredit g ?st))"
      using Cons.prems False eq(1) by (simp add: int64_defs)
    then show ?thesis
      using Cons.prems Cons.IH [of "consumeLocalCredit key g c"] False eq rest
      by (auto simp: d int64_defs)
  qed
qed

text \<open>C25: The cached credit is a quota: after any sequence of completed calls a request is admitted
  exactly if the check allowed the key and the sum of the calls' gross amounts is below what the
  check said was available. The saturating subtraction makes this exact for all 64-bit amounts.\<close>

theorem credit_quota:
  assumes "credits c key = Some a" and "int64_range (cs_available (credit_states c a))"
    and "list_all (\<lambda>g. g \<le> max_int64) grosses"
  shows "ad_allowed (snapshot (credit_states (fold (consumeLocalCredit key) grosses c) a)) \<longleftrightarrow>
     ad_allowed (cs_admission (credit_states c a)) \<and>
     sum_list (map (max 0) grosses) < cs_available (credit_states c a)"
  by (rule consume_quota [OF assms])

definition demo_credit :: credit_cache where
  "demo_credit = snd (admitFinish ''h'' 0 (Inr \<lparr> cc_admission = no_admission\<lparr>ad_allowed := True\<rparr>, cc_available = 100,
     cc_expires = 500 \<rparr>) flight_cache)"

theorem credit_quota_witness:
  "ad_allowed (snapshot (credit_states (fold (consumeLocalCredit ''h'') [60, 39] demo_credit) 0)) \<and>
   \<not> ad_allowed (snapshot (credit_states (fold (consumeLocalCredit ''h'') [60, 40] demo_credit) 0))"
  using credit_quota [of demo_credit "''h''" 0 "[60, 39]"] credit_quota [of demo_credit "''h''" 0 "[60, 40]"]
  by (simp add: demo_credit_def flight_cache_def admitFinish_def admitEnter_def empty_cache_def setState_def
      no_admission_def int64_defs Let_def)

end
