(* ===== verification/CreditLink.thy ===== *)
theory CreditLink
  imports WayFlight PayKeys PayExamples
begin

section \<open>The credit check across the two services\<close>

text \<open>
  \<open>creditCheck\<close> of GizPay writes the answer that \<open>checkCredit\<close> of GizWay reads. The bytes between
  them are a parameter: an encoder, and decoders that read back what it wrote.
\<close>

definition memberStr :: "string \<Rightarrow> (string \<times> json) list \<Rightarrow> string option" where
  "memberStr k ms = (case map_of ms k of Some (JStr s) \<Rightarrow> Some s | _ \<Rightarrow> None)"

definition memberInt :: "string \<Rightarrow> (string \<times> json) list \<Rightarrow> int option" where
  "memberInt k ms = (case map_of ms k of Some (JInt i) \<Rightarrow> if int64_range i then Some i else None | _ \<Rightarrow> None)"

definition memberTime :: "string \<Rightarrow> (string \<times> json) list \<Rightarrow> time option" where
  "memberTime k ms = (case map_of ms k of Some (JTime t) \<Rightarrow> Some t | _ \<Rightarrow> None)"

text \<open>The check that an object with all its fields stands for.\<close>

fun checkFields :: "json \<Rightarrow> check_body option" where
  "checkFields (JObj ms) =
     (case (memberStr ''status'' ms, memberStr ''product_id'' ms, memberStr ''billing_mode'' ms,
            memberInt ''available_microcredits'' ms, memberInt ''recheck_after_seconds'' ms,
            memberStr ''account_id'' ms, memberStr ''subscription_id'' ms, memberStr ''subscription_key_id'' ms,
            memberStr ''owner_identity_issuer'' ms, memberStr ''owner_identity_subject'' ms,
            memberTime ''checked_at'' ms) of
        (Some st, Some p, Some m, Some av, Some rc, Some a, Some s, Some k, Some i, Some sj, Some t) \<Rightarrow>
          Some \<lparr> ck_status = st, ck_product = p, ck_billing = m, ck_available = av, ck_recheck = rc,
            ck_account = a, ck_subscription = s, ck_subscription_key = k, ck_issuer = i, ck_subject = sj,
            ck_checked_at = t \<rparr>
      | _ \<Rightarrow> None)"
| "checkFields _ = None"

fun failureFields :: "json \<Rightarrow> string option" where
  "failureFields (JObj [(e, JObj ms)]) = (if e = ''error'' then memberStr ''code'' ms else None)"
| "failureFields _ = None"

text \<open>
  \<open>encoding/json\<close> reads back what it wrote: a decoder finds the fields of the response's object, and
  an error body is not longer than the 64 KiB that GizWay reads.
\<close>

definition reads_answer :: "check_decoders \<Rightarrow> (json \<Rightarrow> string) \<Rightarrow> response \<Rightarrow> bool" where
  "reads_answer dec enc r \<longleftrightarrow>
     (case payload r of
        None \<Rightarrow> True
      | Some j \<Rightarrow>
          (checkFields j = None \<or> cd_check dec (enc j) = checkFields j) \<and>
          (failureFields j = None \<or> cd_failure dec (enc j) = failureFields j \<and> length (enc j) \<le> 65536))"

definition answerOf :: "(json \<Rightarrow> string) \<Rightarrow> response \<Rightarrow> check_answer" where
  "answerOf enc r = Answered (status r) (case payload r of None \<Rightarrow> [] | Some j \<Rightarrow> enc j)"

text \<open>What a 200 promises.\<close>

definition creditOf ::
  "pay_config \<Rightarrow> time \<Rightarrow> subscription_key \<times> subscription \<times> product \<times> user \<times> int \<Rightarrow> credit_check_result" where
  "creditOf cfg t row = (case row of (k, s, p, u, balance) \<Rightarrow>
     let allowed = (s_status s = ''active'' \<and> p_status p = ''active'' \<and> 0 < balance) in
     \<lparr> cc_admission = \<lparr> ad_account = s_account s, ad_subscription = s_id s, ad_subscription_key = k_id k,
         ad_product = p_id p, ad_billing = p_billing_mode p, ad_issuer = u_issuer u, ad_subject = u_subject u,
         ad_allowed = allowed \<rparr>,
       cc_available = (if allowed then balance else 0),
       cc_expires = t + wrap64 (recheck_interval cfg sdiv second * second) \<rparr>)"

lemma readCredit_Inr:
  "readCredit hmac d = Inr (row, d') \<longleftrightarrow>
     creditRow hmac d = Some row \<and> int64_range (snd (snd (snd (snd row)))) \<and> d' = d"
  by (auto simp: readCredit_def split: option.splits prod.splits)

lemma creditCheck_cases:
  assumes "respond (creditCheck cfg (Some hmac)) w = (r, w')" and "nonBlank hmac"
  obtains "r = errorJSON 401 ''invalid_subscription_key'' ''Subscription Key is unknown or revoked''"
  | k s p u balance where "creditRow hmac (committed w) = Some (k, s, p, u, balance)" and "int64_range balance"
      and "k_status k = ''active''"
      and "r = writeJSON 200 (JObj
       [(''status'', JStr (if s_status s = ''active'' \<and> p_status p = ''active'' \<and> 0 < balance then ''allowed'' else ''denied'')),
        (''available_microcredits'', JInt (if s_status s = ''active'' \<and> p_status p = ''active'' \<and> 0 < balance then balance else 0)),
        (''account_id'', JStr (s_account s)), (''subscription_id'', JStr (s_id s)),
        (''subscription_key_id'', JStr (k_id k)), (''product_id'', JStr (p_id p)),
        (''billing_mode'', JStr (p_billing_mode p)),
        (''owner_identity_issuer'', JStr (u_issuer u)), (''owner_identity_subject'', JStr (u_subject u)),
        (''checked_at'', JTime (now w)),
        (''recheck_after_seconds'', JInt (recheck_interval cfg sdiv second))])"
proof (cases "\<not> fault w (fault_n w) \<and> (\<exists>row. readCredit hmac (committed w) = Inr (row, committed w) \<and>
    k_status (fst row) = ''active'')")
  case True
  then obtain k s p u balance where row: "readCredit hmac (committed w) = Inr ((k, s, p, u, balance), committed w)"
    and k: "k_status k = ''active''" and f: "\<not> fault w (fault_n w)" by (auto simp: prod_eq_iff)
  have "respond (creditCheck cfg (Some hmac)) w = (r, w')" by (rule assms)
  then have "r = writeJSON 200 (JObj
       [(''status'', JStr (if s_status s = ''active'' \<and> p_status p = ''active'' \<and> 0 < balance then ''allowed'' else ''denied'')),
        (''available_microcredits'', JInt (if s_status s = ''active'' \<and> p_status p = ''active'' \<and> 0 < balance then balance else 0)),
        (''account_id'', JStr (s_account s)), (''subscription_id'', JStr (s_id s)),
        (''subscription_key_id'', JStr (k_id k)), (''product_id'', JStr (p_id p)),
        (''billing_mode'', JStr (p_billing_mode p)),
        (''owner_identity_issuer'', JStr (u_issuer u)), (''owner_identity_subject'', JStr (u_subject u)),
        (''checked_at'', JTime (now w)),
        (''recheck_after_seconds'', JInt (recheck_interval cfg sdiv second))])"
    using assms(2) f k by (simp add: creditCheck_def run_simps row Let_def tick_def)
  with row k show thesis by (intro that(2)) (simp_all add: readCredit_Inr)
next
  case False
  then have "r = errorJSON 401 ''invalid_subscription_key'' ''Subscription Key is unknown or revoked''"
    using assms by (auto simp: creditCheck_def run_simps readCredit_Inr Let_def split: if_splits sum.splits prod.splits)
  then show thesis by (rule that(1))
qed

text \<open>C26: What GizWay caches is what GizPay knows: the answer to a credit check is either a refusal of
  the key, which GizWay takes for \<open>errInvalidSubscriptionKey\<close>, or the row of an active key, and then
  the cached admission has exactly the row's account, subscription, product and owner, is allowed
  exactly if subscription and product are active and the ledger balance is positive, has that
  balance as its quota, and expires when GizPay said.\<close>

theorem credit_check_agrees:
  assumes "respond (creditCheck cfg (Some hmac)) w = (r, w')" and "nonBlank hmac"
    and "reads_answer dec enc r" and "second \<le> recheck_interval cfg" and "recheck_interval cfg \<le> max_int64"
    and "0 < now w"
    and "wc_token_source wcfg" and "wc_gizpay_url wcfg \<noteq> []"
    and "wc_url_ok wcfg (trimSlashes (wc_gizpay_url wcfg) @ ''/service/v1/subscription-credit-checks'')"
  shows "checkCredit wcfg dec True (answerOf enc r) = Inl InvalidSubscriptionKey \<or>
    (\<exists>k s p u balance. creditRow hmac (committed w) = Some (k, s, p, u, balance) \<and> k_status k = ''active'' \<and>
      checkCredit wcfg dec True (answerOf enc r) = Inr (creditOf cfg (now w) (k, s, p, u, balance)))"
  using assms(1,2)
proof (cases rule: creditCheck_cases)
  case 1
  have "cd_failure dec (enc (the (payload r))) = Some ''invalid_subscription_key''"
    "length (enc (the (payload r))) \<le> 65536"
    using assms(3) unfolding reads_answer_def 1
    by (simp_all add: errorJSON_def writeJSON_def memberStr_def)
  then show ?thesis using assms(7-9) by (simp add: 1 checkCredit_def answerOf_def errorJSON_def writeJSON_def)
next
  case (2 k s p u balance)
  have rc: "0 < recheck_interval cfg sdiv second" "int64_range (recheck_interval cfg sdiv second)"
    using assms(4,5) by (auto simp: sdiv_nonneg second_def int64_defs pos_imp_zdiv_pos_iff div_le_dividend) 
  show ?thesis
  proof (intro disjI2 exI conjI)
    show "checkCredit wcfg dec True (answerOf enc r) = Inr (creditOf cfg (now w) (k, s, p, u, balance))"
    proof -
      let ?ok = "s_status s = ''active'' \<and> p_status p = ''active'' \<and> 0 < balance"
      have "checkFields (the (payload r)) = Some \<lparr> ck_status = (if ?ok then ''allowed'' else ''denied''),
          ck_product = p_id p, ck_billing = p_billing_mode p, ck_available = (if ?ok then balance else 0),
          ck_recheck = recheck_interval cfg sdiv second, ck_account = s_account s, ck_subscription = s_id s,
          ck_subscription_key = k_id k, ck_issuer = u_issuer u, ck_subject = u_subject u, ck_checked_at = now w \<rparr>"
        using rc 2(2) unfolding 2(4) by (simp add: writeJSON_def memberStr_def memberInt_def memberTime_def)
      then have "cd_check dec (enc (the (payload r))) = Some \<lparr> ck_status = (if ?ok then ''allowed'' else ''denied''),
          ck_product = p_id p, ck_billing = p_billing_mode p, ck_available = (if ?ok then balance else 0),
          ck_recheck = recheck_interval cfg sdiv second, ck_account = s_account s, ck_subscription = s_id s,
          ck_subscription_key = k_id k, ck_issuer = u_issuer u, ck_subject = u_subject u, ck_checked_at = now w \<rparr>"
        using assms(3) 2(4) by (simp add: reads_answer_def writeJSON_def)
      then show ?thesis
        using assms(6-9) rc 2(4)
        by (simp add: checkCredit_def answerOf_def checkedCredit_def creditOf_def writeJSON_def Let_def)
    qed
  qed (rule 2)+
qed

text \<open>The example: a key of an account with a top-up of 500.\<close>

definition demo_funded :: pay_db where
  "demo_funded = demo_pay\<lparr>
     subscription_keys := [\<lparr> k_id = ''k'', k_subscription = ''s'', k_name = ''K'', k_key = ''key'', k_hmac = ''h'',
        k_status = ''active'', k_created_at = 1, k_last_used_at = None, k_revoked_at = None \<rparr>],
     ledger_transactions := [\<lparr> lt_id = ''t'', lt_type = ''topup'', lt_status = ''posted'', lt_created_at = 2 \<rparr>],
     ledger_entries := [\<lparr> le_id = ''e1'', le_txn = ''t'', le_account = ''led_clearing'', le_direction = Debit, le_amount = 500 \<rparr>,
        \<lparr> le_id = ''e2'', le_txn = ''t'', le_account = ''l1'', le_direction = Credit, le_amount = 500 \<rparr>]\<rparr>"

definition demo_check_response :: response where
  "demo_check_response = fst (respond (creditCheck demo_pay_config (Some ''h'')) (demo_world demo_funded))"

definition demo_check_decoders :: check_decoders where
  "demo_check_decoders = \<lparr> cd_failure = (\<lambda>_. None),
     cd_check = (\<lambda>_. Some \<lparr> ck_status = ''allowed'', ck_product = ''p'', ck_billing = ''pay_as_you_go'', ck_available = 500,
       ck_recheck = 300, ck_account = ''a1'', ck_subscription = ''s'', ck_subscription_key = ''k'', ck_issuer = ''iss'',
       ck_subject = ''sub1'', ck_checked_at = 100 \<rparr>) \<rparr>"

definition demo_link_config :: way_config where
  "demo_link_config = \<lparr> wc_token_source = True, wc_gizpay_url = ''http://pay'', wc_token = (\<lambda>_. True),
     wc_url_ok = (\<lambda>_. True), wc_batch = 20, wc_abandon_after = 0 \<rparr>"

lemma demo_credit_row:
  "map_option (\<lambda>(k, s, p, u, b). (k_status k, s_account s, p_id p, b)) (creditRow ''h'' demo_funded) =
     Some (''active'', ''a1'', ''p'', 500)"
  by (simp add: creditRow_def demo_funded_def pay_eval demo_pay_sel accountOwner_def ledgerBalance_def isCreditOf_def)

lemma demo_check_run:
  "demo_check_response = writeJSON 200 (JObj
     [(''status'', JStr ''allowed''), (''available_microcredits'', JInt 500), (''account_id'', JStr ''a1''),
      (''subscription_id'', JStr ''s''), (''subscription_key_id'', JStr ''k''), (''product_id'', JStr ''p''),
      (''billing_mode'', JStr ''pay_as_you_go''), (''owner_identity_issuer'', JStr ''iss''),
      (''owner_identity_subject'', JStr ''sub1''), (''checked_at'', JTime 100), (''recheck_after_seconds'', JInt 300)])"
proof -
  have b: "nonBlank ''h''" by (simp add: blank_eval)
  have sec: "recheck_interval demo_pay_config sdiv second = 300" by (simp add: second_def sdiv_nonneg)
  show ?thesis
    by (simp add: demo_check_response_def creditCheck_def b run_simps demo_world_def readCredit_def creditRow_def demo_funded_def
        pay_eval demo_pay_sel accountOwner_def ledgerBalance_def isCreditOf_def Let_def int64_defs sec
        del: demo_pay_config_sel)
qed

theorem credit_check_agrees_witness:
  "\<exists>x. checkCredit demo_link_config demo_check_decoders True (answerOf (\<lambda>_. ''x'') demo_check_response) = Inr x \<and>
     cc_available x = 500 \<and> ad_allowed (cc_admission x) \<and> cc_expires x = 100 + 300 * second"
proof -
  obtain w' where run: "respond (creditCheck demo_pay_config (Some ''h'')) (demo_world demo_funded) = (demo_check_response, w')"
    by (metis demo_check_response_def prod.collapse)
  have "nonBlank ''h''" by (simp add: blank_eval)
  have reads: "reads_answer demo_check_decoders (\<lambda>_. ''x'') demo_check_response"
    by (simp add: reads_answer_def demo_check_run writeJSON_def demo_check_decoders_def memberStr_def memberInt_def
        memberTime_def int64_defs)
  have ok: "checkCredit demo_link_config demo_check_decoders True (answerOf (\<lambda>_. ''x'') demo_check_response)
      \<noteq> Inl InvalidSubscriptionKey"
    by (simp add: checkCredit_def answerOf_def demo_check_run writeJSON_def demo_link_config_def checkedCredit_def
        split: option.split)
  have row: "bal = 500 \<and> s_status s = ''active'' \<and> p_status p = ''active''"
    if "creditRow ''h'' demo_funded = Some (k, s, p, u, bal)" for k s p u bal
    using that
    by (simp add: creditRow_def demo_funded_def pay_eval demo_pay_sel accountOwner_def ledgerBalance_def isCreditOf_def) auto
  have hyps: "second \<le> recheck_interval demo_pay_config" "recheck_interval demo_pay_config \<le> max_int64"
    "0 < now (demo_world demo_funded)" "wc_token_source demo_link_config" "wc_gizpay_url demo_link_config \<noteq> []"
    "wc_url_ok demo_link_config (trimSlashes (wc_gizpay_url demo_link_config) @ ''/service/v1/subscription-credit-checks'')"
    by (simp_all add: second_def int64_defs demo_world_def demo_link_config_def)
  obtain k s p u bal where r: "creditRow ''h'' demo_funded = Some (k, s, p, u, bal)"
    "checkCredit demo_link_config demo_check_decoders True (answerOf (\<lambda>_. ''x'') demo_check_response) =
       Inr (creditOf demo_pay_config 100 (k, s, p, u, bal))"
    using credit_check_agrees [OF run \<open>nonBlank ''h''\<close> reads hyps] ok by (auto simp: demo_world_def)
  have sec: "wrap64 (300 * second sdiv second * second) = 300 * second"
    by (simp add: second_def sdiv_nonneg int64_defs)
  show ?thesis
    using r(2) row [OF r(1)] by (simp add: creditOf_def sec)
qed

end
