(* ===== verification/WayProtocol.thy ===== *)
theory WayProtocol
  imports WayCredit WayOutbox
begin

section \<open>The public AI protocols\<close>

text \<open>
  The pure part of the protocol handlers of \<open>internal/gizway/protocol.go\<close>: which requests are
  protocol requests (\<open>supportedProtocolRequest\<close>, \<open>geminiModelOperation\<close>), the Subscription Key they
  carry (\<open>protocolSubscriptionKey\<close>), the request bodies (\<open>chatRequest\<close>, \<open>text\<close>, \<open>parameters\<close>,
  \<open>protocolHeaders\<close>) and the public responses (\<open>publicChatResponse\<close>, \<open>responseText\<close>,
  \<open>streamResponseText\<close>). The request and response types of Bifrost are third-party; the records
  have the fields that the sources use.
\<close>

subsection \<open>Requests\<close>

definition geminiSuffixes :: "(string \<times> bool) list" where
  "geminiSuffixes = [('':generateContent'', False), ('':streamGenerateContent'', True)]"

fun firstSuffix :: "string \<Rightarrow> (string \<times> bool) list \<Rightarrow> (string \<times> bool) option" where
  "firstSuffix operation [] = None"
| "firstSuffix operation ((suffix, stream) # candidates) =
     (case cutSuffix operation suffix of
        None \<Rightarrow> firstSuffix operation candidates
      | Some model \<Rightarrow> if model \<noteq> [] then Some (model, stream) else firstSuffix operation candidates)"

definition geminiModelOperation :: "string \<Rightarrow> (string \<times> bool) option" where
  "geminiModelOperation path =
     (case cutPrefix path ''/genai/v1beta/models/'' of
        None \<Rightarrow> None
      | Some operation \<Rightarrow>
          if operation = [] \<or> containsStr operation ''/'' then None else firstSuffix operation geminiSuffixes)"

definition supportedProtocolRequest :: "http_request \<Rightarrow> bool" where
  "supportedProtocolRequest r \<longleftrightarrow>
     rq_method r = GET \<and> rq_path r = ''/openai/v1/models'' \<or>
     rq_method r = POST \<and>
       (rq_path r \<in> {''/openai/v1/chat/completions'', ''/anthropic/v1/messages'', ''/openai/v1/realtime/client_secrets''} \<or>
        geminiModelOperation (rq_path r) \<noteq> None)"

definition subscriptionKeys :: "http_request \<Rightarrow> string list" where
  "subscriptionKeys r =
     (case cutPrefix (rq_header r ''Authorization'') ''Bearer '' of
        Some raw \<Rightarrow> if raw \<noteq> [] then [raw] else []
      | None \<Rightarrow> []) @
     filter (\<lambda>v. v \<noteq> []) (map (rq_header r) [''x-api-key'', ''x-goog-api-key''])"

definition protocolSubscriptionKey :: "http_request \<Rightarrow> string option" where
  "protocolSubscriptionKey r =
     (case subscriptionKeys r of
        [] \<Rightarrow> None
      | v # vs \<Rightarrow> if list_all (\<lambda>x. x = v) vs then Some v else None)"

definition protocolHeaders :: "http_request \<Rightarrow> string \<Rightarrow> (string \<times> string list) list option" where
  "protocolHeaders r protocol =
     (if protocol \<noteq> ''anthropic'' then Some []
      else let version = trimSpace (rq_header r ''anthropic-version'') in
           if version = [] then None else Some [(''anthropic-version'', [version])])"

text \<open>
  A message: its content is the JSON value of the body, \<open>None\<close> when it is absent. Fields are matched
  without regard to case, a \<open>null\<close> leaves a field as it is, and the last value wins.
\<close>

record chat_message =
  msg_role :: string
  msg_content :: "json option"

fun stringField :: "string \<Rightarrow> string \<Rightarrow> (string \<times> json) list \<Rightarrow> string option" where
  "stringField name v [] = Some v"
| "stringField name v ((k, j) # ms) =
     (if toLower k \<noteq> name then stringField name v ms
      else case j of JStr s \<Rightarrow> stringField name s ms | JNull \<Rightarrow> stringField name v ms | _ \<Rightarrow> None)"

fun blockText :: "json \<Rightarrow> string option" where
  "blockText JNull = Some []"
| "blockText (JObj ms) =
     (case (stringField ''type'' [] ms, stringField ''text'' [] ms) of
        (Some ty, Some tx) \<Rightarrow> Some (if ty = ''text'' then tx else [])
      | _ \<Rightarrow> None)"
| "blockText _ = None"

fun blocksText :: "json list \<Rightarrow> string option" where
  "blocksText [] = Some []"
| "blocksText (b # bs) =
     (case (blockText b, blocksText bs) of (Some x, Some y) \<Rightarrow> Some (x @ y) | _ \<Rightarrow> None)"

definition messageText :: "chat_message \<Rightarrow> string option" where
  "messageText m =
     (case msg_content m of
        None \<Rightarrow> None
      | Some (JStr s) \<Rightarrow> Some s
      | Some JNull \<Rightarrow> Some []
      | Some (JArr blocks) \<Rightarrow> blocksText blocks
      | Some _ \<Rightarrow> None)"

definition stringMessage :: "string \<Rightarrow> string \<Rightarrow> chat_message" where
  "stringMessage role content = \<lparr> msg_role = role, msg_content = Some (JStr content) \<rparr>"

text \<open>The sampling numbers are floating-point; they are only passed on, as JSON numbers.\<close>

record chat_request =
  cq_model :: string
  cq_messages :: "chat_message list"
  cq_stream :: bool
  cq_max_tokens :: "int option"
  cq_stream_options :: "json option"
  cq_temperature :: "json option"
  cq_top_p :: "json option"
  cq_top_k :: "int option"
  cq_stop :: "string list"

record gemini_request =
  gm_contents :: "string list list"
  gm_max_tokens :: "int option"
  gm_temperature :: "json option"
  gm_top_p :: "json option"
  gm_top_k :: "int option"
  gm_stop :: "string list"

record stream_options =
  so_obfuscation :: "bool option"
  so_value :: json

record chat_parameters =
  cp_max_tokens :: "int option"
  cp_temperature :: "json option"
  cp_top_p :: "json option"
  cp_top_k :: "int option"
  cp_stop :: "string list"
  cp_stream_options :: "stream_options option"
  cp_extra :: "(string \<times> json) list"

text \<open>\<open>encoding/json\<close> on the bodies, \<open>None\<close> being an error of \<open>decode\<close> or \<open>Unmarshal\<close>.\<close>

record protocol_decoders =
  gd_chat :: "string \<Rightarrow> chat_request option"
  gd_gemini :: "string \<Rightarrow> gemini_request option"
  gd_stream_options :: "json \<Rightarrow> stream_options option"
  gd_realtime :: "string \<Rightarrow> (string \<times> string) option"

definition chatParameters :: "protocol_decoders \<Rightarrow> chat_request \<Rightarrow> chat_parameters option" where
  "chatParameters dec q =
     (let p = \<lparr> cp_max_tokens = cq_max_tokens q, cp_temperature = cq_temperature q, cp_top_p = cq_top_p q,
          cp_top_k = cq_top_k q, cp_stop = cq_stop q, cp_stream_options = None, cp_extra = [] \<rparr>
      in case cq_stream_options q of
           None \<Rightarrow> Some p
         | Some JNull \<Rightarrow> Some p
         | Some j \<Rightarrow>
             (case gd_stream_options dec j of
                None \<Rightarrow> None
              | Some so \<Rightarrow> Some (p\<lparr>cp_stream_options := Some so,
                  cp_extra := (case so_obfuscation so of
                      None \<Rightarrow> []
                    | Some b \<Rightarrow> [(''stream_options'', JObj [(''include_obfuscation'', JBool b)])])\<rparr>)))"

definition geminiBody :: "http_request \<Rightarrow> gemini_request \<Rightarrow> chat_request" where
  "geminiBody r g =
     (let (model, stream) = (case geminiModelOperation (rq_path r) of None \<Rightarrow> ([], False) | Some x \<Rightarrow> x) in
      \<lparr> cq_model = model,
        cq_messages = map (stringMessage ''user'') (concat (gm_contents g)),
        cq_stream = stream, cq_max_tokens = gm_max_tokens g, cq_stream_options = None,
        cq_temperature = gm_temperature g, cq_top_p = gm_top_p g, cq_top_k = gm_top_k g, cq_stop = gm_stop g \<rparr>)"

text \<open>The body of a chat request in either format, \<open>None\<close> being 400.\<close>

definition chatBody :: "protocol_decoders \<Rightarrow> http_request \<Rightarrow> string \<Rightarrow> chat_request option" where
  "chatBody dec r protocol =
     (if protocol = ''gemini''
      then case gd_gemini dec (rq_body r) of
             None \<Rightarrow> None
           | Some g \<Rightarrow> if gm_contents g = [] then None else Some (geminiBody r g)
      else gd_chat dec (rq_body r))"

definition chatAcceptable :: "chat_request \<Rightarrow> bool" where
  "chatAcceptable q \<longleftrightarrow>
     nonBlank (cq_model q) \<and> cq_messages q \<noteq> [] \<and>
     (case cq_max_tokens q of None \<Rightarrow> True | Some n \<Rightarrow> 1 \<le> n) \<and>
     list_all (\<lambda>m. nonBlank (msg_role m)) (cq_messages q)"

text \<open>The messages for the provider, \<open>None\<close> when one has no text.\<close>

fun providerMessages :: "chat_message list \<Rightarrow> (string \<times> string) list option" where
  "providerMessages [] = Some []"
| "providerMessages (m # ms) =
     (case messageText m of
        None \<Rightarrow> None
      | Some text \<Rightarrow> if blank text then None
          else map_option (Cons (msg_role m, text)) (providerMessages ms))"

subsection \<open>Responses\<close>

text \<open>
  A choice: its message content, \<open>None\<close> when one of the pointers to it is nil, and the content of its
  stream delta. The content is a string or blocks that may have a text.
\<close>

record choice =
  ch_content :: "(string option \<times> string option list) option"
  ch_delta :: "string option"

record bifrost_response =
  br_id :: string
  br_model :: string
  br_choices :: "choice list"
  br_usage :: "llm_usage option"
  br_key :: string

fun responseText :: "choice list \<Rightarrow> string option" where
  "responseText [] = None"
| "responseText (c # cs) =
     (case ch_content c of
        None \<Rightarrow> responseText cs
      | Some (Some text, _) \<Rightarrow> Some text
      | Some (None, blocks) \<Rightarrow>
          let joined = concat (map (\<lambda>b. case b of None \<Rightarrow> [] | Some t \<Rightarrow> t) blocks) in
          if joined \<noteq> [] then Some joined else responseText cs)"

fun streamResponseText :: "choice list \<Rightarrow> string" where
  "streamResponseText [] = []"
| "streamResponseText (c # cs) = (case ch_delta c of None \<Rightarrow> streamResponseText cs | Some t \<Rightarrow> t)"

text \<open>\<open>marshal\<close> is the JSON of Bifrost's response type, which OpenAI clients get.\<close>

definition publicChatResponse ::
  "(bifrost_response \<Rightarrow> json) \<Rightarrow> string \<Rightarrow> bifrost_response \<Rightarrow> string \<Rightarrow> json option" where
  "publicChatResponse marshal protocol response model =
     (if protocol = ''openai'' then Some (marshal response)
      else case responseText (br_choices response) of
        None \<Rightarrow> None
      | Some text \<Rightarrow>
          let u = (case br_usage response of None \<Rightarrow> zero_usage | Some u \<Rightarrow> u) in
          if protocol = ''anthropic''
          then Some (JObj [(''id'', JStr (br_id response)), (''type'', JStr ''message''), (''role'', JStr ''assistant''),
            (''model'', JStr model),
            (''content'', JArr [JObj [(''type'', JStr ''text''), (''text'', JStr text)]]),
            (''usage'', JObj [(''input_tokens'', JInt (prompt_tokens u)), (''output_tokens'', JInt (completion_tokens u))])])
          else if protocol = ''gemini''
          then Some (JObj [(''candidates'', JArr [JObj [(''content'', JObj [(''role'', JStr ''model''),
              (''parts'', JArr [JObj [(''text'', JStr text)]])])]]),
            (''usageMetadata'', JObj [(''promptTokenCount'', JInt (prompt_tokens u)),
              (''candidatesTokenCount'', JInt (completion_tokens u)), (''totalTokenCount'', JInt (total_tokens u))])])
          else None)"

subsection \<open>The model in a Gemini path\<close>

lemma cutSuffix_other:
  assumes "length q = length p" and "q \<noteq> p"
  shows "cutSuffix (m @ r @ q) p = None"
  using assms by (simp add: cutSuffix_def hasSuffix_def)

lemma stream_suffix: "cutSuffix (m @ '':streamGenerateContent'') '':generateContent'' = None"
  using cutSuffix_other [of "''mGenerateContent''" "'':generateContent''" m "'':strea''"] by simp

lemma firstSuffix_gemini:
  "firstSuffix operation geminiSuffixes = Some (model, stream) \<longleftrightarrow>
     model \<noteq> [] \<and> operation = model @ (if stream then '':streamGenerateContent'' else '':generateContent'')"
  (is "?L \<longleftrightarrow> ?R")
proof
  assume ?L
  then show ?R by (auto simp: geminiSuffixes_def cutSuffix_eq_Some split: option.splits if_splits)
next
  assume ?R
  then show ?L by (cases stream) (simp_all add: geminiSuffixes_def stream_suffix)
qed

text \<open>A path names a model operation of the Gemini API exactly when it is the prefix, a non-empty
  model name without a slash, and one of the two method suffixes; the model and whether it streams
  are read back from it.\<close>

lemma geminiModelOperation_iff:
  "geminiModelOperation path = Some (model, stream) \<longleftrightarrow>
     model \<noteq> [] \<and> CHR ''/'' \<notin> set model \<and>
     path = ''/genai/v1beta/models/'' @ model @ (if stream then '':streamGenerateContent'' else '':generateContent'')"
proof (cases "cutPrefix path ''/genai/v1beta/models/''")
  case None
  then show ?thesis
    using cutPrefix_eq_Some [of path "''/genai/v1beta/models/''"] by (auto simp: geminiModelOperation_def)
next
  case (Some operation)
  then have "path = ''/genai/v1beta/models/'' @ operation" by (simp add: cutPrefix_eq_Some)
  moreover have "geminiModelOperation path = (if operation = [] \<or> CHR ''/'' \<in> set operation then None
      else firstSuffix operation geminiSuffixes)"
    by (simp add: geminiModelOperation_def Some containsStr_char)
  ultimately show ?thesis by (auto simp: firstSuffix_gemini split: if_splits)
qed

end
