(* ===== verification/WayGateway.thy ===== *)
theory WayGateway
  imports WayProtocol
begin

section \<open>AI calls\<close>

text \<open>
  \<open>protocol\<close>, \<open>resolveCall\<close>, \<open>chat\<close>, \<open>streamChat\<close>, \<open>recordExecution\<close> and the listing of models of
  \<open>internal/gizway/protocol.go\<close>: a request is admitted by its credit, its model is resolved to the
  cheapest provider keys, Bifrost makes the call with one of them, and the usage is rated, drawn
  from the cached credit and written down by \<open>completeCall\<close>.
\<close>

subsection \<open>The gateway\<close>

text \<open>
  An entry of the execution log; \<open>ex_failed\<close> is whether it has an error, the latency is in
  nanoseconds.
\<close>

record execution =
  ex_id :: string
  ex_key :: string
  ex_provider :: string
  ex_model :: string
  ex_merchant :: string
  ex_gross :: int
  ex_commission :: int
  ex_usage :: llm_usage
  ex_latency :: duration
  ex_mode :: string
  ex_status :: string
  ex_external :: string
  ex_failed :: bool
  ex_created_at :: time

record realtime_session =
  rs_secret :: string
  rs_hmac :: string
  rs_url :: string
  rs_call :: resolved_call
  rs_expires :: time

datatype sse_event = Event string json | DoneEvent

text \<open>
  The regional database session, the credit cache, the execution log (which fails by \<open>log_fault\<close>),
  the realtime sessions, how often other services have been called, and the server-sent events of
  the response.
\<close>

record 'c gateway =
  region :: "'c way_db world"
  credit :: credit_cache
  executions :: "execution list"
  log_fault :: "nat \<Rightarrow> bool"
  log_n :: nat
  realtime :: "string \<Rightarrow> realtime_session option"
  calls_n :: nat
  sent :: "sse_event list"

text \<open>A chunk of a stream: a response, or an error with the key that was used.\<close>

record chunk =
  sc_response :: "bifrost_response option"
  sc_error :: "string option"

record chat_input =
  ci_targets :: "execution_target list"
  ci_messages :: "(string \<times> string) list"
  ci_parameters :: chat_parameters
  ci_headers :: "(string \<times> string list) list"

text \<open>
  What is not in the sources: the Config Store, the HMAC of a Subscription Key, GizPay's credit check
  and the token for it, what concurrent requests do to the credit cache, Bifrost (an error has the
  key that was used), the JSON of its types, and the decoders. A call of another service is an
  answer by its number.
\<close>

record 'c gateway_env =
  ge_config :: way_config
  ge_api :: "'c config_api"
  ge_mac :: "string \<Rightarrow> string"
  ge_token :: "nat \<Rightarrow> bool"
  ge_check :: "nat \<Rightarrow> string \<Rightarrow> check_answer"
  ge_check_decoders :: check_decoders
  ge_rivals :: "nat \<Rightarrow> (time \<times> (credit_cache \<Rightarrow> credit_cache)) list"
  ge_during :: "nat \<Rightarrow> credit_cache \<Rightarrow> credit_cache"
  ge_chat :: "nat \<Rightarrow> chat_input \<Rightarrow> string + bifrost_response"
  ge_stream :: "nat \<Rightarrow> chat_input \<Rightarrow> string + chunk option list"
  ge_route :: "nat \<Rightarrow> execution_target list \<Rightarrow> (string \<times> string) option"
  ge_marshal :: "bifrost_response \<Rightarrow> json"
  ge_marshal_chunk :: "chunk \<Rightarrow> json"
  ge_decoders :: protocol_decoders
  ge_size :: "json \<Rightarrow> nat"
  ge_ttl :: duration

definition onRegion :: "('c way_db world, 'a) act \<Rightarrow> ('c gateway, 'a) act" where
  "onRegion m g = (case m (region g) of (x, w) \<Rightarrow> (x, g\<lparr>region := w\<rparr>))"

definition onCredit :: "(credit_cache \<Rightarrow> 'a \<times> credit_cache) \<Rightarrow> ('c gateway, 'a) act" where
  "onCredit f g = (case f (credit g) of (a, c) \<Rightarrow> (Val a, g\<lparr>credit := c\<rparr>))"

definition nextCall :: "('c gateway, nat) act" where
  "nextCall g = (Val (calls_n g), g\<lparr>calls_n := Suc (calls_n g)\<rparr>)"

definition writeEvents :: "sse_event list \<Rightarrow> ('c gateway, unit) act" where
  "writeEvents es g = (Val (), g\<lparr>sent := sent g @ es\<rparr>)"

definition nowR :: "('c gateway, time) act" where
  "nowR = onRegion (gets now)"

subsection \<open>The execution log\<close>

definition writeLog :: "execution \<Rightarrow> ('c gateway, unit) act" where
  "writeLog e g =
     (Val (), (if log_fault g (log_n g) then g else g\<lparr>executions := executions g @ [e]\<rparr>)\<lparr>log_n := Suc (log_n g)\<rparr>)"

definition recordExecution ::
  "resolved_call \<Rightarrow> llm_usage option \<Rightarrow> int \<Rightarrow> int \<Rightarrow> string \<Rightarrow> string \<Rightarrow> string \<Rightarrow> bool \<Rightarrow> string \<Rightarrow>
     ('c gateway, unit) act" where
  "recordExecution call usage gross commission mode externalID st failed failpoint =
     bnd nowR (\<lambda>t. bnd (onRegion newUUID) (\<lambda>u.
     if failpoint = ''bifrost_log_store_write'' then ret ()
     else writeLog \<lparr> ex_id = ''log_'' @ u, ex_key = cl_key call, ex_provider = cl_provider call,
       ex_model = cl_model call, ex_merchant = cl_merchant call, ex_gross = gross, ex_commission = commission,
       ex_usage = (case usage of None \<Rightarrow> zero_usage | Some u \<Rightarrow> u),
       ex_latency = (if cl_started call = 0 \<or> t - cl_started call < 0 then 0 else t - cl_started call),
       ex_mode = mode, ex_status = st, ex_external = externalID, ex_failed = failed, ex_created_at = t \<rparr>))"

text \<open>\<open>completeCall\<close> with its deferred log entry.\<close>

definition completeCallLogged ::
  "'c gateway_env \<Rightarrow> string \<Rightarrow> resolved_call \<Rightarrow> int \<Rightarrow> int \<Rightarrow> llm_usage option \<Rightarrow> string \<Rightarrow> string \<Rightarrow>
     ('c gateway, sqlerr + unit) act" where
  "completeCallLogged env keyHMAC call gross commission usage mode failpoint =
     bnd (onRegion (completeCall (ge_size env) keyHMAC call gross commission usage mode failpoint)) (\<lambda>(y, externalID).
     bnd (recordExecution call usage gross commission mode externalID ''success'' False failpoint) (\<lambda>_.
     ret y))"

subsection \<open>\<open>resolveCall\<close>\<close>

definition emptyCall :: "string \<Rightarrow> string \<Rightarrow> time \<Rightarrow> resolved_call" where
  "emptyCall productID modelName t =
     \<lparr> cl_product = productID, cl_model = [], cl_public = modelName, cl_provider = [], cl_provider_model = [],
       cl_key = [], cl_merchant = [], cl_account = [], cl_subscription = [], cl_subscription_key = [],
       cl_issuer = [], cl_subject = [],
       cl_target = \<lparr> et_provider = [], et_endpoint = [], et_credential = [], et_model = [], et_route = [], et_weight = 0 \<rparr>,
       cl_targets = [], cl_customer = [], cl_commission = [], cl_payments = Map.empty, cl_started = t \<rparr>"

definition modelRow :: "string \<Rightarrow> 'c way_db \<Rightarrow> sync_model option" where
  "modelRow name d = find (\<lambda>m. sd_name m = name \<and> sd_status m = ''active'') (sync_models d)"

definition modelPricesOf :: "string \<Rightarrow> 'c way_db \<Rightarrow> price_row list" where
  "modelPricesOf modelID d =
     sort_key pw_metric (map mp_row (filter (\<lambda>p. mp_model p = modelID) (customer_prices d)))"

definition providerPricesOf :: "string \<Rightarrow> string \<Rightarrow> 'c way_db \<Rightarrow> price_row list" where
  "providerPricesOf modelID keyID d =
     sort_key pw_metric (map (\<lambda>r. \<lparr> pw_metric = kp_metric (sx_price r), pw_unit = kp_unit (sx_price r),
         pw_amount = kp_microcredits (sx_price r) \<rparr>)
       (filter (\<lambda>r. kp_model (sx_price r) = modelID \<and> sx_key r = keyID) (stored_prices d)))"

definition targetOf :: "provider_record \<Rightarrow> string \<Rightarrow> key_record \<Rightarrow> execution_target" where
  "targetOf provider model k =
     \<lparr> et_provider = pv_kind provider, et_endpoint = pv_base_url provider, et_credential = kr_api_key k,
       et_model = model, et_route = kr_id k, et_weight = kr_weight k \<rparr>"

text \<open>The loop over the provider's keys: the error, if one ends it, and the call so far.\<close>

fun resolveKeys ::
  "provider_record \<Rightarrow> key_record list \<Rightarrow> resolved_call \<Rightarrow> ('c way_db world, sqlerr option \<times> resolved_call) act" where
  "resolveKeys provider [] call = ret (None, call)"
| "resolveKeys provider (k # ks) call =
     (if \<not> kr_enabled k \<or> kr_status k \<noteq> ''active'' then resolveKeys provider ks call
      else bnd (db_exec (readRow (\<lambda>d. find (\<lambda>b. kb_key b = kr_id k) (key_billings d)))) (\<lambda>x. case x of
        Inl e \<Rightarrow> resolveKeys provider ks call
      | Inr b \<Rightarrow>
          if kb_status b \<noteq> ''active'' then resolveKeys provider ks call
          else bnd (db_exec (reading (providerPricesOf (cl_model call) (kr_id k)))) (\<lambda>y. case y of
            Inl e \<Rightarrow> ret (Some e, call)
          | Inr prices \<Rightarrow>
              if \<not> pricesCoverMetrics prices (cl_customer call) then resolveKeys provider ks call
              else resolveKeys provider ks (call\<lparr>
                cl_targets := cl_targets call @ [targetOf provider (cl_provider_model call) k],
                cl_payments := (cl_payments call)(kr_id k \<mapsto> \<lparr> py_merchant = kb_merchant b, py_prices = prices \<rparr>)\<rparr>))))"

definition resolveCall ::
  "'c config_api \<Rightarrow> string \<Rightarrow> string \<Rightarrow> ('c way_db world, sqlerr option \<times> resolved_call) act" where
  "resolveCall api modelName productID =
     bnd (gets now) (\<lambda>t.
     let call = emptyCall productID modelName t in
     bnd (db_exec (readRow (modelRow modelName))) (\<lambda>x. case x of Inl e \<Rightarrow> ret (Some e, call) | Inr m \<Rightarrow>
     let call = call\<lparr>cl_model := sd_id m, cl_provider := sd_provider m, cl_provider_model := sd_provider_model m\<rparr> in
     bnd (db_exec (reading (modelPricesOf (sd_id m)))) (\<lambda>y. case y of Inl e \<Rightarrow> ret (Some e, call) | Inr prices \<Rightarrow>
     let call = call\<lparr>cl_customer := prices\<rparr> in
     bnd (storesProvider api (sd_provider m)) (\<lambda>z. case z of
       Inl e \<Rightarrow> ret (Some NoRows, call)
     | Inr provider \<Rightarrow>
         if pv_status provider \<noteq> ''active'' then ret (Some NoRows, call)
         else bnd (storesKeys api (sd_provider m)) (\<lambda>k. case k of Inl e \<Rightarrow> ret (Some e, call) | Inr keys \<Rightarrow>
         bnd (resolveKeys provider keys call) (\<lambda>(err, call).
         case err of
           Some e \<Rightarrow> ret (Some e, call)
         | None \<Rightarrow>
             if cl_targets call = [] then ret (Some NoRows, call)
             else ret (None, call\<lparr>cl_targets := cheapestTargets (cl_targets call) (cl_payments call)\<rparr>)))))))"

definition applyTo :: "credit_admission \<Rightarrow> resolved_call \<Rightarrow> resolved_call" where
  "applyTo ad call = call\<lparr>cl_product := ad_product ad, cl_account := ad_account ad,
     cl_subscription := ad_subscription ad, cl_subscription_key := ad_subscription_key ad,
     cl_issuer := ad_issuer ad, cl_subject := ad_subject ad\<rparr>"

text \<open>The answer when no call can be made.\<close>

definition unresolved :: "sqlerr \<Rightarrow> resolved_call \<Rightarrow> response" where
  "unresolved e call =
     (if e = NoRows \<and> cl_model call = [] then errorJSON 404 ''model_not_found'' ''model not found''
      else errorJSON 503 ''no_active_provider_key'' ''no active Provider Key'')"

subsection \<open>Billing a finished call\<close>

text \<open>What \<open>ratedUsage\<close> returns for the gross amount beside an error.\<close>

definition ratedGross :: "llm_usage option \<Rightarrow> resolved_call \<Rightarrow> int" where
  "ratedGross usage call =
     (case rate (case usage of None \<Rightarrow> zero_usage | Some u \<Rightarrow> u) (cl_customer call) of Some (Inr g) \<Rightarrow> g | _ \<Rightarrow> 0)"

text \<open>A panic: \<open>net/http\<close> aborts the connection. \<open>ratedUsage\<close> never panics (\<open>ratedUsage_total\<close>).\<close>

definition aborted :: response where
  "aborted = writeHeader 0"

definition drawAndComplete ::
  "'c gateway_env \<Rightarrow> string \<Rightarrow> resolved_call \<Rightarrow> int \<Rightarrow> int \<Rightarrow> llm_usage option \<Rightarrow> string \<Rightarrow> string \<Rightarrow>
     ('c gateway, sqlerr + unit) act" where
  "drawAndComplete env keyHMAC call gross commission usage mode failpoint =
     bnd (onCredit (\<lambda>c. ((), consumeLocalCredit keyHMAC gross c))) (\<lambda>_.
     completeCallLogged env keyHMAC call gross commission usage mode failpoint)"

definition billChat ::
  "'c gateway_env \<Rightarrow> string \<Rightarrow> resolved_call \<Rightarrow> llm_usage option \<Rightarrow> string \<Rightarrow> ('c gateway, unit) act" where
  "billChat env keyHMAC call usage failpoint =
     (if failpoint = ''rating_failure''
      then recordExecution call usage 0 0 ''non_streaming'' [] ''error'' True failpoint
      else case ratedUsage usage (cl_customer call) (cl_commission call) of
        None \<Rightarrow> reply aborted
      | Some (Inl e) \<Rightarrow>
          recordExecution call usage (ratedGross usage call) 0 ''non_streaming'' [] ''error'' True failpoint
      | Some (Inr (gross, commission)) \<Rightarrow>
          bnd (drawAndComplete env keyHMAC call gross commission usage ''non_streaming'' failpoint) (\<lambda>_. ret ()))"

subsection \<open>\<open>streamChat\<close>\<close>

definition textJSON :: "string \<Rightarrow> json" where
  "textJSON text = JObj [(''candidates'', JArr [JObj [(''content'', JObj [(''role'', JStr ''model''),
     (''parts'', JArr [JObj [(''text'', JStr text)]])])]])]"

definition openingEvents :: "string \<Rightarrow> resolved_call \<Rightarrow> string \<Rightarrow> sse_event list" where
  "openingEvents protocol call u =
     (if protocol = ''anthropic''
      then [Event ''message_start'' (JObj [(''type'', JStr ''message_start''), (''message'', JObj [
              (''id'', JStr (''msg_'' @ u)), (''type'', JStr ''message''), (''role'', JStr ''assistant''),
              (''model'', JStr (cl_public call)), (''content'', JArr []), (''stop_reason'', JNull),
              (''stop_sequence'', JNull),
              (''usage'', JObj [(''input_tokens'', JInt 0), (''output_tokens'', JInt 0)])])]),
            Event ''content_block_start'' (JObj [(''type'', JStr ''content_block_start''), (''index'', JInt 0),
              (''content_block'', JObj [(''type'', JStr ''text''), (''text'', JStr [])])])]
      else [])"

definition chunkEvents :: "(chunk \<Rightarrow> json) \<Rightarrow> string \<Rightarrow> chunk \<Rightarrow> sse_event list" where
  "chunkEvents marshal protocol ck =
     (case sc_response ck of
        None \<Rightarrow> []
      | Some r \<Rightarrow>
          let text = streamResponseText (br_choices r) in
          if protocol = ''openai'' then [Event [] (marshal ck)]
          else if protocol = ''anthropic'' \<and> text \<noteq> []
          then [Event ''content_block_delta'' (JObj [(''type'', JStr ''content_block_delta''), (''index'', JInt 0),
                 (''delta'', JObj [(''type'', JStr ''text_delta''), (''text'', JStr text)])])]
          else if protocol = ''gemini'' \<and> text \<noteq> [] then [Event [] (textJSON text)]
          else [])"

text \<open>What the loop keeps of the chunks: the usage, the selected key, and whether there was an error.\<close>

definition chunkState :: "llm_usage option \<times> string \<times> bool \<Rightarrow> chunk \<Rightarrow> llm_usage option \<times> string \<times> bool" where
  "chunkState st ck =
     (case st of (usage, key, failed) \<Rightarrow>
        let usage1 = (case sc_response ck of None \<Rightarrow> usage
                      | Some r \<Rightarrow> (case br_usage r of None \<Rightarrow> usage | Some u \<Rightarrow> Some u));
            key1 = (case sc_response ck of None \<Rightarrow> key | Some r \<Rightarrow> if br_key r \<noteq> [] then br_key r else key)
        in case sc_error ck of
             None \<Rightarrow> (usage1, key1, failed)
           | Some k \<Rightarrow> (usage1, if k \<noteq> [] then k else key1, True))"

fun streamLoop ::
  "(chunk \<Rightarrow> json) \<Rightarrow> string \<Rightarrow> chunk option list \<Rightarrow> llm_usage option \<times> string \<times> bool \<Rightarrow>
     ('c gateway, llm_usage option \<times> string \<times> bool) act" where
  "streamLoop marshal protocol [] st = ret st"
| "streamLoop marshal protocol (None # cks) st = streamLoop marshal protocol cks st"
| "streamLoop marshal protocol (Some ck # cks) st =
     bnd (writeEvents (chunkEvents marshal protocol ck)) (\<lambda>_. streamLoop marshal protocol cks (chunkState st ck))"

definition closingEvents :: "string \<Rightarrow> llm_usage \<Rightarrow> sse_event list" where
  "closingEvents protocol u =
     (if protocol = ''openai'' then [DoneEvent]
      else if protocol = ''anthropic''
      then [Event ''content_block_stop'' (JObj [(''type'', JStr ''content_block_stop''), (''index'', JInt 0)]),
            Event ''message_delta'' (JObj [(''type'', JStr ''message_delta''),
              (''delta'', JObj [(''stop_reason'', JStr ''end_turn''), (''stop_sequence'', JNull)]),
              (''usage'', JObj [(''output_tokens'', JInt (completion_tokens u))])]),
            Event ''message_stop'' (JObj [(''type'', JStr ''message_stop'')])]
      else if protocol = ''gemini''
      then [Event [] (JObj [(''candidates'', JArr []), (''usageMetadata'', JObj [
              (''promptTokenCount'', JInt (prompt_tokens u)), (''candidatesTokenCount'', JInt (completion_tokens u)),
              (''totalTokenCount'', JInt (total_tokens u))])])]
      else [])"

definition billStream ::
  "'c gateway_env \<Rightarrow> string \<Rightarrow> resolved_call \<Rightarrow> llm_usage \<Rightarrow> string \<Rightarrow> ('c gateway, unit) act" where
  "billStream env keyHMAC call u key =
     (case selected call key of
        None \<Rightarrow> recordExecution (callForExecutionLog call key) (Some u) 0 0 ''streaming'' [] ''error'' True []
      | Some call1 \<Rightarrow>
          (case ratedUsage (Some u) (cl_customer call1) (cl_commission call1) of
             None \<Rightarrow> reply aborted
           | Some (Inl e) \<Rightarrow> recordExecution call1 (Some u) 0 0 ''streaming'' [] ''error'' True []
           | Some (Inr (gross, commission)) \<Rightarrow>
               bnd (drawAndComplete env keyHMAC call1 gross commission (Some u) ''streaming'' []) (\<lambda>_. ret ())))"

definition streamChat ::
  "'c gateway_env \<Rightarrow> string \<Rightarrow> resolved_call \<Rightarrow> chat_input \<Rightarrow> string \<Rightarrow> ('c gateway, response) act" where
  "streamChat env keyHMAC call input protocol =
     bnd nextCall (\<lambda>n. case ge_stream env n input of
       Inl key \<Rightarrow>
         bnd (recordExecution (callForExecutionLog call key) None 0 0 ''streaming'' [] ''error'' True []) (\<lambda>_.
         reply (errorJSON 502 ''provider_error'' ''Provider stream failed''))
     | Inr chunks \<Rightarrow>
         bnd (if protocol = ''anthropic'' then onRegion newUUID else ret []) (\<lambda>u.
         bnd (writeEvents (openingEvents protocol call u)) (\<lambda>_.
         bnd (streamLoop (ge_marshal_chunk env) protocol chunks (None, [], False)) (\<lambda>(usage, key, failed).
         case usage of
           None \<Rightarrow>
             bnd (recordExecution (callForExecutionLog call key) None 0 0 ''streaming'' [] ''error'' True []) (\<lambda>_.
             ret (writeHeader 200))
         | Some u \<Rightarrow>
             if failed \<or> key = []
             then bnd (recordExecution (callForExecutionLog call key) (Some u) 0 0 ''streaming'' [] ''error'' True []) (\<lambda>_.
                  ret (writeHeader 200))
             else
             bnd nowR (\<lambda>t. bnd (onRegion (markProviderKeyUsed key t)) (\<lambda>_.
             bnd (writeEvents (closingEvents protocol u)) (\<lambda>_.
             bnd (billStream env keyHMAC call u key) (\<lambda>_. ret (writeHeader 200)))))))))"

subsection \<open>\<open>chat\<close>\<close>

definition testFailpoint :: "http_request \<Rightarrow> string" where
  "testFailpoint r = rq_header r ''X-Gizway-Test-Failpoint''"

definition answerChat ::
  "'c gateway_env \<Rightarrow> http_request \<Rightarrow> string \<Rightarrow> resolved_call \<Rightarrow> bifrost_response \<Rightarrow> string \<Rightarrow> string \<Rightarrow>
     ('c gateway, response) act" where
  "answerChat env r keyHMAC call response0 protocol model =
     (let failpoint = testFailpoint r; key = br_key response0 in
     bnd (if key \<noteq> [] then bnd nowR (\<lambda>t. bnd (onRegion (markProviderKeyUsed key t)) (\<lambda>_. ret ())) else ret ()) (\<lambda>_.
     let response = response0\<lparr>br_model := model\<rparr> in
     case publicChatResponse (ge_marshal env) protocol response model of
       None \<Rightarrow>
         bnd (recordExecution (callForExecutionLog call key) (br_usage response) 0 0 ''non_streaming'' [] ''error'' True failpoint) (\<lambda>_.
         reply (errorJSON 502 ''invalid_provider_response''
           ''Provider response cannot be converted to the public protocol''))
     | Some public \<Rightarrow>
         (case selected call (if failpoint = ''selected_key_mapping_failure'' then ''bfk_missing_billing_mapping'' else key) of
            None \<Rightarrow>
              bnd (recordExecution (callForExecutionLog call key) (br_usage response) 0 0 ''non_streaming'' [] ''error'' True failpoint) (\<lambda>_.
              ret (writeJSON 200 public))
          | Some call1 \<Rightarrow>
              bnd (billChat env keyHMAC call1 (br_usage response) failpoint) (\<lambda>_. ret (writeJSON 200 public)))))"

definition callChat ::
  "'c gateway_env \<Rightarrow> http_request \<Rightarrow> string \<Rightarrow> resolved_call \<Rightarrow> chat_input \<Rightarrow> string \<Rightarrow> string \<Rightarrow>
     ('c gateway, response) act" where
  "callChat env r keyHMAC call input protocol model =
     bnd nextCall (\<lambda>n. case ge_chat env n input of
       Inl key \<Rightarrow>
         bnd (recordExecution (callForExecutionLog call key) None 0 0 ''non_streaming'' [] ''error'' True []) (\<lambda>_.
         reply (errorJSON 502 ''provider_error'' ''Provider call failed''))
     | Inr response \<Rightarrow> answerChat env r keyHMAC call response protocol model)"

definition chat ::
  "'c gateway_env \<Rightarrow> http_request \<Rightarrow> string \<Rightarrow> credit_admission \<Rightarrow> string \<Rightarrow> ('c gateway, response) act" where
  "chat env r keyHMAC ad protocol =
     (case chatBody (ge_decoders env) r protocol of
        None \<Rightarrow> reply invalid
      | Some q \<Rightarrow>
     bnd (require (chatAcceptable q) invalid) (\<lambda>_.
     case chatParameters (ge_decoders env) q of None \<Rightarrow> reply invalid | Some parameters \<Rightarrow>
     (case protocolHeaders r protocol of None \<Rightarrow> reply invalid | Some headers \<Rightarrow>
     bnd (onRegion (resolveCall (ge_api env) (cq_model q) (ad_product ad))) (\<lambda>(err, call0).
     let call = applyTo ad call0 in
     case err of
       Some e \<Rightarrow> reply (unresolved e call)
     | None \<Rightarrow>
     (case providerMessages (cq_messages q) of None \<Rightarrow> reply invalid | Some messages \<Rightarrow>
     let input = \<lparr> ci_targets = cl_targets call, ci_messages = messages, ci_parameters = parameters,
           ci_headers = headers \<rparr> in
     if cq_stream q then streamChat env keyHMAC call input protocol
     else callChat env r keyHMAC call input protocol (cq_model q))))))"

end
