(* ===== verification/WayRealtime.thy ===== *)
theory WayRealtime
  imports WayGateway
begin

section \<open>Realtime sessions\<close>

text \<open>
  \<open>createRealtimeSecret\<close>, \<open>pruneRealtimeSessions\<close>, \<open>realtimeSocket\<close> and \<open>protocol\<close> of
  \<open>internal/gizway/protocol.go\<close>. A client exchanges its Subscription Key for a secret that opens one
  WebSocket before it expires.
\<close>

subsection \<open>Secrets\<close>

definition pruneRealtimeSessions :: "('c gateway, unit) act" where
  "pruneRealtimeSessions = bnd nowR (\<lambda>t g. (Val (), g\<lparr>realtime := (\<lambda>i. case realtime g i of
     None \<Rightarrow> None | Some s \<Rightarrow> if \<not> t < rs_expires s then None else Some s)\<rparr>))"

definition storeSession :: "string \<Rightarrow> realtime_session \<Rightarrow> ('c gateway, unit) act" where
  "storeSession i s g = (Val (), g\<lparr>realtime := (realtime g)(i \<mapsto> s)\<rparr>)"

text \<open>\<open>time.Time.Unix\<close>: seconds since 1970, which is 62135596800 seconds after Go's zero time.\<close>

definition unixSeconds :: "time \<Rightarrow> int" where
  "unixSeconds t = t div second - 62135596800"

definition createRealtimeSecret ::
  "'c gateway_env \<Rightarrow> http_request \<Rightarrow> string \<Rightarrow> credit_admission \<Rightarrow> ('c gateway, response) act" where
  "createRealtimeSecret env r keyHMAC ad =
     (case gd_realtime (ge_decoders env) (rq_body r) of None \<Rightarrow> reply invalid | Some (model, transport) \<Rightarrow>
     bnd (require (model \<noteq> [] \<and> transport = ''websocket'') invalid) (\<lambda>_.
     bnd (onRegion (resolveCall (ge_api env) model (ad_product ad))) (\<lambda>(err, call0).
     let call = applyTo ad call0 in
     case err of Some e \<Rightarrow> reply (unresolved e call) | None \<Rightarrow>
     bnd nextCall (\<lambda>n.
     case ge_route env n (cl_targets call) of
       None \<Rightarrow> reply (errorJSON 502 ''provider_error'' ''Provider realtime route unavailable'')
     | Some (url, key) \<Rightarrow>
     (case selected call key of None \<Rightarrow> reply internal | Some call1 \<Rightarrow>
     bnd (onRegion newUUID) (\<lambda>u1. bnd (onRegion newUUID) (\<lambda>u2. bnd (onRegion newUUID) (\<lambda>u3. bnd nowR (\<lambda>t.
     let sessionID = ''rts_'' @ u1; secret = ''rtk_'' @ u2 @ u3; expires = t + ge_ttl env in
     bnd pruneRealtimeSessions (\<lambda>_.
     bnd (storeSession sessionID \<lparr> rs_secret = secret, rs_hmac = keyHMAC, rs_url = url, rs_call = call1,
            rs_expires = expires \<rparr>) (\<lambda>_.
     ret (writeJSON 201 (JObj
       [(''client_secret'', JObj [(''value'', JStr secret), (''expires_at'', JInt (unixSeconds expires))]),
        (''session'', JObj [(''session_id'', JStr sessionID), (''transport'', JStr ''websocket''),
           (''model'', JStr model)])])))))))))))))"

text \<open>The critical section of \<open>realtimeSocket\<close>: a valid secret is taken out of the map.\<close>

definition takeSession :: "string \<Rightarrow> string \<Rightarrow> ('c gateway, realtime_session option) act" where
  "takeSession sessionID secret = bnd nowR (\<lambda>t g.
     case realtime g sessionID of
       None \<Rightarrow> (Val None, g)
     | Some s \<Rightarrow>
         if t < rs_expires s \<and> secret = rs_secret s
         then (Val (Some s), g\<lparr>realtime := (realtime g)(sessionID := None)\<rparr>)
         else (Val None, g))"

subsection \<open>The socket\<close>

text \<open>
  One turn of the loop that relays the provider's events: the goroutine that relays the client's has
  ended, reading failed, Bifrost could not translate the event, writing failed, an event was relayed,
  or the terminal event was. Without a turn left the request's context has ended.
\<close>

datatype socket_turn =
    ClientEnded
  | ReadFailed
  | TranslateFailed
  | WriteFailed
  | Relayed
  | Terminal "llm_usage option"

record socket =
  so_refused :: "response option"
  so_dialed :: bool
  so_turns :: "socket_turn list"

text \<open>Whether the execution has been logged.\<close>

definition terminate ::
  "'c gateway_env \<Rightarrow> realtime_session \<Rightarrow> llm_usage option \<Rightarrow> ('c gateway, bool) act" where
  "terminate env s usage =
     (case usage of
        None \<Rightarrow> ret False
      | Some u \<Rightarrow>
          bnd nowR (\<lambda>t. bnd (onRegion (markProviderKeyUsed (cl_key (rs_call s)) t)) (\<lambda>_.
          case ratedUsage (Some u) (cl_customer (rs_call s)) (cl_commission (rs_call s)) of
            None \<Rightarrow> reply aborted
          | Some (Inl e) \<Rightarrow> ret False
          | Some (Inr (gross, commission)) \<Rightarrow>
              bnd (drawAndComplete env (rs_hmac s) (rs_call s) gross commission (Some u) ''realtime'' []) (\<lambda>_.
              ret True))))"

fun realtimeLoop ::
  "'c gateway_env \<Rightarrow> realtime_session \<Rightarrow> socket_turn list \<Rightarrow> ('c gateway, bool) act" where
  "realtimeLoop env s [] = ret False"
| "realtimeLoop env s (turn # turns) =
     (case turn of
        Relayed \<Rightarrow> realtimeLoop env s turns
      | Terminal usage \<Rightarrow> terminate env s usage
      | _ \<Rightarrow> ret False)"

definition failedExecution :: "realtime_session \<Rightarrow> ('c gateway, unit) act" where
  "failedExecution s = recordExecution (rs_call s) None 0 0 ''realtime'' [] ''error'' True []"

definition realtimeSocket :: "'c gateway_env \<Rightarrow> http_request \<Rightarrow> socket \<Rightarrow> ('c gateway, response) act" where
  "realtimeSocket env r sock =
     bnd (takeSession (query_value r ''session_id'') (trimPrefix (rq_header r ''Authorization'') ''Bearer '')) (\<lambda>x.
     case x of
       None \<Rightarrow> reply (errorJSON 401 ''invalid_realtime_secret'' ''invalid realtime secret'')
     | Some s \<Rightarrow>
     (case so_refused sock of
        Some response \<Rightarrow> reply response
      | None \<Rightarrow>
          if \<not> so_dialed sock then bnd (failedExecution s) (\<lambda>_. ret (writeHeader 101))
          else bnd (realtimeLoop env s (so_turns sock)) (\<lambda>logged.
          bnd (if logged then ret () else failedExecution s) (\<lambda>_. ret (writeHeader 101)))))"

subsection \<open>\<open>protocol\<close>\<close>

definition listModels :: "('c gateway, response) act" where
  "listModels =
     bnd (orReply (onRegion (db_exec (reading (\<lambda>d. sort_key id (map sd_name
        (filter (\<lambda>m. sd_status m = ''active'') (sync_models d))))))) internal) (\<lambda>names.
     ret (writeJSON 200 (JObj [(''object'', JStr ''list''),
       (''data'', JArr (map (\<lambda>n. JObj [(''id'', JStr n), (''object'', JStr ''model'')]) names))])))"

definition admitRequest :: "'c gateway_env \<Rightarrow> string \<Rightarrow> ('c gateway, credit_error + credit_admission) act" where
  "admitRequest env keyHMAC =
     bnd nowR (\<lambda>t. bnd nextCall (\<lambda>n.
     onCredit (admit (ge_rivals env n) (ge_during env n) t
       (checkCredit (ge_config env) (ge_check_decoders env) (ge_token env n) (ge_check env n keyHMAC)) keyHMAC)))"

definition dispatch ::
  "'c gateway_env \<Rightarrow> http_request \<Rightarrow> string \<Rightarrow> credit_admission \<Rightarrow> ('c gateway, response) act" where
  "dispatch env r keyHMAC ad =
     (if rq_method r = GET \<and> rq_path r = ''/openai/v1/models'' then listModels
      else if rq_method r = POST \<and> rq_path r = ''/openai/v1/chat/completions'' then chat env r keyHMAC ad ''openai''
      else if rq_method r = POST \<and> rq_path r = ''/anthropic/v1/messages'' then chat env r keyHMAC ad ''anthropic''
      else if rq_method r = POST \<and> geminiModelOperation (rq_path r) \<noteq> None then chat env r keyHMAC ad ''gemini''
      else if rq_method r = POST \<and> rq_path r = ''/openai/v1/realtime/client_secrets''
      then createRealtimeSecret env r keyHMAC ad
      else reply (writeHeader 404))"

definition protocolRequest :: "'c gateway_env \<Rightarrow> http_request \<Rightarrow> socket \<Rightarrow> ('c gateway, response) act" where
  "protocolRequest env r sock =
     (if rq_method r = GET \<and> rq_path r = ''/openai/v1/realtime'' then realtimeSocket env r sock
      else bnd (require (supportedProtocolRequest r) (writeHeader 404)) (\<lambda>_.
     case protocolSubscriptionKey r of
       None \<Rightarrow> reply (errorJSON 401 ''invalid_subscription_key'' ''Subscription Key is required'')
     | Some rawKey \<Rightarrow>
     let keyHMAC = ge_mac env rawKey in
     bnd (admitRequest env keyHMAC) (\<lambda>x. case x of
       Inl e \<Rightarrow> reply (if e = InvalidSubscriptionKey
          then errorJSON 401 ''invalid_subscription_key'' ''Subscription Key is unknown or revoked''
          else errorJSON 503 ''credit_check_unavailable'' ''Credit Check unavailable'')
     | Inr ad \<Rightarrow>
     bnd (require (ad_allowed ad) (errorJSON 402 ''credit_denied'' ''Credit denied'')) (\<lambda>_.
     dispatch env r keyHMAC ad))))"

end
