(* ===== verification/Courses.thy ===== *)
theory Courses
  imports Evolution
begin

section \<open>Relations that every action goes along\<close>

text \<open>
  The counterpart of \<open>evolution\<close> for whole states instead of databases: \<open>moves R m\<close> says that the
  action \<open>m\<close>, whatever it answers and whatever fails, takes a state only to states related by \<open>R\<close>.
\<close>

definition moves :: "('s \<Rightarrow> 's \<Rightarrow> bool) \<Rightarrow> ('s, 'a) act \<Rightarrow> bool" where
  "moves R m \<longleftrightarrow> (\<forall>s. R s (snd (m s)))"

named_theorems movesI \<open>actions that go along a course\<close>

lemma movesD: "moves R m \<Longrightarrow> m s = (x, s') \<Longrightarrow> R s s'"
  unfolding moves_def by (metis snd_conv)

lemma moves_respond: "moves R m \<Longrightarrow> R s (snd (respond m s))"
  by (auto simp: respond_def split: prod.splits step.splits dest: movesD)

locale course =
  fixes R :: "'s \<Rightarrow> 's \<Rightarrow> bool"
  assumes refl: "R s s"
    and trans: "R s s' \<Longrightarrow> R s' s'' \<Longrightarrow> R s s''"
begin

lemma moves_ret [movesI]: "moves R (ret a)" by (simp add: moves_def ret_def refl)
lemma moves_reply [movesI]: "moves R (reply r)" by (simp add: moves_def reply_def refl)
lemma moves_gets [movesI]: "moves R (gets f)" by (simp add: moves_def gets_def refl)
lemma moves_require [movesI]: "moves R (require b r)" by (simp add: moves_def require_def ret_def reply_def refl)

lemma moves_bnd [movesI]: "moves R m \<Longrightarrow> (\<And>a. moves R (f a)) \<Longrightarrow> moves R (bnd m f)"
  unfolding moves_def bnd_def by (auto split: prod.split step.split) (metis snd_conv trans)+

lemma moves_if [movesI]: "(b \<Longrightarrow> moves R m) \<Longrightarrow> (\<not> b \<Longrightarrow> moves R n) \<Longrightarrow> moves R (if b then m else n)"
  by simp

lemma moves_let [movesI]: "moves R (f x) \<Longrightarrow> moves R (Let x f)"
  by simp

lemma moves_case_option [movesI]:
  "(x = None \<Longrightarrow> moves R m) \<Longrightarrow> (\<And>y. x = Some y \<Longrightarrow> moves R (n y)) \<Longrightarrow>
     moves R (case x of None \<Rightarrow> m | Some y \<Rightarrow> n y)"
  by (cases x) auto

lemma moves_case_sum [movesI]:
  "(\<And>y. x = Inl y \<Longrightarrow> moves R (m y)) \<Longrightarrow> (\<And>y. x = Inr y \<Longrightarrow> moves R (n y)) \<Longrightarrow>
     moves R (case x of Inl y \<Rightarrow> m y | Inr y \<Rightarrow> n y)"
  by (cases x) auto

lemma moves_case_prod [movesI]: "(\<And>a b. x = (a, b) \<Longrightarrow> moves R (n a b)) \<Longrightarrow> moves R (case x of (a, b) \<Rightarrow> n a b)"
  by (cases x) auto

lemma moves_orReply [movesI]: "moves R m \<Longrightarrow> moves R (orReply m r)"
  unfolding orReply_def by (intro moves_bnd moves_case_sum moves_reply moves_ret)

lemma moves_orReplyWith [movesI]: "moves R m \<Longrightarrow> moves R (orReplyWith m r)"
  unfolding orReplyWith_def by (intro moves_bnd moves_case_sum moves_reply moves_ret)

lemma moves_thenOk [movesI]: "moves R m \<Longrightarrow> (\<And>a. moves R (f a)) \<Longrightarrow> moves R (thenOk m f)"
  unfolding thenOk_def by (intro moves_bnd moves_case_sum moves_ret)

lemma moves_iterOk [movesI]: "(\<And>x. moves R (f x)) \<Longrightarrow> moves R (iterOk f xs)"
  by (induction xs) (auto intro: moves_ret moves_thenOk)

lemma moves_exactlyOne [movesI]: "moves R m \<Longrightarrow> moves R (exactlyOne m)"
  unfolding exactlyOne_def by (intro moves_thenOk moves_ret)

end

subsection \<open>Clock and random identifiers\<close>

text \<open>An action uses up identifiers and leaves their source, the clock and the failures to come as they are.\<close>

definition steady :: "'db world \<Rightarrow> 'db world \<Rightarrow> bool" where
  "steady w w' \<longleftrightarrow> uuid w' = uuid w \<and> uuid_n w \<le> uuid_n w' \<and> now w' = now w \<and> fault w' = fault w"

interpretation steady: course steady
  by unfold_locales (auto simp: steady_def)

lemma steady_newUUID [movesI]: "moves steady newUUID"
  by (simp add: moves_def steady_def newUUID_def)

lemma steady_statements [movesI]:
  "moves steady (db_exec q)" "moves steady (tx_exec q)" "moves steady begin_tx" "moves steady (commit_tx chk)"
  by (auto simp: moves_def steady_def db_exec_def tx_exec_def begin_tx_def commit_tx_def
      split: sum.splits prod.splits option.splits)

lemma steady_finish_tx [movesI]: "moves steady m \<Longrightarrow> moves steady (finish_tx m)"
  by (auto simp: moves_def steady_def finish_tx_def split: prod.splits) (metis snd_conv)+

lemma steady_inTransaction [movesI]: "moves steady m \<Longrightarrow> moves steady (inTransaction m)"
  unfolding inTransaction_def by (intro movesI)

end
