(* ===== verification/WayAdmin.thy ===== *)
theory WayAdmin
  imports WayStore PayAdmin
begin

section \<open>The administration API of GizWay\<close>

text \<open>
  \<open>internal/gizway/admin.go\<close>: providers, models, customer prices, model listings, provider keys
  and their prices under the administrator's key. A provider or a key lives in Bifrost's Config
  Store and in the tables that are synchronised to clients; both are written in one transaction.
\<close>

text \<open>The lookup that follows a failed insert, shared by the four creations.\<close>

definition recheck ::
  "('s, sqlerr + 'r) act \<Rightarrow> ('r \<Rightarrow> bool) \<Rightarrow> ('r \<Rightarrow> json) \<Rightarrow> ('s, response) act" where
  "recheck find_row same render =
     bnd find_row (\<lambda>y. case y of
       Inr r \<Rightarrow> if same r then reply (writeJSON 200 (render r)) else reply adminConflict
     | Inl e \<Rightarrow> reply adminConflict)"

subsection \<open>Providers\<close>

record provider_request =
  vr_id :: string
  vr_name :: string
  vr_kind :: string
  vr_base_url :: string
  vr_status :: string

record provider_patch =
  vp_name :: "string option"
  vp_base_url :: "string option"
  vp_status :: "string option"

definition providerJSON :: "provider_record \<Rightarrow> json" where
  "providerJSON p = JObj [(''id'', JStr (pv_id p)), (''name'', JStr (pv_name p)), (''kind'', JStr (pv_kind p)),
     (''base_url'', JStr (pv_base_url p)), (''status'', JStr (pv_status p)), (''created_at'', JTime (pv_created_at p))]"

definition sameProvider :: "provider_request \<Rightarrow> provider_record \<Rightarrow> bool" where
  "sameProvider b p \<longleftrightarrow> pv_name p = vr_name b \<and> pv_kind p = vr_kind b \<and> pv_base_url p = vr_base_url b \<and>
     pv_status p = vr_status b"

definition providerAcceptable :: "(string \<Rightarrow> bool) \<Rightarrow> provider_request \<Rightarrow> bool" where
  "providerAcceptable validURL b \<longleftrightarrow>
     nonBlankAll [vr_id b, vr_name b, vr_kind b, vr_base_url b] \<and> validURL (vr_base_url b) \<and>
     oneOf (vr_status b) [''active'', ''inactive'']"

definition createProvider ::
  "'c config_api \<Rightarrow> (string \<Rightarrow> bool) \<Rightarrow> provider_request option \<Rightarrow> ('c way_db world, response) act" where
  "createProvider api validURL body =
     (case body of
        None \<Rightarrow> reply invalid
      | Some b \<Rightarrow>
     bnd (require (providerAcceptable validURL b) invalid) (\<lambda>_.
     bnd (storesProvider api (vr_id b)) (\<lambda>x. case x of
       Inr p \<Rightarrow> if \<not> sameProvider b p then reply adminConflict else reply (writeJSON 200 (providerJSON p))
     | Inl e \<Rightarrow> if e \<noteq> NoRows then reply internal else
     bnd (gets now) (\<lambda>t.
     let p = \<lparr> pv_id = vr_id b, pv_name = vr_name b, pv_kind = vr_kind b, pv_base_url = vr_base_url b,
               pv_status = vr_status b, pv_created_at = t \<rparr> in
     bnd (configTransaction (thenOk (createProviderInTransaction api p) (\<lambda>_.
        tx_exec (insertSyncProvider \<lparr> sv_id = vr_id b, sv_name = vr_name b, sv_kind = vr_kind b,
          sv_status = vr_status b \<rparr>)))) (\<lambda>ins. case ins of
       Inl e1 \<Rightarrow> recheck (storesProvider api (vr_id b)) (sameProvider b) providerJSON
     | Inr u \<Rightarrow> ret (writeJSON 201 (providerJSON p)))))))"

definition adminProviders ::
  "'c config_api \<Rightarrow> (string \<Rightarrow> bool) \<Rightarrow> httpMethod \<Rightarrow> provider_request option \<Rightarrow>
     ('c way_db world, response) act" where
  "adminProviders api validURL meth body =
     (if meth = GET
      then bnd (orReply (storesProviders api) internal) (\<lambda>ps. ret (listJSON (map providerJSON ps)))
      else createProvider api validURL body)"

definition setSyncProvider :: "provider_record \<Rightarrow> ('c way_db, unit) query" where
  "setSyncProvider p d = Inr ((), d\<lparr>sync_providers := updateRows (\<lambda>x. sv_id x = pv_id p)
     (\<lambda>x. x\<lparr>sv_name := pv_name p, sv_kind := pv_kind p, sv_status := pv_status p\<rparr>) (sync_providers d)\<rparr>)"

definition updateAdminProvider ::
  "'c config_api \<Rightarrow> provider_record \<Rightarrow> ('c way_db world, sqlerr + unit) act" where
  "updateAdminProvider api p = configTransaction (thenOk (updateProviderInTransaction api p) (\<lambda>_.
     tx_exec (setSyncProvider p)))"

definition adminProviderResource ::
  "'c config_api \<Rightarrow> (string \<Rightarrow> bool) \<Rightarrow> httpMethod \<Rightarrow> provider_patch option \<Rightarrow> string \<Rightarrow>
     ('c way_db world, response) act" where
  "adminProviderResource api validURL meth body i =
     bnd (orReplyWith (storesProvider api i) notFoundOrInternal) (\<lambda>p.
     if meth = GET then ret (writeJSON 200 (providerJSON p))
     else if meth = PATCH
     then (case body of
             None \<Rightarrow> reply invalid
           | Some b \<Rightarrow>
          bnd (require (\<not> (vp_name b = None \<and> vp_base_url b = None \<and> vp_status b = None) \<and>
             \<not> blankName (vp_name b) \<and> (case vp_base_url b of None \<Rightarrow> True | Some u \<Rightarrow> validURL u) \<and>
             \<not> badStatus (vp_status b)) invalid) (\<lambda>_.
          let p' = p\<lparr>pv_name := orOld (vp_name b) (pv_name p), pv_base_url := orOld (vp_base_url b) (pv_base_url p),
                pv_status := orOld (vp_status b) (pv_status p)\<rparr> in
          bnd (orReply (updateAdminProvider api p') internal) (\<lambda>_. ret (writeJSON 200 (providerJSON p')))))
     else if meth = DELETE
     then if pv_status p \<noteq> ''inactive''
          then bnd (orReply (updateAdminProvider api (p\<lparr>pv_status := ''inactive''\<rparr>)) internal) (\<lambda>_. ret (writeHeader 204))
          else ret (writeHeader 204)
     else ret (writeHeader 200))"

subsection \<open>Models\<close>

text \<open>The request body of a creation is the row itself.\<close>

record model_patch =
  mq_name :: "string option"
  mq_provider_model :: "string option"
  mq_status :: "string option"

definition modelJSON :: "sync_model \<Rightarrow> json" where
  "modelJSON m = JObj [(''id'', JStr (sd_id m)), (''provider_id'', JStr (sd_provider m)), (''name'', JStr (sd_name m)),
     (''provider_model'', JStr (sd_provider_model m)), (''status'', JStr (sd_status m))]"

definition modelById :: "string \<Rightarrow> 'c way_db \<Rightarrow> sync_model option" where
  "modelById i d = find (\<lambda>m. sd_id m = i) (sync_models d)"

definition adminModel :: "string \<Rightarrow> ('c way_db world, sqlerr + sync_model) act" where
  "adminModel i = db_exec (readRow (modelById i))"

definition modelAcceptable :: "sync_model \<Rightarrow> bool" where
  "modelAcceptable b \<longleftrightarrow> nonBlankAll [sd_id b, sd_provider b, sd_name b, sd_provider_model b] \<and>
     oneOf (sd_status b) [''active'', ''inactive'']"

definition dependencyOrInternal :: "sqlerr \<Rightarrow> response" where
  "dependencyOrInternal e = (if e = NoRows then adminDependencyNotFound else internal)"

definition createModel :: "'c config_api \<Rightarrow> sync_model option \<Rightarrow> ('c way_db world, response) act" where
  "createModel api body =
     (case body of
        None \<Rightarrow> reply invalid
      | Some b \<Rightarrow>
     bnd (require (modelAcceptable b) invalid) (\<lambda>_.
     bnd (adminModel (sd_id b)) (\<lambda>x. case x of
       Inr m \<Rightarrow> if m \<noteq> b then reply adminConflict else reply (writeJSON 200 (modelJSON m))
     | Inl e \<Rightarrow> if e \<noteq> NoRows then reply internal else
     bnd (orReplyWith (storesProvider api (sd_provider b)) dependencyOrInternal) (\<lambda>_.
     bnd (db_exec (insertSyncModel b)) (\<lambda>ins. case ins of
       Inl e1 \<Rightarrow> recheck (adminModel (sd_id b)) (\<lambda>m. m = b) modelJSON
     | Inr u \<Rightarrow> ret (writeJSON 201 (modelJSON b)))))))"

definition adminModels ::
  "'c config_api \<Rightarrow> httpMethod \<Rightarrow> sync_model option \<Rightarrow> ('c way_db world, response) act" where
  "adminModels api meth body =
     (if meth = GET
      then bnd (orReply (db_exec (reading (\<lambda>d. sort_key sd_id (sync_models d)))) internal) (\<lambda>ms.
           ret (sliceJSON (map modelJSON ms)))
      else createModel api body)"

definition setModel :: "sync_model \<Rightarrow> string \<Rightarrow> ('c way_db, unit) query" where
  "setModel m i d = Inr ((), d\<lparr>sync_models := updateRows (\<lambda>x. sd_id x = i)
     (\<lambda>x. x\<lparr>sd_name := sd_name m, sd_provider_model := sd_provider_model m, sd_status := sd_status m\<rparr>) (sync_models d)\<rparr>)"

definition disableModel :: "string \<Rightarrow> ('c way_db, unit) query" where
  "disableModel i d = Inr ((), d\<lparr>sync_models := updateRows (\<lambda>x. sd_id x = i)
     (\<lambda>x. x\<lparr>sd_status := ''inactive''\<rparr>) (sync_models d)\<rparr>)"

definition adminModelResource ::
  "httpMethod \<Rightarrow> model_patch option \<Rightarrow> string \<Rightarrow> ('c way_db world, response) act" where
  "adminModelResource meth body i =
     bnd (orReplyWith (adminModel i) notFoundOrInternal) (\<lambda>m.
     if meth = GET then ret (writeJSON 200 (modelJSON m))
     else if meth = PATCH
     then (case body of
             None \<Rightarrow> reply invalid
           | Some b \<Rightarrow>
          bnd (require (\<not> (mq_name b = None \<and> mq_provider_model b = None \<and> mq_status b = None) \<and>
             \<not> blankName (mq_name b) \<and> \<not> blankName (mq_provider_model b) \<and> \<not> badStatus (mq_status b)) invalid) (\<lambda>_.
          let m' = m\<lparr>sd_name := orOld (mq_name b) (sd_name m),
                sd_provider_model := orOld (mq_provider_model b) (sd_provider_model m),
                sd_status := orOld (mq_status b) (sd_status m)\<rparr> in
          bnd (orReply (db_exec (setModel m' i)) internal) (\<lambda>_. ret (writeJSON 200 (modelJSON m')))))
     else if meth = DELETE
     then if sd_status m \<noteq> ''inactive''
          then bnd (orReply (db_exec (disableModel i)) internal) (\<lambda>_. ret (writeHeader 204))
          else ret (writeHeader 204)
     else ret (writeHeader 200))"

subsection \<open>Customer prices\<close>

definition pricesJSON :: "json list \<Rightarrow> json" where
  "pricesJSON xs = JObj [(''prices'', if xs = [] then JNull else JArr xs)]"

definition customerPriceJSON :: "price_row \<Rightarrow> json" where
  "customerPriceJSON p = JObj [(''metric'', JStr (pw_metric p)), (''unit_size'', JInt (pw_unit p)),
     (''price_microcredits'', JInt (pw_amount p))]"

definition customerPricesOf :: "string \<Rightarrow> 'c way_db \<Rightarrow> price_row list" where
  "customerPricesOf i d = map mp_row (filter (\<lambda>r. mp_model r = i) (customer_prices d))"

definition adminCustomerPrices :: "string \<Rightarrow> ('c way_db world, sqlerr + price_row list) act" where
  "adminCustomerPrices i = db_exec (reading (\<lambda>d. sort_key pw_metric (customerPricesOf i d)))"

definition deleteCustomerPrices :: "string \<Rightarrow> ('c way_db, unit) query" where
  "deleteCustomerPrices i d = Inr ((), d\<lparr>customer_prices := filter (\<lambda>r. mp_model r \<noteq> i) (customer_prices d)\<rparr>)"

definition replaceCustomerPrices :: "string \<Rightarrow> price_row list \<Rightarrow> ('c way_db world, response) act" where
  "replaceCustomerPrices i prices =
     bnd (orReply (tx_exec lockStatement) internal) (\<lambda>_.
     bnd (orReplyWith (tx_exec (readRow (modelById i))) notFoundOrInternal) (\<lambda>_.
     bnd (orReply (tx_exec (deleteCustomerPrices i)) internal) (\<lambda>_.
     bnd (orReply (iterOk (\<lambda>p. tx_exec (insertCustomerPrice \<lparr> mp_model = i, mp_row = p \<rparr>)) prices) internal) (\<lambda>_.
     bnd (orReply (commit_tx (\<lambda>_ _. True)) internal) (\<lambda>_.
     ret (writeJSON 200 (pricesJSON (map customerPriceJSON (sort_key pw_metric prices)))))))))"

definition adminModelCustomerPrices ::
  "httpMethod \<Rightarrow> price_row list option \<Rightarrow> string \<Rightarrow> ('c way_db world, response) act" where
  "adminModelCustomerPrices meth body i =
     bnd (orReplyWith (adminModel i) notFoundOrInternal) (\<lambda>_.
     if meth = GET
     then bnd (orReply (adminCustomerPrices i) internal) (\<lambda>ps.
          ret (writeJSON 200 (pricesJSON (map customerPriceJSON ps))))
     else (case body of
             None \<Rightarrow> reply invalid
           | Some prices \<Rightarrow>
          bnd (require (validCustomerPrices prices) invalid) (\<lambda>_.
          bnd (orReply begin_tx internal) (\<lambda>_.
          finish_tx (replaceCustomerPrices i prices)))))"

subsection \<open>Model listings\<close>

record model_listing_request =
  lr_id :: string
  lr_model :: string
  lr_title :: string
  lr_description :: string
  lr_family :: string
  lr_context :: string
  lr_latency :: string
  lr_accent :: string
  lr_featured :: bool
  lr_order :: int
  lr_availability :: string

record model_listing_patch =
  lq_title :: "string option"
  lq_description :: "string option"
  lq_family :: "string option"
  lq_context :: "string option"
  lq_latency :: "string option"
  lq_accent :: "string option"
  lq_featured :: "bool option"
  lq_order :: "int option"
  lq_availability :: "string option"

definition modelListingJSON :: "model_listing \<Rightarrow> json" where
  "modelListingJSON l = JObj
     [(''id'', JStr (ml_id l)), (''model_id'', JStr (ml_model l)), (''title'', JStr (ml_title l)),
      (''description'', JStr (ml_description l)), (''family'', JStr (ml_family l)),
      (''context'', JStr (ml_context l)), (''latency'', JStr (ml_latency l)), (''accent'', JStr (ml_accent l)),
      (''featured'', JBool (ml_featured l)), (''display_order'', JInt (ml_order l)),
      (''availability'', JStr (ml_availability l)), (''created_at'', JTime (ml_created_at l)),
      (''updated_at'', JTime (ml_updated_at l))]"

definition modelListingById :: "string \<Rightarrow> 'c way_db \<Rightarrow> model_listing option" where
  "modelListingById i d = find (\<lambda>l. ml_id l = i) (model_listings d)"

definition adminModelListing :: "string \<Rightarrow> ('c way_db world, sqlerr + model_listing) act" where
  "adminModelListing i = db_exec (readRow (modelListingById i))"

definition sameAdminModelListing :: "model_listing_request \<Rightarrow> model_listing \<Rightarrow> bool" where
  "sameAdminModelListing b l \<longleftrightarrow>
     ml_id l = lr_id b \<and> ml_model l = lr_model b \<and> ml_title l = lr_title b \<and> ml_description l = lr_description b \<and>
     ml_family l = lr_family b \<and> ml_context l = lr_context b \<and> ml_latency l = lr_latency b \<and>
     ml_accent l = lr_accent b \<and> ml_featured l = lr_featured b \<and> ml_order l = lr_order b \<and>
     ml_availability l = lr_availability b"

definition listingAcceptable :: "model_listing_request \<Rightarrow> bool" where
  "listingAcceptable b \<longleftrightarrow> nonBlankAll [lr_id b, lr_model b, lr_title b, lr_family b] \<and>
     oneOf (lr_availability b) [''available'', ''unavailable'']"

definition createModelListing :: "model_listing_request option \<Rightarrow> ('c way_db world, response) act" where
  "createModelListing body =
     (case body of
        None \<Rightarrow> reply invalid
      | Some b \<Rightarrow>
     bnd (require (listingAcceptable b) invalid) (\<lambda>_.
     bnd (adminModelListing (lr_id b)) (\<lambda>x. case x of
       Inr l \<Rightarrow> if \<not> sameAdminModelListing b l then reply adminConflict
               else reply (writeJSON 200 (modelListingJSON l))
     | Inl e \<Rightarrow> if e \<noteq> NoRows then reply internal else
     bnd (orReplyWith (adminModel (lr_model b)) dependencyOrInternal) (\<lambda>_.
     bnd (gets now) (\<lambda>t.
     bnd (db_exec (insertModelListing \<lparr> ml_id = lr_id b, ml_model = lr_model b, ml_title = lr_title b,
        ml_description = lr_description b, ml_family = lr_family b, ml_context = lr_context b,
        ml_latency = lr_latency b, ml_accent = lr_accent b, ml_featured = lr_featured b, ml_order = lr_order b,
        ml_availability = lr_availability b, ml_created_at = t, ml_updated_at = t \<rparr>)) (\<lambda>ins. case ins of
       Inl e1 \<Rightarrow> recheck (adminModelListing (lr_id b)) (sameAdminModelListing b) modelListingJSON
     | Inr u \<Rightarrow>
         bnd (orReply (adminModelListing (lr_id b)) internal) (\<lambda>l. ret (writeJSON 201 (modelListingJSON l)))))))))"

definition adminModelListings ::
  "httpMethod \<Rightarrow> model_listing_request option \<Rightarrow> ('c way_db world, response) act" where
  "adminModelListings meth body =
     (if meth = GET
      then bnd (orReply (db_exec (reading (\<lambda>d. orderBy ml_created_at ml_id (model_listings d)))) internal) (\<lambda>ls.
           ret (sliceJSON (map modelListingJSON ls)))
      else createModelListing body)"

definition applyModelListingPatch :: "model_listing_patch \<Rightarrow> model_listing \<Rightarrow> model_listing" where
  "applyModelListingPatch b l = l\<lparr>
     ml_title := orOld (lq_title b) (ml_title l), ml_description := orOld (lq_description b) (ml_description l),
     ml_family := orOld (lq_family b) (ml_family l), ml_context := orOld (lq_context b) (ml_context l),
     ml_latency := orOld (lq_latency b) (ml_latency l), ml_accent := orOld (lq_accent b) (ml_accent l),
     ml_featured := orOld (lq_featured b) (ml_featured l), ml_order := orOld (lq_order b) (ml_order l),
     ml_availability := orOld (lq_availability b) (ml_availability l)\<rparr>"

definition setModelListing :: "model_listing \<Rightarrow> string \<Rightarrow> ('c way_db, unit) query" where
  "setModelListing l i d =
     (if list_ex (\<lambda>x. ml_id x = i) (model_listings d) \<and>
         \<not> (sqlText (ml_title l) \<and> sqlText (ml_family l) \<and> - 2147483648 \<le> ml_order l \<and> ml_order l \<le> 2147483647)
      then Inl CheckViolation
      else Inr ((), d\<lparr>model_listings := updateRows (\<lambda>x. ml_id x = i)
             (\<lambda>x. x\<lparr>ml_title := ml_title l, ml_description := ml_description l, ml_family := ml_family l,
                   ml_context := ml_context l, ml_latency := ml_latency l, ml_accent := ml_accent l,
                   ml_featured := ml_featured l, ml_order := ml_order l, ml_availability := ml_availability l,
                   ml_updated_at := ml_updated_at l\<rparr>) (model_listings d)\<rparr>))"

definition disableModelListing :: "time \<Rightarrow> string \<Rightarrow> ('c way_db, unit) query" where
  "disableModelListing t i d = Inr ((), d\<lparr>model_listings := updateRows (\<lambda>x. ml_id x = i)
     (\<lambda>x. x\<lparr>ml_availability := ''unavailable'', ml_updated_at := t\<rparr>) (model_listings d)\<rparr>)"

definition listingPatchAcceptable :: "model_listing_patch \<Rightarrow> bool" where
  "listingPatchAcceptable b \<longleftrightarrow>
     \<not> (lq_title b = None \<and> lq_description b = None \<and> lq_family b = None \<and> lq_context b = None \<and>
        lq_latency b = None \<and> lq_accent b = None \<and> lq_featured b = None \<and> lq_order b = None \<and>
        lq_availability b = None) \<and>
     \<not> blankName (lq_title b) \<and> \<not> blankName (lq_family b) \<and>
     (case lq_availability b of None \<Rightarrow> True | Some v \<Rightarrow> oneOf v [''available'', ''unavailable''])"

definition adminModelListingResource ::
  "httpMethod \<Rightarrow> model_listing_patch option \<Rightarrow> string \<Rightarrow> ('c way_db world, response) act" where
  "adminModelListingResource meth body i =
     bnd (orReplyWith (adminModelListing i) notFoundOrInternal) (\<lambda>l.
     if meth = GET then ret (writeJSON 200 (modelListingJSON l))
     else if meth = PATCH
     then (case body of
             None \<Rightarrow> reply invalid
           | Some b \<Rightarrow>
          bnd (require (listingPatchAcceptable b) invalid) (\<lambda>_.
          bnd (gets now) (\<lambda>t.
          let l' = (applyModelListingPatch b l)\<lparr>ml_updated_at := t\<rparr> in
          bnd (orReply (db_exec (setModelListing l' i)) internal) (\<lambda>_. ret (writeJSON 200 (modelListingJSON l'))))))
     else if meth = DELETE
     then if ml_availability l \<noteq> ''unavailable''
          then bnd (gets now) (\<lambda>t.
               bnd (orReply (db_exec (disableModelListing t i)) internal) (\<lambda>_. ret (writeHeader 204)))
          else ret (writeHeader 204)
     else ret (writeHeader 200))"

subsection \<open>Provider keys\<close>

record provider_key_request =
  kq_id :: string
  kq_provider :: string
  kq_issuer :: string
  kq_subject :: string
  kq_merchant :: string
  kq_name :: string
  kq_key :: string
  kq_status :: string
  kq_prices :: "key_price list"

definition providerKeyJSON :: "sync_key \<Rightarrow> json" where
  "providerKeyJSON k = JObj
     [(''id'', JStr (sk_id k)), (''provider_id'', JStr (sk_provider k)),
      (''owner_identity_issuer'', JStr (sk_issuer k)), (''owner_identity_subject'', JStr (sk_subject k)),
      (''merchant_id'', JStr (sk_merchant k)), (''name'', JStr (sk_name k)), (''status'', JStr (sk_status k)),
      (''secret_configured'', JBool True), (''created_at'', JTime (sk_created_at k)),
      (''updated_at'', JTime (sk_updated_at k))]"

definition keyPriceJSON :: "key_price \<Rightarrow> json" where
  "keyPriceJSON p = JObj [(''model_id'', JStr (kp_model p)), (''metric'', JStr (kp_metric p)),
     (''unit_size'', JInt (kp_unit p)), (''microcredits_per_unit'', JInt (kp_microcredits p))]"

definition syncKeyById :: "string \<Rightarrow> 'c way_db \<Rightarrow> sync_key option" where
  "syncKeyById i d = find (\<lambda>k. sk_id k = i) (sync_keys d)"

definition adminProviderKeyWithSecret :: "string \<Rightarrow> ('c way_db world, sqlerr + sync_key) act" where
  "adminProviderKeyWithSecret i = db_exec (readRow (syncKeyById i))"

definition byModelAndMetric :: "key_price list \<Rightarrow> key_price list" where
  "byModelAndMetric ps = sort_key (\<lambda>p. (kp_model p, kp_metric p)) ps"

definition keyPricesOf :: "string \<Rightarrow> 'c way_db \<Rightarrow> key_price list" where
  "keyPricesOf i d = map sx_price (filter (\<lambda>r. sx_key r = i) (stored_prices d))"

definition adminProviderKeyPriceList :: "string \<Rightarrow> ('c way_db world, sqlerr + key_price list) act" where
  "adminProviderKeyPriceList i = db_exec (reading (\<lambda>d. byModelAndMetric (keyPricesOf i d)))"

definition sameAdminProviderKey :: "provider_key_request \<Rightarrow> key_price list \<Rightarrow> sync_key \<Rightarrow> bool" where
  "sameAdminProviderKey b prices k \<longleftrightarrow>
     sk_provider k = kq_provider b \<and> sk_issuer k = kq_issuer b \<and> sk_subject k = kq_subject b \<and>
     sk_merchant k = kq_merchant b \<and> sk_name k = kq_name b \<and> sk_key k = kq_key b \<and> sk_status k = kq_status b \<and>
     samePrices prices (kq_prices b)"

text \<open>\<open>validateAdminProviderKeyModels\<close>; \<open>Raised\<close> is \<open>errUnavailableProviderModel\<close>.\<close>

definition activeModels :: "string \<Rightarrow> string \<Rightarrow> 'c way_db \<Rightarrow> nat" where
  "activeModels modelID providerID d =
     countRows (\<lambda>m. sd_id m = modelID \<and> sd_provider m = providerID \<and> sd_status m = ''active'') (sync_models d)"

fun validateModels :: "string list \<Rightarrow> string \<Rightarrow> key_price list \<Rightarrow> ('c way_db world, sqlerr + unit) act" where
  "validateModels seen providerID [] = ret (Inr ())"
| "validateModels seen providerID (p # ps) =
     (if kp_model p \<in> set seen then validateModels seen providerID ps
      else thenOk (tx_exec (reading (activeModels (kp_model p) providerID))) (\<lambda>n.
        if n \<noteq> 1 then ret (Inl Raised)
        else validateModels (kp_model p # seen) providerID ps))"

text \<open>The writes of a new key, shared with \<open>createProviderKey\<close>: \<open>body.Status\<close> there is active.\<close>

definition createKeyRows ::
  "'c config_api \<Rightarrow> provider_key_request \<Rightarrow> time \<Rightarrow> ('c way_db world, sqlerr + unit) act" where
  "createKeyRows api b t =
     thenOk (validateModels [] (kq_provider b) (kq_prices b)) (\<lambda>_.
     thenOk (createKeyInTransaction api \<lparr> kr_id = kq_id b, kr_provider = kq_provider b, kr_name = kq_name b,
        kr_api_key = kq_key b, kr_status = kq_status b, kr_weight = 1, kr_enabled = (kq_status b = ''active'') \<rparr>) (\<lambda>_.
     thenOk (tx_exec (insertKeyBilling \<lparr> kb_key = kq_id b, kb_issuer = kq_issuer b, kb_subject = kq_subject b,
        kb_merchant = kq_merchant b, kb_name = kq_name b, kb_last_used_at = None, kb_earned = 0,
        kb_status = kq_status b, kb_created_at = t, kb_updated_at = t \<rparr>)) (\<lambda>_.
     thenOk (iterOk (\<lambda>p. tx_exec (insertKeyPrice \<lparr> sx_key = kq_id b, sx_price = p \<rparr>)) (kq_prices b)) (\<lambda>_.
     tx_exec (insertSyncKey \<lparr> sk_id = kq_id b, sk_provider = kq_provider b, sk_key = kq_key b,
        sk_merchant = kq_merchant b, sk_issuer = kq_issuer b, sk_subject = kq_subject b, sk_name = kq_name b,
        sk_last_used_at = None, sk_earned = 0, sk_status = kq_status b, sk_prices = kq_prices b,
        sk_created_at = t, sk_updated_at = t \<rparr>)))))"

definition providerKeyAcceptable :: "provider_key_request \<Rightarrow> bool" where
  "providerKeyAcceptable b \<longleftrightarrow>
     nonBlankAll [kq_id b, kq_provider b, kq_issuer b, kq_subject b, kq_merchant b, kq_name b, kq_key b] \<and>
     oneOf (kq_status b) [''active'', ''disabled''] \<and> validatePrices (kq_prices b)"

definition createAdminProviderKey ::
  "'c config_api \<Rightarrow> provider_key_request option \<Rightarrow> ('c way_db world, response) act" where
  "createAdminProviderKey api body =
     (case body of
        None \<Rightarrow> reply invalid
      | Some b \<Rightarrow>
     bnd (require (providerKeyAcceptable b) invalid) (\<lambda>_.
     bnd (adminProviderKeyWithSecret (kq_id b)) (\<lambda>x. case x of
       Inr k \<Rightarrow>
         bnd (adminProviderKeyPriceList (kq_id b)) (\<lambda>ps. case ps of
           Inl e \<Rightarrow> reply adminConflict
         | Inr prices \<Rightarrow> if \<not> sameAdminProviderKey b prices k then reply adminConflict
                         else reply (writeJSON 200 (providerKeyJSON k)))
     | Inl e \<Rightarrow> if e \<noteq> NoRows then reply internal else
     bnd (orReplyWith (storesProvider api (kq_provider b)) dependencyOrInternal) (\<lambda>provider.
     bnd (require (pv_status provider = ''active'') adminDependencyNotFound) (\<lambda>_.
     bnd (gets now) (\<lambda>t.
     bnd (configTransaction (createKeyRows api b t)) (\<lambda>ins. case ins of
       Inl e1 \<Rightarrow>
         if e1 = Raised then reply adminDependencyNotFound
         else bnd (adminProviderKeyWithSecret (kq_id b)) (\<lambda>y. case y of
           Inl e2 \<Rightarrow> reply adminConflict
         | Inr k \<Rightarrow>
             bnd (adminProviderKeyPriceList (kq_id b)) (\<lambda>ps. case ps of
               Inl e3 \<Rightarrow> reply adminConflict
             | Inr prices \<Rightarrow> if sameAdminProviderKey b prices k then reply (writeJSON 200 (providerKeyJSON k))
                             else reply adminConflict))
     | Inr u \<Rightarrow> ret (writeJSON 201 (providerKeyJSON \<lparr> sk_id = kq_id b, sk_provider = kq_provider b,
          sk_key = kq_key b, sk_merchant = kq_merchant b, sk_issuer = kq_issuer b, sk_subject = kq_subject b,
          sk_name = kq_name b, sk_last_used_at = None, sk_earned = 0, sk_status = kq_status b,
          sk_prices = kq_prices b, sk_created_at = t, sk_updated_at = t \<rparr>)))))))))"

definition adminProviderKeys ::
  "'c config_api \<Rightarrow> httpMethod \<Rightarrow> provider_key_request option \<Rightarrow> ('c way_db world, response) act" where
  "adminProviderKeys api meth body =
     (if meth = GET
      then bnd (orReply (db_exec (reading (\<lambda>d. orderBy sk_created_at sk_id (sync_keys d)))) internal) (\<lambda>ks.
           ret (sliceJSON (map providerKeyJSON ks)))
      else createAdminProviderKey api body)"

definition setBillingKey :: "string \<Rightarrow> string \<Rightarrow> time \<Rightarrow> string \<Rightarrow> ('c way_db, unit) query" where
  "setBillingKey name stat t i d =
     (if list_ex (\<lambda>b. kb_key b = i) (key_billings d) \<and> \<not> (sqlText name \<and> stat \<in> {''active'', ''disabled''})
      then Inl CheckViolation
      else Inr ((), d\<lparr>key_billings := updateRows (\<lambda>b. kb_key b = i)
             (\<lambda>b. b\<lparr>kb_name := name, kb_status := stat, kb_updated_at := t\<rparr>) (key_billings d)\<rparr>))"

definition setSyncKey :: "string \<Rightarrow> string \<Rightarrow> time \<Rightarrow> string \<Rightarrow> ('c way_db, unit) query" where
  "setSyncKey name stat t i d = Inr ((), d\<lparr>sync_keys := updateRows (\<lambda>k. sk_id k = i)
     (\<lambda>k. k\<lparr>sk_name := name, sk_status := stat, sk_updated_at := t\<rparr>) (sync_keys d)\<rparr>)"

definition updateAdminProviderKey ::
  "'c config_api \<Rightarrow> sync_key \<Rightarrow> ('c way_db world, sqlerr + unit) act" where
  "updateAdminProviderKey api k =
     thenOk (storesKey api (sk_provider k) (sk_id k)) (\<lambda>record.
     configTransaction (
       thenOk (updateKeyInTransaction api (record\<lparr>kr_name := sk_name k, kr_status := sk_status k,
          kr_enabled := (sk_status k = ''active'')\<rparr>)) (\<lambda>_.
       thenOk (tx_exec (setBillingKey (sk_name k) (sk_status k) (sk_updated_at k) (sk_id k))) (\<lambda>_.
       tx_exec (setSyncKey (sk_name k) (sk_status k) (sk_updated_at k) (sk_id k))))))"

definition badKeyStatus :: "string option \<Rightarrow> bool" where
  "badKeyStatus stat \<longleftrightarrow> (case stat of None \<Rightarrow> False | Some s \<Rightarrow> \<not> oneOf s [''active'', ''disabled''])"

definition adminProviderKeyResource ::
  "'c config_api \<Rightarrow> httpMethod \<Rightarrow> (string option \<times> string option) option \<Rightarrow> string \<Rightarrow>
     ('c way_db world, response) act" where
  "adminProviderKeyResource api meth body i =
     bnd (orReplyWith (adminProviderKeyWithSecret i) notFoundOrInternal) (\<lambda>k.
     if meth = GET then ret (writeJSON 200 (providerKeyJSON k))
     else if meth = PATCH
     then (case body of
             None \<Rightarrow> reply invalid
           | Some (name, stat) \<Rightarrow>
          bnd (require (\<not> (name = None \<and> stat = None) \<and> \<not> blankName name \<and> \<not> badKeyStatus stat) invalid) (\<lambda>_.
          bnd (gets now) (\<lambda>t.
          let k' = k\<lparr>sk_name := orOld name (sk_name k), sk_status := orOld stat (sk_status k), sk_updated_at := t\<rparr> in
          bnd (orReply (updateAdminProviderKey api k') internal) (\<lambda>_. ret (writeJSON 200 (providerKeyJSON k'))))))
     else if meth = DELETE
     then if sk_status k \<noteq> ''disabled''
          then bnd (gets now) (\<lambda>t.
               bnd (orReply (updateAdminProviderKey api (k\<lparr>sk_status := ''disabled'', sk_updated_at := t\<rparr>)) internal) (\<lambda>_.
               ret (writeHeader 204)))
          else ret (writeHeader 204)
     else ret (writeHeader 200))"

definition setSyncSecret :: "string \<Rightarrow> time \<Rightarrow> string \<Rightarrow> ('c way_db, unit) query" where
  "setSyncSecret secret t i d = Inr ((), d\<lparr>sync_keys := updateRows (\<lambda>k. sk_id k = i)
     (\<lambda>k. k\<lparr>sk_key := secret, sk_updated_at := t\<rparr>) (sync_keys d)\<rparr>)"

definition adminProviderKeyRotateSecret ::
  "'c config_api \<Rightarrow> string option \<Rightarrow> string \<Rightarrow> ('c way_db world, response) act" where
  "adminProviderKeyRotateSecret api body i =
     bnd (orReplyWith (adminProviderKeyWithSecret i) notFoundOrInternal) (\<lambda>k.
     case body of
       None \<Rightarrow> reply invalid
     | Some secret \<Rightarrow>
     bnd (require (nonBlank secret) invalid) (\<lambda>_.
     bnd (orReply (storesKey api (sk_provider k) i) internal) (\<lambda>record.
     bnd (gets now) (\<lambda>t.
     bnd (orReply (configTransaction (
        thenOk (updateKeyInTransaction api (record\<lparr>kr_api_key := secret\<rparr>)) (\<lambda>_.
        tx_exec (setSyncSecret secret t i)))) internal) (\<lambda>_.
     ret (writeJSON 200 (providerKeyJSON (k\<lparr>sk_updated_at := t\<rparr>))))))))"

definition deleteKeyPrices :: "string \<Rightarrow> ('c way_db, unit) query" where
  "deleteKeyPrices i d = Inr ((), d\<lparr>stored_prices := filter (\<lambda>r. sx_key r \<noteq> i) (stored_prices d)\<rparr>)"

definition setSyncPrices :: "key_price list \<Rightarrow> time \<Rightarrow> string \<Rightarrow> ('c way_db, unit) query" where
  "setSyncPrices prices t i d = Inr ((), d\<lparr>sync_keys := updateRows (\<lambda>k. sk_id k = i)
     (\<lambda>k. k\<lparr>sk_prices := prices, sk_updated_at := t\<rparr>) (sync_keys d)\<rparr>)"

text \<open>The writes of new prices, shared with \<open>putProviderKeyPrices\<close>.\<close>

definition replaceKeyPrices ::
  "string \<Rightarrow> key_price list \<Rightarrow> response \<Rightarrow> ('c way_db world, response) act" where
  "replaceKeyPrices i prices r =
     bnd (orReply (tx_exec (deleteKeyPrices i)) internal) (\<lambda>_.
     bnd (orReply (iterOk (\<lambda>p. tx_exec (insertKeyPrice \<lparr> sx_key = i, sx_price = p \<rparr>)) prices) internal) (\<lambda>_.
     bnd (gets now) (\<lambda>t.
     bnd (orReply (tx_exec (setSyncPrices prices t i)) internal) (\<lambda>_.
     bnd (orReply (commit_tx (\<lambda>_ _. True)) internal) (\<lambda>_.
     ret r)))))"

definition requireModel :: "string \<Rightarrow> key_price \<Rightarrow> ('c way_db world, unit) act" where
  "requireModel providerID p =
     bnd (orReply (tx_exec (reading (activeModels (kp_model p) providerID))) internal) (\<lambda>n.
     require (n = 1) adminDependencyNotFound)"

definition adminPricesTransaction ::
  "sync_key \<Rightarrow> string \<Rightarrow> key_price list \<Rightarrow> ('c way_db world, response) act" where
  "adminPricesTransaction k i prices =
     bnd (orReply (tx_exec lockStatement) internal) (\<lambda>_.
     bnd (orReplyWith (tx_exec (readRow (syncKeyById i))) notFoundOrInternal) (\<lambda>_.
     bnd (mapA (requireModel (sk_provider k)) prices) (\<lambda>_.
     replaceKeyPrices i prices (writeJSON 200 (pricesJSON (map keyPriceJSON (byModelAndMetric prices)))))))"

definition adminProviderKeyPrices ::
  "httpMethod \<Rightarrow> key_price list option \<Rightarrow> string \<Rightarrow> ('c way_db world, response) act" where
  "adminProviderKeyPrices meth body i =
     bnd (orReplyWith (adminProviderKeyWithSecret i) notFoundOrInternal) (\<lambda>k.
     if meth = GET
     then bnd (orReply (adminProviderKeyPriceList i) internal) (\<lambda>ps.
          ret (writeJSON 200 (pricesJSON (map keyPriceJSON ps))))
     else (case body of
             None \<Rightarrow> reply invalid
           | Some prices \<Rightarrow>
          bnd (require (validatePrices prices) invalid) (\<lambda>_.
          bnd (orReply begin_tx internal) (\<lambda>_.
          finish_tx (adminPricesTransaction k i prices)))))"

subsection \<open>Routing\<close>

record way_admin_decoders =
  wd_provider :: "string \<Rightarrow> provider_request option"
  wd_provider_patch :: "string \<Rightarrow> provider_patch option"
  wd_model :: "string \<Rightarrow> sync_model option"
  wd_model_patch :: "string \<Rightarrow> model_patch option"
  wd_customer_prices :: "string \<Rightarrow> price_row list option"
  wd_listing :: "string \<Rightarrow> model_listing_request option"
  wd_listing_patch :: "string \<Rightarrow> model_listing_patch option"
  wd_provider_key :: "string \<Rightarrow> provider_key_request option"
  wd_provider_key_patch :: "string \<Rightarrow> (string option \<times> string option) option"
  wd_secret :: "string \<Rightarrow> string option"
  wd_key_prices :: "string \<Rightarrow> key_price list option"

definition serveWayAdmin ::
  "string \<Rightarrow> 'c config_api \<Rightarrow> (string \<Rightarrow> bool) \<Rightarrow> way_admin_decoders \<Rightarrow> http_request \<Rightarrow>
     ('c way_db world, response) act" where
  "serveWayAdmin adminKey api validURL dec r =
     (let path = rq_path r; meth = rq_method r; body = rq_body r in
      if adminKey = [] \<or> rq_header r ''X-GizWay-Admin-Key'' \<noteq> adminKey
      then reply (errorJSON 401 ''invalid_admin_key'' ''invalid Admin Key'')
      else if path = ''/admin/v1/providers'' then adminProviders api validURL meth (wd_provider dec body)
      else if hasPrefix path ''/admin/v1/providers/'' then
        adminProviderResource api validURL meth (wd_provider_patch dec body) (path_value r ''provider_id'')
      else if path = ''/admin/v1/models'' then adminModels api meth (wd_model dec body)
      else if hasSuffix path ''/customer-prices'' then
        adminModelCustomerPrices meth (wd_customer_prices dec body) (path_value r ''model_id'')
      else if hasPrefix path ''/admin/v1/models/'' then
        adminModelResource meth (wd_model_patch dec body) (path_value r ''model_id'')
      else if path = ''/admin/v1/model-listings'' then adminModelListings meth (wd_listing dec body)
      else if hasPrefix path ''/admin/v1/model-listings/'' then
        adminModelListingResource meth (wd_listing_patch dec body) (path_value r ''model_listing_id'')
      else if path = ''/admin/v1/provider-keys'' then adminProviderKeys api meth (wd_provider_key dec body)
      else if hasSuffix path ''/rotate-secret'' then
        adminProviderKeyRotateSecret api (wd_secret dec body) (path_value r ''provider_key_id'')
      else if hasSuffix path ''/prices'' then
        adminProviderKeyPrices meth (wd_key_prices dec body) (path_value r ''provider_key_id'')
      else if hasPrefix path ''/admin/v1/provider-keys/'' then
        adminProviderKeyResource api meth (wd_provider_key_patch dec body) (path_value r ''provider_key_id'')
      else reply notFound)"

end
