(* ===== verification/WayKeys.thy ===== *)
theory WayKeys
  imports WayAdmin
begin

section \<open>Provider keys of users, and the public endpoints\<close>

text \<open>
  \<open>createProviderKey\<close>, \<open>ownerMerchant\<close>, \<open>putProviderKeyPrices\<close>, \<open>disableProviderKey\<close>, the two
  \<open>/auth\<close> endpoints and the user surface of \<open>ServeHTTP\<close> in \<open>internal/gizway/handler.go\<close>. A user
  registers a key of a provider with its prices; earnings go to the user's default merchant.
\<close>

subsection \<open>The default merchant of a user\<close>

text \<open>
  What asking GizPay for the user's merchants gives: the request cannot be built, no answer, or a
  status with the decoded body (\<open>None\<close> when it does not decode), the ids with their \<open>is_default\<close>.
\<close>

datatype merchants_answer =
    BadMerchantsURL
  | Unreachable
  | MerchantsAnswer nat "(string \<times> bool) list option"

datatype merchant_error = GizPayUnavailable | DefaultMerchantViolation | OtherError

definition defaultMerchants :: "(string \<times> bool) list \<Rightarrow> string list" where
  "defaultMerchants ms = map fst (filter (\<lambda>(i, isDefault). isDefault \<and> nonBlank i) ms)"

definition ownerMerchant ::
  "(string \<Rightarrow> merchants_answer) \<Rightarrow> string \<Rightarrow> principal \<Rightarrow> ('c way_db world, merchant_error + string) act" where
  "ownerMerchant gizpay authorization p =
     bnd (db_exec (readRow (\<lambda>d. map_option um_merchant
       (find (\<lambda>m. um_issuer m = pr_issuer p \<and> um_subject m = pr_subject p) (user_merchants d))))) (\<lambda>x. case x of
       Inr m \<Rightarrow> ret (Inr m)
     | Inl e \<Rightarrow> if e \<noteq> NoRows then ret (Inl OtherError) else
     case gizpay authorization of
       BadMerchantsURL \<Rightarrow> ret (Inl OtherError)
     | Unreachable \<Rightarrow> ret (Inl GizPayUnavailable)
     | MerchantsAnswer st body \<Rightarrow>
         if 500 \<le> st then ret (Inl GizPayUnavailable)
         else if st \<noteq> 200 then ret (Inl DefaultMerchantViolation)
         else case body of
           None \<Rightarrow> ret (Inl DefaultMerchantViolation)
         | Some ms \<Rightarrow>
             let defaults = defaultMerchants ms in
             if length defaults \<noteq> 1 then ret (Inl DefaultMerchantViolation)
             else bnd (db_exec (insertUserMerchant \<lparr> um_issuer = pr_issuer p, um_subject = pr_subject p,
                    um_merchant = defaults ! 0 \<rparr>)) (\<lambda>ins. case ins of
               Inl e1 \<Rightarrow> ret (Inl OtherError)
             | Inr u \<Rightarrow> ret (Inr (defaults ! 0))))"

definition ownerMerchantError :: "merchant_error \<Rightarrow> response" where
  "ownerMerchantError e = (case e of
     GizPayUnavailable \<Rightarrow> errorJSON 503 ''gizpay_unavailable'' ''GizPay is unavailable''
   | DefaultMerchantViolation \<Rightarrow>
       errorJSON 500 ''default_merchant_invariant_violation'' ''default Merchant invariant violated''
   | OtherError \<Rightarrow> internal)"

subsection \<open>\<open>createProviderKey\<close>\<close>

record user_key_request =
  uk_id :: string
  uk_name :: string
  uk_key :: string
  uk_status :: string
  uk_prices :: "key_price list"

definition userKeyAcceptable :: "string \<Rightarrow> user_key_request \<Rightarrow> bool" where
  "userKeyAcceptable providerID b \<longleftrightarrow>
     nonBlank (uk_id b) \<and> nonBlank (uk_name b) \<and> nonBlank providerID \<and> nonBlank (uk_key b) \<and>
     uk_status b = ''active'' \<and> validatePrices (uk_prices b)"

definition sameUserKey :: "string \<Rightarrow> principal \<Rightarrow> user_key_request \<Rightarrow> sync_key \<Rightarrow> bool" where
  "sameUserKey providerID p b k \<longleftrightarrow>
     sk_provider k = providerID \<and> sk_key k = uk_key b \<and> sk_name k = uk_name b \<and> sk_status k = uk_status b \<and>
     sk_issuer k = pr_issuer p \<and> sk_subject k = pr_subject p \<and> samePrices (sk_prices k) (uk_prices b)"

definition userKeyJSON :: "string \<Rightarrow> user_key_request \<Rightarrow> string \<Rightarrow> json" where
  "userKeyJSON providerID b merchantID = JObj
     [(''provider_key_id'', JStr (uk_id b)), (''provider_id'', JStr providerID), (''name'', JStr (uk_name b)),
      (''key'', JStr (uk_key b)), (''merchant_id'', JStr merchantID), (''status'', JStr (uk_status b)),
      (''prices'', JArr (map keyPriceJSON (uk_prices b)))]"

definition keyConflict :: response where
  "keyConflict = errorJSON 409 ''resource_id_conflict'' ''Provider Key ID already exists with different content''"

definition existingUserKey ::
  "string \<Rightarrow> principal \<Rightarrow> user_key_request \<Rightarrow> sync_key \<Rightarrow> response" where
  "existingUserKey providerID p b k =
     (if \<not> sameUserKey providerID p b k then keyConflict
      else writeJSON 200 (userKeyJSON providerID b (sk_merchant k)))"

definition keyRequestOf :: "string \<Rightarrow> principal \<Rightarrow> string \<Rightarrow> user_key_request \<Rightarrow> provider_key_request" where
  "keyRequestOf providerID p merchantID b =
     \<lparr> kq_id = uk_id b, kq_provider = providerID, kq_issuer = pr_issuer p, kq_subject = pr_subject p,
       kq_merchant = merchantID, kq_name = uk_name b, kq_key = uk_key b, kq_status = ''active'',
       kq_prices = uk_prices b \<rparr>"

definition writeProviderKeyCreationError :: "sqlerr \<Rightarrow> response" where
  "writeProviderKeyCreationError e = (if e = Raised then invalid else internal)"

definition createProviderKey ::
  "'c config_api \<Rightarrow> (string \<Rightarrow> merchants_answer) \<Rightarrow> string \<Rightarrow> user_key_request option \<Rightarrow> string \<Rightarrow>
     principal \<Rightarrow> ('c way_db world, response) act" where
  "createProviderKey api gizpay authorization body providerID p =
     (case body of
        None \<Rightarrow> reply invalid
      | Some b \<Rightarrow>
     bnd (require (userKeyAcceptable providerID b) invalid) (\<lambda>_.
     bnd (orReplyWith (storesProvider api providerID) notFoundOrInternal) (\<lambda>provider.
     bnd (require (pv_status provider = ''active'') notFound) (\<lambda>_.
     bnd (adminProviderKeyWithSecret (uk_id b)) (\<lambda>x. case x of
       Inr k \<Rightarrow> reply (existingUserKey providerID p b k)
     | Inl e \<Rightarrow> if e \<noteq> NoRows then reply internal else
     bnd (ownerMerchant gizpay authorization p) (\<lambda>om. case om of
       Inl me \<Rightarrow> reply (ownerMerchantError me)
     | Inr merchantID \<Rightarrow>
     bnd (gets now) (\<lambda>t.
     bnd (configTransaction (createKeyRows api (keyRequestOf providerID p merchantID b) t)) (\<lambda>ins. case ins of
       Inl e1 \<Rightarrow>
         bnd (adminProviderKeyWithSecret (uk_id b)) (\<lambda>y. case y of
           Inr k \<Rightarrow> reply (existingUserKey providerID p b k)
         | Inl e2 \<Rightarrow> reply (writeProviderKeyCreationError e1))
     | Inr u \<Rightarrow> ret (writeJSON 201 (userKeyJSON providerID b merchantID))))))))))"

subsection \<open>Prices and disabling\<close>

text \<open>The key with its billing row, both of the owner \<open>p\<close>.\<close>

definition ownedKey :: "string \<Rightarrow> principal \<Rightarrow> 'c way_db \<Rightarrow> (key_billing \<times> sync_key) option" where
  "ownedKey i p d =
     (case find (\<lambda>b. kb_key b = i \<and> kb_issuer b = pr_issuer p \<and> kb_subject b = pr_subject p) (key_billings d) of
        None \<Rightarrow> None
      | Some b \<Rightarrow> map_option (Pair b) (syncKeyById i d))"

text \<open>The check of the models here answers 400, and is skipped for a model seen before.\<close>

fun requireModels :: "string list \<Rightarrow> string \<Rightarrow> key_price list \<Rightarrow> ('c way_db world, unit) act" where
  "requireModels seen providerID [] = ret ()"
| "requireModels seen providerID (p # ps) =
     (if kp_model p \<in> set seen then requireModels seen providerID ps
      else bnd (orReply (tx_exec (reading (activeModels (kp_model p) providerID))) internal) (\<lambda>n.
           bnd (require (n = 1) invalid) (\<lambda>_.
           requireModels (kp_model p # seen) providerID ps)))"

definition userPricesTransaction ::
  "string \<Rightarrow> principal \<Rightarrow> key_price list \<Rightarrow> ('c way_db world, response) act" where
  "userPricesTransaction i p prices =
     bnd (orReplyWith (tx_exec (readRow (ownedKey i p))) notFoundOrInternal) (\<lambda>(b, k).
     bnd (requireModels [] (sk_provider k) prices) (\<lambda>_.
     replaceKeyPrices i prices (writeJSON 200 (JObj [(''prices'', JArr (map keyPriceJSON prices))]))))"

definition putProviderKeyPrices ::
  "key_price list option \<Rightarrow> string \<Rightarrow> principal \<Rightarrow> ('c way_db world, response) act" where
  "putProviderKeyPrices body i p =
     (case body of
        None \<Rightarrow> reply invalid
      | Some prices \<Rightarrow>
     bnd (require (validatePrices prices) invalid) (\<lambda>_.
     bnd (orReply begin_tx internal) (\<lambda>_.
     finish_tx (userPricesTransaction i p prices))))"

definition disableBilling :: "time \<Rightarrow> string \<Rightarrow> ('c way_db, unit) query" where
  "disableBilling t i d = Inr ((), d\<lparr>key_billings := updateRows (\<lambda>b. kb_key b = i)
     (\<lambda>b. b\<lparr>kb_status := ''disabled'', kb_updated_at := t\<rparr>) (key_billings d)\<rparr>)"

definition disableSyncKey :: "time \<Rightarrow> string \<Rightarrow> ('c way_db, unit) query" where
  "disableSyncKey t i d = Inr ((), d\<lparr>sync_keys := updateRows (\<lambda>k. sk_id k = i)
     (\<lambda>k. k\<lparr>sk_status := ''disabled'', sk_updated_at := t\<rparr>) (sync_keys d)\<rparr>)"

definition disableProviderKey ::
  "'c config_api \<Rightarrow> string \<Rightarrow> principal \<Rightarrow> ('c way_db world, response) act" where
  "disableProviderKey api i p =
     bnd (orReplyWith (db_exec (readRow (ownedKey i p))) notFoundOrInternal) (\<lambda>(b, k).
     bnd (orReplyWith (storesKey api (sk_provider k) i) notFoundOrInternal) (\<lambda>key.
     bnd (orReply (configTransaction (
        thenOk (updateKeyInTransaction api (key\<lparr>kr_enabled := False, kr_status := ''disabled''\<rparr>)) (\<lambda>_.
        bnd (gets now) (\<lambda>t.
        thenOk (tx_exec (disableBilling t i)) (\<lambda>_.
        bnd (gets now) (\<lambda>u.
        tx_exec (disableSyncKey u i))))))) internal) (\<lambda>_.
     ret (writeJSON 200 (JObj [(''provider_key_id'', JStr i), (''provider_id'', JStr (sk_provider k)),
        (''key'', JStr (sk_key k)), (''merchant_id'', JStr (kb_merchant b)), (''status'', JStr ''disabled'')])))))"

subsection \<open>The public endpoints\<close>

record catalog_token =
  ct_access :: string
  ct_type :: string
  ct_expires :: time

text \<open>\<open>source\<close> is \<open>None\<close> when no token source is configured, \<open>Some None\<close> when it fails.\<close>

definition publicCatalogToken :: "catalog_token option option \<Rightarrow> ('s world, response) act" where
  "publicCatalogToken source =
     (let unavailable = errorJSON 503 ''public_catalog_token_unavailable'' ''Public Catalog token is unavailable'' in
      case source of
        None \<Rightarrow> reply unavailable
      | Some fetched \<Rightarrow>
          bnd (gets now) (\<lambda>t.
          case fetched of
            None \<Rightarrow> reply unavailable
          | Some token \<Rightarrow>
              if ct_access token = [] \<or> ct_type token \<noteq> ''Bearer'' \<or> \<not> t < ct_expires token then reply unavailable
              else ret (writeJSON 200 (JObj [(''access_token'', JStr (ct_access token)),
                     (''token_type'', JStr (ct_type token)), (''expires_at'', JTime (ct_expires token))]))))"

text \<open>The configured document, \<open>None\<close> when it is empty or not JSON.\<close>

definition publicRuntimeConfig :: "json option \<Rightarrow> ('s, response) act" where
  "publicRuntimeConfig cfg =
     (case cfg of
        None \<Rightarrow> reply (errorJSON 503 ''runtime_config_unavailable'' ''Public runtime configuration is unavailable'')
      | Some v \<Rightarrow> ret (writeJSON 200 v))"

subsection \<open>The user surface\<close>

datatype auth_error = InvalidIssuer | InvalidAudience | OtherAuthError

record way_user_deps =
  wu_authenticate :: "http_request \<Rightarrow> auth_error + principal"
  wu_gizpay :: "string \<Rightarrow> merchants_answer"
  wu_key :: "string \<Rightarrow> user_key_request option"
  wu_prices :: "string \<Rightarrow> key_price list option"

definition authErrorJSON :: "auth_error \<Rightarrow> response" where
  "authErrorJSON e = (case e of
     InvalidIssuer \<Rightarrow> errorJSON 401 ''invalid_token_issuer'' ''invalid token issuer''
   | InvalidAudience \<Rightarrow> errorJSON 401 ''invalid_token_audience'' ''invalid token audience''
   | OtherAuthError \<Rightarrow> errorJSON 401 ''invalid_bearer_token'' ''invalid bearer token'')"

definition serveUser ::
  "'c config_api \<Rightarrow> way_user_deps \<Rightarrow> http_request \<Rightarrow> ('c way_db world, response) act" where
  "serveUser api env r =
     (case wu_authenticate env r of
        Inl e \<Rightarrow> reply (authErrorJSON e)
      | Inr p \<Rightarrow>
          let path = rq_path r; meth = rq_method r in
          if meth = POST \<and> hasPrefix path ''/user/v1/providers/'' \<and> hasSuffix path ''/keys'' then
            createProviderKey api (wu_gizpay env) (rq_header r ''Authorization'') (wu_key env (rq_body r))
              (trimSuffix (trimPrefix path ''/user/v1/providers/'') ''/keys'') p
          else if meth = PUT \<and> hasPrefix path ''/user/v1/provider-keys/'' \<and> hasSuffix path ''/prices'' then
            putProviderKeyPrices (wu_prices env (rq_body r))
              (trimSuffix (trimPrefix path ''/user/v1/provider-keys/'') ''/prices'') p
          else if meth = POST \<and> hasPrefix path ''/user/v1/provider-keys/'' \<and> hasSuffix path ''/disable'' then
            disableProviderKey api (trimSuffix (trimPrefix path ''/user/v1/provider-keys/'') ''/disable'') p
          else reply notFound)"

text \<open>\<open>ServeHTTP\<close>; \<open>protocol\<close> is the AI surface.\<close>

definition serveWay ::
  "string \<Rightarrow> 'c config_api \<Rightarrow> (string \<Rightarrow> bool) \<Rightarrow> way_admin_decoders \<Rightarrow> way_user_deps \<Rightarrow>
     catalog_token option option \<Rightarrow> json option \<Rightarrow>
     (http_request \<Rightarrow> ('c way_db world, response) act) \<Rightarrow> http_request \<Rightarrow> ('c way_db world, response) act" where
  "serveWay adminKey api validURL dec env source cfg protocol r =
     (if hasPrefix (rq_path r) ''/admin/v1/'' then serveWayAdmin adminKey api validURL dec r
      else if rq_method r = GET \<and> rq_path r = ''/auth/catalog-token'' then publicCatalogToken source
      else if rq_method r = GET \<and> rq_path r = ''/auth/runtime-config'' then publicRuntimeConfig cfg
      else if \<not> hasPrefix (rq_path r) ''/user/'' then protocol r
      else serveUser api env r)"

end
