(* ===== verification/WaySync.thy ===== *)
theory WaySync
  imports WayKeys WayComplete WayReport
begin

section \<open>The projection of provider keys\<close>

text \<open>
  \<open>client_sync.provider_keys\<close> repeats for clients what \<open>provider_key_billing\<close> and
  \<open>provider_key_prices\<close> hold. Nine handlers and two workers write both sides; the invariant
  \<open>projected\<close> says that they never drift apart.
\<close>

subsection \<open>Evolutions of a region's database\<close>

text \<open>The Config Store's transactions only read, or run the given operation.\<close>

locale region_evolution = evolution R for R :: "'c way_db \<Rightarrow> 'c way_db \<Rightarrow> bool"
begin

lemma keeps_configTransaction:
  assumes "txKeeps R m"
  shows "keeps R (configTransaction m)"
proof -
  have eq: "configTransaction m = inTransaction (thenOk (tx_exec lockStatement) (\<lambda>_. thenOk m (\<lambda>a.
      thenOk (commit_tx (\<lambda>_ _. True)) (\<lambda>_. ret (Inr a)))))"
    by (simp add: configTransaction_def inTransaction_def)
  show ?thesis unfolding eq lockStatement_def by (rule assms keepsI evolvesI)+
qed

lemma keeps_storesReads [keepsI]:
  "keeps R (storesProvider api i)" "keeps R (storesProviders api)" "keeps R (storesKey api i j)"
  "keeps R (storesKeys api i)"
  unfolding storesProvider_def storesProviders_def storesKey_def storesKeys_def readConfig_def
  by (intro keeps_configTransaction keepsI evolvesI)+

end

subsection \<open>The invariant\<close>

type_synonym key_view = "string \<times> string \<times> string \<times> string \<times> string \<times> time option \<times> int \<times> string \<times> time"

definition billingView :: "key_billing \<Rightarrow> key_view" where
  "billingView b = (kb_key b, kb_issuer b, kb_subject b, kb_merchant b, kb_name b, kb_last_used_at b, kb_earned b,
     kb_status b, kb_created_at b)"

definition syncView :: "sync_key \<Rightarrow> key_view" where
  "syncView k = (sk_id k, sk_issuer k, sk_subject k, sk_merchant k, sk_name k, sk_last_used_at k, sk_earned k,
     sk_status k, sk_created_at k)"

definition projected :: "'c way_db \<Rightarrow> bool" where
  "projected d \<longleftrightarrow>
     map syncView (sync_keys d) = map billingView (key_billings d) \<and>
     distinct (map kb_key (key_billings d)) \<and>
     (\<forall>r \<in> set (stored_prices d). 0 < kp_unit (sx_price r)) \<and>
     (\<forall>r \<in> set (stored_prices d). \<exists>b \<in> set (key_billings d). kb_key b = sx_key r) \<and>
     (\<forall>k \<in> set (sync_keys d). sk_prices k = keyPricesOf (sk_id k) d)"

definition projects :: "'c way_db \<Rightarrow> 'c way_db \<Rightarrow> bool" where
  "projects d d' \<longleftrightarrow> (projected d \<longrightarrow> projected d')"

interpretation projection: region_evolution projects
  by unfold_locales (auto simp: projects_def)

lemma projected_cong:
  assumes "sync_keys d' = sync_keys d" and "key_billings d' = key_billings d" and "stored_prices d' = stored_prices d"
  shows "projected d' = projected d"
  using assms by (simp add: projected_def keyPricesOf_def)

lemma evolves_projects_same:
  assumes "\<And>d a d'. q d = Inr (a, d') \<Longrightarrow> sync_keys d' = sync_keys d \<and> key_billings d' = key_billings d \<and>
    stored_prices d' = stored_prices d"
  shows "evolves projects q"
  using assms by (auto simp: evolves_def projects_def dest: projected_cong)

lemma evolves_projects_statements [evolvesI]:
  "evolves projects (insertUserMerchant r1)" "evolves projects (insertCustomerPrice r2)"
  "evolves projects (insertOrder r3)" "evolves projects (insertOutbox r4)"
  "evolves projects (insertModelListing r5)" "evolves projects (insertSyncModel r6)"
  "evolves projects (insertSyncProvider r7)" "evolves projects (insertUsage r8)"
  "evolves projects lockStatement" "evolves projects (readConfig f)" "evolves projects (writeConfig g)"
  "evolves projects (setSyncProvider p)" "evolves projects (setModel m i)" "evolves projects (disableModel i)"
  "evolves projects (deleteCustomerPrices i)" "evolves projects (setModelListing l i)"
  "evolves projects (disableModelListing t i)"
  by (rule evolves_projects_same; auto simp: insertUserMerchant_def insertCustomerPrice_def insertOrder_def
      insertOutbox_def insertModelListing_def insertSyncModel_def insertSyncProvider_def insertUsage_def
      lockStatement_def readConfig_def writeConfig_def setSyncProvider_def setModel_def disableModel_def
      deleteCustomerPrices_def setModelListing_def disableModelListing_def reading_def readRow_def
      split: sum.splits option.splits if_splits)+

lemma evolves_projects_outbox [evolvesI]:
  "evolves projects (updateOutbox P f)" "evolves projects (markSending t i)" "evolves projects (setPending b t i)"
  "evolves projects (setReported t i j)" "evolves projects (abandonOld t u)" "evolves projects (recoverSending t)"
  "evolves projects (conflictOrder t i j)" "evolves projects (setCharged i)"
  by (rule evolves_projects_same; auto simp: updateOutbox_def markSending_def setPending_def setReported_def
      abandonOld_def recoverSending_def conflictOrder_def setCharged_def Let_def)+

subsection \<open>Both sides of a key changed together\<close>

lemma projected_views: "projected d \<Longrightarrow> map sk_id (sync_keys d) = map kb_key (key_billings d)"
proof -
  assume "projected d"
  then have "map fst (map syncView (sync_keys d)) = map fst (map billingView (key_billings d))"
    by (simp add: projected_def)
  then show ?thesis by (simp add: syncView_def billingView_def o_def)
qed

lemma projected_pair:
  assumes ok: "projected d" and bs: "key_billings d' = updateRows (\<lambda>b. kb_key b = i) f (key_billings d)"
    and ks: "sync_keys d' = updateRows (\<lambda>k. sk_id k = i) g (sync_keys d)" and st: "stored_prices d' = stored_prices d"
    and f: "\<And>b. kb_key (f b) = kb_key b" and g: "\<And>k. sk_id (g k) = sk_id k" "\<And>k. sk_prices (g k) = sk_prices k"
    and views: "\<And>b k. billingView b = syncView k \<Longrightarrow> billingView (f b) = syncView (g k)"
  shows "projected d'"
proof -
  have "map syncView (updateRows (\<lambda>k. sk_id k = i) g ks) = map billingView (updateRows (\<lambda>b. kb_key b = i) f bs)"
    if "map syncView ks = map billingView bs" for ks bs
    using that
  proof (induction ks arbitrary: bs)
    case (Cons k ks)
    then obtain b bs' where bs: "bs = b # bs'" "syncView k = billingView b" "map syncView ks = map billingView bs'"
      by (cases bs) auto
    then have "kb_key b = sk_id k" by (simp add: syncView_def billingView_def)
    with bs views [of b k] Cons.IH [OF bs(3)] show ?case by (simp add: updateRows_def)
  qed (simp add: updateRows_def)
  then have 1: "map syncView (sync_keys d') = map billingView (key_billings d')"
    using ok by (simp add: bs ks projected_def)
  have keys: "map kb_key (key_billings d') = map kb_key (key_billings d)"
    by (simp add: bs f map_updateRows)
  then have ids: "kb_key ` set (key_billings d') = kb_key ` set (key_billings d)"
    by (metis list.set_map)
  have ex: "(\<exists>b \<in> set bs. kb_key b = x) \<longleftrightarrow> x \<in> kb_key ` set bs" for bs x by auto
  have 2: "\<forall>r \<in> set (stored_prices d'). \<exists>b \<in> set (key_billings d'). kb_key b = sx_key r"
    using ok unfolding projected_def ex st ids by blast
  have 3: "\<forall>k \<in> set (sync_keys d'). sk_prices k = keyPricesOf (sk_id k) d'"
    using ok by (auto simp: ks st g projected_def updateRows_def keyPricesOf_def)
  from 1 2 3 keys ok show ?thesis by (simp add: projected_def st)
qed

lemma wlp_pair:
  fixes p :: "('c way_db, unit) query" and q :: "('c way_db, 'b) query"
  assumes "\<And>u v d1 d2. p d = Inr (u, d1) \<Longrightarrow> q d1 = Inr (v, d2) \<Longrightarrow> projects d d2"
  shows "wlp (thenOk (tx_exec p) (\<lambda>_. tx_exec q)) (onOk (\<lambda>_ c' k'. \<exists>d'. k' = Some d' \<and> projects d d')) c (Some d)"
  by (rule wlp_thenOk, rule wlp_tx_exec_ok, rule wlp_tx_exec_ok) (drule assms, assumption, blast)

subsection \<open>A new key\<close>

lemma wlp_validateModels [wlpI]:
  "Q () c (Some d) \<Longrightarrow> wlp (validateModels seen i ps) (onOk Q) c (Some d)"
  by (induction seen i ps rule: validateModels.induct)
     (auto intro!: wlpI simp: reading_Inr)

lemma tx_local_validateModels [tx_localI]: "tx_local (validateModels seen i ps)"
  by (induction seen i ps rule: validateModels.induct) (auto intro!: tx_localI)

lemma replies_validateModels [repliesI]: "replies P (validateModels seen i ps)"
  by (induction seen i ps rule: validateModels.induct) (auto intro!: repliesI)

lemma insertKeyPrice_Inr:
  "insertKeyPrice r d = Inr (u, d') \<Longrightarrow> list_ex (\<lambda>b. kb_key b = sx_key r) (key_billings d) \<and>
     0 < kp_unit (sx_price r) \<and> d' = d\<lparr>stored_prices := stored_prices d @ [r]\<rparr>"
  by (auto simp: insertKeyPrice_def insertRow_Inr split: sum.splits)

lemma wlp_insertKeyPrices [wlpI]:
  assumes "(ps \<noteq> [] \<Longrightarrow> list_ex (\<lambda>b. kb_key b = i) (key_billings d)) \<Longrightarrow> \<forall>p \<in> set ps. 0 < kp_unit p \<Longrightarrow>
    Q () c (Some (d\<lparr>stored_prices := stored_prices d @ map (\<lambda>p. \<lparr> sx_key = i, sx_price = p \<rparr>) ps\<rparr>))"
  shows "wlp (iterOk (\<lambda>p. tx_exec (insertKeyPrice \<lparr> sx_key = i, sx_price = p \<rparr>)) ps) (onOk Q) c (Some d)"
  using assms
proof (induction ps arbitrary: d)
  case (Cons p ps)
  show ?case unfolding iterOk.simps
  proof (intro wlp_thenOk wlp_tx_exec_ok)
    fix u d' assume "insertKeyPrice \<lparr> sx_key = i, sx_price = p \<rparr> d = Inr (u, d')"
    from insertKeyPrice_Inr [OF this]
    have d': "d' = d\<lparr>stored_prices := stored_prices d @ [\<lparr> sx_key = i, sx_price = p \<rparr>]\<rparr>"
      and ex: "list_ex (\<lambda>b. kb_key b = i) (key_billings d)" "0 < kp_unit p" by simp_all
    show "wlp (iterOk (\<lambda>p. tx_exec (insertKeyPrice \<lparr> sx_key = i, sx_price = p \<rparr>)) ps) (onOk Q) c (Some d')"
      by (rule Cons.IH) (use Cons.prems ex in \<open>simp add: d'\<close>)
  qed
qed (auto intro!: wlpI)

lemma filter_priced [simp]:
  "filter (\<lambda>r. sx_key r = i) (map (\<lambda>p. \<lparr> sx_key = j, sx_price = p \<rparr>) ps) =
     (if i = j then map (\<lambda>p. \<lparr> sx_key = j, sx_price = p \<rparr>) ps else [])"
  by (induction ps) auto

lemma insertKeyBilling_Inr:
  "insertKeyBilling r d = Inr (u, d') \<Longrightarrow> kb_key r \<notin> kb_key ` set (key_billings d) \<and>
     d' = d\<lparr>key_billings := key_billings d @ [r]\<rparr>"
  by (auto simp: insertKeyBilling_def insertRow_Inr split: sum.splits)

lemma insertSyncKey_Inr:
  "insertSyncKey r d = Inr (u, d') \<Longrightarrow> d' = d\<lparr>sync_keys := sync_keys d @ [r]\<rparr>"
  by (auto simp: insertSyncKey_def insertRow_Inr split: sum.splits)

lemma writeConfig_Inr: "writeConfig f d = Inr (u, d') \<Longrightarrow> \<exists>c. d' = d\<lparr>config_state := c\<rparr>"
  by (auto simp: writeConfig_def split: option.splits)

lemma wlp_createKeyRows:
  "wlp (createKeyRows api b t) (onOk (\<lambda>_ c' k'. \<exists>d'. k' = Some d' \<and> projects d d')) c (Some d)"
  unfolding createKeyRows_def createKeyInTransaction_def
proof (intro wlpI, goal_cases)
  case (1 u d1 v d2 w d3)
  obtain cs where d1: "d1 = d\<lparr>config_state := cs\<rparr>" using writeConfig_Inr [OF 1(1)] by blast
  note b = insertKeyBilling_Inr [OF 1(2)] and k = insertSyncKey_Inr [OF 1(5)]
  have "projected d3" if ok: "projected d"
  proof -
    have new: "kq_id b \<notin> kb_key ` set (key_billings d)" using b d1 by simp
    have none: "sx_key r \<noteq> kq_id b" if "r \<in> set (stored_prices d)" for r
      using ok new that unfolding projected_def by (metis imageI)
    have ids: "sk_id x \<noteq> kq_id b" if "x \<in> set (sync_keys d)" for x
      using projected_views [OF ok] new that by (metis image_eqI list.set_map)
    have "filter (\<lambda>r. sx_key r = kq_id b) (stored_prices d) = []" using none by (auto simp: filter_empty_conv)
    with ok ids b k d1 new 1(4) show ?thesis
      by (auto simp: projected_def keyPricesOf_def billingView_def syncView_def o_def)
  qed
  then show ?case by (simp add: projects_def)
qed

subsection \<open>New prices and the other pairs\<close>

lemma projected_reprice:
  assumes ok: "projected d" and st: "stored_prices d' = filter (\<lambda>r. sx_key r \<noteq> i) (stored_prices d) @
      map (\<lambda>p. \<lparr> sx_key = i, sx_price = p \<rparr>) ps"
    and fk: "ps \<noteq> [] \<Longrightarrow> list_ex (\<lambda>b. kb_key b = i) (key_billings d)" and unit: "\<forall>p \<in> set ps. 0 < kp_unit p"
    and bs: "key_billings d' = key_billings d"
    and ks: "sync_keys d' = updateRows (\<lambda>k. sk_id k = i) (\<lambda>k. k\<lparr>sk_prices := ps, sk_updated_at := t\<rparr>) (sync_keys d)"
  shows "projected d'"
proof -
  have "map syncView (sync_keys d') = map syncView (sync_keys d)"
    by (simp add: ks map_updateRows syncView_def)
  moreover have "keyPricesOf j d' = (if j = i then ps else keyPricesOf j d)" for j
  proof (cases "j = i")
    case False
    then show ?thesis
      by (simp add: keyPricesOf_def st) (intro arg_cong [of _ _ "map sx_price"] filter_cong, auto)
  qed (simp add: keyPricesOf_def st o_def)
  moreover have "\<exists>b \<in> set (key_billings d). kb_key b = sx_key r" if "r \<in> set (stored_prices d')" for r
    using that ok fk by (fastforce simp: st projected_def list_ex_iff)
  moreover have "sk_prices k = keyPricesOf (sk_id k) d'" if "k \<in> set (sync_keys d')" for k
    using that ok calculation(2) by (auto simp: ks updateRows_def projected_def split: if_splits)
  moreover have "\<forall>r \<in> set (stored_prices d'). 0 < kp_unit (sx_price r)"
    using ok unit by (auto simp: st projected_def)
  ultimately show ?thesis using ok bs by (simp add: projected_def)
qed

lemma wlp_replaceKeyPrices [wlpI]:
  assumes "\<And>d'. projects d d' \<Longrightarrow> Q r d' None"
  shows "wlp (replaceKeyPrices i ps r) Q c (Some d)"
  unfolding replaceKeyPrices_def
proof (intro wlpI, goal_cases)
  case (1 u d1 t v d2)
  from 1(1) have d1: "d1 = d\<lparr>stored_prices := filter (\<lambda>r. sx_key r \<noteq> i) (stored_prices d)\<rparr>"
    by (simp add: deleteKeyPrices_def)
  have "projects d d2" unfolding projects_def
    by (rule impI, rule projected_reprice [of d d2 i ps t]) (use 1 in \<open>auto simp: d1 setSyncPrices_def\<close>)
  then show ?case by (rule assms)
qed

lemma projects_setKey:
  "setBillingKey n s t i d = Inr (u, d1) \<Longrightarrow> setSyncKey n s t i d1 = Inr (v, d2) \<Longrightarrow> projects d d2"
  unfolding projects_def
  by (rule impI, rule projected_pair [where d = d and d' = d2 and i = i and
        f = "\<lambda>b. b\<lparr>kb_name := n, kb_status := s, kb_updated_at := t\<rparr>" and
        g = "\<lambda>k. k\<lparr>sk_name := n, sk_status := s, sk_updated_at := t\<rparr>"])
     (auto simp: setBillingKey_def setSyncKey_def billingView_def syncView_def split: if_splits)

lemma projects_disable:
  "disableBilling t i d = Inr (u, d1) \<Longrightarrow> disableSyncKey t' i d1 = Inr (v, d2) \<Longrightarrow> projects d d2"
  unfolding projects_def
  by (rule impI, rule projected_pair [where d = d and d' = d2 and i = i and
        f = "\<lambda>b. b\<lparr>kb_status := ''disabled'', kb_updated_at := t\<rparr>" and
        g = "\<lambda>k. k\<lparr>sk_status := ''disabled'', sk_updated_at := t'\<rparr>"])
     (auto simp: disableBilling_def disableSyncKey_def billingView_def syncView_def split: if_splits)

lemma projects_earned:
  "addBillingEarned x t i d = Inr (u, d1) \<Longrightarrow> addSyncEarned x t i d1 = Inr (v, d2) \<Longrightarrow> projects d d2"
  unfolding projects_def
  by (rule impI, rule projected_pair [where d = d and d' = d2 and i = i and
        f = "\<lambda>b. b\<lparr>kb_earned := kb_earned b + x, kb_updated_at := t\<rparr>" and
        g = "\<lambda>k. k\<lparr>sk_earned := sk_earned k + x, sk_updated_at := t\<rparr>"])
     (auto simp: addBillingEarned_def addSyncEarned_def billingView_def syncView_def split: if_splits)

lemma projects_touch:
  "touchBilling t i d = Inr (u, d1) \<Longrightarrow> touchSyncKey t i d1 = Inr (v, d2) \<Longrightarrow> projects d d2"
  unfolding projects_def
  by (rule impI, rule projected_pair [where d = d and d' = d2 and i = i and
        f = "\<lambda>b. b\<lparr>kb_last_used_at := latest (kb_last_used_at b) t,
          kb_updated_at := (if kb_updated_at b < t then t else kb_updated_at b)\<rparr>" and
        g = "\<lambda>k. k\<lparr>sk_last_used_at := latest (sk_last_used_at k) t,
          sk_updated_at := (if sk_updated_at k < t then t else sk_updated_at k)\<rparr>"])
     (auto simp: touchBilling_def touchSyncKey_def billingView_def syncView_def split: if_splits)

lemma evolves_setSyncSecret [evolvesI]: "evolves projects (setSyncSecret x t i)"
proof -
  have "projected d'" if "projected d" and "setSyncSecret x t i d = Inr (u, d')" for u d d'
  proof -
    have "map syncView (sync_keys d') = map syncView (sync_keys d)"
      using that(2) by (auto simp: setSyncSecret_def map_updateRows syncView_def)
    with that show ?thesis by (auto simp: projected_def setSyncSecret_def keyPricesOf_def updateRows_def)
  qed
  then show ?thesis by (auto simp: evolves_def projects_def)
qed

subsection \<open>Every handler\<close>

text \<open>Handlers built from evolving statements only.\<close>

lemma keeps_configTransaction_wlp:
  assumes "tx_local m" and "replies (\<lambda>_. False) m"
    and "\<And>c d. wlp m (onOk (\<lambda>_ c' k'. \<exists>d'. k' = Some d' \<and> projects d d')) c (Some d)"
  shows "keeps projects (configTransaction m)"
proof (rule keeps_of_ok)
  show "projects d d" for d by (simp add: projects_def)
  show "wlp (configTransaction m) (onOk (\<lambda>_ c' _. projects c c')) c k" for c k
    by (rule wlp_configTransaction) (rule assms(3))
qed (intro err_safeI repliesI assms)+

lemma keeps_config [keepsI]:
  "keeps projects (updateAdminProvider api p)"
  "keeps projects (configTransaction (thenOk (createProviderInTransaction api p) (\<lambda>_. tx_exec (insertSyncProvider r))))"
  "keeps projects (configTransaction (thenOk (updateKeyInTransaction api k) (\<lambda>_. tx_exec (setSyncSecret x t i))))"
  unfolding updateAdminProvider_def createProviderInTransaction_def updateProviderInTransaction_def
    updateKeyInTransaction_def
  by (rule projection.keeps_configTransaction keepsI evolvesI)+

lemma keeps_createKeyRows [keepsI]: "keeps projects (configTransaction (createKeyRows api b t))"
  by (rule keeps_configTransaction_wlp)
     (auto simp: createKeyRows_def createKeyInTransaction_def intro!: tx_localI repliesI
       wlp_createKeyRows [unfolded createKeyRows_def createKeyInTransaction_def])

lemma keeps_updateAdminProviderKey [keepsI]: "keeps projects (updateAdminProviderKey api k)"
  unfolding updateAdminProviderKey_def updateKeyInTransaction_def
proof (rule projection.keeps_thenOk)
  show "keeps projects (storesKey api (sk_provider k) (sk_id k))" by (rule keepsI)
  fix r
  show "keeps projects (configTransaction (thenOk (tx_exec (writeConfig (cfg_update_key api
      (r\<lparr>kr_name := sk_name k, kr_status := sk_status k, kr_enabled := (sk_status k = ''active'')\<rparr>)))) (\<lambda>_.
      thenOk (tx_exec (setBillingKey (sk_name k) (sk_status k) (sk_updated_at k) (sk_id k))) (\<lambda>_.
      tx_exec (setSyncKey (sk_name k) (sk_status k) (sk_updated_at k) (sk_id k))))))"
  proof (rule keeps_configTransaction_wlp)
    fix c d
    show "wlp (thenOk (tx_exec (writeConfig (cfg_update_key api
      (r\<lparr>kr_name := sk_name k, kr_status := sk_status k, kr_enabled := (sk_status k = ''active'')\<rparr>)))) (\<lambda>_.
      thenOk (tx_exec (setBillingKey (sk_name k) (sk_status k) (sk_updated_at k) (sk_id k))) (\<lambda>_.
      tx_exec (setSyncKey (sk_name k) (sk_status k) (sk_updated_at k) (sk_id k)))))
      (onOk (\<lambda>_ c' k'. \<exists>d'. k' = Some d' \<and> projects d d')) c (Some d)"
    proof (intro wlpI, goal_cases)
      case (1 u d1 v d2 w d3)
      have "projects d d1" by (rule evolvesD [OF evolves_projects_statements(11) 1(1)])
      with projects_setKey [OF 1(2,3)] show ?case by (auto intro: projection.trans)
    qed
  qed (intro tx_localI repliesI)+
qed

lemma keeps_disableRows [keepsI]:
  "keeps projects (configTransaction (thenOk (updateKeyInTransaction api k) (\<lambda>_. bnd (gets now) (\<lambda>t.
     thenOk (tx_exec (disableBilling t i)) (\<lambda>_. bnd (gets now) (\<lambda>u. tx_exec (disableSyncKey u i)))))))"
  unfolding updateKeyInTransaction_def
proof (rule keeps_configTransaction_wlp)
  fix c d
  show "wlp (thenOk (tx_exec (writeConfig (cfg_update_key api k))) (\<lambda>_. bnd (gets now) (\<lambda>t.
     thenOk (tx_exec (disableBilling t i)) (\<lambda>_. bnd (gets now) (\<lambda>u. tx_exec (disableSyncKey u i))))))
    (onOk (\<lambda>_ c' k'. \<exists>d'. k' = Some d' \<and> projects d d')) c (Some d)"
  proof (intro wlpI, goal_cases)
    case (1 u d1 t v d2 t' w d3)
    have "projects d d1" by (rule evolvesD [OF evolves_projects_statements(11) 1(1)])
    with projects_disable [OF 1(2,3)] show ?case by (auto intro: projection.trans)
  qed
qed (intro tx_localI repliesI)+

lemma keeps_way_reads [keepsI]:
  "keeps projects (adminModel i)" "keeps projects (adminModelListing i)" "keeps projects (adminProviderKeyWithSecret i)"
  "keeps projects (adminProviderKeyPriceList i)" "keeps projects (adminCustomerPrices i)"
  "keeps projects m \<Longrightarrow> keeps projects (recheck m same render)"
  unfolding adminModel_def adminModelListing_def adminProviderKeyWithSecret_def adminProviderKeyPriceList_def
    adminCustomerPrices_def recheck_def
  by (rule keepsI evolvesI | assumption)+

lemma reply_safe_reprice [reply_safeI]: "reply_safe (replaceKeyPrices i ps r)"
  unfolding replaceKeyPrices_def by (intro reply_safeI tx_localI)

lemma tx_local_requireModels [tx_localI]:
  "tx_local (requireModel i p)" "tx_local (requireModels seen i ps)"
  unfolding requireModel_def
  by (intro tx_localI) (induction seen i ps rule: requireModels.induct, auto intro!: tx_localI)

lemma wlp_requireAll [wlpI]:
  assumes "\<And>us. Q us c (Some d)"
  shows "wlp (mapA (requireModel i) ps) Q c (Some d)"
  by (rule wlp_mapA [where I = "\<lambda>_ d' _. d' = d"])
     (auto simp: requireModel_def reading_Inr intro!: wlpI assms)

lemma wlp_requireModels [wlpI]: "Q () c (Some d) \<Longrightarrow> wlp (requireModels seen i ps) Q c (Some d)"
  by (induction seen i ps rule: requireModels.induct) (auto intro!: wlpI simp: reading_Inr)

lemma keeps_reprice [keepsI]:
  "keeps projects (bnd (orReply begin_tx internal) (\<lambda>u. finish_tx (adminPricesTransaction k i ps)))" (is ?A)
  "keeps projects (bnd (orReply begin_tx internal) (\<lambda>u. finish_tx (userPricesTransaction i q ps)))" (is ?B)
proof -
  show ?A
    by (rule keeps_wlp, unfold adminPricesTransaction_def, intro reply_safeI tx_localI, simp add: projects_def)
       (intro wlpI, auto simp: lockStatement_def reading_Inr readRow_Inr)
  show ?B
    by (rule keeps_wlp, unfold userPricesTransaction_def, intro reply_safeI tx_localI, simp add: projects_def)
       (intro wlpI, auto simp: readRow_Inr)
qed

lemma keeps_way_admin [keepsI]:
  "keeps projects (adminProviders api ok meth b1)" "keeps projects (adminProviderResource api ok meth b2 i)"
  "keeps projects (adminModels api meth b3)" "keeps projects (adminModelResource meth b4 i)"
  "keeps projects (adminModelCustomerPrices meth b5 i)" "keeps projects (adminModelListings meth b6)"
  "keeps projects (adminModelListingResource meth b7 i)" "keeps projects (adminProviderKeys api meth b8)"
  "keeps projects (adminProviderKeyResource api meth b9 i)" "keeps projects (adminProviderKeyRotateSecret api b10 i)"
  "keeps projects (adminProviderKeyPrices meth b11 i)"
  unfolding adminProviders_def createProvider_def adminProviderResource_def adminModels_def createModel_def
    adminModelResource_def adminModelCustomerPrices_def replaceCustomerPrices_def adminModelListings_def
    createModelListing_def adminModelListingResource_def adminProviderKeys_def createAdminProviderKey_def
    adminProviderKeyResource_def adminProviderKeyRotateSecret_def adminProviderKeyPrices_def Let_def
  by (rule keeps_config keeps_createKeyRows keeps_reprice projection.keeps_transaction keepsI evolvesI)+

lemma keeps_user [keepsI]:
  "keeps projects (ownerMerchant gizpay auth p)" "keeps projects (createProviderKey api gizpay auth b1 i p)"
  "keeps projects (putProviderKeyPrices b2 i p)" "keeps projects (disableProviderKey api i p)"
proof -
  show owner: "keeps projects (ownerMerchant gizpay auth p)"
    unfolding ownerMerchant_def Let_def
    by (intro projection.keeps_bnd projection.keeps_db_exec evolvesI)
       (auto intro!: keepsI evolvesI split: sum.split merchants_answer.split option.split)
  show "keeps projects (createProviderKey api gizpay auth b1 i p)"
    unfolding createProviderKey_def by (rule owner keeps_config keeps_createKeyRows keepsI evolvesI)+
  show "keeps projects (putProviderKeyPrices b2 i p)"
    unfolding putProviderKeyPrices_def by (rule keeps_reprice keepsI evolvesI)+
  show "keeps projects (disableProviderKey api i p)"
    unfolding disableProviderKey_def by (rule keeps_disableRows keeps_config keepsI evolvesI)+
qed

lemma keeps_serveUser [keepsI]: "keeps projects (serveUser api env r)"
  unfolding serveUser_def Let_def by (rule keeps_user keepsI)+

lemma keeps_serveWayAdmin [keepsI]: "keeps projects (serveWayAdmin key api ok dec r)"
  unfolding serveWayAdmin_def Let_def by (rule keeps_way_admin keepsI)+

text \<open>Calls and the worker.\<close>

lemma keeps_completeCall [keepsI]: "keeps projects (completeCall js hm call g cm usage mode fp)"
  unfolding completeCall_def completeTransaction_def recordUsage_def Let_def by (rule keepsI evolvesI)+

lemma keeps_markOutboxReported_projects [keepsI]: "keeps projects (markOutboxReported i j)"
  unfolding markOutboxReported_def
proof (rule projection.keeps_bnd [OF projection.keeps_gets], rule keeps_of_ok)
  fix t c k
  show "wlp (inTransaction (
       thenOk (tx_exec (readRow (\<lambda>d. find (\<lambda>a. ao_id a = j) (ai_orders d)))) (\<lambda>a.
       thenOk (exactlyOne (tx_exec (setReported t i j))) (\<lambda>_.
       thenOk (tx_exec (setCharged j)) (\<lambda>_.
       thenOk (tx_exec (addBillingEarned (ao_commission a) t (ao_provider_key a))) (\<lambda>_.
       thenOk (tx_exec (addSyncEarned (ao_commission a) t (ao_provider_key a))) (\<lambda>_.
       commit_tx (\<lambda>_ _. True)))))))) (onOk (\<lambda>_ c' _. projects c c')) c k"
  proof (intro wlpI impI, goal_cases)
    case (1 a d0 n d1 u d2 v d3 w d4)
    have "projects c d2"
      using evolvesD [OF evolves_projects_outbox(4) 1(2)] evolvesD [OF evolves_projects_outbox(8) 1(4)] 1(1)
      by (auto simp: readRow_Inr intro: projection.trans)
    then show ?case using projects_earned [OF 1(5,6)] by (rule projection.trans)
  qed
qed (intro err_safeI repliesI tx_localI | simp add: projects_def)+

lemma keeps_markProviderKeyUsed [keepsI]: "keeps projects (markProviderKeyUsed i t)"
  unfolding markProviderKeyUsed_def
proof (rule keeps_of_ok)
  fix c k
  show "wlp (inTransaction (thenOk (exactlyOne (tx_exec (touchBilling t i))) (\<lambda>_.
      thenOk (exactlyOne (tx_exec (touchSyncKey t i))) (\<lambda>_. commit_tx (\<lambda>_ _. True)))))
      (onOk (\<lambda>_ c' _. projects c c')) c k"
    by (intro wlpI impI) (erule projects_touch)
qed (intro err_safeI repliesI tx_localI | simp add: projects_def)+

subsection \<open>Runs of a region\<close>

text \<open>An action on a region beside a remote GizPay, along an evolution of the region's database.\<close>

definition siteKeeps :: "('c way_db \<Rightarrow> 'c way_db \<Rightarrow> bool) \<Rightarrow> (('c, 'p) site, 'a) act \<Rightarrow> bool" where
  "siteKeeps R m \<longleftrightarrow> (\<forall>s x s'. m s = (x, s') \<longrightarrow> R (committed (way s)) (committed (way s')))"

lemma siteKeeps_simple [keepsI]:
  "siteKeeps projects (ret a)" "siteKeeps projects (gets f)" "siteKeeps projects (callRemote h)"
  "keeps projects m \<Longrightarrow> siteKeeps projects (onWay m)"
  by (auto simp: siteKeeps_def ret_def gets_def callRemote_def onWay_def keeps_def Let_def projection.refl
      split: delivery.splits prod.splits)

lemma siteKeeps_bnd [keepsI]:
  assumes "siteKeeps projects m" and "\<And>a. siteKeeps projects (f a)"
  shows "siteKeeps projects (bnd m f)"
  unfolding siteKeeps_def
proof (intro allI impI)
  fix s x s'' assume b: "bnd m f s = (x, s'')"
  obtain y s' where y: "m s = (y, s')" by (cases "m s")
  with assms(1) have 1: "projects (committed (way s)) (committed (way s'))" by (simp add: siteKeeps_def)
  show "projects (committed (way s)) (committed (way s''))"
  proof (cases y)
    case (Reply r)
    with b y 1 show ?thesis by (simp add: bnd_def)
  next
    case (Val a)
    with b y have "f a s' = (x, s'')" by (simp add: bnd_def)
    with assms(2) have "projects (committed (way s')) (committed (way s''))" by (simp add: siteKeeps_def)
    with 1 show ?thesis by (rule projection.trans)
  qed
qed

lemma siteKeeps_branch [keepsI]:
  "siteKeeps projects m \<Longrightarrow> siteKeeps projects n \<Longrightarrow> siteKeeps projects (if b then m else n)"
  "siteKeeps projects m \<Longrightarrow> (\<And>y. siteKeeps projects (h y)) \<Longrightarrow>
     siteKeeps projects (case o' of None \<Rightarrow> m | Some y \<Rightarrow> h y)"
  "(\<And>y. siteKeeps projects (g y)) \<Longrightarrow> (\<And>y. siteKeeps projects (k y)) \<Longrightarrow>
     siteKeeps projects (case z of Inl y \<Rightarrow> g y | Inr y \<Rightarrow> k y)"
  by (simp_all split: option.split sum.split)

lemma keeps_exactly [keepsI]: "keeps projects m \<Longrightarrow> keeps projects (exactlyOne m)"
  unfolding exactlyOne_def by (rule keepsI | assumption)+

lemma siteKeeps_reportOutbox [keepsI]: "siteKeeps projects (reportOutbox cfg api x)"
  unfolding reportOutbox_def giveUp_def recoverCharge_def settle_def pend_def by (rule keepsI evolvesI)+

lemma siteKeeps_reportAll [keepsI]: "siteKeeps projects (reportAll cfg api xs)"
  by (induction xs) (auto intro!: keepsI)

lemma siteKeeps_outboxRound [keepsI]: "siteKeeps projects (outboxRound cfg api)"
  unfolding outboxRound_def Let_def by (rule keepsI evolvesI)+

lemma siteKeeps_recoverOutbox [keepsI]: "siteKeeps projects recoverOutbox"
  unfolding recoverOutbox_def by (rule keepsI evolvesI)+

text \<open>
  \<open>region_runs s s'\<close>: administrators and users send requests, calls complete and mark the key they
  used, the worker makes its rounds and the process restarts, in any order and with any failures.
\<close>

inductive region_runs :: "way_config \<Rightarrow> 'p charge_api \<Rightarrow> 'c config_api \<Rightarrow> ('c, 'p) site \<Rightarrow> ('c, 'p) site \<Rightarrow> bool"
  for cfg :: way_config and gizpay :: "'p charge_api" and api :: "'c config_api" and s :: "('c, 'p) site"
where
  start: "region_runs cfg gizpay api s s"
| admin: "region_runs cfg gizpay api s s' \<Longrightarrow>
    region_runs cfg gizpay api s (s'\<lparr>way := snd (respond (serveWayAdmin key api validURL dec r) (way s'))\<rparr>)"
| user: "region_runs cfg gizpay api s s' \<Longrightarrow>
    region_runs cfg gizpay api s (s'\<lparr>way := snd (respond (serveUser api env r) (way s'))\<rparr>)"
| call: "region_runs cfg gizpay api s s' \<Longrightarrow>
    region_runs cfg gizpay api s (s'\<lparr>way := snd (completeCall js hm call g cm usage mode fp (way s'))\<rparr>)"
| used: "region_runs cfg gizpay api s s' \<Longrightarrow>
    region_runs cfg gizpay api s (s'\<lparr>way := snd (markProviderKeyUsed i t (way s'))\<rparr>)"
| round: "region_runs cfg gizpay api s s' \<Longrightarrow> region_runs cfg gizpay api s (snd (outboxRound cfg gizpay s'))"
| restart: "region_runs cfg gizpay api s s' \<Longrightarrow> region_runs cfg gizpay api s (snd (recoverOutbox s'))"
| environment: "region_runs cfg gizpay api s s' \<Longrightarrow> committed (way s'') = committed (way s') \<Longrightarrow>
    region_runs cfg gizpay api s s''"

lemma siteKeepsD: "siteKeeps R m \<Longrightarrow> R (committed (way s)) (committed (way (snd (m s))))"
  by (cases "m s") (simp add: siteKeeps_def)

lemma keeps_snd: "keeps R m \<Longrightarrow> R (committed w) (committed (snd (m w)))"
  by (cases "m w") (simp add: keeps_def)

lemma region_projects: "region_runs cfg gizpay api s s' \<Longrightarrow> projects (committed (way s)) (committed (way s'))"
proof (induction rule: region_runs.induct)
  case (admin s' key validURL dec r)
  then show ?case by (simp, elim projection.trans) (rule keeps_respond [OF keeps_serveWayAdmin])
next
  case (user s' env r)
  then show ?case by (simp, elim projection.trans) (rule keeps_respond [OF keeps_serveUser])
next
  case (call s' js hm call g cm usage mode fp)
  then show ?case by (simp, elim projection.trans) (rule keeps_snd [OF keeps_completeCall])
next
  case (used s' i t)
  then show ?case by (simp, elim projection.trans) (rule keeps_snd [OF keeps_markProviderKeyUsed])
next
  case (round s')
  then show ?case by (elim projection.trans) (rule siteKeepsD [OF siteKeeps_outboxRound])
next
  case (restart s')
  then show ?case by (elim projection.trans) (rule siteKeepsD [OF siteKeeps_recoverOutbox])
qed (simp_all add: projection.refl)

text \<open>C17: The requests of administrators and users, the calls and the worker's rounds being served one
  after the other, in whatever order and whatever fails in them, the synchronised table of provider
  keys shows exactly what the billing tables hold: the same keys in the same order with the same
  owner, merchant, name, status, earnings and last use, and for each key exactly its stored prices; and
  every stored price is per a positive number of units. (Requests that run at the same time can leave
  it otherwise: \<open>concurrent_puts\<close>.)\<close>

theorem provider_keys_projected:
  assumes "region_runs cfg gizpay api s s'" and "projected (committed (way s))"
  shows "map (\<lambda>k. (sk_id k, sk_issuer k, sk_subject k, sk_merchant k, sk_name k, sk_last_used_at k, sk_earned k,
        sk_status k, sk_created_at k)) (sync_keys (committed (way s'))) =
      map (\<lambda>b. (kb_key b, kb_issuer b, kb_subject b, kb_merchant b, kb_name b, kb_last_used_at b, kb_earned b,
        kb_status b, kb_created_at b)) (key_billings (committed (way s'))) \<and>
    (\<forall>k \<in> set (sync_keys (committed (way s'))). sk_prices k = keyPricesOf (sk_id k) (committed (way s'))) \<and>
    (\<forall>r \<in> set (stored_prices (committed (way s'))). 0 < kp_unit (sx_price r))"
proof -
  have ok: "projected (committed (way s'))" using region_projects [OF assms(1)] assms(2) by (simp add: projects_def)
  then have "map syncView (sync_keys (committed (way s'))) = map billingView (key_billings (committed (way s')))"
    by (simp add: projected_def)
  then show ?thesis
    using ok unfolding syncView_def [abs_def] billingView_def [abs_def] by (simp add: projected_def)
qed

text \<open>The example: a key is registered in an empty region, then its prices are replaced.\<close>

definition demo_config :: "unit config_api" where
  "demo_config = \<lparr> cfg_provider = (\<lambda>i _. Some \<lparr> pv_id = i, pv_name = ''P'', pv_kind = ''openai'', pv_base_url = ''u'',
       pv_status = ''active'', pv_created_at = 1 \<rparr>),
     cfg_providers = (\<lambda>_. []), cfg_key = (\<lambda>_ _ _. None), cfg_keys = (\<lambda>_ _. []),
     cfg_add_provider = (\<lambda>_. Some), cfg_update_provider = (\<lambda>_. Some), cfg_create_key = (\<lambda>_. Some),
     cfg_update_key = (\<lambda>_. Some) \<rparr>"

definition demo_region :: "(unit, unit) site" where
  "demo_region = \<lparr> way = demo_world ((empty_way ())\<lparr>sync_models := [\<lparr> sd_id = ''m'', sd_provider = ''openai'',
       sd_name = ''M'', sd_provider_model = ''m'', sd_status = ''active'' \<rparr>]\<rparr>),
     remote = (), network = (\<lambda>_. Delivered), network_n = 0 \<rparr>"

definition demo_decoders :: way_admin_decoders where
  "demo_decoders = \<lparr> wd_provider = (\<lambda>_. None), wd_provider_patch = (\<lambda>_. None), wd_model = (\<lambda>_. None),
     wd_model_patch = (\<lambda>_. None), wd_customer_prices = (\<lambda>_. None), wd_listing = (\<lambda>_. None),
     wd_listing_patch = (\<lambda>_. None),
     wd_provider_key = (\<lambda>_. Some \<lparr> kq_id = ''pk'', kq_provider = ''openai'', kq_issuer = ''iss'', kq_subject = ''sub3'',
       kq_merchant = ''m3'', kq_name = ''K'', kq_key = ''secret'', kq_status = ''active'',
       kq_prices = [\<lparr> kp_model = ''m'', kp_metric = ''input_tokens'', kp_unit = 1000, kp_microcredits = 3 \<rparr>] \<rparr>),
     wd_provider_key_patch = (\<lambda>_. None), wd_secret = (\<lambda>_. None), wd_key_prices = (\<lambda>_. None) \<rparr>"

definition demo_admin_request :: http_request where
  "demo_admin_request = \<lparr> rq_method = POST, rq_path = ''/admin/v1/provider-keys'', rq_header = (\<lambda>_. ''admin''),
     query_value = (\<lambda>_. []), path_value = (\<lambda>_. []), rq_body = [] \<rparr>"

definition demo_region_key :: "(unit, unit) site" where
  "demo_region_key = demo_region\<lparr>way := snd (respond
     (serveWayAdmin ''admin'' demo_config (\<lambda>_. True) demo_decoders demo_admin_request) (way demo_region))\<rparr>"

lemma demo_region_created:
  "\<exists>k. sync_keys (committed (way demo_region_key)) = [k] \<and> sk_id k = ''pk''"
proof -
  have b: "nonBlank ''pk''" "nonBlank ''openai''" "nonBlank ''iss''" "nonBlank ''sub3''" "nonBlank ''m3''"
    "nonBlank ''K''" "nonBlank ''secret''" "sqlText ''K''" "nonBlank ''m''"
    by (simp_all add: blank_eval sqlText_def)
  show ?thesis
    by (simp add: demo_region_key_def demo_region_def serveWayAdmin_def demo_admin_request_def demo_decoders_def
        demo_config_def demo_world_def empty_way_def adminProviderKeys_def createAdminProviderKey_def
        providerKeyAcceptable_def nonBlankAll_def oneOf_def b validatePrices_def validMetric_def
        adminProviderKeyWithSecret_def syncKeyById_def storesProvider_def configTransaction_def lockStatement_def
        readConfig_def createKeyRows_def activeModels_def countRows_def createKeyInTransaction_def writeConfig_def
        insertKeyBilling_def insertKeyPrice_def insertSyncKey_def insertRow_def run_simps Let_def hasPrefix_def
        hasSuffix_def)
qed

theorem provider_keys_projected_witness:
  "\<exists>k. sync_keys (committed (way demo_region_key)) = [k] \<and>
     sk_prices k = keyPricesOf ''pk'' (committed (way demo_region_key))"
proof -
  have run: "region_runs cfg \<lparr> post_charge = \<lambda>_ p. (500, p), get_charge = \<lambda>_ p. (500, p) \<rparr> demo_config
      demo_region demo_region_key" for cfg
    unfolding demo_region_key_def by (rule region_runs.admin [OF region_runs.start])
  show ?thesis
    using provider_keys_projected [OF run] demo_region_created
    by (auto simp: demo_region_def demo_world_def empty_way_def projected_def)
qed

subsection \<open>Prices that two requests replace at the same time\<close>

text \<open>
  \<open>putProviderKeyPrices\<close> of users takes no lock before it deletes. \<open>putPrices seen i ps t d\<close> is what its
  statements do to \<open>d\<close> when the \<open>DELETE\<close> has the snapshot \<open>seen\<close>: PostgreSQL's isolation level
  \<open>READ COMMITTED\<close> lets a statement see what was committed when it began. With \<open>seen = d\<close> it is the
  transaction of the model.
\<close>

definition putPrices :: "'c way_db \<Rightarrow> string \<Rightarrow> key_price list \<Rightarrow> time \<Rightarrow> 'c way_db \<Rightarrow> 'c way_db" where
  "putPrices seen i ps t d = d\<lparr>
     stored_prices := filter (\<lambda>r. sx_key r = i \<longrightarrow> r \<notin> set (stored_prices seen)) (stored_prices d) @
       map (\<lambda>p. \<lparr> sx_key = i, sx_price = p \<rparr>) ps,
     sync_keys := updateRows (\<lambda>k. sk_id k = i) (\<lambda>k. k\<lparr>sk_prices := ps, sk_updated_at := t\<rparr>) (sync_keys d)\<rparr>"

lemma filter_seen:
  "filter (\<lambda>r. sx_key r = i) (filter (\<lambda>r. sx_key r = i \<longrightarrow> r \<notin> S) rs) = filter (\<lambda>r. sx_key r = i \<and> r \<notin> S) rs"
  by (induction rs) auto

lemma keyPricesOf_putPrices:
  "keyPricesOf i (putPrices seen i ps t d) =
     map sx_price (filter (\<lambda>r. sx_key r = i \<and> r \<notin> set (stored_prices seen)) (stored_prices d)) @ ps"
  by (simp add: keyPricesOf_def putPrices_def o_def filter_seen del: filter_filter)

text \<open>
  When the second request deletes before the first has committed, both lists of prices are stored, and
  the synchronised row shows the second.
\<close>

lemma concurrent_puts:
  assumes "\<forall>p \<in> set ps. \<lparr> sx_key = i, sx_price = p \<rparr> \<notin> set (stored_prices d)"
    and "k \<in> set (sync_keys (putPrices d i qs u (putPrices d i ps t d)))" and "sk_id k = i"
  shows "keyPricesOf i (putPrices d i qs u (putPrices d i ps t d)) = ps @ qs \<and> sk_prices k = qs"
proof -
  have old: "filter (\<lambda>r. sx_key r = i \<and> r \<notin> set rs) (filter (\<lambda>r. sx_key r = i \<longrightarrow> r \<notin> set rs) rs) = []" for rs
    by (auto simp: filter_empty_conv)
  have new: "filter (\<lambda>r. sx_key r = i \<and> r \<notin> set (stored_prices d)) (map (\<lambda>p. \<lparr> sx_key = i, sx_price = p \<rparr>) ps) =
      map (\<lambda>p. \<lparr> sx_key = i, sx_price = p \<rparr>) ps"
    using assms(1) by (auto intro!: filter_True)
  have st: "stored_prices (putPrices d i ps t d) =
      filter (\<lambda>r. sx_key r = i \<longrightarrow> r \<notin> set (stored_prices d)) (stored_prices d) @ map (\<lambda>p. \<lparr> sx_key = i, sx_price = p \<rparr>) ps"
    by (simp add: putPrices_def)
  have "keyPricesOf i (putPrices d i qs u (putPrices d i ps t d)) = ps @ qs"
    unfolding keyPricesOf_putPrices st filter_append old new by (simp add: o_def)
  moreover have "sk_prices k = qs"
  proof -
    have "sk_prices x = qs" if "x \<in> set (updateRows (\<lambda>k. sk_id k = i) (\<lambda>k. k\<lparr>sk_prices := qs, sk_updated_at := u\<rparr>) ks)"
      and "sk_id x = i" for x ks
    proof -
      from that(1) obtain y where "x = (if sk_id y = i then y\<lparr>sk_prices := qs, sk_updated_at := u\<rparr> else y)"
        unfolding updateRows_def set_map by (rule imageE)
      with that(2) show ?thesis by (cases "sk_id y = i") simp_all
    qed
    then show ?thesis using assms(2,3) unfolding putPrices_def [of d i qs u] by simp
  qed
  ultimately show ?thesis by simp
qed

end
