(* ===== verification/WayTraffic.thy ===== *)
theory WayTraffic
  imports WayRealtime Courses WaySync
begin

section \<open>What the gateway guarantees\<close>

text \<open>
  The handlers of \<open>WayGateway\<close> and \<open>WayRealtime\<close>: which rows a finished call leaves, what a request
  without credit can do, and that a realtime secret opens one socket.
\<close>

subsection \<open>Rules for the parts of the gateway\<close>

lemma wp_onRegion [wp_simps]:
  "wp (onRegion m) Q R g = wp m (\<lambda>a w. Q a (g\<lparr>region := w\<rparr>)) (\<lambda>r w. R r (g\<lparr>region := w\<rparr>)) (region g)"
  by (simp add: wp_def onRegion_def split: prod.split step.split)

lemma wp_onCredit [wp_simps]:
  "wp (onCredit f) Q R g = Q (fst (f (credit g))) (g\<lparr>credit := snd (f (credit g))\<rparr>)"
  by (simp add: wp_def onCredit_def split: prod.split)

lemma wp_nextCall [wp_simps]: "wp nextCall Q R g = Q (calls_n g) (g\<lparr>calls_n := Suc (calls_n g)\<rparr>)"
  by (simp add: wp_def nextCall_def)

lemma wp_writeEvents [wp_simps]: "wp (writeEvents es) Q R g = Q () (g\<lparr>sent := sent g @ es\<rparr>)"
  by (simp add: wp_def writeEvents_def)

lemma wp_nowR [wp_simps]: "wp nowR Q R g = Q (now (region g)) g"
  by (simp add: nowR_def wp_simps)

lemma wp_storeSession [wp_simps]:
  "wp (storeSession i s) Q R g = Q () (g\<lparr>realtime := (realtime g)(i \<mapsto> s)\<rparr>)"
  by (simp add: wp_def storeSession_def)

lemma wp_writeLog [wp_simps]:
  "wp (writeLog e) Q R g =
     Q () ((if log_fault g (log_n g) then g else g\<lparr>executions := executions g @ [e]\<rparr>)\<lparr>log_n := Suc (log_n g)\<rparr>)"
  by (simp add: wp_def writeLog_def)

subsection \<open>Rating never panics\<close>

lemma ceilMulDiv_total: "ceilMulDiv l r d \<noteq> None"
  by (auto simp: ceilMulDiv_def div64_def Let_def split: prod.split)

lemma rateFrom_total: "rateFrom u t ps \<noteq> None"
  by (induction ps arbitrary: t) (auto split: option.split simp: ceilMulDiv_total)

lemma ratedUsage_total: "ratedUsage u c p \<noteq> None"
  by (auto simp: ratedUsage_def rate_def Let_def rateFrom_total split: option.split sum.split)

subsection \<open>The execution log\<close>

text \<open>A failed or successful entry changes neither the database nor the credit.\<close>

definition sameBut_log :: "'c gateway \<Rightarrow> 'c gateway \<Rightarrow> bool" where
  "sameBut_log g g' \<longleftrightarrow>
     committed (region g') = committed (region g) \<and> credit g' = credit g \<and> realtime g' = realtime g \<and>
     calls_n g' = calls_n g \<and> sent g' = sent g"


lemma wp_recordExecution:
  "wp (recordExecution call usage gross commission mode x st failed fp) (\<lambda>_ g'. sameBut_log g g' \<and>
      (executions g' = executions g \<or>
       (\<exists>e. executions g' = executions g @ [e] \<and> ex_gross e = gross \<and> ex_commission e = commission \<and>
          ex_key e = cl_key call \<and> ex_status e = st \<and> ex_failed e = failed \<and> ex_external e = x \<and> ex_mode e = mode)))
     (\<lambda>_ _. False) g"
  by (auto simp: recordExecution_def wp_simps sameBut_log_def)

subsection \<open>Billing\<close>





subsection \<open>Statements that leave the orders alone\<close>

definition sameOrders :: "'c way_db \<Rightarrow> 'c way_db \<Rightarrow> bool" where
  "sameOrders d d' \<longleftrightarrow>
     ai_orders d' = ai_orders d \<and> charge_outbox d' = charge_outbox d \<and> ai_usages d' = ai_usages d"

interpretation same_orders: evolution sameOrders
  by unfold_locales (simp_all add: sameOrders_def)

lemma evolves_sameOrders [evolvesI]:
  "evolves sameOrders (touchBilling t i)" "evolves sameOrders (touchSyncKey t i)"
  by (auto simp: evolves_def sameOrders_def touchBilling_def touchSyncKey_def)

lemma sameOrders_exactlyOne [keepsI]: "txKeeps sameOrders m \<Longrightarrow> txKeeps sameOrders (exactlyOne m)"
  by (rule keepsI)

lemma sameOrders_markProviderKeyUsed [keepsI]: "keeps sameOrders (markProviderKeyUsed i t)"
  unfolding markProviderKeyUsed_def by (rule keepsI evolvesI)+

lemma replies_markProviderKeyUsed [repliesI]: "replies P (markProviderKeyUsed i t)"
  unfolding markProviderKeyUsed_def inTransaction_def exactlyOne_def by (rule repliesI)+

lemma keeps_wp:
  assumes "keeps R m" and "replies (\<lambda>_. False) m"
  shows "wp m (\<lambda>_ w'. R (committed w) (committed w')) (\<lambda>_ _. False) w"
  using assms by (auto simp: wp_def keeps_def replies_def split: prod.split step.split)

lemma steady_gateway [movesI]:
  "moves steady (markProviderKeyUsed i t)" "moves steady (completeCall js hm call g cm u mode fp)"
  "moves steady (storesProvider api i)" "moves steady (storesKeys api i)"
  unfolding markProviderKeyUsed_def completeCall_def completeTransaction_def recordUsage_def Let_def
    storesProvider_def storesKeys_def configTransaction_def
  by (rule movesI)+

lemma wp_markProviderKeyUsed:
  "wp (markProviderKeyUsed i t) (\<lambda>_ w'. sameOrders (committed w) (committed w') \<and> steady w w') (\<lambda>_ _. False) w"
proof -
  have "wp (markProviderKeyUsed i t) (\<lambda>_ w'. sameOrders (committed w) (committed w')) (\<lambda>_ _. False) w"
    by (rule keeps_wp) (rule keepsI repliesI)+
  moreover have "steady w (snd (markProviderKeyUsed i t w))"
    by (rule steady_gateway(1) [unfolded moves_def, rule_format])
  ultimately show ?thesis by (auto simp: wp_def split: prod.splits step.splits)
qed

subsection \<open>Answers and their bills\<close>

text \<open>
  What stays as it is while a response is on its way: everything but the times of last use and the
  identifiers that are used up.
\<close>

definition touched :: "'c gateway \<Rightarrow> 'c gateway \<Rightarrow> bool" where
  "touched g g' \<longleftrightarrow> sameOrders (committed (region g)) (committed (region g')) \<and> steady (region g) (region g') \<and>
     credit g' = credit g \<and> realtime g' = realtime g \<and> executions g' = executions g \<and>
     log_fault g' = log_fault g \<and> log_n g' = log_n g"

lemma touched_trans: "touched g g' \<Longrightarrow> touched g' g'' \<Longrightarrow> touched g g''"
  by (auto simp: touched_def intro: same_orders.trans steady.trans)

lemma touched_update [simp]:
  "touched g (g\<lparr>calls_n := n\<rparr>)" "touched g (g\<lparr>calls_n := n, sent := es\<rparr>)"
  "touched g (g\<lparr>calls_n := n, region := w\<rparr>) \<longleftrightarrow> sameOrders (committed (region g)) (committed w) \<and> steady (region g) w"
  "touched g (g\<lparr>calls_n := n, region := w, sent := es\<rparr>) \<longleftrightarrow> sameOrders (committed (region g)) (committed w) \<and> steady (region g) w"
  by (auto simp: touched_def same_orders.refl steady.refl)



lemma wp_callChat:
  assumes "ge_chat env (calls_n g) input = Inr response"
    and "publicChatResponse (ge_marshal env) protocol (response\<lparr>br_model := model\<rparr>) model = Some public"
    and "selected call (br_key response) = Some call1" and "testFailpoint r \<noteq> ''selected_key_mapping_failure''"
    and bill: "\<And>g1. touched g g1 \<Longrightarrow> calls_n g1 = Suc (calls_n g) \<Longrightarrow> sent g1 = sent g \<Longrightarrow>
       wp (billChat env k call1 (br_usage response) (testFailpoint r)) (\<lambda>_ g'. P g1 g') (\<lambda>_ _. False) g1"
  shows "wp (callChat env r k call input protocol model)
     (\<lambda>x g'. x = writeJSON 200 public \<and> (\<exists>g1. P g1 g' \<and> touched g g1 \<and> calls_n g1 = Suc (calls_n g) \<and> sent g1 = sent g))
     (\<lambda>_ _. False) g"
  using assms(1-4)
  by (auto simp: callChat_def answerChat_def Let_def wp_simps
      intro!: wp_mono [OF wp_markProviderKeyUsed] wp_mono [OF bill] intro: exI [of _ "g\<lparr>calls_n := Suc (calls_n g)\<rparr>"])

lemma respond_of_wp:
  assumes "wp m Q (\<lambda>_ _. False) g"
  shows "Q (fst (respond m g)) (snd (respond m g))"
  using assms by (auto simp: wp_def respond_def split: prod.splits step.splits)


text \<open>The header \<open>X-Gizway-Test-Failpoint\<close> is honoured for every client. With the value
  \<open>rating_failure\<close> the client gets the same answer with status 200, and nothing is billed: no order,
  no outbox row and no usage is written and the cached credit is not drawn.\<close>

lemma failpoint_skips_billing:
  assumes "ge_chat env (calls_n g) input = Inr response"
    and "publicChatResponse (ge_marshal env) protocol (response\<lparr>br_model := model\<rparr>) model = Some public"
    and "selected call (br_key response) = Some call1" and "testFailpoint r = ''rating_failure''"
  shows "\<exists>g'. respond (callChat env r k call input protocol model) g = (writeJSON 200 public, g') \<and>
     sameOrders (committed (region g)) (committed (region g')) \<and> credit g' = credit g"
proof -
  have "wp (billChat env k call1 (br_usage response) (testFailpoint r)) (\<lambda>_. sameBut_log g1) (\<lambda>_ _. False) g1" for g1
    by (simp add: billChat_def assms(4)) (rule wp_mono [OF wp_recordExecution], auto)
  then have "wp (callChat env r k call input protocol model) (\<lambda>x g'. x = writeJSON 200 public \<and>
      (\<exists>g1. sameBut_log g1 g' \<and> touched g g1 \<and> calls_n g1 = Suc (calls_n g) \<and> sent g1 = sent g)) (\<lambda>_ _. False) g"
    by (intro wp_callChat [OF assms(1-3)]) (simp_all add: assms(4))
  from respond_of_wp [OF this] show ?thesis
    by (cases "respond (callChat env r k call input protocol model) g")
       (auto simp: touched_def sameBut_log_def)
qed

subsection \<open>Streams\<close>

definition present :: "chunk option list \<Rightarrow> chunk list" where
  "present chunks = map the (filter (\<lambda>x. x \<noteq> None) chunks)"

lemma present_simps [simp]:
  "present [] = []" "present (None # cks) = present cks" "present (Some ck # cks) = ck # present cks"
  by (simp_all add: present_def)

lemma wp_streamLoop [wp_simps]:
  "wp (streamLoop marshal protocol cks st) Q R g =
     Q (foldl chunkState st (present cks))
       (g\<lparr>sent := sent g @ concat (map (chunkEvents marshal protocol) (present cks))\<rparr>)"
  by (induction marshal protocol cks st arbitrary: g rule: streamLoop.induct) (simp_all add: wp_simps)



end
