(* ===== verification/WayResolve.thy ===== *)
theory WayResolve
  imports WayTraffic "HOL-Library.Sublist"
begin

section \<open>What a resolved call is made of\<close>

text \<open>
  \<open>resolveCall\<close> only reads, and what it returns without an error is an active model at an active
  provider, with exactly the cheapest of the provider's usable keys and the prices that they are paid by.
\<close>

interpretation unchanged: region_evolution "(=)"
  by unfold_locales auto

lemma wlp_unchanged:
  assumes "keeps (=) m" and "wlp m (onOk (\<lambda>a _ _. P a)) c k"
  shows "wlp m (\<lambda>x c' _. c' = c \<and> (case x of Inl e \<Rightarrow> True | Inr a \<Rightarrow> P a)) c k"
  using assms by (auto simp: wlp_def keeps_def onOk_def split: sum.splits)

lemma readConfig_Inr: "readConfig f d = Inr (a, d') \<longleftrightarrow> f (config_state d) = Some a \<and> d' = d"
  by (simp add: readConfig_def readRow_Inr)

lemma wlp_storesProvider:
  "wlp (storesProvider api i) (\<lambda>x c' _. c' = c \<and> (case x of Inl e \<Rightarrow> True | Inr p \<Rightarrow> cfg_provider api i (config_state c) = Some p)) c k"
  by (rule wlp_unchanged [OF unchanged.keeps_storesReads(1)])
     (auto simp: storesProvider_def readConfig_Inr intro!: wlpI)

lemma wlp_storesKeys:
  "wlp (storesKeys api i) (\<lambda>x c' _. c' = c \<and> (case x of Inl e \<Rightarrow> True | Inr ks \<Rightarrow> ks = cfg_keys api i (config_state c))) c k"
  by (rule wlp_unchanged [OF unchanged.keeps_storesReads(4)])
     (auto simp: storesKeys_def readConfig_Inr intro!: wlpI)

lemma db_read_run:
  "db_exec (readRow f) w = (Val (if fault w (fault_n w) then Inl ConnErr
     else case f (committed w) of None \<Rightarrow> Inl NoRows | Some a \<Rightarrow> Inr a), tick w)"
  "db_exec (reading g) w = (Val (if fault w (fault_n w) then Inl ConnErr else Inr (g (committed w))), tick w)"
  by (auto simp: db_exec_def readRow_def reading_def tick_def split: option.split)

definition keyPayment :: "'c way_db \<Rightarrow> string \<Rightarrow> string \<Rightarrow> key_payment option" where
  "keyPayment d modelID i = map_option (\<lambda>b. \<lparr> py_merchant = kb_merchant b, py_prices = providerPricesOf modelID i d \<rparr>)
     (find (\<lambda>b. kb_key b = i) (key_billings d))"

definition usableKey :: "'c way_db \<Rightarrow> string \<Rightarrow> price_row list \<Rightarrow> key_record \<Rightarrow> bool" where
  "usableKey d modelID customer k \<longleftrightarrow> kr_enabled k \<and> kr_status k = ''active'' \<and>
     (case find (\<lambda>b. kb_key b = kr_id k) (key_billings d) of None \<Rightarrow> False | Some b \<Rightarrow> kb_status b = ''active'') \<and>
     pricesCoverMetrics (providerPricesOf modelID (kr_id k) d) customer"

definition sameRequest :: "resolved_call \<Rightarrow> resolved_call \<Rightarrow> bool" where
  "sameRequest call call' \<longleftrightarrow> (\<exists>ts ps. call' = call\<lparr>cl_targets := ts, cl_payments := ps\<rparr>)"

lemma sameRequest_refl: "sameRequest call call"
  unfolding sameRequest_def by (intro exI [of _ "cl_targets call"] exI [of _ "cl_payments call"]) simp

definition collected ::
  "'c way_db \<Rightarrow> provider_record \<Rightarrow> resolved_call \<Rightarrow> key_record list \<Rightarrow> resolved_call \<Rightarrow> bool" where
  "collected d provider call read call' \<longleftrightarrow> sameRequest call call' \<and>
     cl_targets call' = cl_targets call @ map (targetOf provider (cl_provider_model call))
       (filter (usableKey d (cl_model call) (cl_customer call)) read) \<and>
     (\<forall>i. cl_payments call' i = cl_payments call i \<or> cl_payments call' i = keyPayment d (cl_model call) i) \<and>
     (\<forall>k \<in> set read. usableKey d (cl_model call) (cl_customer call) k \<longrightarrow>
        cl_payments call' (kr_id k) = keyPayment d (cl_model call) (kr_id k))"

lemma collected_skip: "collected d p call read call' \<Longrightarrow> \<not> usableKey d (cl_model call) (cl_customer call) k \<Longrightarrow>
    collected d p call (k # read) call'"
  by (auto simp: collected_def)

lemma collected_take:
  assumes "collected d p (call\<lparr>cl_targets := cl_targets call @ [targetOf p (cl_provider_model call) k],
      cl_payments := (cl_payments call)(kr_id k := keyPayment d (cl_model call) (kr_id k))\<rparr>) read call'"
    and "usableKey d (cl_model call) (cl_customer call) k"
  shows "collected d p call (k # read) call'"
  using assms unfolding collected_def sameRequest_def by (auto split: if_splits)

lemma resolveKeys_run:
  assumes "resolveKeys provider ks call w = (Val (None, call'), w')"
  shows "committed w' = committed w \<and> fault w' = fault w \<and>
    (\<exists>read. subseq read ks \<and> (fault w = (\<lambda>_. False) \<longrightarrow> read = ks) \<and> collected (committed w) provider call read call')"
  using assms
proof (induction ks arbitrary: call w)
  case Nil
  then show ?case by (auto simp: ret_def collected_def sameRequest_refl)
next
  case (Cons k ks)
  let ?d = "committed w" and ?M = "cl_model call" and ?C = "cl_customer call"
  have skip: ?case
    if "resolveKeys provider ks call w1 = (Val (None, call'), w')" "committed w1 = ?d" "fault w1 = fault w"
      and "fault w = (\<lambda>_. False) \<longrightarrow> \<not> usableKey ?d ?M ?C k" for w1
  proof -
    from Cons.IH [OF that(1)] that(2,3) obtain read where r: "committed w' = ?d" "fault w' = fault w" "subseq read ks"
      "fault w = (\<lambda>_. False) \<longrightarrow> read = ks" "collected ?d provider call read call'"
      by auto
    show ?thesis
    proof (cases "fault w = (\<lambda>_. False)")
      case True
      with r collected_skip [OF r(5)] that(4) show ?thesis by (intro conjI exI [of _ "k # read"]) simp_all
    next
      case False
      with r show ?thesis by (intro conjI exI [of _ read]) auto
    qed
  qed
  show ?case
  proof (cases "kr_enabled k \<and> kr_status k = ''active''")
    case False
    then show ?thesis using Cons.prems by (intro skip [of w]) (auto simp: usableKey_def)
  next
    case on: True
    note run = Cons.prems [unfolded resolveKeys.simps bnd_def db_read_run]
    show ?thesis
    proof (cases "fault w (fault_n w) \<or> find (\<lambda>b. kb_key b = kr_id k) (key_billings ?d) = None")
      case True
      with run on show ?thesis
        by (intro skip [of "tick w"]; cases "fault w (fault_n w)") (auto simp: usableKey_def tick_def split: option.splits)
    next
      case False
      then obtain b where b: "\<not> fault w (fault_n w)" "find (\<lambda>b. kb_key b = kr_id k) (key_billings ?d) = Some b" by auto
      show ?thesis
      proof (cases "kb_status b = ''active''")
        case False
        with run on b show ?thesis by (intro skip [of "tick w"]) (auto simp: usableKey_def tick_def)
      next
        case active: True
        let ?prices = "providerPricesOf ?M (kr_id k) ?d"
        have second: "\<not> fault w (Suc (fault_n w))"
          using run on b active by (auto simp: tick_def ret_def split: if_splits)
        show ?thesis
        proof (cases "pricesCoverMetrics ?prices ?C")
          case False
          with run on b active second show ?thesis
            by (intro skip [of "tick (tick w)"]) (auto simp: usableKey_def tick_def)
        next
          case True
          then have usable: "usableKey ?d ?M ?C k" using on b active by (simp add: usableKey_def)
          let ?call = "call\<lparr>cl_targets := cl_targets call @ [targetOf provider (cl_provider_model call) k],
            cl_payments := (cl_payments call)(kr_id k := keyPayment ?d ?M (kr_id k))\<rparr>"
          have "resolveKeys provider ks ?call (tick (tick w)) = (Val (None, call'), w')"
            using run on b active second True by (simp add: tick_def keyPayment_def)
          from Cons.IH [OF this] obtain read where "committed w' = ?d" "fault w' = fault w" "subseq read ks"
            "fault w = (\<lambda>_. False) \<longrightarrow> read = ks" "collected ?d provider ?call read call'"
            by (auto simp: tick_def)
          then show ?thesis
            using collected_take [OF _ usable] by (intro conjI exI [of _ "k # read"]) auto
        qed
      qed
    qed
  qed
qed

lemma stores_run:
  "storesProvider api i w = (Val x, w') \<Longrightarrow> committed w' = committed w \<and> fault w' = fault w \<and>
     (\<forall>p. x = Inr p \<longrightarrow> cfg_provider api i (config_state (committed w)) = Some p)"
  "storesKeys api i w = (Val y, w') \<Longrightarrow> committed w' = committed w \<and> fault w' = fault w \<and>
     (\<forall>ks. y = Inr ks \<longrightarrow> ks = cfg_keys api i (config_state (committed w)))"
proof -
  assume run: "storesProvider api i w = (Val x, w')"
  from wlpD [OF wlp_storesProvider run] movesD [OF steady_gateway(3) run]
  show "committed w' = committed w \<and> fault w' = fault w \<and>
     (\<forall>p. x = Inr p \<longrightarrow> cfg_provider api i (config_state (committed w)) = Some p)"
    by (auto simp: steady_def)
next
  assume run: "storesKeys api i w = (Val y, w')"
  from wlpD [OF wlp_storesKeys run] movesD [OF steady_gateway(4) run]
  show "committed w' = committed w \<and> fault w' = fault w \<and>
     (\<forall>ks. y = Inr ks \<longrightarrow> ks = cfg_keys api i (config_state (committed w)))"
    by (auto simp: steady_def)
qed

text \<open>The cheapest of the usable keys among \<open>read\<close>, in their order.\<close>

definition cheapestKeys :: "'c way_db \<Rightarrow> string \<Rightarrow> price_row list \<Rightarrow> key_record list \<Rightarrow> key_record list" where
  "cheapestKeys d modelID customer read =
     filter (\<lambda>k. usableKey d modelID customer k \<and> (\<forall>k' \<in> set read. usableKey d modelID customer k' \<longrightarrow>
        priceVector (providerPricesOf modelID (kr_id k) d) \<le> priceVector (providerPricesOf modelID (kr_id k') d))) read"

lemma cheapest_of_collected:
  assumes "\<forall>k \<in> set read. usableKey d modelID customer k \<longrightarrow> payments (kr_id k) = keyPayment d modelID (kr_id k)"
  shows "cheapestTargets (map (targetOf p pm) (filter (usableKey d modelID customer) read)) payments =
    map (targetOf p pm) (cheapestKeys d modelID customer read)"
proof -
  have prices: "pricesOf payments (targetOf p pm k) = providerPricesOf modelID (kr_id k) d"
    if "k \<in> set read" "usableKey d modelID customer k" for k
    using assms that by (auto simp: pricesOf_def targetOf_def keyPayment_def usableKey_def split: option.splits)
  let ?f = "\<lambda>k. \<forall>u \<in> set (map (targetOf p pm) (filter (usableKey d modelID customer) read)).
      priceVector (pricesOf payments (targetOf p pm k)) \<le> priceVector (pricesOf payments u)"
  have "filter ?f (filter (usableKey d modelID customer) read) = cheapestKeys d modelID customer read"
    unfolding cheapestKeys_def filter_filter by (rule filter_cong [OF HOL.refl]) (auto simp: prices)
  then show ?thesis unfolding cheapestTargets_filter filter_map o_def by simp
qed

text \<open>
  The contract: what a call without an error is, relative to the database that was read. \<open>read\<close> are the
  keys whose billing row could be read, all of the provider's if \<open>all_read\<close>.
\<close>

definition resolved ::
  "'c config_api \<Rightarrow> string \<Rightarrow> string \<Rightarrow> 'c way_db \<Rightarrow> bool \<Rightarrow> resolved_call \<Rightarrow> bool" where
  "resolved api modelName productID d all_read call \<longleftrightarrow>
     cl_public call = modelName \<and> cl_product call = productID \<and>
     (\<exists>m provider read. find (\<lambda>m. sd_name m = modelName \<and> sd_status m = ''active'') (sync_models d) = Some m \<and>
        cl_model call = sd_id m \<and> cl_provider call = sd_provider m \<and> cl_provider_model call = sd_provider_model m \<and>
        cl_customer call = modelPricesOf (sd_id m) d \<and>
        cfg_provider api (sd_provider m) (config_state d) = Some provider \<and> pv_status provider = ''active'' \<and>
        subseq read (cfg_keys api (sd_provider m) (config_state d)) \<and>
        (all_read \<longrightarrow> read = cfg_keys api (sd_provider m) (config_state d)) \<and>
        cl_targets call \<noteq> [] \<and>
        cl_targets call = map (targetOf provider (sd_provider_model m)) (cheapestKeys d (sd_id m) (cl_customer call) read) \<and>
        (\<forall>k \<in> set read. usableKey d (sd_id m) (cl_customer call) k \<longrightarrow>
           cl_payments call (kr_id k) = keyPayment d (sd_id m) (kr_id k)))"

lemma cheapest_nonempty: "ts \<noteq> [] \<Longrightarrow> cheapestTargets ts ps \<noteq> []"
  by (cases "length ts < 2") (auto simp: cheapestTargets_def Let_def)

lemma collected_resolved:
  assumes "find (\<lambda>m. sd_name m = modelName \<and> sd_status m = ''active'') (sync_models d) = Some m"
    and "cfg_provider api (sd_provider m) (config_state d) = Some provider" and "pv_status provider = ''active''"
    and "subseq read (cfg_keys api (sd_provider m) (config_state d))"
    and "all_read \<longrightarrow> read = cfg_keys api (sd_provider m) (config_state d)"
    and "collected d provider (emptyCall productID modelName t
        \<lparr>cl_model := sd_id m, cl_provider := sd_provider m, cl_provider_model := sd_provider_model m,
         cl_customer := modelPricesOf (sd_id m) d\<rparr>) read call"
    and "cl_targets call \<noteq> []"
  shows "resolved api modelName productID d all_read (call\<lparr>cl_targets := cheapestTargets (cl_targets call) (cl_payments call)\<rparr>)"
proof -
  let ?C = "modelPricesOf (sd_id m) d"
  have fields: "cl_public call = modelName" "cl_product call = productID" "cl_model call = sd_id m"
    "cl_provider call = sd_provider m" "cl_provider_model call = sd_provider_model m" "cl_customer call = ?C"
    and targets: "cl_targets call = map (targetOf provider (sd_provider_model m)) (filter (usableKey d (sd_id m) ?C) read)"
    and pay: "\<forall>k \<in> set read. usableKey d (sd_id m) ?C k \<longrightarrow> cl_payments call (kr_id k) = keyPayment d (sd_id m) (kr_id k)"
    using assms(6) by (auto simp: collected_def sameRequest_def emptyCall_def)
  have "cheapestKeys d (sd_id m) ?C read \<noteq> []"
    using cheapest_nonempty [OF assms(7), of "cl_payments call"] by (simp add: targets cheapest_of_collected [OF pay])
  then show ?thesis
    unfolding resolved_def
    using assms(1-5) fields pay
    by (intro conjI exI [of _ m] exI [of _ provider] exI [of _ read]) (simp_all add: targets cheapest_of_collected)
qed

lemma resolveKeys_last:
  "bnd (resolveKeys provider keys c) (\<lambda>(err, call).
         case err of
           Some e \<Rightarrow> ret (Some e, call)
         | None \<Rightarrow>
             if cl_targets call = [] then ret (Some NoRows, call)
             else ret (None, call\<lparr>cl_targets := cheapestTargets (cl_targets call) (cl_payments call)\<rparr>)) w =
     (Val (None, call), w') \<longleftrightarrow>
   (\<exists>call'. resolveKeys provider keys c w = (Val (None, call'), w') \<and> cl_targets call' \<noteq> [] \<and>
      call = call'\<lparr>cl_targets := cheapestTargets (cl_targets call') (cl_payments call')\<rparr>)"
  by (auto simp: bnd_Val ret_Val split: option.splits if_splits)

lemma case_sum_Val:
  "(case x of Inl e \<Rightarrow> f e | Inr b \<Rightarrow> g b) w = (Val y, w') \<longleftrightarrow>
     (\<exists>e. x = Inl e \<and> f e w = (Val y, w')) \<or> (\<exists>b. x = Inr b \<and> g b w = (Val y, w'))"
  by (cases x) auto

lemma resolveCall_run:
  assumes "resolveCall api modelName productID w = (Val (None, call), w')"
  shows "committed w' = committed w \<and> resolved api modelName productID (committed w) (fault w = (\<lambda>_. False)) call"
proof -
  let ?d = "committed w" and ?w = "tick (tick w)"
  let ?call = "\<lambda>m. emptyCall productID modelName (now w)\<lparr>cl_model := sd_id m, cl_provider := sd_provider m,
      cl_provider_model := sd_provider_model m, cl_customer := modelPricesOf (sd_id m) ?d\<rparr>"
  from assms obtain m provider w1 keys w2 call' where
    m: "modelRow modelName ?d = Some m" and p: "storesProvider api (sd_provider m) ?w = (Val (Inr provider), w1)"
    and active: "pv_status provider = ''active''" and k: "storesKeys api (sd_provider m) w1 = (Val (Inr keys), w2)"
    and r: "resolveKeys provider keys (?call m) w2 = (Val (None, call'), w')" and some: "cl_targets call' \<noteq> []"
    and call: "call = call'\<lparr>cl_targets := cheapestTargets (cl_targets call') (cl_payments call')\<rparr>"
    unfolding resolveCall_def Let_def bnd_gets
    by (auto simp: bnd_Val [of "db_exec q" for q] bnd_Val [of "storesProvider api i" for i] bnd_Val [of "storesKeys api i" for i]
        db_read_run ret_Val resolveKeys_last case_sum_Val split: option.splits if_splits)
  note p' = stores_run(1) [OF p] and k' = stores_run(2) [OF k] and r' = resolveKeys_run [OF r]
  from p' k' have cfg: "cfg_provider api (sd_provider m) (config_state ?d) = Some provider"
    "keys = cfg_keys api (sd_provider m) (config_state ?d)" "committed w2 = ?d" "fault w2 = fault w"
    by (auto simp: tick_def)
  from r' obtain read where "committed w' = ?d" "subseq read keys" "fault w = (\<lambda>_. False) \<longrightarrow> read = keys"
    "collected ?d provider (?call m) read call'" by (auto simp: cfg)
  then show ?thesis
    unfolding call using m cfg active some
    by (intro conjI collected_resolved [where read = read]) (simp_all add: modelRow_def)
qed

lemma resolved_keys:
  assumes "resolved api modelName productID d all_read call"
  obtains p read where "subseq read (cfg_keys api (cl_provider call) (config_state d))"
    "cl_targets call = map (targetOf p (cl_provider_model call)) (cheapestKeys d (cl_model call) (cl_customer call) read)"
    "\<forall>k \<in> set read. usableKey d (cl_model call) (cl_customer call) k \<longrightarrow>
       cl_payments call (kr_id k) = keyPayment d (cl_model call) (kr_id k)"
proof -
  from assms obtain m p read where "find (\<lambda>m. sd_name m = modelName \<and> sd_status m = ''active'') (sync_models d) = Some m"
      "cl_model call = sd_id m" "cl_provider call = sd_provider m"
      "cl_provider_model call = sd_provider_model m"
      "subseq read (cfg_keys api (sd_provider m) (config_state d))"
      "cl_targets call = map (targetOf p (sd_provider_model m)) (cheapestKeys d (sd_id m) (cl_customer call) read)"
      "\<forall>k \<in> set read. usableKey d (sd_id m) (cl_customer call) k \<longrightarrow>
         cl_payments call (kr_id k) = keyPayment d (sd_id m) (kr_id k)"
    unfolding resolved_def by (elim conjE exE) (rule that, assumption+)
  then show ?thesis by (intro that [of read p]) simp_all
qed

lemma selected_resolved:
  assumes "resolved api modelName productID d all_read call" and "selected call key = Some call1"
  shows "\<exists>k b. k \<in> set (cfg_keys api (cl_provider call) (config_state d)) \<and> kr_id k = key \<and>
    usableKey d (cl_model call) (cl_customer call) k \<and> find (\<lambda>b. kb_key b = key) (key_billings d) = Some b \<and>
    cl_merchant call1 = kb_merchant b \<and> cl_commission call1 = providerPricesOf (cl_model call) key d \<and>
    et_credential (cl_target call1) = kr_api_key k"
proof -
  from assms(2) obtain t payment where t: "find (\<lambda>t. et_route t = key) (cl_targets call) = Some t"
    "cl_payments call key = Some payment" "call1 = call\<lparr>cl_key := key, cl_merchant := py_merchant payment,
       cl_target := t, cl_commission := py_prices payment\<rparr>"
    by (auto simp: selected_def split: option.splits)
  then have in_call: "t \<in> set (cl_targets call)" "et_route t = key" by (auto simp: find_Some_iff)
  from resolved_keys [OF assms(1)] obtain p read where r: "subseq read (cfg_keys api (cl_provider call) (config_state d))"
    "cl_targets call = map (targetOf p (cl_provider_model call)) (cheapestKeys d (cl_model call) (cl_customer call) read)"
    "\<forall>k \<in> set read. usableKey d (cl_model call) (cl_customer call) k \<longrightarrow>
       cl_payments call (kr_id k) = keyPayment d (cl_model call) (kr_id k)" .
  from in_call(1) r(2) obtain k where k: "k \<in> set read" "usableKey d (cl_model call) (cl_customer call) k"
    "t = targetOf p (cl_provider_model call) k" by (auto simp: cheapestKeys_def)
  from in_call(2) k(3) have id: "kr_id k = key" by (simp add: targetOf_def)
  with r(3) k t(2) have "keyPayment d (cl_model call) key = Some payment" by auto
  then obtain b where "find (\<lambda>b. kb_key b = key) (key_billings d) = Some b" "py_merchant payment = kb_merchant b"
    "py_prices payment = providerPricesOf (cl_model call) key d" by (auto simp: keyPayment_def)
  moreover have "k \<in> set (cfg_keys api (cl_provider call) (config_state d))"
    using r(1) k(1) set_nths_subset by (metis in_mono subseq_conv_nths)
  ultimately show ?thesis using id k(2,3) t(3) by (intro exI [of _ k] exI [of _ b]) (simp add: targetOf_def)
qed

text \<open>C21: Resolving a model name writes nothing. What it returns without an error is the active model
  of that name with its customer prices, at a provider that is active, and its targets are exactly the
  cheapest usable keys in the order of the Config Store: keys of this provider that are enabled and
  active, whose billing row is active and whose prices cover all metrics that customers pay, and that no
  other such key undercuts in the exact price per unit, metric by metric. (A key whose billing row
  cannot be read is left out; without failing statements none is.) Whichever of the targets Bifrost then
  selects, its credential is that of the key's record in the Config Store, and the commission goes to
  the merchant of that key's billing row, at that key's prices.\<close>

theorem resolveCall_sound:
  assumes "resolveCall api modelName productID w = (Val (None, call), w')"
  shows "committed w' = committed w \<and>
     resolved api modelName productID (committed w) (fault w = (\<lambda>_. False)) call \<and>
     (\<forall>key call1. selected call key = Some call1 \<longrightarrow>
       (\<exists>k b. k \<in> set (cfg_keys api (cl_provider call) (config_state (committed w))) \<and> kr_id k = key \<and>
          usableKey (committed w) (cl_model call) (cl_customer call) k \<and>
          find (\<lambda>b. kb_key b = key) (key_billings (committed w)) = Some b \<and>
          cl_merchant call1 = kb_merchant b \<and> cl_commission call1 = providerPricesOf (cl_model call) key (committed w) \<and>
          et_credential (cl_target call1) = kr_api_key k))"
  using resolveCall_run [OF assms] selected_resolved [of api modelName productID "committed w" _ call] by blast

text \<open>The example: a model with a key that has been disabled, one for 4 per token and one for 30 per 10.\<close>

definition demo_key :: "string \<Rightarrow> bool \<Rightarrow> key_record" where
  "demo_key i on = \<lparr> kr_id = i, kr_provider = ''p'', kr_name = i, kr_api_key = ''s'' @ i, kr_status = ''active'',
     kr_weight = 1, kr_enabled = on \<rparr>"

definition demo_billing :: "string \<Rightarrow> key_billing" where
  "demo_billing i = \<lparr> kb_key = i, kb_issuer = ''iss'', kb_subject = ''sub'', kb_merchant = ''m'' @ i, kb_name = i,
     kb_last_used_at = None, kb_earned = 0, kb_status = ''active'', kb_created_at = 1, kb_updated_at = 1 \<rparr>"

definition demo_market_api :: "unit config_api" where
  "demo_market_api = \<lparr> cfg_provider = (\<lambda>i _. Some \<lparr> pv_id = i, pv_name = ''P'', pv_kind = ''openai'', pv_base_url = ''u'',
       pv_status = ''active'', pv_created_at = 1 \<rparr>),
     cfg_providers = (\<lambda>_. []), cfg_key = (\<lambda>_ _ _. None), cfg_keys = (\<lambda>_ _. [demo_key ''a'' False, demo_key ''c'' True, demo_key ''b'' True]),
     cfg_add_provider = (\<lambda>_. Some), cfg_update_provider = (\<lambda>_. Some), cfg_create_key = (\<lambda>_. Some),
     cfg_update_key = (\<lambda>_. Some) \<rparr>"

definition demo_market :: "unit way_db" where
  "demo_market = (empty_way ())\<lparr>
     sync_models := [\<lparr> sd_id = ''m1'', sd_provider = ''p'', sd_name = ''M'', sd_provider_model = ''pm'', sd_status = ''active'' \<rparr>],
     customer_prices := [\<lparr> mp_model = ''m1'', mp_row = \<lparr> pw_metric = ''input_tokens'', pw_unit = 10, pw_amount = 70 \<rparr> \<rparr>],
     key_billings := [demo_billing ''a'', demo_billing ''b'', demo_billing ''c''],
     stored_prices := map (\<lambda>(i, unit, amount). \<lparr> sx_key = i, sx_price = \<lparr> kp_model = ''m1'', kp_metric = ''input_tokens'',
        kp_unit = unit, kp_microcredits = amount \<rparr> \<rparr>) [(''a'', 10, 1), (''b'', 10, 30), (''c'', 1, 4)]\<rparr>"

definition demo_call :: resolved_call where
  "demo_call = snd (case fst (resolveCall demo_market_api ''M'' ''pr'' (demo_world demo_market)) of
     Val x \<Rightarrow> x | Reply _ \<Rightarrow> (None, emptyCall [] [] 0))"

lemma demo_resolves:
  "resolveCall demo_market_api ''M'' ''pr'' (demo_world demo_market) =
     (Val (None, demo_call), snd (resolveCall demo_market_api ''M'' ''pr'' (demo_world demo_market)))"
  "map et_route (cl_targets demo_call) = [''b'']" "map_option cl_merchant (selected demo_call ''b'') = Some ''mb''"
  "cl_customer demo_call = [\<lparr> pw_metric = ''input_tokens'', pw_unit = 10, pw_amount = 70 \<rparr>]"
  "map_option py_prices (cl_payments demo_call ''b'') = Some [\<lparr> pw_metric = ''input_tokens'', pw_unit = 10, pw_amount = 30 \<rparr>]"
  by (simp_all add: demo_call_def resolveCall_def demo_world_def demo_market_def demo_market_api_def run_simps
      emptyCall_def modelRow_def modelPricesOf_def storesProvider_def storesKeys_def configTransaction_def
      lockStatement_def readConfig_def demo_key_def demo_billing_def providerPricesOf_def pricesCoverMetrics_def
      cheapestTargets_def sliceStable_def comparePrices_def pricesOf_def threeWay_def targetOf_def empty_way_def
      selected_def Let_def)

theorem resolveCall_sound_witness:
  "resolved demo_market_api ''M'' ''pr'' demo_market True demo_call \<and> map et_route (cl_targets demo_call) = [''b''] \<and>
     map_option cl_merchant (selected demo_call ''b'') = Some ''mb''"
  using resolveCall_sound [OF demo_resolves(1)] demo_resolves(2,3) by (simp add: demo_world_def)

end
