(* ===== verification/WayAccess.thy ===== *)
theory WayAccess
  imports WayResolve
begin

section \<open>Access to the providers\<close>

text \<open>
  Two ways lead to a provider: a Subscription Key that the credit check admits, and a realtime secret.
  Without an admission a request changes nothing but the credit cache; a secret opens one socket.
\<close>

subsection \<open>Admission\<close>

definition admission :: "'c gateway_env \<Rightarrow> string \<Rightarrow> 'c gateway \<Rightarrow> (credit_error + credit_admission) \<times> credit_cache" where
  "admission env hm g =
     admit (ge_rivals env (calls_n g)) (ge_during env (calls_n g)) (now (region g))
       (checkCredit (ge_config env) (ge_check_decoders env) (ge_token env (calls_n g)) (ge_check env (calls_n g) hm))
       hm (credit g)"

lemma admitRequest_eq:
  "admitRequest env hm g =
     (Val (fst (admission env hm g)), g\<lparr>credit := snd (admission env hm g), calls_n := Suc (calls_n g)\<rparr>)"
  by (simp add: admitRequest_def bnd_def nowR_def onRegion_def gets_def nextCall_def onCredit_def admission_def
      split: prod.split)

lemma respond_admit:
  "respond (bnd (admitRequest env hm) f) g =
     respond (f (fst (admission env hm g))) (g\<lparr>credit := snd (admission env hm g), calls_n := Suc (calls_n g)\<rparr>)"
  by (simp add: respond_def bnd_def admitRequest_eq)

lemma admit_positive:
  "admit rivals during t result hm c = (Inr ad, c') \<Longrightarrow> ad_allowed ad \<Longrightarrow> \<exists>a. 0 < cs_available (credit_states c' a)"
proof (induction rivals during t result hm c rule: admit.induct)
  case (1 rivals during t result hm c)
  from "1.prems" show ?case
    by (subst (asm) admit.simps)
       (auto simp: admitEnter_def admitFinish_def snapshot_def setState_def Let_def
         split: prod.splits entry.splits option.splits if_splits sum.splits list.splits
         intro: "1.IH" exI)
qed

text \<open>C20: A request that is not a realtime socket reaches a provider only with credit. Either it is a
  supported request with one Subscription Key whose admission is allowed and shows a positive balance,
  and it is answered by the handler of its path; or it is answered 401, 402, 404 or 503 and the
  database, the execution log and the realtime sessions are as before, and at most the credit check
  has been called.\<close>

theorem protocol_requires_credit:
  assumes "\<not> (rq_method r = GET \<and> rq_path r = ''/openai/v1/realtime'')"
  shows "(\<exists>key ad a. supportedProtocolRequest r \<and> protocolSubscriptionKey r = Some key \<and>
       fst (admission env (ge_mac env key) g) = Inr ad \<and> ad_allowed ad \<and>
       0 < cs_available (credit_states (snd (admission env (ge_mac env key) g)) a) \<and>
       respond (protocolRequest env r sock) g = respond (dispatch env r (ge_mac env key) ad)
         (g\<lparr>credit := snd (admission env (ge_mac env key) g), calls_n := Suc (calls_n g)\<rparr>)) \<or>
     (\<exists>x g'. respond (protocolRequest env r sock) g = (x, g') \<and> status x \<in> {401, 402, 404, 503} \<and>
       region g' = region g \<and> executions g' = executions g \<and> realtime g' = realtime g \<and> sent g' = sent g \<and>
       calls_n g' \<le> Suc (calls_n g))"
proof (cases "supportedProtocolRequest r \<and> protocolSubscriptionKey r \<noteq> None")
  case False
  then show ?thesis
    using assms
    by (auto simp: protocolRequest_def respond_guard respond_Reply errorJSON_def writeJSON_def writeHeader_def)
next
  case True
  then obtain key where k: "supportedProtocolRequest r" "protocolSubscriptionKey r = Some key" by auto
  let ?a = "admission env (ge_mac env key) g"
  let ?g = "g\<lparr>credit := snd ?a, calls_n := Suc (calls_n g)\<rparr>"
  have run: "respond (protocolRequest env r sock) g = respond (case fst ?a of
       Inl e \<Rightarrow> reply (if e = InvalidSubscriptionKey
          then errorJSON 401 ''invalid_subscription_key'' ''Subscription Key is unknown or revoked''
          else errorJSON 503 ''credit_check_unavailable'' ''Credit Check unavailable'')
     | Inr ad \<Rightarrow>
     bnd (require (ad_allowed ad) (errorJSON 402 ''credit_denied'' ''Credit denied'')) (\<lambda>_.
     dispatch env r (ge_mac env key) ad)) ?g"
    using assms by (auto simp: protocolRequest_def respond_guard k respond_admit Let_def)
  show ?thesis
  proof (cases "fst ?a")
    case (Inl e)
    with run show ?thesis by (simp add: respond_Reply errorJSON_def writeJSON_def)
  next
    case (Inr ad)
    show ?thesis
    proof (cases "ad_allowed ad")
      case False
      with run Inr show ?thesis by (simp add: respond_guard errorJSON_def writeJSON_def)
    next
      case True
      with Inr obtain a where "0 < cs_available (credit_states (snd ?a) a)"
        using admit_positive by (metis admission_def surjective_pairing)
      with True run Inr k show ?thesis by (auto simp: respond_guard)
    qed
  qed
qed

subsection \<open>The identifiers of sessions\<close>

text \<open>
  A course of the gateway: sessions may end, and a new session has an identifier that was drawn on the
  way, or one of \<open>A\<close>, drawn before. Every handler goes along it with \<open>A\<close> empty.
\<close>

definition issues :: "string set \<Rightarrow> 'c gateway \<Rightarrow> 'c gateway \<Rightarrow> bool" where
  "issues A g g' \<longleftrightarrow>
     uuid (region g') = uuid (region g) \<and> uuid_n (region g) \<le> uuid_n (region g') \<and>
     (\<forall>i s. realtime g' i = Some s \<longrightarrow> realtime g i = Some s \<or> i \<in> A \<or>
        (\<exists>n. uuid_n (region g) \<le> n \<and> n < uuid_n (region g') \<and> i = ''rts_'' @ uuid (region g) n))"

interpretation issues: course "issues A" for A
proof
  show "issues A g g" for g by (simp add: issues_def)
  show "issues A g g''" if "issues A g g'" "issues A g' g''" for g g' g''
    using that unfolding issues_def by (metis (no_types, lifting) le_trans order_less_le_trans)
qed

lemma issues_onRegion [movesI]: "moves steady m \<Longrightarrow> moves (issues A) (onRegion m)"
  by (auto simp: moves_def onRegion_def issues_def steady_def split: prod.split) (metis snd_conv)+

lemma issues_simple [movesI]:
  "moves (issues A) (onCredit f)" "moves (issues A) nextCall" "moves (issues A) (writeEvents es)" "moves (issues A) (writeLog e)"
  "moves (issues A) (takeSession i x)" "moves (issues A) pruneRealtimeSessions" "moves (issues A) nowR"
  by (auto simp: moves_def onCredit_def nextCall_def writeEvents_def writeLog_def takeSession_def nowR_def
      pruneRealtimeSessions_def onRegion_def gets_def bnd_def issues_def split: prod.split option.split if_splits)

lemma steady_resolveKeys [movesI]: "moves steady (resolveKeys provider ks call)"
proof (induction ks arbitrary: call)
  case (Cons k ks)
  show ?case unfolding resolveKeys.simps by (rule movesI Cons.IH)+
qed (simp, rule movesI)

lemma steady_resolveCall [movesI]: "moves steady (resolveCall api m p)"
  unfolding resolveCall_def Let_def by (rule movesI)+

lemma issues_recordExecution [movesI]: "moves (issues A) (recordExecution call u g cm mode x st failed fp)"
  unfolding recordExecution_def by (rule movesI)+

lemma issues_drawAndComplete [movesI]: "moves (issues A) (drawAndComplete env hm call g cm u mode fp)"
  unfolding drawAndComplete_def completeCallLogged_def by (rule movesI)+

lemma issues_streamLoop [movesI]: "moves (issues A) (streamLoop marshal protocol cks st)"
  by (induction marshal protocol cks st rule: streamLoop.induct) (simp_all, (rule movesI | assumption)+)

lemma issues_chat [movesI]: "moves (issues A) (chat env r hm ad protocol)"
  unfolding chat_def streamChat_def callChat_def answerChat_def billChat_def billStream_def Let_def
  by (rule movesI)+

lemma issues_realtimeLoop [movesI]: "moves (issues A) (realtimeLoop env s turns)"
  by (induction turns) (auto split: socket_turn.split simp: terminate_def intro!: movesI)

lemma issues_realtimeSocket [movesI]: "moves (issues A) (realtimeSocket env r sock)"
  unfolding realtimeSocket_def failedExecution_def by (rule movesI)+

text \<open>A session is stored under an identifier drawn before.\<close>

lemma issues_storeSession: "i \<in> A \<Longrightarrow> moves (issues A) (storeSession i s)"
  by (auto simp: moves_def storeSession_def issues_def)

lemma issues_newUUID:
  fixes f :: "string \<Rightarrow> ('c gateway, 'a) act"
  assumes "\<And>u. moves (issues (insert (''rts_'' @ u) A)) (f u)"
  shows "moves (issues A) (bnd (onRegion newUUID) f)"
  unfolding moves_def
proof
  fix g :: "'c gateway"
  let ?u = "uuid (region g) (uuid_n (region g))" and ?g = "g\<lparr>region := (region g)\<lparr>uuid_n := Suc (uuid_n (region g))\<rparr>\<rparr>"
  obtain g' where g': "snd (f ?u ?g) = g'" by simp
  have step: "issues (insert (''rts_'' @ ?u) A) ?g g'"
    using assms [of ?u] unfolding g' [symmetric] by (simp add: moves_def)
  have run: "snd (bnd (onRegion newUUID) f g) = g'"
    by (simp add: bnd_def onRegion_def newUUID_def g')
  have "realtime g i = Some x \<or> i \<in> A \<or>
      (\<exists>n. uuid_n (region g) \<le> n \<and> n < uuid_n (region g') \<and> i = ''rts_'' @ uuid (region g) n)"
    if "realtime g' i = Some x" for i x
  proof (cases "i = ''rts_'' @ ?u")
    case True
    with step show ?thesis by (auto simp: issues_def)
  next
    case False
    with step that have "realtime g i = Some x \<or> i \<in> A \<or>
      (\<exists>n. Suc (uuid_n (region g)) \<le> n \<and> n < uuid_n (region g') \<and> i = ''rts_'' @ uuid (region g) n)"
      by (simp add: issues_def) blast
    then show ?thesis by (auto dest: Suc_leD)
  qed
  with step show "issues A g (snd (bnd (onRegion newUUID) f g))"
    unfolding run by (simp add: issues_def)
qed

lemma issues_createRealtimeSecret [movesI]: "moves (issues A) (createRealtimeSecret env r hm ad)"
  unfolding createRealtimeSecret_def Let_def
  by (rule issues_newUUID issues_storeSession insertI1 insertI2 movesI)+

lemma issues_protocolRequest [movesI]: "moves (issues A) (protocolRequest env r sock)"
  unfolding protocolRequest_def admitRequest_def dispatch_def listModels_def Let_def
  by (rule movesI)+

subsection \<open>Runs\<close>

text \<open>
  Requests, the relaying of sockets that were opened before, pruning by the worker, and whatever the
  other surfaces, the worker and the clock do to the region and other requests to the credit cache.
\<close>

inductive gateway_runs :: "'c gateway_env \<Rightarrow> 'c gateway \<Rightarrow> 'c gateway \<Rightarrow> bool" for env g where
  start: "gateway_runs env g g"
| request: "gateway_runs env g g' \<Longrightarrow> gateway_runs env g (snd (respond (protocolRequest env r sock) g'))"
| relay: "gateway_runs env g g' \<Longrightarrow> gateway_runs env g (snd (realtimeLoop env s turns g'))"
| prune: "gateway_runs env g g' \<Longrightarrow> gateway_runs env g (snd (pruneRealtimeSessions g'))"
| elsewhere: "gateway_runs env g g' \<Longrightarrow> uuid w = uuid (region g') \<Longrightarrow> uuid_n (region g') \<le> uuid_n w \<Longrightarrow>
    gateway_runs env g (g'\<lparr>region := w, credit := c\<rparr>)"

lemma gateway_issues: "gateway_runs env g g' \<Longrightarrow> issues {} g g'"
proof (induction rule: gateway_runs.induct)
  case start
  show ?case by (rule issues.refl)
next
  case (request g' r sock)
  then show ?case by (elim issues.trans) (rule moves_respond [OF issues_protocolRequest])
next
  case (relay g' s turns)
  show ?case by (rule issues.trans [OF relay.IH]) (rule movesD [OF issues_realtimeLoop], rule surjective_pairing)
next
  case (prune g')
  show ?case by (rule issues.trans [OF prune.IH]) (rule movesD [OF issues_simple(6)], rule surjective_pairing)
next
  case (elsewhere g' w c)
  have "issues {} g' (g'\<lparr>region := w, credit := c\<rparr>)" using elsewhere.hyps by (simp add: issues_def)
  with elsewhere.IH show ?case by (rule issues.trans)
qed

lemma takeSession_Some:
  assumes "takeSession i secret g = (Val (Some s), g')"
  shows "realtime g i = Some s" "secret = rs_secret s" "now (region g) < rs_expires s"
    "g' = g\<lparr>realtime := (realtime g)(i := None)\<rparr>"
  using assms by (auto simp: takeSession_def bnd_def nowR_def onRegion_def gets_def split: option.splits if_splits)

lemma takeSession_None: "realtime g i = None \<Longrightarrow> takeSession i secret g = (Val None, g)"
  by (simp add: takeSession_def bnd_def nowR_def onRegion_def gets_def)

text \<open>C22: A realtime secret opens one socket. Once a socket has taken a session, no request for the
  same session identifier is ever accepted again, whatever secret it has and whatever else the
  gateway does in between: it is answered 401 and changes nothing. (Identifiers are random UUIDs, so
  none is drawn twice.)\<close>

theorem realtime_secret_single_use:
  assumes "gateway_runs env g0 g" and "realtime g0 = (\<lambda>_. None)" and "inj (uuid (region g0))"
    and "takeSession i secret g = (Val (Some s), g1)" and "gateway_runs env g1 g2"
    and "query_value r ''session_id'' = i"
  shows "respond (realtimeSocket env r sock) g2 =
    (errorJSON 401 ''invalid_realtime_secret'' ''invalid realtime secret'', g2)"
proof -
  note t = takeSession_Some [OF assms(4)]
  from gateway_issues [OF assms(1)] t(1) assms(2)
  obtain n where n: "n < uuid_n (region g)" "i = ''rts_'' @ uuid (region g) n" "uuid (region g) = uuid (region g0)"
    by (auto simp: issues_def)
  from gateway_issues [OF assms(5)] t(4)
  have "realtime g2 i = None \<or> (\<exists>m \<ge> uuid_n (region g). i = ''rts_'' @ uuid (region g) m)"
    by (cases "realtime g2 i") (auto simp: issues_def split: if_splits)
  with n assms(3) have "realtime g2 i = None" by (auto dest: injD)
  then show ?thesis
    by (simp add: realtimeSocket_def assms(6) respond_def bnd_def takeSession_None reply_def)
qed

end
