(* ===== verification/WayExamples.thy ===== *)
theory WayExamples
  imports WayAccess
begin

section \<open>A small region\<close>

text \<open>
  The gateway on which the theorems about calls and sessions are run: the market of \<open>WayResolve\<close>, a
  client with a cached credit of 1000, and a provider that answers one call with 20 input tokens.
\<close>

definition demo_usage :: llm_usage where
  "demo_usage = \<lparr> prompt_tokens = 20, completion_tokens = 0, total_tokens = 20 \<rparr>"

definition demo_answer :: bifrost_response where
  "demo_answer = \<lparr> br_id = ''r'', br_model = ''pm'', br_choices = [], br_usage = Some demo_usage, br_key = ''b'' \<rparr>"

definition demo_env :: "unit gateway_env" where
  "demo_env = \<lparr> ge_config = \<lparr> wc_token_source = False, wc_gizpay_url = [], wc_token = (\<lambda>_. True),
       wc_url_ok = (\<lambda>_. True), wc_batch = 20, wc_abandon_after = 0 \<rparr>,
     ge_api = demo_market_api, ge_mac = (\<lambda>k. k), ge_token = (\<lambda>_. False), ge_check = (\<lambda>_ _. NoAnswer),
     ge_check_decoders = \<lparr> cd_failure = (\<lambda>_. None), cd_check = (\<lambda>_. None) \<rparr>,
     ge_rivals = (\<lambda>_. []), ge_during = (\<lambda>_ c. c),
     ge_chat = (\<lambda>_ _. Inr demo_answer),
     ge_stream = (\<lambda>_ _. Inr [None, Some \<lparr> sc_response = Some demo_answer, sc_error = None \<rparr>]),
     ge_route = (\<lambda>_ _. Some (''wss'', ''b'')), ge_marshal = (\<lambda>_. JStr ''answer''), ge_marshal_chunk = (\<lambda>_. JStr ''chunk''),
     ge_decoders = \<lparr> gd_chat = (\<lambda>_. None), gd_gemini = (\<lambda>_. None), gd_stream_options = (\<lambda>_. None),
       gd_realtime = (\<lambda>_. Some (''M'', ''websocket'')) \<rparr>,
     ge_size = (\<lambda>_. 10), ge_ttl = 60 \<rparr>"

definition demo_admission :: credit_admission where
  "demo_admission = \<lparr> ad_account = ''a1'', ad_subscription = ''s'', ad_subscription_key = ''k'', ad_product = ''pr'',
     ad_billing = ''pay_as_you_go'', ad_issuer = ''iss'', ad_subject = ''sub1'', ad_allowed = True \<rparr>"

definition demo_cache :: credit_cache where
  "demo_cache = empty_cache\<lparr>credits := [''key'' \<mapsto> 0],
     credit_states := (\<lambda>_. \<lparr> cs_admission = demo_admission, cs_available = 1000, cs_expires = 500, cs_loading = False, cs_wait = 0 \<rparr>),
     states_n := 1\<rparr>"

definition demo_gateway :: "unit gateway" where
  "demo_gateway = \<lparr> region = demo_world demo_market, credit = demo_cache, executions = [], log_fault = (\<lambda>_. False),
     log_n = 0, realtime = (\<lambda>_. None), calls_n = 0, sent = [] \<rparr>"

definition demo_http :: "string \<Rightarrow> string \<Rightarrow> string \<Rightarrow> http_request" where
  "demo_http key path failpoint = \<lparr> rq_method = POST, rq_path = path,
     rq_header = (\<lambda>h. if h = ''x-api-key'' then key else if h = ''X-Gizway-Test-Failpoint'' then failpoint else []),
     query_value = (\<lambda>_. []), path_value = (\<lambda>_. []), rq_body = [] \<rparr>"

definition demo_socket :: socket where
  "demo_socket = \<lparr> so_refused = None, so_dialed = False, so_turns = [] \<rparr>"

definition demo_input :: chat_input where
  "demo_input = \<lparr> ci_targets = cl_targets demo_call, ci_messages = [],
     ci_parameters = \<lparr> cp_max_tokens = None, cp_temperature = None, cp_top_p = None, cp_top_k = None, cp_stop = [],
       cp_stream_options = None, cp_extra = [] \<rparr>, ci_headers = [] \<rparr>"

definition demo_selected :: resolved_call where
  "demo_selected = the (selected demo_call ''b'')"

lemma demo_selects:
  "selected demo_call ''b'' = Some demo_selected"
  "cl_customer demo_selected = [\<lparr> pw_metric = ''input_tokens'', pw_unit = 10, pw_amount = 70 \<rparr>]"
  "cl_commission demo_selected = [\<lparr> pw_metric = ''input_tokens'', pw_unit = 10, pw_amount = 30 \<rparr>]"
proof -
  obtain c where c: "selected demo_call ''b'' = Some c" using demo_resolves(3) by auto
  then show "selected demo_call ''b'' = Some demo_selected" by (simp add: demo_selected_def)
  show "cl_customer demo_selected = [\<lparr> pw_metric = ''input_tokens'', pw_unit = 10, pw_amount = 70 \<rparr>]"
    using c demo_resolves(4) by (auto simp: demo_selected_def selected_def split: option.splits)
  show "cl_commission demo_selected = [\<lparr> pw_metric = ''input_tokens'', pw_unit = 10, pw_amount = 30 \<rparr>]"
    using c demo_resolves(5) by (auto simp: demo_selected_def selected_def split: option.splits)
qed

lemma demo_rated:
  "ratedUsage (Some demo_usage) (cl_customer demo_selected) (cl_commission demo_selected) = Some (Inr (140, 60))"
proof -
  have "rate demo_usage [\<lparr> pw_metric = ''input_tokens'', pw_unit = 10, pw_amount = a \<rparr>] = Some (Inr (2 * a))"
    if "a = 70 \<or> a = 30" for a
    using that rateFrom_eq [of demo_usage "[\<lparr> pw_metric = ''input_tokens'', pw_unit = 10, pw_amount = a \<rparr>]" 0]
    by (auto simp: rate_def demo_usage_def ratable_def rowCost_def metricUnits_def validMetric_def max_int64_def)
  then show ?thesis by (simp add: ratedUsage_def demo_selects)
qed

lemma demo_hyps:
  "publicChatResponse (ge_marshal demo_env) ''openai'' r m = Some (JStr ''answer'')"
  "ge_chat demo_env n input = Inr demo_answer"
  "ge_stream demo_env n input = Inr [None, Some \<lparr> sc_response = Some demo_answer, sc_error = None \<rparr>]"
  "selected demo_call (br_key demo_answer) = Some demo_selected"
  "ratedUsage (br_usage demo_answer) (cl_customer demo_selected) (cl_commission demo_selected) = Some (Inr (140, 60))"
  "testFailpoint (demo_http k path fp) = fp"
  by (simp_all add: publicChatResponse_def demo_env_def demo_selects(1) demo_rated demo_answer_def testFailpoint_def
      demo_http_def)




lemma failpoint_skips_billing_witness:
  "\<exists>g'. respond (callChat demo_env (demo_http ''key'' ''/openai/v1/chat/completions'' ''rating_failure'') ''key''
       demo_call demo_input ''openai'' ''M'') demo_gateway = (writeJSON 200 (JStr ''answer''), g') \<and>
     sameOrders (committed (region demo_gateway)) (committed (region g')) \<and> credit g' = credit demo_gateway"
  by (rule failpoint_skips_billing [OF demo_hyps(2,1,4,6)])


text \<open>A request without credit, and a session that has been used.\<close>

theorem protocol_requires_credit_witness:
  "\<exists>x g'. respond (protocolRequest demo_env (demo_http ''stranger'' ''/openai/v1/chat/completions'' []) demo_socket) demo_gateway = (x, g') \<and>
     status x \<in> {401, 402, 404, 503} \<and> region g' = region demo_gateway \<and> executions g' = executions demo_gateway \<and>
     realtime g' = realtime demo_gateway \<and> sent g' = sent demo_gateway \<and> calls_n g' \<le> Suc (calls_n demo_gateway)"
proof -
  have "fst (admission demo_env (ge_mac demo_env ''stranger'') demo_gateway) = Inl CheckFailed"
    by (simp add: admission_def demo_env_def demo_gateway_def demo_cache_def empty_cache_def admit.simps admitEnter_def
        admitFinish_def checkCredit_def setState_def Let_def)
  moreover have "protocolSubscriptionKey (demo_http ''stranger'' ''/openai/v1/chat/completions'' []) = Some ''stranger''"
    by (simp add: protocolSubscriptionKey_def subscriptionKeys_def demo_http_def cutPrefix_def hasPrefix_def)
  moreover have "\<not> (rq_method (demo_http ''stranger'' ''/openai/v1/chat/completions'' []) = GET \<and>
      rq_path (demo_http ''stranger'' ''/openai/v1/chat/completions'' []) = ''/openai/v1/realtime'')"
    by (simp add: demo_http_def)
  ultimately show ?thesis
    using protocol_requires_credit [of "demo_http ''stranger'' ''/openai/v1/chat/completions'' []" demo_env demo_gateway demo_socket]
    by auto
qed

definition demo_opened :: "unit gateway" where
  "demo_opened = snd (respond (protocolRequest demo_env (demo_http ''key'' ''/openai/v1/realtime/client_secrets'' [])
     demo_socket) demo_gateway)"

lemma demo_resolved_world:
  "snd (resolveCall demo_market_api ''M'' ''pr'' (demo_world demo_market)) = (demo_world demo_market)\<lparr>fault_n := 14\<rparr>"
  by (simp add: resolveCall_def demo_world_def demo_market_def demo_market_api_def run_simps
      emptyCall_def modelRow_def modelPricesOf_def storesProvider_def storesKeys_def configTransaction_def
      lockStatement_def readConfig_def demo_key_def demo_billing_def providerPricesOf_def pricesCoverMetrics_def
      cheapestTargets_def sliceStable_def comparePrices_def pricesOf_def threeWay_def targetOf_def empty_way_def selected_def Let_def)

lemma selected_applyTo: "selected (applyTo ad call) k = map_option (applyTo ad) (selected call k)"
  by (simp add: selected_def applyTo_def split: option.split)

lemma demo_admitted: "admission demo_env ''key'' demo_gateway = (Inr demo_admission, demo_cache)"
  by (simp add: admission_def demo_env_def demo_gateway_def demo_cache_def demo_world_def admit.simps admitEnter_def
      snapshot_def demo_admission_def Let_def)

lemma wp_run: "m w = (Val a, w') \<Longrightarrow> wp m Q R w = Q a w'"
  by (simp add: wp_def)

lemma demo_session:
  "realtime demo_opened = [''rts_'' \<mapsto> \<lparr> rs_secret = ''rtk_iii'', rs_hmac = ''key'', rs_url = ''wss'',
     rs_call = applyTo demo_admission demo_selected, rs_expires = 160 \<rparr>]"
  "now (region demo_opened) = 100"
proof -
  let ?r = "demo_http ''key'' ''/openai/v1/realtime/client_secrets'' []"
  have r: "supportedProtocolRequest ?r" "protocolSubscriptionKey ?r = Some ''key''" "rq_method ?r = POST"
    "rq_path ?r = ''/openai/v1/realtime/client_secrets''" "ge_mac demo_env ''key'' = ''key''"
    "gd_realtime (ge_decoders demo_env) b = Some (''M'', ''websocket'')" "ge_api demo_env = demo_market_api"
    "ge_route demo_env n ts = Some (''wss'', ''b'')" "ge_ttl demo_env = 60" "ad_allowed demo_admission"
    "ad_product demo_admission = ''pr''" for b n ts
    by (simp_all add: supportedProtocolRequest_def protocolSubscriptionKey_def subscriptionKeys_def demo_http_def
        cutPrefix_def hasPrefix_def demo_env_def demo_admission_def)
  have g: "region demo_gateway = demo_world demo_market" "realtime demo_gateway = (\<lambda>_. None)"
    "geminiModelOperation ''/openai/v1/realtime/client_secrets'' = None"
    by (simp_all add: demo_gateway_def geminiModelOperation_def cutPrefix_def hasPrefix_def)
  have res: "resolveCall demo_market_api ''M'' ''pr'' (demo_world demo_market) =
      (Val (None, demo_call), (demo_world demo_market)\<lparr>fault_n := 14\<rparr>)"
    using demo_resolves(1) by (simp add: demo_resolved_world)
  let ?s = "\<lparr> rs_secret = ''rtk_iii'', rs_hmac = ''key'', rs_url = ''wss'',
     rs_call = applyTo demo_admission demo_selected, rs_expires = 160 \<rparr>"
  let ?g = "demo_gateway\<lparr>credit := demo_cache, calls_n := Suc (calls_n demo_gateway)\<rparr>"
  have step: "respond (protocolRequest demo_env ?r sock) demo_gateway =
      respond (createRealtimeSecret demo_env ?r ''key'' demo_admission) ?g" for sock
    by (simp add: protocolRequest_def r respond_guard respond_admit demo_admitted Let_def dispatch_def g)
  have resolve: "wp (resolveCall demo_market_api ''M'' ''pr'') Q R (demo_world demo_market) =
      Q (None, demo_call) ((demo_world demo_market)\<lparr>fault_n := 14\<rparr>)" for Q R
    by (rule wp_run) (rule res)
  have prune: "wp pruneRealtimeSessions Q R g' = Q () (g'\<lparr>realtime := (\<lambda>_. None)\<rparr>)"
    if "realtime g' = (\<lambda>_. None)" for Q R and g' :: "unit gateway"
    by (simp add: pruneRealtimeSessions_def wp_simps) (simp add: wp_def that)
  have "wp (createRealtimeSecret demo_env ?r ''key'' demo_admission)
      (\<lambda>x g'. realtime g' = [''rts_'' \<mapsto> ?s] \<and> now (region g') = 100) (\<lambda>_ _. False) ?g"
    by (simp add: createRealtimeSecret_def r wp_simps Let_def g resolve selected_applyTo demo_selects(1) prune)
       (simp add: demo_world_def)
  from respond_of_wp [OF this]
  show "realtime demo_opened = [''rts_'' \<mapsto> ?s]" "now (region demo_opened) = 100"
    by (simp_all add: demo_opened_def step)
qed

theorem realtime_secret_single_use_witness:
  "\<exists>s g1. takeSession ''rts_'' ''rtk_iii'' demo_opened = (Val (Some s), g1) \<and>
     respond (realtimeSocket demo_env ((demo_http [] [] [])\<lparr>query_value := \<lambda>_. ''rts_''\<rparr>) demo_socket) g1 =
       (errorJSON 401 ''invalid_realtime_secret'' ''invalid realtime secret'', g1)"
proof -
  obtain s g1 where t: "takeSession ''rts_'' ''rtk_iii'' demo_opened = (Val (Some s), g1)"
    by (simp add: takeSession_def bnd_def nowR_def onRegion_def gets_def demo_session)
  have "inj (uuid (region demo_gateway))"
    by (rule injI) (simp add: demo_gateway_def demo_world_def)
  moreover have "gateway_runs demo_env demo_gateway demo_opened"
    unfolding demo_opened_def by (rule gateway_runs.request [OF gateway_runs.start])
  moreover have "realtime demo_gateway = (\<lambda>_. None)" by (simp add: demo_gateway_def)
  ultimately have "respond (realtimeSocket demo_env ((demo_http [] [] [])\<lparr>query_value := \<lambda>_. ''rts_''\<rparr>) demo_socket) g1 =
       (errorJSON 401 ''invalid_realtime_secret'' ''invalid realtime secret'', g1)"
    by (intro realtime_secret_single_use [OF _ _ _ t gateway_runs.start]) simp_all
  with t show ?thesis by blast
qed

end
