(* ===== verification/BifrostClients.thy ===== *)
theory BifrostClients
  imports WayRating "HOL-Library.AList"
begin

section \<open>The cache of Bifrost clients\<close>

text \<open>
  \<open>internal/adapter/bifrost/adapter.go\<close>. The adapter keeps one Bifrost client per pool of provider
  keys, counts the calls that use it, and shuts idle clients down when there are more than 32. Bifrost
  itself is a third-party package: whether \<open>bf.Init\<close> succeeds, which key it selects and what a call
  answers are parameters; SHA-256 (in hexadecimal) and HMAC are parameters too.
\<close>

subsection \<open>State\<close>

text \<open>
  A client is a pointer; \<open>client_configs\<close> is the configuration it was initialised with, \<open>closed\<close> are the
  clients that have been shut down, in order, \<open>inits_n\<close> counts the calls of \<open>bf.Init\<close>. The map of clients is
  an association list; Go iterates over a map in any order (\<open>victim_order\<close> shows that it is irrelevant).
  The clock is a \<open>uint64\<close> that counts requests; it does not wrap.
\<close>

record bifrost_key =
  bk_id :: string
  bk_value :: string
  bk_weight :: int

record client_config =
  bc_provider :: string
  bc_endpoint :: string
  bc_keys :: "bifrost_key list"
  bc_timeout :: int
  bc_retries :: int
  bc_headers :: "(string \<times> string) list"

record cached_client =
  cn_client :: nat
  cn_last_used :: nat
  cn_pinned :: bool
  cn_active :: nat

record adapter =
  default_target :: execution_target
  clients :: "(string \<times> cached_client) list"
  client_clock :: nat
  max_retries :: int
  request_timeout :: duration
  provider_headers :: "(string \<times> string) list"
  client_configs :: "nat \<Rightarrow> client_config"
  made_n :: nat
  closed_clients :: "nat list"
  inits_n :: nat

record adapter_env =
  ae_sha :: "string \<Rightarrow> string"
  ae_hmac :: "string \<Rightarrow> string \<Rightarrow> string"
  ae_init :: "nat \<Rightarrow> client_config \<Rightarrow> bool"

definition maxCachedBifrostClients :: nat where
  "maxCachedBifrostClients = 32"

definition no_target :: execution_target where
  "no_target = \<lparr> et_provider = [], et_endpoint = [], et_credential = [], et_model = [], et_route = [], et_weight = 0 \<rparr>"

definition newLazyWithExecution :: "int \<Rightarrow> duration \<Rightarrow> adapter" where
  "newLazyWithExecution maxRetries requestTimeout =
     \<lparr> default_target = no_target, clients = [], client_clock = 0,
       max_retries = (if maxRetries < 0 then 0 else maxRetries),
       request_timeout = (if requestTimeout \<le> 0 then 10 * second else requestTimeout), provider_headers = [],
       client_configs = (\<lambda>_. \<lparr> bc_provider = [], bc_endpoint = [], bc_keys = [], bc_timeout = 0, bc_retries = 0,
         bc_headers = [] \<rparr>),
       made_n = 0, closed_clients = [], inits_n = 0 \<rparr>"

definition configureProviderCallbacks :: "adapter_env \<Rightarrow> string \<Rightarrow> string \<Rightarrow> adapter \<Rightarrow> adapter" where
  "configureProviderCallbacks env publicBaseURL callbackSecret a =
     a\<lparr>provider_headers := (if publicBaseURL = [] \<or> callbackSecret = [] then []
        else [(''X-Gizway-Public-Base-URL'', publicBaseURL),
              (''X-Gizway-Callback-Signature'', ''v1='' @ ae_hmac env callbackSecret publicBaseURL)])\<rparr>"

subsection \<open>Targets\<close>

definition providerForTarget :: "execution_target \<Rightarrow> string option" where
  "providerForTarget target =
     (let provider = (if et_provider target = [] then ''openai'' else et_provider target) in
      if provider = ''openai'' \<or> provider = ''anthropic'' \<or> provider = ''gemini'' then Some provider else None)"

definition normalizeTarget :: "execution_target \<Rightarrow> execution_target \<Rightarrow> execution_target" where
  "normalizeTarget target fallback =
     (if et_credential target = []
      then target\<lparr>et_endpoint := et_endpoint fallback, et_credential := et_credential fallback\<rparr>
      else if et_endpoint target = [] then target\<lparr>et_endpoint := et_endpoint fallback\<rparr>
      else target)"

definition targetKey :: "(string \<Rightarrow> string) \<Rightarrow> execution_target \<Rightarrow> string" where
  "targetKey sha target =
     et_provider target @ [CHR 0x00] @ et_endpoint target @ [CHR 0x00] @ sha (et_credential target)"

definition targetBytes :: "execution_target \<Rightarrow> string" where
  "targetBytes t = concat (map (\<lambda>field. field @ [CHR 0x00])
     [et_provider t, et_endpoint t, et_credential t, et_model t, et_route t, showInt (et_weight t)])"

definition targetsKey :: "(string \<Rightarrow> string) \<Rightarrow> execution_target list \<Rightarrow> string" where
  "targetsKey sha targets = ''candidates:'' @ sha (concat (map targetBytes targets))"

subsection \<open>Client configurations\<close>

text \<open>\<open>max(1, int(requestTimeout.Seconds()))\<close>.\<close>

definition timeoutSeconds :: "duration \<Rightarrow> int" where
  "timeoutSeconds d = max 1 (d sdiv second)"

definition clientConfig :: "adapter \<Rightarrow> string \<Rightarrow> string \<Rightarrow> bifrost_key list \<Rightarrow> client_config" where
  "clientConfig a provider endpoint keys =
     \<lparr> bc_provider = provider, bc_endpoint = endpoint, bc_keys = keys, bc_timeout = timeoutSeconds (request_timeout a),
       bc_retries = max_retries a, bc_headers = provider_headers a \<rparr>"

definition newProviderClient :: "adapter \<Rightarrow> execution_target \<Rightarrow> client_config option" where
  "newProviderClient a target =
     map_option (\<lambda>provider. clientConfig a provider (et_endpoint target)
        [\<lparr> bk_id = ''gizway-openai'', bk_value = et_credential target, bk_weight = 1 \<rparr>]) (providerForTarget target)"

text \<open>A key's value is a \<open>SecretVar\<close> of Bifrost, which is taken to be the credential it is made of.\<close>

definition candidateKey :: "nat \<Rightarrow> execution_target \<Rightarrow> bifrost_key" where
  "candidateKey index target =
     \<lparr> bk_id = (if et_route target = [] then ''gizway-key-'' @ showInt (int index) else et_route target),
       bk_value = et_credential target,
       bk_weight = (if et_weight target \<le> 0 then 1 else et_weight target) \<rparr>"

fun candidateKeys :: "string \<Rightarrow> execution_target \<Rightarrow> nat \<Rightarrow> execution_target list \<Rightarrow> bifrost_key list option" where
  "candidateKeys provider target0 index [] = Some []"
| "candidateKeys provider target0 index (target # targets) =
     (case providerForTarget target of
        None \<Rightarrow> None
      | Some candidateProvider \<Rightarrow>
          if candidateProvider \<noteq> provider \<or> et_endpoint target \<noteq> et_endpoint target0 \<or> et_model target \<noteq> et_model target0
          then None
          else map_option (Cons (candidateKey index target)) (candidateKeys provider target0 (Suc index) targets))"

definition newCandidateClient :: "adapter \<Rightarrow> execution_target list \<Rightarrow> client_config option" where
  "newCandidateClient a targets =
     (case targets of
        [] \<Rightarrow> None
      | target0 # _ \<Rightarrow>
          (case providerForTarget target0 of
             None \<Rightarrow> None
           | Some provider \<Rightarrow>
               map_option (clientConfig a provider (et_endpoint target0)) (candidateKeys provider target0 0 targets)))"

subsection \<open>Eviction\<close>

text \<open>The loop over the map: the least recently used client that is neither pinned nor in use.\<close>

fun victim :: "(string \<times> cached_client) option \<Rightarrow> (string \<times> cached_client) list \<Rightarrow> (string \<times> cached_client) option" where
  "victim best [] = best"
| "victim best ((key, candidate) # entries) =
     (if cn_pinned candidate \<or> cn_active candidate \<noteq> 0 \<or>
         (case best of None \<Rightarrow> False | Some (_, v) \<Rightarrow> cn_last_used v \<le> cn_last_used candidate)
      then victim best entries else victim (Some (key, candidate)) entries)"

definition shutdownClient :: "nat option \<Rightarrow> adapter \<Rightarrow> adapter" where
  "shutdownClient client a = (case client of None \<Rightarrow> a | Some c \<Rightarrow> a\<lparr>closed_clients := closed_clients a @ [c]\<rparr>)"

definition evictIdleClientLocked :: "adapter \<Rightarrow> nat option \<times> adapter" where
  "evictIdleClientLocked a =
     (case victim None (clients a) of
        None \<Rightarrow> (None, a)
      | Some (key, v) \<Rightarrow> (Some (cn_client v), a\<lparr>clients := AList.delete key (clients a)\<rparr>))"

definition cacheClientLocked :: "string \<Rightarrow> nat \<Rightarrow> bool \<Rightarrow> nat \<Rightarrow> adapter \<Rightarrow> nat option \<times> adapter" where
  "cacheClientLocked key client pinned active a =
     (let (evicted, a1) = (if maxCachedBifrostClients \<le> length (clients a) then evictIdleClientLocked a else (None, a));
          a2 = a1\<lparr>client_clock := Suc (client_clock a1)\<rparr>
      in (evicted, a2\<lparr>clients := AList.update key
            \<lparr> cn_client = client, cn_last_used = client_clock a2, cn_pinned = pinned, cn_active = active \<rparr> (clients a2)\<rparr>))"

text \<open>What the closure of \<open>releaseClient\<close> does on its only run.\<close>

definition releaseClient :: "string \<Rightarrow> nat \<Rightarrow> adapter \<Rightarrow> adapter" where
  "releaseClient key client a =
     (let a1 = (case map_of (clients a) key of
           None \<Rightarrow> a
         | Some entry \<Rightarrow>
             if cn_client entry = client \<and> 0 < cn_active entry
             then a\<lparr>clients := AList.update key (entry\<lparr>cn_active := cn_active entry - 1\<rparr>) (clients a)\<rparr>
             else a);
          (evicted, a2) = (if maxCachedBifrostClients < length (clients a1) then evictIdleClientLocked a1 else (None, a1))
      in shutdownClient evicted a2)"

subsection \<open>Acquiring a client\<close>

text \<open>A hit of the cache, or a new client. The result is the client; \<open>None\<close> is an error.\<close>

definition acquireClient :: "adapter_env \<Rightarrow> string \<Rightarrow> client_config option \<Rightarrow> adapter \<Rightarrow> nat option \<times> adapter" where
  "acquireClient env key config a =
     (case map_of (clients a) key of
        Some entry \<Rightarrow>
          let clock = Suc (client_clock a) in
          (Some (cn_client entry), a\<lparr>client_clock := clock,
             clients := AList.update key (entry\<lparr>cn_last_used := clock, cn_active := Suc (cn_active entry)\<rparr>) (clients a)\<rparr>)
      | None \<Rightarrow>
          (case config of
             None \<Rightarrow> (None, a)
           | Some cfg \<Rightarrow>
               let a1 = a\<lparr>inits_n := Suc (inits_n a)\<rparr> in
               if \<not> ae_init env (inits_n a) cfg then (None, a1)
               else let client = made_n a1;
                        a2 = a1\<lparr>made_n := Suc client, client_configs := (client_configs a1)(client := cfg)\<rparr>;
                        (evicted, a3) = cacheClientLocked key client False 1 a2
                    in (Some client, shutdownClient evicted a3)))"

definition usableTarget :: "execution_target \<Rightarrow> bool" where
  "usableTarget target \<longleftrightarrow> et_endpoint target \<noteq> [] \<and> et_credential target \<noteq> []"

text \<open>The client, the key to release it with, and the normalized targets.\<close>

definition clientFor ::
  "adapter_env \<Rightarrow> execution_target \<Rightarrow> adapter \<Rightarrow> (nat \<times> string \<times> execution_target) option \<times> adapter" where
  "clientFor env target0 a =
     (let target = normalizeTarget target0 (default_target a); key = targetKey (ae_sha env) target in
      if \<not> usableTarget target then (None, a)
      else case acquireClient env key (newProviderClient a target) a of
        (client, a1) \<Rightarrow> (map_option (\<lambda>c. (c, key, target)) client, a1))"

definition clientForCandidates ::
  "adapter_env \<Rightarrow> execution_target list \<Rightarrow> adapter \<Rightarrow> (nat \<times> string \<times> execution_target list) option \<times> adapter" where
  "clientForCandidates env targets a =
     (let normalized = map (\<lambda>t. normalizeTarget t (default_target a)) targets;
          key = targetsKey (ae_sha env) normalized in
      if targets = [] \<or> \<not> list_all usableTarget normalized then (None, a)
      else case acquireClient env key (newCandidateClient a normalized) a of
        (client, a1) \<Rightarrow> (map_option (\<lambda>c. (c, key, normalized)) client, a1))"

text \<open>\<open>Shutdown\<close> of the process, and \<open>NewOpenAI\<close> with its pinned client.\<close>

definition shutdownAdapter :: "adapter \<Rightarrow> adapter" where
  "shutdownAdapter a =
     a\<lparr>clients := [], closed_clients := closed_clients a @ map (cn_client \<circ> snd) (clients a)\<rparr>"

definition newOpenAI :: "adapter_env \<Rightarrow> string \<Rightarrow> string \<Rightarrow> adapter option" where
  "newOpenAI env baseURL credential =
     (let target = no_target\<lparr>et_endpoint := baseURL, et_credential := credential\<rparr>;
          a = newLazyWithExecution 1 (10 * second);
          cfg = newProviderClient a (target\<lparr>et_provider := ''openai''\<rparr>) in
      case cfg of
        None \<Rightarrow> None
      | Some c \<Rightarrow>
          if \<not> ae_init env 0 c then None
          else Some (a\<lparr>default_target := target, client_clock := 1, made_n := 1, inits_n := 1,
            client_configs := (client_configs a)(0 := c),
            clients := [(targetKey (ae_sha env) target,
              \<lparr> cn_client = 0, cn_last_used = 1, cn_pinned = True, cn_active = 0 \<rparr>)]\<rparr>))"

end
