(* ===== verification/BifrostPool.thy ===== *)
theory BifrostPool
  imports BifrostClients "HOL-Library.Multiset"
begin

section \<open>The life of Bifrost clients\<close>

text \<open>
  Calls acquire and release clients in any order. While a call holds a client, the client stays in the
  cache and is not shut down; the cache exceeds its bound only by clients in use; the process shuts
  every client down exactly once.
\<close>

subsection \<open>Association lists with distinct keys\<close>

lemma update_fresh: "k \<notin> fst ` set es \<Longrightarrow> AList.update k v es = es @ [(k, v)]"
  by (induction es) auto

lemma split_entry:
  assumes "map_of es k = Some e"
  obtains xs ys where "es = xs @ (k, e) # ys" "k \<notin> fst ` set xs"
  using assms
proof (induction es arbitrary: thesis)
  case (Cons x es)
  show ?case
  proof (cases "fst x = k")
    case True
    with Cons.prems(2) show ?thesis by (intro Cons.prems(1) [of "[]" es]) (auto simp: prod_eq_iff)
  next
    case False
    with Cons.prems(2) have "map_of es k = Some e" by (cases x) simp
    then obtain xs ys where "es = xs @ (k, e) # ys" "k \<notin> fst ` set xs" using Cons.IH by blast
    with False show ?thesis by (intro Cons.prems(1) [of "x # xs" ys]) auto
  qed
qed simp

lemma update_split: "k \<notin> fst ` set xs \<Longrightarrow> AList.update k v (xs @ (k, e) # ys) = xs @ (k, v) # ys"
  by (induction xs) auto

lemma delete_split:
  "k \<notin> fst ` set xs \<Longrightarrow> k \<notin> fst ` set ys \<Longrightarrow> AList.delete k (xs @ (k, e) # ys) = xs @ ys"
  by (simp add: AList.delete_eq, intro arg_cong2 [where f = append] filter_True) force+

subsection \<open>The victim\<close>

definition idle :: "cached_client \<Rightarrow> bool" where
  "idle e \<longleftrightarrow> \<not> cn_pinned e \<and> cn_active e = 0"

lemma victim_skips: "victim best (e # es) = (if \<not> idle (snd e) \<or>
    (case best of None \<Rightarrow> False | Some b \<Rightarrow> cn_last_used (snd b) \<le> cn_last_used (snd e))
    then victim best es else victim (Some e) es)"
  by (cases e) (auto simp: idle_def split: option.split)

lemma victim_member: "victim best es = Some x \<Longrightarrow> best = Some x \<or> x \<in> set es \<and> idle (snd x)"
  by (induction es arbitrary: best) (auto simp: victim_skips split: if_splits simp del: victim.simps(2))

lemma victim_below_best: "victim (Some b) es = Some x \<Longrightarrow> cn_last_used (snd x) \<le> cn_last_used (snd b)"
  by (induction es arbitrary: b) (fastforce simp: victim_skips split: if_splits simp del: victim.simps(2))+

lemma victim_below:
  "victim best es = Some x \<Longrightarrow> e \<in> set es \<Longrightarrow> idle (snd e) \<Longrightarrow> cn_last_used (snd x) \<le> cn_last_used (snd e)"
proof (induction es arbitrary: best)
  case (Cons y es)
  show ?case
  proof (cases "e = y")
    case True
    with Cons.prems show ?thesis
      by (auto simp: victim_skips simp del: victim.simps(2) split: if_splits option.splits dest!: victim_below_best)
  next
    case False
    with Cons show ?thesis
      by (auto simp: victim_skips simp del: victim.simps(2) split: if_splits)
  qed
qed simp

lemma victim_found: "best \<noteq> None \<or> (\<exists>e \<in> set es. idle (snd e)) \<Longrightarrow> victim best es \<noteq> None"
proof (induction es arbitrary: best)
  case (Cons y es)
  then have "best \<noteq> None \<or> (\<exists>e \<in> set es. idle (snd e))" if "\<not> idle (snd y) \<or> best \<noteq> None"
    using that by auto
  then show ?case
    using Cons.IH [of best] Cons.IH [of "Some y"] unfolding victim_skips by (cases best) auto
qed simp

lemma victim_None: "victim None es = None \<longleftrightarrow> (\<forall>e \<in> set es. \<not> idle (snd e))"
  using victim_found [of None es] victim_member [of None es] by fastforce

lemma victim_order:
  assumes "set es = set es'" and "inj_on (cn_last_used \<circ> snd) (set es)"
  shows "victim None es = victim None es'"
proof (cases "victim None es")
  case None
  then show ?thesis using assms(1) victim_None by metis
next
  case (Some x)
  then obtain y where y: "victim None es' = Some y" using assms(1) victim_None by (metis not_Some_eq)
  have "x \<in> set es" "idle (snd x)" "y \<in> set es" "idle (snd y)"
    using victim_member [OF Some] victim_member [OF y] assms(1) by auto
  then have "cn_last_used (snd x) = cn_last_used (snd y)"
    using victim_below [OF Some, of y] victim_below [OF y, of x] assms(1) by simp
  with assms(2) \<open>x \<in> set es\<close> \<open>y \<in> set es\<close> have "x = y" by (intro inj_onD [OF assms(2)]) simp_all
  with Some y show ?thesis by simp
qed

subsection \<open>The invariant\<close>

text \<open>
  \<open>holders\<close> are the calls under way: the key and the client that each will release. Every client that
  was made is in the cache or shut down, once; a client in the cache counts its holders.
\<close>

definition backed :: "(string \<times> cached_client) list \<Rightarrow> (string \<times> nat) list \<Rightarrow> bool" where
  "backed es holders \<longleftrightarrow> (\<forall>h \<in> set holders. \<exists>e. (fst h, e) \<in> set es \<and> cn_client e = snd h)"

lemma backed_replace:
  assumes "backed (xs @ (k, e) # ys) holders" and "cn_client e' = cn_client e" and "set holders' \<subseteq> insert (k, cn_client e) (set holders)"
  shows "backed (xs @ (k, e') # ys) holders'"
  unfolding backed_def
proof
  fix h assume h: "h \<in> set holders'"
  show "\<exists>d. (fst h, d) \<in> set (xs @ (k, e') # ys) \<and> cn_client d = snd h"
  proof (cases "h = (k, cn_client e)")
    case True
    with assms(2) show ?thesis by (intro exI [of _ e']) simp
  next
    case False
    with h assms(3) have "h \<in> set holders" by auto
    with assms(1) obtain d where "(fst h, d) \<in> set (xs @ (k, e) # ys)" "cn_client d = snd h"
      unfolding backed_def by blast
    with False show ?thesis by (cases h) (auto intro: exI [of _ d])
  qed
qed

definition poolCore :: "adapter \<Rightarrow> (string \<times> nat) list \<Rightarrow> bool" where
  "poolCore a holders \<longleftrightarrow>
     distinct (map fst (clients a)) \<and>
     distinct (map (cn_last_used \<circ> snd) (clients a)) \<and> (\<forall>x \<in> set (clients a). cn_last_used (snd x) \<le> client_clock a) \<and>
     mset (map (cn_client \<circ> snd) (clients a)) + mset (closed_clients a) = mset [0..<made_n a] \<and>
     (\<forall>x \<in> set (clients a). cn_active (snd x) = count_list holders (fst x, cn_client (snd x))) \<and>
     backed (clients a) holders"

definition poolBounded :: "adapter \<Rightarrow> bool" where
  "poolBounded a \<longleftrightarrow>
     length (clients a) \<le> maxCachedBifrostClients \<or> (\<forall>x \<in> set (clients a). \<not> idle (snd x))"

lemma poolCore_once:
  assumes "poolCore a holders"
  shows "distinct (map (cn_client \<circ> snd) (clients a) @ closed_clients a)"
    and "set (map (cn_client \<circ> snd) (clients a) @ closed_clients a) = {..<made_n a}"
proof -
  have m: "mset (map (cn_client \<circ> snd) (clients a) @ closed_clients a) = mset [0..<made_n a]"
    using assms by (simp add: poolCore_def)
  show "distinct (map (cn_client \<circ> snd) (clients a) @ closed_clients a)"
    using mset_eq_imp_distinct_iff [OF m] by simp
  show "set (map (cn_client \<circ> snd) (clients a) @ closed_clients a) = {..<made_n a}"
    using mset_eq_setD [OF m] by auto
qed

lemma poolCore_clients:
  assumes "poolCore a holders" and "x \<in> set (clients a)"
  shows "cn_client (snd x) < made_n a" "cn_client (snd x) \<notin> set (closed_clients a)"
  using poolCore_once [OF assms(1)] assms(2) by auto

lemma entry_unique:
  assumes "distinct (map fst es)" and "(k, e) \<in> set es" and "(k, e') \<in> set es"
  shows "e = e'"
  using assms by (metis map_of_is_SomeI option.inject)

lemma evict_cases:
  assumes "distinct (map fst (clients a))"
  obtains "victim None (clients a) = None" "evictIdleClientLocked a = (None, a)" "\<forall>x \<in> set (clients a). \<not> idle (snd x)"
  | xs k v ys where "clients a = xs @ (k, v) # ys" "idle v"
    "evictIdleClientLocked a = (Some (cn_client v), a\<lparr>clients := xs @ ys\<rparr>)"
proof (cases "victim None (clients a)")
  case None
  then show thesis using None [unfolded victim_None]
    by (intro that(1)) (auto simp: evictIdleClientLocked_def)
next
  case (Some x)
  then have x: "x \<in> set (clients a)" "idle (snd x)" using victim_member by fastforce+
  then obtain xs ys where es: "clients a = xs @ x # ys" by (auto simp: in_set_conv_decomp)
  with assms have "AList.delete (fst x) (clients a) = xs @ ys"
    using delete_split [of "fst x" xs ys "snd x"] by (auto simp: image_iff)
  with Some x es show thesis
    by (intro that(2) [of xs "fst x" "snd x" ys]) (auto simp: evictIdleClientLocked_def split: prod.split)
qed

lemma poolCore_drop:
  assumes "poolCore a holders" and "clients a = xs @ (k, v) # ys" and "idle v"
  shows "poolCore (a\<lparr>clients := xs @ ys, closed_clients := closed_clients a @ [cn_client v]\<rparr>) holders"
proof -
  have zero: "count_list holders (k, cn_client v) = 0" using assms by (auto simp: poolCore_def idle_def)
  have b: "\<exists>e. (fst h, e) \<in> set (xs @ ys) \<and> cn_client e = snd h" if h: "h \<in> set holders" for h
  proof -
    obtain e where e: "(fst h, e) \<in> set (clients a)" "cn_client e = snd h"
      using assms(1) h by (auto simp: poolCore_def backed_def)
    have "h \<noteq> (k, cn_client v)" using zero h by (auto simp: count_list_0_iff)
    with e assms(2) show ?thesis by (cases h) auto
  qed
  then have "backed (xs @ ys) holders" by (simp add: backed_def)
  with assms show ?thesis by (auto simp: poolCore_def)
qed

lemma poolCore_evict:
  assumes "poolCore a holders" and "evictIdleClientLocked a = (r, a')"
  shows "poolCore (shutdownClient r a') holders"
proof (rule evict_cases [of a])
  show "distinct (map fst (clients a))" using assms(1) by (simp add: poolCore_def)
qed (use assms poolCore_drop [OF assms(1)] in \<open>auto simp: shutdownClient_def\<close>)

lemma poolCore_add:
  assumes "poolCore a holders" and "key \<notin> fst ` set (clients a)"
  shows "poolCore (a\<lparr>inits_n := n, made_n := Suc (made_n a), client_configs := cs, client_clock := Suc (client_clock a),
      clients := clients a @ [(key, \<lparr> cn_client = made_n a, cn_last_used = Suc (client_clock a), cn_pinned = False,
        cn_active = 1 \<rparr>)]\<rparr>) ((key, made_n a) # holders)"
proof -
  have none: "count_list holders (key, c) = 0" for c
  proof -
    have "(key, c) \<notin> set holders" using assms by (force simp: poolCore_def backed_def)
    then show ?thesis by (simp add: count_list_0_iff)
  qed
  have b: "backed (clients a @ [(key, e)]) ((key, made_n a) # holders)" if "cn_client e = made_n a" for e
    using assms(1) that by (auto simp: poolCore_def backed_def)
  have other: "x \<in> set (clients a) \<Longrightarrow> (key, made_n a) \<noteq> (fst x, cn_client (snd x))" for x
    using assms(2) by auto
  have le: "x \<in> set (clients a) \<Longrightarrow> cn_last_used (snd x) \<noteq> Suc (client_clock a)" for x
    using assms(1) by (auto simp: poolCore_def)
  from assms none le show ?thesis
    by (auto simp: poolCore_def b image_iff dest: other le_SucI)
qed

lemma poolCore_touch:
  assumes "poolCore a holders" and "map_of (clients a) key = Some e"
  shows "poolCore (a\<lparr>client_clock := Suc (client_clock a),
      clients := AList.update key (e\<lparr>cn_last_used := Suc (client_clock a), cn_active := Suc (cn_active e)\<rparr>) (clients a)\<rparr>)
    ((key, cn_client e) # holders)"
proof -
  obtain xs ys where es: "clients a = xs @ (key, e) # ys" "key \<notin> fst ` set xs" using assms(2) by (rule split_entry)
  have ys: "key \<notin> fst ` set ys" using assms(1) by (auto simp: poolCore_def es(1))
  have le: "x \<in> set (clients a) \<Longrightarrow> cn_last_used (snd x) \<noteq> Suc (client_clock a)" for x
    using assms(1) by (auto simp: poolCore_def)
  have up: "AList.update key v (clients a) = xs @ (key, v) # ys" for v
    unfolding es(1) using es(2) by (rule update_split)
  have b: "backed (xs @ (key, v) # ys) ((key, cn_client e) # holders)" if "cn_client v = cn_client e" for v
    by (rule backed_replace [where holders = holders and e = e]) (use assms(1) es that in \<open>auto simp: poolCore_def\<close>)
  note le' = le [THEN not_sym]
  from assms(1) es ys le le' b show ?thesis
    unfolding poolCore_def up by (simp add: es(1)) (auto simp: image_iff intro: le_SucI)
qed

lemma poolCore_untouch:
  assumes "poolCore a holders" and "(key, c) \<in> set holders" and "map_of (clients a) key = Some e"
  shows "cn_client e = c" "0 < cn_active e"
    "poolCore (a\<lparr>clients := AList.update key (e\<lparr>cn_active := cn_active e - 1\<rparr>) (clients a)\<rparr>) (remove1 (key, c) holders)"
proof -
  obtain xs ys where es: "clients a = xs @ (key, e) # ys" "key \<notin> fst ` set xs" using assms(3) by (rule split_entry)
  have ys: "key \<notin> fst ` set ys" using assms(1) by (auto simp: poolCore_def es(1))
  have up: "AList.update key v (clients a) = xs @ (key, v) # ys" for v
    unfolding es(1) using es(2) by (rule update_split)
  obtain e' where "(key, e') \<in> set (clients a)" "cn_client e' = c" using assms(1,2) by (force simp: poolCore_def backed_def)
  then show c: "cn_client e = c" using es ys by (auto simp: image_iff)
  have n: "cn_active e = count_list holders (key, c)" using assms(1) c by (auto simp: poolCore_def es(1))
  then show "0 < cn_active e" using assms(2) by (simp add: count_list_0_iff neq0_conv [symmetric] del: neq0_conv)
  have r: "count_list (remove1 h holders) x = (if x = h then count_list holders x - 1 else count_list holders x)" for h x
    by (induction holders) auto
  have b: "backed (xs @ (key, v) # ys) (remove1 (key, c) holders)" if "cn_client v = cn_client e" for v
    by (rule backed_replace [where holders = holders and e = e])
       (use assms(1) es that in \<open>auto simp: poolCore_def dest: set_remove1_subset [THEN subsetD]\<close>)
  from assms(1) es ys n c b show "poolCore (a\<lparr>clients := AList.update key (e\<lparr>cn_active := cn_active e - 1\<rparr>) (clients a)\<rparr>)
      (remove1 (key, c) holders)"
    unfolding poolCore_def up by (simp add: es(1) r) (auto simp: image_iff r)
qed

subsection \<open>Every operation keeps it\<close>

definition poolInv :: "adapter \<Rightarrow> (string \<times> nat) list \<Rightarrow> bool" where
  "poolInv a holders \<longleftrightarrow> poolCore a holders \<and> poolBounded a"

lemma poolCore_cong:
  assumes "poolCore a holders" and "clients a' = clients a" "client_clock a' = client_clock a" "made_n a' = made_n a"
    "closed_clients a' = closed_clients a"
  shows "poolCore a' holders"
  using assms by (simp add: poolCore_def)

lemma acquire_hit:
  assumes "poolInv a holders" and "map_of (clients a) key = Some e" and "acquireClient env key cfg a = (r, a')"
  shows "r = Some (cn_client e) \<and> poolInv a' ((key, cn_client e) # holders)"
proof -
  obtain xs ys where es: "clients a = xs @ (key, e) # ys" "key \<notin> fst ` set xs" using assms(2) by (rule split_entry)
  let ?e = "e\<lparr>cn_last_used := Suc (client_clock a), cn_active := Suc (cn_active e)\<rparr>"
  have a': "r = Some (cn_client e)"
    "a' = a\<lparr>client_clock := Suc (client_clock a), clients := AList.update key ?e (clients a)\<rparr>"
    using assms(2,3) by (auto simp: acquireClient_def Let_def)
  have up: "clients a' = xs @ (key, ?e) # ys" using es by (simp add: a'(2) update_split)
  have "\<not> idle ?e" by (simp add: idle_def)
  then have "poolBounded a'" using assms(1) by (auto simp: poolInv_def poolBounded_def up es(1))
  then show ?thesis
    using poolCore_touch [OF _ assms(2), of holders] assms(1) by (simp add: a' poolInv_def)
qed

text \<open>The cache before a new client is put into it, and after.\<close>

lemma evict_full:
  assumes "poolInv a holders"
    and "(if maxCachedBifrostClients \<le> length (clients a) then evictIdleClientLocked a else (None, a)) = (r, b)"
  shows "poolCore (shutdownClient r b) holders" "set (clients b) \<subseteq> set (clients a)"
    "length (clients b) < maxCachedBifrostClients \<or> (\<forall>x \<in> set (clients b). \<not> idle (snd x))"
    "\<exists>es. b = a\<lparr>clients := es\<rparr>"
proof -
  have inv: "poolCore a holders" "poolBounded a" "distinct (map fst (clients a))"
    using assms(1) by (simp_all add: poolInv_def poolCore_def)
  show "poolCore (shutdownClient r b) holders"
    using assms(2) inv(1) poolCore_evict [of a holders r b] by (auto simp: shutdownClient_def split: if_splits)
  have "set (clients b) \<subseteq> set (clients a) \<and>
      (length (clients b) < maxCachedBifrostClients \<or> (\<forall>x \<in> set (clients b). \<not> idle (snd x))) \<and> (\<exists>es. b = a\<lparr>clients := es\<rparr>)"
  proof (rule evict_cases [OF inv(3)], goal_cases)
    case 1
    then have "b = a" using assms(2) by (auto split: if_splits)
    then show ?case using 1(3) by (auto intro: exI [of _ "clients a"])
  next
    case (2 xs k v ys)
    show ?case
    proof (cases "maxCachedBifrostClients \<le> length (clients a)")
      case True
      then have "b = a\<lparr>clients := xs @ ys\<rparr>" using assms(2) 2(3) by simp
      moreover have "length (clients a) \<le> maxCachedBifrostClients" using inv(2) 2(1,2) by (auto simp: poolBounded_def)
      ultimately show ?thesis using 2(1) by auto
    next
      case False
      then have "b = a" using assms(2) by simp
      then show ?thesis using False by (auto intro: exI [of _ "clients a"])
    qed
  qed
  then show "set (clients b) \<subseteq> set (clients a)" "\<exists>es. b = a\<lparr>clients := es\<rparr>"
    "length (clients b) < maxCachedBifrostClients \<or> (\<forall>x \<in> set (clients b). \<not> idle (snd x))" by blast+
qed

lemma acquire_miss:
  assumes "poolInv a holders" and "map_of (clients a) key = None" and "acquireClient env key cfg a = (r, a')"
  shows "(r = None \<and> poolInv a' holders) \<or> (\<exists>c. r = Some c \<and> poolInv a' ((key, c) # holders))"
proof (cases "cfg = None \<or> \<not> ae_init env (inits_n a) (the cfg)")
  case True
  then have "r = None" "clients a' = clients a" "client_clock a' = client_clock a" "made_n a' = made_n a"
    "closed_clients a' = closed_clients a"
    using assms(2,3) by (auto simp: acquireClient_def Let_def split: option.splits if_splits prod.splits)
  with assms(1) show ?thesis by (simp add: poolInv_def poolCore_def poolBounded_def)
next
  case False
  then obtain config where cfg: "cfg = Some config" "ae_init env (inits_n a) config" by auto
  define a2 where "a2 = a\<lparr>inits_n := Suc (inits_n a), made_n := Suc (made_n a),
      client_configs := (client_configs a)(made_n a := config)\<rparr>"
  obtain v b where ev: "(if maxCachedBifrostClients \<le> length (clients a) then evictIdleClientLocked a else (None, a)) = (v, b)"
    by fastforce
  note full = evict_full [OF assms(1) ev]
  obtain es where b: "b = a\<lparr>clients := es\<rparr>" using full(4) by blast
  have ev2: "(if maxCachedBifrostClients \<le> length (clients a2) then evictIdleClientLocked a2 else (None, a2)) =
      (v, a2\<lparr>clients := es\<rparr>)"
  proof -
    have es: "es = clients b" by (simp add: b)
    have same: "a2\<lparr>clients := clients a\<rparr> = a2" by (cases a) (simp add: a2_def)
    have "evictIdleClientLocked a2 = (fst (evictIdleClientLocked a), a2\<lparr>clients := clients (snd (evictIdleClientLocked a))\<rparr>)"
      by (auto simp: evictIdleClientLocked_def same) (auto simp: a2_def split: option.split)
    with ev show ?thesis by (auto simp: es same) (auto simp: a2_def split: if_splits)
  qed
  let ?e = "\<lparr> cn_client = made_n a, cn_last_used = Suc (client_clock a), cn_pinned = False, cn_active = 1 \<rparr>"
  have fresh: "key \<notin> fst ` set es" using full(2) assms(2) by (auto simp: b map_of_eq_None_iff)
  have run: "r = Some (made_n a)" "a' = shutdownClient v (a2\<lparr>client_clock := Suc (client_clock a), clients := es @ [(key, ?e)]\<rparr>)"
  proof -
    have "acquireClient env key cfg a = (case cacheClientLocked key (made_n a) False 1 a2 of
        (evicted, a3) \<Rightarrow> (Some (made_n a), shutdownClient evicted a3))"
      by (simp add: acquireClient_def assms(2) cfg Let_def a2_def)
    moreover have "cacheClientLocked key (made_n a) False 1 a2 =
        (v, a2\<lparr>client_clock := Suc (client_clock a), clients := es @ [(key, ?e)]\<rparr>)"
      unfolding cacheClientLocked_def ev2 by (simp add: update_fresh [OF fresh] a2_def)
    ultimately show "r = Some (made_n a)"
      "a' = shutdownClient v (a2\<lparr>client_clock := Suc (client_clock a), clients := es @ [(key, ?e)]\<rparr>)"
      using assms(3) by simp_all
  qed
  have sh: "clients (shutdownClient v b) = es" "made_n (shutdownClient v b) = made_n a"
    "client_clock (shutdownClient v b) = client_clock a"
    by (simp_all add: b shutdownClient_def split: option.split)
  have "poolCore a' ((key, made_n a) # holders)"
    by (rule poolCore_cong [OF poolCore_add [OF full(1), of key "client_configs a" 0, unfolded sh]])
       (simp_all add: sh fresh run(2) shutdownClient_def a2_def b split: option.split)
  moreover have "clients a' = es @ [(key, ?e)]" by (simp add: run(2) shutdownClient_def split: option.split)
  then have "poolBounded a'" using full(3) by (auto simp: poolBounded_def b idle_def)
  ultimately show ?thesis using run(1) by (simp add: poolInv_def)
qed

lemma release_inv:
  assumes "poolInv a holders" and "(key, c) \<in> set holders"
  shows "poolInv (releaseClient key c a) (remove1 (key, c) holders)"
proof -
  have core: "poolCore a holders" and bound: "poolBounded a" using assms(1) by (simp_all add: poolInv_def)
  obtain e where e: "map_of (clients a) key = Some e"
    using core assms(2) by (force simp: poolCore_def backed_def)
  note un = poolCore_untouch [OF core assms(2) e]
  obtain xs ys where es: "clients a = xs @ (key, e) # ys" "key \<notin> fst ` set xs" using e by (rule split_entry)
  let ?a = "a\<lparr>clients := AList.update key (e\<lparr>cn_active := cn_active e - 1\<rparr>) (clients a)\<rparr>"
  have up: "clients ?a = xs @ (key, e\<lparr>cn_active := cn_active e - 1\<rparr>) # ys" using es by (simp add: update_split)
  obtain v b where ev: "(if maxCachedBifrostClients < length (clients ?a) then evictIdleClientLocked ?a else (None, ?a)) = (v, b)"
    by fastforce
  have run: "releaseClient key c a = shutdownClient v b"
  proof -
    have "releaseClient key c a = (case (if maxCachedBifrostClients < length (clients ?a) then evictIdleClientLocked ?a
        else (None, ?a)) of (evicted, a2) \<Rightarrow> shutdownClient evicted a2)"
      using un(1,2) by (simp add: releaseClient_def Let_def e)
    then show ?thesis unfolding ev by simp
  qed
  have core': "poolCore (shutdownClient v b) (remove1 (key, c) holders)"
    using ev un(3) poolCore_evict [OF un(3), of v b] by (auto simp: shutdownClient_def split: if_splits)
  have busy: "maxCachedBifrostClients < length (clients a) \<Longrightarrow> x \<in> set xs \<union> set ys \<Longrightarrow> \<not> idle (snd x)" for x
    using bound by (auto simp: poolBounded_def es(1))
  have "poolBounded b"
  proof (cases "maxCachedBifrostClients < length (clients ?a)")
    case False
    with ev have "b = ?a" by simp
    with False show ?thesis by (simp add: poolBounded_def)
  next
    case True
    then have big: "maxCachedBifrostClients < length (clients a)" unfolding up by (simp add: es(1))
    show ?thesis
    proof (rule evict_cases [of ?a])
      show "distinct (map fst (clients ?a))" using un(3) by (simp add: poolCore_def)
    next
      assume "evictIdleClientLocked ?a = (None, ?a)" "\<forall>x \<in> set (clients ?a). \<not> idle (snd x)"
      moreover from this(1) ev True have "b = ?a" by (simp only: if_True prod.inject)
      ultimately show ?thesis by (simp only: poolBounded_def) blast
    next
      fix us k w vs assume d: "clients ?a = us @ (k, w) # vs" "idle w"
        "evictIdleClientLocked ?a = (Some (cn_client w), ?a\<lparr>clients := us @ vs\<rparr>)"
      have "(k, w) \<in> set (clients ?a)" unfolding d(1) by simp
      then have "(k, w) \<in> set (xs @ (key, e\<lparr>cn_active := cn_active e - 1\<rparr>) # ys)" unfolding up .
      with busy [OF big] d(2) have k: "k = key" "w = e\<lparr>cn_active := cn_active e - 1\<rparr>" by fastforce+
      have "distinct (map fst (clients ?a))" using un(3) by (simp add: poolCore_def)
      with d(1) up k have "us = xs" "vs = ys"
        using append_Cons_eq_iff [of "(key, w)" xs ys us vs] by (fastforce simp: image_iff)+
      moreover have "b = ?a\<lparr>clients := us @ vs\<rparr>" using ev True d(3) by simp
      ultimately show ?thesis using busy [OF big] by (auto simp: poolBounded_def)
    qed
  qed
  then have "poolBounded (shutdownClient v b)" by (simp add: poolBounded_def shutdownClient_def split: option.split)
  with core' show ?thesis by (simp add: run poolInv_def)
qed

subsection \<open>Runs\<close>

text \<open>
  Calls acquire a client for candidates or for one target, hold it, and release it, in any order; the
  mutex makes each of them one step. Texts from the database have no NUL byte.
\<close>

definition cleanTarget :: "execution_target \<Rightarrow> bool" where
  "cleanTarget t \<longleftrightarrow> CHR 0x00 \<notin> set (et_provider t) \<union> set (et_endpoint t) \<union> set (et_credential t) \<union>
     set (et_model t) \<union> set (et_route t)"

definition freshAdapter :: "adapter_env \<Rightarrow> adapter \<Rightarrow> bool" where
  "freshAdapter env a \<longleftrightarrow>
     (\<exists>n d. a = newLazyWithExecution n d) \<or>
     (\<exists>u c. CHR 0x00 \<notin> set u \<union> set c \<and> newOpenAI env u c = Some a)"

record pool_system =
  pool :: adapter
  holding :: "(string \<times> nat) list"

inductive pool_reach :: "adapter_env \<Rightarrow> pool_system \<Rightarrow> bool" for env where
  start: "freshAdapter env a \<Longrightarrow> pool_reach env \<lparr> pool = a, holding = [] \<rparr>"
| callbacks: "pool_reach env s \<Longrightarrow> pool_reach env (s\<lparr>pool := configureProviderCallbacks env u x (pool s)\<rparr>)"
| failed: "pool_reach env s \<Longrightarrow> list_all cleanTarget ts \<Longrightarrow> clientForCandidates env ts (pool s) = (None, a) \<Longrightarrow>
    pool_reach env (s\<lparr>pool := a\<rparr>)"
| candidates: "pool_reach env s \<Longrightarrow> list_all cleanTarget ts \<Longrightarrow>
    clientForCandidates env ts (pool s) = (Some (c, key, ns), a) \<Longrightarrow>
    pool_reach env (s\<lparr>pool := a, holding := (key, c) # holding s\<rparr>)"
| failed_target: "pool_reach env s \<Longrightarrow> cleanTarget t \<Longrightarrow> clientFor env t (pool s) = (None, a) \<Longrightarrow>
    pool_reach env (s\<lparr>pool := a\<rparr>)"
| target: "pool_reach env s \<Longrightarrow> cleanTarget t \<Longrightarrow> clientFor env t (pool s) = (Some (c, key, t'), a) \<Longrightarrow>
    pool_reach env (s\<lparr>pool := a, holding := (key, c) # holding s\<rparr>)"
| release: "pool_reach env s \<Longrightarrow> (key, c) \<in> set (holding s) \<Longrightarrow>
    pool_reach env (s\<lparr>pool := releaseClient key c (pool s), holding := remove1 (key, c) (holding s)\<rparr>)"

lemma fresh_inv: "freshAdapter env a \<Longrightarrow> poolInv a []"
  by (auto simp: freshAdapter_def newLazyWithExecution_def newOpenAI_def poolInv_def poolCore_def poolBounded_def
      backed_def maxCachedBifrostClients_def Let_def split: option.splits if_splits)

lemma acquire_inv:
  assumes "poolInv a holders" and "acquireClient env key cfg a = (r, a')"
  shows "poolInv a' (case r of None \<Rightarrow> holders | Some c \<Rightarrow> (key, c) # holders)"
  using acquire_hit [OF assms(1) _ assms(2)] acquire_miss [OF assms(1) _ assms(2)]
  by (cases "map_of (clients a) key") auto

lemma candidates_inv:
  assumes "poolInv a holders" and "clientForCandidates env ts a = (r, a')"
  shows "poolInv a' (case r of None \<Rightarrow> holders | Some (c, key, ns) \<Rightarrow> (key, c) # holders)"
  using acquire_inv [OF assms(1)] assms
  by (fastforce simp: clientForCandidates_def Let_def split: if_splits prod.splits option.splits)

lemma clientFor_inv:
  assumes "poolInv a holders" and "clientFor env t a = (r, a')"
  shows "poolInv a' (case r of None \<Rightarrow> holders | Some (c, key, ns) \<Rightarrow> (key, c) # holders)"
  using acquire_inv [OF assms(1)] assms
  by (fastforce simp: clientFor_def Let_def split: if_splits prod.splits option.splits)

lemma reach_inv: "pool_reach env s \<Longrightarrow> poolInv (pool s) (holding s)"
proof (induction rule: pool_reach.induct)
  case (callbacks s u x)
  then show ?case by (simp add: configureProviderCallbacks_def poolInv_def poolCore_def poolBounded_def)
qed (auto dest: fresh_inv candidates_inv clientFor_inv intro: release_inv)

text \<open>C29: A client that a call holds is never shut down under it: from its acquisition to its
  release the client stays in the cache under the call's key, counted as in use, and has not been
  shut down, whatever other calls, evictions and releases happen.\<close>

theorem held_client_open:
  assumes "pool_reach env s" and "(key, c) \<in> set (holding s)"
  shows "\<exists>e. map_of (clients (pool s)) key = Some e \<and> cn_client e = c \<and> 0 < cn_active e \<and> c \<notin> set (closed_clients (pool s))"
proof -
  have core: "poolCore (pool s) (holding s)" using reach_inv [OF assms(1)] by (simp add: poolInv_def)
  then obtain e where e: "(key, e) \<in> set (clients (pool s))" "cn_client e = c"
    using assms(2) by (force simp: poolCore_def backed_def)
  have "distinct (map fst (clients (pool s)))" using core by (simp add: poolCore_def)
  then have m: "map_of (clients (pool s)) key = Some e" using e(1) by (rule map_of_is_SomeI)
  with e poolCore_untouch(2) [OF core assms(2)] poolCore_clients(2) [OF core e(1)] show ?thesis by auto
qed

text \<open>The cache holds at most 32 clients, or as many as are pinned or in use when these are more:
  idle clients never exceed the bound, and an overflow goes away as calls end.\<close>

lemma pool_bounded:
  assumes "pool_reach env s"
  shows "length (clients (pool s)) \<le>
    max 32 (length (filter (\<lambda>(k, e). cn_pinned e \<or> cn_active e \<noteq> 0) (clients (pool s))))"
proof (cases "length (clients (pool s)) \<le> 32")
  case False
  with reach_inv [OF assms] have "\<forall>x \<in> set (clients (pool s)). \<not> idle (snd x)"
    by (auto simp: poolInv_def poolBounded_def maxCachedBifrostClients_def)
  then have "filter (\<lambda>(k, e). cn_pinned e \<or> cn_active e \<noteq> 0) (clients (pool s)) = clients (pool s)"
    by (intro filter_True) (auto simp: idle_def)
  then show ?thesis by simp
qed simp

text \<open>Every client that was ever made is shut down exactly once, by an eviction or when the
  adapter is shut down.\<close>

lemma shutdown_once:
  assumes "pool_reach env s"
  shows "mset (closed_clients (shutdownAdapter (pool s))) = mset [0..<made_n (pool s)] \<and>
    clients (shutdownAdapter (pool s)) = []"
  using reach_inv [OF assms] by (simp add: poolInv_def poolCore_def shutdownAdapter_def add.commute)

text \<open>The example: a call holds the first client.\<close>

definition demo_pool_env :: adapter_env where
  "demo_pool_env = \<lparr> ae_sha = (\<lambda>x. x), ae_hmac = (\<lambda>k m. k @ m), ae_init = (\<lambda>_ _. True) \<rparr>"

definition demo_target :: "string \<Rightarrow> execution_target" where
  "demo_target i = \<lparr> et_provider = ''openai'', et_endpoint = ''https://p'', et_credential = ''secret'' @ i, et_model = ''m'',
     et_route = i, et_weight = 1 \<rparr>"

definition demo_pool :: pool_system where
  "demo_pool = \<lparr> pool = snd (clientForCandidates demo_pool_env [demo_target ''a'', demo_target ''b''] (newLazyWithExecution 1 0)),
     holding = [(targetsKey (\<lambda>x. x) [demo_target ''a'', demo_target ''b''], 0)] \<rparr>"

lemma demo_normalize: "normalizeTarget (demo_target i) f = demo_target i" "usableTarget (demo_target i)"
  by (simp_all add: normalizeTarget_def usableTarget_def demo_target_def)

lemma demo_config:
  "newCandidateClient a [demo_target i, demo_target j] =
     Some (clientConfig a ''openai'' ''https://p'' [candidateKey 0 (demo_target i), candidateKey 1 (demo_target j)])"
  by (simp add: newCandidateClient_def providerForTarget_def demo_target_def)

lemma demo_acquire:
  assumes "clients a = []" and "made_n a = 0" and "closed_clients a = []"
  shows "acquireClient demo_pool_env key (Some cfg) a =
    (Some 0, a\<lparr>inits_n := Suc (inits_n a), made_n := 1, client_configs := (client_configs a)(0 := cfg),
       client_clock := Suc (client_clock a), clients := [(key, \<lparr> cn_client = 0, cn_last_used = Suc (client_clock a),
         cn_pinned = False, cn_active = 1 \<rparr>)]\<rparr>)"
  using assms by (simp add: acquireClient_def demo_pool_env_def cacheClientLocked_def maxCachedBifrostClients_def
      shutdownClient_def Let_def)

lemma demo_run:
  "clientForCandidates demo_pool_env [demo_target ''a'', demo_target ''b''] (newLazyWithExecution 1 0) =
     (Some (0, targetsKey (\<lambda>x. x) [demo_target ''a'', demo_target ''b''], [demo_target ''a'', demo_target ''b'']),
      snd (clientForCandidates demo_pool_env [demo_target ''a'', demo_target ''b''] (newLazyWithExecution 1 0))) \<and>
   made_n (snd (clientForCandidates demo_pool_env [demo_target ''a'', demo_target ''b''] (newLazyWithExecution 1 0))) = 1"
proof -
  have sha: "ae_sha demo_pool_env = (\<lambda>x. x)" by (simp add: demo_pool_env_def)
  have a: "clients (newLazyWithExecution 1 0) = []" "made_n (newLazyWithExecution 1 0) = 0"
    "closed_clients (newLazyWithExecution 1 0) = []" by (simp_all add: newLazyWithExecution_def)
  show ?thesis
    by (simp add: clientForCandidates_def Let_def demo_normalize demo_config demo_acquire [OF a] sha)
qed

lemma demo_pool_reach: "pool_reach demo_pool_env demo_pool"
proof -
  have start: "pool_reach demo_pool_env \<lparr> pool = newLazyWithExecution 1 0, holding = [] \<rparr>"
    by (rule pool_reach.start) (auto simp: freshAdapter_def)
  have clean: "list_all cleanTarget [demo_target ''a'', demo_target ''b'']"
    by (simp add: cleanTarget_def demo_target_def)
  show ?thesis
    using pool_reach.candidates [OF start clean, of 0] demo_run unfolding demo_pool_def pool_system.simps by blast
qed

theorem held_client_open_witness:
  "\<exists>e. map_of (clients (pool demo_pool)) (targetsKey (\<lambda>x. x) [demo_target ''a'', demo_target ''b'']) = Some e \<and>
     cn_client e = 0 \<and> 0 < cn_active e \<and> 0 \<notin> set (closed_clients (pool demo_pool))"
  by (rule held_client_open [OF demo_pool_reach]) (simp add: demo_pool_def)

lemma pool_bounded_witness:
  "length (clients (pool demo_pool)) \<le>
    max 32 (length (filter (\<lambda>(k, e). cn_pinned e \<or> cn_active e \<noteq> 0) (clients (pool demo_pool))))"
  by (rule pool_bounded [OF demo_pool_reach])

lemma shutdown_once_witness:
  "mset (closed_clients (shutdownAdapter (pool demo_pool))) = {#0#}"
  using shutdown_once [OF demo_pool_reach] demo_run by (simp add: demo_pool_def)

end
