(* ===== verification/BifrostKeys.thy ===== *)
theory BifrostKeys
  imports BifrostPool
begin

section \<open>Whose credentials a cached client has\<close>

text \<open>
  Clients are cached under a hash of their targets. The bytes that are hashed determine the targets, so
  if SHA-256 does not collide a call is served by a client with the credentials, the endpoint and the
  key identifiers of its own targets, however many other clients there are.
\<close>

subsection \<open>The bytes determine the targets\<close>

lemma showNat_inj: "showNat m = showNat n \<Longrightarrow> m = n"
  using parseDigits_showNat by (metis option.inject)

lemma showNat_chars: "c \<in> set (showNat n) \<Longrightarrow> c \<noteq> CHR 0x00 \<and> c \<noteq> CHR ''-''"
proof (induction n rule: showNat.induct)
  case (1 n)
  have digit: "k < 10 \<Longrightarrow> char_of (48 + k) \<noteq> CHR 0x00 \<and> char_of (48 + k) \<noteq> CHR ''-''" for k :: nat
  proof -
    assume "k < 10"
    then have "k = 0 \<or> k = 1 \<or> k = 2 \<or> k = 3 \<or> k = 4 \<or> k = 5 \<or> k = 6 \<or> k = 7 \<or> k = 8 \<or> k = 9" by arith
    then show ?thesis by (elim disjE) (simp_all add: char_of_def bit_iff_odd)
  qed
  from 1 show ?case
    by (subst (asm) showNat.simps) (use digit [of n] digit [of "n mod 10"] in \<open>auto split: if_splits\<close>)
qed

lemma showInt_inj: "showInt i = showInt j \<Longrightarrow> i = j"
proof -
  assume eq: "showInt i = showInt j"
  have "showNat n \<noteq> []" for n by (subst showNat.simps) simp
  then have hd: "hd (showNat n) \<noteq> CHR ''-''" for n
    using showNat_chars [of "hd (showNat n)" n] by simp
  show "i = j"
    using eq hd by (auto simp: showInt_def split: if_splits dest!: showNat_inj) (metis list.sel(1))+
qed

lemma showInt_clean: "CHR 0x00 \<notin> set (showInt i)"
  using showNat_chars by (auto simp: showInt_def)

text \<open>Fields that are ended by a byte that none contains are read back one by one.\<close>

definition fieldsOf :: "execution_target \<Rightarrow> string list" where
  "fieldsOf t = [et_provider t, et_endpoint t, et_credential t, et_model t, et_route t, showInt (et_weight t)]"

lemma ended_inject:
  assumes "c \<notin> set x" and "c \<notin> set y" and "x @ c # u = y @ c # v"
  shows "x = y \<and> u = v"
  using assms
proof (induction x arbitrary: y)
  case Nil
  then show ?case by (cases y) auto
next
  case (Cons a x)
  then show ?case by (cases y) auto
qed

lemma concat_ended_inject:
  assumes "\<forall>f \<in> set fs \<union> set gs. c \<notin> set f"
    and "concat (map (\<lambda>f. f @ [c]) fs) = concat (map (\<lambda>f. f @ [c]) gs)"
  shows "fs = gs"
  using assms
proof (induction fs arbitrary: gs)
  case Nil
  then show ?case by (cases gs) auto
next
  case (Cons f fs)
  then obtain g gs' where g: "gs = g # gs'" by (cases gs) auto
  with Cons.prems have "f = g \<and> concat (map (\<lambda>f. f @ [c]) fs) = concat (map (\<lambda>f. f @ [c]) gs')"
    by (intro ended_inject [of c]) auto
  with g Cons.IH [of gs'] Cons.prems(1) show ?case by auto
qed

lemma fields_clean: "cleanTarget t \<Longrightarrow> f \<in> set (fieldsOf t) \<Longrightarrow> CHR 0x00 \<notin> set f"
  by (auto simp: cleanTarget_def fieldsOf_def showInt_clean)

lemma fieldsOf_inj: "fieldsOf t = fieldsOf u \<Longrightarrow> t = u"
  by (simp add: fieldsOf_def execution_target.equality showInt_inj)

lemma concat_fields_inj: "concat (map fieldsOf ts) = concat (map fieldsOf us) \<Longrightarrow> ts = us"
proof (induction ts arbitrary: us)
  case Nil
  then show ?case by (cases us) (auto simp: fieldsOf_def)
next
  case (Cons t ts)
  then obtain u us' where u: "us = u # us'" by (cases us) (auto simp: fieldsOf_def)
  have len: "length (fieldsOf t) = length (fieldsOf u)" by (simp add: fieldsOf_def)
  from Cons.prems u have "fieldsOf t @ concat (map fieldsOf ts) = fieldsOf u @ concat (map fieldsOf us')" by simp
  then have "fieldsOf t = fieldsOf u" "concat (map fieldsOf ts) = concat (map fieldsOf us')"
    using append_eq_append_conv [OF disjI1 [OF len]] by blast+
  with u Cons.IH show ?case by (auto dest: fieldsOf_inj)
qed

lemma targetBytes_inj:
  assumes "list_all cleanTarget ts" and "list_all cleanTarget us"
    and "concat (map targetBytes ts) = concat (map targetBytes us)"
  shows "ts = us"
proof (rule concat_fields_inj, rule concat_ended_inject [where c = "CHR 0x00"])
  show "\<forall>f \<in> set (concat (map fieldsOf ts)) \<union> set (concat (map fieldsOf us)). CHR 0x00 \<notin> set f"
    using assms(1,2) fields_clean by (fastforce simp: list_all_iff)
  have "concat (map targetBytes xs) = concat (map (\<lambda>f. f @ [CHR 0x00]) (concat (map fieldsOf xs)))" for xs
    by (induction xs) (simp_all add: targetBytes_def fieldsOf_def)
  then show "concat (map (\<lambda>f. f @ [CHR 0x00]) (concat (map fieldsOf ts))) =
      concat (map (\<lambda>f. f @ [CHR 0x00]) (concat (map fieldsOf us)))"
    using assms(3) by simp
qed

lemma targetsKey_inj:
  assumes "inj sha" and "list_all cleanTarget ts" and "list_all cleanTarget us"
    and "targetsKey sha ts = targetsKey sha us"
  shows "ts = us"
proof (rule targetBytes_inj [OF assms(2,3)])
  have "sha (concat (map targetBytes ts)) = sha (concat (map targetBytes us))"
    using assms(4) by (simp add: targetsKey_def)
  with assms(1) show "concat (map targetBytes ts) = concat (map targetBytes us)" by (rule injD)
qed

subsection \<open>What the cache is keyed by\<close>

text \<open>A relation \<open>P\<close> between keys and configurations that holds of every new client holds of every cached one.\<close>

definition pairs :: "(string \<times> cached_client) list \<Rightarrow> (string \<times> nat) set" where
  "pairs es = (\<lambda>x. (fst x, cn_client (snd x))) ` set es"

definition cacheAll :: "(string \<Rightarrow> client_config \<Rightarrow> bool) \<Rightarrow> adapter \<Rightarrow> bool" where
  "cacheAll P a \<longleftrightarrow> (\<forall>(k, c) \<in> pairs (clients a). P k (client_configs a c))"

lemma pairs_update: "pairs (AList.update k v es) \<subseteq> insert (k, cn_client v) (pairs es)"
  by (induction es) (auto simp: pairs_def)

lemma pairs_touch: "map_of es k = Some e \<Longrightarrow> cn_client v = cn_client e \<Longrightarrow> pairs (AList.update k v es) \<subseteq> pairs es"
  using pairs_update [of k v es] by (force simp: pairs_def dest: map_of_SomeD)

lemma pairs_evict: "evictIdleClientLocked a = (r, b) \<Longrightarrow> pairs (clients b) \<subseteq> pairs (clients a) \<and>
    client_configs b = client_configs a \<and> client_clock b = client_clock a"
  by (auto simp: evictIdleClientLocked_def pairs_def AList.delete_eq split: option.splits prod.splits)

lemma cacheAll_mono:
  assumes "cacheAll P a" and "pairs (clients b) \<subseteq> pairs (clients a)" and "client_configs b = client_configs a"
  shows "cacheAll P b"
  using assms by (auto simp: cacheAll_def)

lemma shutdownClient_fields [simp]:
  "clients (shutdownClient r a) = clients a" "client_configs (shutdownClient r a) = client_configs a"
  by (simp_all add: shutdownClient_def split: option.split)

lemma cacheAll_acquire:
  assumes "poolInv a holders" and "cacheAll P a" and "acquireClient env key config a = (r, a')"
    and "\<And>cfg. config = Some cfg \<Longrightarrow> P key cfg"
  shows "cacheAll P a' \<and> (\<forall>c. r = Some c \<longrightarrow> P key (client_configs a' c))"
proof (cases "map_of (clients a) key")
  case (Some e)
  then have "(key, cn_client e) \<in> pairs (clients a)" by (force simp: pairs_def dest: map_of_SomeD)
  then have "P key (client_configs a (cn_client e))" using assms(2) by (auto simp: cacheAll_def)
  moreover have "cacheAll P a'"
    using assms(3) pairs_touch [OF Some, of "e\<lparr>cn_last_used := Suc (client_clock a), cn_active := Suc (cn_active e)\<rparr>"]
    by (intro cacheAll_mono [OF assms(2)]) (auto simp: acquireClient_def Some Let_def)
  ultimately show ?thesis using assms(3) by (auto simp: acquireClient_def Some Let_def)
next
  case None
  show ?thesis
  proof (cases "config = None \<or> \<not> ae_init env (inits_n a) (the config)")
    case True
    then show ?thesis
      using assms(2,3) None by (auto simp: acquireClient_def Let_def cacheAll_def split: option.splits)
  next
    case False
    then obtain cfg where cfg: "config = Some cfg" "ae_init env (inits_n a) cfg" by auto
    let ?a2 = "a\<lparr>inits_n := Suc (inits_n a), made_n := Suc (made_n a), client_configs := (client_configs a)(made_n a := cfg)\<rparr>"
    obtain v b where ev: "(if maxCachedBifrostClients \<le> length (clients ?a2) then evictIdleClientLocked ?a2 else (None, ?a2)) = (v, b)"
      by fastforce
    have b: "pairs (clients b) \<subseteq> pairs (clients a)" "client_configs b = (client_configs a)(made_n a := cfg)"
      using ev pairs_evict [of ?a2 v b] by (auto split: if_splits)
    let ?e = "\<lparr> cn_client = made_n a, cn_last_used = Suc (client_clock b), cn_pinned = False, cn_active = 1 \<rparr>"
    have run: "r = Some (made_n a)" "clients a' = AList.update key ?e (clients b)" "client_configs a' = client_configs b"
    proof -
      have "acquireClient env key config a = (case cacheClientLocked key (made_n a) False 1 ?a2 of
          (evicted, a3) \<Rightarrow> (Some (made_n a), shutdownClient evicted a3))"
        by (simp add: acquireClient_def None cfg Let_def)
      moreover have "cacheClientLocked key (made_n a) False 1 ?a2 =
          (v, b\<lparr>client_clock := Suc (client_clock b), clients := AList.update key ?e (clients b)\<rparr>)"
        unfolding cacheClientLocked_def ev by simp
      ultimately show "r = Some (made_n a)" "clients a' = AList.update key ?e (clients b)" "client_configs a' = client_configs b"
        using assms(3) by auto
    qed
    have old: "(k, c) \<in> pairs (clients a) \<Longrightarrow> c \<noteq> made_n a" for k c
      using poolCore_clients(1) [of a holders] assms(1) by (fastforce simp: pairs_def poolInv_def)
    have "pairs (clients a') \<subseteq> insert (key, made_n a) (pairs (clients a))"
      using pairs_update [of key ?e "clients b"] b(1) by (auto simp: run(2))
    then have "cacheAll P a'"
      using assms(2) assms(4) [OF cfg(1)] old by (fastforce simp: cacheAll_def run(3) b(2))
    then show ?thesis by (simp add: run(1,3) b(2) assms(4) [OF cfg(1)])
  qed
qed

lemma cacheAll_release: "cacheAll P a \<Longrightarrow> cacheAll P (releaseClient key c a)"
proof -
  assume all: "cacheAll P a"
  let ?a = "case map_of (clients a) key of None \<Rightarrow> a | Some entry \<Rightarrow>
      if cn_client entry = c \<and> 0 < cn_active entry
      then a\<lparr>clients := AList.update key (entry\<lparr>cn_active := cn_active entry - 1\<rparr>) (clients a)\<rparr> else a"
  obtain v b where ev: "(if maxCachedBifrostClients < length (clients ?a) then evictIdleClientLocked ?a else (None, ?a)) = (v, b)"
    by fastforce
  have "pairs (clients ?a) \<subseteq> pairs (clients a)" "client_configs ?a = client_configs a"
    by (auto split: option.splits if_splits dest: pairs_touch [THEN subsetD, rotated 2])
  then have "pairs (clients b) \<subseteq> pairs (clients a)" "client_configs b = client_configs a"
    using ev pairs_evict [of ?a v b] by (auto split: if_splits)
  moreover have "releaseClient key c a = shutdownClient v b"
    unfolding releaseClient_def Let_def using ev by simp
  ultimately show ?thesis by (intro cacheAll_mono [OF all]) simp_all
qed

subsection \<open>Candidates are served by their own keys\<close>

definition servesCandidates :: "execution_target list \<Rightarrow> client_config \<Rightarrow> bool" where
  "servesCandidates ns cfg \<longleftrightarrow> ns \<noteq> [] \<and>
     (\<exists>p. providerForTarget (hd ns) = Some p \<and> bc_provider cfg = p \<and> bc_endpoint cfg = et_endpoint (hd ns) \<and>
        candidateKeys p (hd ns) 0 ns = Some (bc_keys cfg))"

definition keyedBy :: "(string \<Rightarrow> string) \<Rightarrow> string \<Rightarrow> client_config \<Rightarrow> bool" where
  "keyedBy sha key cfg \<longleftrightarrow>
     (\<exists>ns. key = targetsKey sha ns \<and> list_all cleanTarget ns \<and> servesCandidates ns cfg) \<or>
     (\<exists>t. key = targetKey sha t \<and> providerForTarget t \<noteq> None)"

lemma keyedBy_candidates:
  assumes "inj sha" and "list_all cleanTarget ns" and "keyedBy sha (targetsKey sha ns) cfg"
  shows "servesCandidates ns cfg"
proof -
  have "targetsKey sha ns \<noteq> targetKey sha t" if "providerForTarget t \<noteq> None" for t
    using that by (auto simp: providerForTarget_def targetsKey_def targetKey_def Let_def split: if_splits)
  with assms(3) obtain ms where "targetsKey sha ns = targetsKey sha ms" "list_all cleanTarget ms" "servesCandidates ms cfg"
    by (auto simp: keyedBy_def)
  with targetsKey_inj [OF assms(1,2)] show ?thesis by auto
qed

lemma newCandidateClient_serves: "newCandidateClient a ns = Some cfg \<Longrightarrow> servesCandidates ns cfg"
  by (auto simp: newCandidateClient_def servesCandidates_def clientConfig_def split: list.splits option.splits)

lemma clean_normalize: "cleanTarget t \<Longrightarrow> cleanTarget f \<Longrightarrow> cleanTarget (normalizeTarget t f)"
  by (auto simp: cleanTarget_def normalizeTarget_def)

lemma release_default: "default_target (releaseClient key c a) = default_target a"
  by (auto simp: releaseClient_def Let_def shutdownClient_def evictIdleClientLocked_def split: option.splits prod.splits)

lemma acquire_default: "acquireClient env key cfg a = (r, a') \<Longrightarrow> default_target a' = default_target a"
  by (auto simp: acquireClient_def Let_def cacheClientLocked_def shutdownClient_def evictIdleClientLocked_def
      split: option.splits prod.splits if_splits)

text \<open>The invariant, over runs.\<close>

definition keyed :: "adapter_env \<Rightarrow> pool_system \<Rightarrow> bool" where
  "keyed env s \<longleftrightarrow> poolInv (pool s) (holding s) \<and> cleanTarget (default_target (pool s)) \<and>
     cacheAll (keyedBy (ae_sha env)) (pool s)"

lemma candidates_keyed:
  assumes "keyed env s" and "list_all cleanTarget ts" and "clientForCandidates env ts (pool s) = (r, a)"
  shows "cleanTarget (default_target a) \<and> cacheAll (keyedBy (ae_sha env)) a \<and>
    (\<forall>c key ns. r = Some (c, key, ns) \<longrightarrow> ns = map (\<lambda>t. normalizeTarget t (default_target (pool s))) ts \<and>
       list_all cleanTarget ns \<and> key = targetsKey (ae_sha env) ns \<and> keyedBy (ae_sha env) key (client_configs a c))"
proof -
  let ?ns = "map (\<lambda>t. normalizeTarget t (default_target (pool s))) ts"
  let ?key = "targetsKey (ae_sha env) ?ns"
  have clean: "list_all cleanTarget ?ns"
    using assms(1,2) by (auto simp: keyed_def list_all_iff intro: clean_normalize)
  show ?thesis
  proof (cases "ts = [] \<or> \<not> list_all usableTarget ?ns")
    case True
    with assms show ?thesis by (auto simp: clientForCandidates_def Let_def keyed_def)
  next
    case False
    obtain r' where run: "acquireClient env ?key (newCandidateClient (pool s) ?ns) (pool s) = (r', a)"
      "r = map_option (\<lambda>c. (c, ?key, ?ns)) r'"
      using assms(3) False by (auto simp: clientForCandidates_def Let_def split: prod.splits)
    have "keyedBy (ae_sha env) ?key cfg" if "newCandidateClient (pool s) ?ns = Some cfg" for cfg
      using newCandidateClient_serves [OF that] clean by (auto simp: keyedBy_def)
    from cacheAll_acquire [where P = "keyedBy (ae_sha env)", OF _ _ run(1) this] assms(1) show ?thesis
      using clean acquire_default [OF run(1)] run(2) by (auto simp: keyed_def)
  qed
qed

lemma target_keyed:
  assumes "keyed env s" and "clientFor env t (pool s) = (r, a)"
  shows "cleanTarget (default_target a) \<and> cacheAll (keyedBy (ae_sha env)) a"
proof -
  let ?t = "normalizeTarget t (default_target (pool s))"
  show ?thesis
  proof (cases "usableTarget ?t")
    case False
    with assms show ?thesis by (auto simp: clientFor_def Let_def keyed_def)
  next
    case True
    obtain r' where run: "acquireClient env (targetKey (ae_sha env) ?t) (newProviderClient (pool s) ?t) (pool s) = (r', a)"
      using assms(2) True by (auto simp: clientFor_def Let_def split: prod.splits)
    have "keyedBy (ae_sha env) (targetKey (ae_sha env) ?t) cfg" if "newProviderClient (pool s) ?t = Some cfg" for cfg
      using that by (auto simp: newProviderClient_def keyedBy_def)
    from cacheAll_acquire [where P = "keyedBy (ae_sha env)", OF _ _ run this] assms(1) show ?thesis
      using acquire_default [OF run] by (auto simp: keyed_def)
  qed
qed

lemma fresh_keyed: "freshAdapter env a \<Longrightarrow> cleanTarget (default_target a) \<and> cacheAll (keyedBy (ae_sha env)) a"
proof -
  assume "freshAdapter env a"
  then consider n d where "a = newLazyWithExecution n d"
    | u c where "CHR 0x00 \<notin> set u \<union> set c" "newOpenAI env u c = Some a"
    by (auto simp: freshAdapter_def)
  then show ?thesis
  proof cases
    case 1
    then show ?thesis by (simp add: newLazyWithExecution_def cacheAll_def pairs_def cleanTarget_def no_target_def)
  next
    case (2 u c)
    let ?t = "no_target\<lparr>et_endpoint := u, et_credential := c\<rparr>"
    from 2(2) have a: "default_target a = ?t" "fst ` set (clients a) = {targetKey (ae_sha env) ?t}"
      by (auto simp: newOpenAI_def Let_def split: option.splits if_splits)
    have "keyedBy (ae_sha env) (targetKey (ae_sha env) ?t) cfg" for cfg
      unfolding keyedBy_def by (intro disjI2 exI [of _ ?t]) (simp add: providerForTarget_def no_target_def)
    moreover have "x \<in> set (clients a) \<Longrightarrow> fst x = targetKey (ae_sha env) ?t" for x
      using a(2) by blast
    ultimately show ?thesis
      using 2(1) a(1) by (auto simp: cacheAll_def pairs_def cleanTarget_def no_target_def)
  qed
qed

lemma reach_keyed: "pool_reach env s \<Longrightarrow> keyed env s"
proof (induction rule: pool_reach.induct)
  case (start a)
  then show ?case using fresh_inv fresh_keyed by (simp add: keyed_def)
next
  case (callbacks s u x)
  then show ?case
    using reach_inv [OF pool_reach.callbacks [OF callbacks.hyps]]
    by (simp add: keyed_def cacheAll_def configureProviderCallbacks_def)
next
  case (failed s ts a)
  then show ?case
    using candidates_keyed [OF failed.IH failed.hyps(2,3)] reach_inv [OF pool_reach.failed [OF failed.hyps]]
    by (simp add: keyed_def)
next
  case (candidates s ts c key ns a)
  then show ?case
    using candidates_keyed [OF candidates.IH candidates.hyps(2,3)] reach_inv [OF pool_reach.candidates [OF candidates.hyps]]
    by (simp add: keyed_def)
next
  case (failed_target s t a)
  then show ?case
    using target_keyed [OF failed_target.IH failed_target.hyps(3)] reach_inv [OF pool_reach.failed_target [OF failed_target.hyps]]
    by (simp add: keyed_def)
next
  case (target s t c key t' a)
  then show ?case
    using target_keyed [OF target.IH target.hyps(3)] reach_inv [OF pool_reach.target [OF target.hyps]]
    by (simp add: keyed_def)
next
  case (release s key c)
  then show ?case
    using reach_inv [OF pool_reach.release [OF release.hyps]]
    by (simp add: keyed_def cacheAll_release release_default)
qed

lemma candidateKeys_same:
  "candidateKeys p t0 i ts = Some ks \<Longrightarrow> map bk_value ks = map et_credential ts \<and> length ks = length ts \<and>
     (\<forall>t \<in> set ts. et_endpoint t = et_endpoint t0 \<and> et_model t = et_model t0 \<and> providerForTarget t = Some p) \<and>
     (\<forall>j < length ts. et_route (ts ! j) \<noteq> [] \<longrightarrow> bk_id (ks ! j) = et_route (ts ! j))"
proof (induction ts arbitrary: i ks)
  case (Cons t ts)
  from Cons.prems obtain ks' where k: "ks = candidateKey i t # ks'" "candidateKeys p t0 (Suc i) ts = Some ks'"
    "et_endpoint t = et_endpoint t0" "et_model t = et_model t0" "providerForTarget t = Some p"
    by (auto split: option.splits if_splits)
  note IH = Cons.IH [OF k(2)]
  have "(\<forall>j < length (t # ts). et_route ((t # ts) ! j) \<noteq> [] \<longrightarrow> bk_id (ks ! j) = et_route ((t # ts) ! j))"
    using IH by (simp add: All_less_Suc2 k(1) candidateKey_def)
  with IH k show ?case by (simp add: candidateKey_def)
qed simp

text \<open>C30: A call for candidates is served by a client that was made for exactly these candidates: its
  keys have the candidates' credentials and, where they have them, their route identifiers, in their
  order, its endpoint is theirs, and all candidates have one provider, endpoint and model, so that
  rotating among the keys never crosses providers or models.\<close>

theorem candidates_served_by_own_keys:
  assumes "pool_reach env s" and "inj (ae_sha env)" and "list_all cleanTarget ts"
    and "clientForCandidates env ts (pool s) = (Some (c, key, ns), a)"
  shows "ns = map (\<lambda>t. normalizeTarget t (default_target (pool s))) ts \<and>
    map bk_value (bc_keys (client_configs a c)) = map et_credential ns \<and>
    (\<forall>j < length ns. et_route (ns ! j) \<noteq> [] \<longrightarrow> bk_id (bc_keys (client_configs a c) ! j) = et_route (ns ! j)) \<and>
    (\<forall>t \<in> set ns. et_endpoint t = bc_endpoint (client_configs a c) \<and> et_model t = et_model (hd ns) \<and>
       providerForTarget t = Some (bc_provider (client_configs a c)))"
proof -
  from candidates_keyed [OF reach_keyed [OF assms(1)] assms(3,4)]
  have ns: "ns = map (\<lambda>t. normalizeTarget t (default_target (pool s))) ts" "list_all cleanTarget ns"
    "keyedBy (ae_sha env) (targetsKey (ae_sha env) ns) (client_configs a c)" by auto
  from keyedBy_candidates [OF assms(2) ns(2,3)]
  have "candidateKeys (bc_provider (client_configs a c)) (hd ns) 0 ns = Some (bc_keys (client_configs a c))"
    "bc_endpoint (client_configs a c) = et_endpoint (hd ns)" by (auto simp: servesCandidates_def)
  with candidateKeys_same [OF this(1)] ns(1) show ?thesis by simp
qed

theorem candidates_served_by_own_keys_witness:
  "\<exists>a. clientForCandidates demo_pool_env [demo_target ''a'', demo_target ''b''] (newLazyWithExecution 1 0) =
      (Some (0, targetsKey (\<lambda>x. x) [demo_target ''a'', demo_target ''b''], [demo_target ''a'', demo_target ''b'']), a) \<and>
    map bk_value (bc_keys (client_configs a 0)) = [''secreta'', ''secretb'']"
proof -
  let ?s = "\<lparr> pool = newLazyWithExecution 1 0, holding = [] \<rparr>"
  have start: "pool_reach demo_pool_env ?s" by (rule pool_reach.start) (auto simp: freshAdapter_def)
  have clean: "list_all cleanTarget [demo_target ''a'', demo_target ''b'']" by (simp add: cleanTarget_def demo_target_def)
  have sha: "inj (ae_sha demo_pool_env)" by (simp add: demo_pool_env_def)
  obtain a where a: "clientForCandidates demo_pool_env [demo_target ''a'', demo_target ''b''] (pool ?s) =
      (Some (0, targetsKey (\<lambda>x. x) [demo_target ''a'', demo_target ''b''], [demo_target ''a'', demo_target ''b'']), a)"
    using demo_run by auto
  have "map bk_value (bc_keys (client_configs a 0)) = map et_credential [demo_target ''a'', demo_target ''b'']"
    using candidates_served_by_own_keys [OF start sha clean a] by blast
  with a show ?thesis by (simp add: demo_target_def)
qed

end
