(* ===== verification/BifrostCalls.thy ===== *)
theory BifrostCalls
  imports BifrostKeys WayResolve
begin

section \<open>Calls through the adapter\<close>

text \<open>
  The methods of \<open>adapter.go\<close> that make a call: each acquires a client for its targets, pins provider
  and model of the request to them, asks Bifrost, and releases the client on every path. What Bifrost
  answers is a parameter that sees the client's configuration; \<open>during\<close> is what other calls do to the
  adapter meanwhile.
\<close>

subsection \<open>Requests\<close>

datatype call_error = NoClient | ExecutionError string string | CallFailed string

record 'b bifrost_request =
  pq_provider :: string
  pq_model :: string
  pq_fallbacks :: "string list"
  pq_body :: 'b

text \<open>The deadline of \<open>requestContext\<close>: \<open>None\<close> is a parent without one.\<close>

definition requestDeadline :: "adapter \<Rightarrow> time \<Rightarrow> time option \<Rightarrow> time" where
  "requestDeadline a t parent =
     (let deadline = t + request_timeout a in
      case parent of None \<Rightarrow> deadline | Some d \<Rightarrow> if d < deadline then d else deadline)"

definition pinned_request :: "execution_target list \<Rightarrow> 'b bifrost_request \<Rightarrow> 'b bifrost_request" where
  "pinned_request targets request =
     request\<lparr>pq_provider := (case providerForTarget (targets ! 0) of None \<Rightarrow> [] | Some p \<Rightarrow> p),
       pq_model := et_model (targets ! 0), pq_fallbacks := []\<rparr>"

definition withCandidates ::
  "adapter_env \<Rightarrow> (client_config \<Rightarrow> execution_target list \<Rightarrow> call_error + 'r) \<Rightarrow> (adapter \<Rightarrow> adapter) \<Rightarrow>
     execution_target list \<Rightarrow> adapter \<Rightarrow> (call_error + 'r) \<times> adapter" where
  "withCandidates env call during targets a =
     (case clientForCandidates env targets a of
        (None, a1) \<Rightarrow> (Inl NoClient, a1)
      | (Some (client, key, normalized), a1) \<Rightarrow>
          (call (client_configs a1 client) normalized, releaseClient key client (during a1)))"

text \<open>
  \<open>ChatCompletionCandidatesWithHeaders\<close>: an error of Bifrost is the selected key and a message. The chat
  request is new, so it has no fallbacks.
\<close>

definition chatCompletionCandidatesWithHeaders ::
  "adapter_env \<Rightarrow> (client_config \<Rightarrow> 'h \<Rightarrow> 'b bifrost_request \<Rightarrow> string \<times> string + 'r) \<Rightarrow> (adapter \<Rightarrow> adapter) \<Rightarrow>
     execution_target list \<Rightarrow> 'b \<Rightarrow> 'h \<Rightarrow> adapter \<Rightarrow> (call_error + 'r) \<times> adapter" where
  "chatCompletionCandidatesWithHeaders env engine during targets body headers =
     withCandidates env (\<lambda>cfg ts.
       case engine cfg headers (pinned_request ts \<lparr> pq_provider = [], pq_model = [], pq_fallbacks = [], pq_body = body \<rparr>) of
         Inl (key, message) \<Rightarrow> Inl (ExecutionError key (''bifrost chat completion: '' @ message))
       | Inr response \<Rightarrow> Inr response) during targets"

text \<open>
  The stream keeps its client until the caller cancels it: the result has the key and the client to
  release, and \<open>cancelStream\<close> is the cancel function.
\<close>

definition chatCompletionStreamCandidatesWithHeaders ::
  "adapter_env \<Rightarrow> (client_config \<Rightarrow> 'h \<Rightarrow> 'b bifrost_request \<Rightarrow> string \<times> string + 'r) \<Rightarrow> (adapter \<Rightarrow> adapter) \<Rightarrow>
     execution_target list \<Rightarrow> 'b \<Rightarrow> 'h \<Rightarrow> adapter \<Rightarrow> (call_error + 'r \<times> string \<times> nat) \<times> adapter" where
  "chatCompletionStreamCandidatesWithHeaders env engine during targets body headers a =
     (case clientForCandidates env targets a of
        (None, a1) \<Rightarrow> (Inl NoClient, a1)
      | (Some (client, key, ts), a1) \<Rightarrow>
          (case engine (client_configs a1 client) headers
             (pinned_request ts \<lparr> pq_provider = [], pq_model = [], pq_fallbacks = [], pq_body = body \<rparr>) of
             Inl (selected_key, message) \<Rightarrow>
               (Inl (ExecutionError selected_key (''bifrost chat completion stream: '' @ message)),
                releaseClient key client (during a1))
           | Inr chunks \<Rightarrow> (Inr (chunks, key, client), during a1)))"

definition cancelStream :: "string \<times> nat \<Rightarrow> adapter \<Rightarrow> adapter" where
  "cancelStream kc = releaseClient (fst kc) (snd kc)"

text \<open>The other request types copy the caller's request.\<close>

definition copiedRequest ::
  "string \<Rightarrow> adapter_env \<Rightarrow> (client_config \<Rightarrow> 'b bifrost_request \<Rightarrow> string + 'r) \<Rightarrow> (adapter \<Rightarrow> adapter) \<Rightarrow>
     execution_target list \<Rightarrow> 'b bifrost_request \<Rightarrow> adapter \<Rightarrow> (call_error + 'r) \<times> adapter" where
  "copiedRequest what env engine during targets request =
     withCandidates env (\<lambda>cfg ts. case engine cfg (pinned_request ts request) of
         Inl message \<Rightarrow> Inl (CallFailed (''bifrost '' @ what @ '': '' @ message))
       | Inr response \<Rightarrow> Inr response) during targets"

definition responsesCandidates ::
  "adapter_env \<Rightarrow> (client_config \<Rightarrow> 'b bifrost_request \<Rightarrow> string + 'r) \<Rightarrow> (adapter \<Rightarrow> adapter) \<Rightarrow>
     execution_target list \<Rightarrow> 'b bifrost_request \<Rightarrow> adapter \<Rightarrow> (call_error + 'r) \<times> adapter" where
  "responsesCandidates = copiedRequest ''responses''"

definition embeddingCandidates ::
  "adapter_env \<Rightarrow> (client_config \<Rightarrow> 'b bifrost_request \<Rightarrow> string + 'r) \<Rightarrow> (adapter \<Rightarrow> adapter) \<Rightarrow>
     execution_target list \<Rightarrow> 'b bifrost_request \<Rightarrow> adapter \<Rightarrow> (call_error + 'r) \<times> adapter" where
  "embeddingCandidates = copiedRequest ''embedding''"

definition speechCandidates ::
  "adapter_env \<Rightarrow> (client_config \<Rightarrow> 'b bifrost_request \<Rightarrow> string + 'r) \<Rightarrow> (adapter \<Rightarrow> adapter) \<Rightarrow>
     execution_target list \<Rightarrow> 'b bifrost_request \<Rightarrow> adapter \<Rightarrow> (call_error + 'r) \<times> adapter" where
  "speechCandidates = copiedRequest ''speech''"

definition transcriptionCandidates ::
  "adapter_env \<Rightarrow> (client_config \<Rightarrow> 'b bifrost_request \<Rightarrow> string + 'r) \<Rightarrow> (adapter \<Rightarrow> adapter) \<Rightarrow>
     execution_target list \<Rightarrow> 'b bifrost_request \<Rightarrow> adapter \<Rightarrow> (call_error + 'r) \<times> adapter" where
  "transcriptionCandidates = copiedRequest ''transcription''"

definition imageGenerationCandidates ::
  "adapter_env \<Rightarrow> (client_config \<Rightarrow> 'b bifrost_request \<Rightarrow> string + 'r) \<Rightarrow> (adapter \<Rightarrow> adapter) \<Rightarrow>
     execution_target list \<Rightarrow> 'b bifrost_request \<Rightarrow> adapter \<Rightarrow> (call_error + 'r) \<times> adapter" where
  "imageGenerationCandidates = copiedRequest ''image generation''"

definition responsesStreamCandidates ::
  "adapter_env \<Rightarrow> (client_config \<Rightarrow> 'b bifrost_request \<Rightarrow> string + 'r) \<Rightarrow> (adapter \<Rightarrow> adapter) \<Rightarrow>
     execution_target list \<Rightarrow> 'b bifrost_request \<Rightarrow> adapter \<Rightarrow> (call_error + 'r \<times> string \<times> nat) \<times> adapter" where
  "responsesStreamCandidates env engine during targets request a =
     (case clientForCandidates env targets a of
        (None, a1) \<Rightarrow> (Inl NoClient, a1)
      | (Some (client, key, ts), a1) \<Rightarrow>
          (case engine (client_configs a1 client) (pinned_request ts request) of
             Inl message \<Rightarrow> (Inl (CallFailed (''bifrost responses stream: '' @ message)), releaseClient key client (during a1))
           | Inr chunks \<Rightarrow> (Inr (chunks, key, client), during a1)))"

subsection \<open>Realtime\<close>

text \<open>
  Bifrost's realtime provider: which key it selects for a model (\<open>None\<close> is an error), whether the OpenAI
  provider supports realtime and WebRTC, the headers and the URL for a key, and the codecs of events.
\<close>

record ('k, 'e) realtime_engine =
  re_select :: "client_config \<Rightarrow> string \<Rightarrow> 'k option"
  re_key_id :: "'k \<Rightarrow> string"
  re_supported :: "client_config \<Rightarrow> bool"
  re_headers :: "'k \<Rightarrow> string + (string \<times> string) list"
  re_url :: "'k \<Rightarrow> string \<Rightarrow> string"
  re_parse :: "string \<Rightarrow> 'e option"
  re_to_provider :: "'e \<Rightarrow> string option"
  re_from_provider :: "string \<Rightarrow> (string \<times> llm_usage option) option"
  re_final_event :: string
  re_webrtc :: bool
  re_exchange :: "'k \<Rightarrow> string \<Rightarrow> string \<Rightarrow> string \<Rightarrow> string + string"

definition realtimeProvider ::
  "adapter_env \<Rightarrow> ('k, 'e) realtime_engine \<Rightarrow> execution_target \<Rightarrow> adapter \<Rightarrow>
     ('k \<times> string \<times> nat \<times> execution_target) option \<times> adapter" where
  "realtimeProvider env engine target0 a =
     (case clientFor env target0 a of
        (None, a1) \<Rightarrow> (None, a1)
      | (Some (client, key, target), a1) \<Rightarrow>
          let cfg = client_configs a1 client in
          (case re_select engine cfg (et_model target) of
             None \<Rightarrow> (None, releaseClient key client a1)
           | Some k \<Rightarrow>
               if \<not> re_supported engine cfg then (None, releaseClient key client a1)
               else (Some (k, key, client, target), a1)))"

definition withRealtime ::
  "adapter_env \<Rightarrow> ('k, 'e) realtime_engine \<Rightarrow> ('k \<Rightarrow> execution_target \<Rightarrow> 'r option) \<Rightarrow> (adapter \<Rightarrow> adapter) \<Rightarrow>
     execution_target \<Rightarrow> adapter \<Rightarrow> 'r option \<times> adapter" where
  "withRealtime env engine f during target a =
     (case realtimeProvider env engine target a of
        (None, a1) \<Rightarrow> (None, a1)
      | (Some (k, key, client, t), a1) \<Rightarrow> (f k t, releaseClient key client (during a1)))"

definition realtimeWebSocketRoute ::
  "adapter_env \<Rightarrow> ('k, 'e) realtime_engine \<Rightarrow> (adapter \<Rightarrow> adapter) \<Rightarrow> execution_target \<Rightarrow> adapter \<Rightarrow>
     (string \<times> (string \<times> string) list) option \<times> adapter" where
  "realtimeWebSocketRoute env engine during target =
     withRealtime env engine (\<lambda>k _. case re_headers engine k of
         Inl message \<Rightarrow> None
       | Inr headers \<Rightarrow> Some (re_url engine k (et_model target), headers)) during target"

definition realtimeWebSocketRouteCandidates ::
  "adapter_env \<Rightarrow> ('k, 'e) realtime_engine \<Rightarrow> (adapter \<Rightarrow> adapter) \<Rightarrow> execution_target list \<Rightarrow> adapter \<Rightarrow>
     (call_error + string \<times> (string \<times> string) list \<times> string) \<times> adapter" where
  "realtimeWebSocketRouteCandidates env engine =
     withCandidates env (\<lambda>cfg ts. case re_select engine cfg (et_model (ts ! 0)) of
         None \<Rightarrow> Inl (CallFailed ''select Bifrost Realtime key'')
       | Some k \<Rightarrow>
           if \<not> re_supported engine cfg then Inl (CallFailed ''bifrost provider does not support realtime'')
           else (case re_headers engine k of
             Inl message \<Rightarrow> Inl (CallFailed (''bifrost realtime headers: '' @ message))
           | Inr headers \<Rightarrow> Inr (re_url engine k (et_model (ts ! 0)), headers, re_key_id engine k)))"

definition realtimeClientEvent ::
  "adapter_env \<Rightarrow> ('k, 'e) realtime_engine \<Rightarrow> (adapter \<Rightarrow> adapter) \<Rightarrow> execution_target \<Rightarrow> string \<Rightarrow> adapter \<Rightarrow>
     string option \<times> adapter" where
  "realtimeClientEvent env engine during target event =
     withRealtime env engine (\<lambda>_ _. Option.bind (re_parse engine event) (re_to_provider engine)) during target"

text \<open>The public bytes, the usage, and whether the event ends the turn.\<close>

definition realtimeProviderEvent ::
  "adapter_env \<Rightarrow> ('k, 'e) realtime_engine \<Rightarrow> (adapter \<Rightarrow> adapter) \<Rightarrow> execution_target \<Rightarrow> string \<Rightarrow> adapter \<Rightarrow>
     (string \<times> llm_usage option \<times> bool) option \<times> adapter" where
  "realtimeProviderEvent env engine during target event =
     withRealtime env engine (\<lambda>_ _. map_option (\<lambda>(ty, usage).
         (event, if ty = re_final_event engine then usage else None, ty = re_final_event engine))
       (re_from_provider engine event)) during target"

text \<open>The session is the provider's JSON.\<close>

definition exchangeRealtimeWebRTCSDP ::
  "adapter_env \<Rightarrow> ('k, 'e) realtime_engine \<Rightarrow> (adapter \<Rightarrow> adapter) \<Rightarrow> execution_target \<Rightarrow> string \<Rightarrow> string \<Rightarrow> adapter \<Rightarrow>
     string option \<times> adapter" where
  "exchangeRealtimeWebRTCSDP env engine during target sdp session =
     withRealtime env engine (\<lambda>k _.
       if \<not> re_webrtc engine then None
       else (case re_exchange engine k (et_model target) sdp session of
         Inl message \<Rightarrow> None
       | Inr answer \<Rightarrow> Some answer)) during target"

subsection \<open>No call leaks its client\<close>

text \<open>
  Between acquisition and release other calls run: \<open>others_run\<close> says that they take steps of the adapter,
  in which they may acquire clients and release those held before, and that they leave \<open>left\<close> beside this
  call. A system is settled after a call when the clients held are those before it or, once others have
  run, those that they left.
\<close>

definition others_run :: "adapter_env \<Rightarrow> pool_system \<Rightarrow> (string \<times> nat) list \<Rightarrow> (adapter \<Rightarrow> adapter) \<Rightarrow> bool" where
  "others_run env s left during \<longleftrightarrow>
     (\<forall>a kc. pool_reach env \<lparr> pool = a, holding = kc # holding s \<rparr> \<longrightarrow>
        (\<exists>us. pool_reach env \<lparr> pool = during a, holding = us \<rparr> \<and> mset us = mset (kc # left)))"

definition settled :: "adapter_env \<Rightarrow> (string \<times> nat) list \<Rightarrow> pool_system \<Rightarrow> adapter \<Rightarrow> bool" where
  "settled env left s a \<longleftrightarrow>
     (\<exists>us. pool_reach env \<lparr> pool = a, holding = us \<rparr> \<and> (mset us = mset (holding s) \<or> mset us = mset left))"

text \<open>Without other calls, or before they have run; and while a call that was under way ends.\<close>

lemma others_idle: "others_run env s (holding s) (\<lambda>a. a)"
  by (auto simp: others_run_def)

lemma others_release:
  assumes "(key, c) \<in> set (holding s)"
  shows "others_run env s (remove1 (key, c) (holding s)) (releaseClient key c)"
  unfolding others_run_def
proof (intro allI impI)
  fix a kc assume "pool_reach env \<lparr> pool = a, holding = kc # holding s \<rparr>"
  from pool_reach.release [OF this, of key c] assms
  have "pool_reach env \<lparr> pool = releaseClient key c a, holding = remove1 (key, c) (kc # holding s) \<rparr>" by simp
  moreover have "mset (remove1 (key, c) (kc # holding s)) = mset (kc # remove1 (key, c) (holding s))"
    using assms by (auto simp: multiset_eq_iff)
  ultimately show "\<exists>us. pool_reach env \<lparr> pool = releaseClient key c a, holding = us \<rparr> \<and>
      mset us = mset (kc # remove1 (key, c) (holding s))" by blast
qed

lemma settled_failed: "pool_reach env (s\<lparr>pool := a\<rparr>) \<Longrightarrow> settled env left s a"
  unfolding settled_def by (intro exI [of _ "holding s"]) (cases s, simp)

lemma settled_release:
  assumes "others_run env s left during" and "pool_reach env (s\<lparr>pool := a, holding := (key, c) # holding s\<rparr>)"
  shows "settled env left s (releaseClient key c (during a))"
proof -
  have "pool_reach env \<lparr> pool = a, holding = (key, c) # holding s \<rparr>" using assms(2) by (cases s) simp
  with assms(1) obtain us where us: "pool_reach env \<lparr> pool = during a, holding = us \<rparr>" "mset us = mset ((key, c) # left)"
    unfolding others_run_def by blast
  have "(key, c) \<in> set us" using us(2) by (metis list.set_intros(1) set_mset_mset)
  with pool_reach.release [OF us(1), of key c]
  have "pool_reach env \<lparr> pool = releaseClient key c (during a), holding = remove1 (key, c) us \<rparr>" by simp
  then show ?thesis unfolding settled_def by (intro exI [of _ "remove1 (key, c) us"]) (simp add: us(2))
qed

lemma candidates_settled:
  assumes "pool_reach env s" and "list_all cleanTarget ts" and "others_run env s left during"
  shows "settled env left s (case clientForCandidates env ts (pool s) of
      (None, a) \<Rightarrow> a | (Some (c, key, ns), a) \<Rightarrow> releaseClient key c (during a))"
proof (cases "clientForCandidates env ts (pool s)")
  case (Pair r a)
  then show ?thesis
    using pool_reach.failed [OF assms(1,2)] pool_reach.candidates [OF assms(1,2)]
      settled_failed settled_release [OF assms(3)]
    by (cases r) auto
qed

lemma target_settled:
  assumes "pool_reach env s" and "cleanTarget t" and "others_run env s left during"
  shows "settled env left s (case clientFor env t (pool s) of
      (None, a) \<Rightarrow> a | (Some (c, key, ns), a) \<Rightarrow> releaseClient key c (during a))"
proof (cases "clientFor env t (pool s)")
  case (Pair r a)
  then show ?thesis
    using pool_reach.failed_target [OF assms(1,2)] pool_reach.target [OF assms(1,2)]
      settled_failed settled_release [OF assms(3)]
    by (cases r) auto
qed

lemma target_settled_early:
  assumes "pool_reach env s" and "cleanTarget t"
  shows "settled env left s (case clientFor env t (pool s) of
      (None, a) \<Rightarrow> a | (Some (c, key, ns), a) \<Rightarrow> releaseClient key c a)"
  using target_settled [OF assms others_idle] by (auto simp: settled_def)

lemma snd_withCandidates:
  "snd (withCandidates env call during ts a) = (case clientForCandidates env ts a of
      (None, a) \<Rightarrow> a | (Some (c, key, ns), a) \<Rightarrow> releaseClient key c (during a))"
  by (simp add: withCandidates_def split: prod.split option.split)

lemma snd_withRealtime:
  assumes "settled env left s (case clientFor env t (pool s) of
      (None, a) \<Rightarrow> a | (Some (c, key, ns), a) \<Rightarrow> releaseClient key c (during a))"
    and "settled env left s (case clientFor env t (pool s) of
      (None, a) \<Rightarrow> a | (Some (c, key, ns), a) \<Rightarrow> releaseClient key c a)"
  shows "settled env left s (snd (withRealtime env engine f during t (pool s)))"
  using assms by (auto simp: withRealtime_def realtimeProvider_def Let_def split: prod.split option.splits)

text \<open>The calls that return when Bifrost has answered, and those that return a stream to cancel.\<close>

definition stream_over :: "('e + 'r \<times> string \<times> nat) \<times> adapter \<Rightarrow> adapter" where
  "stream_over xa = (case fst xa of Inl e \<Rightarrow> snd xa | Inr (chunks, kc) \<Rightarrow> cancelStream kc (snd xa))"

lemma chatStream_over:
  "stream_over (chatCompletionStreamCandidatesWithHeaders env engine during ts body headers a) =
     (case clientForCandidates env ts a of
        (None, a) \<Rightarrow> a | (Some (c, key, ns), a) \<Rightarrow> releaseClient key c (during a))"
  by (auto simp: stream_over_def chatCompletionStreamCandidatesWithHeaders_def cancelStream_def
      split: prod.split option.split sum.split)

lemma responsesStream_over:
  "stream_over (responsesStreamCandidates env engine during ts request a) =
     (case clientForCandidates env ts a of
        (None, a) \<Rightarrow> a | (Some (c, key, ns), a) \<Rightarrow> releaseClient key c (during a))"
  by (auto simp: stream_over_def responsesStreamCandidates_def cancelStream_def split: prod.split option.split sum.split)

text \<open>C28: No call leaks its client. Whatever Bifrost answers, and whatever other calls do to the
  adapter meanwhile, after a chat completion, a call that copies its request, a realtime route, event or
  SDP exchange, and after a stream that failed or was cancelled, the clients held are again those before
  the call, or those that the others have left, who may have acquired some and released others.\<close>

theorem calls_release_their_clients:
  assumes "pool_reach env s" and "list_all cleanTarget ts" and "cleanTarget t" and "others_run env s left during"
  shows "settled env left s (snd (chatCompletionCandidatesWithHeaders env chatting during ts body headers (pool s))) \<and>
    settled env left s (snd (copiedRequest what env unary during ts request (pool s))) \<and>
    settled env left s (stream_over (chatCompletionStreamCandidatesWithHeaders env answering during ts body headers (pool s))) \<and>
    settled env left s (stream_over (responsesStreamCandidates env streaming during ts request (pool s))) \<and>
    settled env left s (snd (realtimeWebSocketRouteCandidates env engine during ts (pool s))) \<and>
    settled env left s (snd (realtimeWebSocketRoute env engine during t (pool s))) \<and>
    settled env left s (snd (realtimeClientEvent env engine during t event (pool s))) \<and>
    settled env left s (snd (realtimeProviderEvent env engine during t event (pool s))) \<and>
    settled env left s (snd (exchangeRealtimeWebRTCSDP env engine during t sdp session (pool s)))"
  unfolding chatStream_over responsesStream_over chatCompletionCandidatesWithHeaders_def copiedRequest_def
    realtimeWebSocketRouteCandidates_def realtimeWebSocketRoute_def realtimeClientEvent_def realtimeProviderEvent_def
    exchangeRealtimeWebRTCSDP_def snd_withCandidates
  using candidates_settled [OF assms(1,2,4)] target_settled [OF assms(1,3,4)] target_settled_early [OF assms(1,3)]
  by (simp add: snd_withRealtime)

text \<open>The example: an embedding call, during which a call that was under way ends.\<close>

theorem calls_release_their_clients_witness:
  "\<exists>c key ns a. clientForCandidates demo_pool_env [demo_target ''a''] (newLazyWithExecution 1 0) = (Some (c, key, ns), a) \<and>
     settled demo_pool_env [] \<lparr> pool = a, holding = [(key, c)] \<rparr>
       (snd (copiedRequest ''embedding'' demo_pool_env (\<lambda>_ _. Inl ''down'' :: string + unit) (releaseClient key c)
          [demo_target ''a'', demo_target ''b''] \<lparr> pq_provider = [], pq_model = [], pq_fallbacks = [], pq_body = () \<rparr> a))"
proof -
  let ?s = "\<lparr> pool = newLazyWithExecution 1 0, holding = [] \<rparr>"
  have start: "pool_reach demo_pool_env ?s" by (rule pool_reach.start) (auto simp: freshAdapter_def)
  have clean: "list_all cleanTarget [demo_target ''a'']" "list_all cleanTarget [demo_target ''a'', demo_target ''b'']"
    "cleanTarget (demo_target ''a'')" by (simp_all add: cleanTarget_def demo_target_def)
  obtain c key ns a where run: "clientForCandidates demo_pool_env [demo_target ''a''] (newLazyWithExecution 1 0) = (Some (c, key, ns), a)"
    by (simp add: demo_target_def clientForCandidates_def newLazyWithExecution_def normalizeTarget_def usableTarget_def
        acquireClient_def newCandidateClient_def providerForTarget_def candidateKey_def clientConfig_def
        cacheClientLocked_def shutdownClient_def maxCachedBifrostClients_def demo_pool_env_def no_target_def Let_def)
  let ?t = "\<lparr> pool = a, holding = [(key, c)] \<rparr>"
  have reach: "pool_reach demo_pool_env ?t"
    using pool_reach.candidates [OF start clean(1), of c key ns a] run by simp
  have others: "others_run demo_pool_env ?t [] (releaseClient key c)"
    using others_release [of key c ?t demo_pool_env] by simp
  have "settled demo_pool_env [] ?t
     (snd (copiedRequest ''embedding'' demo_pool_env (\<lambda>_ _. Inl ''down'' :: string + unit) (releaseClient key c)
        [demo_target ''a'', demo_target ''b''] \<lparr> pq_provider = [], pq_model = [], pq_fallbacks = [], pq_body = () \<rparr>
        (pool ?t)))"
    by (rule calls_release_their_clients [OF reach clean(2,3) others, THEN conjunct2, THEN conjunct1])
  with run show ?thesis by auto
qed

subsection \<open>Whatever key Bifrost selects is billed\<close>

text \<open>
  The keys of a client that serves a resolved call are the call's own targets, so each of them has a
  merchant and prices in the call.
\<close>

definition routedTargets :: "execution_target list \<Rightarrow> bool" where
  "routedTargets ts \<longleftrightarrow> list_all (\<lambda>t. cleanTarget t \<and> et_route t \<noteq> [] \<and> et_credential t \<noteq> []) ts \<and> distinct (map et_route ts)"

lemma routed_normalized:
  assumes "routedTargets ts"
  shows "map et_credential (map (\<lambda>t. normalizeTarget t d) ts) = map et_credential ts"
    "map et_route (map (\<lambda>t. normalizeTarget t d) ts) = map et_route ts"
  using assms by (auto simp: routedTargets_def list_all_iff normalizeTarget_def)

lemma routed_find:
  assumes "routedTargets ts" and "j < length ts"
  shows "find (\<lambda>t. et_route t = et_route (ts ! j)) ts = Some (ts ! j)"
proof -
  have "distinct (map et_route ts)" using assms(1) by (simp add: routedTargets_def)
  then have "i < j \<Longrightarrow> et_route (ts ! i) \<noteq> et_route (ts ! j)" for i
    using assms(2) by (auto simp: distinct_conv_nth)
  then show ?thesis using assms(2) by (auto simp: find_Some_iff intro!: exI [of _ j])
qed

lemma resolved_selected:
  assumes "resolved api modelName productID d all_read call" and "find (\<lambda>t. et_route t = key) (cl_targets call) = Some t"
  shows "\<exists>call1. selected call key = Some call1 \<and> cl_target call1 = t"
proof -
  from assms(2) have t: "t \<in> set (cl_targets call)" "et_route t = key" by (auto simp: find_Some_iff)
  from resolved_keys [OF assms(1)] obtain p read where
    "cl_targets call = map (targetOf p (cl_provider_model call)) (cheapestKeys d (cl_model call) (cl_customer call) read)"
    "\<forall>k \<in> set read. usableKey d (cl_model call) (cl_customer call) k \<longrightarrow>
       cl_payments call (kr_id k) = keyPayment d (cl_model call) (kr_id k)" .
  with t obtain k where "usableKey d (cl_model call) (cl_customer call) k" "kr_id k = key"
    "cl_payments call key = keyPayment d (cl_model call) key" by (auto simp: cheapestKeys_def targetOf_def)
  then obtain payment where "cl_payments call key = Some payment"
    by (auto simp: usableKey_def keyPayment_def split: option.splits)
  with assms(2) show ?thesis by (simp add: selected_def)
qed

lemma served_key:
  assumes "routedTargets ts" and "ns = map (\<lambda>t. normalizeTarget t d) ts"
    and "candidateKeys p t0 0 ns = Some keys" and "k \<in> set keys"
  shows "\<exists>j < length ts. bk_id k = et_route (ts ! j) \<and> bk_value k = et_credential (ts ! j)"
proof -
  note ks = candidateKeys_same [OF assms(3)]
  have len: "length keys = length ts" using ks assms(2) by simp
  with assms(4) obtain j where j: "j < length ts" "k = keys ! j" by (metis in_set_conv_nth)
  have "map bk_value keys ! j = map et_credential ns ! j" using ks by simp
  then have v: "bk_value k = et_credential (ts ! j)"
    using j len routed_normalized(1) [OF assms(1), of d] assms(2) by (metis nth_map length_map)
  have "et_route (ns ! j) = map et_route ns ! j" using j assms(2) by simp
  then have r: "et_route (ns ! j) = et_route (ts ! j)"
    using j routed_normalized(2) [OF assms(1), of d] assms(2) by simp
  moreover have "et_route (ts ! j) \<noteq> []" using assms(1) j by (simp add: routedTargets_def list_all_length)
  ultimately have "bk_id k = et_route (ts ! j)" using ks j assms(2) by simp
  with v j(1) show ?thesis by blast
qed

text \<open>C27: Whatever key Bifrost selects, the call can be billed, and to the right merchant. Let a call be
  resolved without an error, to keys whose identifiers and credentials are not empty and have no NUL and
  whose identifiers differ, and let a client be acquired for its targets in any state of the adapter
  (SHA-256 having no collisions). Every key of that client is a usable key of the call's provider in the
  Config Store: its identifier and the credential that Bifrost sends upstream are those of the stored
  record, selecting it succeeds, and the commission goes to the merchant of the billing row of that
  identifier, at that key's prices for the model.\<close>

theorem billable_whatever_key:
  assumes "resolveCall api modelName productID w = (Val (None, call), w')" and "routedTargets (cl_targets call)"
    and "pool_reach env s" and "inj (ae_sha env)"
    and "clientForCandidates env (cl_targets call) (pool s) = (Some (c, key, ns), a)"
    and "k \<in> set (bc_keys (client_configs a c))"
  shows "\<exists>call1 r b. selected call (bk_id k) = Some call1 \<and>
    r \<in> set (cfg_keys api (cl_provider call) (config_state (committed w))) \<and> kr_id r = bk_id k \<and> kr_api_key r = bk_value k \<and>
    usableKey (committed w) (cl_model call) (cl_customer call) r \<and>
    find (\<lambda>b. kb_key b = bk_id k) (key_billings (committed w)) = Some b \<and> cl_merchant call1 = kb_merchant b \<and>
    cl_commission call1 = providerPricesOf (cl_model call) (bk_id k) (committed w)"
proof -
  note res = conjunct2 [OF resolveCall_run [OF assms(1)]]
  have clean: "list_all cleanTarget (cl_targets call)" using assms(2) by (simp add: routedTargets_def list_all_iff)
  from candidates_keyed [OF reach_keyed [OF assms(3)] clean assms(5)]
  have ns: "ns = map (\<lambda>t. normalizeTarget t (default_target (pool s))) (cl_targets call)" "list_all cleanTarget ns"
    "keyedBy (ae_sha env) (targetsKey (ae_sha env) ns) (client_configs a c)" by auto
  from keyedBy_candidates [OF assms(4) ns(2,3)] obtain p where
    "candidateKeys p (hd ns) 0 ns = Some (bc_keys (client_configs a c))" by (auto simp: servesCandidates_def)
  from served_key [OF assms(2) ns(1) this assms(6)] obtain j where j: "j < length (cl_targets call)"
    "bk_id k = et_route (cl_targets call ! j)" "bk_value k = et_credential (cl_targets call ! j)" by blast
  from resolved_selected [OF res] routed_find [OF assms(2) j(1)] obtain call1 where
    c1: "selected call (bk_id k) = Some call1" "cl_target call1 = cl_targets call ! j"
    unfolding j(2) by blast
  from selected_resolved [OF res c1(1)] c1 j(3) show ?thesis by auto
qed

text \<open>The example: the call of \<open>demo_market\<close>.\<close>

lemma demo_call_target:
  "cl_targets demo_call = [\<lparr> et_provider = ''openai'', et_endpoint = ''u'', et_credential = ''sb'', et_model = ''pm'',
     et_route = ''b'', et_weight = 1 \<rparr>]" "cl_model demo_call = ''m1''"
  by (simp_all add: demo_call_def resolveCall_def demo_world_def demo_market_def demo_market_api_def run_simps
      emptyCall_def modelRow_def modelPricesOf_def storesProvider_def storesKeys_def configTransaction_def
      lockStatement_def readConfig_def demo_key_def demo_billing_def providerPricesOf_def pricesCoverMetrics_def
      cheapestTargets_def sliceStable_def comparePrices_def pricesOf_def threeWay_def targetOf_def empty_way_def
      selected_def Let_def)

theorem billable_whatever_key_witness:
  "map_option cl_merchant (selected demo_call ''b'') = Some ''mb'' \<and>
   (\<exists>c key ns a. clientForCandidates demo_pool_env (cl_targets demo_call) (newLazyWithExecution 1 0) = (Some (c, key, ns), a) \<and>
      map bk_id (bc_keys (client_configs a c)) = [''b''] \<and>
      (\<exists>call1. selected demo_call ''b'' = Some call1 \<and> cl_commission call1 = providerPricesOf ''m1'' ''b'' demo_market))"
proof -
  let ?s = "\<lparr> pool = newLazyWithExecution 1 0, holding = [] \<rparr>"
  have start: "pool_reach demo_pool_env ?s" by (rule pool_reach.start) (auto simp: freshAdapter_def)
  have sha: "inj (ae_sha demo_pool_env)" by (simp add: demo_pool_env_def)
  have routed: "routedTargets (cl_targets demo_call)"
    by (simp add: demo_call_target routedTargets_def cleanTarget_def)
  obtain key ns a where run: "clientForCandidates demo_pool_env (cl_targets demo_call) (pool ?s) = (Some (0, key, ns), a)"
    "bc_keys (client_configs a 0) = [\<lparr> bk_id = ''b'', bk_value = ''sb'', bk_weight = 1 \<rparr>]"
    by (simp add: demo_call_target clientForCandidates_def newLazyWithExecution_def normalizeTarget_def usableTarget_def
        acquireClient_def newCandidateClient_def providerForTarget_def candidateKey_def clientConfig_def
        cacheClientLocked_def shutdownClient_def maxCachedBifrostClients_def demo_pool_env_def no_target_def Let_def)
  from billable_whatever_key [OF demo_resolves(1) routed start sha run(1), of "\<lparr> bk_id = ''b'', bk_value = ''sb'', bk_weight = 1 \<rparr>"]
  show ?thesis using demo_resolves(3) run by (auto simp: demo_world_def demo_call_target(2))
qed

end
