(* ===== verification/BifrostStore.thy ===== *)
theory BifrostStore
  imports WayStore
begin

section \<open>Bifrost's stores\<close>

text \<open>
  The rest of \<open>internal/adapter/bifrost/store.go\<close>: opening the Config Store and the Log Store, the
  conversions between GizWay's records and Bifrost's, the reads of Bifrost's tables, and the rows of the
  execution log. Bifrost's store constructors, \<open>url.Parse\<close> and \<open>net.SplitHostPort\<close> are parameters.
\<close>

subsection \<open>Identifiers in SQL\<close>

definition quoteIdentifier :: "string \<Rightarrow> string" where
  "quoteIdentifier v = [CHR 0x22] @ concat (map (\<lambda>c. if c = CHR 0x22 then [CHR 0x22, CHR 0x22] else [c]) v) @ [CHR 0x22]"

text \<open>How SQL reads a quoted identifier: up to a quote that is not doubled. The result has the rest.\<close>

fun readIdentifierBody :: "string \<Rightarrow> string \<Rightarrow> (string \<times> string) option" where
  "readIdentifierBody acc [] = None"
| "readIdentifierBody acc [c] = (if c = CHR 0x22 then Some (rev acc, []) else None)"
| "readIdentifierBody acc (c # d # s) =
     (if c \<noteq> CHR 0x22 then readIdentifierBody (c # acc) (d # s)
      else if d = CHR 0x22 then readIdentifierBody (CHR 0x22 # acc) s
      else Some (rev acc, d # s))"

definition readIdentifier :: "string \<Rightarrow> (string \<times> string) option" where
  "readIdentifier s = (case s of [] \<Rightarrow> None | c # t \<Rightarrow> if c = CHR 0x22 then readIdentifierBody [] t else None)"

lemma readIdentifierBody_quoted:
  assumes "rest = [] \<or> hd rest \<noteq> CHR 0x22"
  shows "readIdentifierBody acc (concat (map (\<lambda>c. if c = CHR 0x22 then [CHR 0x22, CHR 0x22] else [c]) v) @ CHR 0x22 # rest) =
    Some (rev acc @ v, rest)"
proof (induction v arbitrary: acc)
  case Nil
  then show ?case using assms by (cases rest) auto
next
  case (Cons c v)
  let ?q = "\<lambda>v. concat (map (\<lambda>c. if c = CHR 0x22 then [CHR 0x22, CHR 0x22] else [c]) v) @ CHR 0x22 # rest"
  obtain d s where "?q v = d # s" by (cases "?q v") auto
  then show ?case
    using Cons.IH [of "c # acc"] by (cases "c = CHR 0x22") simp_all
qed

text \<open>A quoted identifier is read back as exactly the name that was quoted, and ends where the
  quotation ends: no schema, role or database name can change the statement that it is put into.\<close>

lemma quoteIdentifier_reads_back:
  assumes "rest = [] \<or> hd rest \<noteq> CHR 0x22"
  shows "readIdentifier (quoteIdentifier v @ rest) = Some (v, rest)"
  using readIdentifierBody_quoted [OF assms, of "[]" v] by (simp add: quoteIdentifier_def readIdentifier_def)

lemma quoteIdentifier_reads_back_witness:
  "readIdentifier (quoteIdentifier [CHR ''a'', CHR 0x22, CHR '';''] @ '' AUTHORIZATION'') =
     Some ([CHR ''a'', CHR 0x22, CHR '';''], '' AUTHORIZATION'')"
  by (rule quoteIdentifier_reads_back) simp

text \<open>\<open>configurePostgresSearchPath\<close>: its statements, for the role and the database of the connection.\<close>

definition searchPathStatements :: "string \<Rightarrow> string \<Rightarrow> string \<Rightarrow> string list" where
  "searchPathStatements role database schema =
     [''CREATE SCHEMA IF NOT EXISTS '' @ quoteIdentifier schema,
      ''ALTER ROLE '' @ quoteIdentifier role @ '' IN DATABASE '' @ quoteIdentifier database @ '' SET search_path TO '' @
        quoteIdentifier schema]"

subsection \<open>Opening the stores\<close>

record store_spec =
  ss_type :: string
  ss_dsn :: string
  ss_schema :: string
  ss_retention_days :: int
  ss_batch_size :: int
  ss_batch_interval :: string
  ss_queue_capacity :: int

record parsed_url =
  ul_scheme :: string
  ul_host :: string
  ul_hostname :: string
  ul_port :: string
  ul_user :: string
  ul_password :: string
  ul_path :: string
  ul_query :: "string \<Rightarrow> string"

text \<open>\<open>se_prepared\<close> says whether \<open>configurePostgresSearchPath\<close> succeeds for a DSN and a schema.\<close>

record store_env =
  se_url :: "string \<Rightarrow> parsed_url option"
  se_split :: "string \<Rightarrow> (string \<times> string) option"
  se_prepared :: "string \<Rightarrow> string \<Rightarrow> bool"

record postgres_config =
  pq_host :: string
  pq_port :: string
  pq_user :: string
  pq_password :: string
  pq_database :: string
  pq_ssl_mode :: string
  pq_idle :: int
  pq_open :: int

definition identifierPattern :: "string \<Rightarrow> bool" where
  "identifierPattern s \<longleftrightarrow> s \<noteq> [] \<and> (let n = of_char (hd s) :: nat in 97 \<le> n \<and> n \<le> 122) \<and>
     list_all (\<lambda>c. let n = of_char c :: nat in (97 \<le> n \<and> n \<le> 122) \<or> (48 \<le> n \<and> n \<le> 57) \<or> c = CHR ''_'') s"

definition postgresConfig :: "store_env \<Rightarrow> store_spec \<Rightarrow> postgres_config option" where
  "postgresConfig env spec =
     (if ss_type spec \<noteq> ''postgresql'' \<or> \<not> identifierPattern (ss_schema spec) then None
      else case se_url env (ss_dsn spec) of
        None \<Rightarrow> None
      | Some url \<Rightarrow>
          if ul_scheme url \<noteq> ''postgres'' \<and> ul_scheme url \<noteq> ''postgresql'' then None
          else if \<not> se_prepared env (ss_dsn spec) (ss_schema spec) then None
          else let (host, portText) = (case se_split env (ul_host url) of
                 Some hp \<Rightarrow> hp | None \<Rightarrow> (ul_hostname url, ul_port url));
                 sslMode = ul_query url ''sslmode'' in
            Some \<lparr> pq_host = host, pq_port = (if portText = [] then ''5432'' else portText), pq_user = ul_user url,
              pq_password = ul_password url, pq_database = trimPrefix (ul_path url) ''/'',
              pq_ssl_mode = (if sslMode = [] then ''require'' else sslMode), pq_idle = 2, pq_open = 10 \<rparr>)"

record clickhouse_config =
  ch_host :: string
  ch_port :: string
  ch_database :: string
  ch_user :: string
  ch_password :: string
  ch_protocol :: string
  ch_secure :: bool
  ch_dial_timeout :: int
  ch_cluster :: string

text \<open>\<open>strconv.Atoi\<close> whose error is dropped: 0 for no number, the nearest bound for one out of range.\<close>

definition atoi :: "string \<Rightarrow> int" where
  "atoi s =
     (let negative = (s \<noteq> [] \<and> hd s = CHR ''-'');
          body = (if s \<noteq> [] \<and> (hd s = CHR ''-'' \<or> hd s = CHR ''+'') then tl s else s) in
      if body = [] then 0
      else case parseDigits 0 body of
        None \<Rightarrow> 0
      | Some n \<Rightarrow> max min_int64 (min max_int64 (if negative then - int n else int n)))"

definition clickHouseScheme :: "string \<Rightarrow> (string \<times> bool) option" where
  "clickHouseScheme scheme =
     (if scheme = ''clickhouse'' then Some (''native'', False)
      else if scheme = ''clickhouses'' then Some (''native'', True)
      else if scheme = ''http'' then Some (''http'', False)
      else if scheme = ''https'' then Some (''http'', True) else None)"

definition clickHouseConfig :: "store_env \<Rightarrow> store_spec \<Rightarrow> clickhouse_config option" where
  "clickHouseConfig env spec =
     (case se_url env (ss_dsn spec) of
        None \<Rightarrow> None
      | Some url \<Rightarrow>
          (case clickHouseScheme (ul_scheme url) of
             None \<Rightarrow> None
           | Some (protocol, secure) \<Rightarrow>
               Some \<lparr> ch_host = ul_hostname url,
                 ch_port = (if ul_port url \<noteq> [] then ul_port url
                   else if protocol = ''http'' then (if secure then ''8443'' else ''8123'')
                   else (if secure then ''9440'' else ''9000'')),
                 ch_database = (if ss_schema spec \<noteq> [] then ss_schema spec else trimPrefix (ul_path url) ''/''),
                 ch_user = ul_user url, ch_password = ul_password url, ch_protocol = protocol, ch_secure = secure,
                 ch_dial_timeout = atoi (ul_query url ''dial_timeout_ms''), ch_cluster = ul_query url ''cluster'' \<rparr>))"

text \<open>
  \<open>OpenStores\<close>: what Bifrost makes of the configurations (\<open>oc_\<close>), and which of the two stores are open
  afterwards.
\<close>

record store_opener =
  oc_config :: "postgres_config \<Rightarrow> bool"
  oc_postgres_log :: "postgres_config \<Rightarrow> store_spec \<Rightarrow> bool"
  oc_clickhouse_log :: "clickhouse_config \<Rightarrow> store_spec \<Rightarrow> bool"

record open_stores =
  os_config :: bool
  os_logs :: bool

definition openStores :: "store_env \<Rightarrow> store_opener \<Rightarrow> store_spec \<Rightarrow> store_spec \<Rightarrow> bool \<times> open_stores" where
  "openStores env oc configSpec logSpec =
     (let none = \<lparr> os_config = False, os_logs = False \<rparr> in
      case postgresConfig env configSpec of
        None \<Rightarrow> (False, none)
      | Some configPG \<Rightarrow>
          if \<not> oc_config oc configPG then (False, none)
          else let opened = none\<lparr>os_config := True\<rparr>; closeOnError = (False, opened\<lparr>os_config := False\<rparr>) in
            if ss_type logSpec = ''postgresql'' then
              (case postgresConfig env logSpec of
                 None \<Rightarrow> closeOnError
               | Some logPG \<Rightarrow> if oc_postgres_log oc logPG logSpec then (True, opened\<lparr>os_logs := True\<rparr>) else closeOnError)
            else if ss_type logSpec = ''clickhouse'' then
              (case clickHouseConfig env logSpec of
                 None \<Rightarrow> closeOnError
               | Some clickhouse \<Rightarrow>
                   if oc_clickhouse_log oc clickhouse logSpec then (True, opened\<lparr>os_logs := True\<rparr>) else closeOnError)
            else closeOnError)"

definition closeStores :: "open_stores \<Rightarrow> open_stores" where
  "closeStores s = s\<lparr>os_logs := False, os_config := False\<rparr>"

lemma openStores_all_or_nothing:
  "openStores env oc configSpec logSpec = (ok, s) \<Longrightarrow> os_config s = ok \<and> os_logs s = ok"
  by (auto simp: openStores_def Let_def split: option.splits if_splits)

subsection \<open>Records and tables\<close>

record provider_settings =
  ps_base_url :: "string option"
  ps_kind :: "string option"
  ps_status :: string
  ps_description :: string

definition providerConfig :: "provider_record \<Rightarrow> provider_settings" where
  "providerConfig r = \<lparr> ps_base_url = Some (pv_base_url r), ps_kind = Some (pv_kind r), ps_status = pv_status r,
     ps_description = pv_name r \<rparr>"

definition providerRecord :: "string \<Rightarrow> provider_settings \<Rightarrow> time \<Rightarrow> provider_record" where
  "providerRecord provider c created =
     \<lparr> pv_id = provider, pv_name = ps_description c, pv_kind = (case ps_kind c of None \<Rightarrow> [] | Some k \<Rightarrow> k),
       pv_base_url = (case ps_base_url c of None \<Rightarrow> [] | Some u \<Rightarrow> u), pv_status = ps_status c, pv_created_at = created \<rparr>"

text \<open>Weights are floating-point numbers of integers, which are exact up to \<open>2 ^ 53\<close>.\<close>

record schema_key =
  sq_id :: string
  sq_name :: string
  sq_value :: string
  sq_weight :: int
  sq_enabled :: "bool option"
  sq_status :: string

definition schemaKey :: "key_record \<Rightarrow> schema_key" where
  "schemaKey r = \<lparr> sq_id = kr_id r, sq_name = kr_name r, sq_value = kr_api_key r, sq_weight = kr_weight r,
     sq_enabled = Some (kr_enabled r), sq_status = kr_status r \<rparr>"

definition keyRecord :: "string \<Rightarrow> schema_key \<Rightarrow> key_record" where
  "keyRecord providerID key =
     \<lparr> kr_id = sq_id key, kr_provider = providerID, kr_name = sq_name key, kr_api_key = sq_value key, kr_status = sq_status key,
       kr_weight = sq_weight key, kr_enabled = (sq_enabled key = Some True) \<rparr>"

definition valueOr :: "'a option \<Rightarrow> 'a \<Rightarrow> 'a" where
  "valueOr v fallback = (case v of None \<Rightarrow> fallback | Some x \<Rightarrow> x)"

record provider_table =
  tp_name :: string
  tp_settings :: provider_settings
  tp_created_at :: time

record key_table =
  tk_key :: schema_key
  tk_weight :: "int option"
  tk_provider :: string
  tk_created_at :: time

record bifrost_tables =
  bt_providers :: "provider_table list"
  bt_keys :: "key_table list"

definition keyOfTable :: "key_table \<Rightarrow> schema_key" where
  "keyOfTable t = (tk_key t)\<lparr>sq_weight := valueOr (tk_weight t) 1\<rparr>"

definition tableProvider :: "string \<Rightarrow> bifrost_tables \<Rightarrow> provider_record option" where
  "tableProvider i b =
     map_option (\<lambda>t. providerRecord i (tp_settings t) (tp_created_at t)) (find (\<lambda>t. tp_name t = i) (bt_providers b))"

definition tableProviders :: "bifrost_tables \<Rightarrow> provider_record list" where
  "tableProviders b = map (\<lambda>t. providerRecord (tp_name t) (tp_settings t) (tp_created_at t))
     (orderBy tp_created_at tp_name (bt_providers b))"

definition tableKey :: "string \<Rightarrow> string \<Rightarrow> bifrost_tables \<Rightarrow> key_record option" where
  "tableKey providerID keyID b =
     map_option (\<lambda>t. keyRecord providerID (keyOfTable t))
       (find (\<lambda>t. tk_provider t = providerID \<and> sq_id (tk_key t) = keyID) (bt_keys b))"

definition tableKeys :: "string \<Rightarrow> bifrost_tables \<Rightarrow> key_record list" where
  "tableKeys providerID b = map (\<lambda>t. keyRecord providerID (keyOfTable t))
     (orderBy tk_created_at (sq_id \<circ> tk_key) (filter (\<lambda>t. tk_provider t = providerID) (bt_keys b)))"

definition findKey :: "string \<Rightarrow> bifrost_tables \<Rightarrow> key_record option" where
  "findKey keyID b =
     map_option (\<lambda>t. keyRecord (tk_provider t) (keyOfTable t)) (find (\<lambda>t. sq_id (tk_key t) = keyID) (bt_keys b))"

text \<open>The conversions lose nothing.\<close>

lemma keyRecord_schemaKey: "keyRecord (kr_provider r) (schemaKey r) = r"
  by (simp add: keyRecord_def schemaKey_def)

lemma providerRecord_providerConfig: "providerRecord (pv_id r) (providerConfig r) (pv_created_at r) = r"
  by (simp add: providerRecord_def providerConfig_def)

subsection \<open>The execution log\<close>

text \<open>
  What \<open>WriteLog\<close> makes of a record: absent members are empty, an absent status is a success, an absent
  creation time is the clock's. The latency, a floating-point number that is only copied, is left out.
\<close>

record log_record =
  lr_id :: string
  lr_key :: string
  lr_model :: string
  lr_provider :: string
  lr_status :: string
  lr_mode :: string
  lr_created_at :: time
  lr_error :: string
  lr_usage :: "llm_usage option"
  lr_metadata :: json

record log_entry =
  le_id :: string
  le_timestamp :: time
  le_object :: string
  le_provider :: string
  le_model :: string
  le_key :: string
  le_status :: string
  le_stream :: bool
  le_error :: "string option"
  le_usage :: "llm_usage option"
  le_metadata :: json

definition logEntry :: "time \<Rightarrow> log_record \<Rightarrow> log_entry" where
  "logEntry clock r =
     \<lparr> le_id = lr_id r, le_timestamp = (if lr_created_at r = 0 then clock else lr_created_at r),
       le_object = (if lr_mode r = ''realtime'' then ''realtime'' else ''chat.completion''),
       le_provider = lr_provider r, le_model = lr_model r, le_key = lr_key r,
       le_status = (if lr_status r = [] then ''success'' else lr_status r),
       le_stream = (lr_mode r = ''streaming'' \<or> lr_mode r = ''realtime''),
       le_error = (if lr_error r = [] then None else Some (lr_error r)), le_usage = lr_usage r, le_metadata = lr_metadata r \<rparr>"

text \<open>
  \<open>LogsList\<close> of a PostgreSQL store: the members of the metadata override those of the entry. (A ClickHouse
  store gives its rows in an order of its own.)
\<close>

definition logRow :: "log_entry \<Rightarrow> string \<rightharpoonup> json" where
  "logRow e = [''id'' \<mapsto> JStr (le_id e), ''selected_key_id'' \<mapsto> JStr (le_key e), ''created_at'' \<mapsto> JTime (le_timestamp e)] ++
     (case le_metadata e of JObj members \<Rightarrow> map_of members | _ \<Rightarrow> Map.empty)"

definition logsList :: "log_entry list \<Rightarrow> (string \<rightharpoonup> json) list" where
  "logsList es = map logRow (orderBy le_timestamp le_id es)"

end
