(* ===== verification/Verifier.thy ===== *)
theory Verifier
  imports Prelude
begin

section \<open>Tokens of people and services\<close>

text \<open>
  \<open>internal/identity/verifier.go\<close>: which roles the claims of a ZITADEL token grant, the cache of signing
  keys, and the verification of a bearer token. The JWT library is a parameter, as are the answers of the
  JWKS endpoint and the clock.
\<close>

subsection \<open>Roles\<close>

text \<open>\<open>strings.FieldsSeq\<close>: the maximal runs without white space; \<open>skip\<close> bytes belong to a space.\<close>

fun fieldsFrom :: "nat \<Rightarrow> string \<Rightarrow> string \<Rightarrow> string list" where
  "fieldsFrom skip word [] = (if word = [] then [] else [rev word])"
| "fieldsFrom (Suc k) word (c # s) = fieldsFrom k word s"
| "fieldsFrom 0 word (c # s) =
     (case find (hasPrefix (c # s)) space_seqs of
        Some q \<Rightarrow> (if word = [] then [] else [rev word]) @ fieldsFrom (length q - 1) [] s
      | None \<Rightarrow> fieldsFrom 0 (c # word) s)"

definition fields :: "string \<Rightarrow> string list" where
  "fields s = fieldsFrom 0 [] s"

text \<open>A map of type \<open>map[string]bool\<close> whose values are all true is the list of its keys.\<close>

fun collectRoles :: "json \<Rightarrow> string list" where
  "collectRoles (JStr s) = fields s"
| "collectRoles (JArr items) = concat (map collectRoles items)"
| "collectRoles (JObj members) = map fst members"
| "collectRoles v = []"

text \<open>As a specification: which roles a value lists.\<close>

inductive listsRole :: "json \<Rightarrow> string \<Rightarrow> bool" where
  word: "role \<in> set (fields s) \<Longrightarrow> listsRole (JStr s) role"
| item: "v \<in> set items \<Longrightarrow> listsRole v role \<Longrightarrow> listsRole (JArr items) role"
| member: "(role, v) \<in> set members \<Longrightarrow> listsRole (JObj members) role"

inductive_simps listsRole_simps:
  "listsRole (JStr s) role" "listsRole (JArr items) role" "listsRole (JObj members) role"

lemma collectRoles_lists: "role \<in> set (collectRoles v) \<longleftrightarrow> listsRole v role"
  by (induction v rule: collectRoles.induct) (force simp: listsRole_simps elim: listsRole.cases)+

type_synonym claims = "(string \<times> json) list"

definition rolesPrefix :: string where
  "rolesPrefix = ''urn:zitadel:iam:org:project:''"

definition rolesSuffix :: string where
  "rolesSuffix = '':roles''"

definition claimProject :: "string \<Rightarrow> string option" where
  "claimProject key =
     (if \<not> hasPrefix key rolesPrefix \<or> \<not> hasSuffix key rolesSuffix then None
      else let projectID = trimSuffix (trimPrefix key rolesPrefix) rolesSuffix in
        if projectID = [] \<or> containsStr projectID '':'' then None else Some projectID)"

text \<open>The loop over the claims; \<open>claimed_roles_iff\<close> shows that its order does not matter.\<close>

fun claimRolesByProject :: "claims \<Rightarrow> string \<rightharpoonup> string set" where
  "claimRolesByProject [] = Map.empty"
| "claimRolesByProject ((key, v) # rest) =
     (let projects = claimRolesByProject rest in
      case claimProject key of
        None \<Rightarrow> projects
      | Some projectID \<Rightarrow>
          projects(projectID \<mapsto> (case projects projectID of None \<Rightarrow> {} | Some roles \<Rightarrow> roles) \<union> set (collectRoles v)))"

definition rolesIn :: "(string \<rightharpoonup> string set) \<Rightarrow> string \<Rightarrow> string set" where
  "rolesIn projects projectID = (case projects projectID of None \<Rightarrow> {} | Some roles \<Rightarrow> roles)"

definition claimRoles :: "claims \<Rightarrow> string \<Rightarrow> string set" where
  "claimRoles cs projectID = rolesIn (claimRolesByProject cs) projectID"

subsection \<open>Principals\<close>

record token_principal =
  tp_issuer :: string
  tp_subject :: string
  tp_name :: string
  tp_preferred :: string
  tp_roles :: "string set"
  tp_projects :: "string \<rightharpoonup> string set"
  tp_audiences :: "string set"

definition displayName :: "token_principal \<Rightarrow> string" where
  "displayName p = (let name = trimSpace (tp_name p) in if name \<noteq> [] then name else trimSpace (tp_preferred p))"

definition hasRole :: "token_principal \<Rightarrow> string \<Rightarrow> string \<Rightarrow> bool" where
  "hasRole p projectID role \<longleftrightarrow> role \<in> rolesIn (tp_projects p) projectID"

definition hasRoleInAnyProject :: "token_principal \<Rightarrow> string \<Rightarrow> bool" where
  "hasRoleInAnyProject p role \<longleftrightarrow> (\<exists>roles \<in> ran (tp_projects p). role \<in> roles)"

definition claimString :: "claims \<Rightarrow> string \<Rightarrow> string" where
  "claimString cs name = (case map_of cs name of Some (JStr v) \<Rightarrow> trimSpace v | _ \<Rightarrow> [])"

subsection \<open>Signing keys\<close>

text \<open>\<open>base64.RawURLEncoding.DecodeString\<close>: newlines are skipped, spare bits are not checked.\<close>

definition base64Value :: "char \<Rightarrow> nat option" where
  "base64Value c =
     (let n = of_char c :: nat in
      if 65 \<le> n \<and> n \<le> 90 then Some (n - 65)
      else if 97 \<le> n \<and> n \<le> 122 then Some (n - 71)
      else if 48 \<le> n \<and> n \<le> 57 then Some (n + 4)
      else if c = CHR ''-'' then Some 62
      else if c = CHR ''_'' then Some 63 else None)"

fun base64Bytes :: "nat list \<Rightarrow> nat list option" where
  "base64Bytes [] = Some []"
| "base64Bytes [a] = None"
| "base64Bytes [a, b] = Some [4 * a + b div 16]"
| "base64Bytes [a, b, c] = Some [4 * a + b div 16, 16 * (b mod 16) + c div 4]"
| "base64Bytes (a # b # c # d # rest) =
     map_option (\<lambda>bs. (4 * a + b div 16) # (16 * (b mod 16) + c div 4) # (64 * (c mod 4) + d) # bs) (base64Bytes rest)"

definition base64URL :: "string \<Rightarrow> nat list option" where
  "base64URL s =
     (let values = map base64Value (filter (\<lambda>c. c \<noteq> CHR 0x0a \<and> c \<noteq> CHR 0x0d) s) in
      if None \<in> set values then None else base64Bytes (map the values))"

record rsa_key =
  rsa_n :: nat
  rsa_e :: int

record jwk =
  jk_kid :: string
  jk_kty :: string
  jk_n :: string
  jk_e :: string

text \<open>The exponent is an \<open>int\<close>, so long exponents wrap.\<close>

definition rsaKey :: "jwk \<Rightarrow> rsa_key option" where
  "rsaKey j =
     (if jk_kty j \<noteq> ''RSA'' then None
      else case base64URL (jk_n j) of
        None \<Rightarrow> None
      | Some nBytes \<Rightarrow>
          (case base64URL (jk_e j) of
             None \<Rightarrow> None
           | Some eBytes \<Rightarrow>
               Some \<lparr> rsa_n = foldl (\<lambda>n b. 256 * n + b) 0 nBytes,
                 rsa_e = foldl (\<lambda>e b. wrap64 (wrap64 (256 * e) + int b)) 0 eBytes \<rparr>))"

fun rsaKeys :: "jwk list \<Rightarrow> string \<rightharpoonup> rsa_key" where
  "rsaKeys [] = Map.empty"
| "rsaKeys (j # js) =
     (case rsaKey j of
        None \<Rightarrow> rsaKeys js
      | Some key \<Rightarrow> (case rsaKeys js (jk_kid j) of None \<Rightarrow> (rsaKeys js)(jk_kid j \<mapsto> key) | Some _ \<Rightarrow> rsaKeys js))"

record verifier =
  vf_issuer :: string
  vf_keys :: "string \<rightharpoonup> rsa_key"
  vf_expires :: time
  vf_interval :: duration

definition newVerifier :: "string \<Rightarrow> duration \<Rightarrow> verifier" where
  "newVerifier issuer refreshInterval =
     \<lparr> vf_issuer = trimSuffix issuer ''/'', vf_keys = Map.empty, vf_expires = 0,
       vf_interval = (if refreshInterval \<le> 0 then 300 * second else refreshInterval) \<rparr>"

text \<open>
  What the JWKS endpoint answers: nothing, or a status with a body that is \<open>None\<close> when it is not the
  JSON document. \<open>fetched_at\<close> is the clock after it.
\<close>

datatype jwks_answer = NoAnswer | Answered (jwks_status: nat) (jwks_document: "jwk list option")

definition refresh :: "jwks_answer \<Rightarrow> time \<Rightarrow> verifier \<Rightarrow> bool \<times> verifier" where
  "refresh answer fetched_at v =
     (case answer of
        NoAnswer \<Rightarrow> (False, v)
      | Answered st document \<Rightarrow>
          if st \<noteq> 200 then (False, v)
          else case document of
            None \<Rightarrow> (False, v)
          | Some js \<Rightarrow>
              if list_all (\<lambda>j. rsaKey j = None) js then (False, v)
              else (True, v\<lparr>vf_keys := rsaKeys js, vf_expires := fetched_at + vf_interval v\<rparr>))"

text \<open>\<open>key\<close>: the cached key while it is fresh, otherwise after one refresh.\<close>

definition signingKey :: "time \<Rightarrow> jwks_answer \<Rightarrow> time \<Rightarrow> string \<Rightarrow> verifier \<Rightarrow> rsa_key option \<times> verifier" where
  "signingKey t answer fetched_at kid v =
     (if vf_keys v kid \<noteq> None \<and> t < vf_expires v then (vf_keys v kid, v)
      else case refresh answer fetched_at v of
        (False, v') \<Rightarrow> (None, v')
      | (True, v') \<Rightarrow> (vf_keys v' kid, v'))"

subsection \<open>Authentication\<close>

text \<open>
  The JWT library. \<open>jl_issuer\<close> is the issuer of a token that \<open>ParseUnverified\<close> can read; \<open>jl_header\<close> is
  the algorithm and the key identifier of a token for which the library asks for a key; \<open>jl_verify\<close>
  checks the signature, the lifetime, the issuer and the audience (none when it is empty), and fails
  with whether the issuer and whether the audience was wrong.
\<close>

record jwt_claims =
  jc_issuer :: string
  jc_subject :: string
  jc_audience :: "string list option"
  jc_fields :: claims

record jwt_library =
  jl_issuer :: "string \<Rightarrow> string option"
  jl_header :: "string \<Rightarrow> (string \<times> string) option"
  jl_verify :: "time \<Rightarrow> string \<Rightarrow> string \<Rightarrow> string \<Rightarrow> rsa_key \<Rightarrow> bool \<times> bool + jwt_claims"

datatype auth_error = MissingToken | InvalidIssuer | InvalidAudience | InvalidToken | NoSubject

definition principalOf :: "string \<Rightarrow> jwt_claims \<Rightarrow> token_principal" where
  "principalOf audience cs =
     \<lparr> tp_issuer = jc_issuer cs, tp_subject = jc_subject cs, tp_name = claimString (jc_fields cs) ''name'',
       tp_preferred = claimString (jc_fields cs) ''preferred_username'',
       tp_roles = claimRoles (jc_fields cs) audience, tp_projects = claimRolesByProject (jc_fields cs),
       tp_audiences = (case jc_audience cs of None \<Rightarrow> {} | Some vs \<Rightarrow> set vs) \<rparr>"

definition authenticate ::
  "jwt_library \<Rightarrow> time \<Rightarrow> jwks_answer \<Rightarrow> time \<Rightarrow> string \<Rightarrow> string \<Rightarrow> verifier \<Rightarrow>
     (auth_error + token_principal) \<times> verifier" where
  "authenticate lib t answer fetched_at header audience v =
     (case cutPrefix header ''Bearer '' of
        None \<Rightarrow> (Inl MissingToken, v)
      | Some raw \<Rightarrow>
          if raw = [] then (Inl MissingToken, v)
          else if (case jl_issuer lib raw of None \<Rightarrow> False | Some i \<Rightarrow> trimSuffix i ''/'' \<noteq> vf_issuer v)
          then (Inl InvalidIssuer, v)
          else case jl_header lib raw of
            None \<Rightarrow> (Inl InvalidToken, v)
          | Some (alg, kid) \<Rightarrow>
              if alg \<noteq> ''RS256'' then (Inl InvalidToken, v)
              else (case signingKey t answer fetched_at kid v of
                (None, v') \<Rightarrow> (Inl InvalidToken, v')
              | (Some key, v') \<Rightarrow>
                  (case jl_verify lib fetched_at raw (vf_issuer v) audience key of
                     Inl (wrongIssuer, wrongAudience) \<Rightarrow>
                       (Inl (if wrongIssuer then InvalidIssuer else if wrongAudience then InvalidAudience
                             else InvalidToken), v')
                   | Inr cs \<Rightarrow>
                       if jc_subject cs = [] then (Inl NoSubject, v') else (Inr (principalOf audience cs), v'))))"

definition authenticateAny ::
  "jwt_library \<Rightarrow> time \<Rightarrow> jwks_answer \<Rightarrow> time \<Rightarrow> string \<Rightarrow> verifier \<Rightarrow> (auth_error + token_principal) \<times> verifier" where
  "authenticateAny lib t answer fetched_at header = authenticate lib t answer fetched_at header []"

text \<open>
  What the library documents: the claims that it returns are the token's payload, its signature is valid
  for the key, it has not expired, and it has the issuer and the audience. (\<open>signed\<close>, \<open>content\<close> and
  \<open>expiry\<close> are those of the JWT format.)
\<close>

definition jwt_sound ::
  "jwt_library \<Rightarrow> (string \<Rightarrow> jwt_claims) \<Rightarrow> (string \<Rightarrow> time) \<Rightarrow> (string \<Rightarrow> rsa_key \<Rightarrow> bool) \<Rightarrow> bool" where
  "jwt_sound lib content expiry signed \<longleftrightarrow>
     (\<forall>t raw issuer audience key cs. jl_verify lib t raw issuer audience key = Inr cs \<longrightarrow>
        cs = content raw \<and> signed raw key \<and> t < expiry raw \<and> jc_issuer cs = issuer \<and>
        (audience \<noteq> [] \<longrightarrow> (\<exists>vs. jc_audience cs = Some vs \<and> audience \<in> set vs)))"

subsection \<open>Which roles a token grants\<close>

text \<open>The prefix and the suffix share a colon.\<close>

lemma short_rest:
  assumes "hasSuffix (rolesPrefix @ r) rolesSuffix" and "\<not> hasSuffix r rolesSuffix"
  shows "r = ''roles''"
proof -
  from assms(1) obtain t where t: "rolesPrefix @ r = t @ rolesSuffix" by (auto simp: hasSuffix_split)
  have short: "length r < length rolesSuffix"
  proof (rule ccontr)
    assume "\<not> length r < length rolesSuffix"
    with t have "\<exists>q. r = q @ rolesSuffix"
      by (auto simp: append_eq_append_conv2) (metis append_Nil length_append le_add2 nat_less_le not_less append_eq_append_conv)
    with assms(2) show False by (simp add: hasSuffix_split)
  qed
  with t obtain us where us: "us @ r = rolesSuffix" by (auto simp: append_eq_append_conv2)
  then have "length (us @ r) = length rolesSuffix" by simp
  then have "length us \<le> 6" by (simp add: rolesSuffix_def)
  with us obtain n where n: "r = drop n rolesSuffix" "n \<le> 6" by (metis append_eq_conv_conj)
  from n(2) have "n \<in> {0,1,2,3,4,5,6}" by auto
  with assms(1) n(1) show ?thesis
    by (auto simp: rolesSuffix_def rolesPrefix_def hasSuffix_def)
       (use assms(2) in \<open>simp add: hasSuffix_def rolesSuffix_def\<close>)+
qed

lemma claimProject_iff: "claimProject key = Some p \<longleftrightarrow> p \<noteq> [] \<and> CHR '':'' \<notin> set p \<and>
    (key = rolesPrefix @ p @ rolesSuffix \<or> p = ''roles'' \<and> key = ''urn:zitadel:iam:org:project:roles'')"
proof -
  have special: "''urn:zitadel:iam:org:project:roles'' = rolesPrefix @ ''roles''" by (simp add: rolesPrefix_def)
  have roles: "hasSuffix (rolesPrefix @ ''roles'') rolesSuffix" "\<not> hasSuffix ''roles'' rolesSuffix"
    by (simp_all add: rolesPrefix_def rolesSuffix_def hasSuffix_def)
  have suffix: "hasSuffix (rolesPrefix @ q @ rolesSuffix) rolesSuffix" for q
    by (metis append.assoc hasSuffix_split)
  show ?thesis
  proof (cases "\<exists>r. key = rolesPrefix @ r")
    case False
    then show ?thesis by (auto simp: claimProject_def hasPrefix_split special)
  next
    case True
    then obtain r where key: "key = rolesPrefix @ r" by blast
    consider q where "r = q @ rolesSuffix" | "\<not> hasSuffix r rolesSuffix" by (auto simp: hasSuffix_split)
    then show ?thesis
    proof cases
      case 1
      have "rolesPrefix @ q @ rolesSuffix \<noteq> rolesPrefix @ ''roles''" using roles(2) by (metis hasSuffix_split same_append_eq)
      moreover have "claimProject (rolesPrefix @ q @ rolesSuffix) = (if q = [] \<or> CHR '':'' \<in> set q then None else Some q)"
        by (simp add: claimProject_def suffix containsStr_char)
      ultimately show ?thesis by (auto simp: key 1 special)
    next
      case 2
      then have "r \<noteq> p @ rolesSuffix" by (auto simp: hasSuffix_split)
      then show ?thesis
        using short_rest [of r] 2 roles
        by (auto simp: key claimProject_def containsStr_char special trimSuffix_other)
    qed
  qed
qed

lemma claimRolesByProject_dom: "claimRolesByProject cs p \<noteq> None \<longleftrightarrow> (\<exists>(k, v) \<in> set cs. claimProject k = Some p)"
  by (induction cs rule: claimRolesByProject.induct) (auto simp: Let_def split: option.splits)

lemma claimRoles_iff: "r \<in> claimRoles cs p \<longleftrightarrow> (\<exists>(k, v) \<in> set cs. claimProject k = Some p \<and> r \<in> set (collectRoles v))"
  by (induction cs rule: claimRolesByProject.induct) (auto simp: claimRoles_def rolesIn_def Let_def split: option.splits)

text \<open>Which roles a token grants. A role belongs to a project exactly when the project has a name
  without a colon and some claim of that project lists the role (as one of the words of a string, in
  an array, or as a member of an object), whatever the order of the claims; but the claim
  \<open>urn:zitadel:iam:org:project:roles\<close>, which names no project, is taken for a project \<open>roles\<close>.\<close>

lemma claimed_roles_iff:
  "role \<in> claimRoles cs project \<longleftrightarrow> project \<noteq> [] \<and> CHR '':'' \<notin> set project \<and>
     (\<exists>(key, v) \<in> set cs. role \<in> set (collectRoles v) \<and>
        (key = ''urn:zitadel:iam:org:project:'' @ project @ '':roles'' \<or>
         project = ''roles'' \<and> key = ''urn:zitadel:iam:org:project:roles''))"
  unfolding claimRoles_iff claimProject_iff unfolding rolesPrefix_def rolesSuffix_def by blast

text \<open>
  The same as a specification.
\<close>

definition grantsRole :: "claims \<Rightarrow> string \<Rightarrow> string \<Rightarrow> bool" where
  "grantsRole cs project role \<longleftrightarrow> project \<noteq> [] \<and> CHR '':'' \<notin> set project \<and>
     (\<exists>key v. (key, v) \<in> set cs \<and> listsRole v role \<and>
        (key = ''urn:zitadel:iam:org:project:'' @ project @ '':roles'' \<or>
         project = ''roles'' \<and> key = ''urn:zitadel:iam:org:project:roles''))"

lemma claimRoles_grants: "role \<in> claimRoles cs project \<longleftrightarrow> grantsRole cs project role"
  unfolding claimed_roles_iff collectRoles_lists grantsRole_def by blast

subsection \<open>Who is let in\<close>

text \<open>
  The keys that the endpoint publishes change over time. A call of \<open>key\<close> starts at some time, is answered
  with what is published by then or fails, and ends within the timeout of the HTTP client.
\<close>

record key_call =
  kc_start :: time
  kc_published :: time
  kc_end :: time
  kc_answer :: jwks_answer

definition honestCall :: "(time \<Rightarrow> jwk list) \<Rightarrow> duration \<Rightarrow> key_call \<Rightarrow> bool" where
  "honestCall published timeout c \<longleftrightarrow>
     kc_start c \<le> kc_published c \<and> kc_published c \<le> kc_end c \<and> kc_end c \<le> kc_start c + timeout \<and>
     (\<forall>js. kc_answer c = Answered 200 (Some js) \<longrightarrow> js = published (kc_published c))"

inductive verifier_runs :: "(time \<Rightarrow> jwk list) \<Rightarrow> duration \<Rightarrow> verifier \<Rightarrow> bool" for published timeout where
  start: "verifier_runs published timeout (newVerifier issuer interval)"
| call: "verifier_runs published timeout v \<Longrightarrow> honestCall published timeout c \<Longrightarrow>
    verifier_runs published timeout (snd (signingKey (kc_start c) (kc_answer c) (kc_end c) kid v))"

definition keysRecent :: "(time \<Rightarrow> jwk list) \<Rightarrow> duration \<Rightarrow> verifier \<Rightarrow> bool" where
  "keysRecent published timeout v \<longleftrightarrow> vf_keys v = Map.empty \<or>
     (\<exists>pub. vf_keys v = rsaKeys (published pub) \<and> vf_expires v \<le> pub + timeout + vf_interval v)"

lemma refresh_cases:
  obtains "refresh answer fin v = (False, v)"
  | js where "answer = Answered 200 (Some js)"
      "refresh answer fin v = (True, v\<lparr>vf_keys := rsaKeys js, vf_expires := fin + vf_interval v\<rparr>)"
proof (cases "\<exists>js. answer = Answered 200 (Some js) \<and> \<not> list_all (\<lambda>j. rsaKey j = None) js")
  case True
  then show thesis by (auto simp: refresh_def intro: that(2))
next
  case False
  then have "refresh answer fin v = (False, v)"
    by (auto simp: refresh_def split: jwks_answer.split option.split)
  then show thesis by (rule that(1))
qed

lemma signingKey_cases:
  obtains "signingKey t answer fin kid v = (vf_keys v kid, v)" "vf_keys v kid \<noteq> None" "t < vf_expires v"
  | "signingKey t answer fin kid v = (None, v)"
  | js where "answer = Answered 200 (Some js)"
      "signingKey t answer fin kid v = (rsaKeys js kid, v\<lparr>vf_keys := rsaKeys js, vf_expires := fin + vf_interval v\<rparr>)"
proof (cases "vf_keys v kid \<noteq> None \<and> t < vf_expires v")
  case True
  then show thesis by (intro that(1)) (auto simp: signingKey_def)
next
  case False
  show thesis
  proof (rule refresh_cases [of answer fin v])
    assume "refresh answer fin v = (False, v)"
    with False show thesis by (intro that(2)) (auto simp: signingKey_def)
  next
    fix js assume "answer = Answered 200 (Some js)"
      "refresh answer fin v = (True, v\<lparr>vf_keys := rsaKeys js, vf_expires := fin + vf_interval v\<rparr>)"
    with False show thesis by (intro that(3)) (auto simp: signingKey_def)
  qed
qed

lemma runs_keysRecent: "verifier_runs published timeout v \<Longrightarrow> keysRecent published timeout v"
proof (induction rule: verifier_runs.induct)
  case (call v c kid)
  show ?case
  proof (rule signingKey_cases [of "kc_start c" "kc_answer c" "kc_end c" kid v])
    fix js assume "kc_answer c = Answered 200 (Some js)" "signingKey (kc_start c) (kc_answer c) (kc_end c) kid v =
        (rsaKeys js kid, v\<lparr>vf_keys := rsaKeys js, vf_expires := kc_end c + vf_interval v\<rparr>)"
    with call.hyps(2) show ?thesis
      by (auto simp: keysRecent_def honestCall_def intro!: exI [of _ "kc_published c"])
  qed (use call.IH in simp_all)
qed (simp add: keysRecent_def newVerifier_def)

lemma authenticate_Inr:
  assumes "authenticate lib t answer fin header audience v = (Inr p, v')"
  obtains raw kid key cs where "header = ''Bearer '' @ raw" "jl_header lib raw = Some (''RS256'', kid)"
    "signingKey t answer fin kid v = (Some key, v')" "jl_verify lib fin raw (vf_issuer v) audience key = Inr cs"
    "jc_subject cs \<noteq> []" "p = principalOf audience cs"
  using assms
  by (auto simp: authenticate_def cutPrefix_eq_Some split: option.splits if_splits prod.splits sum.splits)

lemma claimRoles_none [simp]: "claimRoles cs [] = {}"
  using claimRoles_iff [of _ cs "[]"] by (auto simp: claimProject_iff)

text \<open>C31: Who is let in, and as whom. A bearer token is accepted, in any state that the verifier can be in,
  only if it is signed with RS256 by a key that the identity provider has published under the token's
  key identifier not longer ago than the refresh interval and the HTTP timeout, so that a retired key
  is forgotten, and has not expired. The principal is the one of the token's payload: its issuer, which
  is the configured one, its subject, which is not empty, and its audiences, with the requested one; in
  each project it has exactly the roles that the payload grants there, and its own roles are those in
  the project of the audience. Without an audience there are none.\<close>

theorem accepted_tokens:
  assumes "verifier_runs published timeout v" and "honestCall published timeout c"
    and "jwt_sound lib content expiry signed"
    and "authenticate lib (kc_start c) (kc_answer c) (kc_end c) header audience v = (Inr p, v')"
  shows "\<exists>raw kid key pub. header = ''Bearer '' @ raw \<and> jl_header lib raw = Some (''RS256'', kid) \<and> signed raw key \<and>
     rsaKeys (published pub) kid = Some key \<and> kc_start c - (vf_interval v + timeout) < pub \<and>
     kc_end c < expiry raw \<and> tp_issuer p = jc_issuer (content raw) \<and> tp_issuer p = vf_issuer v \<and>
     tp_subject p = jc_subject (content raw) \<and> tp_subject p \<noteq> [] \<and>
     tp_audiences p = (case jc_audience (content raw) of None \<Rightarrow> {} | Some vs \<Rightarrow> set vs) \<and>
     (audience \<noteq> [] \<longrightarrow> audience \<in> tp_audiences p) \<and>
     (\<forall>project role. hasRole p project role \<longleftrightarrow> grantsRole (jc_fields (content raw)) project role) \<and>
     (\<forall>role. role \<in> tp_roles p \<longleftrightarrow> grantsRole (jc_fields (content raw)) audience role) \<and>
     (audience = [] \<longrightarrow> tp_roles p = {})"
proof (rule authenticate_Inr [OF assms(4)])
  fix raw kid key cs assume t: "header = ''Bearer '' @ raw" "jl_header lib raw = Some (''RS256'', kid)"
    "signingKey (kc_start c) (kc_answer c) (kc_end c) kid v = (Some key, v')"
    "jl_verify lib (kc_end c) raw (vf_issuer v) audience key = Inr cs" "jc_subject cs \<noteq> []" "p = principalOf audience cs"
  have lib: "cs = content raw" "signed raw key" "kc_end c < expiry raw" "jc_issuer cs = vf_issuer v"
    "audience \<noteq> [] \<longrightarrow> audience \<in> tp_audiences p"
    using assms(3) t(4,6) unfolding jwt_sound_def by (fastforce simp: principalOf_def)+
  have roles: "hasRole p project role \<longleftrightarrow> grantsRole (jc_fields cs) project role"
    "role \<in> tp_roles p \<longleftrightarrow> grantsRole (jc_fields cs) audience role" for project role
    by (simp_all add: t(6) principalOf_def hasRole_def flip: claimRoles_grants) (simp add: claimRoles_def)
  have "0 < vf_interval v" using assms(1)
  proof (induction rule: verifier_runs.induct)
    case (call v c kid)
    then show ?case by (auto intro: signingKey_cases [of "kc_start c" "kc_answer c" "kc_end c" kid v])
  qed (simp add: newVerifier_def second_def)
  have "\<exists>pub. rsaKeys (published pub) kid = Some key \<and> kc_start c - (vf_interval v + timeout) < pub"
  proof (rule signingKey_cases [of "kc_start c" "kc_answer c" "kc_end c" kid v])
    assume "signingKey (kc_start c) (kc_answer c) (kc_end c) kid v = (vf_keys v kid, v)" "kc_start c < vf_expires v"
    with runs_keysRecent [OF assms(1)] t(3) show ?thesis by (fastforce simp: keysRecent_def)
  next
    fix js assume "kc_answer c = Answered 200 (Some js)"
      "signingKey (kc_start c) (kc_answer c) (kc_end c) kid v =
        (rsaKeys js kid, v\<lparr>vf_keys := rsaKeys js, vf_expires := kc_end c + vf_interval v\<rparr>)"
    with assms(2) t(3) \<open>0 < vf_interval v\<close> show ?thesis
      by (intro exI [of _ "kc_published c"]) (auto simp: honestCall_def)
  qed (use t(3) in simp)
  then obtain pub where pub: "rsaKeys (published pub) kid = Some key" "kc_start c - (vf_interval v + timeout) < pub"
    by blast
  show ?thesis
    by (rule exI [of _ raw], rule exI [of _ kid], rule exI [of _ key], rule exI [of _ pub])
       (use t(1,2,5) lib pub roles in \<open>simp add: t(6) principalOf_def flip: claimRoles_grants\<close>)
qed

text \<open>The example: one published key, and a token that it signs.\<close>

definition demo_jwk :: jwk where
  "demo_jwk = \<lparr> jk_kid = ''k1'', jk_kty = ''RSA'', jk_n = ''AQAB'', jk_e = ''AQAB'' \<rparr>"

definition demo_claims :: jwt_claims where
  "demo_claims = \<lparr> jc_issuer = ''https://id'', jc_subject = ''svc'', jc_audience = Some [''42''],
     jc_fields = [(''urn:zitadel:iam:org:project:42:roles'', JObj [(''charge'', JObj [])]), (''name'', JStr ''Region'')] \<rparr>"

definition demo_library :: jwt_library where
  "demo_library = \<lparr> jl_issuer = (\<lambda>_. Some ''https://id/''),
     jl_header = (\<lambda>raw. if raw = ''token'' then Some (''RS256'', ''k1'') else None),
     jl_verify = (\<lambda>t raw issuer audience key.
        if issuer = ''https://id'' \<and> (audience = [] \<or> audience = ''42'') \<and> t < 1000 then Inr demo_claims
        else Inl (False, True)) \<rparr>"

lemma demo_rsa: "rsaKey demo_jwk = Some \<lparr> rsa_n = 65537, rsa_e = 65537 \<rparr>"
  by (simp add: rsaKey_def demo_jwk_def base64URL_def base64Value_def wrap64_def Let_def)

theorem accepted_tokens_witness:
  "\<exists>p v'. authenticate demo_library 10 (Answered 200 (Some [demo_jwk])) 11 ''Bearer token'' ''42''
      (newVerifier ''https://id/'' 0) = (Inr p, v') \<and> tp_roles p = {''charge''} \<and>
    tp_issuer p = ''https://id'' \<and> ''42'' \<in> tp_audiences p"
proof -
  let ?c = "\<lparr> kc_start = 10, kc_published = 10, kc_end = 11, kc_answer = Answered 200 (Some [demo_jwk]) \<rparr>"
  have honest: "honestCall (\<lambda>_. [demo_jwk]) 5 ?c" by (simp add: honestCall_def)
  have sound: "jwt_sound demo_library (\<lambda>_. demo_claims) (\<lambda>_. 1000) (\<lambda>_ _. True)"
    by (auto simp: jwt_sound_def demo_library_def demo_claims_def split: if_splits)
  have demo_kid: "jk_kid demo_jwk = ''k1''" by (simp add: demo_jwk_def)
  have subject: "jc_subject demo_claims = ''svc''" by (simp add: demo_claims_def)
  obtain p v' where run: "authenticate demo_library (kc_start ?c) (kc_answer ?c) (kc_end ?c) ''Bearer token'' ''42''
      (newVerifier ''https://id/'' 0) = (Inr p, v')" and p: "p = principalOf ''42'' demo_claims"
    by (simp add: authenticate_def cutPrefix_def hasPrefix_def demo_library_def newVerifier_def trimSuffix_def hasSuffix_def
        signingKey_def refresh_def demo_rsa demo_kid subject)
  have "tp_roles p = {''charge''}"
    by (simp add: p principalOf_def demo_claims_def claimRoles_def rolesIn_def claimProject_def rolesPrefix_def rolesSuffix_def
        hasPrefix_def hasSuffix_def trimPrefix_def trimSuffix_def Let_def)
  moreover from accepted_tokens [OF verifier_runs.start honest sound run]
  have "tp_issuer p = ''https://id''" "''42'' \<in> tp_audiences p"
    by (auto simp: newVerifier_def trimSuffix_def hasSuffix_def)
  ultimately show ?thesis using run by auto
qed

end
