(* ===== verification/Tokens.thy ===== *)
theory Tokens
  imports Verifier
begin

section \<open>Tokens that the services obtain\<close>

text \<open>
  \<open>internal/catalogtoken/manager.go\<close>: the token of the public catalogue, refreshed before it expires.
  \<open>internal/identity/machine_token.go\<close>: the token of a machine user, and the roles that it must have.
  \<open>internal/identity/zitadel_management.go\<close>: creating and revoking service accounts. The endpoints, RSA
  and JSON decoding are parameters.
\<close>

subsection \<open>The catalogue token\<close>

record catalog_token =
  ct_access :: string
  ct_type :: string
  ct_expires :: time

record catalog_config =
  cc_token_url :: string
  cc_client_id :: string
  cc_client_secret :: string
  cc_scope :: string
  cc_ttl :: duration
  cc_refresh_before :: duration
  cc_validates :: bool

definition maximumTTL :: duration where
  "maximumTTL = 24 * 3600 * second"

text \<open>
  \<open>absoluteURL\<close> is \<open>url.Parse\<close> without an error, with a scheme and a host; \<open>cc_validates\<close> says that there
  is a \<open>ValidateJWT\<close>.
\<close>

definition newManager :: "(string \<Rightarrow> bool) \<Rightarrow> catalog_config \<Rightarrow> catalog_config option" where
  "newManager absoluteURL c =
     (if cc_token_url c = [] \<or> cc_client_id c = [] \<or> cc_client_secret c = [] \<or> cc_scope c = [] \<or>
         cc_ttl c \<le> 0 \<or> maximumTTL < cc_ttl c \<or> cc_refresh_before c \<le> 0 \<or> cc_ttl c \<le> cc_refresh_before c \<or>
         \<not> cc_validates c
      then None else if \<not> absoluteURL (cc_token_url c) then None else Some c)"

record token_body =
  tb_access :: string
  tb_type :: string
  tb_expires_in :: int

datatype token_answer = NoToken | TokenAnswer (ta_status: nat) (ta_body: "token_body option")

text \<open>\<open>valid\<close> is what \<open>ValidateJWT\<close> says of the token; the product of the lifetime wraps.\<close>

definition fetchToken ::
  "catalog_config \<Rightarrow> token_answer \<Rightarrow> (string \<Rightarrow> bool) \<Rightarrow> time \<Rightarrow> catalog_token option" where
  "fetchToken c answer valid now =
     (case answer of
        NoToken \<Rightarrow> None
      | TokenAnswer st body \<Rightarrow>
          if st < 200 \<or> 300 \<le> st then None
          else case body of
            None \<Rightarrow> None
          | Some b \<Rightarrow>
              let parts = splitOn (CHR ''.'') (tb_access b); ttl = wrap64 (tb_expires_in b * second) in
              if length parts \<noteq> 3 \<or> parts ! 0 = [] \<or> parts ! 1 = [] \<or> parts ! 2 = [] then None
              else if tb_type b \<noteq> ''Bearer'' \<or> tb_expires_in b \<le> 0 then None
              else if maximumTTL < ttl \<or> cc_ttl c < ttl then None
              else if \<not> valid (tb_access b) then None
              else Some \<lparr> ct_access = tb_access b, ct_type = tb_type b, ct_expires = now + ttl \<rparr>)"

record catalog_manager =
  cm_token :: catalog_token
  cm_started :: bool

definition noManager :: catalog_manager where
  "noManager = \<lparr> cm_token = \<lparr> ct_access = [], ct_type = [], ct_expires = 0 \<rparr>, cm_started = False \<rparr>"

definition currentToken ::
  "catalog_config \<Rightarrow> time \<Rightarrow> token_answer \<Rightarrow> (string \<Rightarrow> bool) \<Rightarrow> catalog_manager \<Rightarrow>
     catalog_token option \<times> catalog_manager" where
  "currentToken c now answer valid m =
     (let token = cm_token m in
      if ct_access token \<noteq> [] \<and> now < ct_expires token - cc_refresh_before c then (Some token, m)
      else case fetchToken c answer valid now of
        Some refreshed \<Rightarrow> (Some refreshed, m\<lparr>cm_token := refreshed\<rparr>)
      | None \<Rightarrow> if ct_access token \<noteq> [] \<and> now < ct_expires token then (Some token, m) else (None, m))"

definition startManager ::
  "catalog_config \<Rightarrow> time \<Rightarrow> token_answer \<Rightarrow> (string \<Rightarrow> bool) \<Rightarrow> catalog_manager \<Rightarrow> bool \<times> catalog_manager" where
  "startManager c now answer valid m =
     (if cm_started m then (False, m)
      else case currentToken c now answer valid m of
        (None, m') \<Rightarrow> (False, m')
      | (Some _, m') \<Rightarrow> (True, m'\<lparr>cm_started := True\<rparr>))"

text \<open>The delay of the refresh loop.\<close>

definition refreshDelay :: "catalog_config \<Rightarrow> time \<Rightarrow> catalog_manager \<Rightarrow> duration" where
  "refreshDelay c now m =
     (let delay = timeSub (ct_expires (cm_token m) - cc_refresh_before c) now in
      if delay \<le> 0 then second else delay)"

text \<open>
  The refresh loop over what its rounds see: the clock when the delay is computed, the clock when the
  timer has fired, and the answer. The list ends when the manager is closed.
\<close>

record refresh_round =
  rr_clock :: time
  rr_fired :: time
  rr_answer :: token_answer
  rr_valid :: "string \<Rightarrow> bool"

fun refreshLoop :: "catalog_config \<Rightarrow> refresh_round list \<Rightarrow> catalog_manager \<Rightarrow> catalog_manager" where
  "refreshLoop c [] m = m"
| "refreshLoop c (r # rs) m = refreshLoop c rs (snd (currentToken c (rr_fired r) (rr_answer r) (rr_valid r) m))"

subsection \<open>The token of a machine user\<close>

record machine_config =
  mc_token_url :: string
  mc_subject :: string
  mc_key_id :: string
  mc_audience :: string
  mc_assertion_audience :: string
  mc_scopes :: "string list"
  mc_refresh_before :: duration

record machine_source =
  ms_config :: machine_config
  ms_token :: string
  ms_expires :: time

text \<open>\<open>embedded\<close> are the identifiers in the key file, \<open>None\<close> when it holds no RSA key.\<close>

definition newMachineTokenSource :: "(string \<times> string) option \<Rightarrow> machine_config \<Rightarrow> machine_source option" where
  "newMachineTokenSource embedded c0 =
     (case embedded of
        None \<Rightarrow> None
      | Some (embeddedID, embeddedSubject) \<Rightarrow>
          let c1 = (if mc_key_id c0 = [] then c0\<lparr>mc_key_id := embeddedID\<rparr> else c0);
              c2 = (if mc_subject c1 = [] then c1\<lparr>mc_subject := embeddedSubject\<rparr> else c1) in
          if mc_token_url c2 = [] \<or> mc_subject c2 = [] \<or> mc_key_id c2 = [] then None
          else Some \<lparr> ms_config = (if mc_refresh_before c2 \<le> 0 then c2\<lparr>mc_refresh_before := 30 * second\<rparr> else c2),
                 ms_token = [], ms_expires = 0 \<rparr>)"

record key_document =
  kd_key_id :: string
  kd_user_id :: string
  kd_key :: string
  kd_private_key :: string

text \<open>
  \<open>parseMachineKey\<close> for the document that the file decodes to (empty fields when it is not JSON):
  \<open>pem\<close> decodes a PEM block, \<open>pkcs8\<close> is whether a PKCS #8 key is an RSA key, \<open>pkcs1\<close> whether the block is
  a PKCS #1 key.
\<close>

definition parseMachineKey ::
  "(string \<Rightarrow> string option) \<Rightarrow> (string \<Rightarrow> bool option) \<Rightarrow> (string \<Rightarrow> bool) \<Rightarrow> string \<Rightarrow> key_document \<Rightarrow>
     (string \<times> string) option" where
  "parseMachineKey pem pkcs8 pkcs1 file d =
     (let pemBytes = (if kd_key d \<noteq> [] then kd_key d else if kd_private_key d \<noteq> [] then kd_private_key d else file) in
      case pem pemBytes of
        None \<Rightarrow> None
      | Some block \<Rightarrow>
          (case pkcs8 block of
             Some isRSA \<Rightarrow> if isRSA then Some (kd_key_id d, kd_user_id d) else None
           | None \<Rightarrow> if pkcs1 block then Some (kd_key_id d, kd_user_id d) else None))"

record assertion_claims =
  as_issuer :: string
  as_subject :: string
  as_audience :: string
  as_issued_at :: time
  as_expires :: time
  as_key_id :: string

definition machineAssertion :: "machine_config \<Rightarrow> time \<Rightarrow> assertion_claims" where
  "machineAssertion c now =
     \<lparr> as_issuer = mc_subject c, as_subject = mc_subject c,
       as_audience = (if mc_assertion_audience c = [] then mc_token_url c else mc_assertion_audience c),
       as_issued_at = now div second - unixToInternal,
       as_expires = (now + 300 * second) div second - unixToInternal, as_key_id = mc_key_id c \<rparr>"

definition machineScopes :: "machine_config \<Rightarrow> string list" where
  "machineScopes c = mc_scopes c @ (if mc_audience c \<noteq> []
     then [''urn:zitadel:iam:org:projects:roles'', ''urn:zitadel:iam:org:project:id:'' @ mc_audience c @ '':aud''] else [])"

fun joinWith :: "string \<Rightarrow> string list \<Rightarrow> string" where
  "joinWith sep [] = []"
| "joinWith sep [s] = s"
| "joinWith sep (s # t # rest) = s @ sep @ joinWith sep (t # rest)"

text \<open>The form; \<open>sign\<close> signs an assertion.\<close>

definition machineForm :: "(assertion_claims \<Rightarrow> string) \<Rightarrow> machine_config \<Rightarrow> time \<Rightarrow> (string \<times> string) list" where
  "machineForm sign c now =
     [(''grant_type'', ''urn:ietf:params:oauth:grant-type:jwt-bearer''), (''assertion'', sign (machineAssertion c now))] @
     (if machineScopes c = [] then [] else [(''scope'', joinWith '' '' (machineScopes c))])"

text \<open>
  \<open>Token\<close>: the endpoint answers a form with a status and a body (\<open>None\<close> when it is not the document).
  \<open>sign\<close> fails with \<open>None\<close>. The two readings of the clock are one.
\<close>

definition machineToken ::
  "(assertion_claims \<Rightarrow> string option) \<Rightarrow> ((string \<times> string) list \<Rightarrow> token_answer) \<Rightarrow> time \<Rightarrow> machine_source \<Rightarrow>
     string option \<times> machine_source" where
  "machineToken sign endpoint now s =
     (let c = ms_config s in
      if ms_token s \<noteq> [] \<and> now + mc_refresh_before c < ms_expires s then (Some (ms_token s), s)
      else case sign (machineAssertion c now) of
        None \<Rightarrow> (None, s)
      | Some signed \<Rightarrow>
          (case endpoint (machineForm (\<lambda>_. signed) c now) of
             NoToken \<Rightarrow> (None, s)
           | TokenAnswer st body \<Rightarrow>
               (case body of
                  None \<Rightarrow> (None, s)
                | Some b \<Rightarrow>
                    if st \<noteq> 200 \<or> tb_access b = [] then (None, s)
                    else (Some (tb_access b),
                      s\<lparr>ms_token := tb_access b, ms_expires := now + wrap64 (tb_expires_in b * second)\<rparr>))))"

text \<open>\<open>unverified\<close> are the claims of a token that \<open>ParseUnverified\<close> can read.\<close>

definition requireTokenRoles :: "(string \<Rightarrow> claims option) \<Rightarrow> string \<Rightarrow> string \<Rightarrow> string list \<Rightarrow> bool" where
  "requireTokenRoles unverified raw projectID required =
     (case unverified raw of
        None \<Rightarrow> False
      | Some cs \<Rightarrow> list_all (\<lambda>role. role \<in> claimRoles cs projectID) required)"

subsection \<open>Service accounts\<close>

text \<open>
  A call of the management API fails before it is sent (no token), without an answer, or is answered.
  The state is the list of requests that were sent.
\<close>

record mgmt_request =
  mr_method :: httpMethod
  mr_path :: string
  mr_body :: json

datatype mgmt_answer = Unanswered | MgmtAnswer nat string

datatype mgmt_error = NoMgmtToken | NotAnswered | MgmtStatus nat string | BadAnswer | BadKey | BadArguments

record mgmt_env =
  me_token :: "nat \<Rightarrow> bool"
  me_remote :: "nat \<Rightarrow> mgmt_request \<Rightarrow> mgmt_answer"
  me_decode :: "string \<Rightarrow> json option"
  me_base64 :: "string \<Rightarrow> string option"
  me_valid :: "string \<Rightarrow> bool"

type_synonym mgmt_log = "mgmt_request list"

text \<open>The result is the decoded body, \<open>None\<close> for an empty one.\<close>

definition mgmtCall ::
  "mgmt_env \<Rightarrow> bool \<Rightarrow> mgmt_request \<Rightarrow> mgmt_log \<Rightarrow> (mgmt_error + json option) \<times> mgmt_log" where
  "mgmtCall env wanted request log =
     (if \<not> me_token env (length log) then (Inl NoMgmtToken, log)
      else case me_remote env (length log) request of
        Unanswered \<Rightarrow> (Inl NotAnswered, log @ [request])
      | MgmtAnswer st body \<Rightarrow>
          if st < 200 \<or> 300 \<le> st then (Inl (MgmtStatus st (trimSpace body)), log @ [request])
          else if \<not> wanted \<or> body = [] then (Inr None, log @ [request])
          else (case me_decode env body of
            None \<Rightarrow> (Inl BadAnswer, log @ [request])
          | Some v \<Rightarrow> (Inr (Some v), log @ [request])))"

definition stringField :: "string \<Rightarrow> json option \<Rightarrow> string" where
  "stringField name v = (case v of Some (JObj members) \<Rightarrow> (case map_of members name of Some (JStr s) \<Rightarrow> s | _ \<Rightarrow> []) | _ \<Rightarrow> [])"

definition machineUserRequest :: "string \<Rightarrow> string \<Rightarrow> mgmt_request" where
  "machineUserRequest subject name =
     \<lparr> mr_method = POST, mr_path = ''/management/v1/users/machine'',
       mr_body = JObj [(''userId'', JStr subject), (''userName'', JStr subject), (''name'', JStr name),
         (''accessTokenType'', JStr ''ACCESS_TOKEN_TYPE_JWT'')] \<rparr>"

definition grantRequest :: "string \<Rightarrow> string \<Rightarrow> string list \<Rightarrow> mgmt_request" where
  "grantRequest projectID subject roles =
     \<lparr> mr_method = POST, mr_path = ''/management/v1/users/'' @ subject @ ''/grants'',
       mr_body = JObj [(''projectId'', JStr projectID), (''roleKeys'', JArr (map JStr roles))] \<rparr>"

definition keyRequest :: "string \<Rightarrow> mgmt_request" where
  "keyRequest subject =
     \<lparr> mr_method = POST, mr_path = ''/management/v1/users/'' @ subject @ ''/keys'',
       mr_body = JObj [(''type'', JStr ''KEY_TYPE_JSON'')] \<rparr>"

record service_credential =
  sv_subject :: string
  sv_key_id :: string
  sv_key_json :: string

text \<open>\<open>uuid\<close> is the fresh identifier without its hyphens.\<close>

definition createServiceAccount ::
  "mgmt_env \<Rightarrow> string \<Rightarrow> string \<Rightarrow> string \<Rightarrow> string list \<Rightarrow> mgmt_log \<Rightarrow> (mgmt_error + service_credential) \<times> mgmt_log" where
  "createServiceAccount env projectID uuid name roles log =
     (let subject0 = ''service-'' @ uuid in
      case mgmtCall env True (machineUserRequest subject0 name) log of
        (Inl e, log1) \<Rightarrow> (Inl e, log1)
      | (Inr created, log1) \<Rightarrow>
          let subject = (if stringField ''userId'' created \<noteq> [] then stringField ''userId'' created else subject0) in
          (case mgmtCall env False (grantRequest projectID subject roles) log1 of
             (Inl e, log2) \<Rightarrow> (Inl e, log2)
           | (Inr _, log2) \<Rightarrow>
               (case mgmtCall env True (keyRequest subject) log2 of
                  (Inl e, log3) \<Rightarrow> (Inl e, log3)
                | (Inr key, log3) \<Rightarrow>
                    let details = stringField ''keyDetails'' key;
                        keyJSON = (case me_base64 env details of None \<Rightarrow> details | Some decoded \<Rightarrow> decoded) in
                    if stringField ''keyId'' key = [] \<or> \<not> me_valid env keyJSON then (Inl BadKey, log3)
                    else (Inr \<lparr> sv_subject = subject, sv_key_id = stringField ''keyId'' key, sv_key_json = keyJSON \<rparr>, log3))))"

definition revokeRequest :: "string \<Rightarrow> string \<Rightarrow> mgmt_request" where
  "revokeRequest subject keyID =
     \<lparr> mr_method = DELETE, mr_path = ''/management/v1/users/'' @ subject @ ''/keys/'' @ keyID, mr_body = JNull \<rparr>"

definition revokeCredential :: "mgmt_env \<Rightarrow> string \<Rightarrow> string \<Rightarrow> mgmt_log \<Rightarrow> mgmt_error option \<times> mgmt_log" where
  "revokeCredential env subject keyID log =
     (if subject = [] \<or> keyID = [] then (Some BadArguments, log)
      else case mgmtCall env False (revokeRequest subject keyID) log of
        (Inr _, log1) \<Rightarrow> (None, log1)
      | (Inl (MgmtStatus st body), log1) \<Rightarrow> (if st = 404 then None else Some (MgmtStatus st body), log1)
      | (Inl e, log1) \<Rightarrow> (Some e, log1))"

subsection \<open>The catalogue token is valid\<close>

text \<open>Three nonempty parts: the code takes this for a JWT.\<close>

definition jwtShape :: "string \<Rightarrow> bool" where
  "jwtShape s \<longleftrightarrow> length (splitOn (CHR ''.'') s) = 3 \<and> [] \<notin> set (splitOn (CHR ''.'') s)"

lemma three_parts: "length ps = 3 \<Longrightarrow> ps ! 0 \<noteq> [] \<Longrightarrow> ps ! 1 \<noteq> [] \<Longrightarrow> ps ! 2 \<noteq> [] \<Longrightarrow> [] \<notin> set ps"
  by (auto simp: numeral_3_eq_3 length_Suc_conv)

lemma fetchToken_Some:
  assumes "fetchToken c answer valid now = Some token"
  obtains st b where "answer = TokenAnswer st (Some b)" "jwtShape (ct_access token)" "ct_type token = ''Bearer''"
    "0 < tb_expires_in b" "valid (ct_access token)" "ct_expires token = now + wrap64 (tb_expires_in b * second)"
    "wrap64 (tb_expires_in b * second) \<le> cc_ttl c" "wrap64 (tb_expires_in b * second) \<le> maximumTTL"
proof -
  obtain st body where a: "answer = TokenAnswer st body"
    using assms by (cases answer) (simp_all add: fetchToken_def)
  obtain b where b: "body = Some b"
    using assms a by (cases body) (auto simp: fetchToken_def split: if_splits)
  show thesis
    by (rule that [of st b]) (use assms a b in \<open>auto simp: fetchToken_def Let_def jwtShape_def dest: three_parts split: if_splits\<close>)
qed

inductive catalog_runs :: "catalog_config \<Rightarrow> (string \<Rightarrow> bool) \<Rightarrow> catalog_manager \<Rightarrow> time \<Rightarrow> bool" for c accepts where
  start: "catalog_runs c accepts noManager t"
| current: "catalog_runs c accepts m t \<Longrightarrow> t \<le> now \<Longrightarrow> \<forall>raw. valid raw \<longrightarrow> accepts raw \<Longrightarrow>
    catalog_runs c accepts (snd (currentToken c now answer valid m)) now"
| started: "catalog_runs c accepts m t \<Longrightarrow> t \<le> now \<Longrightarrow> \<forall>raw. valid raw \<longrightarrow> accepts raw \<Longrightarrow>
    catalog_runs c accepts (snd (startManager c now answer valid m)) now"

definition servedToken :: "catalog_config \<Rightarrow> (string \<Rightarrow> bool) \<Rightarrow> time \<Rightarrow> catalog_token \<Rightarrow> bool" where
  "servedToken c accepts now token \<longleftrightarrow> accepts (ct_access token) \<and> jwtShape (ct_access token) \<and> ct_type token = ''Bearer'' \<and>
     ct_expires token \<le> now + cc_ttl c \<and> ct_expires token \<le> now + maximumTTL"

lemma servedToken_later: "servedToken c accepts t token \<Longrightarrow> t \<le> now \<Longrightarrow> servedToken c accepts now token"
  by (auto simp: servedToken_def)

lemma fetched_served:
  "fetchToken c answer valid now = Some token \<Longrightarrow> \<forall>raw. valid raw \<longrightarrow> accepts raw \<Longrightarrow> servedToken c accepts now token"
  by (erule fetchToken_Some) (auto simp: servedToken_def)

lemma current_cases:
  assumes "0 < cc_refresh_before c"
  obtains "currentToken c now answer valid m = (Some (cm_token m), m)" "ct_access (cm_token m) \<noteq> []" "now < ct_expires (cm_token m)"
  | token where "fetchToken c answer valid now = Some token" "currentToken c now answer valid m = (Some token, m\<lparr>cm_token := token\<rparr>)"
  | "currentToken c now answer valid m = (None, m)" "fetchToken c answer valid now = None"
    "ct_access (cm_token m) = [] \<or> ct_expires (cm_token m) \<le> now"
proof (cases "ct_access (cm_token m) \<noteq> [] \<and> now < ct_expires (cm_token m) - cc_refresh_before c")
  case True
  with assms show thesis by (intro that(1)) (auto simp: currentToken_def Let_def)
next
  case False
  show thesis
  proof (cases "fetchToken c answer valid now")
    case None
    show thesis
    proof (cases "ct_access (cm_token m) \<noteq> [] \<and> now < ct_expires (cm_token m)")
      case True
      with False None show thesis by (intro that(1)) (auto simp: currentToken_def Let_def)
    next
      case old: False
      with False None show thesis by (intro that(3)) (auto simp: currentToken_def Let_def)
    qed
  next
    case (Some token)
    with False show thesis by (intro that(2)) (auto simp: currentToken_def Let_def)
  qed
qed

lemma start_token: "cm_token (snd (startManager c now answer valid m)) =
    (if cm_started m then cm_token m else cm_token (snd (currentToken c now answer valid m)))"
  by (simp add: startManager_def split: prod.split option.split)

definition holdsServed :: "catalog_config \<Rightarrow> (string \<Rightarrow> bool) \<Rightarrow> time \<Rightarrow> catalog_manager \<Rightarrow> bool" where
  "holdsServed c accepts t m \<longleftrightarrow> (ct_access (cm_token m) \<noteq> [] \<longrightarrow> servedToken c accepts t (cm_token m))"

lemma holdsServed_current:
  assumes "holdsServed c accepts t m" and "t \<le> now" and "\<forall>raw. valid raw \<longrightarrow> accepts raw" and "0 < cc_refresh_before c"
  shows "holdsServed c accepts now (snd (currentToken c now answer valid m))"
  by (rule current_cases [OF assms(4), of now answer valid m])
     (use assms(1-3) fetched_served [OF _ assms(3)] in \<open>auto simp: holdsServed_def intro: servedToken_later\<close>)

lemma runs_holdServed:
  assumes "0 < cc_refresh_before c"
  shows "catalog_runs c accepts m t \<Longrightarrow> holdsServed c accepts t m"
proof (induction rule: catalog_runs.induct)
  case (current m t now valid answer)
  then show ?case using holdsServed_current assms by blast
next
  case (started m t now valid answer)
  then show ?case
    using holdsServed_current [OF started.IH started.hyps(2,3) assms, of answer] servedToken_later [OF _ started.hyps(2)]
    by (auto simp: holdsServed_def start_token)
qed (simp add: holdsServed_def noManager_def)

text \<open>C32: The catalogue token that a region hands out. With an accepted configuration, after any calls, a
  token that \<open>Current\<close> returns is a bearer token in the shape of a JWT, was accepted by \<open>ValidateJWT\<close>,
  does not outlive the configured lifetime or 24 hours, and has not expired, unless it has just come with
  a lifetime whose nanoseconds do not fit an \<open>int64\<close>. When none is returned, the endpoint has just failed
  and there is no token that is still valid: an outage is bridged until the token expires.\<close>

theorem catalog_token_served:
  assumes "newManager absoluteURL c0 = Some c" and "catalog_runs c accepts m t" and "t \<le> now"
    and "\<forall>raw. valid raw \<longrightarrow> accepts raw" and "currentToken c now answer valid m = (r, m')"
  shows "case r of
      Some token \<Rightarrow> servedToken c accepts now token \<and>
        (now < ct_expires token \<or> (\<exists>st b. answer = TokenAnswer st (Some b) \<and> max_int64 < tb_expires_in b * second))
    | None \<Rightarrow> fetchToken c answer valid now = None \<and> (ct_access (cm_token m) = [] \<or> ct_expires (cm_token m) \<le> now)"
proof -
  have rb: "0 < cc_refresh_before c" using assms(1) by (auto simp: newManager_def split: if_splits)
  show ?thesis
  proof (rule current_cases [OF rb, of now answer valid m])
    assume "currentToken c now answer valid m = (Some (cm_token m), m)" "ct_access (cm_token m) \<noteq> []" "now < ct_expires (cm_token m)"
    with assms(5) runs_holdServed [OF rb assms(2)] show ?thesis
      by (auto simp: holdsServed_def intro: servedToken_later [OF _ assms(3)])
  next
    fix token assume f: "fetchToken c answer valid now = Some token"
      "currentToken c now answer valid m = (Some token, m\<lparr>cm_token := token\<rparr>)"
    have "now < ct_expires token \<or> (\<exists>st b. answer = TokenAnswer st (Some b) \<and> max_int64 < tb_expires_in b * second)"
    proof (rule fetchToken_Some [OF f(1)])
      fix st b assume b: "answer = TokenAnswer st (Some b)" "0 < tb_expires_in b"
        "ct_expires token = now + wrap64 (tb_expires_in b * second)"
      show ?thesis
      proof (cases "tb_expires_in b * second \<le> max_int64")
        case True
        then have "wrap64 (tb_expires_in b * second) = tb_expires_in b * second"
          using b(2) by (intro wrap64_id int64_nonnegI) (auto simp: second_def)
        with b show ?thesis by (simp add: second_def)
      qed (use b(1) in auto)
    qed
    with f fetched_served [OF f(1) assms(4)] assms(5) show ?thesis by auto
  qed (use assms(5) in auto)
qed

text \<open>The exception happens: a lifetime of 9223372037 seconds is a token that has expired.\<close>

definition demo_catalog :: catalog_config where
  "demo_catalog = \<lparr> cc_token_url = ''https://id/oauth/v2/token'', cc_client_id = ''c'', cc_client_secret = ''s'',
     cc_scope = ''openid'', cc_ttl = 3600 * second, cc_refresh_before = 60 * second, cc_validates = True \<rparr>"

definition demo_answer :: "int \<Rightarrow> token_answer" where
  "demo_answer seconds = TokenAnswer 200 (Some \<lparr> tb_access = ''h.p.s'', tb_type = ''Bearer'', tb_expires_in = seconds \<rparr>)"

lemma demo_fetch: "fetchToken demo_catalog (demo_answer 600) (\<lambda>_. True) now =
    Some \<lparr> ct_access = ''h.p.s'', ct_type = ''Bearer'', ct_expires = now + 600 * second \<rparr>"
  by (simp add: fetchToken_def demo_answer_def demo_catalog_def maximumTTL_def second_def int64_defs)

lemma catalog_expiry_wraps:
  "currentToken demo_catalog now (demo_answer 9223372037) (\<lambda>_. True) noManager =
     (Some token, m') \<Longrightarrow> ct_expires token < now"
  by (auto simp: currentToken_def noManager_def fetchToken_def demo_answer_def demo_catalog_def maximumTTL_def second_def
      wrap64_def Let_def split: if_splits)

theorem catalog_token_served_witness:
  "\<exists>token m'. currentToken demo_catalog (100 * second) NoToken (\<lambda>_. True)
      (snd (currentToken demo_catalog 0 (demo_answer 600) (\<lambda>_. True) noManager)) = (Some token, m') \<and>
    ct_access token = ''h.p.s'' \<and> 100 * second < ct_expires token"
proof -
  have conf: "newManager (\<lambda>_. True) demo_catalog = Some demo_catalog"
    by (simp add: newManager_def demo_catalog_def maximumTTL_def second_def)
  let ?m = "snd (currentToken demo_catalog 0 (demo_answer 600) (\<lambda>_. True) noManager)"
  have m: "?m = noManager\<lparr>cm_token := \<lparr> ct_access = ''h.p.s'', ct_type = ''Bearer'', ct_expires = 600 * second \<rparr>\<rparr>"
    by (simp add: currentToken_def demo_fetch noManager_def)
  have reach: "catalog_runs demo_catalog (\<lambda>_. True) ?m 0"
    by (rule catalog_runs.current [OF catalog_runs.start [of _ _ 0]]) simp_all
  have run: "currentToken demo_catalog (100 * second) NoToken (\<lambda>_. True) ?m = (Some (cm_token ?m), ?m)"
    unfolding m by (simp add: currentToken_def demo_catalog_def second_def Let_def)
  have "case Some (cm_token ?m) of
      Some token \<Rightarrow> servedToken demo_catalog (\<lambda>_. True) (100 * second) token \<and>
        (100 * second < ct_expires token \<or> (\<exists>st b. NoToken = TokenAnswer st (Some b) \<and> max_int64 < tb_expires_in b * second))
    | None \<Rightarrow> fetchToken demo_catalog NoToken (\<lambda>_. True) (100 * second) = None \<and>
        (ct_access (cm_token ?m) = [] \<or> ct_expires (cm_token ?m) \<le> 100 * second)"
    by (rule catalog_token_served [OF conf reach _ _ run]) (simp_all add: second_def)
  then have "100 * second < ct_expires (cm_token ?m)" by simp
  with run show ?thesis by (simp add: m)
qed

subsection \<open>It never lapses\<close>

text \<open>
  The refresh loop in time: its timers fire between the delay and \<open>slack\<close> later, its own steps take at
  most \<open>slack\<close>, and each answer is a token that outlives the refresh window by \<open>slack\<close>.
\<close>

fun inTime :: "catalog_config \<Rightarrow> duration \<Rightarrow> time \<Rightarrow> catalog_manager \<Rightarrow> refresh_round list \<Rightarrow> bool" where
  "inTime c slack t m [] = True"
| "inTime c slack t m (r # rs) =
     (t \<le> rr_clock r \<and> rr_clock r \<le> t + slack \<and>
      rr_clock r + refreshDelay c (rr_clock r) m \<le> rr_fired r \<and>
      rr_fired r \<le> rr_clock r + refreshDelay c (rr_clock r) m + slack \<and>
      (case fetchToken c (rr_answer r) (rr_valid r) (rr_fired r) of
         None \<Rightarrow> False
       | Some token \<Rightarrow> rr_fired r + cc_refresh_before c + slack < ct_expires token) \<and>
      inTime c slack (rr_fired r) (snd (currentToken c (rr_fired r) (rr_answer r) (rr_valid r) m)) rs)"

fun neverLapses :: "catalog_config \<Rightarrow> catalog_manager \<Rightarrow> refresh_round list \<Rightarrow> bool" where
  "neverLapses c m [] = True"
| "neverLapses c m (r # rs) =
     (ct_access (cm_token m) \<noteq> [] \<and> rr_fired r < ct_expires (cm_token m) \<and>
      neverLapses c (snd (currentToken c (rr_fired r) (rr_answer r) (rr_valid r) m)) rs)"

text \<open>C33: The catalogue token never lapses. Started with a token that outlives the refresh window, and
  as long as the endpoint answers with such tokens and the loop runs in time, the loop has replaced
  every token before it expires: whenever a request asks, there is a valid one.\<close>

theorem catalog_refreshed_in_time:
  assumes "newManager absoluteURL c0 = Some c" and "0 \<le> slack" and "slack < cc_refresh_before c"
    and "ct_access (cm_token m) \<noteq> []" and "t + cc_refresh_before c + slack < ct_expires (cm_token m)"
    and "ct_expires (cm_token m) \<le> t + maximumTTL" and "inTime c slack t m rounds"
  shows "neverLapses c m rounds"
  using assms(4-7)
proof (induction rounds arbitrary: t m)
  case (Cons r rs)
  have rb: "0 < cc_refresh_before c" using assms(1) by (auto simp: newManager_def split: if_splits)
  let ?E = "ct_expires (cm_token m)"
  from Cons.prems(4) have r: "t \<le> rr_clock r" "rr_clock r \<le> t + slack"
    "rr_clock r + refreshDelay c (rr_clock r) m \<le> rr_fired r"
    "rr_fired r \<le> rr_clock r + refreshDelay c (rr_clock r) m + slack" by simp_all
  have "refreshDelay c (rr_clock r) m = ?E - cc_refresh_before c - rr_clock r"
    using Cons.prems(2,3) r(1,2) rb
    by (auto simp: refreshDelay_def timeSub_def Let_def maximumTTL_def second_def int64_defs)
  with r(3,4) assms(3) have fired: "?E - cc_refresh_before c \<le> rr_fired r" "rr_fired r < ?E" by auto
  from Cons.prems(4) obtain token where f: "fetchToken c (rr_answer r) (rr_valid r) (rr_fired r) = Some token"
    "rr_fired r + cc_refresh_before c + slack < ct_expires token" by (auto split: option.splits)
  have m': "snd (currentToken c (rr_fired r) (rr_answer r) (rr_valid r) m) = m\<lparr>cm_token := token\<rparr>"
    using fired(1) f(1) by (simp add: currentToken_def Let_def)
  have token: "ct_access token \<noteq> []" "ct_expires token \<le> rr_fired r + maximumTTL"
    by (rule fetchToken_Some [OF f(1)], auto simp: jwtShape_def)+
  have "neverLapses c (m\<lparr>cm_token := token\<rparr>) rs"
    using Cons.IH [of "m\<lparr>cm_token := token\<rparr>" "rr_fired r"] Cons.prems(4) f(2) token by (simp add: m')
  with Cons.prems(1) fired(2) show ?case by (simp add: m')
qed simp

theorem catalog_refreshed_in_time_witness:
  "neverLapses demo_catalog
     (noManager\<lparr>cm_token := \<lparr> ct_access = ''h.p.s'', ct_type = ''Bearer'', ct_expires = 600 * second \<rparr>\<rparr>)
     [\<lparr> rr_clock = 0, rr_fired = 541 * second, rr_answer = demo_answer 600, rr_valid = (\<lambda>_. True) \<rparr>]"
proof (rule catalog_refreshed_in_time [where t = 0 and slack = second])
  show "newManager (\<lambda>_. True) demo_catalog = Some demo_catalog"
    by (simp add: newManager_def demo_catalog_def maximumTTL_def second_def)
  show "inTime demo_catalog second 0
     (noManager\<lparr>cm_token := \<lparr> ct_access = ''h.p.s'', ct_type = ''Bearer'', ct_expires = 600 * second \<rparr>\<rparr>)
     [\<lparr> rr_clock = 0, rr_fired = 541 * second, rr_answer = demo_answer 600, rr_valid = (\<lambda>_. True) \<rparr>]"
    by (simp add: demo_fetch refreshDelay_def timeSub_def int64_defs) (simp add: demo_catalog_def second_def)
qed (simp_all add: demo_catalog_def second_def maximumTTL_def)

subsection \<open>Closing the manager\<close>

text \<open>
  The goroutine of the refresh loop: it computes the delay, waits in \<open>select\<close> (\<open>Waiting True\<close> once the
  timer is due), asks for the token, and starts over; \<open>Returned\<close> has closed \<open>done\<close>. When the timer is due
  and the stop channel is closed, \<open>select\<close> takes either. The stop case stops or drains its timer, whose
  value nobody else receives, and returns. \<open>Close\<close> of a started manager closes the stop channel (once)
  and waits for \<open>Returned\<close>.
\<close>

datatype loop_phase = Computing | Waiting bool | Asking | Returned

record loop_state =
  lp_phase :: loop_phase
  lp_stop :: bool

inductive loop_step :: "loop_state \<Rightarrow> loop_state \<Rightarrow> bool" where
  computed: "lp_phase s = Computing \<Longrightarrow> loop_step s (s\<lparr>lp_phase := Waiting False\<rparr>)"
| due: "lp_phase s = Waiting False \<Longrightarrow> loop_step s (s\<lparr>lp_phase := Waiting True\<rparr>)"
| fired: "lp_phase s = Waiting True \<Longrightarrow> loop_step s (s\<lparr>lp_phase := Asking\<rparr>)"
| stopped: "lp_phase s = Waiting b \<Longrightarrow> lp_stop s \<Longrightarrow> loop_step s (s\<lparr>lp_phase := Returned\<rparr>)"
| asked: "lp_phase s = Asking \<Longrightarrow> loop_step s (s\<lparr>lp_phase := Computing\<rparr>)"

inductive_cases loop_stepE: "loop_step s s'"

definition closeLoop :: "loop_state \<Rightarrow> loop_state" where
  "closeLoop s = s\<lparr>lp_stop := True\<rparr>"

text \<open>A run of \<open>n\<close> steps in which \<open>select\<close> takes the timer \<open>k\<close> times.\<close>

inductive loop_runs :: "nat \<Rightarrow> nat \<Rightarrow> loop_state \<Rightarrow> loop_state \<Rightarrow> bool" where
  stay: "loop_runs 0 0 s s"
| step: "loop_runs n k s s' \<Longrightarrow> loop_step s' s'' \<Longrightarrow>
    loop_runs (Suc n) (if lp_phase s'' = Asking then Suc k else k) s s''"

text \<open>How many steps are possible before \<open>select\<close> must take the timer again.\<close>

fun phaseRank :: "loop_phase \<Rightarrow> nat" where
  "phaseRank Returned = 0"
| "phaseRank (Waiting due) = (if due then 1 else 2)"
| "phaseRank Computing = 3"
| "phaseRank Asking = 4"

lemma stopped_step:
  assumes "loop_step s s'" and "lp_stop s"
  shows "lp_stop s'" "Suc (phaseRank (lp_phase s')) \<le> phaseRank (lp_phase s) + (if lp_phase s' = Asking then 4 else 0)"
  using assms by (auto elim!: loop_stepE)

lemma stopped_steps:
  "loop_runs n k s s' \<Longrightarrow> lp_stop s \<Longrightarrow> lp_stop s' \<and> n + phaseRank (lp_phase s') \<le> phaseRank (lp_phase s) + 4 * k"
proof (induction rule: loop_runs.induct)
  case (step n k s s' s'')
  with stopped_step [OF step.hyps(2)] show ?case by (cases "lp_phase s'' = Asking") auto
qed simp

lemma stuck_returned: "lp_stop s \<Longrightarrow> \<forall>s'. \<not> loop_step s s' \<Longrightarrow> lp_phase s = Returned"
  using loop_step.intros [of s] by (cases "lp_phase s") auto

text \<open>The way out, without the timer.\<close>

lemma way_out:
  assumes "lp_stop s"
  shows "\<exists>m \<le> phaseRank (lp_phase s). loop_runs m 0 s (s\<lparr>lp_phase := Returned\<rparr>)"
proof -
  let ?p = "\<lambda>p. s\<lparr>lp_phase := p\<rparr>"
  have waiting: "loop_runs (Suc m) 0 t (?p Returned)" if "loop_runs m 0 t (?p (Waiting b))" for t m b
    using loop_runs.step [OF that loop_step.stopped [of _ b]] assms by simp
  have computing: "loop_runs (Suc (Suc m)) 0 t (?p Returned)" if "loop_runs m 0 t (?p Computing)" for t m
    using waiting [of "Suc m" t False] loop_runs.step [OF that loop_step.computed] by simp
  have start: "loop_runs 0 0 s (?p (lp_phase s))" using loop_runs.stay [of s] by simp
  show ?thesis
  proof (cases "lp_phase s")
    case Computing
    with start computing [of 0 s] show ?thesis by (intro exI [of _ "2"]) (simp add: numeral_2_eq_2)
  next
    case (Waiting b)
    with start waiting [of 0 s b] show ?thesis by (intro exI [of _ "1"]) simp
  next
    case Asking
    with start have "loop_runs 1 0 s (?p Computing)"
      using loop_runs.step [OF loop_runs.stay [of s] loop_step.asked] by simp
    with computing [of 1 s] Asking show ?thesis by (intro exI [of _ "3"]) (simp add: numeral_3_eq_3)
  next
    case Returned
    with start show ?thesis by (intro exI [of _ "0"]) simp
  qed
qed

text \<open>C34: \<open>Close\<close> returns unless \<open>select\<close>, which chooses at random, prefers the timer for ever. Whatever the
  refresh loop is doing when the stop channel is closed, a run in which \<open>select\<close> then takes the timer
  \<open>k\<close> times has at most \<open>4 * k + 4\<close> steps, it can only come to rest by closing \<open>done\<close>, and wherever it is,
  at most four steps in which \<open>select\<close> takes the stop channel lead there.\<close>

theorem close_returns:
  assumes "loop_runs n k (closeLoop s) s'"
  shows "n \<le> 4 * k + 4 \<and> ((\<forall>s''. \<not> loop_step s' s'') \<longrightarrow> lp_phase s' = Returned) \<and>
    (\<exists>m \<le> 4. loop_runs m 0 s' (s'\<lparr>lp_phase := Returned\<rparr>))"
proof -
  have r: "lp_stop s' \<and> n + phaseRank (lp_phase s') \<le> phaseRank (lp_phase (closeLoop s)) + 4 * k"
    by (rule stopped_steps [OF assms]) (simp add: closeLoop_def)
  have four: "phaseRank p \<le> 4" for p by (cases p rule: phaseRank.cases) auto
  from r four [of "lp_phase (closeLoop s)"] have "n \<le> 4 * k + 4" by linarith
  moreover have "\<exists>m \<le> 4. loop_runs m 0 s' (s'\<lparr>lp_phase := Returned\<rparr>)"
    using way_out [of s'] r four le_trans by blast
  ultimately show ?thesis using r stuck_returned by blast
qed

text \<open>The example: the timer is due twice after the stop channel has been closed.\<close>

theorem close_returns_witness:
  "\<exists>n s'. loop_runs n 2 (closeLoop \<lparr> lp_phase = Waiting True, lp_stop = False \<rparr>) s' \<and> lp_phase s' = Returned \<and> n \<le> 12"
proof -
  let ?s = "\<lambda>p. \<lparr> lp_phase = p, lp_stop = True \<rparr>"
  have "loop_step (?s (Waiting True)) (?s Asking)" "loop_step (?s Asking) (?s Computing)"
    "loop_step (?s Computing) (?s (Waiting False))" "loop_step (?s (Waiting False)) (?s (Waiting True))"
    "loop_step (?s (Waiting True)) (?s Asking)" "loop_step (?s (Waiting True)) (?s Returned)"
    using loop_step.fired [of "?s (Waiting True)"] loop_step.asked [of "?s Asking"] loop_step.due [of "?s (Waiting False)"]
      loop_step.computed [of "?s Computing"] loop_step.stopped [of "?s (Waiting True)" True] by simp_all
  note steps = this
  have next_run: "loop_runs (n + 4) (Suc k) t (?s (Waiting True))" if "loop_runs n k t (?s (Waiting True))" for n k t
    using loop_runs.step [OF loop_runs.step [OF loop_runs.step [OF loop_runs.step [OF that steps(1)] steps(2)] steps(3)] steps(4)]
    by (simp add: eval_nat_numeral)
  have "loop_runs 9 2 (?s (Waiting True)) (?s Returned)"
    using loop_runs.step [OF next_run [OF next_run [OF loop_runs.stay]] steps(6)] by (simp add: eval_nat_numeral)
  then have run: "loop_runs 9 2 (closeLoop \<lparr> lp_phase = Waiting True, lp_stop = False \<rparr>) (?s Returned)"
    by (simp add: closeLoop_def)
  with close_returns [OF run] show ?thesis by (intro exI [of _ 9] exI [of _ "?s Returned"]) simp
qed

end
