(* ===== verification/ProcessConfig.thy ===== *)
theory ProcessConfig
  imports CreditLink BifrostClients Tokens
begin

section \<open>Process configuration\<close>

text \<open>
  \<open>internal/app/process_config.go\<close>: the configuration of a process, its validation, and the settings with
  which the process builds its handlers. The YAML decoder, \<open>time.ParseDuration\<close>, \<open>url.Parse\<close> and the file
  system are parameters.
\<close>

subsection \<open>The configuration\<close>

datatype process_kind = GizPay | GizWay

record store_config =
  sc_type :: string
  sc_dsn :: string
  sc_schema :: string
  sc_initialize :: bool
  sc_retention_days :: int
  sc_batch_size :: int
  sc_batch_interval :: string
  sc_queue_capacity :: int

record machine_client =
  mk_token_url :: string
  mk_subject :: string
  mk_key_id :: string
  mk_key_file :: string
  mk_audience :: string
  mk_scopes :: "string list"
  mk_roles :: "string list"
  mk_refresh_before :: string

record process_config =
  pc_version :: int
  pc_name :: string
  pc_listen :: string
  pc_shutdown_timeout :: string
  pc_admin_key_file :: string
  pc_hostname :: string
  pc_identity_issuer :: string
  pc_catalog_id :: string
  pc_catalog_secret :: string
  pc_catalog_type :: string
  pc_catalog_scope :: string
  pc_catalog_ttl :: string
  pc_catalog_refresh :: string
  pc_catalog_token_url :: string
  pc_gizpay_powersync :: string
  pc_gizpay_api :: string
  pc_gizway_powersync :: string
  pc_gizway_api :: string
  pc_database :: store_config
  pc_issuer :: string
  pc_jwks_url :: string
  pc_human_audience :: string
  pc_service_audience :: string
  pc_management :: machine_client
  pc_jwks_refresh :: string
  pc_action_key_file :: string
  pc_service_account :: machine_client
  pc_hmac_file :: string
  pc_recheck_interval :: string
  pc_cleanup_interval :: string
  pc_fee_bps :: int
  pc_max_metadata :: int
  pc_max_commissions :: int
  pc_tls_enabled :: "bool option"
  pc_certificate_file :: string
  pc_private_key_file :: string
  pc_service_dsn :: string
  pc_request_timeout :: string
  pc_outbox_batch :: int
  pc_retry_interval :: string
  pc_abandon_after :: string
  pc_config_store :: store_config
  pc_log_store :: store_config
  pc_max_retries :: int
  pc_execution_timeout :: string
  pc_callback_url :: string
  pc_callback_file :: string
  pc_log_level :: string
  pc_log_format :: string
  pc_directory :: string

text \<open>
  The environment: durations, whether a text is an absolute URL (with scheme and host), the contents of
  the file of a path, and the identifiers in a machine key.
\<close>

record process_env =
  pe_duration :: "string \<Rightarrow> duration option"
  pe_absolute :: "string \<Rightarrow> bool"
  pe_file :: "string \<Rightarrow> string option"
  pe_machine_key :: "string \<Rightarrow> (string \<times> string) option"

text \<open>A relative path is relative to the directory of the configuration.\<close>

definition configuredPath :: "process_config \<Rightarrow> string \<Rightarrow> string" where
  "configuredPath c path = (if path \<noteq> [] \<and> hd path \<noteq> CHR ''/'' then pc_directory c @ ''/'' @ path else path)"

subsection \<open>Checks\<close>

text \<open>A check is \<open>None\<close> or the message of its error; the first error is returned.\<close>

definition demand :: "bool \<Rightarrow> string \<Rightarrow> string option" where
  "demand ok message = (if ok then None else Some message)"

fun firstError :: "string option list \<Rightarrow> string option" where
  "firstError [] = None"
| "firstError (None # rest) = firstError rest"
| "firstError (Some e # rest) = Some e"

lemma firstError_None [simp]: "firstError xs = None \<longleftrightarrow> (\<forall>x \<in> set xs. x = None)"
  by (induction xs rule: firstError.induct) auto

lemma demand_None [simp]: "demand ok message = None \<longleftrightarrow> ok"
  by (simp add: demand_def)

definition alphaNum :: "char \<Rightarrow> bool" where
  "alphaNum c = (let n = of_char c :: nat in (65 \<le> n \<and> n \<le> 90) \<or> (97 \<le> n \<and> n \<le> 122) \<or> (48 \<le> n \<and> n \<le> 57))"

definition serverLabel :: "string \<Rightarrow> bool" where
  "serverLabel l \<longleftrightarrow> l \<noteq> [] \<and> length l \<le> 63 \<and> alphaNum (hd l) \<and> alphaNum (last l) \<and>
     list_all (\<lambda>c. alphaNum c \<or> c = CHR ''-'') l"

definition validServerName :: "string \<Rightarrow> bool" where
  "validServerName name \<longleftrightarrow>
     \<not> (253 < length name \<or> set name \<inter> {CHR '':'', CHR ''/'', CHR '' ''} \<noteq> {} \<or> hasPrefix name ''.'' \<or> hasSuffix name ''.'') \<and>
     (let labels = splitOn (CHR ''.'') name in 2 \<le> length labels \<and> list_all serverLabel labels)"

text \<open>\<open>^[a-z][a-z0-9_]*$\<close>.\<close>

definition schemaPattern :: "string \<Rightarrow> bool" where
  "schemaPattern s \<longleftrightarrow> s \<noteq> [] \<and> (let n = of_char (hd s) :: nat in 97 \<le> n \<and> n \<le> 122) \<and>
     list_all (\<lambda>c. let n = of_char c :: nat in (97 \<le> n \<and> n \<le> 122) \<or> (48 \<le> n \<and> n \<le> 57) \<or> c = CHR ''_'') s"

definition secretFiles :: "process_config \<Rightarrow> string list" where
  "secretFiles c = [pc_admin_key_file c, pc_hmac_file c, mk_key_file (pc_management c), mk_key_file (pc_service_account c),
     pc_certificate_file c, pc_private_key_file c, pc_callback_file c, pc_action_key_file c]"

definition validateFile :: "process_env \<Rightarrow> process_config \<Rightarrow> string \<Rightarrow> string option" where
  "validateFile env c path =
     (if path = [] then None
      else case pe_file env (configuredPath c path) of
        None \<Rightarrow> Some (''read Secret file '' @ configuredPath c path)
      | Some contents \<Rightarrow> demand (nonBlank contents) (''secret file '' @ configuredPath c path @ '' is empty''))"

definition recheckValue :: "process_config \<Rightarrow> string" where
  "recheckValue c = (if pc_recheck_interval c = [] then ''5m'' else pc_recheck_interval c)"

definition validateRecheck :: "process_env \<Rightarrow> process_config \<Rightarrow> string option" where
  "validateRecheck env c = demand (case pe_duration env (recheckValue c) of
      None \<Rightarrow> False
    | Some d \<Rightarrow> second \<le> d \<and> d smod second = 0)
    ''credit_check.recheck_interval must be a positive whole-second duration''"

definition validateM04SiteConfig :: "process_env \<Rightarrow> process_config \<Rightarrow> string option" where
  "validateM04SiteConfig env c = firstError
     [demand (pc_hostname c \<noteq> [] \<and> pc_identity_issuer c \<noteq> [] \<and> pc_catalog_id c \<noteq> [] \<and> pc_catalog_secret c \<noteq> [] \<and>
        pc_catalog_scope c \<noteq> [] \<and> pc_catalog_token_url c \<noteq> [] \<and> pc_gizpay_powersync c \<noteq> [] \<and> pc_gizpay_api c \<noteq> [] \<and>
        pc_gizway_powersync c \<noteq> [] \<and> pc_gizway_api c \<noteq> [])
        ''M04 site, identity, Public Catalog, and service URLs are required'',
      demand (pc_identity_issuer c = pc_issuer c) ''identity.issuer must match authentication.zitadel.issuer'',
      demand (pc_catalog_type c = ''JWT'') ''identity.public_catalog_service_account.access_token_type must be JWT'',
      demand (case pe_duration env (pc_catalog_ttl c) of None \<Rightarrow> False | Some ttl \<Rightarrow> 0 < ttl \<and> ttl \<le> maximumTTL)
        ''identity.public_catalog_service_account.token_ttl must be positive and at most 24h'',
      demand (case (pe_duration env (pc_catalog_ttl c), pe_duration env (pc_catalog_refresh c)) of
          (Some ttl, Some before) \<Rightarrow> 0 < before \<and> before < ttl
        | _ \<Rightarrow> False)
        ''identity.public_catalog_service_account.refresh_before must be positive and less than token_ttl'']"

definition validatePay :: "process_config \<Rightarrow> string option" where
  "validatePay c = firstError
     [demand (pc_issuer c \<noteq> [] \<and> pc_jwks_url c \<noteq> [] \<and> pc_human_audience c \<noteq> [] \<and> pc_service_audience c \<noteq> [] \<and>
        mk_token_url (pc_management c) \<noteq> [] \<and> mk_key_file (pc_management c) \<noteq> [])
        ''GizPay ZITADEL issuer, audiences, and management client are required'']"

fun validRoles :: "string list \<Rightarrow> string list \<Rightarrow> bool" where
  "validRoles seen [] = True"
| "validRoles seen (role # roles) = (nonBlank role \<and> role \<notin> set seen \<and> validRoles (role # seen) roles)"

definition validateWay :: "process_env \<Rightarrow> process_config \<Rightarrow> string option" where
  "validateWay env c =
     (let service = pc_service_account c; configStore = pc_config_store c; logStore = pc_log_store c in firstError
     [demand (pc_issuer c \<noteq> [] \<and> pc_jwks_url c \<noteq> [] \<and> pc_human_audience c \<noteq> [] \<and> mk_token_url service \<noteq> [] \<and>
        mk_key_file service \<noteq> [] \<and> mk_audience service \<noteq> [] \<and> mk_scopes service \<noteq> [] \<and> mk_roles service \<noteq> [])
        ''GizWay ZITADEL human and Service Account configuration is required'',
      demand (pc_service_dsn c \<noteq> []) ''gizpay.service_dsn is required'',
      (if pc_hostname c \<noteq> [] \<or> pc_identity_issuer c \<noteq> [] \<or> pc_catalog_id c \<noteq> [] then validateM04SiteConfig env c else None),
      demand (sc_type configStore = ''postgresql'' \<and> sc_dsn configStore \<noteq> [] \<and> sc_schema configStore \<noteq> [])
        ''bifrost.config_store PostgreSQL DSN and schema are required'',
      demand (sc_dsn configStore = sc_dsn (pc_database c))
        ''bifrost.config_store.dsn must equal database.dsn for atomic Provider Key transactions'',
      demand (sc_type logStore = ''postgresql'' \<or> sc_type logStore = ''clickhouse'')
        ''bifrost.log_store.type must be postgresql or clickhouse'',
      demand (sc_dsn logStore \<noteq> [] \<and> sc_schema logStore \<noteq> []) ''bifrost.log_store DSN and schema are required'',
      demand (0 \<le> pc_max_retries c \<and> 0 \<le> sc_batch_size logStore \<and> 0 \<le> sc_queue_capacity logStore)
        ''bifrost retries and log store writer limits cannot be negative'',
      demand (validRoles [] (mk_roles service)) ''authentication.service_account.required_roles must be nonempty and unique'',
      demand ((pc_callback_url c = []) = (pc_callback_file c = []))
        ''provider_callbacks public_base_url and callback_secret_file must be configured together'',
      demand (pc_callback_url c = [] \<or> pe_absolute env (pc_callback_url c))
        ''provider_callbacks.public_base_url must be an absolute URL''])"

text \<open>The loop over a map literal, in the order of the literal; Go's order decides only which error is reported.\<close>

definition configuredDurations :: "process_config \<Rightarrow> (string \<times> string) list" where
  "configuredDurations c =
     [(''server.shutdown_timeout'', pc_shutdown_timeout c),
      (''authentication.zitadel.jwks_refresh_interval'', pc_jwks_refresh c),
      (''authentication.service_account.token_refresh_before'', mk_refresh_before (pc_service_account c)),
      (''gizpay.request_timeout'', pc_request_timeout c),
      (''credit_cache.cleanup_interval'', pc_cleanup_interval c),
      (''charge_outbox.retry_interval'', pc_retry_interval c),
      (''charge_outbox.abandon_after'', pc_abandon_after c),
      (''bifrost.log_store.writer.batch_interval'', sc_batch_interval (pc_log_store c)),
      (''bifrost.execution.request_timeout'', pc_execution_timeout c)]"

definition validateDuration :: "process_env \<Rightarrow> string \<times> string \<Rightarrow> string option" where
  "validateDuration env nv =
     (if snd nv = [] then None
      else demand (case pe_duration env (snd nv) of None \<Rightarrow> False | Some d \<Rightarrow> 0 < d) (fst nv @ '' must be a positive duration''))"

definition validateProcessConfig :: "process_env \<Rightarrow> process_config \<Rightarrow> process_kind \<Rightarrow> string option" where
  "validateProcessConfig env c kind = firstError (
     [demand (pc_version c = 1) ''config version must be 1'',
      demand (validServerName (pc_name c)) ''server.name must be a domain name'',
      demand (pc_listen c \<noteq> []) ''server.listen_address is required'',
      demand (sc_dsn (pc_database c) \<noteq> [] \<and> sc_schema (pc_database c) \<noteq> []) ''database.dsn and database.schema are required'',
      demand (\<not> sc_initialize (pc_database c)) ''database.initialize is forbidden for serve; run the init subcommand'',
      demand (pc_hmac_file c \<noteq> []) ''subscription_keys.hmac.secret_file is required'',
      demand (pc_admin_key_file c \<noteq> []) ''admin.initial_key_file is required'',
      firstError (map (validateFile env c) (secretFiles c)),
      demand (kind = GizPay \<longrightarrow> 0 \<le> pc_fee_bps c \<and> pc_fee_bps c \<le> 10000)
        ''payg_charges.platform_fee_bps must be between 0 and 10000'',
      demand (kind = GizPay \<longrightarrow> 0 \<le> pc_max_metadata c \<and> 0 \<le> pc_max_commissions c)
        ''payg_charges metadata and commission limits cannot be negative'',
      validateRecheck env c,
      (if kind = GizPay then validatePay c else None),
      (if kind = GizWay then validateWay env c else None),
      demand (pc_log_level c \<in> {[], ''debug'', ''info'', ''warn'', ''error''}) ''logging.level must be debug, info, warn, or error'',
      demand (pc_log_format c \<in> {[], ''json'', ''text''}) ''logging.format must be json or text'',
      firstError (map (validateDuration env) (configuredDurations c)),
      demand ((pc_certificate_file c = []) = (pc_private_key_file c = []))
        ''tls.certificate_file and tls.private_key_file must be configured together'',
      demand (\<not> (pc_tls_enabled c = Some True \<and> pc_certificate_file c = []))
        ''TLS is enabled but server certificate files are missing''])"

text \<open>
  \<open>LoadProcessConfig\<close>: the decoder starts from these defaults; \<open>decoded\<close> is what it makes of them, \<open>None\<close>
  being an error.
\<close>

definition withDefaults :: "process_config \<Rightarrow> process_config" where
  "withDefaults c = c\<lparr>pc_recheck_interval := ''5m'', pc_cleanup_interval := ''1m'', pc_max_metadata := 8192,
     pc_max_commissions := 32\<rparr>"

definition loadProcessConfig ::
  "process_env \<Rightarrow> (process_config \<Rightarrow> process_config option) \<Rightarrow> process_config \<Rightarrow> string \<Rightarrow> process_kind \<Rightarrow>
     string + process_config" where
  "loadProcessConfig env decoded zero directory kind =
     (case decoded (withDefaults zero) of
        None \<Rightarrow> Inl ''decode config (unknown fields are forbidden)''
      | Some c0 \<Rightarrow>
          let c = c0\<lparr>pc_directory := directory\<rparr> in
          (case validateProcessConfig env c kind of Some e \<Rightarrow> Inl e | None \<Rightarrow> Inr c))"

subsection \<open>What a process is built from\<close>

definition durationOr :: "process_env \<Rightarrow> string \<Rightarrow> duration \<Rightarrow> duration" where
  "durationOr env value fallback =
     (if value = [] then fallback
      else case pe_duration env value of None \<Rightarrow> fallback | Some d \<Rightarrow> if d \<le> 0 then fallback else d)"

definition positiveOr :: "int \<Rightarrow> int \<Rightarrow> int" where
  "positiveOr value fallback = (if 0 < value then value else fallback)"

definition configuredCreditCacheCleanupInterval :: "process_env \<Rightarrow> process_config \<Rightarrow> duration" where
  "configuredCreditCacheCleanupInterval env c = durationOr env (pc_cleanup_interval c) (60 * second)"

definition tlsEnabled :: "process_config \<Rightarrow> bool" where
  "tlsEnabled c = (case pc_tls_enabled c of
      Some b \<Rightarrow> b
    | None \<Rightarrow> pc_certificate_file c \<noteq> [] \<and> pc_private_key_file c \<noteq> [])"

text \<open>An empty path is the directory of the configuration, which cannot be read as a file.\<close>

definition readConfiguredSecret :: "process_env \<Rightarrow> process_config \<Rightarrow> string \<Rightarrow> string option" where
  "readConfiguredSecret env c path =
     (if path = [] then None else map_option trimSpace (pe_file env (configuredPath c path)))"

text \<open>\<open>urlWithSearchPath\<close> sets the query parameter of a URL.\<close>

definition withSearchPath :: "(string \<Rightarrow> string \<Rightarrow> string option) \<Rightarrow> string \<Rightarrow> string \<Rightarrow> string option" where
  "withSearchPath urlWithSearchPath dsn schema =
     (if hasPrefix dsn ''postgres://'' \<or> hasPrefix dsn ''postgresql://'' then urlWithSearchPath dsn schema
      else Some (dsn @ '' search_path='' @ schema))"

text \<open>
  Before anything else the schema is created: the name must fit the pattern, and the statements of
  \<open>ensureDatabaseSchema\<close> must succeed (\<open>created\<close>).
\<close>

definition ensureDatabaseSchema :: "(string \<Rightarrow> bool) \<Rightarrow> string \<Rightarrow> bool" where
  "ensureDatabaseSchema created schema \<longleftrightarrow> schemaPattern schema \<and> created schema"

definition machineSource :: "process_env \<Rightarrow> process_config \<Rightarrow> machine_client \<Rightarrow> string \<Rightarrow> string list \<Rightarrow> machine_source option" where
  "machineSource env c client audience scopes =
     (case pe_file env (configuredPath c (mk_key_file client)) of
        None \<Rightarrow> None
      | Some contents \<Rightarrow> newMachineTokenSource (pe_machine_key env contents)
          \<lparr> mc_token_url = mk_token_url client, mc_subject = mk_subject client, mc_key_id = mk_key_id client,
            mc_audience = audience, mc_assertion_audience = pc_issuer c, mc_scopes = scopes,
            mc_refresh_before = durationOr env (mk_refresh_before client) (30 * second) \<rparr>)"

definition newServiceAccountManager :: "string \<Rightarrow> string \<Rightarrow> (string \<times> string) option" where
  "newServiceAccountManager baseURL projectID =
     (if baseURL = [] \<or> projectID = [] then None else Some (trimSlashes baseURL, projectID))"

text \<open>\<open>RunProcess\<close> for GizPay, up to its handler.\<close>

definition paySettings :: "process_env \<Rightarrow> process_config \<Rightarrow> pay_config option" where
  "paySettings env c =
     (case readConfiguredSecret env c (pc_admin_key_file c) of None \<Rightarrow> None | Some adminKey \<Rightarrow>
     (case readConfiguredSecret env c (pc_hmac_file c) of None \<Rightarrow> None | Some hmacSecret \<Rightarrow>
     (case readConfiguredSecret env c (pc_action_key_file c) of None \<Rightarrow> None | Some actionKey \<Rightarrow>
     (case machineSource env c (pc_management c) [] (mk_scopes (pc_management c) @ [''urn:zitadel:iam:org:project:id:zitadel:aud'']) of
        None \<Rightarrow> None | Some managementToken \<Rightarrow>
     (case newServiceAccountManager (pc_issuer c) (pc_service_audience c) of None \<Rightarrow> None | Some manager \<Rightarrow>
       newPayHandler True True True
         \<lparr> admin_key = adminKey, human_audience = pc_human_audience c, service_audience = pc_service_audience c,
           hmac_secret = hmacSecret, fee_bps = pc_fee_bps c,
           recheck_interval = (case pe_duration env (recheckValue c) of None \<Rightarrow> 0 | Some d \<Rightarrow> d),
           max_order_bytes = pc_max_metadata c, max_commissions = pc_max_commissions c, zitadel_issuer = pc_issuer c,
           action_key = actionKey, action_key_file = configuredPath c (pc_action_key_file c), action_max_age = 0 \<rparr>)))))"

text \<open>The settings of \<open>gizway.New\<close>, and its defaults.\<close>

record way_settings =
  ws_admin_key :: string
  ws_schema :: string
  ws_human_audience :: string
  ws_hmac :: string
  ws_gizpay_url :: string
  ws_batch :: int
  ws_retry_interval :: duration
  ws_abandon_after :: duration
  ws_cleanup_interval :: duration
  ws_max_retries :: int
  ws_bifrost_timeout :: duration
  ws_session_ttl :: duration
  ws_callback_url :: string
  ws_callback_secret :: string

definition newWayHandler :: "bool \<Rightarrow> bool \<Rightarrow> bool \<Rightarrow> way_settings \<Rightarrow> way_settings option" where
  "newWayHandler hasDB hasVerifier hasStores s =
     (if \<not> hasDB \<or> \<not> hasVerifier \<or> ws_human_audience s = [] \<or> \<not> hasStores \<or> \<not> schemaPattern (ws_schema s) then None
      else Some (s\<lparr>
        ws_batch := (if ws_batch s \<le> 0 then 20 else ws_batch s),
        ws_retry_interval := (if ws_retry_interval s \<le> 0 then 250000000 else ws_retry_interval s),
        ws_abandon_after := (if ws_abandon_after s \<le> 0 then 24 * 3600 * second else ws_abandon_after s),
        ws_cleanup_interval := (if ws_cleanup_interval s \<le> 0 then 60 * second else ws_cleanup_interval s),
        ws_session_ttl := (if ws_session_ttl s \<le> 0 then 60 * second else ws_session_ttl s)\<rparr>))"

text \<open>The Bifrost engine of the handler.\<close>

definition wayEngine :: "adapter_env \<Rightarrow> way_settings \<Rightarrow> adapter" where
  "wayEngine env s = configureProviderCallbacks env (ws_callback_url s) (ws_callback_secret s)
     (newLazyWithExecution (ws_max_retries s) (ws_bifrost_timeout s))"

text \<open>The catalogue token manager, when a client is configured.\<close>

definition catalogConfig :: "process_env \<Rightarrow> process_config \<Rightarrow> catalog_config" where
  "catalogConfig env c =
     \<lparr> cc_token_url = trimSlashes (pc_identity_issuer c) @ ''/oauth/v2/token'', cc_client_id = pc_catalog_id c,
       cc_client_secret = pc_catalog_secret c, cc_scope = pc_catalog_scope c,
       cc_ttl = (case pe_duration env (pc_catalog_ttl c) of None \<Rightarrow> 0 | Some d \<Rightarrow> d),
       cc_refresh_before = (case pe_duration env (pc_catalog_refresh c) of None \<Rightarrow> 0 | Some d \<Rightarrow> d), cc_validates = True \<rparr>"

definition regionRole :: "process_config \<Rightarrow> string" where
  "regionRole c = (if hasPrefix (toLower (pc_hostname c)) ''cn.'' then ''public_catalog_cn'' else ''public_catalog_global'')"

text \<open>\<open>ValidateJWT\<close>: the token must authenticate for people and have both roles.\<close>

definition validateCatalogJWT ::
  "jwt_library \<Rightarrow> process_config \<Rightarrow> time \<Rightarrow> jwks_answer \<Rightarrow> time \<Rightarrow> string \<Rightarrow> verifier \<Rightarrow> bool \<times> verifier" where
  "validateCatalogJWT lib c t answer fetched_at raw v =
     (case authenticate lib t answer fetched_at (''Bearer '' @ raw) (pc_human_audience c) v of
        (Inl e, v') \<Rightarrow> (False, v')
      | (Inr p, v') \<Rightarrow> (''public_catalog'' \<in> tp_roles p \<and> regionRole c \<in> tp_roles p, v'))"

text \<open>The token for GizPay: obtained, and then looked at for its roles.\<close>

definition serviceToken ::
  "(string \<Rightarrow> claims option) \<Rightarrow> process_config \<Rightarrow> (assertion_claims \<Rightarrow> string option) \<Rightarrow>
     ((string \<times> string) list \<Rightarrow> token_answer) \<Rightarrow> time \<Rightarrow> machine_source \<Rightarrow> string option \<times> machine_source" where
  "serviceToken unverified c sign endpoint t s =
     (case machineToken sign endpoint t s of
        (None, s') \<Rightarrow> (None, s')
      | (Some token, s') \<Rightarrow>
          (if requireTokenRoles unverified token (mk_audience (pc_service_account c)) (mk_roles (pc_service_account c))
           then Some token else None, s'))"

definition waySettings :: "process_env \<Rightarrow> process_config \<Rightarrow> way_settings option" where
  "waySettings env c =
     (case readConfiguredSecret env c (pc_admin_key_file c) of None \<Rightarrow> None | Some adminKey \<Rightarrow>
     (case readConfiguredSecret env c (pc_hmac_file c) of None \<Rightarrow> None | Some hmacSecret \<Rightarrow>
     (case (if pc_callback_file c = [] then Some [] else readConfiguredSecret env c (pc_callback_file c)) of
        None \<Rightarrow> None | Some callbackSecret \<Rightarrow>
     (case machineSource env c (pc_service_account c) (mk_audience (pc_service_account c)) (mk_scopes (pc_service_account c)) of
        None \<Rightarrow> None | Some source \<Rightarrow>
     (case (if pc_catalog_id c = [] then Some (catalogConfig env c) else newManager (pe_absolute env) (catalogConfig env c)) of
        None \<Rightarrow> None | Some manager \<Rightarrow>
       newWayHandler True True True
         \<lparr> ws_admin_key = adminKey, ws_schema = sc_schema (pc_database c), ws_human_audience = pc_human_audience c,
           ws_hmac = hmacSecret, ws_gizpay_url = pc_service_dsn c, ws_batch = positiveOr (pc_outbox_batch c) 20,
           ws_retry_interval = durationOr env (pc_retry_interval c) 250000000,
           ws_abandon_after = durationOr env (pc_abandon_after c) (24 * 3600 * second),
           ws_cleanup_interval = configuredCreditCacheCleanupInterval env c, ws_max_retries = pc_max_retries c,
           ws_bifrost_timeout = durationOr env (pc_execution_timeout c) (10 * second), ws_session_ttl = 0,
           ws_callback_url = pc_callback_url c, ws_callback_secret = callbackSecret \<rparr>)))))"

text \<open>\<open>MarshalPublicRuntimeConfig\<close>.\<close>

definition publicRuntimeJSON :: "process_config \<Rightarrow> json" where
  "publicRuntimeJSON c = JObj
     [(''site'', JObj [(''hostname'', JStr (pc_hostname c))]),
      (''identity'', JObj [(''issuer'', JStr (pc_identity_issuer c)), (''audience'', JStr (pc_human_audience c))]),
      (''services'', JObj [(''public_catalog_token_url'', JStr (pc_catalog_token_url c)),
         (''gizpay_powersync_url'', JStr (pc_gizpay_powersync c)), (''gizpay_api_url'', JStr (pc_gizpay_api c)),
         (''gizway_powersync_url'', JStr (pc_gizway_powersync c)), (''gizway_api_url'', JStr (pc_gizway_api c))])]"

text \<open>The clock of processes whose name ends in \<open>.test\<close>.\<close>

definition storyClock :: "process_config \<Rightarrow> bool" where
  "storyClock c = hasSuffix (pc_name c) ''.test''"

definition advanceClock :: "duration \<Rightarrow> time \<Rightarrow> time" where
  "advanceClock d t = t + d"

subsection \<open>A validated configuration is enough\<close>

lemma validated:
  assumes "validateProcessConfig env c kind = None"
  shows "0 < length (pc_hmac_file c)" "0 < length (pc_admin_key_file c)" "validateRecheck env c = None"
    "kind = GizPay \<Longrightarrow> 0 \<le> pc_fee_bps c \<and> pc_fee_bps c \<le> 10000 \<and> validatePay c = None"
    "kind = GizWay \<Longrightarrow> validateWay env c = None"
    "\<forall>path \<in> set (secretFiles c). validateFile env c path = None"
    "\<forall>nv \<in> set (configuredDurations c). validateDuration env nv = None"
  using assms unfolding validateProcessConfig_def by (auto split: if_splits)

lemma secret_read:
  assumes "validateProcessConfig env c kind = None" and "path \<in> set (secretFiles c)" and "path \<noteq> []"
  obtains secret where "readConfiguredSecret env c path = Some secret" "secret \<noteq> []"
  using validated(6) [OF assms(1)] assms(2,3)
  by (fastforce simp: validateFile_def readConfiguredSecret_def blank_def split: option.splits)

lemma durationOr_positive: "0 < fallback \<Longrightarrow> 0 < durationOr env value fallback"
  by (simp add: durationOr_def split: option.split)

text \<open>C35: A GizPay whose configuration was validated starts with settings that its handlers rely on, once
  the webhook's signing key is named and the management key can be used: the fee is a share, the
  recheck interval is at least a second and fits an \<open>int64\<close> (so that GizWay accepts it), no secret is
  empty, both audiences are set, and the limits are positive.\<close>

theorem validated_pay_settings:
  assumes "validateProcessConfig env c GizPay = None" and "pc_action_key_file c \<noteq> []"
    and "machineSource env c (pc_management c) [] (mk_scopes (pc_management c) @
      [''urn:zitadel:iam:org:project:id:zitadel:aud'']) = Some source"
    and "\<forall>s d. pe_duration env s = Some d \<longrightarrow> int64_range d"
  shows "\<exists>cfg. paySettings env c = Some cfg \<and> 0 \<le> fee_bps cfg \<and> fee_bps cfg \<le> 10000 \<and>
    second \<le> recheck_interval cfg \<and> recheck_interval cfg \<le> max_int64 \<and>
    hmac_secret cfg \<noteq> [] \<and> admin_key cfg \<noteq> [] \<and> action_key cfg \<noteq> [] \<and>
    human_audience cfg \<noteq> [] \<and> service_audience cfg \<noteq> [] \<and>
    0 < max_order_bytes cfg \<and> 0 < max_commissions cfg \<and> 0 < action_max_age cfg"
proof -
  note v = validated [OF assms(1)]
  obtain admin where a: "readConfiguredSecret env c (pc_admin_key_file c) = Some admin" "admin \<noteq> []"
    by (rule secret_read [OF assms(1)]) (use v(2) in \<open>auto simp: secretFiles_def\<close>)
  obtain hm where h: "readConfiguredSecret env c (pc_hmac_file c) = Some hm" "hm \<noteq> []"
    by (rule secret_read [OF assms(1)]) (use v(1) in \<open>auto simp: secretFiles_def\<close>)
  obtain action where k: "readConfiguredSecret env c (pc_action_key_file c) = Some action" "action \<noteq> []"
    by (rule secret_read [OF assms(1)]) (use assms(2) in \<open>auto simp: secretFiles_def\<close>)
  obtain d where d: "pe_duration env (recheckValue c) = Some d" "second \<le> d"
    using v(3) by (auto simp: validateRecheck_def split: option.splits)
  with assms(4) have "d \<le> max_int64" by (auto simp: int64_range_def)
  moreover have "pc_issuer c \<noteq> []" "pc_human_audience c \<noteq> []" "pc_service_audience c \<noteq> []" "0 \<le> pc_fee_bps c" "pc_fee_bps c \<le> 10000"
    using v(4) by (auto simp: validatePay_def)
  ultimately show ?thesis
    using a h k d assms(3) by (auto simp: paySettings_def newServiceAccountManager_def newPayHandler_def second_def)
qed

text \<open>A GizWay whose configuration was validated starts, once its schema name is an identifier, its
  machine key can be used and the issuer is an absolute URL when there is a catalogue client: all
  intervals, the timeout and the batch size are positive, the URL of GizPay and the audience are set,
  the callback URL and the callback secret come together, and the catalogue token manager accepts its
  configuration.\<close>

lemma validated_way_settings:
  assumes "validateProcessConfig env c GizWay = None" and "schemaPattern (sc_schema (pc_database c))"
    and "machineSource env c (pc_service_account c) (mk_audience (pc_service_account c))
      (mk_scopes (pc_service_account c)) = Some source"
    and "pc_catalog_id c \<noteq> [] \<Longrightarrow> pe_absolute env (cc_token_url (catalogConfig env c))"
  shows "\<exists>s. waySettings env c = Some s \<and> 0 < ws_batch s \<and> 0 < ws_retry_interval s \<and> 0 < ws_abandon_after s \<and>
    0 < ws_cleanup_interval s \<and> 0 < ws_bifrost_timeout s \<and> 0 < ws_session_ttl s \<and> 0 \<le> ws_max_retries s \<and>
    ws_gizpay_url s \<noteq> [] \<and> ws_human_audience s \<noteq> [] \<and> ws_hmac s \<noteq> [] \<and>
    (ws_callback_url s = [] \<longleftrightarrow> ws_callback_secret s = []) \<and>
    (pc_catalog_id c \<noteq> [] \<longrightarrow> newManager (pe_absolute env) (catalogConfig env c) = Some (catalogConfig env c))"
proof -
  note v = validated [OF assms(1)]
  have w: "validateWay env c = None" using v(5) by simp
  obtain admin where a: "readConfiguredSecret env c (pc_admin_key_file c) = Some admin" "admin \<noteq> []"
    by (rule secret_read [OF assms(1)]) (use v(2) in \<open>auto simp: secretFiles_def\<close>)
  obtain hm where h: "readConfiguredSecret env c (pc_hmac_file c) = Some hm" "hm \<noteq> []"
    by (rule secret_read [OF assms(1)]) (use v(1) in \<open>auto simp: secretFiles_def\<close>)
  have callback: "\<exists>cs. (if pc_callback_file c = [] then Some [] else readConfiguredSecret env c (pc_callback_file c)) = Some cs \<and>
      (pc_callback_url c = [] \<longleftrightarrow> cs = [])"
  proof (cases "pc_callback_file c = []")
    case False
    have "pc_callback_file c \<in> set (secretFiles c)" by (simp add: secretFiles_def)
    from secret_read [OF assms(1) this False] obtain cs where
      "readConfiguredSecret env c (pc_callback_file c) = Some cs" "cs \<noteq> []" by blast
    with False w show ?thesis by (auto simp: validateWay_def Let_def)
  qed (use w in \<open>auto simp: validateWay_def Let_def\<close>)
  have manager: "newManager (pe_absolute env) (catalogConfig env c) = Some (catalogConfig env c)" if "pc_catalog_id c \<noteq> []"
    using w assms(4) that
    by (auto simp: validateWay_def validateM04SiteConfig_def Let_def newManager_def catalogConfig_def split: option.splits)
  have "pc_service_dsn c \<noteq> []" "pc_human_audience c \<noteq> []" "0 \<le> pc_max_retries c"
    using w by (auto simp: validateWay_def Let_def)
  moreover obtain cs where cs: "(if pc_callback_file c = [] then Some [] else readConfiguredSecret env c (pc_callback_file c)) = Some cs"
    "pc_callback_url c = [] \<longleftrightarrow> cs = []" using callback by blast
  moreover obtain m where
    "(if pc_catalog_id c = [] then Some (catalogConfig env c) else newManager (pe_absolute env) (catalogConfig env c)) = Some m"
    using manager by (cases "pc_catalog_id c = []") auto
  moreover have "\<not> durationOr env s fallback \<le> 0" if "0 < fallback" for s fallback
    using durationOr_positive [OF that] by (simp add: not_le)
  ultimately show ?thesis
    using manager
    by (simp add: waySettings_def a h assms(2,3) newWayHandler_def positiveOr_def configuredCreditCacheCleanupInterval_def
        second_def durationOr_positive)
qed

text \<open>C36: A token that GizWay presents is authorised at GizPay. GizWay uses a machine token only when its
  unverified claims grant every configured role in the project of its audience; when GizPay, whose
  service audience is this project, authenticates the token, the principal has these roles.\<close>

theorem service_token_authorised:
  assumes "serviceToken unverified c sign endpoint t s = (Some raw, s')"
    and "authenticate lib t1 answer t2 (''Bearer '' @ raw) (mk_audience (pc_service_account c)) v = (Inr p, v')"
    and "\<forall>t iss aud key cs. jl_verify lib t raw iss aud key = Inr cs \<longrightarrow> unverified raw = Some (jc_fields cs)"
    and "role \<in> set (mk_roles (pc_service_account c))"
  shows "role \<in> tp_roles p"
proof (rule authenticate_Inr [OF assms(2)])
  fix raw' kid key cs assume a: "''Bearer '' @ raw = ''Bearer '' @ raw'"
    "jl_verify lib t2 raw' (vf_issuer v) (mk_audience (pc_service_account c)) key = Inr cs"
    "p = principalOf (mk_audience (pc_service_account c)) cs"
  then have "unverified raw = Some (jc_fields cs)" using assms(3) by simp
  moreover have "requireTokenRoles unverified raw (mk_audience (pc_service_account c)) (mk_roles (pc_service_account c))"
    using assms(1) by (auto simp: serviceToken_def split: prod.splits option.splits if_splits)
  ultimately show ?thesis using assms(4) a(3) by (auto simp: requireTokenRoles_def list_all_iff principalOf_def)
qed

subsection \<open>The example\<close>

definition demo_process_env :: process_env where
  "demo_process_env = \<lparr> pe_duration = (\<lambda>s. if s = ''5m'' then Some (300 * second) else if s = ''1h'' then Some (3600 * second)
       else if s = ''1m'' then Some (60 * second) else None),
     pe_absolute = (\<lambda>s. hasPrefix s ''https://''),
     pe_file = (\<lambda>path. if hasPrefix path ''/etc/'' then Some ''x'' else None), pe_machine_key = (\<lambda>_. Some (''kid'', ''sub'')) \<rparr>"

definition demo_store :: "string \<Rightarrow> store_config" where
  "demo_store schema = \<lparr> sc_type = ''postgresql'', sc_dsn = ''dsn'', sc_schema = schema, sc_initialize = False,
     sc_retention_days = 0, sc_batch_size = 0, sc_batch_interval = [], sc_queue_capacity = 0 \<rparr>"

definition demo_client :: machine_client where
  "demo_client = \<lparr> mk_token_url = ''https://id/token'', mk_subject = [], mk_key_id = [], mk_key_file = ''key'', mk_audience = ''42'',
     mk_scopes = [''openid''], mk_roles = [''charge'', ''credit_check''], mk_refresh_before = [] \<rparr>"

definition demo_process :: process_config where
  "demo_process = \<lparr> pc_version = 1, pc_name = ''pay.example'', pc_listen = '':8080'', pc_shutdown_timeout = [],
     pc_admin_key_file = ''admin'', pc_hostname = ''cn.example'', pc_identity_issuer = ''https://id'', pc_catalog_id = ''catalog'',
     pc_catalog_secret = ''s'', pc_catalog_type = ''JWT'', pc_catalog_scope = ''openid'', pc_catalog_ttl = ''1h'',
     pc_catalog_refresh = ''1m'', pc_catalog_token_url = ''u'', pc_gizpay_powersync = ''u'', pc_gizpay_api = ''u'',
     pc_gizway_powersync = ''u'', pc_gizway_api = ''u'', pc_database = demo_store ''gizpay'', pc_issuer = ''https://id'',
     pc_jwks_url = ''https://id/keys'', pc_human_audience = ''app'', pc_service_audience = ''42'', pc_management = demo_client,
     pc_jwks_refresh = [], pc_action_key_file = ''action'', pc_service_account = demo_client, pc_hmac_file = ''hmac'',
     pc_recheck_interval = ''5m'', pc_cleanup_interval = ''1m'', pc_fee_bps = 250, pc_max_metadata = 8192,
     pc_max_commissions = 32, pc_tls_enabled = None, pc_certificate_file = [], pc_private_key_file = [],
     pc_service_dsn = ''http://pay'', pc_request_timeout = [], pc_outbox_batch = 0, pc_retry_interval = [], pc_abandon_after = [],
     pc_config_store = demo_store ''bifrost'', pc_log_store = demo_store ''logs'', pc_max_retries = 1, pc_execution_timeout = [],
     pc_callback_url = [], pc_callback_file = [], pc_log_level = ''info'', pc_log_format = [], pc_directory = ''/etc'' \<rparr>"

lemma demo_values:
  "validServerName ''pay.example''" "nonBlank ''x''" "nonBlank ''charge''" "nonBlank ''credit_check''" "trimSpace ''x'' = ''x''"
  by (simp_all add: validServerName_def serverLabel_def alphaNum_def hasPrefix_def hasSuffix_def blank_eval)

lemma demo_file: "pe_file demo_process_env (''/etc/'' @ f) = Some ''x''"
  by (simp add: demo_process_env_def hasPrefix_def)

lemma demo_path: "f \<noteq> [] \<Longrightarrow> hd f \<noteq> CHR ''/'' \<Longrightarrow> configuredPath demo_process f = ''/etc/'' @ f"
  by (simp add: configuredPath_def demo_process_def)

lemma demo_files: "f \<in> {[], ''admin'', ''hmac'', ''key'', ''action''} \<Longrightarrow> validateFile demo_process_env demo_process f = None"
  unfolding validateFile_def using demo_file [of f] by (auto simp: demo_path demo_values)

lemma demo_durations: "pe_duration demo_process_env ''5m'' = Some (300 * second)"
  "pe_duration demo_process_env ''1h'' = Some (3600 * second)" "pe_duration demo_process_env ''1m'' = Some (60 * second)"
  by (simp_all add: demo_process_env_def)

lemma demo_recheck: "validateRecheck demo_process_env demo_process = None"
proof -
  have "recheckValue demo_process = ''5m''" by (simp add: recheckValue_def demo_process_def)
  moreover have "(300 * second) smod second = 0" by (simp add: second_def smod_nonneg)
  ultimately show ?thesis by (simp add: validateRecheck_def demo_durations) (simp add: second_def)
qed

lemma demo_validated: "validateProcessConfig demo_process_env demo_process kind = None"
proof -
  have files: "\<forall>f \<in> set (secretFiles demo_process). validateFile demo_process_env demo_process f = None"
    using demo_files by (auto simp: secretFiles_def demo_process_def demo_client_def)
  have durations: "\<forall>nv \<in> set (configuredDurations demo_process). validateDuration demo_process_env nv = None"
    by (auto simp: configuredDurations_def validateDuration_def demo_process_def demo_client_def demo_store_def demo_durations
        second_def)
  have way: "validateWay demo_process_env demo_process = None"
    by (simp add: validateWay_def validateM04SiteConfig_def demo_process_def demo_client_def demo_store_def demo_durations
        demo_values maximumTTL_def second_def)
  have pay: "validatePay demo_process = None" by (simp add: validatePay_def demo_process_def demo_client_def)
  show ?thesis
    unfolding validateProcessConfig_def firstError_None
    using files durations way pay demo_recheck
    by (simp add: demo_values) (simp add: demo_process_def demo_values demo_store_def)
qed

lemma demo_source: "\<exists>source. machineSource demo_process_env demo_process demo_client audience scopes = Some source"
proof -
  have "pe_file demo_process_env (configuredPath demo_process ''key'') = Some ''x''"
    using demo_file [of "''key''"] by (simp add: demo_path)
  then show ?thesis
    by (simp add: machineSource_def newMachineTokenSource_def demo_client_def) (simp add: demo_process_env_def Let_def)
qed

theorem validated_pay_settings_witness:
  "\<exists>cfg. paySettings demo_process_env demo_process = Some cfg \<and> fee_bps cfg \<le> 10000 \<and> second \<le> recheck_interval cfg"
proof -
  obtain source where source: "machineSource demo_process_env demo_process (pc_management demo_process) []
      (mk_scopes (pc_management demo_process) @ [''urn:zitadel:iam:org:project:id:zitadel:aud'']) = Some source"
    using demo_source by (auto simp: demo_process_def)
  have fits: "\<forall>s d. pe_duration demo_process_env s = Some d \<longrightarrow> int64_range d"
    by (auto simp: demo_process_env_def second_def int64_defs split: if_splits)
  have "pc_action_key_file demo_process \<noteq> []" by (simp add: demo_process_def)
  from validated_pay_settings [OF demo_validated this source fits] show ?thesis by blast
qed

lemma validated_way_settings_witness:
  "\<exists>s. waySettings demo_process_env demo_process = Some s \<and> 0 < ws_abandon_after s \<and> ws_callback_secret s = []"
proof -
  obtain source where source: "machineSource demo_process_env demo_process (pc_service_account demo_process)
      (mk_audience (pc_service_account demo_process)) (mk_scopes (pc_service_account demo_process)) = Some source"
    using demo_source by (auto simp: demo_process_def)
  have schema: "schemaPattern (sc_schema (pc_database demo_process))"
    by (simp add: schemaPattern_def demo_process_def demo_store_def)
  have url: "pe_absolute demo_process_env (cc_token_url (catalogConfig demo_process_env demo_process))"
    by (simp add: catalogConfig_def demo_process_def trimSlashes_def) (simp add: demo_process_env_def hasPrefix_def)
  from validated_way_settings [OF demo_validated schema source url] obtain s where
    s: "waySettings demo_process_env demo_process = Some s" "0 < ws_abandon_after s" "ws_callback_url s = [] \<longleftrightarrow> ws_callback_secret s = []"
    by blast
  moreover have "ws_callback_url s = []"
    using s(1) by (auto simp: waySettings_def newWayHandler_def demo_process_def split: option.splits if_splits)
  ultimately show ?thesis by blast
qed

theorem service_token_authorised_witness:
  "\<exists>p v'. authenticate demo_library 10 (Answered 200 (Some [demo_jwk])) 11 ''Bearer token'' ''42''
      (newVerifier ''https://id/'' 0) = (Inr p, v') \<and> ''charge'' \<in> tp_roles p"
proof -
  let ?c = "demo_process\<lparr>pc_service_account := demo_client\<lparr>mk_roles := [''charge'']\<rparr>\<rparr>"
  let ?s = "\<lparr> ms_config = \<lparr> mc_token_url = ''u'', mc_subject = ''s'', mc_key_id = ''k'', mc_audience = ''42'',
     mc_assertion_audience = [], mc_scopes = [], mc_refresh_before = 30 * second \<rparr>, ms_token = ''token'', ms_expires = 100 * second \<rparr>"
  have roles: "claimRoles (jc_fields demo_claims) ''42'' = {''charge''}"
    by (simp add: demo_claims_def claimRoles_def rolesIn_def claimProject_def rolesPrefix_def rolesSuffix_def
        hasPrefix_def hasSuffix_def trimPrefix_def trimSuffix_def Let_def)
  have service: "serviceToken (\<lambda>_. Some (jc_fields demo_claims)) ?c (\<lambda>_. None) (\<lambda>_. NoToken) 0 ?s = (Some ''token'', ?s)"
    by (simp add: serviceToken_def machineToken_def requireTokenRoles_def demo_client_def roles Let_def) (simp add: second_def)
  have demo_kid: "jk_kid demo_jwk = ''k1''" by (simp add: demo_jwk_def)
  have subject: "jc_subject demo_claims = ''svc''" by (simp add: demo_claims_def)
  have aud: "mk_audience (pc_service_account ?c) = ''42''" "''charge'' \<in> set (mk_roles (pc_service_account ?c))"
    by (simp_all add: demo_client_def)
  obtain p v' where run: "authenticate demo_library 10 (Answered 200 (Some [demo_jwk])) 11 (''Bearer '' @ ''token'')
      (mk_audience (pc_service_account ?c)) (newVerifier ''https://id/'' 0) = (Inr p, v')"
    unfolding aud(1)
    by (simp add: authenticate_def cutPrefix_def hasPrefix_def demo_library_def newVerifier_def trimSuffix_def hasSuffix_def
        signingKey_def refresh_def demo_rsa demo_kid subject)
  have law: "\<forall>t iss aud key cs. jl_verify demo_library t ''token'' iss aud key = Inr cs \<longrightarrow>
      Some (jc_fields demo_claims) = Some (jc_fields cs)"
    by (auto simp: demo_library_def split: if_splits)
  have "''charge'' \<in> tp_roles p" by (rule service_token_authorised [OF service run law aud(2)])
  with run show ?thesis unfolding aud(1) by (intro exI [of _ p] exI [of _ v']) simp
qed

text \<open>
  Validation, and hence \<open>--check-config\<close>, does not need the webhook's signing key, without which the process
  does not start.
\<close>

lemma unsigned_configuration_accepted:
  "validateProcessConfig env c kind = None \<Longrightarrow> validateProcessConfig env (c\<lparr>pc_action_key_file := []\<rparr>) kind = None \<and>
     paySettings env (c\<lparr>pc_action_key_file := []\<rparr>) = None"
proof
  assume v: "validateProcessConfig env c kind = None"
  let ?c = "c\<lparr>pc_action_key_file := []\<rparr>"
  have path: "configuredPath ?c f = configuredPath c f" for f by (simp add: configuredPath_def)
  have "set (secretFiles ?c) \<subseteq> insert [] (set (secretFiles c))" by (auto simp: secretFiles_def)
  moreover have "validateFile env ?c f = validateFile env c f" for f unfolding validateFile_def path ..
  moreover have "validateFile env c [] = None" by (simp add: validateFile_def)
  ultimately have "\<forall>f \<in> set (secretFiles ?c). validateFile env ?c f = None"
    using validated(6) [OF v] by (metis insertE subsetD)
  moreover have "validateWay env ?c = validateWay env c" "validatePay ?c = validatePay c" "validateRecheck env ?c = validateRecheck env c"
    "configuredDurations ?c = configuredDurations c"
    by (simp_all add: validateWay_def validateM04SiteConfig_def validatePay_def validateRecheck_def recheckValue_def
        configuredDurations_def Let_def)
  ultimately show "validateProcessConfig env ?c kind = None"
    using v by (cases kind) (auto simp: validateProcessConfig_def)
  show "paySettings env ?c = None"
    by (simp add: paySettings_def readConfiguredSecret_def split: option.split)
qed

end
