(* ===== verification/Storage.thy ===== *)
theory Storage
  imports PayIdentity "HOL-Library.Multiset"
begin

section \<open>Migrations\<close>

text \<open>
  \<open>internal/storage/storage.go\<close>: a service migrates its own database. The state is the migration history
  and the contents of the database; a database that has never been migrated has no history table. What
  a migration script or a seed does is a parameter \<open>script\<close>: its text and the contents before give the
  contents after, or an error. \<open>deferred\<close> are the deferred constraints that a commit checks.
\<close>

subsection \<open>The history\<close>

record migration_row =
  mg_service :: string
  mg_version :: nat
  mg_applied_at :: time

record 'd service_db =
  migration_history :: "migration_row list option"
  contents :: 'd

definition migrationRows :: "('d, 'm) service_db_scheme \<Rightarrow> migration_row list" where
  "migrationRows d = (case migration_history d of None \<Rightarrow> [] | Some t \<Rightarrow> t)"

definition createHistory :: "(('d, 'm) service_db_scheme, unit) query" where
  "createHistory d = Inr ((), d\<lparr>migration_history := Some (migrationRows d)\<rparr>)"

definition otherServices :: "string \<Rightarrow> ('d, 'm) service_db_scheme \<Rightarrow> string list" where
  "otherServices service d = remdups (map mg_service (filter (\<lambda>r. mg_service r \<noteq> service) (migrationRows d)))"

definition appliedVersions :: "string \<Rightarrow> ('d, 'm) service_db_scheme \<Rightarrow> nat list" where
  "appliedVersions service d = sort (map mg_version (filter (\<lambda>r. mg_service r = service) (migrationRows d)))"

definition isApplied :: "string \<Rightarrow> nat \<Rightarrow> ('d, 'm) service_db_scheme \<Rightarrow> bool" where
  "isApplied service version d = list_ex (\<lambda>r. mg_service r = service \<and> mg_version r = version) (migrationRows d)"

definition insertMigration :: "migration_row \<Rightarrow> (('d, 'm) service_db_scheme, unit) query" where
  "insertMigration r d =
     (case insertRow (0 < mg_version r) True
             [(''schema_migrations_pkey'', \<lambda>x y. mg_service x = mg_service y \<and> mg_version x = mg_version y)]
             r (migrationRows d) of
        Inl e \<Rightarrow> Inl e | Inr t \<Rightarrow> Inr ((), d\<lparr>migration_history := Some t\<rparr>))"

text \<open>The loop over the applied versions: they must be 1, 2, ... and at most the number of migrations.\<close>

fun checkHistory :: "nat \<Rightarrow> nat \<Rightarrow> nat list \<Rightarrow> bool" where
  "checkHistory limit expected [] = True"
| "checkHistory limit expected (version # rest) =
     (if version \<noteq> expected \<or> limit < version then False else checkHistory limit (Suc expected) rest)"

subsection \<open>Applying the migrations\<close>

definition onContents :: "('d, 'a) query \<Rightarrow> (('d, 'm) service_db_scheme, 'a) query" where
  "onContents q d = (case q (contents d) of Inl e \<Rightarrow> Inl e | Inr (a, x) \<Rightarrow> Inr (a, d\<lparr>contents := x\<rparr>))"

definition runScript :: "(string \<Rightarrow> 'd \<Rightarrow> 'd option) \<Rightarrow> string \<Rightarrow> (('d, 'm) service_db_scheme, unit) query" where
  "runScript script text = onContents (\<lambda>d. case script text d of None \<Rightarrow> Inl Raised | Some d' \<Rightarrow> Inr ((), d'))"

definition refuse :: "('s, sqlerr + 'a) act" where
  "refuse = ret (Inl Raised)"

definition applyMigration ::
  "(string \<Rightarrow> 'd \<Rightarrow> 'd option) \<Rightarrow> string \<Rightarrow> nat \<times> string \<Rightarrow> (('d, 'm) service_db_scheme world, sqlerr + unit) act" where
  "applyMigration script service vm =
     thenOk (tx_exec (reading (isApplied service (fst vm)))) (\<lambda>applied.
       if applied then ret (Inr ())
       else thenOk (tx_exec (runScript script (snd vm))) (\<lambda>_.
            bnd (gets now) (\<lambda>at.
            tx_exec (insertMigration \<lparr> mg_service = service, mg_version = fst vm, mg_applied_at = at \<rparr>))))"

definition applyServiceMigrationsWithSystem ::
  "(string \<Rightarrow> 'd \<Rightarrow> 'd option) \<Rightarrow> (('d, 'm) service_db_scheme \<Rightarrow> ('d, 'm) service_db_scheme \<Rightarrow> bool) \<Rightarrow> string \<Rightarrow> string list \<Rightarrow>
     string \<Rightarrow> (('d, 'm) service_db_scheme world, sqlerr + unit) act option \<Rightarrow>
     (('d, 'm) service_db_scheme world, sqlerr + unit) act" where
  "applyServiceMigrationsWithSystem script deferred service migrations seedSQL initializeSystem =
     inTransaction (
       thenOk (tx_exec (reading (\<lambda>_. ()))) (\<lambda>_.
       thenOk (tx_exec createHistory) (\<lambda>_.
       thenOk (tx_exec (reading (otherServices service))) (\<lambda>owners.
       if owners \<noteq> [] then refuse
       else thenOk (tx_exec (reading (appliedVersions service))) (\<lambda>versions.
       if \<not> checkHistory (length migrations) 1 versions then refuse
       else thenOk (iterOk (applyMigration script service) (enumerate 1 migrations)) (\<lambda>_.
            thenOk (if seedSQL \<noteq> [] then tx_exec (runScript script seedSQL) else ret (Inr ())) (\<lambda>_.
            thenOk (case initializeSystem of None \<Rightarrow> ret (Inr ()) | Some initialize \<Rightarrow> initialize) (\<lambda>_.
            commit_tx deferred))))))))"

definition applyServiceMigrations ::
  "(string \<Rightarrow> 'd \<Rightarrow> 'd option) \<Rightarrow> (('d, 'm) service_db_scheme \<Rightarrow> ('d, 'm) service_db_scheme \<Rightarrow> bool) \<Rightarrow> string \<Rightarrow> string list \<Rightarrow>
     string \<Rightarrow> (('d, 'm) service_db_scheme world, sqlerr + unit) act" where
  "applyServiceMigrations script deferred service migrations seedSQL =
     applyServiceMigrationsWithSystem script deferred service migrations seedSQL None"

text \<open>\<open>sqlx.Open\<close> and \<open>Ping\<close>: a statement that can fail and changes nothing.\<close>

definition pingDatabase :: "('db world, sqlerr + unit) act" where
  "pingDatabase = db_exec (reading (\<lambda>_. ()))"

definition openServicePostgreSQL ::
  "(string \<Rightarrow> 'd \<Rightarrow> 'd option) \<Rightarrow> (('d, 'm) service_db_scheme \<Rightarrow> ('d, 'm) service_db_scheme \<Rightarrow> bool) \<Rightarrow> bool \<Rightarrow> string \<Rightarrow>
     string list \<Rightarrow> string \<Rightarrow> (('d, 'm) service_db_scheme world, sqlerr + unit) act option \<Rightarrow>
     (('d, 'm) service_db_scheme world, sqlerr + unit) act" where
  "openServicePostgreSQL script deferred initialize service migrations seedSQL initializeSystem =
     thenOk pingDatabase (\<lambda>_.
       if initialize then applyServiceMigrationsWithSystem script deferred service migrations seedSQL initializeSystem
       else ret (Inr ()))"

definition openExistingPostgreSQL :: "('db world, sqlerr + unit) act" where
  "openExistingPostgreSQL = pingDatabase"

definition migrateServicePostgreSQL ::
  "(string \<Rightarrow> 'd \<Rightarrow> 'd option) \<Rightarrow> (('d, 'm) service_db_scheme \<Rightarrow> ('d, 'm) service_db_scheme \<Rightarrow> bool) \<Rightarrow> string \<Rightarrow>
     string list \<Rightarrow> (('d, 'm) service_db_scheme world, sqlerr + unit) act option \<Rightarrow>
     (('d, 'm) service_db_scheme world, sqlerr + unit) act" where
  "migrateServicePostgreSQL script deferred service migrations initializeSystem =
     thenOk pingDatabase (\<lambda>_.
       applyServiceMigrationsWithSystem script deferred service migrations [] initializeSystem)"

subsection \<open>The system rows of GizPay\<close>

text \<open>\<open>INSERT ... ON CONFLICT (id) DO NOTHING\<close>: only a conflict of the primary key is ignored.\<close>

definition onConflictId :: "string \<Rightarrow> ('db, unit) query \<Rightarrow> ('db, unit) query" where
  "onConflictId pkey q d =
     (case q d of
        Inl (UniqueViolation c) \<Rightarrow> if c = pkey then Inr ((), d) else Inl (UniqueViolation c)
      | r \<Rightarrow> r)"

definition platformUser :: "time \<Rightarrow> user" where
  "platformUser at = \<lparr> u_id = platformUserID, u_issuer = ''urn:gizpay:system'', u_subject = ''platform'', u_email = [],
     u_display_name = ''GizPay Platform'', u_status = ''active'', u_created_at = at \<rparr>"

definition platformAccount :: "time \<Rightarrow> account" where
  "platformAccount at = \<lparr> a_id = platformAccountID, a_owner = platformUserID, a_status = ''active'', a_created_at = at \<rparr>"

definition platformCredit :: ledger_account where
  "platformCredit = \<lparr> la_id = platformCreditID, la_owner = Some platformAccountID, la_asset = ''credit'', la_status = ''active'' \<rparr>"

definition platformClearing :: ledger_account where
  "platformClearing = \<lparr> la_id = platformClearingID, la_owner = None, la_asset = ''clearing'', la_status = ''active'' \<rparr>"

definition insertSystemLedgers :: "(pay_db, unit) query" where
  "insertSystemLedgers d =
     (case onConflictId ''ledger_accounts_pkey'' (insertLedgerAccount platformCredit) d of
        Inl e \<Rightarrow> Inl e
      | Inr (_, d') \<Rightarrow> onConflictId ''ledger_accounts_pkey'' (insertLedgerAccount platformClearing) d')"

definition systemRows :: "pay_db \<Rightarrow> bool" where
  "systemRows d \<longleftrightarrow>
     list_ex (\<lambda>u. u_id u = platformUserID \<and> u_issuer u = ''urn:gizpay:system'' \<and> u_subject u = ''platform'' \<and>
        u_email u = [] \<and> u_display_name u = ''GizPay Platform'' \<and> u_status u = ''active'') (users d) \<and>
     list_ex (\<lambda>a. a_id a = platformAccountID \<and> a_owner a = platformUserID \<and> a_status a = ''active'') (accounts d) \<and>
     list_ex (\<lambda>l. l = platformCredit) (ledger_accounts d) \<and> list_ex (\<lambda>l. l = platformClearing) (ledger_accounts d)"

definition validateGizPaySystem :: "((pay_db, 'm) service_db_scheme world, sqlerr + unit) act" where
  "validateGizPaySystem =
     thenOk (tx_exec (onContents (reading systemRows))) (\<lambda>valid. if valid then ret (Inr ()) else refuse)"

definition initializeGizPaySystem :: "((pay_db, 'm) service_db_scheme world, sqlerr + unit) act" where
  "initializeGizPaySystem =
     bnd (gets now) (\<lambda>at.
     thenOk (tx_exec (onContents (onConflictId ''users_pkey'' (insertUser (platformUser at))))) (\<lambda>_.
     thenOk (tx_exec (onContents (onConflictId ''accounts_pkey'' (insertAccount (platformAccount at))))) (\<lambda>_.
     thenOk (tx_exec (onContents insertSystemLedgers)) (\<lambda>_.
     validateGizPaySystem))))"

text \<open>The entry points of the two services. GizPay's \<open>deferred\<close> is the trigger on the ledger.\<close>

definition payDeferred :: "(pay_db, 'm) service_db_scheme \<Rightarrow> (pay_db, 'm) service_db_scheme \<Rightarrow> bool" where
  "payDeferred d d' = ledgerTransactionsBalanced (contents d) (contents d')"

definition openGizPayPostgreSQL ::
  "(string \<Rightarrow> pay_db \<Rightarrow> pay_db option) \<Rightarrow> string list \<Rightarrow> bool \<Rightarrow> ((pay_db, 'm) service_db_scheme world, sqlerr + unit) act" where
  "openGizPayPostgreSQL script migrations initialize =
     openServicePostgreSQL script payDeferred initialize ''gizpay'' migrations [] (Some initializeGizPaySystem)"

definition openGizPayStoryPostgreSQL ::
  "(string \<Rightarrow> pay_db \<Rightarrow> pay_db option) \<Rightarrow> string list \<Rightarrow> string \<Rightarrow> ((pay_db, 'm) service_db_scheme world, sqlerr + unit) act" where
  "openGizPayStoryPostgreSQL script migrations seed =
     openServicePostgreSQL script payDeferred True ''gizpay'' migrations seed (Some initializeGizPaySystem)"

definition openGizWayPostgreSQL ::
  "(string \<Rightarrow> 'd \<Rightarrow> 'd option) \<Rightarrow> string list \<Rightarrow> bool \<Rightarrow> (('d, 'm) service_db_scheme world, sqlerr + unit) act" where
  "openGizWayPostgreSQL script migrations initialize =
     openServicePostgreSQL script (\<lambda>_ _. True) initialize ''gizway'' migrations [] None"

definition openGizWayStoryPostgreSQL ::
  "(string \<Rightarrow> 'd \<Rightarrow> 'd option) \<Rightarrow> string list \<Rightarrow> string \<Rightarrow> (('d, 'm) service_db_scheme world, sqlerr + unit) act" where
  "openGizWayStoryPostgreSQL script migrations seed =
     openServicePostgreSQL script (\<lambda>_ _. True) True ''gizway'' migrations seed None"

definition migrateGizPayPostgreSQL ::
  "(string \<Rightarrow> pay_db \<Rightarrow> pay_db option) \<Rightarrow> string list \<Rightarrow> ((pay_db, 'm) service_db_scheme world, sqlerr + unit) act" where
  "migrateGizPayPostgreSQL script migrations =
     migrateServicePostgreSQL script payDeferred ''gizpay'' migrations None"

definition migrateGizWayPostgreSQL ::
  "(string \<Rightarrow> 'd \<Rightarrow> 'd option) \<Rightarrow> string list \<Rightarrow> (('d, 'm) service_db_scheme world, sqlerr + unit) act" where
  "migrateGizWayPostgreSQL script migrations =
     migrateServicePostgreSQL script (\<lambda>_ _. True) ''gizway'' migrations None"

subsection \<open>What a migration leaves\<close>

fun runAll :: "(string \<Rightarrow> 'd \<Rightarrow> 'd option) \<Rightarrow> string list \<Rightarrow> 'd \<Rightarrow> 'd option" where
  "runAll script [] d = Some d"
| "runAll script (m # ms) d = (case script m d of None \<Rightarrow> None | Some d' \<Rightarrow> runAll script ms d')"

lemma runAll_append:
  "runAll script (ms @ ns) d = (case runAll script ms d of None \<Rightarrow> None | Some d' \<Rightarrow> runAll script ns d')"
  by (induction ms arbitrary: d) (auto split: option.split)

definition migrationKeys :: "('d, 'm) service_db_scheme \<Rightarrow> (string \<times> nat) list" where
  "migrationKeys d = map (\<lambda>r. (mg_service r, mg_version r)) (migrationRows d)"

text \<open>The history is exactly the versions 1 to \<open>k\<close> of one service.\<close>

definition hasVersions :: "string \<Rightarrow> nat \<Rightarrow> ('d, 'm) service_db_scheme \<Rightarrow> bool" where
  "hasVersions service k d \<longleftrightarrow> mset (migrationKeys d) = mset (map (Pair service) [1..<Suc k])"

lemma checkHistory_iff:
  "checkHistory n e vs \<longleftrightarrow> vs = [e..<e + length vs] \<and> (vs \<noteq> [] \<longrightarrow> e + length vs \<le> Suc n)"
proof (induction vs arbitrary: e)
  case (Cons v vs)
  then show ?case by (cases vs) (auto simp: upt_rec [of e] simp del: upt_Suc)
qed simp

lemma hasVersions_checked:
  assumes "otherServices service d = []" and "checkHistory n 1 (appliedVersions service d)"
  shows "\<exists>k \<le> n. hasVersions service k d"
proof -
  let ?rows = "migrationRows d" and ?vs = "appliedVersions service d"
  have own: "\<forall>r \<in> set ?rows. mg_service r = service"
    using assms(1) by (auto simp: otherServices_def filter_empty_conv)
  then have keys: "migrationKeys d = map (Pair service) (map mg_version ?rows)"
    by (simp add: migrationKeys_def)
  have "mset (map mg_version ?rows) = mset ?vs"
    using own by (simp add: appliedVersions_def filter_True)
  then have all: "mset (migrationKeys d) = mset (map (Pair service) ?vs)"
    unfolding keys mset_map by (rule arg_cong)
  have vs: "?vs = [1..<1 + length ?vs]" and some: "?vs \<noteq> [] \<longrightarrow> 1 + length ?vs \<le> Suc n"
    using assms(2) unfolding checkHistory_iff by (rule conjunct1, rule conjunct2)
  have "length ?vs \<le> n" using some by (cases "?vs = []") simp_all
  moreover have "hasVersions service (length ?vs) d"
    unfolding hasVersions_def all plus_1_eq_Suc [symmetric] by (rule arg_cong [OF vs])
  ultimately show ?thesis by blast
qed

lemma isApplied_iff: "isApplied service v d \<longleftrightarrow> (service, v) \<in> set (migrationKeys d)"
  by (auto simp: isApplied_def migrationKeys_def list_ex_iff)

lemma hasVersions_applied:
  assumes "hasVersions service k d"
  shows "isApplied service v d \<longleftrightarrow> 1 \<le> v \<and> v \<le> k"
proof -
  have "set (migrationKeys d) = Pair service ` {1..<Suc k}"
    using mset_eq_setD [OF assms [unfolded hasVersions_def]] by (simp del: upt_Suc)
  then show ?thesis by (auto simp: isApplied_iff)
qed

lemma hasVersions_length: "hasVersions service k d \<Longrightarrow> length (migrationKeys d) = k"
  unfolding hasVersions_def by (drule mset_eq_length) simp

lemma hasVersions_unique: "hasVersions service k d \<Longrightarrow> hasVersions service n d \<Longrightarrow> k = n"
  by (drule hasVersions_length, drule hasVersions_length) simp

lemma hasVersions_history: "migrationRows d' = migrationRows d \<Longrightarrow> hasVersions service k d' = hasVersions service k d"
  by (simp add: hasVersions_def migrationKeys_def)

lemma insertMigration_Inr:
  "insertMigration r d = Inr (u, d') \<Longrightarrow> d' = d\<lparr>migration_history := Some (migrationRows d @ [r])\<rparr>"
  by (auto simp: insertMigration_def insertRow_Inr split: sum.splits)

lemma migrationRows_updates [simp]:
  "migrationRows (d\<lparr>migration_history := Some t\<rparr>) = t" "migrationRows (d\<lparr>contents := x\<rparr>) = migrationRows d"
  by (simp_all add: migrationRows_def)

lemma onContents_Inr:
  "onContents q d = Inr (a, d') \<longleftrightarrow> (\<exists>x. q (contents d) = Inr (a, x) \<and> d' = d\<lparr>contents := x\<rparr>)"
  by (auto simp: onContents_def split: sum.splits)

lemma runScript_Inr:
  "runScript script text d = Inr (u, d') \<longleftrightarrow> (\<exists>x. script text (contents d) = Some x \<and> d' = d\<lparr>contents := x\<rparr>)"
  by (auto simp: runScript_def onContents_Inr split: option.splits)

lemma hasVersions_Suc:
  assumes "hasVersions service j d"
  shows "hasVersions service (Suc j)
    (d\<lparr>migration_history := Some (migrationRows d @ [\<lparr> mg_service = service, mg_version = Suc j, mg_applied_at = t \<rparr>])\<rparr>)"
  using assms by (simp add: hasVersions_def migrationKeys_def)

lemma wlp_applyMigration:
  assumes "hasVersions service (max k j) d"
    and "Suc j \<le> k \<Longrightarrow> Q () c (Some d)"
    and "\<And>x d'. k \<le> j \<Longrightarrow> script m (contents d) = Some x \<Longrightarrow> hasVersions service (Suc j) d' \<Longrightarrow> contents d' = x \<Longrightarrow>
      service_db.more d' = service_db.more d \<Longrightarrow> Q () c (Some d')"
  shows "wlp (applyMigration script service (Suc j, m)) (onOk Q) c (Some d)"
proof -
  have insert: "Q () c (Some d')"
    if "\<not> isApplied service (Suc j) d" "script m (contents d) = Some x"
      "insertMigration \<lparr> mg_service = service, mg_version = Suc j, mg_applied_at = t \<rparr> (d\<lparr>contents := x\<rparr>) = Inr (u, d')"
    for x u d' t
  proof -
    have "k \<le> j" using that(1) hasVersions_applied [OF assms(1), of "Suc j"] by simp
    then have "hasVersions service j (d\<lparr>contents := x\<rparr>)"
      using assms(1) hasVersions_history [of "d\<lparr>contents := x\<rparr>" d] by (simp add: max_absorb2)
    note more_versions = hasVersions_Suc [OF this, of t]
    show ?thesis
      unfolding insertMigration_Inr [OF that(3)]
      by (rule assms(3) [OF \<open>k \<le> j\<close> that(2) more_versions]) simp_all
  qed
  show ?thesis
    unfolding applyMigration_def
    by (intro wlpI) (use assms(2) hasVersions_applied [OF assms(1), of "Suc j"] in
      \<open>auto simp: reading_Inr runScript_Inr intro: insert\<close>)
qed

lemma wlp_applyMigrations:
  assumes "hasVersions service k d" and "k \<le> length ms"
    and Q: "\<And>d'. hasVersions service (length ms) d' \<Longrightarrow> runAll script (drop k ms) (contents d) = Some (contents d') \<Longrightarrow>
      service_db.more d' = service_db.more d \<Longrightarrow> Q () c (Some d')"
  shows "wlp (iterOk (applyMigration script service) (enumerate 1 ms)) (onOk Q) c (Some d)"
proof -
  let ?I = "\<lambda>rest d'. \<exists>j \<le> length ms. rest = drop j (enumerate 1 ms) \<and> hasVersions service (max k j) d' \<and>
    runAll script (drop k (take j ms)) (contents d) = Some (contents d') \<and> service_db.more d' = service_db.more d"
  show ?thesis
  proof (rule wlp_iterOk [where I = ?I])
    show "?I (enumerate 1 ms) d" using assms(1) by (intro exI [of _ 0]) simp
    show "Q () c (Some d')" if "?I [] d'" for d'
    proof -
      from that obtain j where "length ms \<le> j" "j \<le> length ms" "hasVersions service (max k j) d'"
        "runAll script (drop k (take j ms)) (contents d) = Some (contents d')" "service_db.more d' = service_db.more d"
        by auto
      with assms(2) show ?thesis by (intro Q) (simp_all add: max_absorb2)
    qed
    fix x ys d'
    assume "?I (x # ys) d'"
    then obtain j where j: "x # ys = drop j (enumerate 1 ms)" "hasVersions service (max k j) d'"
      "runAll script (drop k (take j ms)) (contents d) = Some (contents d')" "service_db.more d' = service_db.more d" by blast
    then have "j < length ms" by (metis drop_eq_Nil2 length_enumerate list.distinct(1) not_le)
    then have x: "x = (Suc j, ms ! j)" and ys: "ys = drop (Suc j) (enumerate 1 ms)"
      using j(1) by (simp_all add: Cons_nth_drop_Suc [symmetric] nth_enumerate_eq)
    let ?Q = "\<lambda>_ c' k'. c' = c \<and> (\<exists>d'. k' = Some d' \<and> ?I ys d')"
    show "wlp (applyMigration script service x) (onOk ?Q) c (Some d')"
      unfolding x
    proof (rule wlp_applyMigration [OF j(2)])
      show "?Q () c (Some d')" if "Suc j \<le> k"
        using that j \<open>j < length ms\<close> by (auto simp: ys intro!: exI [of _ "Suc j"] simp: max_absorb1)
      show "?Q () c (Some d2)" if "k \<le> j" "script (ms ! j) (contents d') = Some x" "hasVersions service (Suc j) d2"
          "contents d2 = x" "service_db.more d2 = service_db.more d'" for x d2
        using that j(3,4) \<open>j < length ms\<close>
        by (auto simp: ys take_Suc_conv_app_nth runAll_append max_absorb2 intro!: exI [of _ "Suc j"])
    qed
  qed
qed

definition migrationBody ::
  "(string \<Rightarrow> 'd \<Rightarrow> 'd option) \<Rightarrow> string \<Rightarrow> string list \<Rightarrow> ('d, 'm) service_db_scheme \<Rightarrow> ('d, 'm) service_db_scheme \<Rightarrow> bool" where
  "migrationBody script service ms d d' \<longleftrightarrow>
     (\<exists>k \<le> length ms. hasVersions service k d \<and> hasVersions service (length ms) d' \<and>
        runAll script (drop k ms) (contents d) = Some (contents d') \<and> service_db.more d' = service_db.more d)"

lemma createHistory_Inr:
  assumes "createHistory d = Inr (u, d')"
  shows "migrationRows d' = migrationRows d" and "contents d' = contents d" and "service_db.more d' = service_db.more d"
  using assms by (auto simp: createHistory_def)

lemma wlp_applyWithSystem:
  assumes sys: "\<And>d'. migrationBody script service ms c d' \<Longrightarrow> case initializeSystem of
      None \<Rightarrow> (deferred c d' \<longrightarrow> Q () d' None)
    | Some initialize \<Rightarrow> wlp initialize (onOk (\<lambda>_ c' k'. c' = c \<and> (\<exists>d2. k' = Some d2 \<and> (deferred c d2 \<longrightarrow> Q () d2 None)))) c (Some d')"
  shows "wlp (applyServiceMigrationsWithSystem script deferred service ms [] initializeSystem) (onOk Q) c k"
proof -
  let ?final = "\<lambda>_ c' k'. c' = c \<and> (\<exists>d2. k' = Some d2 \<and> (deferred c d2 \<longrightarrow> Q () d2 None))"
  have tail: "wlp (thenOk (case initializeSystem of None \<Rightarrow> ret (Inr ()) | Some initialize \<Rightarrow> initialize) (\<lambda>_. commit_tx deferred))
      (onOk (\<lambda>a c' k'. Q () c' None)) c (Some d')" if "migrationBody script service ms c d'" for d'
  proof (rule wlp_thenOk, rule wlp_mono)
    show "wlp (case initializeSystem of None \<Rightarrow> ret (Inr ()) | Some initialize \<Rightarrow> initialize) (onOk ?final) c (Some d')"
      using sys [OF that] by (cases initializeSystem) (auto intro: wlp_ret)
    show "onOk (\<lambda>_. wlp (commit_tx deferred) (onOk (\<lambda>a c' k'. Q () c' None))) x c' k'" if "onOk ?final x c' k'" for x c' k'
      using that by (cases x) (auto intro!: wlp_commit_tx_ok)
  qed
  have loop: "wlp (iterOk (applyMigration script service) (enumerate 1 ms)) (onOk (\<lambda>_. wlp
        (thenOk (ret (Inr ())) (\<lambda>_.
         thenOk (case initializeSystem of None \<Rightarrow> ret (Inr ()) | Some initialize \<Rightarrow> initialize) (\<lambda>_. commit_tx deferred)))
        (onOk (\<lambda>a c' k'. Q () c' None)))) c (Some d)"
    if hist: "createHistory c = Inr (u, d)" and others: "otherServices service d = []"
      and checked: "checkHistory (length ms) 1 (appliedVersions service d)" for u d
  proof -
    obtain k where k: "k \<le> length ms" "hasVersions service k d"
      using hasVersions_checked [OF others checked] by blast
    note h = createHistory_Inr [OF hist]
    have start: "hasVersions service k c" using k(2) hasVersions_history [OF h(1)] by simp
    show ?thesis
    proof (rule wlp_applyMigrations [OF k(2,1)], rule wlp_thenOk, rule wlp_ret, rule onOkI, rule tail)
      fix d'
      assume "hasVersions service (length ms) d'" "runAll script (drop k ms) (contents d) = Some (contents d')"
        "service_db.more d' = service_db.more d"
      with k(1) start show "migrationBody script service ms c d'" by (auto simp: migrationBody_def h(2,3))
    qed
  qed
  show ?thesis
    unfolding applyServiceMigrationsWithSystem_def refuse_def
    by (intro wlp_inTransaction wlp_thenOk wlp_tx_exec_ok wlp_if)
       (auto simp: reading_Inr simp del: One_nat_def intro!: wlp_ret loop)
qed

subsection \<open>Errors\<close>

lemma tx_local_refuse [tx_localI]: "tx_local refuse"
  unfolding refuse_def by (rule tx_local_ret)

lemma replies_refuse [repliesI]: "replies P refuse"
  unfolding refuse_def by (rule replies_ret)

lemma tx_local_applyMigration [tx_localI]: "tx_local (applyMigration script service vm)"
  unfolding applyMigration_def by (intro tx_localI)

lemma replies_applyMigration [repliesI]: "replies P (applyMigration script service vm)"
  unfolding applyMigration_def by (intro repliesI)

lemma tx_local_initializeGizPaySystem [tx_localI]: "tx_local initializeGizPaySystem"
  unfolding initializeGizPaySystem_def validateGizPaySystem_def by (intro tx_localI)

lemma replies_initializeGizPaySystem [repliesI]: "replies P initializeGizPaySystem"
  unfolding initializeGizPaySystem_def validateGizPaySystem_def by (intro repliesI)

lemma err_safe_applyWithSystem:
  assumes "\<And>m. initializeSystem = Some m \<Longrightarrow> tx_local m"
  shows "err_safe (applyServiceMigrationsWithSystem script deferred service ms seed initializeSystem)"
  unfolding applyServiceMigrationsWithSystem_def
  by (cases initializeSystem; simp only: option.case;
      intro err_safe_inTransaction err_safe_thenOk err_safe_if tx_localI err_safe_tx_local [OF tx_local_refuse]
        err_safe_commit assms; assumption?)

lemma replies_applyWithSystem:
  assumes "\<And>m. initializeSystem = Some m \<Longrightarrow> replies P m"
  shows "replies P (applyServiceMigrationsWithSystem script deferred service ms seed initializeSystem)"
  unfolding applyServiceMigrationsWithSystem_def
  by (cases initializeSystem; simp only: option.case; intro repliesI assms; assumption?)

text \<open>C37: Migrating a database either fails and leaves it as it was, or finds the first \<open>k\<close> versions of this
  service in the history and nothing of another service, runs exactly the migrations after \<open>k\<close>, in order
  and once each, and leaves a history of all of them. A database of the other service, or one with a gap
  in its history, is never touched, and migrating again changes nothing.\<close>

theorem migrations_applied_once:
  "case applyServiceMigrations script deferred service ms [] w of
     (Val (Inr _), w') \<Rightarrow> \<exists>k \<le> length ms. hasVersions service k (committed w) \<and> hasVersions service (length ms) (committed w') \<and>
       runAll script (drop k ms) (contents (committed w)) = Some (contents (committed w'))
   | (Val (Inl _), w') \<Rightarrow> committed w' = committed w
   | (Reply _, _) \<Rightarrow> False"
proof -
  let ?Q = "\<lambda>_ c' _. migrationBody script service ms (committed w) c'"
  have "wp (applyServiceMigrations script deferred service ms [])
      (\<lambda>x w'. case x of Inl e \<Rightarrow> committed w' = committed w | Inr a \<Rightarrow> ?Q a (committed w') (working w')) (\<lambda>_ _. False) w"
    unfolding applyServiceMigrations_def
    by (intro wp_of_wlp replies_applyWithSystem err_safe_applyWithSystem wlp_applyWithSystem) simp_all
  then show ?thesis
    by (auto simp: wp_def migrationBody_def split: prod.splits step.splits sum.splits)
qed

subsection \<open>The system rows and the ledger invariant\<close>

lemma payInv_grow:
  assumes inv: "payInv d"
    and same: "ledger_transactions d' = ledger_transactions d" "ledger_entries d' = ledger_entries d"
      "sync_balances d' = sync_balances d"
    and accts: "accounts d' = accounts d @ as" "a_id ` set as \<subseteq> {platformAccountID}"
    and ledgers: "ledger_accounts d' = ledger_accounts d @ ls" "distinct (map la_id (ledger_accounts d @ ls))"
      "\<forall>l \<in> set ls. set_option (la_owner l) \<subseteq> a_id ` set (accounts d')"
      "\<forall>l \<in> set ls. la_id l = platformClearingID \<longrightarrow> la_owner l = None"
  shows "payInv d'" and "ledgerBalance d' = ledgerBalance d"
proof -
  note inv' = inv [unfolded payInv_def]
  have "isCreditOf d' a (le_account e) = isCreditOf d a (le_account e)" if "e \<in> set (ledger_entries d)" for a e
  proof -
    from that inv have "le_account e \<in> la_id ` set (ledger_accounts d)" by (auto simp: payInv_def)
    then have "le_account e \<notin> la_id ` set ls" using ledgers(2) by (auto 0 3)
    then show ?thesis by (auto simp: isCreditOf_def ledgers(1) list_ex_iff) (metis image_eqI)
  qed
  moreover have "isPosted d' i = isPosted d i" for i by (simp add: isPosted_def same)
  ultimately have "filter (\<lambda>e. isCreditOf d' a (le_account e) \<and> isPosted d' (le_txn e)) (ledger_entries d) =
      filter (\<lambda>e. isCreditOf d a (le_account e) \<and> isPosted d (le_txn e)) (ledger_entries d)" for a
    by (intro filter_cong) simp_all
  then show bal: "ledgerBalance d' = ledgerBalance d" by (simp add: ledgerBalance_def fun_eq_iff same)
  have net: "transactionNet d' i = transactionNet d i" for i by (simp add: transactionNet_def same)
  have sub: "a_id ` set (accounts d) \<subseteq> a_id ` set (accounts d')" by (auto simp: accts(1))
  show "payInv d'"
    unfolding payInv_def same net bal
  proof (intro conjI)
    show "distinct (map la_id (ledger_accounts d'))" using ledgers(1,2) by simp
    show "le_account ` set (ledger_entries d) \<subseteq> la_id ` set (ledger_accounts d')"
      using inv' by (elim conjE) (auto simp: ledgers(1))
    show "\<forall>l \<in> set (ledger_accounts d'). set_option (la_owner l) \<subseteq> a_id ` set (accounts d')"
    proof -
      from inv' have "\<forall>l \<in> set (ledger_accounts d). set_option (la_owner l) \<subseteq> a_id ` set (accounts d)" by (elim conjE)
      with sub ledgers(3) show ?thesis unfolding ledgers(1) by (metis Un_iff set_append subset_trans)
    qed
    show "sb_account ` set (sync_balances d) \<subseteq> a_id ` set (accounts d')"
      using inv' sub by (elim conjE) (rule subset_trans)
    show "a_id ` set (accounts d') \<subseteq> insert platformAccountID (sb_account ` set (sync_balances d))"
    proof -
      from inv' have "a_id ` set (accounts d) \<subseteq> insert platformAccountID (sb_account ` set (sync_balances d))" by (elim conjE)
      with accts(2) show ?thesis unfolding accts(1) by auto
    qed
    show "\<forall>l \<in> set (ledger_accounts d'). la_id l = platformClearingID \<longrightarrow> la_owner l = None"
      using inv' ledgers(4) by (elim conjE) (auto simp: ledgers(1))
  qed (use inv' in simp_all)
qed

lemma payInv_ledgers: "payInv d \<Longrightarrow> distinct (map la_id (ledger_accounts d))"
  by (simp add: payInv_def)

lemma onConflictId_Inr: "onConflictId pkey q d = Inr (u, d') \<Longrightarrow> d' = d \<or> q d = Inr (u, d')"
  by (auto simp: onConflictId_def split: sum.splits sqlerr.splits if_splits)

definition keepsBooks :: "pay_db \<Rightarrow> pay_db \<Rightarrow> bool" where
  "keepsBooks d d' \<longleftrightarrow> payInv d \<longrightarrow> payInv d' \<and> ledgerBalance d' = ledgerBalance d"

lemma keepsBooks_refl: "keepsBooks d d"
  by (simp add: keepsBooks_def)

lemma keepsBooks_trans: "keepsBooks d d1 \<Longrightarrow> keepsBooks d1 d2 \<Longrightarrow> keepsBooks d d2"
  by (simp add: keepsBooks_def)

lemma keepsBooks_grow:
  assumes "ledger_transactions d' = ledger_transactions d" and "ledger_entries d' = ledger_entries d"
    and "sync_balances d' = sync_balances d"
    and "accounts d' = accounts d @ as" and "a_id ` set as \<subseteq> {platformAccountID}"
    and "ledger_accounts d' = ledger_accounts d @ ls" and "distinct (map la_id ls)"
    and "la_id ` set ls \<inter> la_id ` set (ledger_accounts d) = {}"
    and "\<forall>l \<in> set ls. set_option (la_owner l) \<subseteq> a_id ` set (accounts d')"
    and "\<forall>l \<in> set ls. la_id l = platformClearingID \<longrightarrow> la_owner l = None"
  shows "keepsBooks d d'"
proof (unfold keepsBooks_def, rule impI)
  assume inv: "payInv d"
  then have "distinct (map la_id (ledger_accounts d))" by (rule payInv_ledgers)
  with assms(7,8) have "distinct (map la_id (ledger_accounts d @ ls))" by auto
  from payInv_grow [OF inv assms(1-6) this assms(9,10)]
  show "payInv d' \<and> ledgerBalance d' = ledgerBalance d" by (rule conjI)
qed

lemma keepsBooks_user:
  assumes "onConflictId pkey (insertUser r) d = Inr (u, d')"
  shows "keepsBooks d d'"
  using onConflictId_Inr [OF assms]
proof (elim disjE)
  assume "insertUser r d = Inr (u, d')"
  then obtain t where d': "d' = d\<lparr>users := t\<rparr>" by (auto simp: insertUser_def split: sum.splits)
  show ?thesis
    by (rule keepsBooks_grow [where as = "[]" and ls = "[]"]) (simp_all add: d')
qed (simp add: keepsBooks_def)

lemma keepsBooks_account:
  assumes "onConflictId pkey (insertAccount r) d = Inr (u, d')" and "a_id r = platformAccountID"
  shows "keepsBooks d d'"
  using onConflictId_Inr [OF assms(1)]
proof (elim disjE)
  assume "insertAccount r d = Inr (u, d')"
  then have d': "d' = d\<lparr>accounts := accounts d @ [r]\<rparr>"
    by (auto simp: insertAccount_def insertRow_Inr split: sum.splits)
  show ?thesis
    by (rule keepsBooks_grow [where as = "[r]" and ls = "[]"]) (simp_all add: d' assms(2))
qed (simp add: keepsBooks_def)

lemma keepsBooks_ledger:
  assumes "onConflictId pkey (insertLedgerAccount r) d = Inr (u, d')"
    and "la_id r = platformClearingID \<longrightarrow> la_owner r = None"
  shows "keepsBooks d d'"
  using onConflictId_Inr [OF assms(1)]
proof (elim disjE)
  assume "insertLedgerAccount r d = Inr (u, d')"
  then have d': "d' = d\<lparr>ledger_accounts := ledger_accounts d @ [r]\<rparr>"
    and fresh: "la_id r \<notin> la_id ` set (ledger_accounts d)"
    and owner: "set_option (la_owner r) \<subseteq> a_id ` set (accounts d)"
    by (auto simp: insertLedgerAccount_def insertRow_Inr list_ex_iff split: sum.splits option.splits)
  show ?thesis
    by (rule keepsBooks_grow [where as = "[]" and ls = "[r]"]) (use fresh owner assms(2) in \<open>simp_all add: d'\<close>)
qed (simp add: keepsBooks_def)

lemma keepsBooks_ledgers:
  assumes "insertSystemLedgers d = Inr (u, d')"
  shows "keepsBooks d d'"
proof -
  obtain v d1 where "onConflictId ''ledger_accounts_pkey'' (insertLedgerAccount platformCredit) d = Inr (v, d1)"
    "onConflictId ''ledger_accounts_pkey'' (insertLedgerAccount platformClearing) d1 = Inr (u, d')"
    using assms by (auto simp: insertSystemLedgers_def split: sum.splits)
  then have "keepsBooks d d1" "keepsBooks d1 d'"
    by (auto intro!: keepsBooks_ledger simp: platformCredit_def platformClearing_def)
  then show ?thesis by (rule keepsBooks_trans)
qed

lemma wlp_initializeGizPaySystem:
  assumes "\<And>d'. keepsBooks (contents d) (contents d') \<Longrightarrow> systemRows (contents d') \<Longrightarrow>
      migration_history d' = migration_history d \<Longrightarrow> service_db.more d' = service_db.more d \<Longrightarrow> Q () c (Some d')"
  shows "wlp initializeGizPaySystem (onOk Q) c (Some d)"
proof -
  have valid: "Q () c (Some (d\<lparr>contents := x3\<rparr>))"
    if u: "onConflictId ''users_pkey'' (insertUser (platformUser t)) (contents d) = Inr (u1, x1)"
      and a: "onConflictId ''accounts_pkey'' (insertAccount (platformAccount t)) x1 = Inr (u2, x2)"
      and l: "insertSystemLedgers x2 = Inr (u3, x3)" and "systemRows x3" for t u1 u2 u3 x1 x2 x3
  proof -
    have "a_id (platformAccount t) = platformAccountID" by (simp add: platformAccount_def)
    with keepsBooks_user [OF u] keepsBooks_account [OF a] keepsBooks_ledgers [OF l]
    have "keepsBooks (contents d) x3" by (blast intro: keepsBooks_trans)
    then show ?thesis using \<open>systemRows x3\<close> by (intro assms) simp_all
  qed
  show ?thesis
    unfolding initializeGizPaySystem_def validateGizPaySystem_def refuse_def
    by (intro wlp_bnd wlp_now wlp_thenOk wlp_tx_exec_ok)
       (auto simp: onContents_Inr reading_Inr intro!: wlp_ret intro: valid)
qed

text \<open>Opening GizPay's database with initialization, when it succeeds, leaves the platform's user, account
  and ledger accounts, and books that satisfy the ledger invariant (identifiers, balanced transactions,
  projected balances), if they did before; on a database that was already migrated no balance changes,
  however often it is opened.\<close>

lemma gizpay_initialized:
  assumes "openGizPayPostgreSQL script [schema] True w = (Val (Inr u), w')"
    and "\<And>d d'. script schema d = Some d' \<Longrightarrow> d' = migrated_pay"
    and "hasVersions ''gizpay'' 1 (committed w) \<Longrightarrow> payInv (contents (committed w))"
  shows "payInv (contents (committed w')) \<and> systemRows (contents (committed w')) \<and> hasVersions ''gizpay'' 1 (committed w') \<and>
    (hasVersions ''gizpay'' 1 (committed w) \<longrightarrow>
      ledgerBalance (contents (committed w')) = ledgerBalance (contents (committed w)))"
proof -
  let ?c = "committed w"
  let ?Q = "\<lambda>d. \<exists>d1. migrationBody script ''gizpay'' [schema] ?c d1 \<and> keepsBooks (contents d1) (contents d) \<and>
    systemRows (contents d) \<and> migration_history d = migration_history d1"
  have "wlp (openGizPayPostgreSQL script [schema] True) (onOk (\<lambda>_ c' _. ?Q c')) ?c (working w)"
    unfolding openGizPayPostgreSQL_def openServicePostgreSQL_def pingDatabase_def
    by (intro wlp_thenOk wlp_db_exec_ok)
       (auto 0 4 simp: reading_Inr intro!: wlp_applyWithSystem wlp_initializeGizPaySystem)
  from wlpD [OF this assms(1)] obtain d1 where d1: "migrationBody script ''gizpay'' [schema] ?c d1"
    "keepsBooks (contents d1) (contents (committed w'))" "systemRows (contents (committed w'))"
    "migration_history (committed w') = migration_history d1" by auto
  then obtain k where k: "k \<le> 1" "hasVersions ''gizpay'' k ?c" "hasVersions ''gizpay'' 1 d1"
    "runAll script (drop k [schema]) (contents ?c) = Some (contents d1)"
    by (auto simp: migrationBody_def)
  have versions: "hasVersions ''gizpay'' 1 (committed w')"
    using k(3) hasVersions_history [of "committed w'" d1] d1(4) by (simp add: migrationRows_def)
  have "payInv (contents d1) \<and> (hasVersions ''gizpay'' 1 ?c \<longrightarrow> contents d1 = contents ?c)"
  proof (cases k)
    case 0
    with k(4) assms(2) have "contents d1 = migrated_pay" by (auto split: option.splits)
    moreover have "\<not> hasVersions ''gizpay'' 1 ?c" using k(2) 0 by (simp add: hasVersions_def)
    ultimately show ?thesis by (simp add: payInv_migrated)
  next
    case (Suc j)
    with k assms(3) show ?thesis by simp
  qed
  with d1(2,3) versions show ?thesis by (auto simp: keepsBooks_def)
qed

text \<open>An empty database is migrated and initialized.\<close>

definition demo_script :: "string \<Rightarrow> pay_db \<Rightarrow> pay_db option" where
  "demo_script text d = (if text = ''schema'' then Some migrated_pay else None)"

definition demo_empty :: "pay_db service_db world" where
  "demo_empty = \<lparr> committed = \<lparr> migration_history = None, contents = migrated_pay \<rparr>, working = None, fault = (\<lambda>_. False),
     fault_n = 0, uuid = (\<lambda>_. []), uuid_n = 0, now = 5 \<rparr>"

lemma demo_opened: "fst (openGizPayPostgreSQL demo_script [''schema''] True demo_empty) = Val (Inr ())"
  by code_simp

lemma gizpay_initialized_witness:
  "systemRows (contents (committed (snd (openGizPayPostgreSQL demo_script [''schema''] True demo_empty))))"
proof -
  have "openGizPayPostgreSQL demo_script [''schema''] True demo_empty =
      (Val (Inr ()), snd (openGizPayPostgreSQL demo_script [''schema''] True demo_empty))"
    using demo_opened by (metis prod.collapse)
  from gizpay_initialized [OF this] show ?thesis
    by (auto simp: demo_script_def demo_empty_def hasVersions_def migrationKeys_def migrationRows_def split: if_splits)
qed

end
