(* ===== verification/Initialization.thy ===== *)
theory Initialization
  imports ProcessConfig Storage
begin

section \<open>The initialization job\<close>

text \<open>
  \<open>internal/app/init.go\<close> and \<open>init_config.go\<close>: the one-shot job that prepares the database servers for a
  service. The state is the servers (roles, databases, schemas, grants, publications) and the service's own
  database, whose migrations are in \<open>Storage\<close>. A statement on a server commits on its own and can fail.
  \<open>url.Parse\<close> and \<open>URL.String\<close> are parameters.
\<close>

subsection \<open>Database servers\<close>

record pg_role =
  ro_login :: bool
  ro_replication :: bool
  ro_password :: string

text \<open>Grants on a database, on a schema of a database, and on the tables of a schema, now and by default.\<close>

datatype grant =
    GrantDatabase string string
  | GrantUsage string string string
  | GrantCreate string string string
  | GrantSelect string string string
  | GrantSelectDefault string string string string

record cluster =
  cl_roles :: "string \<rightharpoonup> pg_role"
  cl_members :: "(string \<times> string) set"
  cl_databases :: "string \<rightharpoonup> string"
  cl_relations :: "string \<Rightarrow> nat"
  cl_schemas :: "string \<times> string \<rightharpoonup> string"
  cl_grants :: "grant set"
  cl_publications :: "string \<times> string \<rightharpoonup> bool"

record 'd deployment = "'d service_db" +
  dp_servers :: "string \<Rightarrow> cluster"

type_synonym 'd fleet = "'d deployment world"

definition onServer :: "string \<Rightarrow> (cluster, 'a) query \<Rightarrow> ('d deployment, 'a) query" where
  "onServer host q d =
     (case q (dp_servers d host) of
        Inl e \<Rightarrow> Inl e
      | Inr (a, c) \<Rightarrow> Inr (a, d\<lparr>dp_servers := (dp_servers d)(host := c)\<rparr>))"

text \<open>The statements, with what PostgreSQL documents of them: an object that is named must exist.\<close>

definition changing :: "bool \<Rightarrow> (cluster \<Rightarrow> cluster) \<Rightarrow> (cluster, unit) query" where
  "changing ok f c = (if ok then Inr ((), f c) else Inl Raised)"

definition createRole :: "string \<Rightarrow> bool option \<Rightarrow> string \<Rightarrow> (cluster, unit) query" where
  "createRole name replication password c = changing (cl_roles c name = None) (\<lambda>c. c\<lparr>cl_roles := (cl_roles c)(name \<mapsto>
     \<lparr> ro_login = True, ro_replication = (replication = Some True), ro_password = password \<rparr>)\<rparr>) c"

definition alterRole :: "string \<Rightarrow> bool option \<Rightarrow> string \<Rightarrow> (cluster, unit) query" where
  "alterRole name replication password c =
     (case cl_roles c name of
        None \<Rightarrow> Inl Raised
      | Some r \<Rightarrow> Inr ((), c\<lparr>cl_roles := (cl_roles c)(name \<mapsto> r\<lparr>ro_login := True, ro_password := password,
          ro_replication := (case replication of None \<Rightarrow> ro_replication r | Some b \<Rightarrow> b)\<rparr>)\<rparr>))"

definition grantMembership :: "string \<Rightarrow> string \<Rightarrow> (cluster, unit) query" where
  "grantMembership name user c =
     changing (cl_roles c name \<noteq> None \<and> name \<noteq> user) (\<lambda>c. c\<lparr>cl_members := insert (name, user) (cl_members c)\<rparr>) c"

definition grantTo :: "string \<Rightarrow> (cluster \<Rightarrow> bool) \<Rightarrow> grant set \<Rightarrow> (cluster, unit) query" where
  "grantTo role present gs c = changing (cl_roles c role \<noteq> None \<and> present c) (\<lambda>c. c\<lparr>cl_grants := gs \<union> cl_grants c\<rparr>) c"

definition createSchemaOnce :: "string \<Rightarrow> string \<Rightarrow> string \<Rightarrow> (cluster, unit) query" where
  "createSchemaOnce database schema owner c =
     (if cl_schemas c (database, schema) \<noteq> None then Inr ((), c)
      else changing (cl_roles c owner \<noteq> None) (\<lambda>c. c\<lparr>cl_schemas := (cl_schemas c)((database, schema) \<mapsto> owner)\<rparr>) c)"

definition createDatabase :: "string \<Rightarrow> string \<Rightarrow> (cluster, unit) query" where
  "createDatabase database owner c = changing (cl_databases c database = None \<and> cl_roles c owner \<noteq> None)
     (\<lambda>c. c\<lparr>cl_databases := (cl_databases c)(database \<mapsto> owner)\<rparr>) c"

definition alterDatabaseOwner :: "string \<Rightarrow> string \<Rightarrow> (cluster, unit) query" where
  "alterDatabaseOwner database owner c = changing (cl_databases c database \<noteq> None \<and> cl_roles c owner \<noteq> None)
     (\<lambda>c. c\<lparr>cl_databases := (cl_databases c)(database \<mapsto> owner)\<rparr>) c"

definition createPublication :: "string \<Rightarrow> string \<Rightarrow> (cluster, unit) query" where
  "createPublication database publication c = changing (cl_publications c (database, publication) = None)
     (\<lambda>c. c\<lparr>cl_publications := (cl_publications c)((database, publication) \<mapsto> True)\<rparr>) c"

subsection \<open>Connection strings\<close>

record init_url =
  iu_scheme :: string
  iu_host :: string
  iu_user :: "(string \<times> string option) option"
  iu_path :: string

record init_env =
  ie_parse :: "string \<Rightarrow> init_url option"
  ie_render :: "init_url \<Rightarrow> string"

record database_role =
  dr_name :: string
  dr_password :: string
  dr_database :: string

definition parseRoleDSN :: "init_env \<Rightarrow> string \<Rightarrow> database_role option" where
  "parseRoleDSN env dsn =
     (case ie_parse env dsn of
        None \<Rightarrow> None
      | Some url \<Rightarrow>
          if iu_scheme url \<noteq> ''postgres'' \<and> iu_scheme url \<noteq> ''postgresql'' then None
          else (case iu_user url of
            None \<Rightarrow> None
          | Some (name, password) \<Rightarrow>
              let role = \<lparr> dr_name = name, dr_password = (case password of None \<Rightarrow> [] | Some p \<Rightarrow> p),
                dr_database = trimPrefix (iu_path url) ''/'' \<rparr> in
              if dr_password role = [] then None
              else if \<not> schemaPattern (dr_name role) \<or> \<not> schemaPattern (dr_database role) then None
              else Some role))"

definition replaceDSNDatabase :: "init_env \<Rightarrow> string \<Rightarrow> string \<Rightarrow> string option" where
  "replaceDSNDatabase env dsn database =
     (case ie_parse env dsn of
        None \<Rightarrow> None
      | Some url \<Rightarrow> if iu_scheme url \<noteq> ''postgres'' \<and> iu_scheme url \<noteq> ''postgresql'' then None
          else Some (ie_render env (url\<lparr>iu_path := ''/'' @ database\<rparr>)))"

text \<open>A connection: the server, the database and the role of its DSN. \<open>openPostgreSQL\<close> opens one and pings.\<close>

record connection =
  cx_host :: string
  cx_database :: string
  cx_user :: string

definition connectionOf :: "init_env \<Rightarrow> string \<Rightarrow> connection option" where
  "connectionOf env dsn = map_option (\<lambda>url. \<lparr> cx_host = iu_host url, cx_database = trimPrefix (iu_path url) ''/'',
     cx_user = (case iu_user url of None \<Rightarrow> [] | Some u \<Rightarrow> fst u) \<rparr>) (ie_parse env dsn)"

definition openPostgreSQL :: "init_env \<Rightarrow> string \<Rightarrow> ('d fleet, sqlerr + connection) act" where
  "openPostgreSQL env dsn =
     (case connectionOf env dsn of
        None \<Rightarrow> refuse
      | Some cx \<Rightarrow> thenOk pingDatabase (\<lambda>_. ret (Inr cx)))"

definition execOn :: "connection \<Rightarrow> (cluster, 'a) query \<Rightarrow> ('d fleet, sqlerr + 'a) act" where
  "execOn cx q = db_exec (onServer (cx_host cx) q)"

subsection \<open>The steps of the job\<close>

definition grantDatabaseAdministratorRoleMembership :: "connection \<Rightarrow> string \<Rightarrow> ('d fleet, sqlerr + unit) act" where
  "grantDatabaseAdministratorRoleMembership cx name = execOn cx (grantMembership name (cx_user cx))"

definition roleAttributes :: "bool \<Rightarrow> bool option \<Rightarrow> bool option" where
  "roleAttributes replication current =
     (if replication then (if current = None \<or> current = Some False then Some True else None)
      else if current = Some True then Some False else None)"

definition ensureLoginRole ::
  "init_env \<Rightarrow> string \<Rightarrow> string \<Rightarrow> bool \<Rightarrow> ('d fleet, sqlerr + database_role) act" where
  "ensureLoginRole env adminDSN roleDSN replication =
     (case parseRoleDSN env roleDSN of
        None \<Rightarrow> refuse
      | Some role \<Rightarrow>
          thenOk (openPostgreSQL env adminDSN) (\<lambda>cx.
          thenOk (execOn cx (reading (\<lambda>c. map_option ro_replication (cl_roles c (dr_name role))))) (\<lambda>current.
          let attributes = roleAttributes replication current in
          thenOk (if current \<noteq> None then grantDatabaseAdministratorRoleMembership cx (dr_name role) else ret (Inr ())) (\<lambda>_.
          thenOk (execOn cx (if current = None then createRole (dr_name role) attributes (dr_password role)
             else alterRole (dr_name role) attributes (dr_password role))) (\<lambda>_.
          thenOk (if current = None then grantDatabaseAdministratorRoleMembership cx (dr_name role) else ret (Inr ())) (\<lambda>_.
          ret (Inr role)))))))"

definition ensureOwnedSchema ::
  "init_env \<Rightarrow> string \<Rightarrow> string \<Rightarrow> string \<Rightarrow> string \<Rightarrow> ('d fleet, sqlerr + unit) act" where
  "ensureOwnedSchema env adminDSN database schema owner =
     thenOk (openPostgreSQL env adminDSN) (\<lambda>cx.
     thenOk (execOn cx (grantTo owner (\<lambda>c. cl_databases c database \<noteq> None) {GrantDatabase database owner})) (\<lambda>_.
     thenOk (execOn cx (createSchemaOnce (cx_database cx) schema owner)) (\<lambda>_.
     execOn cx (grantTo owner (\<lambda>c. cl_schemas c (cx_database cx, schema) \<noteq> None)
       {GrantUsage (cx_database cx) schema owner, GrantCreate (cx_database cx) schema owner}))))"

definition databaseIsEmpty :: "init_env \<Rightarrow> string \<Rightarrow> string \<Rightarrow> ('d fleet, sqlerr + bool) act" where
  "databaseIsEmpty env adminDSN database =
     (case replaceDSNDatabase env adminDSN database of
        None \<Rightarrow> refuse
      | Some targetDSN \<Rightarrow>
          thenOk (openPostgreSQL env targetDSN) (\<lambda>cx.
          thenOk (execOn cx (reading (\<lambda>c. cl_relations c (cx_database cx)))) (\<lambda>count. ret (Inr (count = 0)))))"

definition ensurePostgreSQLDatabase :: "init_env \<Rightarrow> string \<Rightarrow> string \<Rightarrow> string \<Rightarrow> ('d fleet, sqlerr + unit) act" where
  "ensurePostgreSQLDatabase env adminDSN database owner =
     thenOk (openPostgreSQL env adminDSN) (\<lambda>cx.
     thenOk (execOn cx (reading (\<lambda>c. cl_databases c database))) (\<lambda>existingOwner.
       case existingOwner of
         None \<Rightarrow> execOn cx (createDatabase database owner)
       | Some existing \<Rightarrow>
           if existing = owner then ret (Inr ())
           else thenOk (databaseIsEmpty env adminDSN database) (\<lambda>empty.
             if \<not> empty then refuse else execOn cx (alterDatabaseOwner database owner))))"

text \<open>The statements of \<open>ensurePowerSyncSource\<close>, in order.\<close>

definition sourceGrants :: "string \<Rightarrow> string \<Rightarrow> string list \<Rightarrow> string \<Rightarrow> string \<Rightarrow> (string \<times> (cluster \<Rightarrow> bool) \<times> grant set) list" where
  "sourceGrants home database schemas serviceRole sourceRole =
     (sourceRole, \<lambda>c. cl_databases c database \<noteq> None, {GrantDatabase database sourceRole}) #
     concat (map (\<lambda>schema.
       [(sourceRole, \<lambda>c. cl_schemas c (home, schema) \<noteq> None, {GrantUsage home schema sourceRole}),
        (sourceRole, \<lambda>c. cl_schemas c (home, schema) \<noteq> None, {GrantSelect home schema sourceRole}),
        (sourceRole, \<lambda>c. cl_schemas c (home, schema) \<noteq> None \<and> cl_roles c serviceRole \<noteq> None,
           {GrantSelectDefault home schema serviceRole sourceRole})]) schemas)"

definition ensurePowerSyncSource ::
  "init_env \<Rightarrow> string \<Rightarrow> string \<Rightarrow> string list \<Rightarrow> string \<Rightarrow> string \<Rightarrow> string \<Rightarrow> ('d fleet, sqlerr + unit) act" where
  "ensurePowerSyncSource env adminDSN database schemas serviceRole sourceRole publication =
     thenOk (openPostgreSQL env adminDSN) (\<lambda>cx.
     thenOk (iterOk (\<lambda>(role, present, gs). execOn cx (grantTo role present gs))
       (sourceGrants (cx_database cx) database schemas serviceRole sourceRole)) (\<lambda>_.
     thenOk (execOn cx (reading (\<lambda>c. cl_publications c (cx_database cx, publication)))) (\<lambda>allTables.
       if allTables = Some True then ret (Inr ())
       else thenOk (execOn cx (reading (\<lambda>c. cl_publications c (cx_database cx, publication) \<noteq> None))) (\<lambda>exists.
         if exists then refuse else execOn cx (createPublication (cx_database cx) publication)))))"

subsection \<open>The configuration of the job\<close>

record init_config =
  ic_version :: int
  ic_process :: process_kind
  ic_region :: string
  ic_admin_dsn :: string
  ic_service_dsn :: string
  ic_schema :: string
  ic_publication :: string
  ic_source_schemas :: "string list"
  ic_source_dsn :: string
  ic_storage_admin_dsn :: string
  ic_storage_dsn :: string

fun uniqueSchemas :: "string list \<Rightarrow> string list \<Rightarrow> bool" where
  "uniqueSchemas seen [] = True"
| "uniqueSchemas seen (schema # rest) = (schemaPattern schema \<and> schema \<notin> set seen \<and> uniqueSchemas (schema # seen) rest)"

definition initDSNs :: "init_config \<Rightarrow> (string \<times> string) list" where
  "initDSNs c = [(''database.admin_dsn'', ic_admin_dsn c), (''database.service_dsn'', ic_service_dsn c),
     (''powersync.source_dsn'', ic_source_dsn c), (''powersync.storage_admin_dsn'', ic_storage_admin_dsn c),
     (''powersync.storage_dsn'', ic_storage_dsn c)]"

text \<open>The file of the path is decoded by \<open>decoded\<close>; a process kind that the binaries do not have is an error of it.\<close>

definition loadInitConfig :: "init_env \<Rightarrow> (string \<Rightarrow> init_config option) \<Rightarrow> string \<Rightarrow> process_kind \<Rightarrow> string + init_config" where
  "loadInitConfig env decoded path kind =
     (if path = [] then Inl ''--config is required''
      else case decoded path of
        None \<Rightarrow> Inl ''decode init config (unknown fields are forbidden)''
      | Some c \<Rightarrow>
          (case firstError (
             [demand (ic_version c = 1) ''config version must be 1'',
              demand (ic_process c = kind) ''process must be the kind'',
              demand (kind = GizPay \<longrightarrow> ic_region c = []) ''region must be empty for gizpay'',
              demand (kind = GizWay \<longrightarrow> ic_region c = ''global'' \<or> ic_region c = ''cn'') ''region must be global or cn for gizway'',
              demand (ic_admin_dsn c \<noteq> [] \<and> ic_service_dsn c \<noteq> []) ''database.admin_dsn and database.service_dsn are required'',
              demand (schemaPattern (ic_schema c)) ''database.schema must be a lowercase SQL identifier'',
              demand (schemaPattern (ic_publication c)) ''powersync.publication must be a lowercase SQL identifier'',
              demand (ic_source_schemas c \<noteq> []) ''powersync.source_schemas is required'',
              demand (uniqueSchemas [] (ic_source_schemas c)) ''powersync.source_schemas must contain unique lowercase SQL identifiers'',
              demand (ic_schema c \<in> set (ic_source_schemas c)) ''powersync.source_schemas must include database.schema'',
              demand (ic_source_dsn c \<noteq> [] \<and> ic_storage_admin_dsn c \<noteq> [] \<and> ic_storage_dsn c \<noteq> [])
                ''powersync.source_dsn, powersync.storage_admin_dsn and powersync.storage_dsn are required''] @
             map (\<lambda>(label, dsn). demand (parseRoleDSN env dsn \<noteq> None) label) (initDSNs c) @
             [demand (case (parseRoleDSN env (ic_admin_dsn c), parseRoleDSN env (ic_service_dsn c), parseRoleDSN env (ic_source_dsn c)) of
                (Some admin, Some service, Some source) \<Rightarrow>
                  dr_database admin = dr_database service \<and> dr_database admin = dr_database source
              | _ \<Rightarrow> True)
                ''database admin, service and PowerSync source DSNs must name the same source database'']) of
             Some e \<Rightarrow> Inl e | None \<Rightarrow> Inr c))"

subsection \<open>The job\<close>

definition serviceName :: "process_kind \<Rightarrow> string" where
  "serviceName kind = (case kind of GizPay \<Rightarrow> ''gizpay'' | GizWay \<Rightarrow> ''gizway'')"

text \<open>\<open>script\<close>, \<open>deferred\<close> and \<open>migrations\<close> are those of the service (\<open>Storage\<close>).\<close>

definition runMigrations ::
  "(string \<Rightarrow> string \<Rightarrow> string option) \<Rightarrow> (string \<Rightarrow> 'd \<Rightarrow> 'd option) \<Rightarrow> ('d deployment \<Rightarrow> 'd deployment \<Rightarrow> bool) \<Rightarrow> string list \<Rightarrow>
     init_config \<Rightarrow> process_kind \<Rightarrow> ('d fleet, sqlerr + unit) act" where
  "runMigrations urlWithSearchPath script deferred migrations c kind =
     (case withSearchPath urlWithSearchPath (ic_service_dsn c) (ic_schema c) of
        None \<Rightarrow> refuse
      | Some dsn \<Rightarrow> migrateServicePostgreSQL script deferred (serviceName kind) migrations None)"

definition runInitialization ::
  "init_env \<Rightarrow> (string \<Rightarrow> string \<Rightarrow> string option) \<Rightarrow> (string \<Rightarrow> 'd \<Rightarrow> 'd option) \<Rightarrow> ('d deployment \<Rightarrow> 'd deployment \<Rightarrow> bool) \<Rightarrow>
     string list \<Rightarrow> init_config \<Rightarrow> process_kind \<Rightarrow> ('d fleet, sqlerr + unit) act" where
  "runInitialization env urlWithSearchPath script deferred migrations c kind =
     thenOk (ensureLoginRole env (ic_admin_dsn c) (ic_service_dsn c) False) (\<lambda>service.
     thenOk (ensureOwnedSchema env (ic_admin_dsn c) (dr_database service) (ic_schema c) (dr_name service)) (\<lambda>_.
     thenOk (runMigrations urlWithSearchPath script deferred migrations c kind) (\<lambda>_.
     thenOk (ensureLoginRole env (ic_admin_dsn c) (ic_source_dsn c) True) (\<lambda>source.
     thenOk (ensurePowerSyncSource env (ic_admin_dsn c) (dr_database source) (ic_source_schemas c) (dr_name service)
       (dr_name source) (ic_publication c)) (\<lambda>_.
     thenOk (ensureLoginRole env (ic_storage_admin_dsn c) (ic_storage_dsn c) False) (\<lambda>storageRole.
     ensurePostgreSQLDatabase env (ic_storage_admin_dsn c) (dr_database storageRole) (dr_name storageRole)))))))"

subsection \<open>What the job has to achieve\<close>

text \<open>
  The specification: each step as a change of one server that does not look at how the server was
  before, so that it can be repeated.
\<close>

definition readyRole :: "database_role \<Rightarrow> bool \<Rightarrow> string \<Rightarrow> cluster \<Rightarrow> cluster" where
  "readyRole role replication user c = c\<lparr>cl_roles := (cl_roles c)(dr_name role \<mapsto>
       \<lparr> ro_login = True, ro_replication = replication, ro_password = dr_password role \<rparr>),
     cl_members := insert (dr_name role, user) (cl_members c)\<rparr>"

definition readySchema :: "string \<Rightarrow> string \<Rightarrow> string \<Rightarrow> string \<Rightarrow> cluster \<Rightarrow> cluster" where
  "readySchema home database schema owner c = c\<lparr>cl_schemas := (cl_schemas c)((home, schema) \<mapsto>
       (case cl_schemas c (home, schema) of None \<Rightarrow> owner | Some existing \<Rightarrow> existing)),
     cl_grants := {GrantUsage home schema owner, GrantCreate home schema owner, GrantDatabase database owner} \<union> cl_grants c\<rparr>"

definition readySource :: "string \<Rightarrow> string \<Rightarrow> string list \<Rightarrow> string \<Rightarrow> string \<Rightarrow> string \<Rightarrow> cluster \<Rightarrow> cluster" where
  "readySource home database schemas serviceRole sourceRole publication c = c\<lparr>
     cl_grants := (\<Union>g \<in> set (sourceGrants home database schemas serviceRole sourceRole). snd (snd g)) \<union> cl_grants c,
     cl_publications := (cl_publications c)((home, publication) \<mapsto> True)\<rparr>"

definition readyDatabase :: "string \<Rightarrow> string \<Rightarrow> cluster \<Rightarrow> cluster" where
  "readyDatabase database owner c = c\<lparr>cl_databases := (cl_databases c)(database \<mapsto> owner)\<rparr>"

definition atServer :: "string \<Rightarrow> (cluster \<Rightarrow> cluster) \<Rightarrow> (string \<Rightarrow> cluster) \<Rightarrow> (string \<Rightarrow> cluster)" where
  "atServer host f servers = servers(host := f (servers host))"

record init_plan =
  ip_admin :: connection
  ip_storage_admin :: connection
  ip_service :: database_role
  ip_source :: database_role
  ip_storage :: database_role

definition planOf :: "init_env \<Rightarrow> init_config \<Rightarrow> init_plan option" where
  "planOf env c =
     (case (connectionOf env (ic_admin_dsn c), connectionOf env (ic_storage_admin_dsn c), parseRoleDSN env (ic_service_dsn c),
        parseRoleDSN env (ic_source_dsn c), parseRoleDSN env (ic_storage_dsn c)) of
        (Some admin, Some storageAdmin, Some service, Some source, Some storageRole) \<Rightarrow>
          Some \<lparr> ip_admin = admin, ip_storage_admin = storageAdmin, ip_service = service, ip_source = source,
            ip_storage = storageRole \<rparr>
      | _ \<Rightarrow> None)"

definition readyAdmin :: "init_config \<Rightarrow> init_plan \<Rightarrow> cluster \<Rightarrow> cluster" where
  "readyAdmin c p = readySource (cx_database (ip_admin p)) (dr_database (ip_source p)) (ic_source_schemas c) (dr_name (ip_service p))
       (dr_name (ip_source p)) (ic_publication c) \<circ>
     readyRole (ip_source p) True (cx_user (ip_admin p)) \<circ>
     readySchema (cx_database (ip_admin p)) (dr_database (ip_service p)) (ic_schema c) (dr_name (ip_service p)) \<circ>
     readyRole (ip_service p) False (cx_user (ip_admin p))"

definition readyStorage :: "init_plan \<Rightarrow> cluster \<Rightarrow> cluster" where
  "readyStorage p = readyDatabase (dr_database (ip_storage p)) (dr_name (ip_storage p)) \<circ>
     readyRole (ip_storage p) False (cx_user (ip_storage_admin p))"

definition readyServers :: "init_config \<Rightarrow> init_plan \<Rightarrow> (string \<Rightarrow> cluster) \<Rightarrow> (string \<Rightarrow> cluster)" where
  "readyServers c p = atServer (cx_host (ip_storage_admin p)) (readyStorage p) \<circ> atServer (cx_host (ip_admin p)) (readyAdmin c p)"

subsection \<open>The steps implement the specification\<close>

definition onServers :: "((string \<Rightarrow> cluster) \<Rightarrow> (string \<Rightarrow> cluster)) \<Rightarrow> 'd deployment \<Rightarrow> 'd deployment" where
  "onServers f d = d\<lparr>dp_servers := f (dp_servers d)\<rparr>"

lemma onServers_sel [simp]:
  "dp_servers (onServers f d) = f (dp_servers d)" "contents (onServers f d) = contents d"
  "migration_history (onServers f d) = migration_history d" "onServers f (onServers g d) = onServers (f \<circ> g) d"
  by (simp_all add: onServers_def)

lemma onServers_at_eq:
  assumes "c = f (dp_servers d host)"
  shows "onServers (atServer host (\<lambda>_. c)) d = onServers (atServer host f) d"
  using assms by (simp add: onServers_def atServer_def)

lemma atServer_same [simp]: "atServer host f servers host = f (servers host)"
  by (simp add: atServer_def)

lemma atServer_twice: "atServer host f (atServer host g servers) = atServer host (f \<circ> g) servers"
  by (simp add: atServer_def)

lemma atServer_const [simp]: "atServer host (\<lambda>_. c2) \<circ> atServer host (\<lambda>_. c1) = atServer host (\<lambda>_. c2)"
  by (simp add: atServer_def fun_eq_iff)

lemma onServers_read [simp]: "onServers (atServer host (\<lambda>_. dp_servers d host)) d = d"
  by (simp add: onServers_def atServer_def)

lemma wlp_execOn:
  assumes "\<And>a c'. q (dp_servers d (cx_host cx)) = Inr (a, c') \<Longrightarrow> Q a (onServers (atServer (cx_host cx) (\<lambda>_. c')) d) k"
  shows "wlp (execOn cx q) (onOk Q) d k"
  unfolding execOn_def
  by (rule wlp_db_exec_ok) (use assms in \<open>auto simp: onServer_def onServers_def atServer_def split: sum.splits\<close>)

lemma wlp_readOn:
  assumes "Q (f (dp_servers d (cx_host cx))) d k"
  shows "wlp (execOn cx (reading f)) (onOk Q) d k"
  by (rule wlp_execOn) (use assms in \<open>auto simp: reading_Inr\<close>)

lemma wlp_openPostgreSQL:
  assumes "\<And>cx. connectionOf env dsn = Some cx \<Longrightarrow> Q cx d k"
  shows "wlp (openPostgreSQL env dsn) (onOk Q) d k"
  unfolding openPostgreSQL_def pingDatabase_def refuse_def
  by (intro wlp_case_option wlp_thenOk wlp_db_exec_ok wlp_ret) (auto simp: reading_Inr intro!: wlp_ret assms)

lemma wlp_refuse [wlpI]: "wlp refuse (onOk Q) c k"
  by (simp add: refuse_def wlp_def ret_def)

lemma roleAttributes_alter:
  "(case roleAttributes replication (Some r) of None \<Rightarrow> r | Some b \<Rightarrow> b) = replication"
  by (cases replication; cases r) (simp_all add: roleAttributes_def)

lemma alterRole_ready:
  assumes "cl_roles c name = Some r" and "name = dr_name role"
    and "grantMembership name user c = Inr (u, c1)"
    and "alterRole name (roleAttributes replication (Some (ro_replication r))) (dr_password role) c1 = Inr (v, c2)"
  shows "c2 = readyRole role replication user c"
proof -
  have c1: "c1 = c\<lparr>cl_members := insert (name, user) (cl_members c)\<rparr>"
    using assms(3) by (auto simp: grantMembership_def changing_def split: if_splits)
  let ?attributes = "roleAttributes replication (Some (ro_replication r))"
  have "c2 = c1\<lparr>cl_roles := (cl_roles c1)(name \<mapsto> r\<lparr>ro_login := True, ro_password := dr_password role,
      ro_replication := (case ?attributes of None \<Rightarrow> ro_replication r | Some b \<Rightarrow> b)\<rparr>)\<rparr>"
    using assms(4) by (simp add: alterRole_def c1 assms(1))
  moreover have "(case ?attributes of None \<Rightarrow> ro_replication r | Some b \<Rightarrow> b) = replication"
    by (rule roleAttributes_alter)
  moreover have "r\<lparr>ro_login := True, ro_password := dr_password role, ro_replication := replication\<rparr> =
      \<lparr> ro_login = True, ro_replication = replication, ro_password = dr_password role \<rparr>"
    by (cases r) simp
  ultimately show ?thesis by (cases c) (simp add: c1 readyRole_def assms(2))
qed

lemma createRole_ready:
  assumes "createRole name (roleAttributes replication None) (dr_password role) c = Inr (u, c1)" and "name = dr_name role"
    and "grantMembership name user c1 = Inr (v, c2)"
  shows "c2 = readyRole role replication user c"
  using assms by (auto simp: createRole_def grantMembership_def changing_def readyRole_def roleAttributes_def split: if_splits)

lemma wlp_ensureLoginRole:
  assumes Q: "\<And>role cx. parseRoleDSN env roleDSN = Some role \<Longrightarrow> connectionOf env adminDSN = Some cx \<Longrightarrow>
      Q role (onServers (atServer (cx_host cx) (readyRole role replication (cx_user cx))) d) k"
  shows "wlp (ensureLoginRole env adminDSN roleDSN replication) (onOk Q) d k"
proof -
  have exists: "Q role (onServers (atServer (cx_host cx) (\<lambda>_. c2)) d) k"
    if "parseRoleDSN env roleDSN = Some role" "connectionOf env adminDSN = Some cx"
      "cl_roles (dp_servers d (cx_host cx)) (dr_name role) = Some r"
      "grantMembership (dr_name role) (cx_user cx) (dp_servers d (cx_host cx)) = Inr (u, c1)"
      "alterRole (dr_name role) (roleAttributes replication (Some (ro_replication r))) (dr_password role) c1 = Inr (v, c2)"
    for role cx r u v c1 c2
    unfolding onServers_at_eq [where f = "readyRole role replication (cx_user cx)", OF alterRole_ready [OF that(3) refl that(4,5)]]
    by (rule Q [OF that(1,2)])
  have fresh: "Q role (onServers (atServer (cx_host cx) (\<lambda>_. c2)) d) k"
    if "parseRoleDSN env roleDSN = Some role" "connectionOf env adminDSN = Some cx"
      "createRole (dr_name role) (roleAttributes replication None) (dr_password role) (dp_servers d (cx_host cx)) = Inr (u, c1)"
      "grantMembership (dr_name role) (cx_user cx) c1 = Inr (v, c2)"
    for role cx u v c1 c2
    unfolding onServers_at_eq [where f = "readyRole role replication (cx_user cx)", OF createRole_ready [OF that(3) refl that(4)]]
    by (rule Q [OF that(1,2)])
  have known: "wlp (thenOk (grantDatabaseAdministratorRoleMembership cx (dr_name role)) (\<lambda>_.
      thenOk (execOn cx (alterRole (dr_name role) (roleAttributes replication (Some (ro_replication r))) (dr_password role))) (\<lambda>_.
      thenOk (ret (Inr ())) (\<lambda>_. ret (Inr role))))) (onOk Q) d k"
    if "parseRoleDSN env roleDSN = Some role" "connectionOf env adminDSN = Some cx"
      "cl_roles (dp_servers d (cx_host cx)) (dr_name role) = Some r" for role cx r
    unfolding grantDatabaseAdministratorRoleMembership_def
    by (intro wlp_thenOk wlp_execOn wlp_ret onOkI) (auto intro: exists [OF that])
  have unknown: "wlp (thenOk (ret (Inr ())) (\<lambda>_.
      thenOk (execOn cx (createRole (dr_name role) (roleAttributes replication None) (dr_password role))) (\<lambda>_.
      thenOk (grantDatabaseAdministratorRoleMembership cx (dr_name role)) (\<lambda>_. ret (Inr role))))) (onOk Q) d k"
    if "parseRoleDSN env roleDSN = Some role" "connectionOf env adminDSN = Some cx" for role cx
    unfolding grantDatabaseAdministratorRoleMembership_def
    by (intro wlp_thenOk wlp_execOn wlp_ret onOkI) (auto intro: fresh [OF that])
  show ?thesis
  proof (cases "parseRoleDSN env roleDSN")
    case None
    then show ?thesis by (simp add: ensureLoginRole_def wlp_refuse)
  next
    case (Some role)
    show ?thesis
      unfolding ensureLoginRole_def Let_def Some option.case
    proof (rule wlp_thenOk, rule wlp_openPostgreSQL, rule wlp_thenOk, rule wlp_readOn, goal_cases)
      case (1 cx)
      then show ?case
        by (cases "cl_roles (dp_servers d (cx_host cx)) (dr_name role)") (simp_all add: known unknown Some)
    qed
  qed
qed

lemma grantTo_Inr:
  "grantTo role present gs c = Inr (u, c') \<Longrightarrow> c' = c\<lparr>cl_grants := gs \<union> cl_grants c\<rparr>"
  by (auto simp: grantTo_def changing_def split: if_splits)

lemma createSchemaOnce_Inr:
  "createSchemaOnce database schema owner c = Inr (u, c') \<Longrightarrow>
     c' = c\<lparr>cl_schemas := (cl_schemas c)((database, schema) \<mapsto>
       (case cl_schemas c (database, schema) of None \<Rightarrow> owner | Some existing \<Rightarrow> existing))\<rparr>"
  by (cases c) (auto simp: createSchemaOnce_def changing_def fun_eq_iff split: if_splits option.splits)

lemma wlp_ensureOwnedSchema:
  assumes Q: "\<And>cx. connectionOf env adminDSN = Some cx \<Longrightarrow>
      Q () (onServers (atServer (cx_host cx) (readySchema (cx_database cx) database schema owner)) d) k"
  shows "wlp (ensureOwnedSchema env adminDSN database schema owner) (onOk Q) d k"
  unfolding ensureOwnedSchema_def
proof (intro wlp_thenOk wlp_openPostgreSQL wlp_execOn, goal_cases)
  case (1 cx a c1 b c2 u c3)
  let ?c = "dp_servers d (cx_host cx)"
  from 1(2) have c1: "c1 = ?c\<lparr>cl_grants := {GrantDatabase database owner} \<union> cl_grants ?c\<rparr>" by (rule grantTo_Inr)
  from 1(3) have c2: "c2 = c1\<lparr>cl_schemas := (cl_schemas c1)((cx_database cx, schema) \<mapsto>
      (case cl_schemas c1 (cx_database cx, schema) of None \<Rightarrow> owner | Some existing \<Rightarrow> existing))\<rparr>"
    by (intro createSchemaOnce_Inr) simp
  from 1(4) have "c3 = c2\<lparr>cl_grants := {GrantUsage (cx_database cx) schema owner, GrantCreate (cx_database cx) schema owner} \<union>
      cl_grants c2\<rparr>" by (intro grantTo_Inr) simp
  then have "c3 = readySchema (cx_database cx) database schema owner ?c"
    by (cases ?c) (simp add: c1 c2 readySchema_def insert_commute)
  from onServers_at_eq [of c3 "readySchema (cx_database cx) database schema owner" d, OF this] Q [OF 1(1)] show ?case by simp
qed

lemma wlp_grants:
  assumes "Q () (onServers (atServer (cx_host cx) (\<lambda>c. c\<lparr>cl_grants := (\<Union>g \<in> set gs. snd (snd g)) \<union> cl_grants c\<rparr>)) d) k"
  shows "wlp (iterOk (\<lambda>(role, present, gs). execOn cx (grantTo role present gs)) gs) (onOk Q) d k"
  using assms
proof (induction gs arbitrary: d)
  case Nil
  then show ?case by (auto intro!: wlp_ret simp: onServers_def atServer_def)
next
  case (Cons g gs)
  obtain role present new where g: "g = (role, present, new)" by (cases g)
  show ?case
    unfolding iterOk.simps g prod.case
  proof (rule wlp_thenOk, rule wlp_execOn, rule Cons.IH)
    fix a c'
    assume "grantTo role present new (dp_servers d (cx_host cx)) = Inr (a, c')"
    from grantTo_Inr [OF this]
    have "onServers (atServer (cx_host cx) (\<lambda>c. c\<lparr>cl_grants := (\<Union>g \<in> set gs. snd (snd g)) \<union> cl_grants c\<rparr>))
        (onServers (atServer (cx_host cx) (\<lambda>_. c')) d) =
      onServers (atServer (cx_host cx) (\<lambda>c. c\<lparr>cl_grants := (\<Union>g \<in> set (g # gs). snd (snd g)) \<union> cl_grants c\<rparr>)) d"
      by (simp add: g onServers_def atServer_def Un_ac)
    with Cons.prems
    show "Q () (onServers (atServer (cx_host cx) (\<lambda>c. c\<lparr>cl_grants := (\<Union>g \<in> set gs. snd (snd g)) \<union> cl_grants c\<rparr>))
        (onServers (atServer (cx_host cx) (\<lambda>_. c')) d)) k"
      by (simp only:)
  qed
qed

lemma wlp_ensurePowerSyncSource:
  assumes Q: "\<And>cx. connectionOf env adminDSN = Some cx \<Longrightarrow> Q () (onServers (atServer (cx_host cx)
      (readySource (cx_database cx) database schemas serviceRole sourceRole publication)) d) k"
  shows "wlp (ensurePowerSyncSource env adminDSN database schemas serviceRole sourceRole publication) (onOk Q) d k"
  unfolding ensurePowerSyncSource_def
proof (rule wlp_thenOk, rule wlp_openPostgreSQL, rule wlp_thenOk, rule wlp_grants, rule wlp_thenOk, rule wlp_readOn, goal_cases)
  case (1 cx)
  let ?c = "dp_servers d (cx_host cx)"
  let ?gs = "\<Union>g \<in> set (sourceGrants (cx_database cx) database schemas serviceRole sourceRole). snd (snd g)"
  let ?d = "onServers (atServer (cx_host cx) (\<lambda>c. c\<lparr>cl_grants := ?gs \<union> cl_grants c\<rparr>)) d"
  have published: "Q () ?d k" if "cl_publications ?c (cx_database cx, publication) = Some True"
  proof -
    have "readySource (cx_database cx) database schemas serviceRole sourceRole publication ?c = ?c\<lparr>cl_grants := ?gs \<union> cl_grants ?c\<rparr>"
      using that by (cases ?c) (simp add: readySource_def fun_upd_idem)
    with Q [OF 1] show ?thesis by (simp add: onServers_def atServer_def)
  qed
  have publish: "wlp (execOn cx (createPublication (cx_database cx) publication)) (onOk Q) ?d k"
  proof (rule wlp_execOn)
    fix a c'
    assume "createPublication (cx_database cx) publication (dp_servers ?d (cx_host cx)) = Inr (a, c')"
    then have "c' = readySource (cx_database cx) database schemas serviceRole sourceRole publication ?c"
      by (cases ?c) (auto simp: createPublication_def changing_def readySource_def split: if_splits)
    with Q [OF 1] show "Q a (onServers (atServer (cx_host cx) (\<lambda>_. c')) ?d) k"
      by (simp add: onServers_def atServer_def)
  qed
  show ?case
    by (auto intro!: wlp_ret wlp_thenOk wlp_readOn wlp_refuse publish published)
qed

lemma database_ready:
  "createDatabase database owner c = Inr (u, c') \<Longrightarrow> c' = readyDatabase database owner c"
  "alterDatabaseOwner database owner c = Inr (u, c') \<Longrightarrow> c' = readyDatabase database owner c"
  by (auto simp: createDatabase_def alterDatabaseOwner_def changing_def readyDatabase_def split: if_splits)

lemma wlp_ensurePostgreSQLDatabase:
  assumes Q: "\<And>cx. connectionOf env adminDSN = Some cx \<Longrightarrow>
      Q () (onServers (atServer (cx_host cx) (readyDatabase database owner)) d) k"
  shows "wlp (ensurePostgreSQLDatabase env adminDSN database owner) (onOk Q) d k"
  unfolding ensurePostgreSQLDatabase_def
proof (rule wlp_thenOk, rule wlp_openPostgreSQL, rule wlp_thenOk, rule wlp_readOn, goal_cases)
  case (1 cx)
  let ?c = "dp_servers d (cx_host cx)"
  have change: "wlp (execOn cx q) (onOk Q) d k" if "\<And>a c'. q ?c = Inr (a, c') \<Longrightarrow> c' = readyDatabase database owner ?c" for q
  proof (rule wlp_execOn)
    fix a c'
    assume "q ?c = Inr (a, c')"
    from onServers_at_eq [of c' "readyDatabase database owner" d "cx_host cx", OF that [OF this]] Q [OF 1]
    show "Q a (onServers (atServer (cx_host cx) (\<lambda>_. c')) d) k" by simp
  qed
  have kept: "Q () d k" if "cl_databases ?c database = Some owner"
  proof -
    have "readyDatabase database owner ?c = ?c" using that by (cases ?c) (simp add: readyDatabase_def fun_upd_idem)
    with Q [OF 1] show ?thesis by (simp add: onServers_def atServer_def)
  qed
  have "wlp (databaseIsEmpty env adminDSN database) (onOk (\<lambda>empty. wlp (if \<not> empty then refuse
      else execOn cx (alterDatabaseOwner database owner)) (onOk Q))) d k"
    unfolding databaseIsEmpty_def
    by (intro wlp_case_option wlp_refuse wlp_thenOk wlp_openPostgreSQL wlp_readOn)
       (auto intro!: wlp_ret wlp_refuse change dest: database_ready)
  then show ?case
    by (auto intro!: wlp_ret wlp_thenOk kept change split: option.split dest: database_ready)
qed

text \<open>The migrations change the service's own database only.\<close>

lemma migrationBody_servers: "migrationBody script service ms d d' \<Longrightarrow> dp_servers d' = dp_servers d"
  by (cases d, cases d') (auto simp: migrationBody_def)

lemma wlp_runMigrations:
  assumes Q: "\<And>d'. dp_servers d' = dp_servers d \<Longrightarrow> migrationBody script (serviceName kind) ms d d' \<Longrightarrow> Q () d' None"
  shows "wlp (runMigrations urls script deferred ms c kind) (onOk Q) d k"
proof -
  have migrated: "Q () d' None" if "migrationBody script (serviceName kind) ms d d'" for d'
    using migrationBody_servers [OF that] that by (rule Q)
  have "wlp (migrateServicePostgreSQL script deferred (serviceName kind) ms None) (onOk Q) d k"
    unfolding migrateServicePostgreSQL_def pingDatabase_def
    by (intro wlp_thenOk wlp_db_exec_ok)
       (auto simp: reading_Inr intro!: wlp_applyWithSystem migrated)
  then show ?thesis
    unfolding runMigrations_def by (intro wlp_case_option wlp_refuse)
qed

definition migratedTo :: "(string \<Rightarrow> 'd \<Rightarrow> 'd option) \<Rightarrow> process_kind \<Rightarrow> string list \<Rightarrow> 'd deployment \<Rightarrow> 'd deployment \<Rightarrow> bool" where
  "migratedTo script kind ms d d' \<longleftrightarrow> (\<exists>k \<le> length ms. hasVersions (serviceName kind) k d \<and>
     hasVersions (serviceName kind) (length ms) d' \<and> runAll script (drop k ms) (contents d) = Some (contents d'))"

lemma hasVersions_onServers [simp]: "hasVersions service k (onServers f d) = hasVersions service k d"
  by (simp add: hasVersions_def migrationKeys_def migrationRows_def)

lemma wlp_runInitialization:
  "wlp (runInitialization env urls script deferred ms c kind)
     (onOk (\<lambda>_ d' _. \<exists>p. planOf env c = Some p \<and> dp_servers d' = readyServers c p (dp_servers d) \<and> migratedTo script kind ms d d')) d k"
  unfolding runInitialization_def
proof (rule wlp_thenOk, rule wlp_ensureLoginRole, rule wlp_thenOk, rule wlp_ensureOwnedSchema, rule wlp_thenOk,
    rule wlp_runMigrations, rule wlp_thenOk, rule wlp_ensureLoginRole, rule wlp_thenOk, rule wlp_ensurePowerSyncSource,
    rule wlp_thenOk, rule wlp_ensureLoginRole, rule wlp_ensurePostgreSQLDatabase, goal_cases)
  case (1 service cx cx1 d2 source cx2 cx3 storageRole cx4 cx5)
  have admin: "cx1 = cx" "cx2 = cx" "cx3 = cx" "cx5 = cx4" using 1(2,3,7,8,10,11) by simp_all
  let ?p = "\<lparr> ip_admin = cx, ip_storage_admin = cx4, ip_service = service, ip_source = source, ip_storage = storageRole \<rparr>"
  have plan: "planOf env c = Some ?p" using 1 by (simp add: planOf_def)
  have migrated: "migratedTo script kind ms d d2" using 1(5) by (auto simp: migrationBody_def migratedTo_def)
  show ?case
    by (intro exI [of _ ?p] conjI plan)
       (use migrated 1(4) in \<open>simp_all add: admin readyServers_def readyAdmin_def readyStorage_def migratedTo_def atServer_twice o_assoc\<close>)
qed

text \<open>C38: When the initialization job returns without an error, the servers are exactly what the
  specification makes of them (the login roles with their passwords and replication attributes, the owned
  schema, the grants to the PowerSync source, the publication, the storage database and its owner), and
  the service's database has been migrated to its last version.\<close>

theorem initialization_refines:
  assumes "runInitialization env urls script deferred ms c kind w = (Val (Inr u), w')"
  shows "\<exists>p. planOf env c = Some p \<and> dp_servers (committed w') = readyServers c p (dp_servers (committed w)) \<and>
    migratedTo script kind ms (committed w) (committed w')"
  using wlpD [OF wlp_runInitialization assms] by simp

subsection \<open>Running it again\<close>

lemma readyRole_sel [simp]:
  "cl_roles (readyRole role replication user c) = (cl_roles c)(dr_name role \<mapsto>
     \<lparr> ro_login = True, ro_replication = replication, ro_password = dr_password role \<rparr>)"
  "cl_members (readyRole role replication user c) = insert (dr_name role, user) (cl_members c)"
  "cl_databases (readyRole role replication user c) = cl_databases c"
  "cl_relations (readyRole role replication user c) = cl_relations c"
  "cl_schemas (readyRole role replication user c) = cl_schemas c"
  "cl_grants (readyRole role replication user c) = cl_grants c"
  "cl_publications (readyRole role replication user c) = cl_publications c"
  by (simp_all add: readyRole_def)

lemma readySchema_sel [simp]:
  "cl_roles (readySchema home database schema owner c) = cl_roles c"
  "cl_members (readySchema home database schema owner c) = cl_members c"
  "cl_databases (readySchema home database schema owner c) = cl_databases c"
  "cl_relations (readySchema home database schema owner c) = cl_relations c"
  "cl_schemas (readySchema home database schema owner c) = (cl_schemas c)((home, schema) \<mapsto>
     (case cl_schemas c (home, schema) of None \<Rightarrow> owner | Some existing \<Rightarrow> existing))"
  "cl_grants (readySchema home database schema owner c) =
     {GrantUsage home schema owner, GrantCreate home schema owner, GrantDatabase database owner} \<union> cl_grants c"
  "cl_publications (readySchema home database schema owner c) = cl_publications c"
  by (simp_all add: readySchema_def)

lemma readySource_sel [simp]:
  "cl_roles (readySource home database schemas serviceRole sourceRole publication c) = cl_roles c"
  "cl_members (readySource home database schemas serviceRole sourceRole publication c) = cl_members c"
  "cl_databases (readySource home database schemas serviceRole sourceRole publication c) = cl_databases c"
  "cl_relations (readySource home database schemas serviceRole sourceRole publication c) = cl_relations c"
  "cl_schemas (readySource home database schemas serviceRole sourceRole publication c) = cl_schemas c"
  "cl_grants (readySource home database schemas serviceRole sourceRole publication c) =
     (\<Union>g \<in> set (sourceGrants home database schemas serviceRole sourceRole). snd (snd g)) \<union> cl_grants c"
  "cl_publications (readySource home database schemas serviceRole sourceRole publication c) =
     (cl_publications c)((home, publication) \<mapsto> True)"
  by (simp_all add: readySource_def)

lemma readyDatabase_sel [simp]:
  "cl_roles (readyDatabase database owner c) = cl_roles c"
  "cl_members (readyDatabase database owner c) = cl_members c"
  "cl_databases (readyDatabase database owner c) = (cl_databases c)(database \<mapsto> owner)"
  "cl_relations (readyDatabase database owner c) = cl_relations c"
  "cl_schemas (readyDatabase database owner c) = cl_schemas c"
  "cl_grants (readyDatabase database owner c) = cl_grants c"
  "cl_publications (readyDatabase database owner c) = cl_publications c"
  by (simp_all add: readyDatabase_def)

lemma cluster_eqI:
  fixes c c' :: cluster
  assumes "cl_roles c = cl_roles c'" and "cl_members c = cl_members c'" and "cl_databases c = cl_databases c'"
    and "cl_relations c = cl_relations c'" and "cl_schemas c = cl_schemas c'" and "cl_grants c = cl_grants c'"
    and "cl_publications c = cl_publications c'"
  shows "c = c'"
  using assms by (cases c, cases c') simp

lemma readyAdmin_again: "readyAdmin cf p (readyAdmin cf p c) = readyAdmin cf p c"
  by (rule cluster_eqI) (auto simp: readyAdmin_def fun_eq_iff)

lemma readyStorage_again: "readyStorage p (readyStorage p c) = readyStorage p c"
  by (rule cluster_eqI) (auto simp: readyStorage_def fun_eq_iff)

lemma readyBoth_again:
  "readyStorage p (readyAdmin cf p (readyStorage p (readyAdmin cf p c))) = readyStorage p (readyAdmin cf p c)"
  by (rule cluster_eqI) (auto simp: readyAdmin_def readyStorage_def fun_eq_iff)

lemma readyServers_again: "readyServers cf p (readyServers cf p servers) = readyServers cf p servers"
  by (cases "cx_host (ip_storage_admin p) = cx_host (ip_admin p)")
     (simp_all add: readyServers_def atServer_def fun_upd_twist readyAdmin_again readyStorage_again readyBoth_again)

text \<open>C39: The job can be run again: after one run that succeeded, another one with the same configuration that
  succeeds leaves every server and the contents of the database as they are, whatever had been on the
  servers before the first.\<close>

theorem initialization_repeatable:
  assumes "runInitialization env urls script deferred ms c kind w = (Val (Inr u), w1)"
    and "committed w2 = committed w1"
    and "runInitialization env urls script deferred ms c kind w2 = (Val (Inr v), w3)"
  shows "dp_servers (committed w3) = dp_servers (committed w1) \<and> contents (committed w3) = contents (committed w1)"
proof -
  from wlpD [OF wlp_runInitialization assms(1)] obtain p where p: "planOf env c = Some p"
    "dp_servers (committed w1) = readyServers c p (dp_servers (committed w))" "migratedTo script kind ms (committed w) (committed w1)"
    by auto
  from wlpD [OF wlp_runInitialization assms(3)] p(1) have again:
    "dp_servers (committed w3) = readyServers c p (dp_servers (committed w1))" "migratedTo script kind ms (committed w1) (committed w3)"
    by (auto simp: assms(2))
  from again(2) obtain k where k: "k \<le> length ms" "hasVersions (serviceName kind) k (committed w1)"
    "runAll script (drop k ms) (contents (committed w1)) = Some (contents (committed w3))" by (auto simp: migratedTo_def)
  have "hasVersions (serviceName kind) (length ms) (committed w1)" using p(3) by (auto simp: migratedTo_def)
  with k(2) have "k = length ms" by (rule hasVersions_unique)
  with k(3) p(2) again(1) show ?thesis by (simp add: readyServers_again)
qed

text \<open>After the job the PowerSync source role can log in with its password and replicate, may use every
  configured schema and read its tables, those of the service created later included, and the publication
  covers all tables; the storage role owns the storage database, and cannot replicate. This needs the
  storage role to be another role than the source role where they are on one server.\<close>

lemma powersync_prepared:
  assumes "runInitialization env urls script deferred ms c kind w = (Val (Inr u), w')" and "planOf env c = Some p"
    and "cx_host (ip_storage_admin p) \<noteq> cx_host (ip_admin p) \<or> dr_name (ip_storage p) \<noteq> dr_name (ip_source p)"
  shows "let source = dp_servers (committed w') (cx_host (ip_admin p)); home = cx_database (ip_admin p);
      store = dp_servers (committed w') (cx_host (ip_storage_admin p)) in
    cl_roles source (dr_name (ip_source p)) =
      Some \<lparr> ro_login = True, ro_replication = True, ro_password = dr_password (ip_source p) \<rparr> \<and>
    list_all (\<lambda>schema. {GrantUsage home schema (dr_name (ip_source p)), GrantSelect home schema (dr_name (ip_source p)),
        GrantSelectDefault home schema (dr_name (ip_service p)) (dr_name (ip_source p))} \<subseteq> cl_grants source) (ic_source_schemas c) \<and>
    cl_publications source (home, ic_publication c) = Some True \<and>
    cl_schemas source (home, ic_schema c) \<noteq> None \<and>
    cl_databases store (dr_database (ip_storage p)) = Some (dr_name (ip_storage p)) \<and>
    cl_roles store (dr_name (ip_storage p)) =
      Some \<lparr> ro_login = True, ro_replication = False, ro_password = dr_password (ip_storage p) \<rparr>"
proof -
  from wlpD [OF wlp_runInitialization assms(1)] assms(2)
  have servers: "dp_servers (committed w') = readyServers c p (dp_servers (committed w))" by auto
  have grants: "list_all (\<lambda>schema. {GrantUsage home schema (dr_name (ip_source p)), GrantSelect home schema (dr_name (ip_source p)),
        GrantSelectDefault home schema (dr_name (ip_service p)) (dr_name (ip_source p))} \<subseteq> gs)
      (ic_source_schemas c)"
    if "(\<Union>g \<in> set (sourceGrants home (dr_database (ip_source p)) (ic_source_schemas c) (dr_name (ip_service p)) (dr_name (ip_source p))). snd (snd g)) \<subseteq> gs"
    for home gs
    using that by (force simp: list_all_iff sourceGrants_def)
  show ?thesis
    unfolding Let_def
    by (intro conjI grants)
       (use assms(3) in \<open>auto simp: servers readyServers_def readyAdmin_def readyStorage_def atServer_def\<close>)
qed

text \<open>With one role for both, the source role ends without the right to replicate.\<close>

lemma shared_role_cannot_replicate:
  assumes "runInitialization env urls script deferred ms c kind w = (Val (Inr u), w')" and "planOf env c = Some p"
    and "cx_host (ip_storage_admin p) = cx_host (ip_admin p)" and "dr_name (ip_storage p) = dr_name (ip_source p)"
  shows "map_option ro_replication (cl_roles (dp_servers (committed w') (cx_host (ip_admin p))) (dr_name (ip_source p))) = Some False"
  using wlpD [OF wlp_runInitialization assms(1)] assms(2-4)
  by (auto simp: readyServers_def readyStorage_def atServer_def)

subsection \<open>A run\<close>

definition demo_dsn :: "string \<Rightarrow> string \<Rightarrow> string \<Rightarrow> init_url" where
  "demo_dsn host user database = \<lparr> iu_scheme = ''postgres'', iu_host = host, iu_user = Some (user, Some ''pw''), iu_path = CHR ''/'' # database \<rparr>"

definition demo_init_env :: init_env where
  "demo_init_env = \<lparr> ie_parse = (\<lambda>dsn. if dsn = ''admin'' then Some (demo_dsn ''h'' ''root'' ''app'')
       else if dsn = ''service'' then Some (demo_dsn ''h'' ''svc'' ''app'')
       else if dsn = ''source'' then Some (demo_dsn ''h'' ''sync'' ''app'')
       else if dsn = ''storageadmin'' then Some (demo_dsn ''h'' ''root'' ''app'')
       else if dsn = ''storage'' then Some (demo_dsn ''h'' ''keep'' ''buckets'') else None),
     ie_render = iu_host \<rparr>"

definition demo_init :: init_config where
  "demo_init = \<lparr> ic_version = 1, ic_process = GizPay, ic_region = [], ic_admin_dsn = ''admin'', ic_service_dsn = ''service'',
     ic_schema = ''pay'', ic_publication = ''sync'', ic_source_schemas = [''pay''], ic_source_dsn = ''source'',
     ic_storage_admin_dsn = ''storageadmin'', ic_storage_dsn = ''storage'' \<rparr>"

definition demo_cluster :: cluster where
  "demo_cluster = \<lparr> cl_roles = [''root'' \<mapsto> \<lparr> ro_login = True, ro_replication = False, ro_password = [] \<rparr>], cl_members = {},
     cl_databases = [''app'' \<mapsto> ''root''], cl_relations = (\<lambda>_. 0), cl_schemas = (\<lambda>_. None), cl_grants = {}, cl_publications = (\<lambda>_. None) \<rparr>"

definition demo_fleet :: "unit fleet" where
  "demo_fleet = \<lparr> committed = \<lparr> migration_history = None, contents = (), dp_servers = (\<lambda>_. demo_cluster) \<rparr>, working = None,
     fault = (\<lambda>_. False), fault_n = 0, uuid = (\<lambda>_. []), uuid_n = 0, now = 5 \<rparr>"

definition demo_job :: "(unit fleet, sqlerr + unit) act" where
  "demo_job = runInitialization demo_init_env (\<lambda>dsn schema. Some dsn) (\<lambda>_ _. Some ()) (\<lambda>_ _. True) [''schema''] demo_init GizPay"

lemma demo_job_runs: "fst (demo_job demo_fleet) = Val (Inr ())"
  by code_simp

lemma demo_job_again: "fst (demo_job (snd (demo_job demo_fleet))) = Val (Inr ())"
  by code_simp

lemma demo_plan: "planOf demo_init_env demo_init = Some \<lparr> ip_admin = \<lparr> cx_host = ''h'', cx_database = ''app'', cx_user = ''root'' \<rparr>,
   ip_storage_admin = \<lparr> cx_host = ''h'', cx_database = ''app'', cx_user = ''root'' \<rparr>,
   ip_service = \<lparr> dr_name = ''svc'', dr_password = ''pw'', dr_database = ''app'' \<rparr>,
   ip_source = \<lparr> dr_name = ''sync'', dr_password = ''pw'', dr_database = ''app'' \<rparr>,
   ip_storage = \<lparr> dr_name = ''keep'', dr_password = ''pw'', dr_database = ''buckets'' \<rparr> \<rparr>"
  by code_simp

lemma demo_accepted: "loadInitConfig demo_init_env (\<lambda>_. Some demo_init) ''init.yaml'' GizPay = Inr demo_init"
  by code_simp

lemma demo_job_run:
  "runInitialization demo_init_env (\<lambda>dsn schema. Some dsn) (\<lambda>_ _. Some ()) (\<lambda>_ _. True) [''schema''] demo_init GizPay demo_fleet =
     (Val (Inr ()), snd (demo_job demo_fleet))"
  "runInitialization demo_init_env (\<lambda>dsn schema. Some dsn) (\<lambda>_ _. Some ()) (\<lambda>_ _. True) [''schema''] demo_init GizPay
     (snd (demo_job demo_fleet)) = (Val (Inr ()), snd (demo_job (snd (demo_job demo_fleet))))"
  using demo_job_runs demo_job_again unfolding demo_job_def by (metis prod.collapse)+

theorem initialization_refines_witness:
  "migratedTo (\<lambda>_ _. Some ()) GizPay [''schema''] (committed demo_fleet) (committed (snd (demo_job demo_fleet)))"
  using initialization_refines [OF demo_job_run(1)] by blast

theorem initialization_repeatable_witness:
  "dp_servers (committed (snd (demo_job (snd (demo_job demo_fleet))))) = dp_servers (committed (snd (demo_job demo_fleet)))"
  using initialization_repeatable [OF demo_job_run(1) refl demo_job_run(2)] by (rule conjunct1)

lemma powersync_prepared_witness:
  "map_option ro_replication (cl_roles (dp_servers (committed (snd (demo_job demo_fleet))) ''h'') ''sync'') = Some True"
  using powersync_prepared [OF demo_job_run(1) demo_plan] by (simp add: Let_def)

end
