(* ===== verification/Server.thy ===== *)
theory Server
  imports PayRoutes
begin

section \<open>The server\<close>

text \<open>
  \<open>internal/api\<close>: the route table of the two services, the health probe, the clock of the test servers and
  the middleware in front of them, with the part of \<open>net/http\<close>'s \<open>ServeMux\<close> that the patterns use. The
  business handler is a parameter (\<open>servePay\<close>, \<open>serveWay\<close>). Paths are given decoded and clean: the
  redirect of the mux for an unclean path, and segments with an encoded slash, are not modelled.
\<close>

subsection \<open>Patterns\<close>

datatype segment = Lit string | Wild string

type_synonym route = "httpMethod \<times> segment list"

definition methodOf :: "string \<Rightarrow> httpMethod" where
  "methodOf m = (if m = ''GET'' then GET else if m = ''POST'' then POST else if m = ''PUT'' then PUT
     else if m = ''PATCH'' then PATCH else if m = ''DELETE'' then DELETE else OtherMethod)"

definition parseSegment :: "string \<Rightarrow> segment" where
  "parseSegment s = (if s \<noteq> [] \<and> hd s = CHR ''{'' \<and> last s = CHR ''}'' then Wild (butlast (tl s)) else Lit s)"

text \<open>A pattern is a method, a blank and a path.\<close>

definition parseRoute :: "string \<Rightarrow> route" where
  "parseRoute pattern = (case splitOn (CHR '' '') pattern of
      [m, path] \<Rightarrow> (methodOf m, map parseSegment (splitOn (CHR ''/'') path))
    | _ \<Rightarrow> (OtherMethod, []))"

text \<open>A wildcard matches one segment that is not empty; a \<open>GET\<close> pattern also matches \<open>HEAD\<close>, which is one of
  the other methods: \<open>head\<close> says whether it is this one.\<close>

definition segmentMatches :: "segment \<Rightarrow> string \<Rightarrow> bool" where
  "segmentMatches p s = (case p of Lit l \<Rightarrow> s = l | Wild n \<Rightarrow> s \<noteq> [])"

definition pathMatches :: "segment list \<Rightarrow> string \<Rightarrow> bool" where
  "pathMatches ps path = list_all2 segmentMatches ps (splitOn (CHR ''/'') path)"

definition methodMatches :: "httpMethod \<Rightarrow> bool \<Rightarrow> http_request \<Rightarrow> bool" where
  "methodMatches m head r = (m = rq_method r \<or> m = GET \<and> head \<and> rq_method r = OtherMethod)"

definition routeMatches :: "bool \<Rightarrow> http_request \<Rightarrow> route \<Rightarrow> bool" where
  "routeMatches head r p = (methodMatches (fst p) head r \<and> pathMatches (snd p) (rq_path r))"

text \<open>\<open>r.PathValue\<close>.\<close>

fun captured :: "segment list \<Rightarrow> string list \<Rightarrow> string \<Rightarrow> string" where
  "captured (Wild n # ps) (s # ss) name = (if n = name then s else captured ps ss name)"
| "captured (Lit l # ps) (s # ss) name = captured ps ss name"
| "captured _ _ name = []"

subsection \<open>The route table\<close>

definition sharedRoutes :: "string list" where
  "sharedRoutes =
     [''POST /webhooks/v1/zitadel/user-authenticated'',
      ''GET /account/v1/accounts'',
      ''GET /account/v1/accounts/{account_id}/balance'',
      ''GET /account/v1/accounts/{account_id}/transactions'',
      ''GET /account/v1/accounts/{account_id}/charges'',
      ''GET /account/v1/accounts/{account_id}/topups'',
      ''POST /account/v1/accounts/{account_id}/topups'',
      ''GET /account/v1/service-accounts'',
      ''POST /account/v1/service-accounts'',
      ''DELETE /account/v1/service-accounts/{service_account_id}'',
      ''GET /account/v1/merchants'',
      ''POST /account/v1/merchants'',
      ''GET /account/v1/merchants/{merchant_id}'',
      ''PATCH /account/v1/merchants/{merchant_id}'',
      ''GET /account/v1/merchants/{merchant_id}/products'',
      ''POST /account/v1/merchants/{merchant_id}/products'',
      ''GET /account/v1/products'',
      ''GET /account/v1/products/{product_id}'',
      ''PATCH /account/v1/products/{product_id}'',
      ''POST /account/v1/products/{product_id}/subscriptions'',
      ''GET /account/v1/subscriptions'',
      ''GET /account/v1/subscriptions/{subscription_id}'',
      ''PATCH /account/v1/subscriptions/{subscription_id}'',
      ''GET /account/v1/subscriptions/{subscription_id}/keys'',
      ''POST /account/v1/subscriptions/{subscription_id}/keys'',
      ''GET /account/v1/subscriptions/{subscription_id}/keys/{subscription_key_id}'',
      ''POST /account/v1/subscriptions/{subscription_id}/keys/{subscription_key_id}/revoke'',
      ''POST /service/v1/subscription-credit-checks'',
      ''POST /service/v1/payg-charges'',
      ''GET /service/v1/payg-charges/{external_order_id}'',
      ''POST /user/v1/providers/{provider_id}/keys'',
      ''PUT /user/v1/provider-keys/{provider_key_id}/prices'',
      ''POST /user/v1/provider-keys/{provider_key_id}/disable'',
      ''GET /auth/catalog-token'',
      ''GET /auth/runtime-config'',
      ''GET /openai/v1/models'',
      ''POST /openai/v1/chat/completions'',
      ''POST /anthropic/v1/messages'',
      ''POST /genai/v1beta/models/{model}:generateContent'',
      ''POST /genai/v1beta/models/{model}:streamGenerateContent'',
      ''POST /openai/v1/realtime/client_secrets'',
      ''GET /openai/v1/realtime'']"

definition surfaceRoutes :: "surface \<Rightarrow> string list" where
  "surfaceRoutes surf = (case surf of
    SurfaceGizPay \<Rightarrow>
     [''POST /admin/v1/products'',
      ''GET /admin/v1/products'',
      ''GET /admin/v1/products/{product_id}'',
      ''PATCH /admin/v1/products/{product_id}'',
      ''DELETE /admin/v1/products/{product_id}'',
      ''POST /admin/v1/product-listings'',
      ''GET /admin/v1/product-listings'',
      ''GET /admin/v1/product-listings/{product_listing_id}'',
      ''PATCH /admin/v1/product-listings/{product_listing_id}'',
      ''DELETE /admin/v1/product-listings/{product_listing_id}'',
      ''POST /admin/v1/service-principals'',
      ''GET /admin/v1/service-principals'',
      ''GET /admin/v1/service-principals/{service_principal_id}'',
      ''PATCH /admin/v1/service-principals/{service_principal_id}'',
      ''DELETE /admin/v1/service-principals/{service_principal_id}'']
  | SurfaceGizWay \<Rightarrow>
     [''POST /admin/v1/providers'',
      ''GET /admin/v1/providers'',
      ''GET /admin/v1/providers/{provider_id}'',
      ''PATCH /admin/v1/providers/{provider_id}'',
      ''DELETE /admin/v1/providers/{provider_id}'',
      ''POST /admin/v1/models'',
      ''GET /admin/v1/models'',
      ''GET /admin/v1/models/{model_id}'',
      ''PATCH /admin/v1/models/{model_id}'',
      ''DELETE /admin/v1/models/{model_id}'',
      ''GET /admin/v1/models/{model_id}/customer-prices'',
      ''PUT /admin/v1/models/{model_id}/customer-prices'',
      ''POST /admin/v1/model-listings'',
      ''GET /admin/v1/model-listings'',
      ''GET /admin/v1/model-listings/{model_listing_id}'',
      ''PATCH /admin/v1/model-listings/{model_listing_id}'',
      ''DELETE /admin/v1/model-listings/{model_listing_id}'',
      ''POST /admin/v1/provider-keys'',
      ''GET /admin/v1/provider-keys'',
      ''GET /admin/v1/provider-keys/{provider_key_id}'',
      ''PATCH /admin/v1/provider-keys/{provider_key_id}'',
      ''DELETE /admin/v1/provider-keys/{provider_key_id}'',
      ''POST /admin/v1/provider-keys/{provider_key_id}/rotate-secret'',
      ''GET /admin/v1/provider-keys/{provider_key_id}/prices'',
      ''PUT /admin/v1/provider-keys/{provider_key_id}/prices''])"

text \<open>What a pattern dispatches to: the business handler, or the check of a Gemini operation before it.\<close>

datatype endpoint = Business | GeminiOperation | Health | AdvanceClock

definition isGemini :: "string \<Rightarrow> bool" where
  "isGemini route = hasPrefix route ''POST /genai/''"

text \<open>The two Gemini routes are registered once, with one wildcard.\<close>

definition registerRoutes :: "surface \<Rightarrow> (route \<times> endpoint) list" where
  "registerRoutes surf =
     (let routes = sharedRoutes @ surfaceRoutes surf in
      map (\<lambda>route. (parseRoute route, Business)) (filter (\<lambda>route. \<not> isGemini route) routes) @
      (if list_ex isGemini routes then [(parseRoute ''POST /genai/v1beta/models/{operation}'', GeminiOperation)] else []))"

definition routeTable :: "surface \<Rightarrow> bool \<Rightarrow> (route \<times> endpoint) list" where
  "routeTable surf advance =
     [(parseRoute ''GET /healthz'', Health)] @
     (if advance then [(parseRoute ''POST /test/v1/clock/advance'', AdvanceClock)] else []) @ registerRoutes surf"

subsection \<open>The handlers of the server itself\<close>

record build_info =
  bi_version :: string
  bi_revision :: string
  bi_time :: string

definition fallback :: "string \<Rightarrow> string \<Rightarrow> string" where
  "fallback value replacement = (if trimSpace value = [] then replacement else value)"

definition currentBuild :: "build_info \<Rightarrow> build_info" where
  "currentBuild b = \<lparr> bi_version = fallback (bi_version b) ''devel'', bi_revision = fallback (bi_revision b) ''unknown'',
     bi_time = fallback (bi_time b) ''unknown'' \<rparr>"

definition surfaceName :: "surface \<Rightarrow> string" where
  "surfaceName surf = (case surf of SurfaceGizPay \<Rightarrow> ''gizpay'' | SurfaceGizWay \<Rightarrow> ''gizway'')"

record 's api_server =
  as_surface :: surface
  as_build :: build_info
  as_clock :: "'s \<Rightarrow> time"
  as_advance :: "(duration \<Rightarrow> 's \<Rightarrow> 's) option"
  as_business :: "(http_request \<Rightarrow> ('s, response) act) option"
  as_duration :: "string \<Rightarrow> duration option"
  as_body :: "string \<Rightarrow> (string \<times> int) option"

definition newMilestone03 ::
  "surface \<Rightarrow> build_info \<Rightarrow> (http_request \<Rightarrow> ('s, response) act) option \<Rightarrow> (duration \<Rightarrow> 's \<Rightarrow> 's) option \<Rightarrow> ('s \<Rightarrow> time) \<Rightarrow>
     (string \<Rightarrow> duration option) \<Rightarrow> (string \<Rightarrow> (string \<times> int) option) \<Rightarrow> 's api_server" where
  "newMilestone03 surf build business advance clock parse decode =
     \<lparr> as_surface = surf, as_build = currentBuild build, as_clock = clock, as_advance = advance, as_business = business,
       as_duration = parse, as_body = decode \<rparr>"

definition health :: "'s api_server \<Rightarrow> ('s, response) act" where
  "health srv = bnd (gets (as_clock srv)) (\<lambda>t.
     ret (writeJSON 200 (JObj [(''status'', JStr ''healthy''), (''service'', JStr (surfaceName (as_surface srv))),
       (''version'', JStr (bi_version (as_build srv))), (''revision'', JStr (bi_revision (as_build srv))),
       (''build_time'', JStr (bi_time (as_build srv))), (''server_time'', JTime t)])))"

text \<open>The business handler sees the request with the values that the pattern has captured.\<close>

definition runBusiness :: "'s api_server \<Rightarrow> http_request \<Rightarrow> ('s, response) act" where
  "runBusiness srv r =
     (case as_business srv of
        Some handler \<Rightarrow> handler r
      | None \<Rightarrow> ret (errorJSON 501 ''not_implemented'' ''Milestone 03 handler is not implemented yet''))"

definition geminiOperation :: "'s api_server \<Rightarrow> http_request \<Rightarrow> ('s, response) act" where
  "geminiOperation srv r =
     (let operation = path_value r ''operation'' in
      case cutSuffix operation '':generateContent'' of
        Some (m # ms) \<Rightarrow> runBusiness srv r
      | _ \<Rightarrow> (case cutSuffix operation '':streamGenerateContent'' of
          Some (m # ms) \<Rightarrow> runBusiness srv r
        | _ \<Rightarrow> ret (writeHeader 404)))"

definition advanceStoryClock :: "'s api_server \<Rightarrow> http_request \<Rightarrow> ('s, response) act" where
  "advanceStoryClock srv r =
     (case as_advance srv of
        None \<Rightarrow> ret (writeHeader 404)
      | Some advance \<Rightarrow>
          (case as_body srv (rq_body r) of
             None \<Rightarrow> ret (errorJSON 400 ''invalid_request'' ''invalid JSON body'')
           | Some (text, seconds) \<Rightarrow>
               (case (if text \<noteq> [] then as_duration srv text else Some (wrap64 (seconds * second))) of
                  None \<Rightarrow> ret (errorJSON 400 ''invalid_duration'' ''duration must be non-negative'')
                | Some d \<Rightarrow>
                    if d < 0 then ret (errorJSON 400 ''invalid_duration'' ''duration must be non-negative'')
                    else (\<lambda>s. ret (writeHeader 204) (advance d s)))))"

definition serveEndpoint :: "'s api_server \<Rightarrow> endpoint \<Rightarrow> http_request \<Rightarrow> ('s, response) act" where
  "serveEndpoint srv e r =
     (case e of Business \<Rightarrow> runBusiness srv r | GeminiOperation \<Rightarrow> geminiOperation srv r | Health \<Rightarrow> health srv
      | AdvanceClock \<Rightarrow> advanceStoryClock srv r)"

text \<open>\<open>ServeMux\<close>: the pattern that matches; a path that only other methods match is answered with 405.\<close>

definition serveMux :: "(route \<times> endpoint) list \<Rightarrow> (endpoint \<Rightarrow> http_request \<Rightarrow> ('s, response) act) \<Rightarrow> bool \<Rightarrow>
    http_request \<Rightarrow> ('s, response) act" where
  "serveMux table serve head r =
     (case find (\<lambda>p. routeMatches head r (fst p)) table of
        Some (route, e) \<Rightarrow> serve e (r\<lparr>path_value := captured (snd route) (splitOn (CHR ''/'') (rq_path r))\<rparr>)
      | None \<Rightarrow> ret (writeHeader (if list_ex (\<lambda>p. pathMatches (snd (fst p)) (rq_path r)) table then 405 else 404)))"

text \<open>\<open>recoverMiddleware\<close> answers a panic with 500; no definition here panics. \<open>requestIDMiddleware\<close> is the identity.\<close>

definition serverHandler :: "'s api_server \<Rightarrow> bool \<Rightarrow> http_request \<Rightarrow> ('s, response) act" where
  "serverHandler srv head =
     surfaceHandler (as_surface srv)
       (serveMux (routeTable (as_surface srv) (as_advance srv \<noteq> None)) (serveEndpoint srv) head)"

subsection \<open>One route for a request\<close>

definition segmentsOverlap :: "segment \<Rightarrow> segment \<Rightarrow> bool" where
  "segmentsOverlap p q = (case (p, q) of
      (Lit a, Lit b) \<Rightarrow> a = b | (Lit a, Wild _) \<Rightarrow> a \<noteq> [] | (Wild _, Lit b) \<Rightarrow> b \<noteq> [] | (Wild _, Wild _) \<Rightarrow> True)"

definition routesOverlap :: "route \<Rightarrow> route \<Rightarrow> bool" where
  "routesOverlap p q = (fst p = fst q \<and> list_all2 segmentsOverlap (snd p) (snd q))"

lemma segment_overlap: "segmentMatches p s \<Longrightarrow> segmentMatches q s \<Longrightarrow> segmentsOverlap p q"
  by (auto simp: segmentMatches_def segmentsOverlap_def split: segment.splits)

lemma pathMatches_overlap: "pathMatches ps path \<Longrightarrow> pathMatches qs path \<Longrightarrow> list_all2 segmentsOverlap ps qs"
  by (auto simp: pathMatches_def list_all2_conv_all_nth) (metis segment_overlap)

lemma routeMatches_overlap:
  assumes "routeMatches head r p" and "routeMatches head r q"
    and "fst p \<noteq> OtherMethod" and "fst q \<noteq> OtherMethod"
  shows "routesOverlap p q"
  using assms pathMatches_overlap [of "snd p" "rq_path r" "snd q"]
  by (auto simp: routeMatches_def methodMatches_def routesOverlap_def)

definition unambiguous :: "(route \<times> 'e) list \<Rightarrow> bool" where
  "unambiguous table \<longleftrightarrow> list_all (\<lambda>p. fst (fst p) \<noteq> OtherMethod) table \<and>
     sorted_wrt (\<lambda>p q. \<not> routesOverlap (fst p) (fst q)) table"

lemma story_table_unambiguous: "unambiguous (routeTable SurfaceGizPay True)" "unambiguous (routeTable SurfaceGizWay True)"
  by code_simp+

lemma table_unambiguous: "unambiguous (routeTable surf advance)"
  using story_table_unambiguous by (cases surf; cases advance) (simp_all add: unambiguous_def routeTable_def)

lemma find_unambiguous:
  assumes "unambiguous table" and "p \<in> set table" and "routeMatches head r (fst p)"
  shows "find (\<lambda>p. routeMatches head r (fst p)) table = Some p"
  using assms(1,2)
proof (induction table)
  case (Cons q table)
  show ?case
  proof (cases "q = p")
    case True
    with assms(3) show ?thesis by simp
  next
    case False
    then have "p \<in> set table" using Cons.prems(2) by simp
    with Cons.prems(1) have "\<not> routesOverlap (fst q) (fst p)" "fst (fst q) \<noteq> OtherMethod" "fst (fst p) \<noteq> OtherMethod"
      by (auto simp: unambiguous_def list_all_iff)
    with routeMatches_overlap [of head r "fst q" "fst p"] assms(3) have "\<not> routeMatches head r (fst q)" by blast
    with Cons \<open>p \<in> set table\<close> show ?thesis by (simp add: unambiguous_def)
  qed
qed simp

subsection \<open>No request for two services\<close>

definition servedBy :: "surface \<Rightarrow> bool \<Rightarrow> http_request \<Rightarrow> bool" where
  "servedBy surf head r \<longleftrightarrow> surfaceAllows surf (rq_path r) \<and> list_ex (\<lambda>p. routeMatches head r (fst p)) (registerRoutes surf)"

text \<open>The first segment of a pattern, where another segment follows.\<close>

fun firstLiteral :: "segment list \<Rightarrow> string option" where
  "firstLiteral (Lit e # Lit l # _ # _) = (if e = [] then Some l else None)"
| "firstLiteral _ = None"

definition payFirst :: "string list" where
  "payFirst = [''account'', ''service'', ''webhooks'']"

definition wayFirst :: "string list" where
  "wayFirst = [''user'', ''openai'', ''anthropic'', ''genai'', ''auth'']"

lemma splitOn_prefix: "splitOn sep path = a # b # rest \<Longrightarrow> hasPrefix path (a @ [sep])"
  by (induction sep path arbitrary: a rule: splitOn.induct) (auto simp: hasPrefix_def split: if_splits list.splits)

lemma firstLiteral_prefix:
  assumes "pathMatches ps path" and "firstLiteral ps = Some l"
  shows "hasPrefix path (CHR ''/'' # l @ ''/'')"
proof -
  from assms(2) obtain s ps' where ps: "ps = Lit [] # Lit l # s # ps'"
    by (cases ps rule: firstLiteral.cases) (auto split: if_splits)
  with assms(1) obtain t ts where split: "splitOn (CHR ''/'') path = [] # l # t # ts"
    by (auto simp: pathMatches_def list_all2_Cons1 segmentMatches_def)
  then obtain rest where rest: "path = CHR ''/'' # rest"
    by (cases path) (auto split: if_splits list.splits)
  with split have "splitOn (CHR ''/'') rest = l # t # ts" by simp
  from splitOn_prefix [OF this] show ?thesis by (simp add: rest hasPrefix_def)
qed

lemma hasPrefix_take: "hasPrefix s p \<Longrightarrow> n \<le> length p \<Longrightarrow> take n s = take n p"
  unfolding hasPrefix_def by (drule arg_cong [where f = "take n"]) (simp add: min_absorb1)

lemma hasPrefix_clash:
  "hasPrefix s p \<Longrightarrow> hasPrefix s q \<Longrightarrow> take (min (length p) (length q)) p = take (min (length p) (length q)) q"
  using hasPrefix_take [of s p "min (length p) (length q)"] hasPrefix_take [of s q "min (length p) (length q)"] by simp

lemma foreign_refused:
  assumes "hasPrefix path (CHR ''/'' # l @ ''/'')"
  shows "l \<in> set payFirst \<Longrightarrow> \<not> surfaceAllows SurfaceGizWay path"
    and "l \<in> set wayFirst \<Longrightarrow> \<not> surfaceAllows SurfaceGizPay path"
proof -
  note clash = hasPrefix_clash [OF assms]
  have "path \<noteq> ''/healthz''"
  proof
    assume healthz: "path = ''/healthz''"
    from assms obtain t where "path = CHR ''/'' # l @ CHR ''/'' # t" by (auto simp: hasPrefix_split)
    then have "l @ CHR ''/'' # t = ''healthz''" by (simp add: healthz)
    then have "CHR ''/'' \<in> set ''healthz''" by (metis in_set_conv_decomp)
    then show False by simp
  qed
  then show "l \<in> set payFirst \<Longrightarrow> \<not> surfaceAllows SurfaceGizWay path"
    "l \<in> set wayFirst \<Longrightarrow> \<not> surfaceAllows SurfaceGizPay path"
    by (auto simp: payFirst_def wayFirst_def surfaceAllows_def dest!: clash)
qed

definition disjointTables :: "(route \<times> 'e) list \<Rightarrow> (route \<times> 'e) list \<Rightarrow> bool" where
  "disjointTables t u = list_all (\<lambda>p. list_all (\<lambda>q. routesOverlap (fst p) (fst q) \<longrightarrow>
     (case firstLiteral (snd (fst p)) of None \<Rightarrow> False | Some l \<Rightarrow> l \<in> set payFirst \<or> l \<in> set wayFirst)) u) t"

lemma tables_disjoint: "disjointTables (registerRoutes SurfaceGizPay) (registerRoutes SurfaceGizWay)"
  by code_simp

text \<open>C40: No request reaches the business handlers of both services: whatever GizPay's server hands to its
  handler, GizWay's server refuses or does not route, and the other way round.\<close>

theorem surfaces_disjoint: "\<not> (servedBy SurfaceGizPay head r \<and> servedBy SurfaceGizWay head r)"
proof
  assume both: "servedBy SurfaceGizPay head r \<and> servedBy SurfaceGizWay head r"
  then obtain p q where p: "p \<in> set (registerRoutes SurfaceGizPay)" "routeMatches head r (fst p)"
    and q: "q \<in> set (registerRoutes SurfaceGizWay)" "routeMatches head r (fst q)"
    by (auto simp: servedBy_def list_ex_iff)
  have "fst (fst p) \<noteq> OtherMethod" "fst (fst q) \<noteq> OtherMethod"
    using table_unambiguous [of SurfaceGizPay True] table_unambiguous [of SurfaceGizWay True] p(1) q(1)
    by (auto simp: unambiguous_def routeTable_def list_all_iff)
  then have "routesOverlap (fst p) (fst q)" using routeMatches_overlap p(2) q(2) by blast
  with tables_disjoint p(1) q(1) obtain l where l: "firstLiteral (snd (fst p)) = Some l" "l \<in> set payFirst \<or> l \<in> set wayFirst"
    by (fastforce simp: disjointTables_def list_all_iff split: option.splits)
  have "hasPrefix (rq_path r) (CHR ''/'' # l @ ''/'')"
    using p(2) l(1) by (intro firstLiteral_prefix) (auto simp: routeMatches_def)
  with foreign_refused l(2) both show False by (auto simp: servedBy_def)
qed

text \<open>The request of GizWay for a charge, through the middleware and the route table to its handler.\<close>

lemma serveMux_routed:
  assumes "(route, e) \<in> set (routeTable surf advance)" and "routeMatches head r route"
  shows "serveMux (routeTable surf advance) serve head r =
    serve e (r\<lparr>path_value := captured (snd route) (splitOn (CHR ''/'') (rq_path r))\<rparr>)"
  using find_unambiguous [OF table_unambiguous assms(1), of head r] assms(2) by (simp add: serveMux_def)

lemma charge_route: "(parseRoute ''GET /service/v1/payg-charges/{external_order_id}'', Business) \<in> set (routeTable SurfaceGizPay advance)"
  by (simp add: routeTable_def registerRoutes_def sharedRoutes_def isGemini_def hasPrefix_def Let_def)

lemma charge_lookup_routed:
  assumes "rq_method r = GET" and "rq_path r = ''/service/v1/payg-charges/'' @ x" and "x \<noteq> []" and "CHR ''/'' \<notin> set x"
    and "as_surface srv = SurfaceGizPay" and "as_business srv = Some (servePay cfg env hook dec)"
  shows "\<exists>r'. serverHandler srv False r = serveService cfg env dec r' \<and> path_value r' ''external_order_id'' = x \<and>
    rq_header r' = rq_header r \<and> rq_path r' = rq_path r"
proof -
  have segments: "splitOn (CHR ''/'') (rq_path r) = [[], ''service'', ''v1'', ''payg-charges'', x]"
    using assms(2,4) by (simp add: splitOn_no_sep)
  have route: "parseRoute ''GET /service/v1/payg-charges/{external_order_id}'' =
      (GET, [Lit [], Lit ''service'', Lit ''v1'', Lit ''payg-charges'', Wild ''external_order_id''])"
    by code_simp
  have "routeMatches False r (parseRoute ''GET /service/v1/payg-charges/{external_order_id}'')"
    by (simp add: route routeMatches_def methodMatches_def pathMatches_def segments segmentMatches_def assms(1,3))
  note mux = serveMux_routed [OF charge_route this, unfolded route segments snd_conv]
  let ?r = "r\<lparr>path_value := captured [Lit [], Lit ''service'', Lit ''v1'', Lit ''payg-charges'', Wild ''external_order_id'']
     [[], ''service'', ''v1'', ''payg-charges'', x]\<rparr>"
  have "servePay cfg env hook dec ?r = serveService cfg env dec ?r"
    by (simp add: servePay_def assms(1,2) hasPrefix_def)
  moreover have "surfaceAllows SurfaceGizPay (rq_path r)"
    by (simp add: surfaceAllows_def assms(2) hasPrefix_def)
  ultimately have "serverHandler srv False r = serveService cfg env dec ?r"
    unfolding serverHandler_def surfaceHandler_def assms(5) mux by (simp add: serveEndpoint_def runBusiness_def assms(6))
  then show ?thesis by (intro exI [of _ ?r]) simp
qed

end
