(* ===== verification/Commands.thy ===== *)
theory Commands
  imports Initialization Server
begin

section \<open>The commands\<close>

text \<open>
  \<open>cmd/gizpay/main.go\<close> and \<open>cmd/gizway/main.go\<close>, which differ in the kind only, and the server that \<open>RunProcess\<close>
  builds for GizPay. The \<open>flag\<close> package is a parameter: the flags that it makes of the arguments, or an error.
\<close>

subsection \<open>Serve and init\<close>

record serve_flags =
  sf_config :: string
  sf_server_name :: string
  sf_check :: bool
  sf_print :: string

datatype 'a outcome = CommandFailed | Finished | Printed | Running 'a

definition runServe ::
  "process_env \<Rightarrow> (string \<Rightarrow> string + process_config) \<Rightarrow> (string list \<Rightarrow> serve_flags option) \<Rightarrow> process_kind \<Rightarrow>
     string list \<Rightarrow> process_config outcome" where
  "runServe env load parse kind args =
     (case parse args of
        None \<Rightarrow> CommandFailed
      | Some flags \<Rightarrow>
          (case load (sf_config flags) of
             Inl e \<Rightarrow> CommandFailed
           | Inr loaded \<Rightarrow>
               let c = (if sf_server_name flags \<noteq> [] then loaded\<lparr>pc_name := sf_server_name flags\<rparr> else loaded) in
               (case validateProcessConfig env c kind of
                  Some e \<Rightarrow> CommandFailed
                | None \<Rightarrow>
                    if sf_print flags \<noteq> [] then (if sf_print flags \<noteq> ''json'' then CommandFailed else Printed)
                    else if sf_check flags then Finished
                    else Running c)))"

text \<open>\<open>parse\<close> gives the path and the number of positional arguments; \<open>job\<close> is \<open>RunInitialization\<close>.\<close>

definition runInit ::
  "(string \<Rightarrow> string + init_config) \<Rightarrow> (string list \<Rightarrow> (string \<times> nat) option) \<Rightarrow>
     (init_config \<Rightarrow> ('d fleet, sqlerr + unit) act) \<Rightarrow> string list \<Rightarrow> ('d fleet, sqlerr + unit) act" where
  "runInit load parse job args =
     (case parse args of
        None \<Rightarrow> refuse
      | Some (path, positional) \<Rightarrow>
          if positional \<noteq> 0 then refuse
          else (case load path of Inl e \<Rightarrow> refuse | Inr c \<Rightarrow> job c))"

datatype 'd command = ServeProcess "process_config outcome" | InitJob "('d fleet, sqlerr + unit) act" | NoCommand

definition runCommand ::
  "(string list \<Rightarrow> process_config outcome) \<Rightarrow> (string list \<Rightarrow> ('d fleet, sqlerr + unit) act) \<Rightarrow> string list \<Rightarrow> 'd command" where
  "runCommand serve init args =
     (case args of
        [] \<Rightarrow> NoCommand
      | command # rest \<Rightarrow>
          if command = ''serve'' then ServeProcess (serve rest)
          else if command = ''init'' then InitJob (init rest)
          else NoCommand)"

text \<open>What runs has been validated, with the server name that it runs under; \<open>-check-config\<close> agrees with it.\<close>

lemma running_validated: "runServe env load parse kind args = Running c \<Longrightarrow> validateProcessConfig env c kind = None"
  by (auto simp: runServe_def Let_def split: option.splits sum.splits if_splits)

lemma check_agrees:
  assumes "parse args = Some f" and "parse' args = Some (f\<lparr>sf_check := True\<rparr>)"
  shows "runServe env load parse' kind args = Finished \<longleftrightarrow>
    (\<exists>c. runServe env load parse kind args = Running c) \<or> sf_check f \<and> runServe env load parse kind args = Finished"
  using assms by (auto simp: runServe_def Let_def split: option.splits sum.splits if_splits)

subsection \<open>The clock of the test servers\<close>

text \<open>
  The state of the process is the database and the story clock. GizPay's handler keeps \<open>time.Now\<close>, the \<open>now\<close>
  of the database's world; the clock is the server's.
\<close>

definition onWorld :: "('w, 'a) act \<Rightarrow> ('w \<times> time, 'a) act" where
  "onWorld m s = (case m (fst s) of (x, w) \<Rightarrow> (x, (w, snd s)))"

definition payServer ::
  "process_config \<Rightarrow> build_info \<Rightarrow> pay_config \<Rightarrow> pay_deps \<Rightarrow> webhook_deps \<Rightarrow> pay_decoders \<Rightarrow> (string \<Rightarrow> duration option) \<Rightarrow>
     (string \<Rightarrow> (string \<times> int) option) \<Rightarrow> (pay_world \<times> time) api_server" where
  "payServer c build cfg env hook dec parse decode =
     newMilestone03 SurfaceGizPay build (Some (\<lambda>r. onWorld (servePay cfg env hook dec r)))
       (if storyClock c then Some (\<lambda>d s. (fst s, advanceClock d (snd s))) else None)
       (\<lambda>s. now (fst s)) parse decode"

text \<open>Advancing the clock of a test server changes nothing that GizPay's handlers see.\<close>

lemma story_clock_not_read:
  "fst (snd (advanceStoryClock (payServer c build cfg env hook dec parse decode) r s)) = fst s"
  by (simp add: advanceStoryClock_def payServer_def newMilestone03_def ret_def split: option.splits if_splits prod.splits)

text \<open>Another server has no such route.\<close>

lemma clock_test_only:
  assumes "\<not> storyClock c" and "((m, path), AdvanceClock) \<in> set (routeTable surf (as_advance
    (payServer c build cfg env hook dec parse decode) \<noteq> None))"
  shows False
  using assms by (auto simp: payServer_def newMilestone03_def routeTable_def registerRoutes_def Let_def split: if_splits)

end
