(* ===== verification/Spec2Isabelle.thy ===== *)
theory Spec2Isabelle
  imports Billing CreditLink WayExamples BifrostCalls BifrostStore Commands
begin

text \<open>
  GizWay is two Go services over PostgreSQL. GizPay (\<open>internal/gizpay\<close>) keeps users, accounts,
  merchants, products, subscriptions and a double-entry ledger, and charges an account once per
  external order. GizWay (\<open>internal/gizway\<close>) is a regional AI gateway: it looks up providers,
  keys and prices in its own database and in the Config Store of Bifrost, forwards the call,
  rates it, writes an order with an outbox row, and a worker sends the row to GizPay as a charge.
  Both write \<open>client_sync\<close> tables that PowerSync replicates to the clients. The development is a
  shallow embedding of these services: one HOL function per Go function, in the order of the
  source, run against the tables of the migrations.

  \<^bold>\<open>How code becomes a definition.\<close> A handler is an action \<open>('s, response) act\<close> of theory
  \<open>Effects\<close>: a function of the world, which has the committed database, the working copy of an
  open transaction, a list that decides which SQL statements and commits fail, the random
  identifiers and the clock. \<open>bnd\<close> is sequencing with Go's early return (a written response ends
  the handler), \<open>tx_exec\<close> and \<open>db_exec\<close> run a statement in the transaction or on its own,
  \<open>orReply\<close>/\<open>require\<close> are the \<open>if err != nil\<close> and \<open>if !cond\<close> exits. A table is the list of its
  rows (theory \<open>Tables\<close>); an \<open>INSERT\<close> checks the \<open>CHECK\<close>, foreign-key and \<open>UNIQUE\<close> constraints of
  the migration. A Go \<open>int64\<close> is an \<open>int\<close> with \<open>wrap64\<close> at every operation that may overflow, or a
  \<open>64 word\<close> where the code uses \<open>math/bits\<close>. A body is \<open>None\<close> when \<open>decode\<close> returns an error.

  \<^bold>\<open>Theories.\<close>
  \<^item> \<open>Prelude\<close>: \<open>int64\<close>, time, package \<open>strings\<close>, JSON, responses. \<open>Effects\<close>: actions, weakest
    preconditions (\<open>wp\<close>, \<open>wlp\<close>), the collections \<open>wp_simps\<close> and friends. \<open>Tables\<close>: SQL statements
    on lists, locale \<open>keyed_insert\<close>. \<open>Idempotent\<close>: locale \<open>idempotent_create\<close>, the contract of a
    creation under the client's identifier. \<open>Evolution\<close>: locale \<open>evolution\<close>, relations between
    databases that every statement, hence every handler, goes along.
  \<^item> \<open>PayStore\<close>: the schema of GizPay. \<open>PayLedger\<close>: \<open>platformFee\<close>, \<open>postLedger\<close>. \<open>PayCharge\<close>:
    \<open>createCharge\<close>, \<open>validateOrderMetadata\<close>, \<open>getCharge\<close>, \<open>listAccountCharges\<close>. \<open>PayTopup\<close>:
    \<open>accountTopups\<close>. \<open>PayIdentity\<close>: the ZITADEL webhook and \<open>initializeIdentity\<close>. \<open>PayCatalog\<close>:
    service accounts, merchants, products, subscriptions. \<open>PayKeys\<close>: subscription keys and the
    credit check. \<open>PayAdmin\<close>: \<open>internal/gizpay/admin.go\<close>. \<open>PayRoutes\<close>: \<open>ServeHTTP\<close> and the surface
    filter of \<open>internal/api/server.go\<close>. \<open>PayHistory\<close>: what every request of GizPay preserves.
    \<open>PayExamples\<close>: a small deployment on which the witnesses run.
  \<^item> \<open>WayRating\<close>: rating, price comparison, price lists. \<open>WayStore\<close>: the schema of GizWay and the
    transactions on the Config Store (\<open>internal/adapter/bifrost/store.go\<close>). \<open>WayOutbox\<close>,
    \<open>WayComplete\<close>: \<open>completeCall\<close> and the outbox statements. \<open>WayReport\<close>: \<open>reportOutbox\<close> and the
    worker against a remote GizPay, locale \<open>charge_server\<close>. \<open>WayAdmin\<close>: \<open>internal/gizway/admin.go\<close>.
    \<open>WayKeys\<close>: provider keys of users, the \<open>/auth\<close> endpoints, \<open>ServeHTTP\<close>. \<open>WaySync\<close>: the
    synchronised provider keys follow the billing rows in every run of a region.
  \<^item> \<open>WayCredit\<close>: \<open>admit\<close>, \<open>checkCredit\<close> and the cached credit. \<open>WayFlight\<close>: concurrent requests as a step
    relation, one step per critical section. \<open>CreditLink\<close>: \<open>checkCredit\<close> composed with GizPay's
    \<open>creditCheck\<close>. \<open>WayProtocol\<close>: the pure part of the protocols (paths, keys, bodies, responses).
    \<open>WayGateway\<close>: \<open>resolveCall\<close>, \<open>chat\<close>, \<open>streamChat\<close> and their bills. \<open>WayRealtime\<close>: realtime secrets,
    the socket and \<open>protocol\<close>. \<open>Courses\<close>: locale \<open>course\<close>, relations between whole states that every
    action goes along. \<open>WayTraffic\<close>, \<open>WayResolve\<close>, \<open>WayAccess\<close>: what calls bill, what a resolved call
    is made of, who reaches a provider. \<open>WayExamples\<close>: a small region for the witnesses.
  \<^item> \<open>BifrostClients\<close>: the client cache of \<open>internal/adapter/bifrost/adapter.go\<close>. \<open>BifrostPool\<close>: the life
    of its clients, over runs of acquisitions and releases. \<open>BifrostKeys\<close>: whose keys serve a call.
    \<open>BifrostCalls\<close>: the calls through the adapter, and their composition with \<open>resolveCall\<close>.
    \<open>BifrostStore\<close>: the rest of \<open>store.go\<close>, that is, opening the stores, the records, the execution log.
  \<^item> \<open>Verifier\<close>: \<open>internal/identity/verifier.go\<close>. \<open>Tokens\<close>: \<open>internal/catalogtoken/manager.go\<close>,
    \<open>machine_token.go\<close> and \<open>zitadel_management.go\<close> of \<open>internal/identity\<close>. \<open>ProcessConfig\<close>:
    \<open>internal/app/process_config.go\<close>, the validation and the settings of both processes.
  \<^item> \<open>Storage\<close>: \<open>internal/storage/storage.go\<close>, the migrations and GizPay's system rows. \<open>Initialization\<close>:
    \<open>internal/app/init.go\<close> and \<open>init_config.go\<close>, the job on the database servers, against a
    specification of what they are afterwards. \<open>Server\<close>: \<open>internal/api\<close>, the route table and the matching of
    \<open>ServeMux\<close>. \<open>Commands\<close>: \<open>cmd/gizpay\<close>, \<open>cmd/gizway\<close> and GizPay's server.
  \<^item> \<open>Billing\<close>: the two services together. It interprets \<open>charge_server\<close> on the model of
    \<open>createCharge\<close> and \<open>getCharge\<close>, and runs customers, workers, crashes and GizPay's other requests
    in any order.

  \<^bold>\<open>What is shown.\<close> Per handler: what a success has done (all rows, all amounts), that any other
  answer has done nothing, which statement fails when. Per table: keys stay unique. Per service:
  the ledger balances in every reachable state and nothing posted is undone. Across the services:
  an order that GizWay calls charged has been charged by GizPay with exactly its amount, as long as
  nobody forges GizPay's answers, and an external order is never charged twice; a run in which an error
  status stands for a charge that was made ends in disagreement. At the gateway: one credit check per key at a time and no
  waiting request stuck, a quota that is exact on 64-bit amounts, no provider call without credit, a
  bill, drawn from the credit and recorded unless the database fails, for every answered call (and the
  header with which clients escape it), the cheapest usable keys for a model, a secret that opens one
  socket. At the adapter: a client is never shut down under a call and never leaked, and whatever key
  Bifrost selects is a stored key of the call's provider, with the merchant of its billing row. For the identities: a bearer token is
  accepted only with a recently published key and grants exactly the roles of its own claims, a catalogue
  token is validated and replaced before it expires, the refresh loop ends when it is closed unless its
  \<open>select\<close> prefers the timer for ever. Around the
  services: a validated configuration gives settings in the ranges that the handlers need and a token
  that GizPay authorises, migrations run once each and in order or not at all, the initialization job
  achieves its specification and can be repeated, no request is for both services.

  \<^bold>\<open>Assumptions and parameters.\<close> A failed statement or commit has no effect; a commit whose
  acknowledgement is lost is a delivery \<open>Replaced 500\<close> of theory \<open>WayReport\<close>. Requests to a database
  run one after another: a transaction reads what the previous one committed. Most code that reads before
  it writes takes an advisory or a row lock or relies on a unique constraint; the users'
  \<open>putProviderKeyPrices\<close> does not, and lemma \<open>concurrent_puts\<close> of \<open>WaySync\<close> shows two such requests at
  once whose synchronised prices lack stored ones. Code that is not in the repository is a parameter: Bifrost's Config
  Store (\<open>config_api\<close>), \<open>encoding/json\<close> (\<open>pay_decoders\<close>, \<open>way_admin_decoders\<close>, \<open>jsonSize\<close>), HMAC and
  \<open>uuid.Parse\<close> (\<open>webhook_deps\<close>), the identity provider, the hash of a subscription key; of SHA-256, that it has no collisions. The outbox
  payload is kept as the request that it encodes. Bifrost, the credit check's HTTP call and the token
  for it are answers by the number of the call (\<open>gateway_env\<close>); what other requests do to the credit
  cache while one waits or checks is a list of functions, and \<open>WayFlight\<close> drops this assumption for
  the cache itself. A stream is the list of its chunks, a socket the list of its turns. A panic is the
  response \<open>aborted\<close>. Text is ordered in byte order. No recursion of
  the model needs fuel: every loop of the code runs over a list. Of the identity and start-up code the
  JWT library, the JWKS and token endpoints, RSA and PEM, \<open>time.ParseDuration\<close>, \<open>net/url\<close>, YAML, the
  \<open>flag\<close> package and the file system are parameters; so is what a migration script does to the contents
  of a database. The statements of the initialization job have the effect that PostgreSQL documents.

  \<^bold>\<open>Not modelled.\<close> The loop that serves connections with its signals, TLS and log set-up, the redaction
  of secrets in messages (regular expressions over URLs), generated code, tests and tooling, and the
  packages that nothing uses (\<open>timetext\<close>, \<open>clock.go\<close>). Of the route table, the redirect of unclean paths
  and segments with an encoded slash. Of the realtime socket, what the client sends to the
  provider; of responses, headers and the text of events.
\<close>

end
